(* ===== verification/Prelude.thy ===== *)
theory Prelude
  imports Main "HOL-Library.Word" "HOL-Library.AList"
begin

text \<open>
  Shared vocabulary of the development: the Go string functions the program calls (a Go string is
  the list of its bytes, a HOL \<open>string\<close>), label maps as association lists with distinct keys, and
  the collections of facts the component theories rest on.

  \<open>strings.ToLower\<close>, \<open>strings.ToUpper\<close>, \<open>strings.TrimSpace\<close> and \<open>strings.Fields\<close> are modelled
  on ASCII text: a byte of 128 and above is left as it is and is not white space.
\<close>

named_theorems go_str \<open>unfolding of the Go string functions on given text\<close>
named_theorems inv_intros \<open>an operation keeps its component's invariant\<close>

type_synonym time = int  \<comment> \<open>nanoseconds since the epoch\<close>
type_synonym labels = "(string \<times> string) list"  \<comment> \<open>map[string]string\<close>

text \<open>A Go function that returns a value or an error: \<open>Inl\<close> the error's text, \<open>Inr\<close> the value.\<close>

type_synonym 'a result = "string + 'a"

section \<open>Characters\<close>

definition code_of :: "char \<Rightarrow> int" where
  "code_of c = of_char c"

definition is_upper :: "char \<Rightarrow> bool" where
  "is_upper c = (65 \<le> code_of c \<and> code_of c \<le> 90)"

definition is_lower :: "char \<Rightarrow> bool" where
  "is_lower c = (97 \<le> code_of c \<and> code_of c \<le> 122)"

definition is_digit :: "char \<Rightarrow> bool" where
  "is_digit c = (48 \<le> code_of c \<and> code_of c \<le> 57)"

definition digit_val :: "char \<Rightarrow> int" where
  "digit_val c = code_of c - 48"

text \<open>The ASCII white space of Go's \<open>unicode.IsSpace\<close>: TAB, LF, VT, FF, CR and blank.\<close>

definition is_space :: "char \<Rightarrow> bool" where
  "is_space c = (code_of c = 32 \<or> (9 \<le> code_of c \<and> code_of c \<le> 13))"

definition lower_char :: "char \<Rightarrow> char" where
  "lower_char c = (if is_upper c then char_of (code_of c + 32) else c)"

definition upper_char :: "char \<Rightarrow> char" where
  "upper_char c = (if is_lower c then char_of (code_of c - 32) else c)"

lemma code_of_bounds: "0 \<le> code_of c" "code_of c < 256"
  unfolding code_of_def using of_char_mod_256 [of c, where ?'a = int]
  by (metis pos_mod_sign zero_less_numeral, metis pos_mod_bound zero_less_numeral)

lemma code_of_char_of [simp]: "0 \<le> n \<Longrightarrow> n < 256 \<Longrightarrow> code_of (char_of n) = n"
  unfolding code_of_def by simp

lemma lower_char_idem [simp]: "lower_char (lower_char c) = lower_char c"
  unfolding lower_char_def is_upper_def by auto

lemma is_space_lower_char [simp]: "is_space (lower_char c) = is_space c"
  unfolding lower_char_def is_upper_def is_space_def by auto

section \<open>The functions of package strings\<close>

definition toLower :: "string \<Rightarrow> string" where
  "toLower s = map lower_char s"

definition toUpper :: "string \<Rightarrow> string" where
  "toUpper s = map upper_char s"

definition trimLeft :: "(char \<Rightarrow> bool) \<Rightarrow> string \<Rightarrow> string" where
  "trimLeft p s = dropWhile p s"

definition trimRight :: "(char \<Rightarrow> bool) \<Rightarrow> string \<Rightarrow> string" where
  "trimRight p s = rev (dropWhile p (rev s))"

definition trimSpace :: "string \<Rightarrow> string" where
  "trimSpace s = trimRight is_space (trimLeft is_space s)"

fun hasPrefix :: "string \<Rightarrow> string \<Rightarrow> bool" where
  "hasPrefix s [] = True"
| "hasPrefix [] (p # ps) = False"
| "hasPrefix (c # s) (p # ps) = (c = p \<and> hasPrefix s ps)"

definition hasSuffix :: "string \<Rightarrow> string \<Rightarrow> bool" where
  "hasSuffix s p = hasPrefix (rev s) (rev p)"

fun contains :: "string \<Rightarrow> string \<Rightarrow> bool" where
  "contains [] p = (p = [])"
| "contains (c # s) p = (hasPrefix (c # s) p \<or> contains s p)"

text \<open>\<open>strings.Split(s, sep)\<close> for a separator of one byte, and \<open>strings.SplitN(s, sep, 2)\<close>.\<close>

fun splitOn :: "char \<Rightarrow> string \<Rightarrow> string list" where
  "splitOn c [] = [[]]"
| "splitOn c (x # xs) = (if x = c then [] # splitOn c xs
     else (case splitOn c xs of [] \<Rightarrow> [[x]] | y # ys \<Rightarrow> (x # y) # ys))"

definition splitN2 :: "char \<Rightarrow> string \<Rightarrow> string list" where
  "splitN2 c s = (if c \<in> set s
     then [takeWhile (\<lambda>x. x \<noteq> c) s, tl (dropWhile (\<lambda>x. x \<noteq> c) s)] else [s])"

fun joinWith :: "string \<Rightarrow> string list \<Rightarrow> string" where
  "joinWith sep [] = []"
| "joinWith sep [x] = x"
| "joinWith sep (x # y # ys) = x @ sep @ joinWith sep (y # ys)"

text \<open>\<open>strings.Fields\<close>: the maximal runs of characters that are not white space.\<close>

fun fieldsAcc :: "string \<Rightarrow> string \<Rightarrow> string list" where
  "fieldsAcc acc [] = (if acc = [] then [] else [rev acc])"
| "fieldsAcc acc (c # s) = (if is_space c
     then (if acc = [] then fieldsAcc [] s else rev acc # fieldsAcc [] s)
     else fieldsAcc (c # acc) s)"

definition strFields :: "string \<Rightarrow> string list" where
  "strFields s = fieldsAcc [] s"

text \<open>
  \<open>bufio.Scanner\<close> with its default line splitter and 64 KiB token limit: the lines of the text
  without the newline and one carriage return before it; no line after a final newline; the scan
  ends, with the loop's \<open>scanner.Scan()\<close> false, at a line that does not fit in the buffer.
\<close>

definition newline :: char where "newline = CHR 0x0A"
definition creturn :: char where "creturn = CHR 0x0D"

definition dropCR :: "string \<Rightarrow> string" where
  "dropCR l = (if l \<noteq> [] \<and> last l = creturn then butlast l else l)"

definition rawLines :: "string \<Rightarrow> string list" where
  "rawLines s = (let ls = splitOn newline s in if last ls = [] then butlast ls else ls)"

definition scanLines :: "string \<Rightarrow> string list" where
  "scanLines s = map dropCR (takeWhile (\<lambda>l. int (length l) \<le> 65535) (rawLines s))"

section \<open>Decimal text\<close>

function natDigits :: "int \<Rightarrow> string" where
  "natDigits n = (if n < 10 then [char_of (48 + n)]
     else natDigits (n div 10) @ [char_of (48 + n mod 10)])"
  by pat_completeness auto

termination natDigits
  by (relation "measure nat") auto

declare natDigits.simps [simp del]

definition itoa :: "int \<Rightarrow> string" where
  "itoa i = (if i < 0 then ''-'' @ natDigits (- i) else natDigits i)"

fun digitsVal :: "int \<Rightarrow> string \<Rightarrow> int option" where
  "digitsVal acc [] = Some acc"
| "digitsVal acc (c # s) = (if is_digit c then digitsVal (acc * 10 + digit_val c) s else None)"

section \<open>Laws of the string functions\<close>

lemma hasPrefix_iff: "hasPrefix s p = (\<exists>t. s = p @ t)"
  by (induction s p rule: hasPrefix.induct) auto

lemma contains_iff: "contains s p = (\<exists>a b. s = a @ p @ b)"
proof (induction s)
  case (Cons c s)
  show ?case
  proof
    assume "contains (c # s) p"
    then consider t where "c # s = p @ t" | a b where "s = a @ p @ b"
      using Cons by (auto simp: hasPrefix_iff)
    then show "\<exists>a b. c # s = a @ p @ b"
    proof cases
      case (1 t)
      then show ?thesis by (metis append_Nil)
    next
      case (2 a b)
      then show ?thesis by (metis append_Cons)
    qed
  next
    assume "\<exists>a b. c # s = a @ p @ b"
    then obtain a b where "c # s = a @ p @ b" by blast
    then have "hasPrefix (c # s) p \<or> (\<exists>a b. s = a @ p @ b)"
      by (cases a) (auto simp: hasPrefix_iff)
    then show "contains (c # s) p" using Cons by simp
  qed
qed auto

lemma contains_infix [intro]: "contains (a @ p @ b) p"
  unfolding contains_iff by blast

lemma toLower_idem [simp]: "toLower (toLower s) = toLower s"
  unfolding toLower_def by simp

lemma toLower_append [simp]: "toLower (a @ b) = toLower a @ toLower b"
  unfolding toLower_def by simp

lemma length_toLower [simp]: "length (toLower s) = length s"
  unfolding toLower_def by simp

lemma splitOn_nonempty [simp]: "splitOn c s \<noteq> []"
  by (induction s) (auto split: list.split)

lemma splitOn_free: "c \<notin> set s \<Longrightarrow> splitOn c s = [s]"
  by (induction s) auto

lemma splitOn_append: "c \<notin> set s \<Longrightarrow> splitOn c (s @ c # t) = s # splitOn c t"
  by (induction s) auto

lemma splitOn_pieces: "x \<in> set (splitOn c s) \<Longrightarrow> c \<notin> set x"
  by (induction s arbitrary: x) (auto split: list.splits if_splits)

lemma length_splitOn: "length (splitOn c s) = count_list s c + 1"
  by (induction s) (auto split: list.splits)

lemma joinWith_splitOn: "joinWith [c] (splitOn c s) = s"
proof (induction s)
  case (Cons x s)
  then show ?case
    by (cases "splitOn c s"; cases "tl (splitOn c s)") auto
qed simp

lemma splitN2_pair: "c \<notin> set k \<Longrightarrow> splitN2 c (k @ c # v) = [k, v]"
  unfolding splitN2_def by (simp add: takeWhile_append dropWhile_append)

text \<open>Text without white space at either end.\<close>

definition trimmed :: "string \<Rightarrow> bool" where
  "trimmed s = (s = [] \<or> (\<not> is_space (hd s) \<and> \<not> is_space (last s)))"

lemma dropWhile_all_append: "list_all p a \<Longrightarrow> dropWhile p (a @ b) = dropWhile p b"
  by (induction a) auto

lemma trimSpace_pad:
  assumes "list_all is_space a" "list_all is_space b" "trimmed s"
  shows "trimSpace (a @ s @ b) = s"
proof (cases s)
  case Nil
  with assms have "list_all is_space (a @ b)" by simp
  then have e: "dropWhile is_space (a @ b) = []"
    by (simp only: dropWhile_eq_Nil_conv list_all_iff)
  show ?thesis
    unfolding trimSpace_def trimLeft_def trimRight_def Nil append_Nil e by simp
next
  case (Cons c r)
  have l: "dropWhile is_space (s @ b) = s @ b"
    using assms(3) Cons unfolding trimmed_def by simp
  have "\<not> is_space (last s)" using assms(3) Cons unfolding trimmed_def by simp
  moreover have "rev s \<noteq> []" "hd (rev s) = last s" using Cons by (simp_all add: hd_rev)
  ultimately have "dropWhile is_space (rev s) = rev s"
    by (simp add: dropWhile_eq_self_iff)
  moreover have "list_all is_space (rev b)" using assms(2) by (simp add: list_all_iff)
  ultimately show ?thesis
    unfolding trimSpace_def trimLeft_def trimRight_def
    by (simp add: dropWhile_all_append assms(1) l)
qed

lemma trimSpace_trimmed: "trimmed s \<Longrightarrow> trimSpace s = s"
  using trimSpace_pad [of "[]" "[]" s] by simp

lemma trimmed_trimSpace: "trimmed (trimSpace s)"
proof -
  define t where "t = dropWhile is_space s"
  define u where "u = rev (dropWhile is_space (rev t))"
  have "hd t = hd u" "u \<noteq> [] \<Longrightarrow> t \<noteq> []" if "u \<noteq> []"
  proof -
    obtain w where "rev t = w @ dropWhile is_space (rev t)"
      by (metis takeWhile_dropWhile_id)
    then have "t = u @ rev w" unfolding u_def by (metis rev_append rev_rev_ident)
    with that show "hd t = hd u" "u \<noteq> [] \<Longrightarrow> t \<noteq> []" by auto
  qed
  moreover have "t \<noteq> [] \<Longrightarrow> \<not> is_space (hd t)" unfolding t_def by (rule hd_dropWhile) simp
  moreover have "u \<noteq> [] \<Longrightarrow> \<not> is_space (last u)"
    unfolding u_def by (simp add: last_rev hd_dropWhile)
  ultimately show ?thesis
    unfolding trimSpace_def trimLeft_def trimRight_def trimmed_def
    by (fold t_def, fold u_def) auto
qed

lemma trimSpace_idem [simp]: "trimSpace (trimSpace s) = trimSpace s"
  by (rule trimSpace_trimmed [OF trimmed_trimSpace])

lemma trimSpace_nonempty:
  assumes "x \<in> set s" "\<not> is_space x" shows "trimSpace s \<noteq> []"
proof
  assume "trimSpace s = []"
  then have "\<forall>y \<in> set (dropWhile is_space s). is_space y"
    unfolding trimSpace_def trimLeft_def trimRight_def by simp
  then have "dropWhile is_space s = []" by (metis hd_dropWhile hd_in_set)
  with assms show False by (simp only: dropWhile_eq_Nil_conv) blast
qed

lemma trimSpace_sub: "set (trimSpace s) \<subseteq> set s"
  unfolding trimSpace_def trimLeft_def trimRight_def
  by (metis rev_rev_ident set_dropWhileD set_rev subsetI)

section \<open>Lines\<close>

definition unlines :: "string list \<Rightarrow> string" where
  "unlines ls = concat (map (\<lambda>l. l @ [newline]) ls)"

definition line_ok :: "string \<Rightarrow> bool" where
  "line_ok l = (newline \<notin> set l \<and> int (length l) \<le> 65535 \<and> (l = [] \<or> last l \<noteq> creturn))"

lemma splitOn_unlines:
  "\<forall>l \<in> set ls. newline \<notin> set l \<Longrightarrow> splitOn newline (unlines ls) = ls @ [[]]"
  unfolding unlines_def by (induction ls) (auto simp: splitOn_append)

lemma scanLines_unlines:
  assumes "\<forall>l \<in> set ls. line_ok l" shows "scanLines (unlines ls) = ls"
proof -
  have "rawLines (unlines ls) = ls"
    using assms unfolding rawLines_def line_ok_def by (simp add: splitOn_unlines Let_def)
  moreover have "takeWhile (\<lambda>l. int (length l) \<le> 65535) ls = ls"
    using assms unfolding line_ok_def by (simp only: takeWhile_eq_all_conv) simp
  moreover have "map dropCR ls = ls"
    using assms unfolding line_ok_def dropCR_def by (induction ls) auto
  ultimately show ?thesis unfolding scanLines_def by (simp only:)
qed

lemma scanLines_no_newline: "l \<in> set (scanLines s) \<Longrightarrow> newline \<notin> set l"
proof -
  assume "l \<in> set (scanLines s)"
  then obtain r where r: "r \<in> set (rawLines s)" "l = dropCR r"
    unfolding scanLines_def by (auto dest: set_takeWhileD)
  then have "r \<in> set (splitOn newline s)"
    unfolding rawLines_def by (auto simp: Let_def split: if_splits dest: in_set_butlastD)
  then have "newline \<notin> set r" by (rule splitOn_pieces)
  with r(2) show ?thesis unfolding dropCR_def by (auto split: if_splits dest: in_set_butlastD)
qed

section \<open>Association lists and folds\<close>

lemma enumerate_map_snd: "map snd (enumerate n xs) = xs"
  by (rule map_snd_enumerate)

lemma map_enumerate_const: "map (\<lambda>(i, x). f x) (enumerate n xs) = map f xs"
  by (induction xs arbitrary: n) auto

lemma enumerate_map: "enumerate n (map f xs) = map (\<lambda>(i, x). (i, f x)) (enumerate n xs)"
  by (induction xs arbitrary: n) auto

lemma in_set_enumerateD: "(i, x) \<in> set (enumerate n xs) \<Longrightarrow> x \<in> set xs"
  by (metis enumerate_map_snd image_eqI list.set_map snd_conv)

lemma map_filter_Some: "\<forall>x \<in> set xs. f x = Some (g x) \<Longrightarrow> List.map_filter f xs = map g xs"
  by (induction xs) (auto simp: List.map_filter_simps)

lemma set_map_filter: "set (List.map_filter f xs) = {y. \<exists>x \<in> set xs. f x = Some y}"
  by (induction xs) (auto simp: List.map_filter_simps split: option.splits)

lemma length_map_filter: "length (List.map_filter f xs) \<le> length xs"
  by (induction xs) (auto simp: List.map_filter_simps split: option.splits)

lemma natDigits_set: "0 \<le> n \<Longrightarrow> c \<in> set (natDigits n) \<Longrightarrow> is_digit c"
proof (induction n rule: natDigits.induct)
  case (1 n)
  have d: "is_digit (char_of (48 + k))" if "0 \<le> k" "k < 10" for k :: int
    using that unfolding is_digit_def by simp
  have "c \<in> set (if n < 10 then [char_of (48 + n)]
      else natDigits (n div 10) @ [char_of (48 + n mod 10)])"
    using 1(3) by (subst (asm) natDigits.simps)
  with 1(1,2) show ?case by (auto simp: d split: if_splits)
qed

lemma digit_not_space: "is_digit c \<Longrightarrow> \<not> is_space c"
  unfolding is_digit_def is_space_def by auto

lemma itoa_set: "c \<in> set (itoa i) \<Longrightarrow> c = CHR ''-'' \<or> is_digit c"
  unfolding itoa_def by (auto split: if_splits dest: natDigits_set [rotated])

lemma itoa_nonempty [simp]: "itoa i \<noteq> []"
proof -
  have "natDigits n \<noteq> []" for n by (subst natDigits.simps) simp
  then show ?thesis unfolding itoa_def by simp
qed

lemma itoa_char_not_space: "c \<in> set (itoa i) \<Longrightarrow> \<not> is_space c"
  using itoa_set [of c i] digit_not_space by (auto simp: is_space_def code_of_def)

lemma trimmed_itoa: "trimmed (itoa i)"
  unfolding trimmed_def using itoa_char_not_space [of _ i] by (metis hd_in_set itoa_nonempty last_in_set)


section \<open>Fields\<close>

definition word_ok :: "string \<Rightarrow> bool" where
  "word_ok w = (w \<noteq> [] \<and> list_all (\<lambda>c. \<not> is_space c) w)"

lemma fieldsAcc_word:
  "list_all (\<lambda>c. \<not> is_space c) w \<Longrightarrow> fieldsAcc acc (w @ s) = fieldsAcc (rev w @ acc) s"
  by (induction w arbitrary: acc) auto

lemma strFields_word: "word_ok w \<Longrightarrow> is_space c \<Longrightarrow> strFields (w @ c # s) = w # strFields s"
  unfolding strFields_def word_ok_def by (simp add: fieldsAcc_word)

lemma strFields_last: "word_ok w \<Longrightarrow> strFields w = [w]"
  unfolding strFields_def word_ok_def using fieldsAcc_word [of w "[]" "[]"] by simp

lemma strFields_pad [simp]: "is_space c \<Longrightarrow> strFields (c # s) = strFields s"
  unfolding strFields_def by simp

lemma strFields_Nil [simp]: "strFields [] = []"
  unfolding strFields_def by simp

lemma strFields_join:
  "\<forall>w \<in> set ws. word_ok w \<Longrightarrow> strFields (joinWith '' '' ws) = ws"
proof (induction ws rule: induct_list012)
  case (3 x y zs)
  then show ?case using strFields_word [of x "CHR '' ''" "joinWith '' '' (y # zs)"]
    by (simp add: is_space_def code_of_def)
qed (simp_all add: strFields_last)

lemma word_ok_itoa [simp]: "word_ok (itoa i)"
  unfolding word_ok_def list_all_iff by (auto dest: itoa_char_not_space)

lemma joinWith_set: "c \<in> set (joinWith sep ws) \<Longrightarrow> c \<in> set sep \<or> (\<exists>w \<in> set ws. c \<in> set w)"
  by (induction sep ws rule: joinWith.induct) auto

section \<open>Integers of 64 bits\<close>

text \<open>The value that an \<open>int\<close> holds after an operation with the exact result \<open>i\<close>.\<close>

definition wrap64 :: "int \<Rightarrow> int" where
  "wrap64 i = (i + 9223372036854775808) mod 18446744073709551616 - 9223372036854775808"

lemma wrap64_id: "- 9223372036854775808 \<le> i \<Longrightarrow> i < 9223372036854775808 \<Longrightarrow> wrap64 i = i"
  unfolding wrap64_def by simp

end
