(* ===== verification/Retry.thy ===== *)
theory Retry
  imports Prelude
begin

text \<open>
  The exponential back-off of the four collectors. The IPMI and SNMP collectors keep a
  \<open>RetryManager\<close> in \<open>retry.go\<close> (keyed by the device's UUID text and by an \<open>int64\<close>), the Redfish and
  SSH collectors keep their own in \<open>redfish.go\<close> and \<open>ssh.go\<close>. Each is a map from device to state; the
  pointers of the Go map never leave the manager, so the map holds the states themselves. The
  locale \<open>retry_policy\<close> is the contract the poll loops rely on; every manager is an interpretation.

  A \<open>time.Duration\<close> is an \<open>int64\<close> of nanoseconds, here a 64-bit word read as signed, because
  \<open>time.Duration(math.Pow(2, n-1)) * time.Second\<close> wraps. \<open>oor\<close> is what the processor gives for the
  conversion of a float that does not fit in \<open>int64\<close> (the Go specification leaves it open). Each
  \<open>time.Now()\<close> is an argument, in the order of the calls.
\<close>

type_synonym duration = "64 word"

section \<open>The delay\<close>

definition second :: duration where "second = 1000000000"

definition maxBackoffDuration :: duration where "maxBackoffDuration = 600000000000"

definition initialBackoff :: duration where "initialBackoff = second"

text \<open>\<open>time.Duration(math.Pow(2, float64(k)))\<close>.\<close>

definition pow2_duration :: "duration \<Rightarrow> nat \<Rightarrow> duration" where
  "pow2_duration oor k = (if k < 63 then 2 ^ k else oor)"

text \<open>The delay before the next attempt after the n-th failure in a row.\<close>

definition backoff_delay :: "duration \<Rightarrow> nat \<Rightarrow> duration" where
  "backoff_delay oor n = (let backoff = pow2_duration oor (n - 1) * initialBackoff in
     if sint maxBackoffDuration < sint backoff then maxBackoffDuration else backoff)"

section \<open>The IPMI collector's manager\<close>

record 'k retry_state =
  deviceID :: 'k
  hostname :: string
  failureCount :: nat
  lastAttempt :: time
  nextAttempt :: time

type_synonym 'k retry_manager = "'k \<Rightarrow> 'k retry_state option"

definition NewRetryManager :: "'k retry_manager" where
  "NewRetryManager = Map.empty"

definition ShouldRetry :: "string retry_manager \<Rightarrow> string \<Rightarrow> time \<Rightarrow> bool" where
  "ShouldRetry rm d now = (case rm d of None \<Rightarrow> True | Some st \<Rightarrow> nextAttempt st < now)"

text \<open>A state that the map creates has the zero time \<open>t0\<close> in its two time fields.\<close>

definition zero_time :: time where "zero_time = - 62135596800000000000"

definition new_state :: "'k \<Rightarrow> string \<Rightarrow> 'k retry_state" where
  "new_state d h = \<lparr>deviceID = d, hostname = h, failureCount = 0, lastAttempt = zero_time,
     nextAttempt = zero_time\<rparr>"

definition RecordFailure ::
  "duration \<Rightarrow> string retry_manager \<Rightarrow> string \<Rightarrow> string \<Rightarrow> time \<Rightarrow> time \<Rightarrow> string retry_manager \<times> duration"
  where
  "RecordFailure oor rm d h now1 now2 =
     (let st = (case rm d of None \<Rightarrow> new_state d h | Some st \<Rightarrow> st);
          st1 = st\<lparr>failureCount := failureCount st + 1, lastAttempt := now1\<rparr>;
          backoff = backoff_delay oor (failureCount st1);
          st2 = st1\<lparr>nextAttempt := now2 + sint backoff\<rparr> in
      (rm(d \<mapsto> st2), backoff))"

definition RecordSuccess :: "string retry_manager \<Rightarrow> string \<Rightarrow> string retry_manager" where
  "RecordSuccess rm d = rm(d := None)"

definition GetFailureCount :: "string retry_manager \<Rightarrow> string \<Rightarrow> nat" where
  "GetFailureCount rm d = (case rm d of None \<Rightarrow> 0 | Some st \<Rightarrow> failureCount st)"

section \<open>The SNMP collector's manager, keyed by int64\<close>

definition snmp_ShouldRetry :: "(64 word) retry_manager \<Rightarrow> 64 word \<Rightarrow> time \<Rightarrow> bool" where
  "snmp_ShouldRetry rm d now = (case rm d of None \<Rightarrow> True | Some st \<Rightarrow> nextAttempt st < now)"

definition snmp_RecordFailure ::
  "duration \<Rightarrow> (64 word) retry_manager \<Rightarrow> 64 word \<Rightarrow> string \<Rightarrow> time \<Rightarrow> time \<Rightarrow>
   (64 word) retry_manager \<times> duration" where
  "snmp_RecordFailure oor rm d h now1 now2 =
     (let st = (case rm d of None \<Rightarrow> new_state d h | Some st \<Rightarrow> st);
          st1 = st\<lparr>failureCount := failureCount st + 1, lastAttempt := now1\<rparr>;
          backoff = backoff_delay oor (failureCount st1);
          st2 = st1\<lparr>nextAttempt := now2 + sint backoff\<rparr> in
      (rm(d \<mapsto> st2), backoff))"

definition snmp_RecordSuccess :: "(64 word) retry_manager \<Rightarrow> 64 word \<Rightarrow> (64 word) retry_manager" where
  "snmp_RecordSuccess rm d = rm(d := None)"

definition snmp_GetFailureCount :: "(64 word) retry_manager \<Rightarrow> 64 word \<Rightarrow> nat" where
  "snmp_GetFailureCount rm d = (case rm d of None \<Rightarrow> 0 | Some st \<Rightarrow> failureCount st)"

section \<open>The Redfish collector's manager\<close>

record rf_retry_state =
  rf_deviceID :: string
  rf_hostname :: string
  rf_failureCount :: nat
  rf_nextAttempt :: time

type_synonym rf_manager = "string \<Rightarrow> rf_retry_state option"

definition rf_ShouldRetry :: "rf_manager \<Rightarrow> string \<Rightarrow> time \<Rightarrow> bool" where
  "rf_ShouldRetry rm d now = (case rm d of None \<Rightarrow> True | Some st \<Rightarrow> rf_nextAttempt st < now)"

definition rf_delay :: "duration \<Rightarrow> nat \<Rightarrow> duration" where
  "rf_delay oor n = (let backoff = pow2_duration oor (n - 1) * second in
     if sint (600 * second) < sint backoff then 600 * second else backoff)"

definition rf_RecordFailure ::
  "duration \<Rightarrow> rf_manager \<Rightarrow> string \<Rightarrow> string \<Rightarrow> time \<Rightarrow> rf_manager \<times> duration" where
  "rf_RecordFailure oor rm d h now =
     (let st = (case rm d of
            None \<Rightarrow> \<lparr>rf_deviceID = d, rf_hostname = h, rf_failureCount = 0, rf_nextAttempt = zero_time\<rparr>
          | Some st \<Rightarrow> st);
          st1 = st\<lparr>rf_failureCount := rf_failureCount st + 1\<rparr>;
          backoff = rf_delay oor (rf_failureCount st1) in
      (rm(d \<mapsto> st1\<lparr>rf_nextAttempt := now + sint backoff\<rparr>), backoff))"

definition rf_RecordSuccess :: "rf_manager \<Rightarrow> string \<Rightarrow> rf_manager" where
  "rf_RecordSuccess rm d = rm(d := None)"

definition rf_GetFailureCount :: "rf_manager \<Rightarrow> string \<Rightarrow> nat" where
  "rf_GetFailureCount rm d = (case rm d of Some st \<Rightarrow> rf_failureCount st | None \<Rightarrow> 0)"

section \<open>The SSH collector's manager\<close>

record ssh_retry_state =
  ssh_failureCount :: nat
  ssh_nextAttempt :: time

type_synonym ssh_manager = "string \<Rightarrow> ssh_retry_state option"

definition ssh_ShouldRetry :: "ssh_manager \<Rightarrow> string \<Rightarrow> time \<Rightarrow> bool" where
  "ssh_ShouldRetry rm d now = (case rm d of None \<Rightarrow> True | Some st \<Rightarrow> ssh_nextAttempt st < now)"

definition ssh_RecordFailure ::
  "duration \<Rightarrow> ssh_manager \<Rightarrow> string \<Rightarrow> time \<Rightarrow> ssh_manager \<times> duration" where
  "ssh_RecordFailure oor rm d now =
     (let st = (case rm d of None \<Rightarrow> \<lparr>ssh_failureCount = 0, ssh_nextAttempt = zero_time\<rparr> | Some st \<Rightarrow> st);
          st1 = st\<lparr>ssh_failureCount := ssh_failureCount st + 1\<rparr>;
          backoff = backoff_delay oor (ssh_failureCount st1) in
      (rm(d \<mapsto> st1\<lparr>ssh_nextAttempt := now + sint backoff\<rparr>), backoff))"

definition ssh_RecordSuccess :: "ssh_manager \<Rightarrow> string \<Rightarrow> ssh_manager" where
  "ssh_RecordSuccess rm d = rm(d := None)"

section \<open>Facts about the delay\<close>

lemma backoff_delay_table:
  "\<forall>n\<in>set [1..<35]. sint (backoff_delay oor n) = min (2 ^ (n - 1)) 600 * 1000000000"
  unfolding backoff_delay_def pow2_duration_def initialBackoff_def maxBackoffDuration_def second_def
  by (simp add: upt_rec)

lemma backoff_delay_le: "sint (backoff_delay oor n) \<le> 600000000000"
  unfolding backoff_delay_def maxBackoffDuration_def by (simp add: Let_def)

lemma backoff_delay_exact:
  assumes "1 \<le> n" "n \<le> 34"
  shows "sint (backoff_delay oor n) = min (2 ^ (n - 1)) 600 * 1000000000"
  using bspec [OF backoff_delay_table, of n oor] assms by simp


text \<open>Where the contract of the comment (1 s, 2 s, 4 s, ..., at most 10 minutes) ends: the product
  wraps to a negative delay after the 35th failure in a row, and is zero after the 56th.\<close>

lemma backoff_delay_35: "sint (backoff_delay oor 35) = - 1266874889709551616"
  unfolding backoff_delay_def pow2_duration_def initialBackoff_def maxBackoffDuration_def second_def
  by simp

lemma backoff_delay_zero_table: "\<forall>n\<in>set [56..<64]. backoff_delay oor n = 0"
  unfolding backoff_delay_def pow2_duration_def initialBackoff_def maxBackoffDuration_def second_def
  by (simp add: upt_rec)

lemma backoff_delay_pos:
  assumes "1 \<le> n" "n \<le> 34" shows "1000000000 \<le> sint (backoff_delay oor n)"
proof -
  have "(1 :: int) \<le> 2 ^ (n - 1)" by simp
  then show ?thesis unfolding backoff_delay_exact [OF assms] by linarith
qed

section \<open>The contract of a retry manager\<close>

text \<open>
  What a poll loop does with a manager: skip the device until its next attempt is due; poll it;
  record a failure or a success. \<open>due\<close> is the abstract view, the time before which the device is left
  alone.
\<close>

record 'k attempt =
  dev :: 'k
  host :: string
  start :: time
  failed1 :: time
  failed2 :: time
  okay :: bool

fun streak :: "nat \<Rightarrow> bool list \<Rightarrow> nat" where
  "streak n [] = n"
| "streak n (b # bs) = streak (if b then 0 else n + 1) bs"

locale retry_policy =
  fixes should :: "'s \<Rightarrow> 'k \<Rightarrow> time \<Rightarrow> bool"
    and fail :: "'s \<Rightarrow> 'k \<Rightarrow> string \<Rightarrow> time \<Rightarrow> time \<Rightarrow> 's \<times> duration"
    and success :: "'s \<Rightarrow> 'k \<Rightarrow> 's"
    and count :: "'s \<Rightarrow> 'k \<Rightarrow> nat"
    and due :: "'s \<Rightarrow> 'k \<Rightarrow> time option"
    and delay :: "nat \<Rightarrow> duration"
  assumes should_iff: "should s d now = (case due s d of None \<Rightarrow> True | Some t \<Rightarrow> t < now)"
    and fail_delay: "snd (fail s d h t1 t2) = delay (count s d + 1)"
    and count_fail: "count (fst (fail s d h t1 t2)) e = (if e = d then count s d + 1 else count s e)"
    and due_fail: "due (fst (fail s d h t1 t2)) e =
      (if e = d then Some (t2 + sint (delay (count s d + 1))) else due s e)"
    and count_success: "count (success s d) e = (if e = d then 0 else count s e)"
    and due_success: "due (success s d) e = (if e = d then None else due s e)"
begin

definition polled :: "'s \<Rightarrow> 'k attempt \<Rightarrow> bool" where
  "polled s a = should s (dev a) (start a)"

definition step :: "'s \<Rightarrow> 'k attempt \<Rightarrow> 's" where
  "step s a = (if \<not> polled s a then s
     else if okay a then success s (dev a)
     else fst (fail s (dev a) (host a) (failed1 a) (failed2 a)))"

fun run :: "'s \<Rightarrow> 'k attempt list \<Rightarrow> 's" where
  "run s [] = s"
| "run s (a # as) = run (step s a) as"

text \<open>The outcomes of the attempts on a device that were not skipped.\<close>

fun outcomes :: "'k \<Rightarrow> 's \<Rightarrow> 'k attempt list \<Rightarrow> bool list" where
  "outcomes d s [] = []"
| "outcomes d s (a # as) =
     (if dev a = d \<and> polled s a then okay a # outcomes d (step s a) as
      else outcomes d (step s a) as)"

lemma count_step:
  "count (step s a) d = (if dev a = d \<and> polled s a then (if okay a then 0 else count s d + 1)
     else count s d)"
  unfolding step_def by (simp add: count_fail count_success)

lemma due_step_other: "dev a \<noteq> d \<Longrightarrow> due (step s a) d = due s d"
  unfolding step_def by (simp add: due_fail due_success)

lemma count_run: "count (run s as) d = streak (count s d) (outcomes d s as)"
  by (induction as arbitrary: s) (simp_all add: count_step)

lemma step_waiting:
  assumes "due s d = Some t" "dev a = d" "start a \<le> t"
  shows "step s a = s" and "\<not> polled s a"
  using assms unfolding step_def polled_def by (simp_all add: should_iff)

lemma waiting:
  assumes "due s d = Some t" "\<And>a. a \<in> set as \<Longrightarrow> dev a = d \<Longrightarrow> start a \<le> t"
  shows "outcomes d s as = [] \<and> due (run s as) d = Some t"
  using assms
proof (induction as arbitrary: s)
  case (Cons a as)
  show ?case
  proof (cases "dev a = d")
    case True
    with Cons.prems have "step s a = s" "\<not> polled s a" using step_waiting [of s d t a] by simp_all
    with Cons show ?thesis by simp
  next
    case False
    with Cons show ?thesis by (simp add: due_step_other)
  qed
qed simp

text \<open>After a failure the device is left alone for the whole delay, whatever else is polled.\<close>

lemma left_alone:
  assumes "\<And>a. a \<in> set as \<Longrightarrow> dev a = d \<Longrightarrow> start a \<le> t2 + sint (delay (count s d + 1))"
  shows "outcomes d (fst (fail s d h t1 t2)) as = []"
  by (rule conjunct1 [OF waiting [OF _ assms]]) (simp_all add: due_fail)

lemma polled_again:
  assumes "t2 + sint (delay (count s d + 1)) < now"
  shows "should (fst (fail s d h t1 t2)) d now"
  using assms by (simp add: should_iff due_fail)

lemma fresh_after_success: "should (success s d) d now \<and> count (success s d) d = 0"
  by (simp add: should_iff due_success count_success)

end

section \<open>The four managers keep the contract\<close>

definition ipmi_due :: "'k retry_manager \<Rightarrow> 'k \<Rightarrow> time option" where
  "ipmi_due rm d = map_option nextAttempt (rm d)"

definition rf_due :: "rf_manager \<Rightarrow> string \<Rightarrow> time option" where
  "rf_due rm d = map_option rf_nextAttempt (rm d)"

definition ssh_due :: "ssh_manager \<Rightarrow> string \<Rightarrow> time option" where
  "ssh_due rm d = map_option ssh_nextAttempt (rm d)"

definition ssh_count :: "ssh_manager \<Rightarrow> string \<Rightarrow> nat" where
  "ssh_count rm d = (case rm d of None \<Rightarrow> 0 | Some st \<Rightarrow> ssh_failureCount st)"

lemmas ipmi_manager_defs = ShouldRetry_def RecordFailure_def RecordSuccess_def GetFailureCount_def
  ipmi_due_def new_state_def
lemmas snmp_manager_defs = snmp_ShouldRetry_def snmp_RecordFailure_def snmp_RecordSuccess_def
  snmp_GetFailureCount_def ipmi_due_def new_state_def
lemmas rf_manager_defs = rf_ShouldRetry_def rf_RecordFailure_def rf_RecordSuccess_def
  rf_GetFailureCount_def rf_due_def
lemmas ssh_manager_defs = ssh_ShouldRetry_def ssh_RecordFailure_def ssh_RecordSuccess_def
  ssh_count_def ssh_due_def

lemma rf_delay_eq [simp]: "rf_delay oor n = backoff_delay oor n"
  unfolding rf_delay_def backoff_delay_def initialBackoff_def maxBackoffDuration_def second_def
  by (simp add: Let_def)

interpretation ipmi_retry: retry_policy ShouldRetry "RecordFailure oor" RecordSuccess
  GetFailureCount ipmi_due "backoff_delay oor" for oor
  by unfold_locales (auto simp: ipmi_manager_defs Let_def split: option.splits)

interpretation snmp_retry: retry_policy snmp_ShouldRetry "snmp_RecordFailure oor" snmp_RecordSuccess
  snmp_GetFailureCount ipmi_due "backoff_delay oor" for oor
  by unfold_locales (auto simp: snmp_manager_defs Let_def split: option.splits)

interpretation rf_retry: retry_policy rf_ShouldRetry "\<lambda>s d h t1 t2. rf_RecordFailure oor s d h t2"
  rf_RecordSuccess rf_GetFailureCount rf_due "backoff_delay oor" for oor
  by unfold_locales
    (auto simp: rf_manager_defs Let_def split: option.splits)

interpretation ssh_retry: retry_policy ssh_ShouldRetry "\<lambda>s d h t1 t2. ssh_RecordFailure oor s d t2"
  ssh_RecordSuccess ssh_count ssh_due "backoff_delay oor" for oor
  by unfold_locales (auto simp: ssh_manager_defs Let_def split: option.splits)

end
