(* ===== verification/GoFloat.thy ===== *)
theory GoFloat
  imports Prelude Complex_Main "HOL-Library.Log_Nat"
begin

text \<open>
  Go's \<open>float64\<close>: a finite value is the rational number it stands for (both zeros are \<open>Fin 0\<close>), and
  every operation rounds its exact result to the nearest binary64 value, ties to even, overflowing
  to an infinity, as IEEE 754 and the Go specification say. \<open>parse_float\<close> is \<open>strconv.ParseFloat(s,
  64)\<close> without hexadecimal text and underscores.
\<close>

datatype f64 = Fin rat | PosInf | NegInf | NaN

section \<open>Rounding\<close>

text \<open>The exponent of a positive fraction: the e with 2 to the e at most n / d and less than double.\<close>

definition expo :: "int \<Rightarrow> int \<Rightarrow> int" where
  "expo n d = (let e = bitlen n - bitlen d in
     if (if e \<ge> 0 then d * 2 ^ nat e \<le> n else d \<le> n * 2 ^ nat (- e)) then e else e - 1)"

definition round_half_even :: "int \<Rightarrow> int \<Rightarrow> int" where
  "round_half_even n d = (let q = n div d; r = n mod d in
     if 2 * r < d then q else if 2 * r > d then q + 1 else if even q then q else q + 1)"

definition pow2q :: "int \<Rightarrow> rat" where
  "pow2q e = (if e \<ge> 0 then 2 ^ nat e else 1 / 2 ^ nat (- e))"

text \<open>
  The binary64 value nearest to n / d. A whole number of at most 53 bits is a binary64 value, which
  the first branch says; the unit of the last place is 2 to the u otherwise.
\<close>

definition round_frac :: "int \<Rightarrow> int \<Rightarrow> f64" where
  "round_frac n d = (if n mod d = 0 \<and> \<bar>n div d\<bar> \<le> 9007199254740992 then Fin (of_int (n div d))
     else let inf = (if n < 0 then NegInf else PosInf); a = \<bar>n\<bar>; e = expo a d in
       if e \<ge> 1024 then inf
       else let u = max e (- 1022) - 52;
                m = (if u \<ge> 0 then round_half_even a (d * 2 ^ nat u)
                     else round_half_even (a * 2 ^ nat (- u)) d) in
            if u = 971 \<and> m = 9007199254740992 then inf
            else Fin (of_int (if n < 0 then - m else m) * pow2q u))"

definition round64 :: "rat \<Rightarrow> f64" where
  "round64 q = (case quotient_of q of (n, d) \<Rightarrow> round_frac n d)"

lemma round_frac_int [simp]:
  "\<bar>n\<bar> \<le> 9007199254740992 \<Longrightarrow> round_frac n 1 = Fin (of_int n)"
  unfolding round_frac_def by simp

lemma round64_of_int [simp]:
  "\<bar>n\<bar> \<le> 9007199254740992 \<Longrightarrow> round64 (of_int n) = Fin (of_int n)"
  unfolding round64_def by simp

section \<open>Arithmetic and comparison\<close>

definition f_of_int :: "int \<Rightarrow> f64" where
  "f_of_int i = round_frac i 1"

fun fneg :: "f64 \<Rightarrow> f64" where
  "fneg (Fin a) = Fin (- a)"
| "fneg PosInf = NegInf"
| "fneg NegInf = PosInf"
| "fneg NaN = NaN"

fun fadd :: "f64 \<Rightarrow> f64 \<Rightarrow> f64" where
  "fadd (Fin a) (Fin b) = round64 (a + b)"
| "fadd NaN y = NaN"
| "fadd x NaN = NaN"
| "fadd PosInf NegInf = NaN"
| "fadd NegInf PosInf = NaN"
| "fadd PosInf y = PosInf"
| "fadd NegInf y = NegInf"
| "fadd x PosInf = PosInf"
| "fadd x NegInf = NegInf"

definition fsub :: "f64 \<Rightarrow> f64 \<Rightarrow> f64" where
  "fsub x y = fadd x (fneg y)"

text \<open>The sign of a value, and the infinity of a sign; a product or quotient of zero by an infinity
  and of two infinities follow IEEE 754, with the one zero of the model taken as positive.\<close>

fun fsign :: "f64 \<Rightarrow> int" where
  "fsign (Fin a) = (if a = 0 then 0 else if a < 0 then - 1 else 1)"
| "fsign PosInf = 1"
| "fsign NegInf = - 1"
| "fsign NaN = 0"

definition signed_inf :: "int \<Rightarrow> f64" where
  "signed_inf s = (if s = 0 then NaN else if s < 0 then NegInf else PosInf)"

definition fmul :: "f64 \<Rightarrow> f64 \<Rightarrow> f64" where
  "fmul x y = (case (x, y) of
     (NaN, _) \<Rightarrow> NaN | (_, NaN) \<Rightarrow> NaN
   | (Fin a, Fin b) \<Rightarrow> round64 (a * b)
   | _ \<Rightarrow> signed_inf (fsign x * fsign y))"

definition fdiv :: "f64 \<Rightarrow> f64 \<Rightarrow> f64" where
  "fdiv x y = (case (x, y) of
     (NaN, _) \<Rightarrow> NaN | (_, NaN) \<Rightarrow> NaN
   | (Fin a, Fin b) \<Rightarrow> (if b = 0 then signed_inf (fsign x) else round64 (a / b))
   | (Fin a, _) \<Rightarrow> Fin 0
   | (_, Fin b) \<Rightarrow> signed_inf (fsign x * (if b < 0 then - 1 else 1))
   | _ \<Rightarrow> NaN)"

fun flt :: "f64 \<Rightarrow> f64 \<Rightarrow> bool" where
  "flt (Fin a) (Fin b) = (a < b)"
| "flt NaN y = False"
| "flt x NaN = False"
| "flt NegInf y = (y \<noteq> NegInf)"
| "flt x PosInf = (x \<noteq> PosInf)"
| "flt x y = False"

definition feq :: "f64 \<Rightarrow> f64 \<Rightarrow> bool" where
  "feq x y = (x = y \<and> x \<noteq> NaN)"

definition fge :: "f64 \<Rightarrow> f64 \<Rightarrow> bool" where
  "fge x y = (flt y x \<or> feq x y)"

definition is_inf :: "f64 \<Rightarrow> bool" where
  "is_inf x = (x = PosInf \<or> x = NegInf)"

section \<open>strconv.ParseFloat\<close>

text \<open>The digits of a decimal number as a whole number and a power of ten.\<close>

definition decimalVal :: "string \<Rightarrow> int" where
  "decimalVal s = foldl (\<lambda>a c. a * 10 + digit_val c) 0 s"

fun take_sign :: "string \<Rightarrow> bool \<times> string" where
  "take_sign [] = (False, [])"
| "take_sign (c # s) = (if c = CHR ''-'' then (True, s) else if c = CHR ''+'' then (False, s)
     else (False, c # s))"

fun parse_exponent :: "string \<Rightarrow> int option" where
  "parse_exponent [] = Some 0"
| "parse_exponent (c # s) = (if lower_char c = CHR ''e''
     then (case take_sign s of (neg, ds) \<Rightarrow>
       if ds \<noteq> [] \<and> list_all is_digit ds
       then Some (if neg then - decimalVal ds else decimalVal ds) else None)
     else None)"

definition parse_decimal :: "string \<Rightarrow> (int \<times> int) option" where
  "parse_decimal s = (let ip = takeWhile is_digit s; r = dropWhile is_digit s;
       dot = (r \<noteq> [] \<and> hd r = CHR ''.'');
       fp = (if dot then takeWhile is_digit (tl r) else []);
       rest = (if dot then dropWhile is_digit (tl r) else r) in
     if ip @ fp = [] then None
     else case parse_exponent rest of None \<Rightarrow> None
       | Some e \<Rightarrow> Some (decimalVal (ip @ fp), e - int (length fp)))"

definition decimal_to_f64 :: "bool \<Rightarrow> int \<Rightarrow> int \<Rightarrow> f64" where
  "decimal_to_f64 neg m e = (if m = 0 then Fin 0
     else let n = (if neg then - m else m) in
       if e \<ge> 0 then round_frac (n * 10 ^ nat e) 1 else round_frac n (10 ^ nat (- e)))"

definition parse_float :: "string \<Rightarrow> f64 \<times> bool" where
  "parse_float s = (case take_sign s of (neg, body) \<Rightarrow>
     let low = toLower body in
     if low = ''inf'' \<or> low = ''infinity'' then (if neg then NegInf else PosInf, True)
     else if toLower s = ''nan'' then (NaN, True)
     else case parse_decimal body of None \<Rightarrow> (Fin 0, False)
       | Some (m, e) \<Rightarrow> let x = decimal_to_f64 neg m e in (x, \<not> is_inf x))"

section \<open>Decimal text of whole numbers reads back\<close>

lemma digit_chars:
  assumes "0 \<le> k" "k < 10"
  shows "is_digit (char_of (48 + k :: int))" "digit_val (char_of (48 + k)) = k"
  using assms unfolding is_digit_def digit_val_def by auto

lemma natDigits_digits: "0 \<le> n \<Longrightarrow> list_all is_digit (natDigits n)"
proof (induction n rule: natDigits.induct)
  case (1 n)
  then show ?case
    by (subst natDigits.simps) (auto simp: digit_chars)
qed

lemma natDigits_nonempty [simp]: "natDigits n \<noteq> []"
  by (subst natDigits.simps) simp

lemma decimalVal_snoc: "decimalVal (s @ [c]) = decimalVal s * 10 + digit_val c"
  unfolding decimalVal_def by simp

lemma decimalVal_natDigits: "0 \<le> n \<Longrightarrow> decimalVal (natDigits n) = n"
proof (induction n rule: natDigits.induct)
  case (1 n)
  show ?case
  proof (cases "n < 10")
    case True
    with 1 show ?thesis
      by (subst natDigits.simps) (simp add: decimalVal_def digit_chars)
  next
    case False
    with 1 show ?thesis
      by (subst natDigits.simps) (simp add: decimalVal_snoc digit_chars)
  qed
qed

lemma take_sign_digits: "list_all is_digit s \<Longrightarrow> take_sign s = (False, s)"
  by (cases s) (auto simp: is_digit_def code_of_def)

lemma digits_not_word:
  assumes "list_all is_digit s" "s \<noteq> []" "is_lower c"
  shows "toLower s \<noteq> c # w"
proof (cases s)
  case (Cons d ds)
  then have "is_digit d" using assms(1) by simp
  then have "lower_char d = d" unfolding lower_char_def is_upper_def is_digit_def by simp
  moreover have "d \<noteq> c" using \<open>is_digit d\<close> assms(3) unfolding is_digit_def is_lower_def by auto
  ultimately show ?thesis using Cons by (simp add: toLower_def)
qed (use assms in simp)

lemma parse_decimal_digits:
  assumes "list_all is_digit s" "s \<noteq> []"
  shows "parse_decimal s = Some (decimalVal s, 0)"
proof -
  have tw: "takeWhile is_digit s = s" "dropWhile is_digit s = []"
    using assms(1) by (auto simp: list_all_iff)
  show ?thesis unfolding parse_decimal_def tw Let_def using assms(2) by simp
qed

lemma decimal_to_f64_int:
  assumes "\<bar>m\<bar> \<le> 9007199254740992"
  shows "decimal_to_f64 neg m 0 = Fin (of_int (if neg then - m else m))"
  using assms unfolding decimal_to_f64_def by simp

theorem parse_float_itoa:
  assumes "\<bar>n\<bar> \<le> 9007199254740992"
  shows "parse_float (itoa n) = (Fin (of_int n), True)"
proof -
  let ?d = "natDigits \<bar>n\<bar>"
  have dig: "list_all is_digit ?d" and val: "decimalVal ?d = \<bar>n\<bar>"
    by (simp_all add: natDigits_digits decimalVal_natDigits)
  have nw: "toLower ?d \<noteq> ''inf''" "toLower ?d \<noteq> ''infinity''" "toLower ?d \<noteq> ''nan''"
    by (rule digits_not_word [OF dig], simp, simp add: is_lower_def code_of_def)+
  have pd: "parse_decimal ?d = Some (\<bar>n\<bar>, 0)"
    using parse_decimal_digits [OF dig] val by simp
  show ?thesis
  proof (cases "n < 0")
    case True
    then have it: "itoa n = CHR ''-'' # ?d" unfolding itoa_def by simp
    have "toLower (CHR ''-'' # ?d) \<noteq> ''nan''"
      by (simp add: toLower_def lower_char_def is_upper_def code_of_def)
    with True assms nw pd show ?thesis
      unfolding parse_float_def it by (simp add: decimal_to_f64_int is_inf_def Let_def)
  next
    case False
    then have it: "itoa n = ?d" unfolding itoa_def by simp
    from False assms nw pd show ?thesis
      unfolding parse_float_def it
      by (simp add: Let_def take_sign_digits decimal_to_f64_int is_inf_def natDigits_digits)
  qed
qed


section \<open>Rounding stays below a whole bound\<close>

lemma round_half_even_bounds:
  assumes "0 \<le> a" "0 < d" "a \<le> k * d"
  shows "0 \<le> round_half_even a d" "round_half_even a d \<le> k"
proof -
  have q: "0 \<le> a div d" using assms by (simp add: pos_imp_zdiv_nonneg_iff)
  then show "0 \<le> round_half_even a d" unfolding round_half_even_def by (simp add: Let_def)
  have le: "a div d \<le> k" using zdiv_mono1 [OF assms(3,2)] assms(2) by simp
  show "round_half_even a d \<le> k"
  proof (cases "a div d = k")
    case True
    then have "k * d + a mod d = a" using div_mult_mod_eq [of a d] by simp
    then have "a mod d = 0" using assms(3) pos_mod_sign [OF assms(2), of a] by linarith
    with True assms(2) show ?thesis unfolding round_half_even_def by (simp add: Let_def)
  next
    case False
    with le have "a div d + 1 \<le> k" by simp
    then show ?thesis unfolding round_half_even_def by (simp add: Let_def)
  qed
qed

lemma expo_small:
  assumes "0 < n" "0 < d" "n < 9007199254740992 * d"
  shows "expo n d \<le> 52"
proof -
  have bn: "2 ^ nat (bitlen n - 1) \<le> n" using bitlen_bounds assms(1) by simp
  have bd: "d < 2 ^ nat (bitlen d)" using bitlen_bounds assms(2) by simp
  have pos: "1 \<le> bitlen n" "1 \<le> bitlen d" using assms bitlen_eq_zero_iff [of n] bitlen_eq_zero_iff [of d] bitlen_nonneg [of n] bitlen_nonneg [of d] by linarith+
  have "bitlen n - bitlen d \<le> 53"
  proof (rule ccontr)
    assume "\<not> ?thesis"
    then have "nat (bitlen n - 1) \<ge> 53 + nat (bitlen d)" using pos by simp
    then have "(2::int) ^ (53 + nat (bitlen d)) \<le> 2 ^ nat (bitlen n - 1)" by (rule power_increasing) simp
    then have "9007199254740992 * 2 ^ nat (bitlen d) \<le> n" using bn by (simp add: power_add)
    with bd assms(3) show False by linarith
  qed
  moreover have "d * 2 ^ 53 > n" using assms(3) by simp
  ultimately show ?thesis
    unfolding expo_def by (cases "bitlen n - bitlen d = 53") (auto simp: Let_def)
qed

lemma pow2q_neg: "u \<le> 0 \<Longrightarrow> pow2q u = 1 / 2 ^ nat (- u)"
  unfolding pow2q_def by auto

lemma round_frac_bounds:
  assumes "0 \<le> n" "0 < d" "n \<le> k * d" "k < 9007199254740992"
  shows "\<exists>q. round_frac n d = Fin q \<and> 0 \<le> q \<and> q \<le> of_int k"
proof (cases "n mod d = 0 \<and> \<bar>n div d\<bar> \<le> 9007199254740992")
  case True
  have "0 \<le> n div d" using assms by (simp add: pos_imp_zdiv_nonneg_iff)
  moreover have "n div d \<le> k" using zdiv_mono1 [OF assms(3,2)] assms(2) by simp
  ultimately show ?thesis using True unfolding round_frac_def by simp
next
  case False
  have n: "0 < n" using False assms(1) by (cases "n = 0") auto
  have "k * d \<le> 9007199254740991 * d" using assms(2,4) by (intro mult_right_mono) simp_all
  with assms(2,3) have lt: "n < 9007199254740992 * d" by linarith
  define u where "u = max (expo n d) (- 1022) - 52"
  have u: "u \<le> 0" using expo_small [OF n assms(2) lt] unfolding u_def by simp
  define m where "m = round_half_even (n * 2 ^ nat (- u)) d"
  have sc: "n * 2 ^ nat (- u) \<le> (k * 2 ^ nat (- u)) * d"
    using mult_right_mono [OF assms(3), of "2 ^ nat (- u)"] by (simp add: ac_simps)
  have m: "0 \<le> m" "m \<le> k * 2 ^ nat (- u)"
    unfolding m_def using n by (intro round_half_even_bounds [OF _ assms(2) sc]; simp)+
  have m0: "(if u \<ge> 0 then round_half_even n (d * 2 ^ nat u) else round_half_even (n * 2 ^ nat (- u)) d) = m"
    unfolding m_def using u by (cases "u = 0") simp_all
  have "round_frac n d = Fin (of_int m * pow2q u)"
    unfolding round_frac_def if_not_P [OF False] Let_def abs_of_pos [OF n] u_def [symmetric] m0
    using expo_small [OF n assms(2) lt] n u by simp
  moreover have "of_int m * pow2q u \<le> of_int k"
  proof -
    have "(of_int m :: rat) \<le> of_int k * 2 ^ nat (- u)"
      using of_int_le_iff [where ?'a = rat, THEN iffD2, OF m(2)] by simp
    then show ?thesis by (simp add: pow2q_neg [OF u] divide_le_eq)
  qed
  moreover have "0 \<le> of_int m * pow2q u" using m(1) by (simp add: pow2q_neg [OF u])
  ultimately show ?thesis by blast
qed

lemma round64_bounds:
  assumes "0 \<le> q" "q \<le> of_int k" "k < 9007199254740992"
  shows "\<exists>r. round64 q = Fin r \<and> 0 \<le> r \<and> r \<le> of_int k"
proof -
  obtain n d where nd: "quotient_of q = (n, d)" by (cases "quotient_of q")
  then have d: "0 < d" and q: "q = of_int n / of_int d"
    by (auto intro: quotient_of_denom_pos quotient_of_div)
  have "0 \<le> n" using assms(1) d unfolding q by (simp add: zero_le_divide_iff)
  moreover have "n \<le> k * d"
  proof -
    have "(of_int n :: rat) \<le> of_int k * of_int d" using assms(2) d unfolding q by (simp add: divide_le_eq)
    then show ?thesis by (simp only: of_int_mult [symmetric] of_int_le_iff)
  qed
  ultimately show ?thesis unfolding round64_def nd using round_frac_bounds [OF _ d _ assms(3)] by simp
qed

end
