(* ===== verification/VmWriter.thy ===== *)
theory VmWriter
  imports GoFloat "HOL-Library.Multiset"
begin

text \<open>
  The batching writer in front of VictoriaMetrics, \<open>internal/metrics/victoriametrics.go\<close> of the IPMI
  collector (the Redfish collector and the backend have the same code but for comments; the SNMP
  collector's differs in \<open>send\<close>, modelled apart). Two ghost fields, of which the code keeps no record,
  say what happened: the batches the server accepted and the sleeps between attempts.

  The server and the network are an argument: the outcome of the k-th request of the call. A request
  made with a cancelled context fails, as \<open>net/http\<close> documents.
\<close>

record series =
  sr_labels :: labels
  sr_value :: f64
  sr_millis :: int

datatype send_outcome = NoResponse string | Response int string

record vm_writer =
  batchSize :: int
  buffer :: "series list"
  cancelled :: bool
  accepted :: "series list list"
  slept :: "int list"

section \<open>Sequential operations\<close>

definition NewVictoriaMetricsWriter :: "int \<Rightarrow> vm_writer" where
  "NewVictoriaMetricsWriter n = \<lparr>batchSize = n, buffer = [], cancelled = False, accepted = [], slept = []\<rparr>"

text \<open>\<open>send\<close>: its error, if any.\<close>

definition vm_send :: "vm_writer \<Rightarrow> send_outcome \<Rightarrow> string option" where
  "vm_send w out = (if cancelled w then Some ''failed to send request: context canceled''
     else case out of
       NoResponse e \<Rightarrow> Some (''failed to send request: '' @ e)
     | Response code body \<Rightarrow>
         (if code < 200 \<or> code \<ge> 300
          then Some (''unexpected status code '' @ itoa code @ '': '' @ body) else None))"

text \<open>The SNMP collector's \<open>send\<close> uses no context and takes 200 and 204 only.\<close>

definition snmp_send :: "vm_writer \<Rightarrow> send_outcome \<Rightarrow> string option" where
  "snmp_send w out = (case out of
       NoResponse e \<Rightarrow> Some (''failed to send request: '' @ e)
     | Response code body \<Rightarrow>
         (if code \<noteq> 200 \<and> code \<noteq> 204
          then Some (''unexpected status code '' @ itoa code @ '': '' @ body) else None))"

text \<open>The loop of \<open>sendWithRetry\<close> from an attempt on; a sleep of 2 to the (attempt - 1) seconds comes
  before every attempt but the first.\<close>

definition nap :: "nat \<Rightarrow> vm_writer \<Rightarrow> vm_writer" where
  "nap attempt w = (if attempt > 0 then w\<lparr>slept := slept w @ [2 ^ (attempt - 1) * 1000000000]\<rparr> else w)"

lemma nap_simps [simp]:
  "buffer (nap a w) = buffer w" "batchSize (nap a w) = batchSize w"
  "cancelled (nap a w) = cancelled w" "accepted (nap a w) = accepted w"
  "slept (nap a w) = slept w @ (if a > 0 then [2 ^ (a - 1) * 1000000000] else [])"
  unfolding nap_def by simp_all

fun sendLoop ::
  "(vm_writer \<Rightarrow> send_outcome \<Rightarrow> string option) \<Rightarrow> (nat \<Rightarrow> send_outcome) \<Rightarrow> vm_writer \<Rightarrow> series list \<Rightarrow>
   nat \<Rightarrow> nat \<Rightarrow> nat \<Rightarrow> string \<Rightarrow> vm_writer \<times> string option" where
  "sendLoop snd_op net w batch maxRetries attempt 0 lastErr =
     (w, Some (''failed to push metrics after '' @ itoa (int maxRetries) @ '' attempts: '' @ lastErr))"
| "sendLoop snd_op net w batch maxRetries attempt (Suc left) lastErr =
     (let w1 = nap attempt w in
      case snd_op w1 (net attempt) of
        None \<Rightarrow> (w1\<lparr>accepted := accepted w1 @ [batch]\<rparr>, None)
      | Some e \<Rightarrow> sendLoop snd_op net w1 batch maxRetries (attempt + 1) left e)"

definition sendWithRetry ::
  "(nat \<Rightarrow> send_outcome) \<Rightarrow> vm_writer \<Rightarrow> series list \<Rightarrow> nat \<Rightarrow> vm_writer \<times> string option" where
  "sendWithRetry net w batch maxRetries =
     sendLoop vm_send net w batch maxRetries 0 maxRetries ''%!w(<nil>)''"

definition flush :: "(nat \<Rightarrow> send_outcome) \<Rightarrow> vm_writer \<Rightarrow> vm_writer \<times> string option" where
  "flush net w = (if buffer w = [] then (w, None)
     else let toSend = buffer w in sendWithRetry net (w\<lparr>buffer := []\<rparr>) toSend 3)"

text \<open>The labels of a sample: the name first, then the map in the order the runtime ranges over it.\<close>

definition mkSeries :: "string \<Rightarrow> f64 \<Rightarrow> labels \<Rightarrow> time \<Rightarrow> series" where
  "mkSeries name v ls t =
     \<lparr>sr_labels = (''__name__'', name) # ls, sr_value = v, sr_millis = t div 1000000\<rparr>"

definition WriteMetric ::
  "(nat \<Rightarrow> send_outcome) \<Rightarrow> vm_writer \<Rightarrow> string \<Rightarrow> f64 \<Rightarrow> labels \<Rightarrow> time \<Rightarrow> vm_writer \<times> string option" where
  "WriteMetric net w name v ls t =
     (let w1 = w\<lparr>buffer := buffer w @ [mkSeries name v ls t]\<rparr>;
          shouldFlush = int (length (buffer w1)) \<ge> batchSize w1 in
      if shouldFlush then flush net w1 else (w1, None))"

text \<open>One turn of \<open>flushLoop\<close> on a tick (its error is only logged), and \<open>Stop\<close>.\<close>

definition flushTick :: "(nat \<Rightarrow> send_outcome) \<Rightarrow> vm_writer \<Rightarrow> vm_writer" where
  "flushTick net w = (if cancelled w then w else fst (flush net w))"

definition Stop :: "(nat \<Rightarrow> send_outcome) \<Rightarrow> vm_writer \<Rightarrow> vm_writer" where
  "Stop net w = fst (flush net (w\<lparr>cancelled := True\<rparr>))"

definition snmp_sendWithRetry ::
  "(nat \<Rightarrow> send_outcome) \<Rightarrow> vm_writer \<Rightarrow> series list \<Rightarrow> nat \<Rightarrow> vm_writer \<times> string option" where
  "snmp_sendWithRetry net w batch maxRetries =
     sendLoop snmp_send net w batch maxRetries 0 maxRetries ''%!w(<nil>)''"

definition snmp_flush :: "(nat \<Rightarrow> send_outcome) \<Rightarrow> vm_writer \<Rightarrow> vm_writer \<times> string option" where
  "snmp_flush net w = (if buffer w = [] then (w, None)
     else let batch = buffer w in snmp_sendWithRetry net (w\<lparr>buffer := []\<rparr>) batch 3)"

definition snmp_WriteMetric ::
  "(nat \<Rightarrow> send_outcome) \<Rightarrow> vm_writer \<Rightarrow> string \<Rightarrow> f64 \<Rightarrow> labels \<Rightarrow> time \<Rightarrow> vm_writer \<times> string option" where
  "snmp_WriteMetric net w name v ls t =
     (let w1 = w\<lparr>buffer := buffer w @ [mkSeries name v ls t]\<rparr>;
          shouldFlush = int (length (buffer w1)) \<ge> batchSize w1 in
      if shouldFlush then snmp_flush net w1 else (w1, None))"

definition snmp_Stop :: "(nat \<Rightarrow> send_outcome) \<Rightarrow> vm_writer \<Rightarrow> vm_writer" where
  "snmp_Stop net w = fst (snmp_flush net (w\<lparr>cancelled := True\<rparr>))"

section \<open>Facts about the retry loop\<close>

lemma sendLoop_frame:
  "sendLoop op net w b m a left e = (w', r) \<Longrightarrow>
     buffer w' = buffer w \<and> batchSize w' = batchSize w \<and> cancelled w' = cancelled w"
proof (induction left arbitrary: w a e)
  case (Suc left)
  let ?w1 = "nap a w"
  show ?case
  proof (cases "op ?w1 (net a)")
    case None
    with Suc.prems have "w' = ?w1\<lparr>accepted := accepted ?w1 @ [b]\<rparr>" by (simp add: Let_def)
    then show ?thesis by simp
  next
    case (Some x)
    with Suc.prems have "sendLoop op net ?w1 b m (a + 1) left x = (w', r)" by (simp add: Let_def)
    from Suc.IH [OF this] show ?thesis by simp
  qed
qed simp

text \<open>A sender that looks only at whether the writer is stopped.\<close>

definition uniform :: "(vm_writer \<Rightarrow> send_outcome \<Rightarrow> string option) \<Rightarrow> bool" where
  "uniform op = (\<forall>w w' out. cancelled w = cancelled w' \<longrightarrow> op w out = op w' out)"

lemma uniformD: "uniform op \<Longrightarrow> cancelled w = cancelled w' \<Longrightarrow> op w out = op w' out"
  unfolding uniform_def by blast

lemma uniform_sends: "uniform vm_send" "uniform snmp_send"
  unfolding uniform_def vm_send_def snmp_send_def by auto

lemma sendLoop_outcome:
  assumes "uniform op"
  shows "sendLoop op net w b m a left e = (w', r) \<Longrightarrow>
     (if \<exists>k<left. op w (net (a + k)) = None
      then r = None \<and> accepted w' = accepted w @ [b] else r \<noteq> None \<and> accepted w' = accepted w)"
proof (induction left arbitrary: w a e)
  case 0
  then show ?case by auto
next
  case (Suc left)
  let ?w1 = "nap a w"
  have same: "op ?w1 out = op w out" "accepted ?w1 = accepted w" for out
    by (rule uniformD [OF assms]) simp_all
  show ?case
  proof (cases "op w (net a)")
    case None
    with Suc.prems same have "r = None \<and> accepted w' = accepted w @ [b]" by (auto simp: Let_def)
    moreover have "\<exists>k<Suc left. op w (net (a + k)) = None" using None by (intro exI [of _ 0]) simp
    ultimately show ?thesis by simp
  next
    case (Some x)
    with Suc.prems same have "sendLoop op net ?w1 b m (a + 1) left x = (w', r)" by (simp add: Let_def)
    from Suc.IH [OF this] have ih: "if \<exists>k<left. op w (net (a + 1 + k)) = None
      then r = None \<and> accepted w' = accepted w @ [b] else r \<noteq> None \<and> accepted w' = accepted w"
      by (simp only: same)
    have "(\<exists>k<Suc left. op w (net (a + k)) = None) = (\<exists>k<left. op w (net (a + 1 + k)) = None)"
      using Some by (auto simp: less_Suc_eq_0_disj)
    with ih show ?thesis by simp
  qed
qed

lemma sendLoop_sleeps:
  "sendLoop op net w b m a left e = (w', r) \<Longrightarrow>
     \<exists>n. slept w' = slept w @ map (\<lambda>k. 2 ^ (k - 1) * 1000000000) (filter (\<lambda>k. k > 0) [a..<a + n]) \<and> n \<le> left"
proof (induction left arbitrary: w a e)
  case (Suc left)
  let ?w1 = "nap a w"
  show ?case
  proof (cases "op ?w1 (net a)")
    case None
    with Suc.prems have "w' = ?w1\<lparr>accepted := accepted ?w1 @ [b]\<rparr>" by (simp add: Let_def)
    then show ?thesis by (intro exI [of _ 1]) auto
  next
    case (Some x)
    with Suc.prems have "sendLoop op net ?w1 b m (a + 1) left x = (w', r)" by (simp add: Let_def)
    from Suc.IH [OF this] obtain n where n: "n \<le> left"
      "slept w' = slept ?w1 @ map (\<lambda>k. 2 ^ (k - 1) * 1000000000) (filter (\<lambda>k. k > 0) [a + 1..<a + 1 + n])"
      by auto
    have "[a..<a + Suc n] = a # [a + 1..<a + 1 + n]" by (simp add: upt_rec)
    with n show ?thesis by (intro exI [of _ "Suc n"]) auto
  qed
qed auto

lemma flush_cases:
  "flush net w = (w', r) \<Longrightarrow>
     buffer w' = [] \<and> batchSize w' = batchSize w \<and> cancelled w' = cancelled w \<and>
     (if buffer w = [] then w' = w \<and> r = None
      else if \<exists>k<3. vm_send w (net k) = None then r = None \<and> accepted w' = accepted w @ [buffer w]
      else r \<noteq> None \<and> accepted w' = accepted w)"
proof (cases "buffer w = []")
  case False
  assume "flush net w = (w', r)"
  with False have *: "sendLoop vm_send net (w\<lparr>buffer := []\<rparr>) (buffer w) 3 0 3 ''%!w(<nil>)'' = (w', r)"
    unfolding flush_def sendWithRetry_def by (simp add: Let_def)
  have "vm_send (w\<lparr>buffer := []\<rparr>) out = vm_send w out" for out unfolding vm_send_def by simp
  with sendLoop_frame [OF *] sendLoop_outcome [OF uniform_sends(1) *] False show ?thesis by simp
qed (simp add: flush_def)

lemma snmp_flush_cases:
  "snmp_flush net w = (w', r) \<Longrightarrow>
     buffer w' = [] \<and> batchSize w' = batchSize w \<and> cancelled w' = cancelled w \<and>
     (if buffer w = [] then w' = w \<and> r = None
      else if \<exists>k<3. snmp_send w (net k) = None then r = None \<and> accepted w' = accepted w @ [buffer w]
      else r \<noteq> None \<and> accepted w' = accepted w)"
proof (cases "buffer w = []")
  case False
  assume "snmp_flush net w = (w', r)"
  with False have *: "sendLoop snmp_send net (w\<lparr>buffer := []\<rparr>) (buffer w) 3 0 3 ''%!w(<nil>)'' = (w', r)"
    unfolding snmp_flush_def snmp_sendWithRetry_def by (simp add: Let_def)
  have "snmp_send (w\<lparr>buffer := []\<rparr>) out = snmp_send w out" for out unfolding snmp_send_def by simp
  with sendLoop_frame [OF *] sendLoop_outcome [OF uniform_sends(2) *] False show ?thesis by simp
qed (simp add: snmp_flush_def)

section \<open>The buffer is bounded and a batch is delivered at most once\<close>

text \<open>The buffer stays below the batch size: a \<open>WriteMetric\<close> that fills it empties it before it
  returns, and returns the error of that flush; the sample it was called with is then in the buffer
  or in the one batch that was handed to the sender.\<close>

theorem WriteMetric_bounded:
  assumes "int (length (buffer w)) < batchSize w"
    and "WriteMetric net w name v ls t = (w', r)"
  shows "int (length (buffer w')) < batchSize w' \<and> batchSize w' = batchSize w \<and>
    (if int (length (buffer w)) + 1 < batchSize w
     then buffer w' = buffer w @ [mkSeries name v ls t] \<and> accepted w' = accepted w \<and> r = None
     else buffer w' = [] \<and>
       (if r = None then accepted w' = accepted w @ [buffer w @ [mkSeries name v ls t]]
        else accepted w' = accepted w))"
proof (cases "int (length (buffer w)) + 1 < batchSize w")
  case True
  with assms(2) have "w' = w\<lparr>buffer := buffer w @ [mkSeries name v ls t]\<rparr>" "r = None"
    unfolding WriteMetric_def by (simp_all add: Let_def)
  with True show ?thesis by simp
next
  case False
  then have "flush net (w\<lparr>buffer := buffer w @ [mkSeries name v ls t]\<rparr>) = (w', r)"
    using assms(2) unfolding WriteMetric_def by (simp add: Let_def)
  from flush_cases [OF this] False assms(1) show ?thesis by (auto split: if_splits)
qed

theorem WriteMetric_bounded_witness:
  "length (buffer (fst (WriteMetric (\<lambda>_. Response 204 []) (NewVictoriaMetricsWriter 1) ''m'' (Fin 1) [] 0))) = 0"
  using WriteMetric_bounded [of "NewVictoriaMetricsWriter 1" "\<lambda>_. Response 204 []" "''m''" "Fin 1" "[]" 0]
  by (simp add: NewVictoriaMetricsWriter_def split_beta' prod_eq_iff)

text \<open>\<open>flush\<close> empties the buffer whatever happens. It delivers the batch exactly once when one of
  its three attempts gets a 2xx answer and returns no error then; when the three attempts fail it
  returns an error and the batch is gone: it is neither delivered nor kept.\<close>

theorem flush_three_attempts:
  assumes "flush net w = (w', r)" "buffer w \<noteq> []" "\<not> cancelled w"
  shows "buffer w' = [] \<and>
    (if \<exists>k<3. \<exists>code body. net k = Response code body \<and> 200 \<le> code \<and> code < 300
     then r = None \<and> accepted w' = accepted w @ [buffer w]
     else r \<noteq> None \<and> accepted w' = accepted w)"
proof -
  have "vm_send w (net k) = None \<longleftrightarrow>
      (\<exists>code body. net k = Response code body \<and> 200 \<le> code \<and> code < 300)" for k
    using assms(3) unfolding vm_send_def by (cases "net k") auto
  with flush_cases [OF assms(1)] assms(2) show ?thesis by simp
qed

theorem flush_three_attempts_witness:
  "let w = NewVictoriaMetricsWriter 5; s = mkSeries ''m'' (Fin 1) [] 0;
       net = (\<lambda>k. if k = 2 then Response 200 [] else NoResponse ''refused'') in
   accepted (fst (flush net (w\<lparr>buffer := [s]\<rparr>))) = [[s]]"
proof -
  let ?w = "(NewVictoriaMetricsWriter 5)\<lparr>buffer := [mkSeries ''m'' (Fin 1) [] 0]\<rparr>"
  let ?net = "\<lambda>k :: nat. if k = 2 then Response 200 [] else NoResponse ''refused''"
  obtain w' r where f: "flush ?net ?w = (w', r)" by (cases "flush ?net ?w")
  have "\<exists>k<3. \<exists>code body. ?net k = Response code body \<and> 200 \<le> code \<and> code < 300"
    by (intro exI [of _ 2]) simp
  with flush_three_attempts [OF f] f show ?thesis
    by (simp add: NewVictoriaMetricsWriter_def)
qed

text \<open>\<open>Stop\<close> cancels the writer's context before its final flush, whose requests use that context:
  they all fail, so \<open>Stop\<close> delivers nothing and discards the buffer, whatever the server would
  answer.\<close>

theorem Stop_discards:
  "accepted (Stop net w) = accepted w \<and> buffer (Stop net w) = [] \<and> cancelled (Stop net w)"
proof -
  obtain w' r where f: "flush net (w\<lparr>cancelled := True\<rparr>) = (w', r)"
    by (cases "flush net (w\<lparr>cancelled := True\<rparr>)")
  have "vm_send (w\<lparr>cancelled := True\<rparr>) out \<noteq> None" for out unfolding vm_send_def by simp
  with flush_cases [OF f] f show ?thesis unfolding Stop_def by (auto split: if_splits)
qed

text \<open>The SNMP collector's writer, whose requests carry no context, does deliver on \<open>Stop\<close>: the
  whole buffer goes out in one batch when one of three attempts is answered with 200 or 204.\<close>

theorem snmp_Stop_delivers:
  assumes "buffer w \<noteq> []" "k < 3" "net k = Response code body" "code = 200 \<or> code = 204"
  shows "accepted (snmp_Stop net w) = accepted w @ [buffer w] \<and> buffer (snmp_Stop net w) = []"
proof -
  obtain w' r where f: "snmp_flush net (w\<lparr>cancelled := True\<rparr>) = (w', r)"
    by (cases "snmp_flush net (w\<lparr>cancelled := True\<rparr>)")
  have "snmp_send (w\<lparr>cancelled := True\<rparr>) (net k) = None"
    using assms(3,4) unfolding snmp_send_def by auto
  then have "\<exists>k<3. snmp_send (w\<lparr>cancelled := True\<rparr>) (net k) = None" using assms(2) by blast
  with snmp_flush_cases [OF f] f assms(1) show ?thesis unfolding snmp_Stop_def by simp
qed

theorem snmp_Stop_delivers_witness:
  "buffer (snmp_Stop (\<lambda>_. Response 204 []) ((NewVictoriaMetricsWriter 5)\<lparr>buffer := [mkSeries ''m'' NaN [] 0]\<rparr>)) = []"
  using snmp_Stop_delivers [of "(NewVictoriaMetricsWriter 5)\<lparr>buffer := [mkSeries ''m'' NaN [] 0]\<rparr>" 0
      "\<lambda>_. Response 204 []" 204 "[]"] by simp

section \<open>Interleaved writers\<close>

text \<open>
  \<open>WriteMetric\<close> and \<open>flushLoop\<close> run in several goroutines: the mutex is held for the append and for
  the copy and reset of the buffer, and not while a batch is sent. The steps of the writer at that
  grain: a sample is appended; a non-empty buffer is taken as a batch; a batch in flight is
  accepted; a batch in flight is given up after its attempts.
\<close>

record traffic =
  written :: "series multiset"
  pending :: "series list"
  inflight :: "series list multiset"
  done_ok :: "series list multiset"
  given_up :: "series list multiset"

inductive vm_step :: "traffic \<Rightarrow> traffic \<Rightarrow> bool" where
  append_sample: "vm_step c (c\<lparr>written := add_mset s (written c), pending := pending c @ [s]\<rparr>)"
| take_batch: "pending c \<noteq> [] \<Longrightarrow>
    vm_step c (c\<lparr>pending := [], inflight := add_mset (pending c) (inflight c)\<rparr>)"
| accept_batch: "b \<in># inflight c \<Longrightarrow>
    vm_step c (c\<lparr>inflight := inflight c - {#b#}, done_ok := add_mset b (done_ok c)\<rparr>)"
| drop_batch: "b \<in># inflight c \<Longrightarrow>
    vm_step c (c\<lparr>inflight := inflight c - {#b#}, given_up := add_mset b (given_up c)\<rparr>)"

inductive_cases vm_stepE: "vm_step c c'"

definition idle :: traffic where
  "idle = \<lparr>written = {#}, pending = [], inflight = {#}, done_ok = {#}, given_up = {#}\<rparr>"

definition samplesIn :: "series list multiset \<Rightarrow> series multiset" where
  "samplesIn bs = sum_mset (image_mset mset bs)"

lemma samplesIn_simps [simp]:
  "samplesIn {#} = {#}" "samplesIn (add_mset b bs) = mset b + samplesIn bs"
  unfolding samplesIn_def by simp_all

lemma samplesIn_remove: "b \<in># bs \<Longrightarrow> samplesIn bs = mset b + samplesIn (bs - {#b#})"
  by (metis insert_DiffM samplesIn_simps(2))



text \<open>The sequential operations take only such steps.\<close>

definition trafficOf :: "series multiset \<Rightarrow> series list multiset \<Rightarrow> vm_writer \<Rightarrow> traffic" where
  "trafficOf wr lost w = \<lparr>written = wr, pending = buffer w, inflight = {#},
     done_ok = mset (accepted w), given_up = lost\<rparr>"

lemma flush_steps:
  assumes "flush net w = (w', r)"
  shows "vm_step\<^sup>*\<^sup>* (trafficOf wr lost w)
    (trafficOf wr (if r = None then lost else add_mset (buffer w) lost) w')"
proof (cases "buffer w = []")
  case True
  with flush_cases [OF assms] show ?thesis by simp
next
  case False
  let ?c = "trafficOf wr lost w"
  let ?m = "?c\<lparr>pending := [], inflight := {#buffer w#}\<rparr>"
  have 1: "vm_step ?c ?m" using take_batch [of ?c] False by (simp add: trafficOf_def)
  have "vm_step ?m (trafficOf wr (if r = None then lost else add_mset (buffer w) lost) w')"
  proof (cases r)
    case None
    with flush_cases [OF assms] False have "buffer w' = []" "accepted w' = accepted w @ [buffer w]"
      by (auto split: if_splits)
    with None accept_batch [of "buffer w" ?m] show ?thesis by (simp add: trafficOf_def)
  next
    case (Some e)
    with flush_cases [OF assms] False have "buffer w' = []" "accepted w' = accepted w"
      by (auto split: if_splits)
    with Some drop_batch [of "buffer w" ?m] show ?thesis by (simp add: trafficOf_def)
  qed
  with 1 show ?thesis by (meson converse_rtranclp_into_rtranclp r_into_rtranclp)
qed

text \<open>\<open>WriteMetric\<close>, run alone, is a run of the interleaved writer that appends its sample once: the
  buffer, the accepted batches and the batches given up correspond before and after.\<close>

theorem WriteMetric_refines_steps:
  "case WriteMetric net w name v ls t of (w', r) \<Rightarrow>
     vm_step\<^sup>*\<^sup>* (trafficOf wr lost w)
       (trafficOf (add_mset (mkSeries name v ls t) wr)
          (case r of None \<Rightarrow> lost | Some _ \<Rightarrow> add_mset (buffer w @ [mkSeries name v ls t]) lost) w')"
proof -
  let ?s = "mkSeries name v ls t"
  let ?w1 = "w\<lparr>buffer := buffer w @ [?s]\<rparr>"
  have app: "vm_step (trafficOf wr lost w) (trafficOf (add_mset ?s wr) lost ?w1)"
    using append_sample [of "trafficOf wr lost w" ?s] by (simp add: trafficOf_def)
  show ?thesis
  proof (cases "int (length (buffer w)) + 1 < batchSize w")
    case True
    then have "WriteMetric net w name v ls t = (?w1, None)"
      unfolding WriteMetric_def by (simp add: Let_def)
    with app show ?thesis by (simp add: r_into_rtranclp)
  next
    case False
    obtain w' r where f: "flush net ?w1 = (w', r)" by (cases "flush net ?w1")
    with False have e: "WriteMetric net w name v ls t = (w', r)"
      unfolding WriteMetric_def by (simp add: Let_def)
    from flush_steps [OF f, of "add_mset ?s wr" lost] app show ?thesis
      unfolding e by (cases r) (auto intro: converse_rtranclp_into_rtranclp)
  qed
qed

end
