(* ===== verification/Db.thy ===== *)
theory Db
  imports Prelude
begin

text \<open>
  The PostgreSQL tables the collectors read and write, as lists of rows in table order, with the
  columns the program's statements name (\<open>backend/migrations\<close>). A nullable column is an option. A
  statement that fails leaves the tables as they were; whether it succeeds is the environment's
  choice, an argument of the operations that issue it.

  \<open>ip_address\<close> is of type \<open>inet\<close>: its cast to text has the netmask length after the address, its
  \<open>host()\<close> has not.
\<close>

section \<open>Rows\<close>

record inet =
  in_addr :: string
  in_plen :: int

definition inet_text :: "inet \<Rightarrow> string" where
  "inet_text i = in_addr i @ ''/'' @ itoa (in_plen i)"

definition inet_host :: "inet \<Rightarrow> string" where
  "inet_host i = in_addr i"

record device_row =
  dv_id :: string
  dv_hostname :: string
  dv_ip :: inet
  dv_bmc_ip :: "inet option"
  dv_type :: string
  dv_protocol :: "string option"
  dv_status :: string
  dv_last_seen :: "time option"
  dv_updated_at :: time

record credential_row =
  cr_device_id :: string
  cr_protocol :: string
  cr_username :: "string option"
  cr_password :: "string option"
  cr_port :: "int option"

record status_row =
  cs_name :: string
  cs_type :: string
  cs_status :: string
  cs_last_poll :: "time option"
  cs_last_success :: "time option"
  cs_last_error :: "string option"
  cs_updated_at :: time

record inventory_row =
  iv_device_id :: string
  iv_cpu_model :: "string option"
  iv_cpu_cores :: "int option"
  iv_cpu_threads :: "int option"
  iv_ram_total_gb :: "int option"
  iv_firmware_bmc :: "string option"
  iv_manufacturer :: "string option"
  iv_system_model :: "string option"
  iv_service_tag :: "string option"
  iv_collected_at :: time

record nic_row =
  nr_device_id :: string
  nr_model :: string
  nr_mac :: string
  nr_collected_at :: time

record disk_row =
  kr_device_id :: string
  kr_model :: string
  kr_capacity_gb :: int
  kr_serial :: string
  kr_collected_at :: time

record database =
  devices :: "device_row list"
  credentials :: "credential_row list"
  collector_status :: "status_row list"
  device_inventory :: "inventory_row list"
  device_nics :: "nic_row list"
  device_disks :: "disk_row list"

section \<open>Statements\<close>

text \<open>\<open>UPDATE ... WHERE\<close>, \<open>INSERT ... ON CONFLICT ... DO UPDATE\<close> and the read of one row by its key.\<close>

definition updateWhere :: "('r \<Rightarrow> bool) \<Rightarrow> ('r \<Rightarrow> 'r) \<Rightarrow> 'r list \<Rightarrow> 'r list" where
  "updateWhere P f rs = map (\<lambda>r. if P r then f r else r) rs"

fun upsertBy :: "('r \<Rightarrow> 'k) \<Rightarrow> 'r \<Rightarrow> ('r \<Rightarrow> 'r) \<Rightarrow> 'r list \<Rightarrow> 'r list" where
  "upsertBy key new upd [] = [new]"
| "upsertBy key new upd (r # rs) =
     (if key r = key new then upd r # rs else r # upsertBy key new upd rs)"

definition findBy :: "('r \<Rightarrow> 'k) \<Rightarrow> 'k \<Rightarrow> 'r list \<Rightarrow> 'r option" where
  "findBy key k rs = find (\<lambda>r. key r = k) rs"

section \<open>Laws of the statements\<close>

lemma findBy_simps [simp]:
  "findBy key k [] = None"
  "findBy key k (r # rs) = (if key r = k then Some r else findBy key k rs)"
  unfolding findBy_def by simp_all

lemma findBy_SomeD: "findBy key k rs = Some r \<Longrightarrow> r \<in> set rs \<and> key r = k"
  by (induction rs) (auto split: if_splits)

lemma findBy_append: "findBy key k (xs @ ys) = (case findBy key k xs of None \<Rightarrow> findBy key k ys | Some r \<Rightarrow> Some r)"
  by (induction xs) auto

lemma findBy_upsert:
  assumes "\<And>r. key (upd r) = key r"
  shows "findBy key k (upsertBy key new upd rs) =
    (if k = key new then Some (case findBy key k rs of None \<Rightarrow> new | Some r \<Rightarrow> upd r)
     else findBy key k rs)"
  by (induction rs) (auto simp: assms)

lemma findBy_update:
  assumes "\<And>r. key (f r) = key r" and "P = (\<lambda>r. key r = k')"
  shows "findBy key k (updateWhere P f rs) =
    (if k = k' then map_option f (findBy key k rs) else findBy key k rs)"
  unfolding updateWhere_def by (induction rs) (auto simp: assms)

lemma keys_upsert:
  assumes "\<And>r. key (upd r) = key r"
  shows "map key (upsertBy key new upd rs) =
    (if key new \<in> key ` set rs then map key rs else map key rs @ [key new])"
  by (induction rs) (auto simp: assms)

lemma distinct_upsert:
  assumes "\<And>r. key (upd r) = key r" "distinct (map key rs)"
  shows "distinct (map key (upsertBy key new upd rs))"
  using assms(2) by (simp add: keys_upsert assms(1))

lemma keys_update:
  assumes "\<And>r. key (f r) = key r"
  shows "map key (updateWhere P f rs) = map key rs"
  unfolding updateWhere_def by (induction rs) (auto simp: assms)

section \<open>The contract of a table with a unique key\<close>

locale keyed_table =
  fixes get :: "'t \<Rightarrow> 'k \<Rightarrow> 'r option"
    and put :: "'t \<Rightarrow> 'k \<Rightarrow> 'v \<Rightarrow> 't"
    and new :: "'k \<Rightarrow> 'v \<Rightarrow> 'r"
    and merge :: "'v \<Rightarrow> 'r \<Rightarrow> 'r"
  assumes get_put: "get (put t k v) j =
      (if j = k then Some (case get t k of None \<Rightarrow> new k v | Some r \<Rightarrow> merge v r) else get t j)"
    and merge_new: "merge w (new k v) = new k w"
    and merge_merge: "merge w (merge v r) = merge w r"
begin

text \<open>Writes to one key: the last one decides, whatever was written elsewhere in between.\<close>

lemma last_write_wins: "get (put (put t k v) k w) j = get (put t k w) j"
  by (simp add: get_put merge_new merge_merge split: option.split)

lemma put_commute: "k \<noteq> l \<Longrightarrow> get (put (put t k v) l w) j = get (put (put t l w) k v) j"
  by (simp add: get_put)

lemma get_puts_other: "\<forall>(k, v) \<in> set ws. k \<noteq> j \<Longrightarrow> get (fold (\<lambda>(k, v) t. put t k v) ws t) j = get t j"
  by (induction ws arbitrary: t) (auto simp: get_put)

lemma get_puts:
  assumes "\<forall>(l, w) \<in> set ws. l \<noteq> k"
  shows "get (fold (\<lambda>(k, v) t. put t k v) ws (put t k v)) k = get (put t k v) k"
  using assms by (rule get_puts_other)

end

end
