(* ===== verification/IpmiTool.thy ===== *)
theory IpmiTool
  imports GoFloat Db "HOL-Library.Multiset"
begin

text \<open>
  \<open>collectors/ipmi-collector/internal/collector/ipmitool.go\<close>: the commands the IPMI collector runs
  and the parsers of their output. A run of the external program \<open>ipmitool\<close> is a function from its
  argument list to a \<open>proc_result\<close>; a later run of the same command may give another result, so an
  operation that runs several takes a function per run. Logging has no effect on the model. The
  error of a function is its message.

  Each metric takes its own \<open>time.Now()\<close>: \<open>clk i\<close> is the reading for the i-th metric of the call.
\<close>

section \<open>Data\<close>

record device =
  ID :: string
  Hostname :: string
  IPAddress :: string
  BMCIPAddress :: string
  Port :: int
  Username :: string
  Password :: string
  Protocol :: string
  Status :: string

record metric =
  m_name :: string
  m_value :: f64
  m_labels :: labels
  m_time :: time

record ipmi_data =
  d_metrics :: "metric list"
  d_selLogs :: "string list"

record sdr_record =
  SensorName :: string
  SensorID :: string
  SensorType :: string
  EntityID :: string
  Reading :: string
  sdr_Status :: string

text \<open>A process that ended with status 0 has no error; one that ended otherwise has an
  \<open>*exec.ExitError\<close>; one that could not be run has another error.\<close>

datatype proc_error = Exited int string | NotRun string

record proc_result =
  p_stdout :: string
  p_stderr :: string
  p_combined :: string
  p_error :: "proc_error option"

type_synonym ipmitool = "string list \<Rightarrow> proc_result"

fun proc_error_msg :: "proc_error \<Rightarrow> string" where
  "proc_error_msg (Exited code msg) = msg"
| "proc_error_msg (NotRun msg) = msg"

section \<open>Running a command\<close>

text \<open>\<open>validateIPMIInput\<close>: the regular expression [a-zA-Z0-9.-_]+ over the whole input.\<close>

definition ipmi_char :: "char \<Rightarrow> bool" where
  "ipmi_char c = (is_lower c \<or> is_upper c \<or> is_digit c \<or> c = CHR ''.'' \<or> c = CHR ''-'' \<or> c = CHR ''_'')"

definition validateIPMIInput :: "string \<Rightarrow> string option" where
  "validateIPMIInput input = (if input \<noteq> [] \<and> list_all ipmi_char input then None
     else Some ''input contains invalid characters'')"

definition baseArgs :: "string \<Rightarrow> string \<Rightarrow> string \<Rightarrow> int \<Rightarrow> string list" where
  "baseArgs h u p port = [''-I'', ''lanplus'', ''-H'', h, ''-U'', u, ''-P'', p, ''-p'', itoa port]"

definition commandLine :: "string \<Rightarrow> string \<Rightarrow> string \<Rightarrow> int \<Rightarrow> string list \<Rightarrow> string list" where
  "commandLine h u p port args = baseArgs h u p (if port \<le> 0 then 623 else port) @ args"

definition ExecuteIPMIToolWithPort ::
  "ipmitool \<Rightarrow> string \<Rightarrow> int \<Rightarrow> string \<Rightarrow> string \<Rightarrow> string list \<Rightarrow> string result" where
  "ExecuteIPMIToolWithPort tool h port u p args =
     (case validateIPMIInput h of Some e \<Rightarrow> Inl (''invalid host: '' @ e)
      | None \<Rightarrow> (case validateIPMIInput u of Some e \<Rightarrow> Inl (''invalid username: '' @ e)
      | None \<Rightarrow>
         let r = tool (commandLine h u p port args) in
         (case p_error r of
            Some e \<Rightarrow> Inl (''ipmitool command failed: '' @ proc_error_msg e @ '' (output: '' @
              p_combined r @ '')'')
          | None \<Rightarrow> Inr (p_combined r))))"

definition ExecuteIPMITool ::
  "ipmitool \<Rightarrow> string \<Rightarrow> string \<Rightarrow> string \<Rightarrow> string list \<Rightarrow> string result" where
  "ExecuteIPMITool tool h u p args = ExecuteIPMIToolWithPort tool h 623 u p args"

text \<open>The address and port that every command of the file computes first.\<close>

definition target_host :: "device \<Rightarrow> string" where
  "target_host d = (if BMCIPAddress d = [] then IPAddress d else BMCIPAddress d)"

definition target_port :: "device \<Rightarrow> int" where
  "target_port d = (if Port d = 0 then 623 else Port d)"

definition deviceArgs :: "device \<Rightarrow> string list" where
  "deviceArgs d = baseArgs (target_host d) (Username d) (Password d) (target_port d)"

fun exit_code :: "proc_error \<Rightarrow> int" where
  "exit_code (Exited code msg) = code"
| "exit_code (NotRun msg) = - 1"

definition exit_stderr :: "proc_result \<Rightarrow> proc_error \<Rightarrow> string" where
  "exit_stderr r e = (case e of Exited _ _ \<Rightarrow> p_stderr r | NotRun _ \<Rightarrow> [])"

text \<open>\<open>cmd.Output()\<close> and the error branch that the run functions share.\<close>

definition runCommand :: "ipmitool \<Rightarrow> device \<Rightarrow> string list \<Rightarrow> string \<Rightarrow> string result" where
  "runCommand tool d args what = (let r = tool (deviceArgs d @ args) in
     case p_error r of None \<Rightarrow> Inr (p_stdout r)
     | Some e \<Rightarrow> Inl (''ipmitool '' @ what @ '' failed (exit '' @ itoa (exit_code e) @ ''): '' @
         exit_stderr r e))"

section \<open>Chassis status\<close>

fun chassisScan :: "string list \<Rightarrow> f64" where
  "chassisScan [] = Fin 0"
| "chassisScan (line # rest) =
     (if contains line ''System Power''
      then (case splitN2 CHR '':'' line of
          [_, state] \<Rightarrow> (if trimSpace (toLower state) = ''on'' then Fin 1 else Fin 0)
        | _ \<Rightarrow> chassisScan rest)
      else chassisScan rest)"

definition parseChassisPowerState :: "string \<Rightarrow> f64" where
  "parseChassisPowerState output = chassisScan (scanLines output)"

definition runChassisStatus :: "ipmitool \<Rightarrow> device \<Rightarrow> time \<Rightarrow> metric list result" where
  "runChassisStatus tool d now =
     (case runCommand tool d [''chassis'', ''status''] ''chassis status'' of
        Inl e \<Rightarrow> Inl e
      | Inr out \<Rightarrow> Inr [\<lparr>m_name = ''infrasense_ipmi_chassis_power_state'',
          m_value = parseChassisPowerState out,
          m_labels = [(''device_id'', ID d), (''hostname'', Hostname d)], m_time = now\<rparr>])"

section \<open>Sensor list\<close>

definition parseSensorLine :: "string \<Rightarrow> (string \<times> f64 \<times> string) option" where
  "parseSensorLine line = (if trimSpace line = [] then None
     else let fs = splitOn CHR ''|'' line in
       if length fs < 3 then None
       else let sensorName = trimSpace (fs ! 0); valueStr = trimSpace (fs ! 1);
                unit = trimSpace (fs ! 2); valueLower = toLower valueStr in
         if valueLower = ''na'' \<or> valueLower = ''n/a'' \<or> valueStr = [] then None
         else case parse_float valueStr of (value, ok) \<Rightarrow>
           if ok then Some (sensorName, value, unit) else None)"

definition parseSensorList :: "string \<Rightarrow> device \<Rightarrow> (nat \<Rightarrow> time) \<Rightarrow> metric list result" where
  "parseSensorList output d clk =
     Inr (map (\<lambda>(i, sensorName, value, unit).
         \<lparr>m_name = ''infrasense_ipmi_sensor_value'', m_value = value,
          m_labels = [(''sensor_name'', sensorName), (''unit'', unit), (''device_id'', ID d),
            (''hostname'', Hostname d)],
          m_time = clk i\<rparr>)
       (enumerate 0 (List.map_filter parseSensorLine (scanLines output))))"

definition runSensorList :: "ipmitool \<Rightarrow> device \<Rightarrow> (nat \<Rightarrow> time) \<Rightarrow> metric list result" where
  "runSensorList tool d clk = (case runCommand tool d [''sensor''] ''sensor'' of
     Inl e \<Rightarrow> Inl e | Inr out \<Rightarrow> parseSensorList out d clk)"

section \<open>Sensor types and SDR records\<close>

definition determineSensorType :: "string \<Rightarrow> string \<Rightarrow> string" where
  "determineSensorType sensorName unit = (let n = toLower sensorName in
     if contains n ''temp'' \<or> contains unit ''degrees'' then
       (if contains n ''cpu'' then ''temperature_cpu_celsius''
        else if contains n ''inlet'' then ''temperature_inlet_celsius''
        else if contains n ''exhaust'' then ''temperature_exhaust_celsius''
        else if contains n ''system'' then ''temperature_system_celsius''
        else ''temperature_celsius'')
     else if contains n ''fan'' \<or> contains unit ''rpm'' then ''fan_speed_rpm''
     else if contains n ''volt'' \<or> contains unit ''volts'' then
       (if contains n ''12v'' then ''voltage_12v''
        else if contains n ''5v'' then ''voltage_5v''
        else if contains n ''3.3v'' then ''voltage_3v3''
        else if contains n ''vcore'' \<or> contains n ''cpu'' then ''voltage_vcore''
        else ''voltage'')
     else if contains n ''power'' \<or> contains n ''watt'' \<or> contains unit ''watts''
       then ''power_watts''
     else ''other'')"

definition parseSDRLine :: "string \<Rightarrow> sdr_record option" where
  "parseSDRLine line = (if trimSpace line = [] then None
     else let fs = splitOn CHR ''|'' line in
       if length fs < 3 then None
       else let sensorName = trimSpace (fs ! 0); reading = trimSpace (fs ! 1);
                status = trimSpace (fs ! 2) in
         if sensorName = [] then None
         else Some \<lparr>SensorName = sensorName, SensorID = [],
           SensorType = determineSensorType sensorName [], EntityID = [], Reading = reading,
           sdr_Status = status\<rparr>)"

definition parseSDRRecords :: "string \<Rightarrow> sdr_record list" where
  "parseSDRRecords output = List.map_filter parseSDRLine (scanLines output)"

definition runSDR :: "ipmitool \<Rightarrow> device \<Rightarrow> sdr_record list result" where
  "runSDR tool d = (case runCommand tool d [''sdr''] ''sdr'' of
     Inl e \<Rightarrow> Inl e | Inr out \<Rightarrow> Inr (parseSDRRecords out))"

section \<open>System event log\<close>

text \<open>The \<open>switch\<close> on the description, and the severity of a line that is an entry.\<close>

definition selSeverity :: "string \<Rightarrow> string" where
  "selSeverity description =
     (if contains description ''critical'' \<or> contains description ''non-recoverable'' \<or>
         contains description ''failure'' then ''critical''
      else if contains description ''warning'' \<or> contains description ''non-critical'' \<or>
         contains description ''degraded'' then ''warning''
      else ''info'')"

definition selEntry :: "string \<Rightarrow> string option" where
  "selEntry text = (let line = trimSpace text in
     if line = [] \<or> hasPrefix line ''SEL has no entries'' then None
     else let fs = splitOn CHR ''|'' line in
       if length fs < 5 then None
       else Some (selSeverity (toLower (trimSpace (fs ! 4)))))"

definition selCounts :: "string list \<Rightarrow> string \<Rightarrow> f64" where
  "selCounts lines = foldl (\<lambda>counts line. case selEntry line of None \<Rightarrow> counts
     | Some sev \<Rightarrow> counts(sev := fadd (counts sev) (Fin 1))) (\<lambda>_. Fin 0) lines"

text \<open>\<open>order\<close> is the order in which the runtime ranges over the map of counts.\<close>

definition severities :: "string list" where
  "severities = [''critical'', ''warning'', ''info'']"

definition parseSELEntries ::
  "string list \<Rightarrow> string \<Rightarrow> device \<Rightarrow> (nat \<Rightarrow> time) \<Rightarrow> metric list result" where
  "parseSELEntries order output d clk = (let counts = selCounts (scanLines output) in
     Inr (map (\<lambda>(i, sev).
         \<lparr>m_name = ''infrasense_ipmi_sel_entries_total'', m_value = counts sev,
          m_labels = [(''severity'', sev), (''device_id'', ID d), (''hostname'', Hostname d)],
          m_time = clk i\<rparr>)
       (enumerate 0 order)))"

definition runSELList ::
  "ipmitool \<Rightarrow> string list \<Rightarrow> device \<Rightarrow> (nat \<Rightarrow> time) \<Rightarrow> metric list result" where
  "runSELList tool order d clk = (case runCommand tool d [''sel'', ''list''] ''sel list'' of
     Inl e \<Rightarrow> Inl e | Inr out \<Rightarrow> parseSELEntries order out d clk)"

definition parseSELLogs :: "string \<Rightarrow> string list" where
  "parseSELLogs output =
     filter (\<lambda>line. line \<noteq> [] \<and> \<not> hasPrefix line ''SEL has no entries'') (scanLines output)"

section \<open>FRU inventory\<close>

definition fruLine :: "string \<times> string \<times> string \<Rightarrow> string \<Rightarrow> string \<times> string \<times> string" where
  "fruLine acc line = (case splitN2 CHR '':'' line of
       [k, v] \<Rightarrow> (let key = trimSpace k; value = trimSpace v in
         case acc of (manufacturer, productName, serialNumber) \<Rightarrow>
           if key = ''Product Manufacturer'' then (value, productName, serialNumber)
           else if key = ''Product Name'' then (manufacturer, value, serialNumber)
           else if key = ''Product Serial'' then (manufacturer, productName, value)
           else acc)
     | _ \<Rightarrow> acc)"

definition parseFRUOutput :: "string \<Rightarrow> string \<times> string \<times> string" where
  "parseFRUOutput output = foldl fruLine ([], [], []) (scanLines output)"

text \<open>The upsert of \<open>runFRU\<close>: a new row has NULL in the columns the statement does not name.\<close>

definition fruUpsert ::
  "string \<Rightarrow> string \<times> string \<times> string \<Rightarrow> time \<Rightarrow> inventory_row list \<Rightarrow> inventory_row list" where
  "fruUpsert d v now rows = (case v of (manufacturer, productName, serialNumber) \<Rightarrow>
     upsertBy iv_device_id
       \<lparr>iv_device_id = d, iv_cpu_model = None, iv_cpu_cores = None, iv_cpu_threads = None,
        iv_ram_total_gb = None, iv_firmware_bmc = None, iv_manufacturer = Some manufacturer,
        iv_system_model = Some productName, iv_service_tag = Some serialNumber,
        iv_collected_at = now\<rparr>
       (\<lambda>r. r\<lparr>iv_manufacturer := Some manufacturer, iv_system_model := Some productName,
          iv_service_tag := Some serialNumber, iv_collected_at := now\<rparr>) rows)"

definition runFRU ::
  "ipmitool \<Rightarrow> device \<Rightarrow> string option \<Rightarrow> time \<Rightarrow> database \<Rightarrow> database \<times> string option" where
  "runFRU tool d dbErr now db = (case runCommand tool d [''fru''] ''fru'' of
     Inl e \<Rightarrow> (db, Some e)
   | Inr out \<Rightarrow> (case dbErr of
       Some e \<Rightarrow> (db, Some (''failed to upsert FRU inventory for device '' @ ID d @ '': '' @ e))
     | None \<Rightarrow> (db\<lparr>device_inventory :=
         fruUpsert (ID d) (parseFRUOutput out) now (device_inventory db)\<rparr>, None)))"

section \<open>The older collection path\<close>

definition parseValue :: "string \<Rightarrow> (f64 \<times> string) result" where
  "parseValue valueStr = (case strFields valueStr of
     [] \<Rightarrow> Inl ''empty value''
   | p # ps \<Rightarrow> (case parse_float p of (value, ok) \<Rightarrow>
       if \<not> ok then Inl (''not a number: '' @ p)
       else Inr (value, case ps of [] \<Rightarrow> [] | q # _ \<Rightarrow> toLower q)))"

text \<open>
  The submatches of the regular expression of \<open>parseSensorData\<close>: the text before the first bar, the
  text between the first two without its leading white space, the text after the second without its
  leading white space. None of the three may be empty; where a section is all white space the
  expression gives back its last character.
\<close>

definition re_space :: "char \<Rightarrow> bool" where
  "re_space c = (code_of c = 32 \<or> code_of c = 9 \<or> code_of c = 10 \<or> code_of c = 12 \<or> code_of c = 13)"

definition afterSpaces :: "string \<Rightarrow> string" where
  "afterSpaces s = (let r = dropWhile re_space s in if r = [] then [last s] else r)"

definition sensorRegex :: "string \<Rightarrow> (string \<times> string \<times> string) option" where
  "sensorRegex line = (let g1 = takeWhile (\<lambda>c. c \<noteq> CHR ''|'') line;
       r1 = dropWhile (\<lambda>c. c \<noteq> CHR ''|'') line in
     if g1 = [] \<or> r1 = [] then None
     else let s2 = takeWhile (\<lambda>c. c \<noteq> CHR ''|'') (tl r1);
              r2 = dropWhile (\<lambda>c. c \<noteq> CHR ''|'') (tl r1) in
       if s2 = [] \<or> r2 = [] \<or> tl r2 = [] then None
       else Some (g1, afterSpaces s2, afterSpaces (tl r2)))"

definition sensorMatches :: "string \<Rightarrow> (string \<times> string \<times> string) option" where
  "sensorMatches line = (case sensorRegex line of
     Some m \<Rightarrow> Some m
   | None \<Rightarrow> (let parts = splitOn CHR ''|'' line in
       if length parts \<ge> 3
       then Some (trimSpace (parts ! 0), trimSpace (parts ! 1), trimSpace (parts ! 2))
       else None))"

definition discreteValue :: "string \<Rightarrow> f64 option" where
  "discreteValue valLower =
     (if valLower = ''ok'' \<or> valLower = ''enabled'' \<or> valLower = ''present'' \<or>
         valLower = ''online'' then Some (Fin 1)
      else if valLower = ''failed'' \<or> valLower = ''disabled'' \<or> valLower = ''absent'' \<or>
         valLower = ''offline'' then Some (Fin 0)
      else None)"

definition sensorDataLine :: "string \<Rightarrow> (string \<times> f64 \<times> string \<times> string) option" where
  "sensorDataLine line = (if trimSpace line = [] then None
     else case sensorMatches line of None \<Rightarrow> None
     | Some (m1, m2, m3) \<Rightarrow>
       (let sensorName = trimSpace m1; valueStr = trimSpace m2; status = trimSpace m3;
            valLower = toLower valueStr in
        if valLower = ''na'' \<or> valLower = ''n/a'' \<or> valLower = ''none'' then None
        else case parseValue valueStr of
            Inr (value, unit) \<Rightarrow> Some (sensorName, value, determineSensorType sensorName unit, status)
          | Inl _ \<Rightarrow> (case discreteValue valLower of None \<Rightarrow> None
              | Some value \<Rightarrow> Some (sensorName, value, determineSensorType sensorName [], status))))"

definition parseSensorData :: "string \<Rightarrow> string \<Rightarrow> (nat \<Rightarrow> time) \<Rightarrow> metric list result" where
  "parseSensorData output d clk =
     Inr (map (\<lambda>(i, sensorName, value, sensorType, status).
         \<lparr>m_name = ''infrasense_ipmi_'' @ sensorType, m_value = value,
          m_labels = [(''device_id'', d), (''sensor_name'', sensorName),
            (''sensor_type'', sensorType), (''status'', status)],
          m_time = clk i\<rparr>)
       (enumerate 0 (List.map_filter sensorDataLine (scanLines output))))"

definition psuLine :: "string \<Rightarrow> (string \<times> string) option" where
  "psuLine line = (if contains line ''Power Supply''
     then let parts = splitOn CHR ''|'' line in
       if length parts \<ge> 3 then Some (trimSpace (parts ! 0), trimSpace (parts ! 2)) else None
     else None)"

definition collectPSUStatus :: "ipmitool \<Rightarrow> device \<Rightarrow> (nat \<Rightarrow> time) \<Rightarrow> metric list result" where
  "collectPSUStatus tool d clk =
     (case ExecuteIPMIToolWithPort tool (target_host d) (target_port d) (Username d) (Password d)
        [''sdr'', ''type'', ''Power Supply''] of
        Inl e \<Rightarrow> Inl e
      | Inr output \<Rightarrow> Inr (map (\<lambda>(i, psuName, status).
          \<lparr>m_name = ''infrasense_ipmi_psu_status'',
           m_value = (if contains (toLower status) ''ok'' then Fin 1 else Fin 0),
           m_labels = [(''device_id'', ID d), (''sensor_name'', psuName),
             (''sensor_type'', ''psu_status''), (''status'', status)],
           m_time = clk i\<rparr>)
         (enumerate 0 (List.map_filter psuLine (scanLines output)))))"

text \<open>The runs of one call, in order: chassis status, full SDR, plain SDR, power supplies, SEL.\<close>

definition CollectIPMIData ::
  "(nat \<Rightarrow> ipmitool) \<Rightarrow> device \<Rightarrow> time \<Rightarrow> (nat \<Rightarrow> time) \<Rightarrow> (nat \<Rightarrow> time) \<Rightarrow> ipmi_data result" where
  "CollectIPMIData tool d now clkS clkP =
     (case runChassisStatus (tool 0) d now of Inl e \<Rightarrow> Inl e
      | Inr chassis \<Rightarrow>
        (let exec = (\<lambda>k args. ExecuteIPMIToolWithPort (tool k) (target_host d) (target_port d)
               (Username d) (Password d) args);
             sensorOutput = (case exec 1 [''sdr'', ''list'', ''full''] of
                 Inr out \<Rightarrow> Inr out | Inl _ \<Rightarrow> exec 2 [''sdr'']) in
         case sensorOutput of
           Inl e \<Rightarrow> Inl (''failed to collect sensor data from both sdr list full and basic sdr: '' @ e)
         | Inr out \<Rightarrow>
           (case parseSensorData out (ID d) clkS of
              Inl e \<Rightarrow> Inl (''failed to parse sensor data: '' @ e)
            | Inr sensors \<Rightarrow>
              (let psus = (case collectPSUStatus (tool 3) d clkP of Inl _ \<Rightarrow> [] | Inr ms \<Rightarrow> ms);
                   logs = (case exec 4 [''sel'', ''list''] of Inl _ \<Rightarrow> [] | Inr o4 \<Rightarrow> parseSELLogs o4) in
               Inr \<lparr>d_metrics = chassis @ sensors @ psus, d_selLogs = logs\<rparr>))))"

section \<open>Sensor output reads back\<close>

text \<open>A row of \<open>ipmitool sensor\<close> as the program prints it, with a whole number as its reading.\<close>

definition sensorRow :: "string \<times> int \<times> string \<Rightarrow> string" where
  "sensorRow row = (case row of (n, v, u) \<Rightarrow> n @ '' | '' @ itoa v @ '' | '' @ u @ '' | ok'')"

definition sensorRow_ok :: "string \<times> int \<times> string \<Rightarrow> bool" where
  "sensorRow_ok row = (case row of (n, v, u) \<Rightarrow> trimmed n \<and> trimmed u \<and>
     CHR ''|'' \<notin> set n \<and> CHR ''|'' \<notin> set u \<and> newline \<notin> set n \<and> newline \<notin> set u \<and>
     \<bar>v\<bar> \<le> 9007199254740992 \<and> int (length (sensorRow row)) \<le> 65535)"

lemma splitOn_bars:
  assumes "CHR ''|'' \<notin> set n" "CHR ''|'' \<notin> set v" "CHR ''|'' \<notin> set u"
  shows "splitOn CHR ''|'' (n @ '' | '' @ v @ '' | '' @ u @ '' | ok'') =
    [n @ '' '', '' '' @ v @ '' '', '' '' @ u @ '' '', '' ok'']"
proof -
  have e: "n @ '' | '' @ v @ '' | '' @ u @ '' | ok'' = (n @ '' '') @ CHR ''|'' # ('' '' @ v @ '' '') @
      CHR ''|'' # ('' '' @ u @ '' '') @ CHR ''|'' # '' ok''" by simp
  have free: "CHR ''|'' \<notin> set (n @ '' '')" "CHR ''|'' \<notin> set ('' '' @ v @ '' '')"
      "CHR ''|'' \<notin> set ('' '' @ u @ '' '')"
    using assms by auto
  show ?thesis
    unfolding e splitOn_append [OF free(1)] splitOn_append [OF free(2)] splitOn_append [OF free(3)]
    by simp
qed

lemma blank_space: "is_space CHR '' ''"
  unfolding is_space_def code_of_def by simp

lemma itoa_no_char:
  assumes "code_of c < 48 \<or> 57 < code_of c" "c \<noteq> CHR ''-''"
  shows "c \<notin> set (itoa v)"
  using itoa_set [of c v] assms unfolding is_digit_def by auto

lemma itoa_not_word:
  assumes "is_lower c" "d \<noteq> c" shows "toLower (itoa v) \<noteq> c # w"
proof
  assume a: "toLower (itoa v) = c # w"
  then obtain x xs where x: "itoa v = x # xs" "lower_char x = c"
    unfolding toLower_def by (cases "itoa v") auto
  then have "x = CHR ''-'' \<or> is_digit x" using itoa_set [of x v] by simp
  then have "lower_char x = x" "\<not> is_lower x"
    unfolding lower_char_def is_upper_def is_digit_def is_lower_def by (auto simp: code_of_def)
  with x assms show False by simp
qed

lemma parseSensorLine_row:
  assumes "sensorRow_ok (n, v, u)"
  shows "parseSensorLine (sensorRow (n, v, u)) = Some (n, Fin (of_int v), u)"
proof -
  let ?l = "sensorRow (n, v, u)"
  have ok: "trimmed n" "trimmed u" "CHR ''|'' \<notin> set n" "CHR ''|'' \<notin> set u"
      "\<bar>v\<bar> \<le> 9007199254740992"
    using assms unfolding sensorRow_ok_def by auto
  have sp: "splitOn CHR ''|'' ?l = [n @ '' '', '' '' @ itoa v @ '' '', '' '' @ u @ '' '', '' ok'']"
    unfolding sensorRow_def using splitOn_bars [OF ok(3) _ ok(4), of "itoa v"]
    by (simp add: itoa_no_char code_of_def)
  have t: "trimSpace (n @ '' '') = n" "trimSpace ('' '' @ itoa v @ '' '') = itoa v"
      "trimSpace ('' '' @ u @ '' '') = u"
    using trimSpace_pad [of "[]" "'' ''" n] trimSpace_pad [of "'' ''" "'' ''" "itoa v"]
      trimSpace_pad [of "'' ''" "'' ''" u] ok trimmed_itoa blank_space by simp_all
  have ne: "trimSpace ?l \<noteq> []"
    by (rule trimSpace_nonempty [of "CHR ''|''"]) (simp_all add: sensorRow_def is_space_def code_of_def)
  have nw: "toLower (itoa v) \<noteq> ''na''" "toLower (itoa v) \<noteq> ''n/a''"
    by (rule itoa_not_word [where d = "CHR ''x''"], simp_all add: is_lower_def code_of_def)+
  show ?thesis
    unfolding parseSensorLine_def sp Let_def using ne nw
    by (simp add: t [simplified] parse_float_itoa [OF ok(5)])
qed


lemma sensorRow_ok_example: "sensorRow_ok (''CPU Temp'', - 45, ''degrees C'')"
  by code_simp


section \<open>What the parsers return\<close>

text \<open>Every metric of \<open>parseSensorList\<close> comes from a line of the output with at least three
  bar-separated fields: it carries the first field as sensor name, the third as unit and the value
  that \<open>strconv.ParseFloat\<close> gives for the second, which is not one of the absent readings.\<close>

theorem parseSensorList_sound:
  assumes "parseSensorList output d clk = Inr ms" "m \<in> set ms"
  shows "\<exists>line \<in> set (scanLines output). \<exists>f0 f1 f2 fs.
    splitOn CHR ''|'' line = f0 # f1 # f2 # fs \<and>
    m_labels m = [(''sensor_name'', trimSpace f0), (''unit'', trimSpace f2), (''device_id'', ID d),
      (''hostname'', Hostname d)] \<and>
    parse_float (trimSpace f1) = (m_value m, True) \<and>
    toLower (trimSpace f1) \<notin> {[], ''na'', ''n/a''}"
proof -
  have "ms = map (\<lambda>(i, sensorName, value, unit).
      \<lparr>m_name = ''infrasense_ipmi_sensor_value'', m_value = value,
       m_labels = [(''sensor_name'', sensorName), (''unit'', unit), (''device_id'', ID d),
         (''hostname'', Hostname d)], m_time = clk i\<rparr>)
      (enumerate 0 (List.map_filter parseSensorLine (scanLines output)))"
    using assms(1) unfolding parseSensorList_def by simp
  with assms(2) obtain i n v u where
      m: "m_labels m = [(''sensor_name'', n), (''unit'', u), (''device_id'', ID d),
        (''hostname'', Hostname d)]" "m_value m = v"
    and "(n, v, u) \<in> set (List.map_filter parseSensorLine (scanLines output))"
    by (auto dest!: in_set_enumerateD)
  then obtain line where line: "line \<in> set (scanLines output)" "parseSensorLine line = Some (n, v, u)"
    by (auto simp: set_map_filter)
  let ?fs = "splitOn CHR ''|'' line"
  have 3: "\<not> length ?fs < 3" and c: "n = trimSpace (?fs ! 0)" "u = trimSpace (?fs ! 2)"
      "parse_float (trimSpace (?fs ! 1)) = (v, True)"
      "toLower (trimSpace (?fs ! 1)) \<notin> {[], ''na'', ''n/a''}"
    using line(2) unfolding parseSensorLine_def
    by (auto simp: Let_def toLower_def split: if_splits prod.splits)
  obtain f0 f1 f2 fs where fs: "?fs = f0 # f1 # f2 # fs"
    using 3 by (cases ?fs; cases "tl ?fs"; cases "tl (tl ?fs)") auto
  show ?thesis
    using line(1) fs m c by (intro bexI [of _ line]) auto
qed

theorem parseSensorList_sound_witness:
  "\<exists>line \<in> set (scanLines (unlines [sensorRow (''Fan'', 900, ''RPM'')])). \<exists>f0 f1 f2 fs.
     splitOn CHR ''|'' line = f0 # f1 # f2 # fs \<and> trimSpace f0 = ''Fan''"
proof -
  let ?d = "\<lparr>ID = [], Hostname = [], IPAddress = [], BMCIPAddress = [], Port = 0, Username = [],
      Password = [], Protocol = [], Status = []\<rparr>"
  let ?m = "\<lparr>m_name = ''infrasense_ipmi_sensor_value'', m_value = Fin 900,
     m_labels = [(''sensor_name'', ''Fan''), (''unit'', ''RPM''), (''device_id'', []),
       (''hostname'', [])], m_time = 0\<rparr>"
  have "parseSensorList (unlines [sensorRow (''Fan'', 900, ''RPM'')]) ?d (\<lambda>_. 0) = Inr [?m]"
    by code_simp
  from parseSensorList_sound [OF this, of ?m] show ?thesis by fastforce
qed

text \<open>The entry lines of a severity.\<close>

definition entriesOf :: "string \<Rightarrow> string list \<Rightarrow> string list" where
  "entriesOf sev lines = filter (\<lambda>l. selEntry l = Some sev) lines"

lemma fadd_one:
  assumes "0 \<le> n" "n < 9007199254740992"
  shows "fadd (Fin (of_int n)) (Fin 1) = Fin (of_int (n + 1))"
proof -
  from assms have "\<bar>n + 1\<bar> \<le> 9007199254740992" by simp
  then have "round64 (of_int (n + 1)) = Fin (of_int (n + 1))" by (rule round64_of_int)
  then show ?thesis by simp
qed

lemma selCounts_eq:
  assumes "int (length lines) \<le> 9007199254740992"
  shows "selCounts lines sev = Fin (of_int (int (length (entriesOf sev lines))))"
  using assms
proof (induction lines rule: rev_induct)
  case Nil
  then show ?case unfolding selCounts_def entriesOf_def by simp
next
  case (snoc l lines)
  have le: "length (entriesOf s lines) \<le> length lines" for s unfolding entriesOf_def by simp
  have n: "int (length (entriesOf s lines)) < 9007199254740992" for s
    using snoc.prems le [of s] by simp
  have "selCounts (lines @ [l]) sev = (case selEntry l of None \<Rightarrow> selCounts lines sev
      | Some s \<Rightarrow> if s = sev then fadd (selCounts lines s) (Fin 1) else selCounts lines sev)"
    unfolding selCounts_def by (simp split: option.split)
  moreover have "entriesOf sev (lines @ [l]) = entriesOf sev lines @ (if selEntry l = Some sev then [l] else [])"
    unfolding entriesOf_def by simp
  moreover have "selCounts lines sev = Fin (of_int (int (length (entriesOf sev lines))))"
    using snoc by simp
  ultimately show ?case
    using fadd_one [OF _ n [of sev]] by (auto split: option.split)
qed

lemma selEntry_severity: "selEntry l = Some sev \<Longrightarrow> sev \<in> set severities"
  unfolding selEntry_def selSeverity_def severities_def by (auto simp: Let_def split: if_splits)

lemma entries_partition:
  "sum_list (map (\<lambda>sev. length (entriesOf sev lines)) severities) =
   length (filter (\<lambda>l. selEntry l \<noteq> None) lines)"
proof (induction lines)
  case (Cons l lines)
  then show ?case
    using selEntry_severity [of l] by (cases "selEntry l") (auto simp: entriesOf_def severities_def)
qed (simp add: entriesOf_def severities_def)

text \<open>Whatever order the runtime ranges over the counters in, \<open>parseSELEntries\<close> emits one metric per
  severity whose value is the number of log entries of that severity, and the three numbers add up
  to the number of entries. (The counters are floats: the numbers are exact below 2 to the 53
  lines.)\<close>

theorem parseSELEntries_counts:
  assumes "mset order = mset severities" "int (length (scanLines output)) \<le> 9007199254740992"
    and "parseSELEntries order output d clk = Inr ms"
  shows "map (\<lambda>m. (map_of (m_labels m) ''severity'', m_value m)) ms =
      map (\<lambda>sev. (Some sev, Fin (of_int (int (length (entriesOf sev (scanLines output))))))) order \<and>
    sum_list (map (\<lambda>sev. length (entriesOf sev (scanLines output))) order) =
      length (filter (\<lambda>l. selEntry l \<noteq> None) (scanLines output))"
proof
  have "ms = map (\<lambda>(i, sev).
         \<lparr>m_name = ''infrasense_ipmi_sel_entries_total'', m_value = selCounts (scanLines output) sev,
          m_labels = [(''severity'', sev), (''device_id'', ID d), (''hostname'', Hostname d)],
          m_time = clk i\<rparr>) (enumerate 0 order)"
    using assms(3) unfolding parseSELEntries_def Let_def by simp
  then show "map (\<lambda>m. (map_of (m_labels m) ''severity'', m_value m)) ms =
      map (\<lambda>sev. (Some sev, Fin (of_int (int (length (entriesOf sev (scanLines output))))))) order"
    using map_enumerate_const [of "\<lambda>sev. (Some sev, selCounts (scanLines output) sev)" 0 order]
    by (simp add: selCounts_eq [OF assms(2)] split_def comp_def)
  have "sum_list (map f order) = sum_list (map f severities)" for f :: "string \<Rightarrow> nat"
    by (metis assms(1) mset_map sum_mset_sum_list)
  then show "sum_list (map (\<lambda>sev. length (entriesOf sev (scanLines output))) order) =
      length (filter (\<lambda>l. selEntry l \<noteq> None) (scanLines output))"
    by (simp add: entries_partition)
qed

theorem parseSELEntries_counts_witness:
  "sum_list (map (\<lambda>sev. length (entriesOf sev (scanLines ''1 | d | t | s | Failure | Asserted'')))
     [''info'', ''warning'', ''critical'']) =
   length (filter (\<lambda>l. selEntry l \<noteq> None) (scanLines ''1 | d | t | s | Failure | Asserted''))"
proof -
  have "int (length (scanLines ''1 | d | t | s | Failure | Asserted'')) \<le> 9007199254740992"
    by code_simp
  moreover have "mset [''info'', ''warning'', ''critical''] = mset severities"
    unfolding severities_def by simp
  moreover obtain ms where "parseSELEntries [''info'', ''warning'', ''critical'']
      ''1 | d | t | s | Failure | Asserted'' undefined undefined = Inr ms"
    unfolding parseSELEntries_def Let_def by blast
  ultimately show ?thesis by (intro conjunct2 [OF parseSELEntries_counts])
qed

text \<open>The severity switch never gives "warning" to a description that contains "non-critical":
  the test for "critical" before it already holds, so such an entry is "critical" (the comment above
  \<open>parseSELEntries\<close> says "warning"), and "warning" needs one of the two other words.\<close>

theorem selSeverity_warning_iff:
  "selSeverity s = ''warning'' \<longleftrightarrow>
     (contains s ''warning'' \<or> contains s ''degraded'') \<and> \<not> contains s ''critical'' \<and>
     \<not> contains s ''non-recoverable'' \<and> \<not> contains s ''failure''"
proof -
  have "contains s ''critical''" if nc: "contains s ''non-critical''"
  proof -
    obtain a b where "s = a @ ''non-critical'' @ b" using nc unfolding contains_iff by blast
    then have "s = (a @ ''non-'') @ ''critical'' @ b" by simp
    then show ?thesis unfolding contains_iff by blast
  qed
  then show ?thesis unfolding selSeverity_def by auto
qed

text \<open>A command line is built from safe text only: \<open>ExecuteIPMIToolWithPort\<close> returns the output of
  the run with exactly the given options, host and user names being non-empty and free of every
  character but letters, digits, dot, hyphen and underscore, and the port positive; with another
  host or user it returns an error that does not depend on the program, which is not run.\<close>

theorem ExecuteIPMIToolWithPort_safe:
  "case ExecuteIPMIToolWithPort tool h port u p args of
     Inr out \<Rightarrow> h \<noteq> [] \<and> u \<noteq> [] \<and> list_all ipmi_char (h @ u) \<and>
       p_error (tool (commandLine h u p port args)) = None \<and> p_combined (tool (commandLine h u p port args)) = out
   | Inl e \<Rightarrow> (\<exists>err. p_error (tool (commandLine h u p port args)) = Some err) \<or>
       (\<forall>tool'. ExecuteIPMIToolWithPort tool' h port u p args = Inl e)"
  unfolding ExecuteIPMIToolWithPort_def validateIPMIInput_def commandLine_def
  by (auto simp: Let_def split: option.splits)

text \<open>The power state is decided by the first line that mentions "System Power" and has a colon:
  1 when the text after its first colon is "on" up to case and white space, 0 otherwise and when
  there is no such line.\<close>

theorem parseChassisPowerState_first:
  "parseChassisPowerState output =
     (case find (\<lambda>l. contains l ''System Power'' \<and> CHR '':'' \<in> set l) (scanLines output) of
        None \<Rightarrow> Fin 0
      | Some l \<Rightarrow> if trimSpace (toLower (tl (dropWhile (\<lambda>c. c \<noteq> CHR '':'') l))) = ''on''
          then Fin 1 else Fin 0)"
proof -
  have "chassisScan ls = (case find (\<lambda>l. contains l ''System Power'' \<and> CHR '':'' \<in> set l) ls of
        None \<Rightarrow> Fin 0
      | Some l \<Rightarrow> if trimSpace (toLower (tl (dropWhile (\<lambda>c. c \<noteq> CHR '':'') l))) = ''on''
          then Fin 1 else Fin 0)" for ls
    by (induction ls) (auto simp: splitN2_def)
  then show ?thesis unfolding parseChassisPowerState_def .
qed

text \<open>The key and value of a line of FRU output; the value of a key is that of the last line with it.\<close>

definition fruKeyValue :: "string \<Rightarrow> (string \<times> string) option" where
  "fruKeyValue line = (case splitN2 CHR '':'' line of
     [k, v] \<Rightarrow> Some (trimSpace k, trimSpace v) | _ \<Rightarrow> None)"

definition fruValue :: "string \<Rightarrow> string list \<Rightarrow> string" where
  "fruValue key lines =
     (case find (\<lambda>kv. fst kv = key) (rev (List.map_filter fruKeyValue lines)) of
        None \<Rightarrow> [] | Some kv \<Rightarrow> snd kv)"

text \<open>\<open>parseFRUOutput\<close> gives for each of its three keys the value of the last line that has the
  key before its first colon, and the empty text when no line has it.\<close>

theorem parseFRUOutput_last:
  "parseFRUOutput output =
     (fruValue ''Product Manufacturer'' (scanLines output),
      fruValue ''Product Name'' (scanLines output),
      fruValue ''Product Serial'' (scanLines output))"
proof -
  have "foldl fruLine ([], [], []) ls = (fruValue ''Product Manufacturer'' ls,
      fruValue ''Product Name'' ls, fruValue ''Product Serial'' ls)" for ls
  proof (induction ls rule: rev_induct)
    case Nil
    then show ?case by (simp add: fruValue_def List.map_filter_simps)
  next
    case (snoc l ls)
    have "fruValue key (ls @ [l]) = (case fruKeyValue l of None \<Rightarrow> fruValue key ls
        | Some (k, v) \<Rightarrow> if k = key then v else fruValue key ls)" for key
      unfolding fruValue_def by (auto simp: List.map_filter_def split: option.split)
    moreover have "fruLine acc l = (case fruKeyValue l of None \<Rightarrow> acc
        | Some (key, value) \<Rightarrow> (case acc of (manufacturer, productName, serialNumber) \<Rightarrow>
           if key = ''Product Manufacturer'' then (value, productName, serialNumber)
           else if key = ''Product Name'' then (manufacturer, value, serialNumber)
           else if key = ''Product Serial'' then (manufacturer, productName, value)
           else acc))" for acc
      unfolding fruLine_def fruKeyValue_def by (auto simp: Let_def splitN2_def)
    ultimately show ?case using snoc by (auto split: option.split)
  qed
  then show ?thesis unfolding parseFRUOutput_def .
qed

section \<open>The regular expression of parseSensorData\<close>

lemma trimSpace_afterSpaces: "s \<noteq> [] \<Longrightarrow> trimSpace (afterSpaces s) = trimSpace s"
proof -
  assume ne: "s \<noteq> []"
  have sub: "re_space c \<Longrightarrow> is_space c" for c unfolding re_space_def is_space_def by auto
  show ?thesis
  proof (cases "dropWhile re_space s = []")
    case True
    then have all: "\<forall>c \<in> set s. is_space c" using sub by (auto simp: dropWhile_eq_Nil_conv)
    then have "trimSpace s = []" "trimSpace [last s] = []"
      using trimSpace_pad [of s "[]" "[]"] trimSpace_pad [of "[last s]" "[]" "[]"] ne
      by (auto simp: list_all_iff trimmed_def)
    with True show ?thesis unfolding afterSpaces_def by simp
  next
    case False
    have "dropWhile is_space s = dropWhile is_space (dropWhile re_space s)"
      using sub by (induction s) auto
    then show ?thesis
      unfolding afterSpaces_def trimSpace_def trimLeft_def Let_def using False by (simp only: if_False)
  qed
qed

lemma splitOn_three:
  assumes "splitOn c s = [a, b, d]"
  shows "s = a @ c # b @ c # d" "c \<notin> set a" "c \<notin> set b" "c \<notin> set d"
  using joinWith_splitOn [of c s] splitOn_pieces [of _ c s] unfolding assms by simp_all

text \<open>On a line of exactly three columns, the format that \<open>ipmitool sdr\<close> prints, the regular
  expression of \<open>parseSensorData\<close> and its fallback \<open>strings.Split\<close> give the same three fields after
  trimming, whichever of the two branches is taken.\<close>

theorem sensorMatches_three_columns:
  assumes "splitOn CHR ''|'' line = [a, b, c]"
  shows "\<exists>m1 m2 m3. sensorMatches line = Some (m1, m2, m3) \<and> trimSpace m1 = trimSpace a \<and>
    trimSpace m2 = trimSpace b \<and> trimSpace m3 = trimSpace c"
proof (cases "sensorRegex line")
  case None
  then show ?thesis unfolding sensorMatches_def by (simp add: assms)
next
  case (Some m)
  note s = splitOn_three [OF assms]
  have tw: "takeWhile (\<lambda>x. x \<noteq> CHR ''|'') (y @ CHR ''|'' # z) = y"
      "dropWhile (\<lambda>x. x \<noteq> CHR ''|'') (y @ CHR ''|'' # z) = CHR ''|'' # z"
    if "CHR ''|'' \<notin> set y" for y z
    using that by (simp_all add: takeWhile_append dropWhile_append)
  from Some have "a \<noteq> []" "b \<noteq> []" "c \<noteq> []" "m = (a, afterSpaces b, afterSpaces c)"
    unfolding sensorRegex_def s(1) by (auto simp: tw [OF s(2)] tw [OF s(3)] Let_def split: if_splits)
  with Some show ?thesis unfolding sensorMatches_def by (simp add: trimSpace_afterSpaces)
qed

theorem sensorMatches_three_columns_witness:
  "\<exists>m1 m2 m3. sensorMatches ''CPU Temp | 45 degrees C | ok'' = Some (m1, m2, m3) \<and>
    trimSpace m2 = ''45 degrees C''"
proof -
  have "splitOn CHR ''|'' ''CPU Temp | 45 degrees C | ok'' =
      [''CPU Temp '', '' 45 degrees C '', '' ok'']" by simp
  moreover have "trimSpace '' 45 degrees C '' = ''45 degrees C''" by code_simp
  ultimately show ?thesis
    using sensorMatches_three_columns [of "''CPU Temp | 45 degrees C | ok''"] by (simp, blast)
qed

section \<open>The inventory upsert\<close>

definition fruNewRow :: "string \<Rightarrow> (string \<times> string \<times> string) \<times> time \<Rightarrow> inventory_row" where
  "fruNewRow d vt = (case vt of ((manufacturer, productName, serialNumber), now) \<Rightarrow>
     \<lparr>iv_device_id = d, iv_cpu_model = None, iv_cpu_cores = None, iv_cpu_threads = None,
      iv_ram_total_gb = None, iv_firmware_bmc = None, iv_manufacturer = Some manufacturer,
      iv_system_model = Some productName, iv_service_tag = Some serialNumber,
      iv_collected_at = now\<rparr>)"

definition fruMerge :: "(string \<times> string \<times> string) \<times> time \<Rightarrow> inventory_row \<Rightarrow> inventory_row" where
  "fruMerge vt r = (case vt of ((manufacturer, productName, serialNumber), now) \<Rightarrow>
     r\<lparr>iv_manufacturer := Some manufacturer, iv_system_model := Some productName,
       iv_service_tag := Some serialNumber, iv_collected_at := now\<rparr>)"

lemma fruUpsert_eq:
  "fruUpsert d v now = upsertBy iv_device_id (fruNewRow d (v, now)) (fruMerge (v, now))"
  unfolding fruUpsert_def fruNewRow_def fruMerge_def by (auto split: prod.split)

interpretation fru_table: keyed_table "\<lambda>rows d. findBy iv_device_id d rows"
  "\<lambda>rows d (v, now). fruUpsert d v now rows" fruNewRow fruMerge
proof unfold_locales
  have key: "iv_device_id (fruMerge v r) = iv_device_id r" "iv_device_id (fruNewRow d v) = d" for v r d
    unfolding fruMerge_def fruNewRow_def by (auto split: prod.split)
  show "findBy iv_device_id j (case v of (v, now) \<Rightarrow> fruUpsert k v now t) =
      (if j = k then Some (case findBy iv_device_id k t of None \<Rightarrow> fruNewRow k v | Some r \<Rightarrow> fruMerge v r)
       else findBy iv_device_id j t)" for t k v j
    by (cases v) (auto simp: fruUpsert_eq findBy_upsert key)
qed (auto simp: fruMerge_def fruNewRow_def split: prod.split)

text \<open>A successful \<open>runFRU\<close> leaves the device with the three parsed values and every column that
  the statement does not name as it was (NULL in a new row), and the row of every other device
  untouched; a failed one changes nothing.\<close>

theorem runFRU_effect:
  "case runFRU tool d dbErr now db of
     (db', None) \<Rightarrow> (let v = (parseFRUOutput (p_stdout (tool (deviceArgs d @ [''fru'']))), now) in
        findBy iv_device_id k (device_inventory db') =
          (if k = ID d then Some (case findBy iv_device_id (ID d) (device_inventory db) of
               None \<Rightarrow> fruNewRow (ID d) v | Some r \<Rightarrow> fruMerge v r)
           else findBy iv_device_id k (device_inventory db)) \<and>
        db' = db\<lparr>device_inventory := device_inventory db'\<rparr>)
   | (db', Some e) \<Rightarrow> db' = db"
proof (cases "p_error (tool (deviceArgs d @ [''fru'']))")
  case None
  then show ?thesis
    using fru_table.get_put [where t = "device_inventory db" and k = "ID d" and j = k
      and v = "(parseFRUOutput (p_stdout (tool (deviceArgs d @ [''fru'']))), now)"]
    by (cases dbErr) (simp_all add: runFRU_def runCommand_def Let_def)
qed (simp add: runFRU_def runCommand_def Let_def)

section \<open>Sensor types\<close>

definition sensorTypes :: "string list" where
  "sensorTypes = [''temperature_cpu_celsius'', ''temperature_inlet_celsius'',
     ''temperature_exhaust_celsius'', ''temperature_system_celsius'', ''temperature_celsius'',
     ''fan_speed_rpm'', ''voltage_12v'', ''voltage_5v'', ''voltage_3v3'', ''voltage_vcore'',
     ''voltage'', ''power_watts'', ''other'']"

lemma determineSensorType_in: "determineSensorType n u \<in> set sensorTypes"
  unfolding determineSensorType_def sensorTypes_def Let_def
  by (intro if_split [where P = "\<lambda>x. x \<in> A" for A, THEN iffD2] conjI impI)
    (simp_all only: list.set insert_iff simp_thms)

lemma sensorDataLine_type:
  "sensorDataLine l = Some (n, v, t, st) \<Longrightarrow> t \<in> set sensorTypes"
  unfolding sensorDataLine_def
  by (auto simp: Let_def determineSensorType_in split: if_splits option.splits sum.splits prod.splits)


end
