(* ===== verification/Codec.thy ===== *)
theory Codec
  imports GoFloat
begin

text \<open>
  Encodings of the standard library that the program uses: the JSON values \<open>encoding/json\<close> decodes
  into \<open>any\<close>, \<open>base64.StdEncoding\<close>, and RFC 3339 text of a time. An object of a decoded document is a
  map; here it is the list of its members, of which \<open>encoding/json\<close> keeps the last of a name.
\<close>

section \<open>JSON values\<close>

datatype json =
    JNull
  | JBool bool
  | JNum f64
  | JStr string
  | JArr "json list"
  | JObj "(string \<times> json) list"

fun asStr :: "json option \<Rightarrow> string option" where
  "asStr (Some (JStr s)) = Some s"
| "asStr _ = None"

fun asNum :: "json option \<Rightarrow> f64 option" where
  "asNum (Some (JNum x)) = Some x"
| "asNum _ = None"

fun asArr :: "json option \<Rightarrow> json list option" where
  "asArr (Some (JArr xs)) = Some xs"
| "asArr _ = None"

fun asObj :: "json option \<Rightarrow> (string \<times> json) list option" where
  "asObj (Some (JObj ms)) = Some ms"
| "asObj _ = None"

text \<open>\<open>m[k]\<close> of a decoded object, and \<open>s, _ := m[k].(string)\<close>.\<close>

definition field :: "string \<Rightarrow> (string \<times> json) list \<Rightarrow> json option" where
  "field k ms = map_of (rev ms) k"

definition strField :: "string \<Rightarrow> (string \<times> json) list \<Rightarrow> string" where
  "strField k ms = (case asStr (field k ms) of Some s \<Rightarrow> s | None \<Rightarrow> [])"

definition objField :: "string \<Rightarrow> (string \<times> json) list \<Rightarrow> (string \<times> json) list option" where
  "objField k ms = asObj (field k ms)"

definition arrField :: "string \<Rightarrow> (string \<times> json) list \<Rightarrow> json list" where
  "arrField k ms = (case asArr (field k ms) of Some xs \<Rightarrow> xs | None \<Rightarrow> [])"

definition numField :: "string \<Rightarrow> (string \<times> json) list \<Rightarrow> f64 option" where
  "numField k ms = asNum (field k ms)"

text \<open>\<open>encoding/json\<close> cannot encode the floats that are not finite.\<close>

definition encodable :: "f64 \<Rightarrow> bool" where
  "encodable x = (case x of Fin _ \<Rightarrow> True | _ \<Rightarrow> False)"

section \<open>Base 64\<close>

definition b64_val :: "char \<Rightarrow> int option" where
  "b64_val c = (if is_upper c then Some (code_of c - 65)
     else if is_lower c then Some (code_of c - 71)
     else if is_digit c then Some (code_of c + 4)
     else if c = CHR ''+'' then Some 62 else if c = CHR ''/'' then Some 63 else None)"

definition byte1 :: "int \<Rightarrow> int \<Rightarrow> char" where "byte1 a b = char_of (a * 4 + b div 16)"
definition byte2 :: "int \<Rightarrow> int \<Rightarrow> char" where "byte2 b c = char_of (b mod 16 * 16 + c div 4)"
definition byte3 :: "int \<Rightarrow> int \<Rightarrow> char" where "byte3 c d = char_of (c mod 4 * 64 + d)"

fun b64_quads :: "string \<Rightarrow> string option" where
  "b64_quads [] = Some []"
| "b64_quads (p # q # r # s # rest) =
     (case (b64_val p, b64_val q) of
        (Some a, Some b) \<Rightarrow>
          (if r = CHR ''='' then (if s = CHR ''='' \<and> rest = [] then Some [byte1 a b] else None)
           else case b64_val r of None \<Rightarrow> None
           | Some c \<Rightarrow>
             (if s = CHR ''='' then (if rest = [] then Some [byte1 a b, byte2 b c] else None)
              else case b64_val s of None \<Rightarrow> None
              | Some d \<Rightarrow> map_option (\<lambda>t. byte1 a b # byte2 b c # byte3 c d # t) (b64_quads rest)))
      | _ \<Rightarrow> None)"
| "b64_quads _ = None"

text \<open>\<open>base64.StdEncoding.DecodeString\<close> (line breaks are skipped).\<close>

definition b64_decode :: "string \<Rightarrow> string option" where
  "b64_decode s = b64_quads (filter (\<lambda>c. c \<noteq> newline \<and> c \<noteq> creturn) s)"

definition b64_char :: "int \<Rightarrow> char" where
  "b64_char v = (if v < 26 then char_of (v + 65) else if v < 52 then char_of (v + 71)
     else if v < 62 then char_of (v - 4) else if v = 62 then CHR ''+'' else CHR ''/'')"

fun b64_encode :: "string \<Rightarrow> string" where
  "b64_encode [] = []"
| "b64_encode [x] = (let a = code_of x in
     [b64_char (a div 4), b64_char (a mod 4 * 16), CHR ''='', CHR ''=''])"
| "b64_encode [x, y] = (let a = code_of x; b = code_of y in
     [b64_char (a div 4), b64_char (a mod 4 * 16 + b div 16), b64_char (b mod 16 * 4), CHR ''=''])"
| "b64_encode (x # y # z # rest) = (let a = code_of x; b = code_of y; c = code_of z in
     [b64_char (a div 4), b64_char (a mod 4 * 16 + b div 16), b64_char (b mod 16 * 4 + c div 64),
      b64_char (c mod 64)] @ b64_encode rest)"

section \<open>Times as text\<close>

definition civil :: "int \<Rightarrow> int \<times> int \<times> int" where
  "civil days = (let z = days + 719468; era = z div 146097; doe = z mod 146097;
       yoe = (doe - doe div 1460 + doe div 36524 - doe div 146096) div 365;
       doy = doe - (365 * yoe + yoe div 4 - yoe div 100);
       mp = (5 * doy + 2) div 153;
       d = doy - (153 * mp + 2) div 5 + 1;
       m = (if mp < 10 then mp + 3 else mp - 9) in
     (yoe + era * 400 + (if m \<le> 2 then 1 else 0), m, d))"

definition padTo :: "nat \<Rightarrow> int \<Rightarrow> string" where
  "padTo w n = (let s = itoa n in replicate (w - length s) CHR ''0'' @ s)"

definition dateTime :: "time \<Rightarrow> string" where
  "dateTime t = (let secs = t div 1000000000; sod = secs mod 86400 in
     case civil (secs div 86400) of (y, m, d) \<Rightarrow>
       padTo 4 y @ ''-'' @ padTo 2 m @ ''-'' @ padTo 2 d @ ''T'' @ padTo 2 (sod div 3600) @ '':'' @
       padTo 2 (sod mod 3600 div 60) @ '':'' @ padTo 2 (sod mod 60))"

text \<open>\<open>t.UTC().Format(time.RFC3339)\<close> and \<open>t.UTC().Format(time.RFC3339Nano)\<close>.\<close>

definition rfc3339 :: "time \<Rightarrow> string" where
  "rfc3339 t = dateTime t @ ''Z''"

definition rfc3339Nano :: "time \<Rightarrow> string" where
  "rfc3339Nano t = dateTime t @
     (let frac = trimRight (\<lambda>c. c = CHR ''0'') (padTo 9 (t mod 1000000000)) in
      if frac = [] then [] else ''.'' @ frac) @ ''Z''"

section \<open>Base 64 reads back\<close>

lemma b64_val_char: "0 \<le> v \<Longrightarrow> v < 64 \<Longrightarrow> b64_val (b64_char v) = Some v"
  unfolding b64_val_def b64_char_def is_upper_def is_lower_def is_digit_def
  by (auto simp: code_of_def)

lemma b64_char_plain:
  assumes "0 \<le> v" "v < 64"
  shows "b64_char v \<noteq> CHR ''=''" "b64_char v \<noteq> newline" "b64_char v \<noteq> creturn"
proof -
  have "b64_val (CHR ''='') = None" "b64_val newline = None" "b64_val creturn = None"
    by code_simp+
  with b64_val_char [OF assms] show "b64_char v \<noteq> CHR ''=''" "b64_char v \<noteq> newline"
      "b64_char v \<noteq> creturn" by auto
qed

lemma char_of_code [simp]: "char_of (code_of c) = c"
  unfolding code_of_def by simp

lemma sextets:
  fixes a b :: int
  assumes "0 \<le> a" "a < 256" "0 \<le> b" "b < 256"
  shows "0 \<le> a div 4" "a div 4 < 64" "0 \<le> a mod 4 * 16 + b div 16" "a mod 4 * 16 + b div 16 < 64"
    "0 \<le> b mod 16 * 4 + a div 64" "b mod 16 * 4 + a div 64 < 64" "0 \<le> a mod 64" "a mod 64 < 64"
proof -
  have "0 \<le> a div 4" "a div 4 < 64" "0 \<le> b div 16" "b div 16 < 16" "0 \<le> a div 64" "a div 64 < 4"
      "0 \<le> a mod 4" "a mod 4 < 4" "0 \<le> b mod 16" "b mod 16 < 16" "0 \<le> a mod 64" "a mod 64 < 64"
    using assms by simp_all
  then show "0 \<le> a div 4" "a div 4 < 64" "0 \<le> a mod 4 * 16 + b div 16" "a mod 4 * 16 + b div 16 < 64"
    "0 \<le> b mod 16 * 4 + a div 64" "b mod 16 * 4 + a div 64 < 64" "0 \<le> a mod 64" "a mod 64 < 64"
    by linarith+
qed

lemma mixed_radix:
  fixes k m n :: int
  assumes "0 \<le> m" "m < n" shows "(k * n + m) div n = k" "(k * n + m) mod n = m"
  using assms by simp_all

lemma bytes_join:
  fixes a b c :: int
  assumes "0 \<le> a" "a < 256" "0 \<le> b" "b < 256" "0 \<le> c" "c < 256"
  shows "a div 4 * 4 + (a mod 4 * 16 + b div 16) div 16 = a"
    "(a mod 4 * 16 + b div 16) mod 16 * 16 + (b mod 16 * 4 + c div 64) div 4 = b"
    "(b mod 16 * 4 + c div 64) mod 4 * 64 + c mod 64 = c"
proof -
  have "0 \<le> b div 16" "b div 16 < 16" "0 \<le> c div 64" "c div 64 < 4" using assms by simp_all
  note m = mixed_radix [OF this(1,2), of "a mod 4"] mixed_radix [OF this(3,4), of "b mod 16"]
  show "a div 4 * 4 + (a mod 4 * 16 + b div 16) div 16 = a"
    "(a mod 4 * 16 + b div 16) mod 16 * 16 + (b mod 16 * 4 + c div 64) div 4 = b"
    "(b mod 16 * 4 + c div 64) mod 4 * 64 + c mod 64 = c"
    unfolding m by (simp_all only: div_mult_mod_eq)
qed

text \<open>Decoding one group of four characters.\<close>

lemma quads_of_chars:
  assumes "0 \<le> p" "p < 64" "0 \<le> q" "q < 64" "0 \<le> r" "r < 64" "0 \<le> u" "u < 64"
  shows "b64_quads (b64_char p # b64_char q # b64_char r # b64_char u # rest) =
      map_option (\<lambda>t. byte1 p q # byte2 q r # byte3 r u # t) (b64_quads rest)"
    "b64_quads [b64_char p, b64_char q, b64_char r, CHR ''=''] = Some [byte1 p q, byte2 q r]"
    "b64_quads [b64_char p, b64_char q, CHR ''='', CHR ''=''] = Some [byte1 p q]"
proof -
  have "b64_char r \<noteq> CHR ''=''" "b64_char u \<noteq> CHR ''=''" using b64_char_plain assms by blast+
  moreover have "b64_val (b64_char p) = Some p" "b64_val (b64_char q) = Some q"
      "b64_val (b64_char r) = Some r" "b64_val (b64_char u) = Some u"
    using b64_val_char assms by blast+
  ultimately show "b64_quads (b64_char p # b64_char q # b64_char r # b64_char u # rest) =
      map_option (\<lambda>t. byte1 p q # byte2 q r # byte3 r u # t) (b64_quads rest)"
    "b64_quads [b64_char p, b64_char q, b64_char r, CHR ''=''] = Some [byte1 p q, byte2 q r]"
    "b64_quads [b64_char p, b64_char q, CHR ''='', CHR ''=''] = Some [byte1 p q]"
    by simp_all
qed

lemma bytes_of_codes:
  "byte1 (code_of x div 4) (code_of x mod 4 * 16 + code_of y div 16) = x"
  "byte2 (code_of x mod 4 * 16 + code_of y div 16) (code_of y mod 16 * 4 + code_of z div 64) = y"
  "byte3 (code_of y mod 16 * 4 + code_of z div 64) (code_of z mod 64) = z"
  unfolding byte1_def byte2_def byte3_def
  using bytes_join [OF code_of_bounds [of x] code_of_bounds [of y] code_of_bounds [of z]]
  by (simp_all only: char_of_code)

lemma code_sextets:
  "0 \<le> code_of x div 4" "code_of x div 4 < 64"
  "0 \<le> code_of x mod 4 * 16 + code_of y div 16" "code_of x mod 4 * 16 + code_of y div 16 < 64"
  "0 \<le> code_of y mod 16 * 4 + code_of x div 64" "code_of y mod 16 * 4 + code_of x div 64 < 64"
  "0 \<le> code_of x mod 64" "code_of x mod 64 < 64"
  by (rule sextets [OF code_of_bounds [of x] code_of_bounds [of y]])+

lemma code_zero: "code_of (CHR 0x00) = 0"
  by code_simp

lemma b64_quads_encode: "b64_quads (b64_encode s) = Some s"
proof (induction s rule: b64_encode.induct)
  case (2 x)
  show ?case
    using quads_of_chars(3) [OF code_sextets(1,2) [of x] code_sextets(3,4) [of x "CHR 0x00"]
        code_sextets(1,2) [of x] code_sextets(1,2) [of x]] bytes_of_codes(1) [of x "CHR 0x00"]
    by (simp add: Let_def code_zero)
next
  case (3 x y)
  show ?case
    using quads_of_chars(2) [OF code_sextets(1,2) [of x] code_sextets(3,4) [of x y]
        code_sextets(5,6) [where y = y and x = "CHR 0x00"] code_sextets(1,2) [of x]]
      bytes_of_codes(1) [of x y] bytes_of_codes(2) [of x y "CHR 0x00"]
    by (simp add: Let_def code_zero)
next
  case (4 x y z rest)
  show ?case
    using quads_of_chars(1) [OF code_sextets(1,2) [of x] code_sextets(3,4) [of x y]
        code_sextets(5,6) [where y = y and x = z] code_sextets(7,8) [of z], of "b64_encode rest"] 4
    by (simp only: b64_encode.simps Let_def append.simps bytes_of_codes option.map)
qed simp

lemma b64_encode_plain: "c \<in> set (b64_encode s) \<Longrightarrow> c \<noteq> newline \<and> c \<noteq> creturn"
proof (induction s rule: b64_encode.induct)
  case (2 x)
  have "CHR ''='' \<noteq> newline" "CHR ''='' \<noteq> creturn" by code_simp+
  moreover have "c \<in> {b64_char (code_of x div 4),
      b64_char (code_of x mod 4 * 16 + code_of (CHR 0x00) div 16), CHR ''=''}"
    using 2 by (simp add: Let_def code_zero)
  ultimately show ?case by (elim insertE) (simp_all add: b64_char_plain code_sextets)
next
  case (3 x y)
  have "CHR ''='' \<noteq> newline" "CHR ''='' \<noteq> creturn" by code_simp+
  moreover have "c \<in> {b64_char (code_of x div 4), b64_char (code_of x mod 4 * 16 + code_of y div 16),
      b64_char (code_of y mod 16 * 4 + code_of (CHR 0x00) div 64), CHR ''=''}"
    using 3 by (simp add: Let_def code_zero)
  ultimately show ?case by (elim insertE) (simp_all add: b64_char_plain code_sextets)
next
  case (4 x y z rest)
  then have "c \<in> {b64_char (code_of x div 4), b64_char (code_of x mod 4 * 16 + code_of y div 16),
      b64_char (code_of y mod 16 * 4 + code_of z div 64), b64_char (code_of z mod 64)} \<or>
      c \<in> set (b64_encode rest)"
    by (simp only: b64_encode.simps Let_def append.simps list.set insert_iff empty_iff) blast
  then show ?case using 4 by (elim disjE insertE) (simp_all add: b64_char_plain code_sextets)
qed simp

lemma b64_decode_encode: "b64_decode (b64_encode s) = Some s"
proof -
  have "filter (\<lambda>c. c \<noteq> newline \<and> c \<noteq> creturn) (b64_encode s) = b64_encode s"
    by (rule filter_True) (use b64_encode_plain in blast)
  then show ?thesis unfolding b64_decode_def by (simp add: b64_quads_encode)
qed

section \<open>Durations as text\<close>

text \<open>\<open>time.Duration.String\<close>: the value in the largest fitting unit below a second, hours, minutes and
  seconds from a second on; trailing zeros of the fraction are dropped.\<close>

definition withFrac :: "int \<Rightarrow> nat \<Rightarrow> string" where
  "withFrac v prec = (let frac = trimRight (\<lambda>c. c = CHR ''0'') (padTo prec (v mod 10 ^ prec)) in
     itoa (v div 10 ^ prec) @ (if frac = [] then [] else ''.'' @ frac))"

definition durationString :: "int \<Rightarrow> string" where
  "durationString d = (let u = \<bar>d\<bar>;
       s = (if u = 0 then ''0s''
            else if u < 1000 then itoa u @ ''ns''
            else if u < 1000000 then withFrac u 3 @ [CHR 0xC2, CHR 0xB5] @ ''s''
            else if u < 1000000000 then withFrac u 6 @ ''ms''
            else let secs = u div 1000000000; m = secs div 60;
                     sec = withFrac (secs mod 60 * 1000000000 + u mod 1000000000) 9 @ ''s'' in
              if m = 0 then sec
              else if m div 60 = 0 then itoa m @ ''m'' @ sec
              else itoa (m div 60) @ ''h'' @ itoa (m mod 60) @ ''m'' @ sec) in
     if d < 0 then ''-'' @ s else s)"

section \<open>Integers from text\<close>

text \<open>\<open>strconv.ParseInt(s, 10, 64)\<close> where it succeeds, and \<open>strconv.Atoi\<close>, the same on 64 bits.\<close>

definition parseInt64 :: "string \<Rightarrow> int option" where
  "parseInt64 s = (case take_sign s of (neg, ds) \<Rightarrow>
     if ds = [] \<or> \<not> list_all is_digit ds then None
     else let v = (if neg then - decimalVal ds else decimalVal ds) in
       if v < - 9223372036854775808 \<or> 9223372036854775807 < v then None else Some v)"

lemma parseInt64_itoa:
  assumes "- 9223372036854775808 \<le> i" "i \<le> 9223372036854775807"
  shows "parseInt64 (itoa i) = Some i"
proof -
  let ?d = "natDigits \<bar>i\<bar>"
  have dig: "list_all is_digit ?d" and val: "decimalVal ?d = \<bar>i\<bar>"
    by (simp_all add: natDigits_digits decimalVal_natDigits)
  show ?thesis
  proof (cases "i < 0")
    case True
    then have "itoa i = CHR ''-'' # ?d" unfolding itoa_def by simp
    with True assms dig val show ?thesis unfolding parseInt64_def by (simp add: Let_def)
  next
    case False
    then have "itoa i = ?d" unfolding itoa_def by simp
    with False assms dig val show ?thesis
      unfolding parseInt64_def by (simp add: Let_def take_sign_digits)
  qed
qed

lemma parseInt64_other_char:
  assumes "c \<in> set (tl s)" "\<not> is_digit c" shows "parseInt64 s = None"
proof (cases s)
  case (Cons x xs)
  obtain neg ds where ts: "take_sign s = (neg, ds)" by (cases "take_sign s")
  with Cons have "ds = xs \<or> ds = s" by (auto split: if_splits)
  with assms Cons have "c \<in> set ds" by auto
  with assms(2) have "\<not> list_all is_digit ds" by (auto simp: list_all_iff)
  then show ?thesis unfolding parseInt64_def ts by simp
qed (use assms in simp)

end
