(* ===== verification/SnmpPoll.thy ===== *)
theory SnmpPoll
  imports Retry VmWriter IpmiTool Codec
begin

text \<open>
  The SNMP collector: \<open>collectors/snmp-collector/internal/collector\<close> (\<open>snmp.go\<close>, \<open>snmp_poll.go\<close>, the poll of
  \<open>retry.go\<close>). The client library gosnmp is an argument: \<open>get\<close> is a request for scalar objects, \<open>walk\<close>
  the objects a walk hands to its callback (the error of a walk is dropped by the program). The
  metrics of a poll are the list of the calls of \<open>WriteMetric\<close> it makes, in order. Where the code ranges
  over a map, \<open>ord\<close> is the order the runtime takes.
\<close>

section \<open>Data\<close>

datatype snmp_value =
    VInt "64 word" | VInt32 "32 word" | VInt64 "64 word"
  | VUint "64 word" | VUint32 "32 word" | VUint64 "64 word"
  | VFloat32 f64 | VFloat64 f64 | VString string | VBytes string | VNil

datatype ber_type = BInteger | BGauge32 | BCounter32 | BCounter64 | BOther int

record pdu =
  pdu_name :: string
  pdu_type :: ber_type
  pdu_value :: snmp_value

type_synonym snmp_get = "string list \<Rightarrow> pdu list result"
type_synonym snmp_walk = "string \<Rightarrow> pdu list"

record snmp_device =
  sn_ID :: "64 word"
  sn_Hostname :: string
  sn_IPAddress :: string
  sn_SNMPVersion :: string
  sn_Community :: string
  sn_Username :: string
  sn_AuthProtocol :: string
  sn_AuthPassword :: string
  sn_PrivProtocol :: string
  sn_PrivPassword :: string
  sn_Status :: string

section \<open>Object identifiers\<close>

definition oidSysDescr :: string where "oidSysDescr = ''1.3.6.1.2.1.1.1.0''"
definition oidSysUptime :: string where "oidSysUptime = ''1.3.6.1.2.1.1.3.0''"
definition oidSysName :: string where "oidSysName = ''1.3.6.1.2.1.1.5.0''"
definition oidCPUUser :: string where "oidCPUUser = ''1.3.6.1.4.1.2021.11.9.0''"
definition oidCPUSystem :: string where "oidCPUSystem = ''1.3.6.1.4.1.2021.11.10.0''"
definition oidCPUIdle :: string where "oidCPUIdle = ''1.3.6.1.4.1.2021.11.11.0''"
definition oidMemTotal :: string where "oidMemTotal = ''1.3.6.1.4.1.2021.4.5.0''"
definition oidMemAvail :: string where "oidMemAvail = ''1.3.6.1.4.1.2021.4.6.0''"
definition oidMemFree :: string where "oidMemFree = ''1.3.6.1.4.1.2021.4.11.0''"
definition oidDiskPath :: string where "oidDiskPath = ''1.3.6.1.4.1.2021.9.1.2''"
definition oidDiskTotal :: string where "oidDiskTotal = ''1.3.6.1.4.1.2021.9.1.6''"
definition oidDiskAvail :: string where "oidDiskAvail = ''1.3.6.1.4.1.2021.9.1.7''"
definition oidDiskUsed :: string where "oidDiskUsed = ''1.3.6.1.4.1.2021.9.1.8''"
definition oidDiskUsedPct :: string where "oidDiskUsedPct = ''1.3.6.1.4.1.2021.9.1.9''"
definition oidIfDescr :: string where "oidIfDescr = ''1.3.6.1.2.1.2.2.1.2''"
definition oidIfOperStatus :: string where "oidIfOperStatus = ''1.3.6.1.2.1.2.2.1.8''"
definition oidIfSpeed :: string where "oidIfSpeed = ''1.3.6.1.2.1.2.2.1.5''"
definition oidIfInOctets :: string where "oidIfInOctets = ''1.3.6.1.2.1.2.2.1.10''"
definition oidIfOutOctets :: string where "oidIfOutOctets = ''1.3.6.1.2.1.2.2.1.16''"
definition oidDellTempProbeReading :: string where
  "oidDellTempProbeReading = ''1.3.6.1.4.1.674.10892.5.4.700.20.1.6''"
definition oidDellFanReading :: string where
  "oidDellFanReading = ''1.3.6.1.4.1.674.10892.5.4.700.12.1.6''"
definition oidDellPSUStatus :: string where
  "oidDellPSUStatus = ''1.3.6.1.4.1.674.10892.5.4.600.12.1.5''"
definition oidDellRAIDStatus :: string where
  "oidDellRAIDStatus = ''1.3.6.1.4.1.674.10892.5.5.1.20.130.1.1.38''"
definition oidDellEnterprisePrefix :: string where "oidDellEnterprisePrefix = ''1.3.6.1.4.1.674''"
definition oidSysObjectID :: string where "oidSysObjectID = ''1.3.6.1.2.1.1.2.0''"
definition oidDellGlobalSystemStatus :: string where
  "oidDellGlobalSystemStatus = ''1.3.6.1.4.1.674.10892.5.4.200.10.1.2''"
definition oidDellSystemLCDStatus :: string where
  "oidDellSystemLCDStatus = ''1.3.6.1.4.1.674.10892.5.4.200.10.1.4''"
definition oidDellPowerSupplyStatus :: string where
  "oidDellPowerSupplyStatus = ''1.3.6.1.4.1.674.10892.5.4.300.10.1.5''"
definition oidDellTemperatureProbeStatus :: string where
  "oidDellTemperatureProbeStatus = ''1.3.6.1.4.1.674.10892.5.4.600.12.1.5''"
definition oidDellFanDeviceStatus :: string where
  "oidDellFanDeviceStatus = ''1.3.6.1.4.1.674.10892.5.4.600.20.1.5''"

section \<open>Helpers\<close>

fun trimDot :: "string \<Rightarrow> string" where
  "trimDot [] = []"
| "trimDot (c # s) = (if c = CHR ''.'' then s else c # s)"

text \<open>The conversion of an integer to \<open>float64\<close> rounds to the nearest.\<close>

definition toFloat64 :: "pdu \<Rightarrow> f64 option" where
  "toFloat64 v = (case pdu_value v of
     VInt i \<Rightarrow> Some (f_of_int (sint i))
   | VInt32 i \<Rightarrow> Some (f_of_int (sint i))
   | VInt64 i \<Rightarrow> Some (f_of_int (sint i))
   | VUint i \<Rightarrow> Some (f_of_int (uint i))
   | VUint32 i \<Rightarrow> Some (f_of_int (uint i))
   | VUint64 i \<Rightarrow> Some (f_of_int (uint i))
   | VFloat32 x \<Rightarrow> Some x
   | VFloat64 x \<Rightarrow> Some x
   | _ \<Rightarrow> None)"

definition lastOIDComponent :: "string \<Rightarrow> string" where
  "lastOIDComponent oid = last (splitOn CHR ''.'' (trimDot oid))"

text \<open>The string or byte slice of a value.\<close>

definition textOf :: "pdu \<Rightarrow> string option" where
  "textOf v = (case pdu_value v of VString s \<Rightarrow> Some s | VBytes s \<Rightarrow> Some s | _ \<Rightarrow> None)"

definition deviceLabels :: "snmp_device \<Rightarrow> labels" where
  "deviceLabels d = [(''device_id'', itoa (sint (sn_ID d))), (''hostname'', sn_Hostname d)]"

definition snmpMetric :: "time \<Rightarrow> string \<Rightarrow> f64 \<Rightarrow> labels \<Rightarrow> metric" where
  "snmpMetric ts name v ls = \<lparr>m_name = name, m_value = v, m_labels = ls, m_time = ts\<rparr>"

text \<open>The maps that the walks fill, by the last component of the object's name: a later object with
  the same component overwrites.\<close>

definition collectText :: "pdu list \<Rightarrow> (string \<times> string) list" where
  "collectText ps = foldl (\<lambda>m p. case textOf p of None \<Rightarrow> m
     | Some s \<Rightarrow> AList.update (lastOIDComponent (pdu_name p)) s m) [] ps"

definition collectNum :: "pdu list \<Rightarrow> (string \<times> f64) list" where
  "collectNum ps = foldl (\<lambda>m p. case toFloat64 p of None \<Rightarrow> m
     | Some x \<Rightarrow> AList.update (lastOIDComponent (pdu_name p)) x m) [] ps"

text \<open>The loop over the names of a table: one metric for each column that has the name's index.\<close>

definition tableMetrics ::
  "(string list \<Rightarrow> string list) \<Rightarrow> time \<Rightarrow> (string \<Rightarrow> labels) \<Rightarrow> (string \<times> string) list \<Rightarrow>
   (string \<times> (string \<times> f64) list) list \<Rightarrow> metric list" where
  "tableMetrics ord ts labels names cols =
     concat (map (\<lambda>idx. case map_of names idx of None \<Rightarrow> []
       | Some nm \<Rightarrow> List.map_filter (\<lambda>(metric_name, tbl).
           map_option (\<lambda>v. snmpMetric ts metric_name v (labels nm)) (map_of tbl idx)) cols)
     (ord (map fst names)))"

section \<open>Scalar polls\<close>

definition pollSystemOIDs :: "snmp_get \<Rightarrow> snmp_device \<Rightarrow> time \<Rightarrow> metric list \<times> string option" where
  "pollSystemOIDs get d ts = (case get [oidSysDescr, oidSysUptime, oidSysName] of
     Inl e \<Rightarrow> ([], Some e)
   | Inr vars \<Rightarrow> (List.map_filter (\<lambda>v. let oid = trimDot (pdu_name v) in
       if oid = oidSysUptime then
         map_option (\<lambda>x. snmpMetric ts ''infrasense_snmp_system_uptime_seconds'' (fdiv x (Fin 100))
           (deviceLabels d)) (toFloat64 v)
       else if oid = oidSysDescr then
         (case textOf v of Some description \<Rightarrow>
            if description = [] then None
            else Some (snmpMetric ts ''infrasense_snmp_system_info'' (Fin 1)
              (deviceLabels d @ [(''description'', description)]))
          | None \<Rightarrow> None)
       else if oid = oidSysName then
         (case textOf v of Some name \<Rightarrow>
            if name = [] then None
            else Some (snmpMetric ts ''infrasense_snmp_system_name'' (Fin 1)
              (deviceLabels d @ [(''name'', name)]))
          | None \<Rightarrow> None)
       else None) vars, None))"

definition scalarMetrics :: "(string \<times> string) list \<Rightarrow> snmp_device \<Rightarrow> time \<Rightarrow> pdu list \<Rightarrow> metric list" where
  "scalarMetrics metricMap d ts vars = List.map_filter (\<lambda>v.
     case map_of metricMap (trimDot (pdu_name v)) of None \<Rightarrow> None
     | Some name \<Rightarrow> map_option (\<lambda>x. snmpMetric ts name x (deviceLabels d)) (toFloat64 v)) vars"

definition pollCPUOIDs :: "snmp_get \<Rightarrow> snmp_device \<Rightarrow> time \<Rightarrow> metric list \<times> string option" where
  "pollCPUOIDs get d ts = (case get [oidCPUUser, oidCPUSystem, oidCPUIdle] of
     Inl e \<Rightarrow> ([], Some e)
   | Inr vars \<Rightarrow> (scalarMetrics
       [(oidCPUUser, ''infrasense_snmp_cpu_user_percent''),
        (oidCPUSystem, ''infrasense_snmp_cpu_system_percent''),
        (oidCPUIdle, ''infrasense_snmp_cpu_idle_percent'')] d ts vars, None))"

definition pollMemoryOIDs :: "snmp_get \<Rightarrow> snmp_device \<Rightarrow> time \<Rightarrow> metric list \<times> string option" where
  "pollMemoryOIDs get d ts = (case get [oidMemTotal, oidMemAvail, oidMemFree] of
     Inl e \<Rightarrow> ([], Some e)
   | Inr vars \<Rightarrow> (scalarMetrics
       [(oidMemTotal, ''infrasense_snmp_memory_total_kb''),
        (oidMemAvail, ''infrasense_snmp_memory_available_kb''),
        (oidMemFree, ''infrasense_snmp_memory_free_kb'')] d ts vars, None))"

section \<open>Table polls\<close>

definition pollDiskOIDs ::
  "(string list \<Rightarrow> string list) \<Rightarrow> snmp_walk \<Rightarrow> snmp_device \<Rightarrow> time \<Rightarrow> metric list" where
  "pollDiskOIDs ord walk d ts =
     (let mountPoints = collectText (walk oidDiskPath);
          diskTotals = collectNum (walk oidDiskTotal);
          diskUsed = collectNum (walk oidDiskUsed) in
      tableMetrics ord ts (\<lambda>m. deviceLabels d @ [(''mount_point'', m)]) mountPoints
        [(''infrasense_snmp_disk_total_kb'', diskTotals), (''infrasense_snmp_disk_used_kb'', diskUsed)])"

definition pollDiskMetrics ::
  "(string list \<Rightarrow> string list) \<Rightarrow> snmp_walk \<Rightarrow> snmp_device \<Rightarrow> time \<Rightarrow> metric list" where
  "pollDiskMetrics ord walk d ts =
     (let diskPaths = collectText (walk oidDiskPath);
          diskTotals = collectNum (walk oidDiskTotal);
          diskAvails = collectNum (walk oidDiskAvail);
          diskUsedPct = collectNum (walk oidDiskUsedPct) in
      tableMetrics ord ts (\<lambda>m. deviceLabels d @ [(''mount'', m)]) diskPaths
        [(''infrasense_snmp_disk_total_kb'', diskTotals),
         (''infrasense_snmp_disk_available_kb'', diskAvails),
         (''infrasense_snmp_disk_used_percent'', diskUsedPct)])"

definition pollNetworkOIDs ::
  "(string list \<Rightarrow> string list) \<Rightarrow> snmp_walk \<Rightarrow> snmp_device \<Rightarrow> time \<Rightarrow> metric list" where
  "pollNetworkOIDs ord walk d ts =
     (let ifNames = collectText (walk oidIfDescr);
          ifInOcts = collectNum (walk oidIfInOctets);
          ifOutOcts = collectNum (walk oidIfOutOctets) in
      tableMetrics ord ts (\<lambda>n. deviceLabels d @ [(''interface'', n)]) ifNames
        [(''infrasense_snmp_net_in_bytes'', ifInOcts), (''infrasense_snmp_net_out_bytes'', ifOutOcts)])"

definition pollNetworkMetrics ::
  "(string list \<Rightarrow> string list) \<Rightarrow> snmp_walk \<Rightarrow> snmp_device \<Rightarrow> time \<Rightarrow> metric list" where
  "pollNetworkMetrics ord walk d ts =
     (let ifNames = collectText (walk oidIfDescr);
          ifStatus = collectNum (walk oidIfOperStatus);
          ifSpeed = collectNum (walk oidIfSpeed);
          ifInOctets = collectNum (walk oidIfInOctets);
          ifOutOctets = collectNum (walk oidIfOutOctets) in
      tableMetrics ord ts (\<lambda>n. deviceLabels d @ [(''interface'', n)]) ifNames
        [(''infrasense_snmp_interface_status'', ifStatus),
         (''infrasense_snmp_interface_speed_bps'', ifSpeed),
         (''infrasense_snmp_interface_rx_bytes_total'', ifInOctets),
         (''infrasense_snmp_interface_tx_bytes_total'', ifOutOctets)])"

section \<open>Dell objects\<close>

text \<open>A walk whose callback writes one metric per numeric object, labelled with its index.\<close>

definition walkMetrics ::
  "snmp_walk \<Rightarrow> time \<Rightarrow> labels \<Rightarrow> string \<Rightarrow> string \<Rightarrow> string \<Rightarrow> (f64 \<Rightarrow> f64) \<Rightarrow> metric list" where
  "walkMetrics walk ts base oid idxLabel name conv = List.map_filter (\<lambda>p.
     map_option (\<lambda>x. snmpMetric ts name (conv x) (base @ [(idxLabel, lastOIDComponent (pdu_name p))]))
       (toFloat64 p)) (walk oid)"

definition isDellObject :: "pdu \<Rightarrow> bool" where
  "isDellObject v = hasPrefix (trimDot (case textOf v of Some s \<Rightarrow> s | None \<Rightarrow> [])) oidDellEnterprisePrefix"

definition pollDellVendorOIDs ::
  "snmp_get \<Rightarrow> snmp_walk \<Rightarrow> snmp_device \<Rightarrow> time \<Rightarrow> metric list result" where
  "pollDellVendorOIDs get walk d ts = (case get [oidSysObjectID] of
     Inl e \<Rightarrow> Inl (''failed to get sysObjectID: '' @ e)
   | Inr vars \<Rightarrow>
     (if \<not> list_ex isDellObject vars then Inr []
      else
        (let scalars = (case get [oidDellGlobalSystemStatus, oidDellSystemLCDStatus] of
               Inl _ \<Rightarrow> []
             | Inr vs \<Rightarrow> scalarMetrics
                 [(oidDellGlobalSystemStatus, ''infrasense_snmp_dell_global_system_status''),
                  (oidDellSystemLCDStatus, ''infrasense_snmp_dell_lcd_status'')] d ts vs);
             tbl = walkMetrics walk ts (deviceLabels d) in
         Inr (scalars @
           tbl oidDellPowerSupplyStatus ''psu_index'' ''infrasense_snmp_dell_psu_status'' (\<lambda>x. x) @
           tbl oidDellTemperatureProbeStatus ''probe_index'' ''infrasense_snmp_dell_temp_status'' (\<lambda>x. x) @
           tbl oidDellFanDeviceStatus ''fan_index'' ''infrasense_snmp_dell_fan_status'' (\<lambda>x. x)))))"

definition pollDellVendorMetrics :: "snmp_walk \<Rightarrow> snmp_device \<Rightarrow> time \<Rightarrow> metric list" where
  "pollDellVendorMetrics walk d ts =
     (let tbl = walkMetrics walk ts (deviceLabels d @ [(''vendor'', ''dell'')]) in
      tbl oidDellTempProbeReading ''probe_index'' ''infrasense_snmp_dell_temperature_celsius''
        (\<lambda>x. fdiv x (Fin 10)) @
      tbl oidDellFanReading ''fan_index'' ''infrasense_snmp_dell_fan_rpm'' (\<lambda>x. x) @
      tbl oidDellPSUStatus ''psu_index'' ''infrasense_snmp_dell_psu_status'' (\<lambda>x. x) @
      tbl oidDellRAIDStatus ''vdisk_index'' ''infrasense_snmp_dell_raid_status'' (\<lambda>x. x))"

section \<open>UPS objects\<close>

definition upsOids :: "(string \<times> string) list" where
  "upsOids = [(''battery_charge'', ''1.3.6.1.2.1.33.1.2.4.0''),
     (''input_voltage'', ''1.3.6.1.2.1.33.1.3.3.1.3.1''),
     (''output_voltage'', ''1.3.6.1.2.1.33.1.4.4.1.2.1''),
     (''load_percent'', ''1.3.6.1.2.1.33.1.4.4.1.5.1''),
     (''runtime_minutes'', ''1.3.6.1.2.1.33.1.2.3.0''),
     (''battery_status'', ''1.3.6.1.2.1.33.1.2.1.0'')]"

text \<open>The type switch of \<open>pollUPSMetrics\<close>. Its type assertions panic when the value is not of the type
  they name: \<open>Inl\<close>.\<close>

definition upsValue :: "pdu \<Rightarrow> f64 option result" where
  "upsValue v = (case pdu_type v of
     BInteger \<Rightarrow> (case pdu_value v of VInt i \<Rightarrow> Inr (Some (f_of_int (sint i)))
       | _ \<Rightarrow> Inl ''panic: interface conversion'')
   | BGauge32 \<Rightarrow> (case pdu_value v of VUint i \<Rightarrow> Inr (Some (f_of_int (uint i)))
       | _ \<Rightarrow> Inl ''panic: interface conversion'')
   | BCounter32 \<Rightarrow> (case pdu_value v of VUint i \<Rightarrow> Inr (Some (f_of_int (uint i)))
       | _ \<Rightarrow> Inl ''panic: interface conversion'')
   | BCounter64 \<Rightarrow> (case pdu_value v of VUint64 i \<Rightarrow> Inr (Some (f_of_int (uint i)))
       | _ \<Rightarrow> Inl ''panic: interface conversion'')
   | BOther _ \<Rightarrow> Inr None)"

fun pollUPSMetrics :: "snmp_get \<Rightarrow> snmp_device \<Rightarrow> time \<Rightarrow> (string \<times> string) list \<Rightarrow> metric list result" where
  "pollUPSMetrics get d ts [] = Inr []"
| "pollUPSMetrics get d ts ((metricName, oid) # rest) =
     (let one = (case get [oid] of Inl _ \<Rightarrow> Inr None | Inr [] \<Rightarrow> Inr None
          | Inr (v # vs) \<Rightarrow> upsValue v) in
      case one of Inl e \<Rightarrow> Inl e
      | Inr x \<Rightarrow> (case pollUPSMetrics get d ts rest of Inl e \<Rightarrow> Inl e
          | Inr ms \<Rightarrow> Inr ((case x of None \<Rightarrow> []
              | Some value \<Rightarrow> [snmpMetric ts (''infrasense_snmp_ups_'' @ metricName) value (deviceLabels d)]) @ ms)))"

section \<open>One poll\<close>

definition errPart :: "string \<Rightarrow> string option \<Rightarrow> string list" where
  "errPart what e = (case e of None \<Rightarrow> [] | Some m \<Rightarrow> [what @ '': '' @ m])"

text \<open>\<open>PollAllMetrics\<close>: the k-th request and walk function, and the k-th order of a map, belong to the
  k-th function it calls.\<close>

definition PollAllMetrics ::
  "(nat \<Rightarrow> snmp_get) \<Rightarrow> (nat \<Rightarrow> snmp_walk) \<Rightarrow> (nat \<Rightarrow> string list \<Rightarrow> string list) \<Rightarrow> snmp_device \<Rightarrow>
   time \<Rightarrow> metric list \<times> string option" where
  "PollAllMetrics get walk ord d ts =
     (case pollSystemOIDs (get 0) d ts of (sys, sysErr) \<Rightarrow>
      case pollCPUOIDs (get 1) d ts of (cpu, cpuErr) \<Rightarrow>
      case pollMemoryOIDs (get 2) d ts of (mem, memErr) \<Rightarrow>
        let errs = errPart ''system'' sysErr @ errPart ''cpu'' cpuErr @ errPart ''memory'' memErr;
            dell = (case pollDellVendorOIDs (get 8) (walk 8) d ts of Inl _ \<Rightarrow> [] | Inr ms \<Rightarrow> ms) in
        (sys @ cpu @ mem @ pollDiskMetrics (ord 3) (walk 3) d ts @ pollDiskOIDs (ord 4) (walk 4) d ts @
           pollNetworkMetrics (ord 5) (walk 5) d ts @ pollNetworkOIDs (ord 6) (walk 6) d ts @
           pollDellVendorMetrics (walk 7) d ts @ dell,
         if errs = [] then None else Some (''partial poll errors: '' @ joinWith ''; '' errs)))"

definition isTimeoutError :: "string option \<Rightarrow> bool" where
  "isTimeoutError err = (case err of None \<Rightarrow> False
     | Some e \<Rightarrow> let msg = toLower e in
         contains msg ''timeout'' \<or> contains msg ''timed out'' \<or> contains msg ''i/o timeout'')"

section \<open>The collector\<close>

record snmp_cred_row =
  sr_device_id :: string
  sr_protocol :: string
  sr_community :: "string option"
  sr_username :: "string option"
  sr_auth_protocol :: "string option"
  sr_auth_password :: "string option"
  sr_priv_protocol :: "string option"
  sr_priv_password :: "string option"

record snmp_status_row =
  ss_device :: "64 word"
  ss_last_poll :: time
  ss_last_success :: "time option"
  ss_last_error :: string

record snmp_collector =
  sc_devices_table :: "device_row list"
  sc_credentials :: "snmp_cred_row list"
  sc_status :: "snmp_status_row list"
  sc_writer :: vm_writer
  sc_retry :: "(64 word) retry_manager"
  sc_devices :: "snmp_device list"

definition orElse :: "string option \<Rightarrow> string \<Rightarrow> string" where
  "orElse x y = (case x of Some s \<Rightarrow> s | None \<Rightarrow> y)"

text \<open>The rows of the query of \<open>loadDevices\<close>: the \<open>id\<close> column as the driver delivers it, as text, and the
  device without its id; a device has a row for each of its credentials.\<close>

definition snmpRows :: "snmp_collector \<Rightarrow> (string \<times> snmp_device) list" where
  "snmpRows c = concat (map (\<lambda>r.
     let ms = filter (\<lambda>k. sr_device_id k = dv_id r) (sc_credentials c);
         mk = (\<lambda>ver com user ap aw pp pw. (dv_id r, \<lparr>sn_ID = 0, sn_Hostname = dv_hostname r,
           sn_IPAddress = inet_host (dv_ip r), sn_SNMPVersion = ver, sn_Community = com,
           sn_Username = user, sn_AuthProtocol = ap, sn_AuthPassword = aw, sn_PrivProtocol = pp,
           sn_PrivPassword = pw, sn_Status = dv_status r\<rparr>)) in
     if ms = [] then [mk ''snmp_v2c'' [] [] [] [] [] []]
     else map (\<lambda>k. mk (sr_protocol k) (orElse (sr_community k) []) (orElse (sr_username k) [])
       (orElse (sr_auth_protocol k) []) (orElse (sr_auth_password k) [])
       (orElse (sr_priv_protocol k) []) (orElse (sr_priv_password k) [])) ms)
     (filter (\<lambda>r. dv_protocol r = Some ''snmp'' \<and> dv_status r \<noteq> ''deleted'') (sc_devices_table c)))"

text \<open>\<open>rows.Scan\<close> reads the id into an \<open>int64\<close>; a row it cannot read is skipped. The program does not
  look at \<open>rows.Err()\<close>: \<open>got\<close> is the number of rows the iteration delivered.\<close>

definition snmpScan :: "string \<times> snmp_device \<Rightarrow> snmp_device option" where
  "snmpScan row = (case row of (idText, d) \<Rightarrow>
     map_option (\<lambda>i. d\<lparr>sn_ID := word_of_int i\<rparr>) (parseInt64 idText))"

definition snmp_loadDevices ::
  "string option \<Rightarrow> nat \<Rightarrow> snmp_collector \<Rightarrow> snmp_collector \<times> string option" where
  "snmp_loadDevices queryErr got c = (case queryErr of
     Some e \<Rightarrow> (c, Some (''failed to query devices: '' @ e))
   | None \<Rightarrow> (c\<lparr>sc_devices := List.map_filter snmpScan (take got (snmpRows c))\<rparr>, None))"

text \<open>\<open>updateDeviceStatus\<close> returns early when its first statement fails.\<close>

definition snmp_updateDeviceStatus ::
  "bool \<Rightarrow> bool \<Rightarrow> time \<Rightarrow> 64 word \<Rightarrow> string \<Rightarrow> string \<Rightarrow> snmp_collector \<Rightarrow> snmp_collector" where
  "snmp_updateDeviceStatus ok1 ok2 now d status errorMsg c =
     (if \<not> ok1 then c
      else let c1 = c\<lparr>sc_devices_table := updateWhere (\<lambda>r. dv_id r = itoa (sint d))
             (\<lambda>r. r\<lparr>dv_status := status, dv_updated_at := now\<rparr>) (sc_devices_table c)\<rparr> in
        if ok2 then c1\<lparr>sc_status := upsertBy ss_device
            \<lparr>ss_device = d, ss_last_poll = now, ss_last_success = None, ss_last_error = errorMsg\<rparr>
            (\<lambda>r. r\<lparr>ss_last_poll := now, ss_last_error := errorMsg\<rparr>) (sc_status c1)\<rparr>
        else c1)"

definition snmp_updateCollectorStatusSuccess ::
  "bool \<Rightarrow> time \<Rightarrow> 64 word \<Rightarrow> snmp_collector \<Rightarrow> snmp_collector" where
  "snmp_updateCollectorStatusSuccess ok now d c =
     (if ok then c\<lparr>sc_status := upsertBy ss_device
          \<lparr>ss_device = d, ss_last_poll = now, ss_last_success = Some now, ss_last_error = []\<rparr>
          (\<lambda>r. r\<lparr>ss_last_poll := now, ss_last_success := Some now, ss_last_error := []\<rparr>) (sc_status c)\<rparr>
      else c)"

text \<open>What the world answers during one poll. \<open>se_oks\<close> are the successes of the database statements in
  order.\<close>

record snmp_env =
  se_oor :: duration
  se_t0 :: time
  se_t1 :: time
  se_t2 :: time
  se_connErr :: "string option"
  se_get :: "nat \<Rightarrow> snmp_get"
  se_walk :: "nat \<Rightarrow> snmp_walk"
  se_ord :: "nat \<Rightarrow> string list \<Rightarrow> string list"
  se_stamp :: time
  se_net :: "nat \<Rightarrow> nat \<Rightarrow> send_outcome"
  se_oks :: "bool \<times> bool \<times> bool"
  se_dbNow :: time

fun snmpPush :: "(nat \<Rightarrow> nat \<Rightarrow> send_outcome) \<Rightarrow> nat \<Rightarrow> metric list \<Rightarrow> vm_writer \<Rightarrow> vm_writer" where
  "snmpPush net k [] w = w"
| "snmpPush net k (m # ms) w =
     snmpPush net (k + 1) ms (fst (snmp_WriteMetric (net k) w (m_name m) (m_value m) (m_labels m) (m_time m)))"

definition snmpUnavailable ::
  "snmp_env \<Rightarrow> snmp_device \<Rightarrow> (string \<Rightarrow> string) \<Rightarrow> snmp_collector \<Rightarrow> snmp_collector" where
  "snmpUnavailable env d msg c =
     (case snmp_RecordFailure (se_oor env) (sc_retry c) (sn_ID d) (sn_Hostname d) (se_t1 env) (se_t2 env)
      of (rm, backoff) \<Rightarrow> snmp_updateDeviceStatus (fst (se_oks env)) (fst (snd (se_oks env)))
        (se_dbNow env) (sn_ID d) ''unavailable'' (msg (durationString (sint backoff)))
        (c\<lparr>sc_retry := rm\<rparr>))"

definition snmp_PollDeviceWithRetry :: "snmp_env \<Rightarrow> snmp_device \<Rightarrow> snmp_collector \<Rightarrow> snmp_collector" where
  "snmp_PollDeviceWithRetry env d c =
     (if \<not> snmp_ShouldRetry (sc_retry c) (sn_ID d) (se_t0 env) then c
      else case se_connErr env of
        Some e \<Rightarrow> snmpUnavailable env d
          (\<lambda>r. ''Connection failed: '' @ e @ '' (retry in '' @ r @ '')'') c
      | None \<Rightarrow>
        (case PollAllMetrics (se_get env) (se_walk env) (se_ord env) d (se_stamp env) of (ms, err) \<Rightarrow>
           let c1 = c\<lparr>sc_writer := snmpPush (se_net env) 0 ms (sc_writer c)\<rparr> in
           if isTimeoutError err
           then snmpUnavailable env d
             (\<lambda>r. ''SNMP timeout: '' @ (case err of Some e \<Rightarrow> e | None \<Rightarrow> []) @ '' (retry in '' @ r @ '')'') c1
           else
             (let c2 = c1\<lparr>sc_retry := snmp_RecordSuccess (sc_retry c1) (sn_ID d)\<rparr>;
                  c3 = snmp_updateDeviceStatus (fst (se_oks env)) (fst (snd (se_oks env)))
                    (se_dbNow env) (sn_ID d) ''healthy'' [] c2 in
              snmp_updateCollectorStatusSuccess (snd (snd (se_oks env))) (se_dbNow env) (sn_ID d) c3)))"

section \<open>Traps\<close>

text \<open>\<open>startTrapListener\<close> of \<open>snmp.go\<close>, which \<open>Start\<close> runs: one counter per variable, with the device whose
  address the packet comes from.\<close>

definition startTrapListener :: "snmp_device list \<Rightarrow> string \<Rightarrow> pdu list \<Rightarrow> time \<Rightarrow> metric list" where
  "startTrapListener devs srcIP vars ts =
     (let deviceID = (case find (\<lambda>d. sn_IPAddress d = srcIP) devs of
            Some d \<Rightarrow> itoa (sint (sn_ID d)) | None \<Rightarrow> ''unknown'') in
      map (\<lambda>v. snmpMetric ts ''infrasense_snmp_trap_received'' (Fin 1)
        [(''trap_oid'', trimDot (pdu_name v)), (''device_id'', deviceID)]) vars)"

text \<open>\<open>StartTrapListener\<close> of \<open>snmp_poll.go\<close>: the vendor label, once set, stays for the variables that
  follow.\<close>

fun StartTrapListener :: "labels \<Rightarrow> pdu list \<Rightarrow> time \<Rightarrow> metric list" where
  "StartTrapListener ls [] ts = []"
| "StartTrapListener ls (v # vs) ts =
     (let dell = hasPrefix (pdu_name v) ''1.3.6.1.4.1.674'';
          ls1 = (if dell then AList.update ''vendor'' ''dell'' ls else ls);
          name = (if dell then ''infrasense_snmp_trap_dell'' else ''infrasense_snmp_trap'') in
      (case toFloat64 v of None \<Rightarrow> []
       | Some x \<Rightarrow> [snmpMetric ts name x (AList.update ''oid'' (pdu_name v) ls1)]) @
      StartTrapListener ls1 vs ts)"

section \<open>Tables are joined by index\<close>

lemma distinct_collect: "distinct (map fst (foldl (\<lambda>m p. case f p of None \<Rightarrow> m
    | Some x \<Rightarrow> AList.update (g p) x m) m ps))" if "distinct (map fst m)"
  using that by (induction ps arbitrary: m) (auto split: option.split intro: distinct_update)

lemma map_of_collect:
  "map_of (foldl (\<lambda>m p. case f p of None \<Rightarrow> m | Some x \<Rightarrow> AList.update (g p) x m) m ps) k =
   (case find (\<lambda>p. g p = k \<and> f p \<noteq> None) (rev ps) of None \<Rightarrow> map_of m k | Some p \<Rightarrow> f p)"
proof (induction ps arbitrary: m rule: rev_induct)
  case (snoc p ps)
  then show ?case by (auto simp: update_conv' split: option.split)
qed simp

text \<open>The value that a table column has for an index: that of the last numeric object with it.\<close>

lemma collectNum_last:
  "map_of (collectNum ps) k =
     (case find (\<lambda>p. lastOIDComponent (pdu_name p) = k \<and> toFloat64 p \<noteq> None) (rev ps) of
        None \<Rightarrow> None | Some p \<Rightarrow> toFloat64 p)"
  unfolding collectNum_def map_of_collect by (simp split: option.split)

definition permuting :: "(string list \<Rightarrow> string list) \<Rightarrow> bool" where
  "permuting ord = (\<forall>xs. mset (ord xs) = mset xs)"

lemma permuting_id: "permuting (\<lambda>xs. xs)" "permuting rev"
  unfolding permuting_def by simp_all

lemma tableMetrics_mset:
  assumes "permuting ord" "permuting ord'"
  shows "mset (tableMetrics ord ts ls names cols) = mset (tableMetrics ord' ts ls names cols)"
proof -
  have e: "mset (ord (map fst names)) = mset (ord' (map fst names))"
    using assms unfolding permuting_def by simp
  have c: "mset (concat (map f xs)) = sum_mset (image_mset (\<lambda>x. mset (f x)) (mset xs))"
    for f :: "string \<Rightarrow> metric list" and xs by (induction xs) auto
  show ?thesis unfolding tableMetrics_def c e ..
qed

lemma bex_pair: "(\<exists>x \<in> S. (case x of (a, b) \<Rightarrow> f a b) = y) \<longleftrightarrow> (\<exists>a b. (a, b) \<in> S \<and> f a b = y)"
  by (metis (mono_tags, lifting) case_prod_conv surj_pair)

lemma tableMetrics_set:
  assumes "permuting ord"
  shows "m \<in> set (tableMetrics ord ts ls names cols) \<longleftrightarrow>
    (\<exists>idx nm name tbl v. map_of names idx = Some nm \<and> (name, tbl) \<in> set cols \<and>
       map_of tbl idx = Some v \<and> m = snmpMetric ts name v (ls nm))"
proof -
  have idx: "set (ord (map fst names)) = fst ` set names"
    using assms unfolding permuting_def by (metis list.set_map set_mset_mset)
  have dom: "idx \<in> fst ` set names" if "map_of names idx = Some nm" for idx nm
    using map_of_SomeD [OF that] by force
  define g where "g = (\<lambda>idx. case map_of names idx of None \<Rightarrow> []
     | Some nm \<Rightarrow> List.map_filter (\<lambda>(metric_name, tbl).
         map_option (\<lambda>v. snmpMetric ts metric_name v (ls nm)) (map_of tbl idx)) cols)"
  have "m \<in> set (g idx) \<longleftrightarrow> (\<exists>nm. map_of names idx = Some nm \<and>
      (\<exists>name tbl v. (name, tbl) \<in> set cols \<and> map_of tbl idx = Some v \<and> m = snmpMetric ts name v (ls nm)))" for idx
  proof (cases "map_of names idx")
    case (Some nm)
    then have "m \<in> set (g idx) \<longleftrightarrow> (\<exists>x \<in> set cols. (case x of (name, tbl) \<Rightarrow>
        map_option (\<lambda>v. snmpMetric ts name v (ls nm)) (map_of tbl idx)) = Some m)"
      unfolding g_def by (simp add: set_map_filter)
    with Some show ?thesis by (simp add: bex_pair) blast
  qed (simp add: g_def)
  moreover have "m \<in> set (tableMetrics ord ts ls names cols) \<longleftrightarrow> (\<exists>idx \<in> fst ` set names. m \<in> set (g idx))"
    unfolding tableMetrics_def g_def [symmetric] by (simp add: idx)
  ultimately show ?thesis using dom by blast
qed

lemma tableMetrics_two:
  assumes "permuting ord"
  shows "m \<in> set (tableMetrics ord ts ls names [(n, t), (n', t')]) \<longleftrightarrow>
    (\<exists>idx nm v. map_of names idx = Some nm \<and>
       (m = snmpMetric ts n v (ls nm) \<and> map_of t idx = Some v \<or>
        m = snmpMetric ts n' v (ls nm) \<and> map_of t' idx = Some v))"
  unfolding tableMetrics_set [OF assms] list.set insert_iff prod.inject by blast

text \<open>Whatever order the runtime ranges over the interface names in, \<open>pollNetworkOIDs\<close> writes the
  same metrics up to order: for each interface index that the name walk gave, its octet counters
  with that index, labelled with that name, and nothing else.\<close>

theorem pollNetworkOIDs_join:
  assumes "permuting ord"
  shows "mset (pollNetworkOIDs ord walk d ts) = mset (pollNetworkOIDs (\<lambda>xs. xs) walk d ts) \<and>
    (\<forall>m. m \<in> set (pollNetworkOIDs ord walk d ts) \<longleftrightarrow>
      (\<exists>idx ifName v. map_of (collectText (walk oidIfDescr)) idx = Some ifName \<and>
        (m = snmpMetric ts ''infrasense_snmp_net_in_bytes'' v (deviceLabels d @ [(''interface'', ifName)]) \<and>
           map_of (collectNum (walk oidIfInOctets)) idx = Some v \<or>
         m = snmpMetric ts ''infrasense_snmp_net_out_bytes'' v (deviceLabels d @ [(''interface'', ifName)]) \<and>
           map_of (collectNum (walk oidIfOutOctets)) idx = Some v)))"
  unfolding pollNetworkOIDs_def Let_def tableMetrics_two [OF assms]
  using tableMetrics_mset [OF assms permuting_id(1)] by blast

section \<open>The retry states of the collector\<close>

lemma snmpUnavailable_retry:
  "sc_retry (snmpUnavailable env d msg c) = fst (snmp_RecordFailure (se_oor env) (sc_retry c)
     (sn_ID d) (sn_Hostname d) (se_t1 env) (se_t2 env))"
  unfolding snmpUnavailable_def snmp_updateDeviceStatus_def by (simp add: Let_def split: prod.split)

definition snmpOkay :: "snmp_env \<Rightarrow> snmp_device \<Rightarrow> bool" where
  "snmpOkay env d = (se_connErr env = None \<and>
     \<not> isTimeoutError (snd (PollAllMetrics (se_get env) (se_walk env) (se_ord env) d (se_stamp env))))"

definition snmpAttempt :: "snmp_env \<Rightarrow> snmp_device \<Rightarrow> (64 word) attempt" where
  "snmpAttempt env d = \<lparr>dev = sn_ID d, host = sn_Hostname d, start = se_t0 env, failed1 = se_t1 env,
     failed2 = se_t2 env, okay = snmpOkay env d\<rparr>"

lemma snmp_poll_retry:
  "sc_retry (snmp_PollDeviceWithRetry env d c) =
     snmp_retry.step (se_oor env) (sc_retry c) (snmpAttempt env d)"
proof -
  have keep: "sc_retry (snmp_updateCollectorStatusSuccess a n i c) = sc_retry c"
    "sc_retry (snmp_updateDeviceStatus a b n i s m c) = sc_retry c" for a b n i s m c
    unfolding snmp_updateCollectorStatusSuccess_def snmp_updateDeviceStatus_def
    by (simp_all add: Let_def)
  show ?thesis
    unfolding snmp_PollDeviceWithRetry_def snmp_retry.step_def snmp_retry.polled_def snmpAttempt_def
      snmpOkay_def
    by (auto simp: Let_def snmpUnavailable_retry keep split: option.split prod.split)
qed

lemma contains_joined:
  assumes "x \<in> set xs" "contains (toLower x) w"
  shows "contains (toLower (joinWith sep xs)) w"
proof -
  have "\<exists>a b. joinWith sep xs = a @ x @ b"
    using assms(1)
  proof (induction sep xs rule: joinWith.induct)
    case (3 sep y z zs)
    show ?case
    proof (cases "x = y")
      case False
      with 3 obtain a b where "joinWith sep (z # zs) = a @ x @ b" by auto
      then have "joinWith sep (y # z # zs) = (y @ sep @ a) @ x @ b" by simp
      then show ?thesis by blast
    next
      case True
      then have "joinWith sep (y # z # zs) = [] @ x @ (sep @ joinWith sep (z # zs))" by simp
      then show ?thesis by blast
    qed
  qed (auto intro: exI [of _ "[]"])
  then obtain a b where j: "joinWith sep xs = a @ x @ b" by blast
  from assms(2) obtain u v where "toLower x = u @ w @ v" unfolding contains_iff by blast
  then have "toLower (joinWith sep xs) = (toLower a @ u) @ w @ v @ toLower b" by (simp add: j)
  then show ?thesis unfolding contains_iff by blast
qed

text \<open>C32: A poll of an SNMP device counts as a failure when the connection fails or when one of the
  three scalar requests ends with a message that mentions a timeout; it counts as a success when the
  connection and the three requests succeed, whatever the table walks give.\<close>

theorem snmp_poll_outcome:
  assumes "snmp_ShouldRetry (sc_retry c) (sn_ID d) (se_t0 env)"
  shows "(se_connErr env \<noteq> None \<or>
      (\<exists>e. contains (toLower e) ''timeout'' \<and>
        (se_get env 0 [oidSysDescr, oidSysUptime, oidSysName] = Inl e \<or>
         se_get env 1 [oidCPUUser, oidCPUSystem, oidCPUIdle] = Inl e \<or>
         se_get env 2 [oidMemTotal, oidMemAvail, oidMemFree] = Inl e)) \<longrightarrow>
      snmp_GetFailureCount (sc_retry (snmp_PollDeviceWithRetry env d c)) (sn_ID d) =
        snmp_GetFailureCount (sc_retry c) (sn_ID d) + 1) \<and>
    (se_connErr env = None \<and>
      (\<forall>k oids. k < 3 \<longrightarrow> (\<exists>vs. se_get env k oids = Inr vs)) \<longrightarrow>
      snmp_GetFailureCount (sc_retry (snmp_PollDeviceWithRetry env d c)) (sn_ID d) = 0)"
proof -
  define get where "get = se_get env"
  let ?e = "snd (PollAllMetrics get (se_walk env) (se_ord env) d (se_stamp env))"
  define errs where "errs = errPart ''system'' (snd (pollSystemOIDs (get 0) d (se_stamp env))) @
    errPart ''cpu'' (snd (pollCPUOIDs (get 1) d (se_stamp env))) @
    errPart ''memory'' (snd (pollMemoryOIDs (get 2) d (se_stamp env)))"
  have e: "?e = (if errs = [] then None else Some (''partial poll errors: '' @ joinWith ''; '' errs))"
    unfolding PollAllMetrics_def errs_def by (simp add: Let_def split: prod.split)
  have cnt: "snmp_GetFailureCount (sc_retry (snmp_PollDeviceWithRetry env d c)) (sn_ID d) =
      (if snmpOkay env d then 0 else snmp_GetFailureCount (sc_retry c) (sn_ID d) + 1)"
    unfolding snmp_poll_retry snmp_retry.count_step using assms
    by (simp add: snmpAttempt_def snmp_retry.polled_def)
  have bad: "\<not> snmpOkay env d" if "contains (toLower m) ''timeout''"
    and "get 0 [oidSysDescr, oidSysUptime, oidSysName] = Inl m \<or>
         get 1 [oidCPUUser, oidCPUSystem, oidCPUIdle] = Inl m \<or>
         get 2 [oidMemTotal, oidMemAvail, oidMemFree] = Inl m" for m
  proof -
    have "\<exists>w. w @ '': '' @ m \<in> set errs"
      using that(2) unfolding errs_def pollSystemOIDs_def pollCPUOIDs_def pollMemoryOIDs_def errPart_def
      by (auto simp del: append.simps)
    then obtain w where w: "w @ '': '' @ m \<in> set errs" by blast
    from that(1) obtain u v where "toLower m = u @ ''timeout'' @ v" unfolding contains_iff by blast
    then have "toLower (w @ '': '' @ m) = (toLower (w @ '': '') @ u) @ ''timeout'' @ v"
      by (simp only: toLower_append append_assoc)
    then have "contains (toLower (w @ '': '' @ m)) ''timeout''" unfolding contains_iff by blast
    from contains_joined [OF w this, of "''; ''"] obtain a b where
      "toLower (joinWith ''; '' errs) = a @ ''timeout'' @ b" unfolding contains_iff by blast
    then have "toLower (''partial poll errors: '' @ joinWith ''; '' errs) =
        (toLower ''partial poll errors: '' @ a) @ ''timeout'' @ b"
      by (simp only: toLower_append append_assoc)
    then have "contains (toLower (''partial poll errors: '' @ joinWith ''; '' errs)) ''timeout''"
      unfolding contains_iff by blast
    moreover have "errs \<noteq> []" using w by auto
    ultimately show ?thesis
      unfolding snmpOkay_def get_def [symmetric] e isTimeoutError_def by (simp add: Let_def)
  qed
  have good: "snmpOkay env d" if "se_connErr env = None"
    "\<forall>k oids. k < 3 \<longrightarrow> (\<exists>vs. get k oids = Inr vs)"
  proof -
    have ok: "get k oids \<noteq> Inl m" if "k < 3" for k oids m
      using that \<open>\<forall>k oids. k < 3 \<longrightarrow> (\<exists>vs. get k oids = Inr vs)\<close> by (metis Inl_Inr_False)
    from ok [of 0] ok [of 1] ok [of 2] have "errs = []"
      unfolding errs_def pollSystemOIDs_def pollCPUOIDs_def pollMemoryOIDs_def errPart_def
      by (auto split: sum.split option.split)
    with that(1) show ?thesis
      unfolding snmpOkay_def get_def [symmetric] e isTimeoutError_def by simp
  qed
  have refused: "\<not> snmpOkay env d" if "se_connErr env \<noteq> None" using that unfolding snmpOkay_def by simp
  show ?thesis
  proof (intro conjI impI)
    assume "se_connErr env \<noteq> None \<or>
      (\<exists>e. contains (toLower e) ''timeout'' \<and>
        (se_get env 0 [oidSysDescr, oidSysUptime, oidSysName] = Inl e \<or>
         se_get env 1 [oidCPUUser, oidCPUSystem, oidCPUIdle] = Inl e \<or>
         se_get env 2 [oidMemTotal, oidMemAvail, oidMemFree] = Inl e))"
    then have "\<not> snmpOkay env d" using bad refused unfolding get_def by blast
    then show "snmp_GetFailureCount (sc_retry (snmp_PollDeviceWithRetry env d c)) (sn_ID d) =
        snmp_GetFailureCount (sc_retry c) (sn_ID d) + 1" using cnt by simp
  next
    assume "se_connErr env = None \<and> (\<forall>k oids. k < 3 \<longrightarrow> (\<exists>vs. se_get env k oids = Inr vs))"
    then have "snmpOkay env d" using good unfolding get_def by blast
    then show "snmp_GetFailureCount (sc_retry (snmp_PollDeviceWithRetry env d c)) (sn_ID d) = 0"
      using cnt by simp
  qed
qed

definition exSnmpDevice :: snmp_device where
  "exSnmpDevice = \<lparr>sn_ID = 7, sn_Hostname = ''sw'', sn_IPAddress = ''10.0.0.9'', sn_SNMPVersion = ''snmp_v2c'',
     sn_Community = ''public'', sn_Username = [], sn_AuthProtocol = [], sn_AuthPassword = [],
     sn_PrivProtocol = [], sn_PrivPassword = [], sn_Status = ''online''\<rparr>"

definition exSnmpEnv :: "string option \<Rightarrow> snmp_env" where
  "exSnmpEnv e = \<lparr>se_oor = 0, se_t0 = 1, se_t1 = 1, se_t2 = 1, se_connErr = e,
     se_get = \<lambda>_ _. Inr [], se_walk = \<lambda>_ _. [], se_ord = \<lambda>_ xs. xs, se_stamp = 0,
     se_net = \<lambda>_ _. Response 204 [], se_oks = (True, True, True), se_dbNow = 0\<rparr>"

definition exSnmpCollector :: snmp_collector where
  "exSnmpCollector = \<lparr>sc_devices_table = [], sc_credentials = [], sc_status = [],
     sc_writer = NewVictoriaMetricsWriter 10, sc_retry = NewRetryManager, sc_devices = []\<rparr>"

text \<open>Two interfaces, with their received octets only.\<close>

definition exWalk :: snmp_walk where
  "exWalk oid = (if oid = oidIfDescr
     then [\<lparr>pdu_name = ''.1.3.6.1.2.1.2.2.1.2.1'', pdu_type = BOther 4, pdu_value = VBytes ''eth0''\<rparr>,
           \<lparr>pdu_name = ''.1.3.6.1.2.1.2.2.1.2.2'', pdu_type = BOther 4, pdu_value = VBytes ''eth1''\<rparr>]
     else if oid = oidIfInOctets
     then [\<lparr>pdu_name = ''.1.3.6.1.2.1.2.2.1.10.1'', pdu_type = BCounter32, pdu_value = VUint32 7\<rparr>,
           \<lparr>pdu_name = ''.1.3.6.1.2.1.2.2.1.10.2'', pdu_type = BCounter32, pdu_value = VUint32 9\<rparr>]
     else [])"

theorem pollNetworkOIDs_join_witness:
  "mset (pollNetworkOIDs rev exWalk exSnmpDevice 5) = mset (pollNetworkOIDs (\<lambda>xs. xs) exWalk exSnmpDevice 5) \<and>
   length (pollNetworkOIDs rev exWalk exSnmpDevice 5) = 2"
proof
  show "mset (pollNetworkOIDs rev exWalk exSnmpDevice 5) = mset (pollNetworkOIDs (\<lambda>xs. xs) exWalk exSnmpDevice 5)"
    by (rule conjunct1 [OF pollNetworkOIDs_join [OF permuting_id(2)]])
  have "int (length (pollNetworkOIDs rev exWalk exSnmpDevice 5)) = 2" by code_simp
  then show "length (pollNetworkOIDs rev exWalk exSnmpDevice 5) = 2" by simp
qed

theorem snmp_poll_outcome_witness:
  "snmp_GetFailureCount (sc_retry (snmp_PollDeviceWithRetry (exSnmpEnv (Some ''refused'')) exSnmpDevice
     exSnmpCollector)) 7 = 1 \<and>
   snmp_GetFailureCount (sc_retry (snmp_PollDeviceWithRetry (exSnmpEnv None) exSnmpDevice
     exSnmpCollector)) 7 = 0"
proof -
  have s: "snmp_ShouldRetry (sc_retry exSnmpCollector) (sn_ID exSnmpDevice) (se_t0 (exSnmpEnv e))" for e
    unfolding exSnmpCollector_def NewRetryManager_def snmp_ShouldRetry_def by simp
  have z: "sn_ID exSnmpDevice = 7" "snmp_GetFailureCount (sc_retry exSnmpCollector) 7 = 0"
    unfolding exSnmpCollector_def exSnmpDevice_def NewRetryManager_def snmp_GetFailureCount_def by simp_all
  show ?thesis
    using snmp_poll_outcome [OF s, of "Some ''refused''"] snmp_poll_outcome [OF s, of None] z
    by (simp add: exSnmpEnv_def)
qed

section \<open>Device ids\<close>

text \<open>The collector scans the device id into an \<open>int64\<close>, while the ids of the table are UUIDs, whose
  text has a hyphen after its first character: no row can be read, and every reload leaves the
  collector with no device to poll.\<close>

theorem snmp_loads_no_uuid_device:
  assumes "\<forall>r \<in> set (sc_devices_table c). CHR ''-'' \<in> set (tl (dv_id r))"
  shows "sc_devices (fst (snmp_loadDevices None got c)) = []"
proof -
  have ids: "\<exists>r \<in> set (sc_devices_table c). fst row = dv_id r" if "row \<in> set (snmpRows c)" for row
    using that unfolding snmpRows_def by (auto simp: Let_def split: if_splits)
  have skip: "snmpScan row = None" if row: "row \<in> set (take got (snmpRows c))" for row
  proof -
    obtain r where "r \<in> set (sc_devices_table c)" "fst row = dv_id r"
      using ids [OF in_set_takeD [OF row]] by blast
    moreover have "\<not> is_digit CHR ''-''" by code_simp
    ultimately have "parseInt64 (fst row) = None"
      using assms parseInt64_other_char by metis
    then show ?thesis unfolding snmpScan_def by (simp add: split_def)
  qed
  then have "List.map_filter snmpScan (take got (snmpRows c)) = []"
    unfolding List.map_filter_def by (simp add: filter_empty_conv)
  then show ?thesis unfolding snmp_loadDevices_def by simp
qed

definition exUuidRow :: device_row where
  "exUuidRow = \<lparr>dv_id = ''6f1c2a3b-0000-4000-8000-000000000001'', dv_hostname = ''sw'',
     dv_ip = \<lparr>in_addr = ''10.0.0.9'', in_plen = 32\<rparr>, dv_bmc_ip = None, dv_type = ''switch'',
     dv_protocol = Some ''snmp'', dv_status = ''online'', dv_last_seen = None, dv_updated_at = 0\<rparr>"

theorem snmp_loads_no_uuid_device_witness:
  "sc_devices (fst (snmp_loadDevices None 1 (exSnmpCollector\<lparr>sc_devices_table := [exUuidRow]\<rparr>))) = []"
  by (rule snmp_loads_no_uuid_device) (simp add: exUuidRow_def)

section \<open>Two readings of one Dell object\<close>

lemma walkMetrics_values:
  "map m_value (walkMetrics walk ts base oid l n (\<lambda>x. x)) = List.map_filter toFloat64 (walk oid)"
proof -
  have "map m_value (List.map_filter (\<lambda>p. map_option (\<lambda>x. snmpMetric ts n x (base @ [(l, lastOIDComponent (pdu_name p))]))
      (toFloat64 p)) ps) = List.map_filter toFloat64 ps" for ps
    by (induction ps) (auto simp: List.map_filter_simps snmpMetric_def split: option.split)
  then show ?thesis unfolding walkMetrics_def .
qed

lemma walkMetrics_name: "m \<in> set (walkMetrics walk ts base oid l n conv) \<Longrightarrow> m_name m = n"
  unfolding walkMetrics_def by (auto simp: set_map_filter snmpMetric_def)

lemma filter_walkMetrics:
  "filter (\<lambda>m. m_name m = k) (walkMetrics walk ts base oid l n conv) =
     (if n = k then walkMetrics walk ts base oid l n conv else [])"
proof -
  have "\<forall>m \<in> set (walkMetrics walk ts base oid l n conv). m_name m = n" by (simp add: walkMetrics_name)
  then show ?thesis by (auto simp: filter_empty_conv filter_id_conv)
qed

text \<open>The object that \<open>pollDellVendorMetrics\<close> reports as power supply status is the one that
  \<open>pollDellVendorOIDs\<close> reports as temperature probe status: on a Dell device, when the walks answer
  alike, every poll writes the same values under both names.\<close>

theorem dell_psu_is_temperature_status:
  assumes "get [oidSysObjectID] = Inr vars" "list_ex isDellObject vars"
    and "get [oidDellGlobalSystemStatus, oidDellSystemLCDStatus] = Inl e"
  shows "\<exists>ms. pollDellVendorOIDs get walk d ts = Inr ms \<and>
    map m_value (filter (\<lambda>m. m_name m = ''infrasense_snmp_dell_temp_status'') ms) =
    map m_value (filter (\<lambda>m. m_name m = ''infrasense_snmp_dell_psu_status'') (pollDellVendorMetrics walk d ts))"
  using assms unfolding pollDellVendorOIDs_def pollDellVendorMetrics_def
  by (simp add: Let_def filter_walkMetrics walkMetrics_values oidDellPSUStatus_def
      oidDellTemperatureProbeStatus_def)

end
