(* ===== verification/Redfish.thy ===== *)
theory Redfish
  imports Retry VmWriter Codec IpmiTool
begin

text \<open>
  The Redfish collector: \<open>collectors/redfish-collector/internal/collector\<close> (\<open>redfish.go\<close>, \<open>inventory.go\<close>). The
  management controller is a function from a URL to its answer; within one poll a path that is asked
  twice is answered alike. A JSON body comes with its decoding into a map, where \<open>null\<close> is the empty
  map. Each collecting function reads the clock once, \<open>now path\<close>.
\<close>

section \<open>Data\<close>

record rf_device =
  rd_ID :: string
  rd_Hostname :: string
  rd_IPAddress :: string
  rd_Username :: string
  rd_Password :: string
  rd_Protocol :: string
  rd_Status :: string

datatype http_answer = NoAnswer string | Answer int string "(string \<times> json) list result"

type_synonym bmc = "string \<Rightarrow> http_answer"

section \<open>Requests\<close>

definition truncateStr :: "string \<Rightarrow> nat \<Rightarrow> string" where
  "truncateStr s n = (if length s \<le> n then s else take n s @ ''...'')"

definition redfishRequest :: "bmc \<Rightarrow> rf_device \<Rightarrow> string \<Rightarrow> (string \<times> json) list result" where
  "redfishRequest bmc d path = (let url = ''https://'' @ rd_IPAddress d @ path in
     case bmc url of
       NoAnswer e \<Rightarrow> Inl (''request to '' @ url @ '' failed: '' @ e)
     | Answer code body decoded \<Rightarrow>
         (if code \<noteq> 200
          then Inl (''HTTP '' @ itoa code @ '' from '' @ url @ '': '' @ truncateStr body 200)
          else case decoded of Inl e \<Rightarrow> Inl (''decode JSON from '' @ url @ '': '' @ e)
            | Inr m \<Rightarrow> Inr m))"

definition memberId :: "json \<Rightarrow> string option" where
  "memberId m = (case asObj (Some m) of None \<Rightarrow> None | Some mm \<Rightarrow> asStr (field ''@odata.id'' mm))"

definition listMembers :: "bmc \<Rightarrow> rf_device \<Rightarrow> string \<Rightarrow> string list result" where
  "listMembers bmc d path = (case redfishRequest bmc d path of
     Inl e \<Rightarrow> Inl e
   | Inr data \<Rightarrow> (case asArr (field ''Members'' data) of
       None \<Rightarrow> Inl (''no members in '' @ path)
     | Some members \<Rightarrow> (if members = [] then Inl (''no members in '' @ path)
         else Inr (List.map_filter memberId members))))"

section \<open>Metrics\<close>

definition classifyTempSensor :: "string \<Rightarrow> string" where
  "classifyTempSensor name = (let upper = toUpper name in
     if contains upper ''CPU'' then ''cpu''
     else if contains upper ''INLET'' then ''inlet''
     else if contains upper ''EXHAUST'' then ''exhaust''
     else if contains upper ''SYSTEM'' then ''system''
     else ''other'')"

definition rfMetric :: "time \<Rightarrow> string \<Rightarrow> f64 \<Rightarrow> labels \<Rightarrow> metric" where
  "rfMetric t name v ls = \<lparr>m_name = name, m_value = v, m_labels = ls, m_time = t\<rparr>"

definition collectThermalData :: "bmc \<Rightarrow> (string \<Rightarrow> time) \<Rightarrow> rf_device \<Rightarrow> string \<Rightarrow> metric list result" where
  "collectThermalData bmc now d path = (case redfishRequest bmc d path of
     Inl e \<Rightarrow> Inl e
   | Inr data \<Rightarrow> Inr (
       List.map_filter (\<lambda>t. case asObj (Some t) of None \<Rightarrow> None
         | Some tm \<Rightarrow> map_option (\<lambda>reading. let name = strField ''Name'' tm in
             rfMetric (now path) ''infrasense_redfish_temperature_celsius'' reading
               [(''device_id'', rd_ID d), (''sensor_name'', name),
                (''sensor_type'', classifyTempSensor name)])
             (numField ''ReadingCelsius'' tm)) (arrField ''Temperatures'' data) @
       List.map_filter (\<lambda>f. case asObj (Some f) of None \<Rightarrow> None
         | Some fm \<Rightarrow> map_option (\<lambda>reading.
             rfMetric (now path) ''infrasense_redfish_fan_speed_rpm'' reading
               [(''device_id'', rd_ID d), (''fan_name'', strField ''Name'' fm)])
             (numField ''Reading'' fm)) (arrField ''Fans'' data)))"

definition healthToFloat :: "string \<Rightarrow> f64" where
  "healthToFloat h = (if h = ''OK'' then Fin 1 else Fin 0)"

definition collectPowerData :: "bmc \<Rightarrow> (string \<Rightarrow> time) \<Rightarrow> rf_device \<Rightarrow> string \<Rightarrow> metric list result" where
  "collectPowerData bmc now d path = (case redfishRequest bmc d path of
     Inl e \<Rightarrow> Inl e
   | Inr data \<Rightarrow> Inr (concat (map (\<lambda>p. case asObj (Some p) of None \<Rightarrow> []
       | Some pm \<Rightarrow>
         (let name = strField ''Name'' pm;
              health = (case objField ''Status'' pm of Some st \<Rightarrow> strField ''Health'' st | None \<Rightarrow> []);
              ls = [(''device_id'', rd_ID d), (''psu_name'', name)] in
          rfMetric (now path) ''infrasense_redfish_psu_status'' (healthToFloat health) ls #
          (case numField ''PowerOutputWatts'' pm of None \<Rightarrow> []
           | Some watts \<Rightarrow> [rfMetric (now path) ''infrasense_redfish_psu_power_watts'' watts ls])))
       (arrField ''PowerSupplies'' data))))"

text \<open>The health of the status object of a map, where it has one.\<close>

definition statusHealth :: "(string \<times> json) list \<Rightarrow> string option" where
  "statusHealth m = map_option (strField ''Health'') (objField ''Status'' m)"

definition collectSystemHealth :: "bmc \<Rightarrow> (string \<Rightarrow> time) \<Rightarrow> rf_device \<Rightarrow> string \<Rightarrow> metric list result" where
  "collectSystemHealth bmc now d path = (case redfishRequest bmc d path of
     Inl e \<Rightarrow> Inl e
   | Inr data \<Rightarrow>
     (let emit = (\<lambda>name h. case h of None \<Rightarrow> []
            | Some health \<Rightarrow> [rfMetric (now path) name (healthToFloat health) [(''device_id'', rd_ID d)]]) in
      Inr (emit ''infrasense_redfish_system_health'' (statusHealth data) @
           emit ''infrasense_redfish_cpu_health''
             (case objField ''ProcessorSummary'' data of Some ps \<Rightarrow> statusHealth ps | None \<Rightarrow> None) @
           emit ''infrasense_redfish_memory_health''
             (case objField ''MemorySummary'' data of Some ms \<Rightarrow> statusHealth ms | None \<Rightarrow> None))))"

definition memberPath :: "json \<Rightarrow> string option" where
  "memberPath m = (case asObj (Some m) of None \<Rightarrow> None
     | Some mm \<Rightarrow> (let p = strField ''@odata.id'' mm in if p = [] then None else Some p))"

definition driveMetric :: "bmc \<Rightarrow> time \<Rightarrow> rf_device \<Rightarrow> string \<Rightarrow> metric option" where
  "driveMetric bmc t d driveID = (case redfishRequest bmc d driveID of
     Inl _ \<Rightarrow> None
   | Inr driveData \<Rightarrow> map_option (\<lambda>health. rfMetric t ''infrasense_redfish_disk_health''
       (healthToFloat health) [(''device_id'', rd_ID d), (''disk_name'', strField ''Name'' driveData)])
       (statusHealth driveData))"

definition controllerMetrics :: "bmc \<Rightarrow> time \<Rightarrow> rf_device \<Rightarrow> string \<Rightarrow> metric list" where
  "controllerMetrics bmc t d odataID = (case redfishRequest bmc d odataID of
     Inl _ \<Rightarrow> []
   | Inr ctrlData \<Rightarrow>
       (case statusHealth ctrlData of None \<Rightarrow> []
        | Some health \<Rightarrow> [rfMetric t ''infrasense_redfish_raid_status'' (healthToFloat health)
            [(''device_id'', rd_ID d), (''controller_name'', strField ''Name'' ctrlData)]]) @
       List.map_filter (driveMetric bmc t d) (List.map_filter memberPath (arrField ''Drives'' ctrlData)))"

definition collectStorageData :: "bmc \<Rightarrow> (string \<Rightarrow> time) \<Rightarrow> rf_device \<Rightarrow> string \<Rightarrow> metric list result" where
  "collectStorageData bmc now d path = (case redfishRequest bmc d path of
     Inl e \<Rightarrow> Inl e
   | Inr storageData \<Rightarrow> Inr (concat (map (controllerMetrics bmc (now path) d)
       (List.map_filter memberPath (arrField ''Members'' storageData)))))"

section \<open>One collection, with partial failures\<close>

definition part :: "string \<Rightarrow> string \<Rightarrow> metric list result \<Rightarrow> metric list \<times> string list" where
  "part what ident r = (case r of Inl e \<Rightarrow> ([], [what @ ''('' @ ident @ ''): '' @ e]) | Inr ms \<Rightarrow> (ms, []))"

text \<open>The identifiers listed in a collection, or the well-known Dell one when the listing fails.\<close>

definition chassisOf :: "bmc \<Rightarrow> rf_device \<Rightarrow> string list" where
  "chassisOf bmc d = (case listMembers bmc d ''/redfish/v1/Chassis'' of
     Inr ids \<Rightarrow> ids | Inl _ \<Rightarrow> [''/redfish/v1/Chassis/System.Embedded.1''])"

definition systemsOf :: "bmc \<Rightarrow> rf_device \<Rightarrow> string list" where
  "systemsOf bmc d = (case listMembers bmc d ''/redfish/v1/Systems'' of
     Inr ids \<Rightarrow> ids | Inl _ \<Rightarrow> [''/redfish/v1/Systems/System.Embedded.1''])"

definition endpointParts :: "bmc \<Rightarrow> (string \<Rightarrow> time) \<Rightarrow> rf_device \<Rightarrow> (metric list \<times> string list) list" where
  "endpointParts bmc now d =
     concat (map (\<lambda>c. [part ''thermal'' c (collectThermalData bmc now d (c @ ''/Thermal'')),
       part ''power'' c (collectPowerData bmc now d (c @ ''/Power''))]) (chassisOf bmc d)) @
     concat (map (\<lambda>s. [part ''system_health'' s (collectSystemHealth bmc now d s),
       part ''storage'' s (collectStorageData bmc now d (s @ ''/Storage''))]) (systemsOf bmc d))"

definition summarise :: "metric list \<Rightarrow> string list \<Rightarrow> metric list \<times> string option" where
  "summarise allMetrics errs =
     (if allMetrics = [] \<and> errs \<noteq> [] then ([], Some (''complete failure: '' @ joinWith ''; '' errs))
      else if errs \<noteq> [] then (allMetrics, Some (''partial failure: '' @ joinWith ''; '' errs))
      else (allMetrics, None))"

definition collectRedfishData ::
  "bmc \<Rightarrow> (string \<Rightarrow> time) \<Rightarrow> rf_device \<Rightarrow> metric list \<times> string option" where
  "collectRedfishData bmc now d = summarise (concat (map fst (endpointParts bmc now d)))
     (concat (map snd (endpointParts bmc now d)))"

section \<open>Inventory\<close>

record nic_info =
  nic_model :: string
  nic_mac :: string

record disk_info =
  disk_model :: string
  disk_capacity :: int
  disk_serial :: string

record inventory_data =
  inv_cpuModel :: string
  inv_cpuCores :: int
  inv_cpuThreads :: int
  inv_totalRAM :: int
  inv_nics :: "nic_info list"
  inv_disks :: "disk_info list"
  inv_firmware :: "(string \<times> string) list"

text \<open>Go's \<open>int(x)\<close> of a float: toward zero where it fits in 64 bits; \<open>oor x\<close>, left to the processor,
  where it does not. Sums of \<open>int\<close> wrap; division truncates.\<close>

definition f_to_int :: "(f64 \<Rightarrow> int) \<Rightarrow> f64 \<Rightarrow> int" where
  "f_to_int oor x = (case x of
     Fin q \<Rightarrow> (let i = (if q < 0 then - floor (- q) else floor q) in
       if - 9223372036854775808 \<le> i \<and> i \<le> 9223372036854775807 then i else oor x)
   | _ \<Rightarrow> oor x)"

definition quot :: "int \<Rightarrow> int \<Rightarrow> int" where
  "quot a b = (if a < 0 then - ((- a) div b) else a div b)"

text \<open>The listing of a collection under the Dell path, and under the generic one when that fails.\<close>

definition listEither :: "bmc \<Rightarrow> rf_device \<Rightarrow> string \<Rightarrow> string list option" where
  "listEither bmc d coll = (case listMembers bmc d (''/redfish/v1/Systems/System.Embedded.1/'' @ coll) of
     Inr ids \<Rightarrow> Some ids
   | Inl _ \<Rightarrow> (case listMembers bmc d (''/redfish/v1/Systems/1/'' @ coll) of
       Inr ids \<Rightarrow> Some ids | Inl _ \<Rightarrow> None))"

definition collectCPUInfo :: "(f64 \<Rightarrow> int) \<Rightarrow> bmc \<Rightarrow> rf_device \<Rightarrow> inventory_data \<Rightarrow> inventory_data" where
  "collectCPUInfo oor bmc d inventory = (case listEither bmc d ''Processors'' of
     Some (i # ids) \<Rightarrow> (case redfishRequest bmc d i of
       Inl _ \<Rightarrow> inventory
     | Inr cpuData \<Rightarrow> inventory\<lparr>inv_cpuModel := strField ''Model'' cpuData,
         inv_cpuCores := (case numField ''TotalCores'' cpuData of Some v \<Rightarrow> f_to_int oor v
           | None \<Rightarrow> inv_cpuCores inventory),
         inv_cpuThreads := (case numField ''TotalThreads'' cpuData of Some v \<Rightarrow> f_to_int oor v
           | None \<Rightarrow> inv_cpuThreads inventory)\<rparr>)
   | _ \<Rightarrow> inventory)"

definition collectMemoryInfo :: "(f64 \<Rightarrow> int) \<Rightarrow> bmc \<Rightarrow> rf_device \<Rightarrow> inventory_data \<Rightarrow> inventory_data" where
  "collectMemoryInfo oor bmc d inventory = (case listEither bmc d ''Memory'' of
     None \<Rightarrow> inventory
   | Some ids \<Rightarrow> inventory\<lparr>inv_totalRAM := quot (foldl (\<lambda>total i. case redfishRequest bmc d i of
         Inl _ \<Rightarrow> total
       | Inr memData \<Rightarrow> (case numField ''CapacityMiB'' memData of None \<Rightarrow> total
           | Some v \<Rightarrow> wrap64 (total + f_to_int oor v))) 0 ids) 1024\<rparr>)"

definition collectNICInfo :: "bmc \<Rightarrow> rf_device \<Rightarrow> inventory_data \<Rightarrow> inventory_data" where
  "collectNICInfo bmc d inventory = (case listEither bmc d ''EthernetInterfaces'' of
     None \<Rightarrow> inventory
   | Some ids \<Rightarrow> inventory\<lparr>inv_nics := inv_nics inventory @ List.map_filter (\<lambda>i. case redfishRequest bmc d i of
         Inl _ \<Rightarrow> None
       | Inr nicData \<Rightarrow> (let mac = strField ''MACAddress'' nicData in
           if mac = [] then None
           else Some \<lparr>nic_model = strField ''Description'' nicData, nic_mac = mac\<rparr>)) ids\<rparr>)"

definition collectDiskInfo :: "(f64 \<Rightarrow> int) \<Rightarrow> bmc \<Rightarrow> rf_device \<Rightarrow> inventory_data \<Rightarrow> inventory_data" where
  "collectDiskInfo oor bmc d inventory = (case listEither bmc d ''Storage'' of
     None \<Rightarrow> inventory
   | Some ids \<Rightarrow> inventory\<lparr>inv_disks := inv_disks inventory @ concat (map (\<lambda>i. case redfishRequest bmc d i of
         Inl _ \<Rightarrow> []
       | Inr ctrlData \<Rightarrow> List.map_filter (\<lambda>driveID. case redfishRequest bmc d driveID of
             Inl _ \<Rightarrow> None
           | Inr driveData \<Rightarrow> Some \<lparr>disk_model = strField ''Model'' driveData,
               disk_capacity = (case numField ''CapacityBytes'' driveData of None \<Rightarrow> 0
                 | Some v \<Rightarrow> f_to_int oor (fdiv (fdiv (fdiv v (Fin 1024)) (Fin 1024)) (Fin 1024))),
               disk_serial = strField ''SerialNumber'' driveData\<rparr>)
           (List.map_filter memberPath (arrField ''Drives'' ctrlData))) ids)\<rparr>)"

fun firmwareOf :: "bmc \<Rightarrow> rf_device \<Rightarrow> string list \<Rightarrow> string option" where
  "firmwareOf bmc d [] = None"
| "firmwareOf bmc d (p # ps) = (case redfishRequest bmc d p of
     Inl _ \<Rightarrow> firmwareOf bmc d ps
   | Inr data \<Rightarrow> (let v = strField ''FirmwareVersion'' data in
       if v = [] then firmwareOf bmc d ps else Some v))"

definition collectFirmwareInfo :: "bmc \<Rightarrow> rf_device \<Rightarrow> inventory_data \<Rightarrow> inventory_data" where
  "collectFirmwareInfo bmc d inventory =
     (case firmwareOf bmc d [''/redfish/v1/Managers/iDRAC.Embedded.1'', ''/redfish/v1/Managers/1''] of
        None \<Rightarrow> inventory | Some v \<Rightarrow> inventory\<lparr>inv_firmware := AList.update ''BMC'' v (inv_firmware inventory)\<rparr>)"

definition collectInventory :: "(f64 \<Rightarrow> int) \<Rightarrow> bmc \<Rightarrow> rf_device \<Rightarrow> inventory_data" where
  "collectInventory oor bmc d =
     collectFirmwareInfo bmc d (collectDiskInfo oor bmc d (collectNICInfo bmc d
       (collectMemoryInfo oor bmc d (collectCPUInfo oor bmc d
         \<lparr>inv_cpuModel = [], inv_cpuCores = 0, inv_cpuThreads = 0, inv_totalRAM = 0, inv_nics = [],
          inv_disks = [], inv_firmware = []\<rparr>))))"

section \<open>Storing the inventory\<close>

text \<open>\<open>hasInventoryChanged\<close>: the query may fail; a NULL in one of its columns cannot be scanned into the
  variables, which are not nullable.\<close>

definition hasInventoryChanged ::
  "string option \<Rightarrow> string \<Rightarrow> inventory_data \<Rightarrow> database \<Rightarrow> bool result" where
  "hasInventoryChanged queryErr dev_id inventory db = (case queryErr of
     Some e \<Rightarrow> Inl e
   | None \<Rightarrow> (case findBy iv_device_id dev_id (device_inventory db) of
       None \<Rightarrow> Inr True
     | Some r \<Rightarrow> (case (iv_cpu_model r, iv_cpu_cores r, iv_cpu_threads r, iv_ram_total_gb r) of
         (Some existingModel, Some existingCores, Some existingThreads, Some existingRAM) \<Rightarrow>
           Inr (existingModel \<noteq> inv_cpuModel inventory \<or> existingCores \<noteq> inv_cpuCores inventory \<or>
             existingThreads \<noteq> inv_cpuThreads inventory \<or> existingRAM \<noteq> inv_totalRAM inventory)
       | _ \<Rightarrow> Inl ''sql: Scan error: converting NULL is unsupported'')))"

definition rfInventoryUpsert :: "string \<Rightarrow> inventory_data \<Rightarrow> time \<Rightarrow> inventory_row list \<Rightarrow> inventory_row list" where
  "rfInventoryUpsert d inventory now rows =
     (let bmcVersion = (case map_of (inv_firmware inventory) ''BMC'' of Some v \<Rightarrow> v | None \<Rightarrow> []) in
      upsertBy iv_device_id
        \<lparr>iv_device_id = d, iv_cpu_model = Some (inv_cpuModel inventory), iv_cpu_cores = Some (inv_cpuCores inventory),
         iv_cpu_threads = Some (inv_cpuThreads inventory), iv_ram_total_gb = Some (inv_totalRAM inventory),
         iv_firmware_bmc = Some bmcVersion, iv_manufacturer = None, iv_system_model = None,
         iv_service_tag = None, iv_collected_at = now\<rparr>
        (\<lambda>r. r\<lparr>iv_cpu_model := Some (inv_cpuModel inventory), iv_cpu_cores := Some (inv_cpuCores inventory),
           iv_cpu_threads := Some (inv_cpuThreads inventory), iv_ram_total_gb := Some (inv_totalRAM inventory),
           iv_firmware_bmc := Some bmcVersion, iv_collected_at := now\<rparr>) rows)"

text \<open>The statements of \<open>storeNICs\<close> and \<open>storeDisks\<close>: the delete may fail, which ends the function; the
  failure of an insert is logged. \<open>ok k\<close> is the success of the k-th insert.\<close>

fun insertNICs :: "(nat \<Rightarrow> bool) \<Rightarrow> nat \<Rightarrow> string \<Rightarrow> time \<Rightarrow> nic_info list \<Rightarrow> nic_row list \<Rightarrow> nic_row list" where
  "insertNICs ok k d now [] rows = rows"
| "insertNICs ok k d now (n # ns) rows =
     (if nic_mac n = [] then insertNICs ok k d now ns rows
      else insertNICs ok (k + 1) d now ns (if ok k
        then rows @ [\<lparr>nr_device_id = d, nr_model = nic_model n, nr_mac = nic_mac n, nr_collected_at = now\<rparr>]
        else rows))"

definition storeNICs ::
  "string option \<Rightarrow> (nat \<Rightarrow> bool) \<Rightarrow> string \<Rightarrow> nic_info list \<Rightarrow> time \<Rightarrow> database \<Rightarrow> database \<times> string option" where
  "storeNICs delErr ok d nics now db = (case delErr of
     Some e \<Rightarrow> (db, Some e)
   | None \<Rightarrow> (db\<lparr>device_nics := insertNICs ok 0 d now nics
         (filter (\<lambda>r. nr_device_id r \<noteq> d) (device_nics db))\<rparr>, None))"

fun insertDisks :: "(nat \<Rightarrow> bool) \<Rightarrow> nat \<Rightarrow> string \<Rightarrow> time \<Rightarrow> disk_info list \<Rightarrow> disk_row list \<Rightarrow> disk_row list" where
  "insertDisks ok k d now [] rows = rows"
| "insertDisks ok k d now (x # xs) rows = insertDisks ok (k + 1) d now xs (if ok k
     then rows @ [\<lparr>kr_device_id = d, kr_model = disk_model x, kr_capacity_gb = disk_capacity x,
       kr_serial = disk_serial x, kr_collected_at = now\<rparr>]
     else rows)"

definition storeDisks ::
  "string option \<Rightarrow> (nat \<Rightarrow> bool) \<Rightarrow> string \<Rightarrow> disk_info list \<Rightarrow> time \<Rightarrow> database \<Rightarrow> database \<times> string option" where
  "storeDisks delErr ok d disks now db = (case delErr of
     Some e \<Rightarrow> (db, Some e)
   | None \<Rightarrow> (db\<lparr>device_disks := insertDisks ok 0 d now disks
         (filter (\<lambda>r. kr_device_id r \<noteq> d) (device_disks db))\<rparr>, None))"

text \<open>The failures of the statements of one \<open>storeInventory\<close>.\<close>

record store_env =
  st_queryErr :: "string option"
  st_upsertErr :: "string option"
  st_nicDelErr :: "string option"
  st_diskDelErr :: "string option"
  st_nicOk :: "nat \<Rightarrow> bool"
  st_diskOk :: "nat \<Rightarrow> bool"

definition storeInventory ::
  "store_env \<Rightarrow> rf_device \<Rightarrow> inventory_data \<Rightarrow> time \<Rightarrow> database \<Rightarrow> database \<times> string option" where
  "storeInventory env d inventory now db = (case hasInventoryChanged (st_queryErr env) (rd_ID d) inventory db of
     Inl e \<Rightarrow> (db, Some (''check inventory change: '' @ e))
   | Inr False \<Rightarrow> (db, None)
   | Inr True \<Rightarrow> (case st_upsertErr env of
       Some e \<Rightarrow> (db, Some (''upsert device_inventory: '' @ e))
     | None \<Rightarrow>
       (let db1 = db\<lparr>device_inventory := rfInventoryUpsert (rd_ID d) inventory now (device_inventory db)\<rparr> in
        case storeNICs (st_nicDelErr env) (st_nicOk env) (rd_ID d) (inv_nics inventory) now db1 of
          (db2, Some e) \<Rightarrow> (db2, Some (''store NICs: '' @ e))
        | (db2, None) \<Rightarrow>
          (case storeDisks (st_diskDelErr env) (st_diskOk env) (rd_ID d) (inv_disks inventory) now db2 of
             (db3, Some e) \<Rightarrow> (db3, Some (''store disks: '' @ e))
           | (db3, None) \<Rightarrow> (db3, None)))))"

section \<open>The collector\<close>

record rf_collector =
  rc_db :: database
  rc_writer :: vm_writer
  rc_retry :: rf_manager
  rc_devices :: "rf_device list"
  rc_key :: string

definition rf_decryptCredential ::
  "(string \<Rightarrow> string \<Rightarrow> string \<Rightarrow> string option) \<Rightarrow> string \<Rightarrow> string \<Rightarrow> string result" where
  "rf_decryptCredential gcmOpen key ciphertext =
     (if ciphertext = [] then Inr []
      else if length key \<noteq> 16 \<and> length key \<noteq> 24 \<and> length key \<noteq> 32
      then Inl (''cipher init: crypto/aes: invalid key size '' @ itoa (int (length key)))
      else if length ciphertext < 12 then Inl ''ciphertext too short''
      else case gcmOpen key (take 12 ciphertext) (drop 12 ciphertext) of
        None \<Rightarrow> Inl ''decrypt: cipher: message authentication failed''
      | Some plain \<Rightarrow> Inr plain)"

text \<open>The rows of the query of \<open>loadDevices\<close>, an inner join with the Redfish credentials.\<close>

definition rfRows :: "database \<Rightarrow> (rf_device \<times> string) list" where
  "rfRows db = concat (map (\<lambda>r. map (\<lambda>k. (\<lparr>rd_ID = dv_id r, rd_Hostname = dv_hostname r,
       rd_IPAddress = (case dv_bmc_ip r of Some b \<Rightarrow> inet_host b | None \<Rightarrow> inet_host (dv_ip r)),
       rd_Username = (case cr_username k of Some u \<Rightarrow> u | None \<Rightarrow> []), rd_Password = [],
       rd_Protocol = cr_protocol k, rd_Status = dv_status r\<rparr>,
       case cr_password k of Some p \<Rightarrow> p | None \<Rightarrow> []))
     (filter (\<lambda>k. cr_device_id k = dv_id r \<and> cr_protocol k = ''redfish'') (credentials db)))
     (filter (\<lambda>r. dv_status r \<noteq> ''deleted'') (devices db)))"

definition rfLoadRow ::
  "(string \<Rightarrow> string \<Rightarrow> string \<Rightarrow> string option) \<Rightarrow> string \<Rightarrow> rf_device \<times> string \<Rightarrow> rf_device option" where
  "rfLoadRow gcmOpen key row = (case row of (d, passwordEncrypted) \<Rightarrow>
     if passwordEncrypted = [] then Some d
     else case rf_decryptCredential gcmOpen key passwordEncrypted of
       Inl _ \<Rightarrow> None | Inr plain \<Rightarrow> Some (d\<lparr>rd_Password := plain\<rparr>))"

definition rf_loadDevices ::
  "(string \<Rightarrow> string \<Rightarrow> string \<Rightarrow> string option) \<Rightarrow> string option \<Rightarrow> string option \<Rightarrow> rf_collector \<Rightarrow>
   rf_collector \<times> string option" where
  "rf_loadDevices gcmOpen queryErr rowsErr c =
     (case queryErr of Some e \<Rightarrow> (c, Some (''failed to query devices: '' @ e))
      | None \<Rightarrow> (case rowsErr of Some e \<Rightarrow> (c, Some (''row iteration error: '' @ e))
      | None \<Rightarrow> (c\<lparr>rc_devices := List.map_filter (rfLoadRow gcmOpen (rc_key c)) (rfRows (rc_db c))\<rparr>, None)))"

definition rfCollectorName :: "string \<Rightarrow> string" where
  "rfCollectorName d = ''redfish-collector-'' @ d"

definition updateCollectorStatus ::
  "bool \<Rightarrow> bool \<Rightarrow> time \<Rightarrow> string \<Rightarrow> string \<Rightarrow> string \<Rightarrow> bool \<Rightarrow> database \<Rightarrow> database" where
  "updateCollectorStatus ok1 ok2 now d status errMsg success db =
     (let db1 = (if ok1 then db\<lparr>devices := updateWhere (\<lambda>r. dv_id r = d)
            (\<lambda>r. r\<lparr>dv_status := status, dv_last_seen := Some now, dv_updated_at := now\<rparr>) (devices db)\<rparr>
            else db) in
      if \<not> ok2 then db1
      else if success then db1\<lparr>collector_status := upsertBy cs_name
          \<lparr>cs_name = rfCollectorName d, cs_type = ''redfish'', cs_status = ''healthy'',
           cs_last_poll = Some now, cs_last_success = Some now, cs_last_error = Some [],
           cs_updated_at = now\<rparr>
          (\<lambda>r. r\<lparr>cs_status := ''healthy'', cs_last_poll := Some now, cs_last_success := Some now,
             cs_last_error := Some [], cs_updated_at := now\<rparr>) (collector_status db1)\<rparr>
      else db1\<lparr>collector_status := upsertBy cs_name
          \<lparr>cs_name = rfCollectorName d, cs_type = ''redfish'', cs_status = status,
           cs_last_poll = Some now, cs_last_success = None, cs_last_error = Some errMsg,
           cs_updated_at = now\<rparr>
          (\<lambda>r. r\<lparr>cs_status := status, cs_last_poll := Some now, cs_last_error := Some errMsg,
             cs_updated_at := now\<rparr>) (collector_status db1)\<rparr>)"

definition rf_setDeviceProtocol :: "bool \<Rightarrow> time \<Rightarrow> string \<Rightarrow> string \<Rightarrow> database \<Rightarrow> database" where
  "rf_setDeviceProtocol ok now d protocol db =
     (if protocol = [] then db
      else if ok then db\<lparr>devices := updateWhere (\<lambda>r. dv_id r = d)
          (\<lambda>r. r\<lparr>dv_protocol := Some protocol, dv_updated_at := now\<rparr>) (devices db)\<rparr>
      else db)"

fun rfPush :: "(nat \<Rightarrow> nat \<Rightarrow> send_outcome) \<Rightarrow> nat \<Rightarrow> metric list \<Rightarrow> vm_writer \<Rightarrow> vm_writer" where
  "rfPush net k [] w = w"
| "rfPush net k (m # ms) w =
     rfPush net (k + 1) ms (fst (WriteMetric (net k) w (m_name m) (m_value m) (m_labels m) (m_time m)))"

text \<open>What the world answers during one poll, and during the inventory run that follows a successful
  one in a goroutine of its own.\<close>

record rf_env =
  fe_oor :: duration
  fe_t0 :: time
  fe_t2 :: time
  fe_bmc :: bmc
  fe_now :: "string \<Rightarrow> time"
  fe_net :: "nat \<Rightarrow> nat \<Rightarrow> send_outcome"
  fe_oks :: "bool \<times> bool \<times> bool"
  fe_dbNow :: time

definition rf_PollDeviceWithRetry :: "rf_env \<Rightarrow> rf_device \<Rightarrow> rf_collector \<Rightarrow> rf_collector" where
  "rf_PollDeviceWithRetry env d c =
     (if \<not> rf_ShouldRetry (rc_retry c) (rd_ID d) (fe_t0 env) then c
      else case collectRedfishData (fe_bmc env) (fe_now env) d of (ms, err) \<Rightarrow>
        let c1 = c\<lparr>rc_writer := rfPush (fe_net env) 0 ms (rc_writer c)\<rparr>;
            status = (\<lambda>s m ok db. updateCollectorStatus (fst (fe_oks env)) (fst (snd (fe_oks env)))
              (fe_dbNow env) (rd_ID d) s m ok db) in
        case err of
          Some e \<Rightarrow>
            (if ms \<noteq> [] then c1\<lparr>rc_db := status ''degraded'' (''Partial failure: '' @ e) False (rc_db c1)\<rparr>
             else case rf_RecordFailure (fe_oor env) (rc_retry c1) (rd_ID d) (rd_Hostname d) (fe_t2 env)
               of (rm, backoff) \<Rightarrow>
                 let db1 = status ''unavailable'' (''Connection failed: '' @ e @ '' (retry in '' @
                       durationString (sint backoff) @ '')'') False (rc_db c1) in
                 c1\<lparr>rc_retry := rm, rc_db := (if rf_GetFailureCount rm (rd_ID d) \<ge> 3
                   then rf_setDeviceProtocol (snd (snd (fe_oks env))) (fe_dbNow env) (rd_ID d) ''ipmi'' db1
                   else db1)\<rparr>)
        | None \<Rightarrow> c1\<lparr>rc_retry := rf_RecordSuccess (rc_retry c1) (rd_ID d),
            rc_db := status ''healthy'' [] True (rc_db c1)\<rparr>)"

definition inventoryRun ::
  "(f64 \<Rightarrow> int) \<Rightarrow> bmc \<Rightarrow> store_env \<Rightarrow> time \<Rightarrow> rf_device \<Rightarrow> rf_collector \<Rightarrow> rf_collector" where
  "inventoryRun oor bmc env now d c =
     c\<lparr>rc_db := fst (storeInventory env d (collectInventory oor bmc d) now (rc_db c))\<rparr>"

section \<open>Partial failures\<close>

text \<open>The results of the endpoints of one collection, in order.\<close>

definition endpointResults :: "bmc \<Rightarrow> (string \<Rightarrow> time) \<Rightarrow> rf_device \<Rightarrow> metric list result list" where
  "endpointResults bmc now d =
     concat (map (\<lambda>c. [collectThermalData bmc now d (c @ ''/Thermal''),
       collectPowerData bmc now d (c @ ''/Power'')]) (chassisOf bmc d)) @
     concat (map (\<lambda>s. [collectSystemHealth bmc now d s,
       collectStorageData bmc now d (s @ ''/Storage'')]) (systemsOf bmc d))"

fun okMetrics :: "metric list result \<Rightarrow> metric list" where
  "okMetrics (Inl e) = []"
| "okMetrics (Inr ms) = ms"

lemma part_simps: "fst (part w i r) = okMetrics r" "(snd (part w i r) = []) = (\<exists>ms. r = Inr ms)"
  unfolding part_def by (cases r; simp)+


lemma summarise_simps:
  "fst (summarise ms es) = ms" "(snd (summarise ms es) = None) = (es = [])"
  unfolding summarise_def by auto

lemma pairs_of_parts:
  "concat (map fst (concat (map (\<lambda>c. [part w c (f c), part v c (g c)]) xs))) =
     concat (map okMetrics (concat (map (\<lambda>c. [f c, g c]) xs)))"
  "(concat (map snd (concat (map (\<lambda>c. [part w c (f c), part v c (g c)]) xs))) = []) =
     (\<forall>r \<in> set (concat (map (\<lambda>c. [f c, g c]) xs)). \<exists>ms. r = Inr ms)"
  by (induction xs) (simp_all add: part_simps)

lemma collectRedfishData_parts:
  "fst (collectRedfishData bmc now d) = concat (map okMetrics (endpointResults bmc now d))"
  "(snd (collectRedfishData bmc now d) = None) = (\<forall>r \<in> set (endpointResults bmc now d). \<exists>ms. r = Inr ms)"
  unfolding collectRedfishData_def summarise_simps endpointParts_def endpointResults_def map_append
    concat_append append_is_Nil_conv pairs_of_parts set_append ball_Un by (rule refl)+



section \<open>The inventory is stored once\<close>

lemma rfInventoryUpsert_find:
  "findBy iv_device_id d (rfInventoryUpsert d inventory now rows) = Some r \<Longrightarrow>
     iv_cpu_model r = Some (inv_cpuModel inventory) \<and> iv_cpu_cores r = Some (inv_cpuCores inventory) \<and>
     iv_cpu_threads r = Some (inv_cpuThreads inventory) \<and>
     iv_ram_total_gb r = Some (inv_totalRAM inventory)"
  unfolding rfInventoryUpsert_def Let_def
  by (subst (asm) findBy_upsert) (auto split: option.splits)

lemma rfInventoryUpsert_some:
  "\<exists>r. findBy iv_device_id d (rfInventoryUpsert d inventory now rows) = Some r"
  unfolding rfInventoryUpsert_def Let_def by (subst findBy_upsert) auto

text \<open>Two inventories the change check cannot tell apart.\<close>

definition same_counts :: "inventory_data \<Rightarrow> inventory_data \<Rightarrow> bool" where
  "same_counts a b = (inv_cpuModel a = inv_cpuModel b \<and> inv_cpuCores a = inv_cpuCores b \<and>
     inv_cpuThreads a = inv_cpuThreads b \<and> inv_totalRAM a = inv_totalRAM b)"

lemma storeInventory_stored:
  assumes "storeInventory env d inventory now db = (db', None)"
  shows "hasInventoryChanged None (rd_ID d) inventory db' = Inr False"
proof (cases "hasInventoryChanged (st_queryErr env) (rd_ID d) inventory db")
  case (Inl e)
  with assms show ?thesis unfolding storeInventory_def by simp
next
  case (Inr ch)
  show ?thesis
  proof (cases ch)
    case False
    with Inr assms have "db' = db" "st_queryErr env = None"
      unfolding storeInventory_def hasInventoryChanged_def by (simp_all split: option.splits)
    with Inr False show ?thesis by simp
  next
    case True
    with Inr assms have "device_inventory db' =
        rfInventoryUpsert (rd_ID d) inventory now (device_inventory db)"
      unfolding storeInventory_def storeNICs_def storeDisks_def
      by (auto simp: Let_def split: option.splits)
    then show ?thesis
      using rfInventoryUpsert_some [of "rd_ID d" inventory now "device_inventory db"]
        rfInventoryUpsert_find [of "rd_ID d" inventory now "device_inventory db"]
      unfolding hasInventoryChanged_def by (auto split: option.splits)
  qed
qed

lemma hasInventoryChanged_same:
  "same_counts a b \<Longrightarrow> hasInventoryChanged q d a db = hasInventoryChanged q d b db"
  unfolding hasInventoryChanged_def same_counts_def by (simp cong: option.case_cong)

text \<open>Storing an inventory settles the change check: after \<open>storeInventory\<close> returned without an error,
  storing an inventory of the same CPU and memory again writes nothing and reports no error, even if
  its network cards, its disks or its firmware are different.\<close>

theorem storeInventory_settles:
  assumes "storeInventory env d inventory now db = (db', None)"
    and "same_counts inventory inventory'" "st_queryErr env' = None"
  shows "storeInventory env' d inventory' now' db' = (db', None)"
  using storeInventory_stored [OF assms(1)] hasInventoryChanged_same [OF assms(2)] assms(3)
  unfolding storeInventory_def by simp

text \<open>A device, an empty database, and statements that all succeed.\<close>

definition rfExDevice :: rf_device where
  "rfExDevice = \<lparr>rd_ID = ''d1'', rd_Hostname = ''web'', rd_IPAddress = ''10.0.0.5'', rd_Username = ''root'',
     rd_Password = ''pw'', rd_Protocol = ''redfish'', rd_Status = ''healthy''\<rparr>"

definition emptyDb :: database where
  "emptyDb = \<lparr>devices = [], credentials = [], collector_status = [], device_inventory = [],
     device_nics = [], device_disks = []\<rparr>"

definition storeOkEnv :: store_env where
  "storeOkEnv = \<lparr>st_queryErr = None, st_upsertErr = None, st_nicDelErr = None, st_diskDelErr = None,
     st_nicOk = (\<lambda>k. True), st_diskOk = (\<lambda>k. True)\<rparr>"

definition exInventory :: "nic_info list \<Rightarrow> inventory_data" where
  "exInventory nics = \<lparr>inv_cpuModel = ''Xeon'', inv_cpuCores = 8, inv_cpuThreads = 16, inv_totalRAM = 64,
     inv_nics = nics, inv_disks = [], inv_firmware = []\<rparr>"

lemma storeInventory_settles_witness:
  "storeInventory storeOkEnv rfExDevice (exInventory [\<lparr>nic_model = ''X710'', nic_mac = ''aa''\<rparr>]) 9
     (fst (storeInventory storeOkEnv rfExDevice (exInventory []) 5 emptyDb)) =
   (fst (storeInventory storeOkEnv rfExDevice (exInventory []) 5 emptyDb), None)"
proof (rule storeInventory_settles [of storeOkEnv rfExDevice "exInventory []" 5 emptyDb])
  have "snd (storeInventory storeOkEnv rfExDevice (exInventory []) 5 emptyDb) = None"
    by code_simp
  then show "storeInventory storeOkEnv rfExDevice (exInventory []) 5 emptyDb =
      (fst (storeInventory storeOkEnv rfExDevice (exInventory []) 5 emptyDb), None)"
    by (simp add: prod_eq_iff)
qed (simp_all add: same_counts_def exInventory_def storeOkEnv_def)


lemma rfInventoryUpsert_unchanged:
  "hasInventoryChanged None d inventory
     (db\<lparr>device_inventory := rfInventoryUpsert d inventory now rows, device_nics := ns, device_disks := ks\<rparr>) =
   Inr False"
  using rfInventoryUpsert_some [of d inventory now rows] rfInventoryUpsert_find [of d inventory now rows]
  unfolding hasInventoryChanged_def by (auto split: option.split)

text \<open>The inventory is not stored as one transaction. When the row of a changed inventory is written
  but the delete of the old network cards fails, the run reports the error and neither cards nor
  disks are stored; and no later run stores them while CPU and memory stay the same, since the check
  then sees no change and the run reports success.\<close>

theorem failed_nic_store_is_never_repaired:
  assumes "hasInventoryChanged (st_queryErr env) (rd_ID d) inventory db = Inr True"
    and "st_upsertErr env = None" "st_nicDelErr env = Some e"
    and "same_counts inventory inventory'" "st_queryErr env' = None"
  shows "case storeInventory env d inventory now db of (db', err) \<Rightarrow>
    err = Some (''store NICs: '' @ e) \<and> device_nics db' = device_nics db \<and> device_disks db' = device_disks db \<and>
    storeInventory env' d inventory' now' db' = (db', None)"
proof -
  have "hasInventoryChanged None (rd_ID d) inventory'
      (db\<lparr>device_inventory := rfInventoryUpsert (rd_ID d) inventory now (device_inventory db)\<rparr>) = Inr False"
    using hasInventoryChanged_same [OF assms(4)]
      rfInventoryUpsert_unchanged [where d = "rd_ID d" and inventory = inventory and db = db and now = now and rows = "device_inventory db" and ns = "device_nics db" and ks = "device_disks db"]
    by simp
  with assms show ?thesis unfolding storeInventory_def storeNICs_def by simp
qed

lemma failed_nic_store_is_never_repaired_witness:
  "let env = storeOkEnv\<lparr>st_nicDelErr := Some ''timeout''\<rparr>;
       inventory = exInventory [\<lparr>nic_model = ''X710'', nic_mac = ''aa''\<rparr>] in
   case storeInventory env rfExDevice inventory 5 emptyDb of (db', err) \<Rightarrow>
    err = Some ''store NICs: timeout'' \<and> device_nics db' = [] \<and> device_disks db' = [] \<and>
    storeInventory storeOkEnv rfExDevice inventory 9 db' = (db', None)"
proof -
  let ?env = "storeOkEnv\<lparr>st_nicDelErr := Some ''timeout''\<rparr>"
  let ?inventory = "exInventory [\<lparr>nic_model = ''X710'', nic_mac = ''aa''\<rparr>]"
  have "case storeInventory ?env rfExDevice ?inventory 5 emptyDb of (db', err) \<Rightarrow>
    err = Some (''store NICs: '' @ ''timeout'') \<and> device_nics db' = device_nics emptyDb \<and>
    device_disks db' = device_disks emptyDb \<and>
    storeInventory storeOkEnv rfExDevice ?inventory 9 db' = (db', None)"
    by (rule failed_nic_store_is_never_repaired [of ?env rfExDevice ?inventory emptyDb "''timeout''"])
      (simp_all add: hasInventoryChanged_def emptyDb_def storeOkEnv_def same_counts_def)
  then show ?thesis by (simp add: emptyDb_def Let_def split: prod.split)
qed


section \<open>Fallback to IPMI\<close>

text \<open>The rows of \<open>loadDevices\<close> without the status column.\<close>

definition loadedAs :: "database \<Rightarrow> (rf_device \<times> string) list" where
  "loadedAs db = map (\<lambda>(d, p). (d\<lparr>rd_Status := []\<rparr>, p)) (rfRows db)"

definition rowsOf :: "device_row \<Rightarrow> credential_row list \<Rightarrow> (rf_device \<times> string) list" where
  "rowsOf r ks = map (\<lambda>k. (\<lparr>rd_ID = dv_id r, rd_Hostname = dv_hostname r,
       rd_IPAddress = (case dv_bmc_ip r of Some b \<Rightarrow> inet_host b | None \<Rightarrow> inet_host (dv_ip r)),
       rd_Username = (case cr_username k of Some u \<Rightarrow> u | None \<Rightarrow> []), rd_Password = [],
       rd_Protocol = cr_protocol k, rd_Status = []\<rparr>,
       case cr_password k of Some p \<Rightarrow> p | None \<Rightarrow> []))
     (filter (\<lambda>k. cr_device_id k = dv_id r \<and> cr_protocol k = ''redfish'') ks)"

lemma loadedAs_rowsOf:
  "loadedAs db = concat (map (\<lambda>r. rowsOf r (credentials db))
     (filter (\<lambda>r. dv_status r \<noteq> ''deleted'') (devices db)))"
  unfolding loadedAs_def rfRows_def rowsOf_def by (simp add: map_concat comp_def)

lemma loadedAs_update:
  assumes "\<And>r. (dv_status (f r) = ''deleted'') = (dv_status r = ''deleted'')"
    and "\<And>r ks. rowsOf (f r) ks = rowsOf r ks"
  shows "loadedAs (db\<lparr>devices := map f (devices db)\<rparr>) = loadedAs db"
proof -
  have "concat (map (\<lambda>r. rowsOf r ks) (filter (\<lambda>r. dv_status r \<noteq> ''deleted'') (map f rs))) =
      concat (map (\<lambda>r. rowsOf r ks) (filter (\<lambda>r. dv_status r \<noteq> ''deleted'') rs))" for ks rs
    by (induction rs) (auto simp: assms)
  then show ?thesis by (simp add: loadedAs_rowsOf)
qed

lemma rowsOf_cong [simp]:
  "rowsOf (r\<lparr>dv_protocol := p, dv_updated_at := t\<rparr>) ks = rowsOf r ks"
  "rowsOf (r\<lparr>dv_status := s, dv_last_seen := l, dv_updated_at := t\<rparr>) ks = rowsOf r ks"
  by (simp_all add: rowsOf_def cong: option.case_cong)

lemma loadedAs_tables [simp]:
  "loadedAs (db\<lparr>collector_status := cs\<rparr>) = loadedAs db"
  by (simp add: loadedAs_rowsOf)

lemma loadedAs_setProtocol [simp]: "loadedAs (rf_setDeviceProtocol ok now d p db) = loadedAs db"
  unfolding rf_setDeviceProtocol_def updateWhere_def
  by (auto intro!: loadedAs_update split: if_splits)

definition no_deleted :: "database \<Rightarrow> bool" where
  "no_deleted db = list_all (\<lambda>r. dv_status r \<noteq> ''deleted'') (devices db)"

lemma loadedAs_status [simp]:
  assumes "no_deleted db" "status \<noteq> ''deleted''"
  shows "loadedAs (updateCollectorStatus ok1 ok2 now d status e s db) = loadedAs db"
proof -
  have "concat (map (\<lambda>r. rowsOf r ks) (filter (\<lambda>r. dv_status r \<noteq> ''deleted'')
        (updateWhere (\<lambda>r. dv_id r = d)
          (\<lambda>r. r\<lparr>dv_status := status, dv_last_seen := Some now, dv_updated_at := now\<rparr>) rs))) =
      concat (map (\<lambda>r. rowsOf r ks) (filter (\<lambda>r. dv_status r \<noteq> ''deleted'') rs))"
    if "list_all (\<lambda>r. dv_status r \<noteq> ''deleted'') rs" for ks rs
    using that assms(2) by (induction rs) (auto simp: updateWhere_def)
  with assms show ?thesis
    unfolding updateCollectorStatus_def no_deleted_def by (simp add: loadedAs_rowsOf Let_def)
qed

text \<open>Whatever a poll does, the devices the next \<open>loadDevices\<close> finds, their addresses and their
  credentials are the same: in particular the third failure in a row, which sets the protocol of the
  device to \<open>ipmi\<close>, does not stop the Redfish collector from polling it, since \<open>loadDevices\<close> selects
  by the protocol of the credentials and not by the one of the device.\<close>

theorem fallback_keeps_polling:
  assumes "no_deleted (rc_db c)"
  shows "loadedAs (rc_db (rf_PollDeviceWithRetry env d c)) = loadedAs (rc_db c)"
  unfolding rf_PollDeviceWithRetry_def using assms
  by (simp add: Let_def split: prod.split option.split)

text \<open>A controller that does not answer, and a device after two failures.\<close>

definition deadBmc :: bmc where
  "deadBmc url = NoAnswer ''timeout''"

definition rfDead :: rf_env where
  "rfDead = \<lparr>fe_oor = 0, fe_t0 = 5, fe_t2 = 5, fe_bmc = deadBmc, fe_now = (\<lambda>p. 5), fe_net = (\<lambda>i k. NoResponse ''refused''),
     fe_oks = (True, True, True), fe_dbNow = 5\<rparr>"

definition rfExDb :: database where
  "rfExDb = emptyDb\<lparr>devices := [\<lparr>dv_id = ''d1'', dv_hostname = ''web'',
       dv_ip = \<lparr>in_addr = ''10.0.0.5'', in_plen = 32\<rparr>, dv_bmc_ip = None, dv_type = ''server'',
       dv_protocol = Some ''redfish'', dv_status = ''healthy'', dv_last_seen = None, dv_updated_at = 0\<rparr>],
     credentials := [\<lparr>cr_device_id = ''d1'', cr_protocol = ''redfish'', cr_username = Some ''root'',
       cr_password = None, cr_port = None\<rparr>]\<rparr>"

definition rfExCollector :: rf_collector where
  "rfExCollector = \<lparr>rc_db = rfExDb, rc_writer = NewVictoriaMetricsWriter 100,
     rc_retry = [''d1'' \<mapsto> \<lparr>rf_deviceID = ''d1'', rf_hostname = ''web'', rf_failureCount = 2, rf_nextAttempt = 0\<rparr>], rc_devices = [], rc_key = []\<rparr>"

lemma fallback_keeps_polling_witness:
  "let c = rf_PollDeviceWithRetry rfDead rfExDevice rfExCollector in
   map dv_protocol (devices (rc_db c)) = [Some ''ipmi''] \<and>
   map (rd_ID \<circ> fst) (loadedAs (rc_db c)) = [''d1'']"
proof -
  have "map dv_protocol (devices (rc_db (rf_PollDeviceWithRetry rfDead rfExDevice rfExCollector))) =
      [Some ''ipmi'']"
    by code_simp
  moreover have "loadedAs (rc_db (rf_PollDeviceWithRetry rfDead rfExDevice rfExCollector)) = loadedAs rfExDb"
    using fallback_keeps_polling [of rfExCollector rfDead rfExDevice]
    by (simp add: rfExCollector_def rfExDb_def no_deleted_def)
  moreover have "map (rd_ID \<circ> fst) (loadedAs rfExDb) = [''d1'']"
    by code_simp
  ultimately show ?thesis by (simp add: Let_def)
qed

end
