(* ===== verification/Ssh.thy ===== *)
theory Ssh
  imports Retry GoFloat Db
begin

text \<open>
  The SSH collector: \<open>collectors/ssh-collector/internal/collector/ssh.go\<close>. Its metrics writer and the
  SSH library are not part of the repository, so they are arguments here: \<open>sink\<close> takes a metric and a
  writer state and returns the new state and an error if any; \<open>parseKey\<close> is \<open>ssh.ParsePrivateKey\<close>;
  dialling returns a client, which answers a command. \<open>gcmOpen key nonce ciphertext\<close> is AES-GCM.
\<close>

section \<open>Data\<close>

record ssh_device =
  sd_ID :: string
  sd_Hostname :: string
  sd_IPAddress :: string
  sd_Username :: string
  sd_PasswordEnc :: string
  sd_PrivKeyEnc :: string
  sd_Port :: int

record 'w ssh_collector =
  sc_db :: database
  sc_writer :: 'w
  sc_retry :: ssh_manager
  sc_devices :: "ssh_device list"
  sc_key :: string

type_synonym 'w metric_sink = "string \<Rightarrow> f64 \<Rightarrow> labels \<Rightarrow> time \<Rightarrow> 'w \<Rightarrow> 'w \<times> string option"

datatype cmd_outcome = NoSession string | TimedOut string | Failed string | Output string

type_synonym client = "string \<Rightarrow> cmd_outcome"

datatype 'signer auth = PublicKeys 'signer | Password string

datatype dial_outcome = DialTimeout string | DialError string | Dialled client

section \<open>Loading the devices\<close>

text \<open>The rows of the query of \<open>loadDevices\<close>: a left join with the SSH credentials.\<close>

definition sshCredentials :: "database \<Rightarrow> string \<Rightarrow> credential_row option list" where
  "sshCredentials db d = (case filter (\<lambda>k. cr_device_id k = d \<and> cr_protocol k = ''ssh'') (credentials db) of
     [] \<Rightarrow> [None] | ks \<Rightarrow> map Some ks)"

definition ssh_loadRow :: "device_row \<Rightarrow> credential_row option \<Rightarrow> ssh_device" where
  "ssh_loadRow r k = \<lparr>sd_ID = dv_id r, sd_Hostname = dv_hostname r, sd_IPAddress = inet_text (dv_ip r),
     sd_Username = (case k of None \<Rightarrow> [] | Some cr \<Rightarrow> (case cr_username cr of None \<Rightarrow> [] | Some u \<Rightarrow> u)),
     sd_PasswordEnc = (case k of None \<Rightarrow> [] | Some cr \<Rightarrow> (case cr_password cr of None \<Rightarrow> [] | Some p \<Rightarrow> p)),
     sd_PrivKeyEnc = [], sd_Port = 22\<rparr>"

definition sshRows :: "database \<Rightarrow> ssh_device list" where
  "sshRows db = concat (map (\<lambda>r. map (ssh_loadRow r) (sshCredentials db (dv_id r)))
     (filter (\<lambda>r. dv_type r = ''ssh'' \<and> dv_status r \<noteq> ''deleted'') (devices db)))"

definition ssh_loadDevices ::
  "string option \<Rightarrow> string option \<Rightarrow> 'w ssh_collector \<Rightarrow> 'w ssh_collector \<times> string option" where
  "ssh_loadDevices queryErr rowsErr c =
     (case queryErr of Some e \<Rightarrow> (c, Some (''failed to query devices: '' @ e))
      | None \<Rightarrow> (case rowsErr of Some e \<Rightarrow> (c, Some (''error iterating device rows: '' @ e))
      | None \<Rightarrow> (c\<lparr>sc_devices := sshRows (sc_db c)\<rparr>, None)))"

definition ssh_GetDeviceCount :: "'w ssh_collector \<Rightarrow> nat" where
  "ssh_GetDeviceCount c = length (sc_devices c)"

section \<open>Connecting\<close>

definition ssh_decryptCredential ::
  "(string \<Rightarrow> string \<Rightarrow> string \<Rightarrow> string option) \<Rightarrow> string \<Rightarrow> string \<Rightarrow> string result" where
  "ssh_decryptCredential gcmOpen key ciphertext =
     (if length ciphertext < 12 then Inl ''ciphertext too short''
      else if length key \<noteq> 16 \<and> length key \<noteq> 24 \<and> length key \<noteq> 32
      then Inl (''failed to create cipher: crypto/aes: invalid key size '' @ itoa (int (length key)))
      else case gcmOpen key (take 12 ciphertext) (drop 12 ciphertext) of
        None \<Rightarrow> Inl ''failed to decrypt: cipher: message authentication failed''
      | Some plain \<Rightarrow> Inr plain)"

definition authMethods ::
  "(string \<Rightarrow> string \<Rightarrow> string \<Rightarrow> string option) \<Rightarrow> (string \<Rightarrow> 'signer option) \<Rightarrow> string \<Rightarrow>
   ssh_device \<Rightarrow> 'signer auth list" where
  "authMethods gcmOpen parseKey key d =
     (if sd_PrivKeyEnc d \<noteq> []
      then (case ssh_decryptCredential gcmOpen key (sd_PrivKeyEnc d) of
          Inl _ \<Rightarrow> []
        | Inr k \<Rightarrow> (case parseKey k of None \<Rightarrow> [] | Some signer \<Rightarrow> [PublicKeys signer]))
      else []) @
     (if sd_PasswordEnc d \<noteq> []
      then (case ssh_decryptCredential gcmOpen key (sd_PasswordEnc d) of
          Inl _ \<Rightarrow> [] | Inr p \<Rightarrow> [Password p])
      else [])"

definition dialAddr :: "ssh_device \<Rightarrow> string" where
  "dialAddr d = sd_IPAddress d @ '':'' @ itoa (if sd_Port d = 0 then 22 else sd_Port d)"

text \<open>\<open>dial user auth addr\<close> is the race of \<open>ssh.Dial\<close> with the context's deadline.\<close>

definition connectSSH ::
  "(string \<Rightarrow> string \<Rightarrow> string \<Rightarrow> string option) \<Rightarrow> (string \<Rightarrow> 'signer option) \<Rightarrow>
   (string \<Rightarrow> 'signer auth list \<Rightarrow> string \<Rightarrow> dial_outcome) \<Rightarrow> string \<Rightarrow> ssh_device \<Rightarrow> client result" where
  "connectSSH gcmOpen parseKey dial key d = (let auth = authMethods gcmOpen parseKey key d in
     if auth = [] then Inl ''no valid authentication methods available''
     else case dial (sd_Username d) auth (dialAddr d) of
       DialTimeout e \<Rightarrow> Inl (''connection timed out: '' @ e)
     | DialError e \<Rightarrow> Inl e
     | Dialled c \<Rightarrow> Inr c)"

definition runSSHCommand :: "client \<Rightarrow> string \<Rightarrow> string result" where
  "runSSHCommand client cmd = (case client cmd of
     NoSession e \<Rightarrow> Inl (''failed to create session: '' @ e)
   | TimedOut e \<Rightarrow> Inl (''command timed out: '' @ e)
   | Failed e \<Rightarrow> Inl (''command '' @ [CHR 0x22] @ cmd @ [CHR 0x22] @ '' failed: '' @ e)
   | Output out \<Rightarrow> Inr out)"

section \<open>The metrics of a host\<close>

text \<open>A metric to write: name, value and labels. The collecting functions write their metrics in order
  and stop at the first error of the writer.\<close>

type_synonym sample = "string \<times> f64 \<times> labels"

fun writeAll :: "'w metric_sink \<Rightarrow> time \<Rightarrow> sample list \<Rightarrow> 'w \<Rightarrow> 'w \<times> string option" where
  "writeAll sink ts [] w = (w, None)"
| "writeAll sink ts ((name, v, ls) # ms) w = (case sink name v ls ts w of
     (w', Some e) \<Rightarrow> (w', Some e)
   | (w', None) \<Rightarrow> writeAll sink ts ms w')"

definition floatOf :: "string \<Rightarrow> f64" where
  "floatOf s = fst (parse_float s)"

definition cpuVals :: "string list \<Rightarrow> f64 list" where
  "cpuVals fs = map (\<lambda>i. if i + 1 < length fs then floatOf (fs ! (i + 1)) else Fin 0) [0..<10]"

definition cpuUsage :: "f64 list \<Rightarrow> f64" where
  "cpuUsage vals = (let idle = fadd (vals ! 3) (vals ! 4); total = foldl fadd (Fin 0) vals in
     if flt (Fin 0) total then fmul (fsub (Fin 1) (fdiv idle total)) (Fin 100) else Fin 0)"

definition cpuSamples :: "labels \<Rightarrow> string \<Rightarrow> sample list result" where
  "cpuSamples ls out = (case find (\<lambda>l. hasPrefix l ''cpu '') (scanLines out) of
     None \<Rightarrow> Inl ''cpu line not found in /proc/stat''
   | Some line \<Rightarrow> (let fs = strFields line in
       if length fs < 5 then Inl ''unexpected /proc/stat format''
       else Inr [(''infrasense_ssh_cpu_usage_percent'', cpuUsage (cpuVals fs), ls)]))"

fun memLine :: "f64 \<times> f64 \<Rightarrow> string list \<Rightarrow> f64 \<times> f64" where
  "memLine (memTotal, memAvailable) (k # v # fs) =
     (if k = ''MemTotal:'' then (fmul (floatOf v) (Fin 1024), memAvailable)
      else if k = ''MemAvailable:'' then (memTotal, fmul (floatOf v) (Fin 1024))
      else (memTotal, memAvailable))"
| "memLine m fs = m"

definition memValues :: "string \<Rightarrow> f64 \<times> f64" where
  "memValues out = foldl memLine (Fin 0, Fin 0) (map strFields (scanLines out))"

definition memSamples :: "labels \<Rightarrow> string \<Rightarrow> sample list result" where
  "memSamples ls out = (case memValues out of (memTotal, memAvailable) \<Rightarrow>
     Inr [(''infrasense_ssh_memory_total_bytes'', memTotal, ls),
          (''infrasense_ssh_memory_available_bytes'', memAvailable, ls)])"

definition uptimeSamples :: "labels \<Rightarrow> string \<Rightarrow> sample list result" where
  "uptimeSamples ls out = (case strFields (trimSpace out) of
     [] \<Rightarrow> Inl ''unexpected /proc/uptime format''
   | f # _ \<Rightarrow> (case parse_float f of
       (v, True) \<Rightarrow> Inr [(''infrasense_ssh_uptime_seconds'', v, ls)]
     | (v, False) \<Rightarrow> Inl (''failed to parse uptime: '' @ f)))"

definition labelOf :: "string \<Rightarrow> labels \<Rightarrow> string" where
  "labelOf k ls = (case map_of ls k of Some v \<Rightarrow> v | None \<Rightarrow> [])"

definition netLine :: "labels \<Rightarrow> string \<Rightarrow> sample list" where
  "netLine ls line = (if \<not> contains line '':'' then []
     else case splitN2 CHR '':'' line of
       [iface, rest] \<Rightarrow> (let fs = strFields rest in
         if length fs < 9 then []
         else let ifaceLabels = [(''device_id'', labelOf ''device_id'' ls), (''hostname'', labelOf ''hostname'' ls),
                (''interface'', trimSpace iface)] in
           [(''infrasense_ssh_network_rx_bytes'', floatOf (fs ! 0), ifaceLabels),
            (''infrasense_ssh_network_tx_bytes'', floatOf (fs ! 8), ifaceLabels)])
     | _ \<Rightarrow> [])"

definition netSamples :: "labels \<Rightarrow> string \<Rightarrow> sample list result" where
  "netSamples ls out = Inr (concat (map (netLine ls) (scanLines out)))"

definition diskLine :: "labels \<Rightarrow> string \<Rightarrow> sample list" where
  "diskLine ls line = (let fs = strFields line in
     if length fs < 6 then []
     else let mpLabels = [(''device_id'', labelOf ''device_id'' ls), (''hostname'', labelOf ''hostname'' ls),
            (''mountpoint'', fs ! 5)] in
       [(''infrasense_ssh_disk_total_bytes'', fmul (floatOf (fs ! 1)) (Fin 1024), mpLabels),
        (''infrasense_ssh_disk_used_bytes'', fmul (floatOf (fs ! 2)) (Fin 1024), mpLabels)])"

definition diskSamples :: "labels \<Rightarrow> string \<Rightarrow> sample list result" where
  "diskSamples ls out = Inr (concat (map (diskLine ls) (drop 1 (scanLines out))))"

text \<open>One collecting function: run the command, read its output, write what it says.\<close>

definition collect ::
  "'w metric_sink \<Rightarrow> time \<Rightarrow> client \<Rightarrow> string \<Rightarrow> (string \<Rightarrow> sample list result) \<Rightarrow> 'w \<Rightarrow> 'w \<times> string option" where
  "collect sink ts client cmd parse w = (case runSSHCommand client cmd of
     Inl e \<Rightarrow> (w, Some e)
   | Inr out \<Rightarrow> (case parse out of
       Inl e \<Rightarrow> (w, Some e)
     | Inr ms \<Rightarrow> writeAll sink ts ms w))"

definition collectSSHCPU :: "'w metric_sink \<Rightarrow> time \<Rightarrow> client \<Rightarrow> labels \<Rightarrow> 'w \<Rightarrow> 'w \<times> string option" where
  "collectSSHCPU sink ts client ls = collect sink ts client ''cat /proc/stat'' (cpuSamples ls)"

definition collectSSHMemory :: "'w metric_sink \<Rightarrow> time \<Rightarrow> client \<Rightarrow> labels \<Rightarrow> 'w \<Rightarrow> 'w \<times> string option" where
  "collectSSHMemory sink ts client ls = collect sink ts client ''cat /proc/meminfo'' (memSamples ls)"

definition collectSSHUptime :: "'w metric_sink \<Rightarrow> time \<Rightarrow> client \<Rightarrow> labels \<Rightarrow> 'w \<Rightarrow> 'w \<times> string option" where
  "collectSSHUptime sink ts client ls = collect sink ts client ''cat /proc/uptime'' (uptimeSamples ls)"

definition collectSSHNetwork :: "'w metric_sink \<Rightarrow> time \<Rightarrow> client \<Rightarrow> labels \<Rightarrow> 'w \<Rightarrow> 'w \<times> string option" where
  "collectSSHNetwork sink ts client ls = collect sink ts client ''cat /proc/net/dev'' (netSamples ls)"

definition collectSSHDisk :: "'w metric_sink \<Rightarrow> time \<Rightarrow> client \<Rightarrow> labels \<Rightarrow> 'w \<Rightarrow> 'w \<times> string option" where
  "collectSSHDisk sink ts client ls = collect sink ts client ''df -k'' (diskSamples ls)"

section \<open>Status\<close>

definition ssh_updateDeviceStatus ::
  "bool \<Rightarrow> bool \<Rightarrow> time \<Rightarrow> string \<Rightarrow> string \<Rightarrow> string \<Rightarrow> database \<Rightarrow> database" where
  "ssh_updateDeviceStatus ok1 ok2 now d status errorMsg db =
     (let db1 = (if ok1 then db\<lparr>devices := updateWhere (\<lambda>r. dv_id r = d)
            (\<lambda>r. r\<lparr>dv_status := status, dv_updated_at := now\<rparr>) (devices db)\<rparr> else db) in
      if ok2 then db1\<lparr>collector_status := upsertBy cs_name
          \<lparr>cs_name = ''ssh-collector'', cs_type = ''ssh'', cs_status = status, cs_last_poll = Some now,
           cs_last_success = None, cs_last_error = Some errorMsg, cs_updated_at = now\<rparr>
          (\<lambda>r. r\<lparr>cs_status := status, cs_last_poll := Some now, cs_last_error := Some errorMsg,
             cs_updated_at := now\<rparr>) (collector_status db1)\<rparr>
      else db1)"

definition ssh_updateCollectorStatusSuccess :: "bool \<Rightarrow> time \<Rightarrow> database \<Rightarrow> database" where
  "ssh_updateCollectorStatusSuccess ok now db =
     (if ok then db\<lparr>collector_status := upsertBy cs_name
          \<lparr>cs_name = ''ssh-collector'', cs_type = ''ssh'', cs_status = ''healthy'', cs_last_poll = Some now,
           cs_last_success = Some now, cs_last_error = Some [], cs_updated_at = now\<rparr>
          (\<lambda>r. r\<lparr>cs_status := ''healthy'', cs_last_poll := Some now, cs_last_success := Some now,
             cs_last_error := Some [], cs_updated_at := now\<rparr>) (collector_status db)\<rparr>
      else db)"

section \<open>Polling\<close>

record 'signer ssh_env =
  se_oor :: duration
  se_t0 :: time
  se_now :: time
  se_t2 :: time
  se_dbNow :: time
  se_oks :: "bool \<times> bool \<times> bool"
  se_parseKey :: "string \<Rightarrow> 'signer option"
  se_dial :: "string \<Rightarrow> 'signer auth list \<Rightarrow> string \<Rightarrow> dial_outcome"

definition ssh_labels :: "ssh_device \<Rightarrow> labels" where
  "ssh_labels d = [(''device_id'', sd_ID d), (''hostname'', sd_Hostname d)]"

text \<open>The five collecting functions with the words of their failure messages; the first that fails
  ends the poll.\<close>

definition ssh_steps ::
  "'w metric_sink \<Rightarrow> time \<Rightarrow> client \<Rightarrow> labels \<Rightarrow> (string \<times> ('w \<Rightarrow> 'w \<times> string option)) list" where
  "ssh_steps sink ts client ls =
     [(''cpu'', collectSSHCPU sink ts client ls), (''memory'', collectSSHMemory sink ts client ls),
      (''uptime'', collectSSHUptime sink ts client ls), (''network'', collectSSHNetwork sink ts client ls),
      (''disk'', collectSSHDisk sink ts client ls)]"

fun runSteps :: "(string \<times> ('w \<Rightarrow> 'w \<times> string option)) list \<Rightarrow> 'w \<Rightarrow> 'w \<times> string option" where
  "runSteps [] w = (w, None)"
| "runSteps ((what, step) # steps) w = (case step w of
     (w', Some e) \<Rightarrow> (w', Some (what @ '' collection failed: '' @ e))
   | (w', None) \<Rightarrow> runSteps steps w')"

definition ssh_pollDevice ::
  "(string \<Rightarrow> string \<Rightarrow> string \<Rightarrow> string option) \<Rightarrow> 'w metric_sink \<Rightarrow> 'signer ssh_env \<Rightarrow> ssh_device \<Rightarrow>
   'w ssh_collector \<Rightarrow> 'w ssh_collector \<times> bool" where
  "ssh_pollDevice gcmOpen sink env d c =
     (let unavailable = (\<lambda>msg. ssh_updateDeviceStatus (fst (se_oks env)) (fst (snd (se_oks env)))
            (se_dbNow env) (sd_ID d) ''unavailable'' msg (sc_db c)) in
      case connectSSH gcmOpen (se_parseKey env) (se_dial env) (sc_key c) d of
        Inl e \<Rightarrow> (c\<lparr>sc_db := unavailable (''connection failed: '' @ e)\<rparr>, False)
      | Inr client \<Rightarrow>
          (case runSteps (ssh_steps sink (se_now env) client (ssh_labels d)) (sc_writer c) of
             (w, Some e) \<Rightarrow> (c\<lparr>sc_writer := w, sc_db := unavailable e\<rparr>, False)
           | (w, None) \<Rightarrow> (c\<lparr>sc_writer := w\<rparr>, True)))"

definition ssh_pollDeviceWithRetry ::
  "(string \<Rightarrow> string \<Rightarrow> string \<Rightarrow> string option) \<Rightarrow> 'w metric_sink \<Rightarrow> 'signer ssh_env \<Rightarrow> ssh_device \<Rightarrow>
   'w ssh_collector \<Rightarrow> 'w ssh_collector" where
  "ssh_pollDeviceWithRetry gcmOpen sink env d c =
     (if \<not> ssh_ShouldRetry (sc_retry c) (sd_ID d) (se_t0 env) then c
      else case ssh_pollDevice gcmOpen sink env d c of
        (c1, False) \<Rightarrow> c1\<lparr>sc_retry := fst (ssh_RecordFailure (se_oor env) (sc_retry c1) (sd_ID d) (se_t2 env))\<rparr>
      | (c1, True) \<Rightarrow> c1\<lparr>sc_retry := ssh_RecordSuccess (sc_retry c1) (sd_ID d),
          sc_db := ssh_updateCollectorStatusSuccess (snd (snd (se_oks env))) (se_dbNow env)
            (ssh_updateDeviceStatus (fst (se_oks env)) (fst (snd (se_oks env))) (se_dbNow env) (sd_ID d)
              ''healthy'' [] (sc_db c1))\<rparr>)"

text \<open>A poll cycle polls every loaded device concurrently; the polls are taken one after the other, in
  any order, each with its own environment.\<close>

definition ssh_pollAllDevices ::
  "(string \<Rightarrow> string \<Rightarrow> string \<Rightarrow> string option) \<Rightarrow> 'w metric_sink \<Rightarrow> ('signer ssh_env \<times> ssh_device) list \<Rightarrow>
   'w ssh_collector \<Rightarrow> 'w ssh_collector" where
  "ssh_pollAllDevices gcmOpen sink jobs c =
     foldl (\<lambda>c (env, d). ssh_pollDeviceWithRetry gcmOpen sink env d c) c jobs"


section \<open>CPU usage is a percentage\<close>

definition cpuStatLine :: "int list \<Rightarrow> string" where
  "cpuStatLine js = ''cpu  '' @ joinWith '' '' (map itoa js)"

lemma hasPrefix_append [simp]: "hasPrefix (p @ s) p"
  by (simp add: hasPrefix_iff)

lemma cpuStatLine_fields: "strFields (cpuStatLine js) = ''cpu'' # map itoa js"
proof -
  have "cpuStatLine js = ''cpu'' @ CHR '' '' # CHR '' '' # joinWith '' '' (map itoa js)"
    unfolding cpuStatLine_def by simp
  moreover have "word_ok ''cpu''" by code_simp
  ultimately show ?thesis using strFields_word [of "''cpu''" "CHR '' ''" "CHR '' '' # joinWith '' '' (map itoa js)"]
    by (simp add: strFields_join is_space_def code_of_def)
qed

lemma floatOf_itoa: "\<bar>n\<bar> \<le> 9007199254740992 \<Longrightarrow> floatOf (itoa n) = Fin (of_int n)"
  unfolding floatOf_def by (simp add: parse_float_itoa)

definition jiffy :: "int list \<Rightarrow> nat \<Rightarrow> int" where
  "jiffy js i = (if i < length js then js ! i else 0)"

definition jiffies :: "int list \<Rightarrow> bool" where
  "jiffies js = (4 \<le> length js \<and> list_all (\<lambda>j. 0 \<le> j) js \<and> sum_list js \<le> 9007199254740992)"

lemma member_le_sum: "j \<in> set js \<Longrightarrow> \<forall>j \<in> set js. 0 \<le> j \<Longrightarrow> (j :: int) \<le> sum_list js"
proof (induction js)
  case (Cons k ks)
  then have "0 \<le> k" "0 \<le> sum_list ks" by (auto intro: sum_list_nonneg)
  with Cons show ?case by auto
qed simp

lemma jiffy_bounds:
  assumes "jiffies js"
  shows "0 \<le> jiffy js i" "jiffy js i \<le> 9007199254740992"
proof -
  have nn: "\<forall>j \<in> set js. 0 \<le> j" and s: "sum_list js \<le> 9007199254740992"
    using assms by (auto simp: jiffies_def list_all_iff)
  show "0 \<le> jiffy js i" using nn by (simp add: jiffy_def)
  have "j \<le> sum_list js" if "j \<in> set js" for j
    using that nn by (rule member_le_sum)
  then show "jiffy js i \<le> 9007199254740992" using s unfolding jiffy_def by (force dest: nth_mem)
qed

lemma cpuVals_itoa:
  assumes "jiffies js"
  shows "cpuVals (''cpu'' # map itoa js) = map (\<lambda>i. Fin (of_int (jiffy js i))) [0..<10]"
  unfolding cpuVals_def
proof (rule map_cong [OF refl])
  fix i assume "i \<in> set [0..<10]"
  show "(if i + 1 < length (''cpu'' # map itoa js) then floatOf ((''cpu'' # map itoa js) ! (i + 1)) else Fin 0) =
      Fin (of_int (jiffy js i))"
    using jiffy_bounds [OF assms, of i] by (auto simp: jiffy_def floatOf_itoa)
qed

lemma sum_jiffies:
  assumes "jiffies js"
  shows "(\<Sum>i\<leftarrow>[0..<n]. jiffy js i) \<le> sum_list js"
proof -
  have "(\<Sum>i\<leftarrow>[0..<n]. jiffy js i) \<le> (\<Sum>i\<leftarrow>[0..<n + length js]. jiffy js i)"
    unfolding upt_add_eq_append [OF le0] using jiffy_bounds(1) [OF assms]
    by (auto intro!: sum_list_nonneg)
  also have "\<dots> = (\<Sum>i\<leftarrow>[0..<length js + n]. jiffy js i)" by (simp add: add.commute)
  also have "\<dots> = (\<Sum>i\<leftarrow>[0..<length js]. jiffy js i) + (\<Sum>i\<leftarrow>[length js..<length js + n]. jiffy js i)"
    unfolding upt_add_eq_append [OF le0] by simp
  also have "map (jiffy js) [0..<length js] = js"
    by (rule nth_equalityI) (simp_all add: jiffy_def)
  also have "map (jiffy js) [length js..<length js + n] = map (\<lambda>i. 0) [length js..<length js + n]"
    by (simp add: jiffy_def)
  finally show ?thesis by (simp add: map_replicate_const sum_list_replicate)
qed

lemma foldl_fadd:
  assumes "\<forall>j \<in> set js. 0 \<le> j" "0 \<le> t" "t + sum_list js \<le> 9007199254740992"
  shows "foldl fadd (Fin (of_int t)) (map (\<lambda>j. Fin (of_int j)) js) = Fin (of_int (t + sum_list js))"
  using assms
proof (induction js arbitrary: t)
  case (Cons j js)
  have "0 \<le> sum_list js" using Cons.prems(1) by (auto intro: sum_list_nonneg)
  then have "round64 (of_int (t + j)) = Fin (of_int (t + j))"
    using Cons.prems by (intro round64_of_int) simp
  then have "foldl fadd (Fin (of_int t)) (map (\<lambda>j. Fin (of_int j)) (j # js)) =
      foldl fadd (Fin (of_int (t + j))) (map (\<lambda>j. Fin (of_int j)) js)" by simp
  also have "\<dots> = Fin (of_int ((t + j) + sum_list js))"
    by (rule Cons.IH) (use Cons.prems in \<open>auto simp: ac_simps\<close>)
  finally show ?case by (simp add: ac_simps)
qed simp


lemma cpuUsage_bounds:
  assumes "length xs = 10" "\<forall>x \<in> set xs. 0 \<le> x" "sum_list xs \<le> 9007199254740992"
  shows "\<exists>q. cpuUsage (map (\<lambda>j. Fin (of_int j)) xs) = Fin q \<and> 0 \<le> q \<and> q \<le> 100"
proof (cases "0 < sum_list xs")
  case True
  let ?t = "sum_list xs" and ?i = "xs ! 3 + xs ! 4"
  have total: "foldl fadd (Fin 0) (map (\<lambda>j. Fin (of_int j)) xs) = Fin (of_int ?t)"
    using foldl_fadd [of xs 0] assms by simp
  have nn: "0 \<le> xs ! 3" "0 \<le> xs ! 4" using assms by (simp_all add: nth_mem)
  have "drop 4 xs = xs ! 4 # drop 5 xs" using assms(1) Cons_nth_drop_Suc [of 4 xs] by simp
  moreover have "xs = take 3 xs @ xs ! 3 # drop 4 xs" using assms(1) id_take_nth_drop [of 3 xs] by simp
  ultimately have "xs = take 3 xs @ xs ! 3 # xs ! 4 # drop 5 xs" by simp
  then have "sum_list xs = sum_list (take 3 xs) + (?i + sum_list (drop 5 xs))"
    by (metis sum_list.append sum_list.Cons add.assoc)
  moreover have "0 \<le> sum_list (take 3 xs)" "0 \<le> sum_list (drop 5 xs)"
    using assms(2) by (auto intro!: sum_list_nonneg dest: in_set_takeD in_set_dropD)
  ultimately have i: "?i \<le> ?t" by simp
  have idle: "fadd (map (\<lambda>j. Fin (of_int j)) xs ! 3) (map (\<lambda>j. Fin (of_int j)) xs ! 4) = Fin (of_int ?i)"
    using nn i assms round64_of_int [of ?i] by simp
  have "\<exists>r. fdiv (Fin (of_int ?i)) (Fin (of_int ?t)) = Fin r \<and> 0 \<le> r \<and> r \<le> 1"
    using round64_bounds [of "of_int ?i / of_int ?t" 1] True nn i by (simp add: fdiv_def flip: of_int_add)
  then obtain r where r: "fdiv (Fin (of_int ?i)) (Fin (of_int ?t)) = Fin r" "0 \<le> r" "r \<le> 1" by blast
  obtain s where s: "round64 (1 - r) = Fin s" "0 \<le> s" "s \<le> 1"
    using round64_bounds [of "1 - r" 1] r by auto
  obtain q where q: "round64 (s * 100) = Fin q" "0 \<le> q" "q \<le> 100"
    using round64_bounds [of "s * 100" 100] s by auto
  have "cpuUsage (map (\<lambda>j. Fin (of_int j)) xs) = Fin q"
    unfolding cpuUsage_def idle total Let_def r(1) using True s q by (simp add: fsub_def fmul_def)
  with q show ?thesis by blast
next
  case False
  have total: "foldl fadd (Fin 0) (map (\<lambda>j. Fin (of_int j)) xs) = Fin (of_int (sum_list xs))"
    using foldl_fadd [of xs 0] assms by simp
  then show ?thesis unfolding cpuUsage_def total Let_def using False by simp
qed

lemma cpuStatLine_chars: "c \<in> set (cpuStatLine js) \<Longrightarrow> c \<noteq> newline \<and> c \<noteq> creturn"
proof -
  assume "c \<in> set (cpuStatLine js)"
  then have "c \<in> set ''cpu  '' \<or> (\<exists>j. c \<in> set (itoa j))"
    unfolding cpuStatLine_def by (auto dest!: joinWith_set)
  then consider "c \<in> set ''cpu  ''" | j where "c \<in> set (itoa j)" by blast
  then show ?thesis
  proof cases
    case 1
    then show ?thesis by (auto simp: newline_def creturn_def)
  next
    case (2 j)
    from itoa_set [OF this] show ?thesis
      by (auto simp: newline_def creturn_def is_digit_def code_of_def)
  qed
qed

lemma cpuStatLine_ok:
  assumes "int (length (cpuStatLine js)) \<le> 65535" shows "line_ok (cpuStatLine js)"
  using assms cpuStatLine_chars [of _ js] last_in_set [of "cpuStatLine js"] unfolding line_ok_def by blast

text \<open>When the first \<open>cpu\<close> line of \<open>/proc/stat\<close> lists at least four counters that are not negative
  and do not add up to more than 2^53, the collector reports exactly one CPU metric, and its value is
  a number between 0 and 100, rounding errors included.\<close>

theorem cpu_usage_is_percentage:
  assumes "jiffies js" "int (length (cpuStatLine js)) \<le> 65535" "\<forall>l \<in> set rest. line_ok l"
  shows "\<exists>q. cpuSamples ls (unlines (cpuStatLine js # rest)) =
    Inr [(''infrasense_ssh_cpu_usage_percent'', Fin q, ls)] \<and> 0 \<le> q \<and> q \<le> 100"
proof -
  have scan: "scanLines (unlines (cpuStatLine js # rest)) = cpuStatLine js # rest"
    using assms cpuStatLine_ok by (intro scanLines_unlines) auto
  have pre: "hasPrefix (cpuStatLine js) ''cpu ''"
    unfolding cpuStatLine_def by simp
  have len: "4 \<le> length js" using assms(1) by (simp add: jiffies_def)
  let ?xs = "map (jiffy js) [0..<10]"
  have v: "cpuVals (''cpu'' # map itoa js) = map (\<lambda>j. Fin (of_int j)) ?xs"
    unfolding cpuVals_itoa [OF assms(1)] by simp
  obtain q where "cpuUsage (map (\<lambda>j. Fin (of_int j)) ?xs) = Fin q" "0 \<le> q" "q \<le> 100"
    using cpuUsage_bounds [of ?xs] jiffy_bounds [OF assms(1)] sum_jiffies [OF assms(1), of 10] assms(1)
    by (auto simp: jiffies_def)
  then show ?thesis unfolding cpuSamples_def scan using pre len v
    by (simp add: cpuStatLine_fields)
qed

lemma cpu_usage_is_percentage_witness:
  "\<exists>q. cpuSamples [] (unlines [cpuStatLine [400, 0, 100, 1000, 500], ''intr 12'']) =
    Inr [(''infrasense_ssh_cpu_usage_percent'', Fin q, [])] \<and> 0 \<le> q \<and> q \<le> 100"
  by (rule cpu_usage_is_percentage) code_simp+


section \<open>Disk usage reads back\<close>

text \<open>A row of \<open>df -k\<close>: device, size, used, available, use and mount point.\<close>

definition dfRow :: "string \<times> int \<times> int \<times> int \<times> string \<times> string \<Rightarrow> string" where
  "dfRow row = (case row of (fsys, totalKB, used, avail, use, mount) \<Rightarrow>
     joinWith '' '' [fsys, itoa totalKB, itoa used, itoa avail, use, mount])"

definition dfRow_ok :: "string \<times> int \<times> int \<times> int \<times> string \<times> string \<Rightarrow> bool" where
  "dfRow_ok row = (case row of (fsys, totalKB, used, avail, use, mount) \<Rightarrow>
     word_ok fsys \<and> word_ok use \<and> word_ok mount \<and> 0 \<le> totalKB \<and> totalKB \<le> 8796093022208 \<and>
     0 \<le> used \<and> used \<le> 8796093022208 \<and> int (length (dfRow row)) \<le> 65535)"

definition dfSamples :: "labels \<Rightarrow> string \<times> int \<times> int \<times> int \<times> string \<times> string \<Rightarrow> sample list" where
  "dfSamples ls row = (case row of (fsys, totalKB, used, avail, use, mount) \<Rightarrow>
     let mp = [(''device_id'', labelOf ''device_id'' ls), (''hostname'', labelOf ''hostname'' ls),
       (''mountpoint'', mount)] in
     [(''infrasense_ssh_disk_total_bytes'', Fin (of_int (totalKB * 1024)), mp),
      (''infrasense_ssh_disk_used_bytes'', Fin (of_int (used * 1024)), mp)])"

lemma word_chars: "word_ok w \<Longrightarrow> c \<in> set w \<Longrightarrow> c \<noteq> newline \<and> c \<noteq> creturn"
  unfolding word_ok_def list_all_iff newline_def creturn_def
  by (auto simp: is_space_def code_of_def dest: bspec)

lemma join_words_ok:
  assumes "\<forall>w \<in> set ws. word_ok w" "int (length (joinWith '' '' ws)) \<le> 65535"
  shows "line_ok (joinWith '' '' ws)"
proof -
  have "c \<noteq> newline \<and> c \<noteq> creturn" if "c \<in> set (joinWith '' '' ws)" for c
    using joinWith_set [OF that] assms(1) word_chars by (auto simp: newline_def creturn_def)
  then show ?thesis
    using assms(2) last_in_set [of "joinWith '' '' ws"] unfolding line_ok_def by blast
qed

lemma fmul_1024:
  assumes "0 \<le> n" "n \<le> 8796093022208"
  shows "fmul (floatOf (itoa n)) (Fin 1024) = Fin (of_int (n * 1024))"
proof -
  have "round64 (of_int (n * 1024)) = Fin (of_int (n * 1024))"
    using assms by (intro round64_of_int) simp
  then show ?thesis using assms by (simp add: floatOf_itoa fmul_def)
qed

lemma diskLine_row:
  assumes "dfRow_ok row" shows "diskLine ls (dfRow row) = dfSamples ls row"
proof -
  obtain fsys totalKB used avail use mount where row: "row = (fsys, totalKB, used, avail, use, mount)"
    by (cases row) auto
  have "strFields (dfRow row) = [fsys, itoa totalKB, itoa used, itoa avail, use, mount]"
    using assms unfolding row dfRow_def dfRow_ok_def prod.case by (intro strFields_join) auto
  then show ?thesis
    using assms unfolding diskLine_def dfSamples_def row dfRow_ok_def
    by (simp add: fmul_1024 [simplified])
qed

text \<open>The output of \<open>df -k\<close>, a header line and then one row per file system, is reported as the total
  and the used bytes of every file system, exactly (in bytes, at most 2^53), in order, and labelled
  with its mount point; the header never becomes a metric.\<close>

theorem df_roundtrip:
  assumes "\<forall>row \<in> set rows. dfRow_ok row" "line_ok header"
  shows "diskSamples ls (unlines (header # map dfRow rows)) = Inr (concat (map (dfSamples ls) rows))"
proof -
  have "line_ok (dfRow row)" if "row \<in> set rows" for row
  proof -
    obtain fsys totalKB used avail use mount where row: "row = (fsys, totalKB, used, avail, use, mount)"
      by (cases row) auto
    have "dfRow_ok row" using assms(1) that by blast
    then show ?thesis
      unfolding row dfRow_ok_def dfRow_def prod.case by (intro join_words_ok) auto
  qed
  then have "scanLines (unlines (header # map dfRow rows)) = header # map dfRow rows"
    using assms(2) by (intro scanLines_unlines) auto
  moreover have "map (diskLine ls) (map dfRow rows) = map (dfSamples ls) rows"
    using assms(1) by (simp add: diskLine_row)
  ultimately show ?thesis unfolding diskSamples_def by (simp del: map_map)
qed

lemma df_roundtrip_witness:
  "diskSamples [] (unlines [''Filesystem 1K-blocks Used Available Use% Mounted on'',
       dfRow (''/dev/sda1'', 1000, 250, 750, ''25%'', ''/'')]) =
     Inr [(''infrasense_ssh_disk_total_bytes'', Fin 1024000, [(''device_id'', []), (''hostname'', []), (''mountpoint'', ''/'')]),
          (''infrasense_ssh_disk_used_bytes'', Fin 256000, [(''device_id'', []), (''hostname'', []), (''mountpoint'', ''/'')])]"
proof -
  have "\<forall>row \<in> set [(''/dev/sda1'', 1000, 250, 750, ''25%'', ''/'')]. dfRow_ok row" by code_simp
  moreover have "line_ok ''Filesystem 1K-blocks Used Available Use% Mounted on''" by code_simp
  ultimately show ?thesis
    using df_roundtrip [of "[(''/dev/sda1'', 1000, 250, 750, ''25%'', ''/'')]"
      "''Filesystem 1K-blocks Used Available Use% Mounted on''" "[]"]
    by (simp add: dfSamples_def labelOf_def Let_def)
qed

section \<open>Polls and the retry manager\<close>

definition ssh_attemptOf ::
  "(string \<Rightarrow> string \<Rightarrow> string \<Rightarrow> string option) \<Rightarrow> 'w metric_sink \<Rightarrow> 'signer ssh_env \<Rightarrow> ssh_device \<Rightarrow>
   'w ssh_collector \<Rightarrow> string attempt" where
  "ssh_attemptOf gcmOpen sink env d c = \<lparr>dev = sd_ID d, host = sd_Hostname d, start = se_t0 env,
     failed1 = se_t2 env, failed2 = se_t2 env, okay = snd (ssh_pollDevice gcmOpen sink env d c)\<rparr>"

lemma ssh_pollDevice_frame:
  "sc_retry (fst (ssh_pollDevice gcmOpen sink env d c)) = sc_retry c"
  "sc_devices (fst (ssh_pollDevice gcmOpen sink env d c)) = sc_devices c"
  "sc_key (fst (ssh_pollDevice gcmOpen sink env d c)) = sc_key c"
  unfolding ssh_pollDevice_def by (simp_all add: Let_def split: sum.split prod.split option.split)

lemma ssh_poll_retry:
  "sc_retry (ssh_pollDeviceWithRetry gcmOpen sink env d c) =
     ssh_retry.step (se_oor env) (sc_retry c) (ssh_attemptOf gcmOpen sink env d c)"
proof -
  obtain c1 ok where p: "ssh_pollDevice gcmOpen sink env d c = (c1, ok)"
    by (cases "ssh_pollDevice gcmOpen sink env d c")
  then have "sc_retry c1 = sc_retry c" using ssh_pollDevice_frame(1) [of gcmOpen "sink" env d c] by simp
  then show ?thesis
    unfolding ssh_pollDeviceWithRetry_def ssh_retry.step_def ssh_retry.polled_def ssh_attemptOf_def p
    by (cases ok) simp_all
qed

fun ssh_outcomes ::
  "(string \<Rightarrow> string \<Rightarrow> string \<Rightarrow> string option) \<Rightarrow> 'w metric_sink \<Rightarrow> string \<Rightarrow> 'w ssh_collector \<Rightarrow>
   ('signer ssh_env \<times> ssh_device) list \<Rightarrow> bool list" where
  "ssh_outcomes gcmOpen sink k c [] = []"
| "ssh_outcomes gcmOpen sink k c ((env, d) # jobs) =
     (if sd_ID d = k \<and> ssh_ShouldRetry (sc_retry c) k (se_t0 env)
      then [snd (ssh_pollDevice gcmOpen sink env d c)] else []) @
     ssh_outcomes gcmOpen sink k (ssh_pollDeviceWithRetry gcmOpen sink env d c) jobs"

text \<open>After any sequence of SSH polls, the failure count the manager holds for a host is the length of
  the run of failures that ends the host's own polls; skipped polls and other hosts do not count.\<close>

theorem ssh_failure_count_is_streak:
  "ssh_count (sc_retry (ssh_pollAllDevices gcmOpen sink jobs c)) k =
     streak (ssh_count (sc_retry c) k) (ssh_outcomes gcmOpen sink k c jobs)"
proof (induction jobs arbitrary: c)
  case Nil
  show ?case by (simp add: ssh_pollAllDevices_def)
next
  case (Cons job jobs)
  obtain env d where job: "job = (env, d)" by (cases job)
  let ?c1 = "ssh_pollDeviceWithRetry gcmOpen sink env d c"
  have "ssh_pollAllDevices gcmOpen sink (job # jobs) c = ssh_pollAllDevices gcmOpen sink jobs ?c1"
    by (simp add: ssh_pollAllDevices_def job)
  moreover have "ssh_count (sc_retry ?c1) k =
      (if sd_ID d = k \<and> ssh_ShouldRetry (sc_retry c) (sd_ID d) (se_t0 env)
       then if snd (ssh_pollDevice gcmOpen sink env d c) then 0 else ssh_count (sc_retry c) k + 1
       else ssh_count (sc_retry c) k)"
    unfolding ssh_poll_retry ssh_retry.count_step
    by (auto simp: ssh_attemptOf_def ssh_retry.polled_def)
  ultimately show ?case using Cons [of ?c1] by (auto simp: job)
qed


section \<open>No loaded host can be reached\<close>

lemma sshRows_shape:
  "d \<in> set (sshRows db) \<Longrightarrow>
     \<exists>r \<in> set (devices db). sd_IPAddress d = inet_text (dv_ip r) \<and> sd_Port d = 22 \<and> sd_PrivKeyEnc d = []"
  unfolding sshRows_def ssh_loadRow_def by auto

lemma dialAddr_loaded:
  assumes "d \<in> set (sshRows db)"
  shows "\<exists>r \<in> set (devices db). dialAddr d = in_addr (dv_ip r) @ ''/'' @ itoa (in_plen (dv_ip r)) @ '':22''"
proof -
  obtain r where r: "r \<in> set (devices db)" "sd_IPAddress d = inet_text (dv_ip r)" "sd_Port d = 22"
    using sshRows_shape [OF assms] by blast
  have "itoa 22 = ''22''" by code_simp
  with r show ?thesis by (intro bexI [OF _ r(1)]) (simp add: dialAddr_def inet_text_def)
qed

text \<open>\<open>loadDevices\<close> reads the address with \<open>ip_address::text\<close>, which keeps the netmask length, so
  every loaded host is dialled at \<open>a/n:22\<close>. Where dialling refuses an address with a slash in it (it is
  neither an IP address nor a host name), no poll of a loaded host ever succeeds: it reports no
  metric, and when it is not held back it records a failure and, if its update goes through, the
  host is stored as unavailable.\<close>

theorem loaded_host_is_never_reached:
  assumes "d \<in> set (sshRows db)"
    and "\<And>user auth addr. contains addr ''/'' \<Longrightarrow> \<exists>e. se_dial env user auth addr = DialError e"
  shows "sc_writer (ssh_pollDeviceWithRetry gcmOpen sink env d c) = sc_writer c \<and>
    (ssh_ShouldRetry (sc_retry c) (sd_ID d) (se_t0 env) \<longrightarrow>
      ssh_count (sc_retry (ssh_pollDeviceWithRetry gcmOpen sink env d c)) (sd_ID d) =
        ssh_count (sc_retry c) (sd_ID d) + 1 \<and>
      (fst (se_oks env) \<longrightarrow> (\<forall>r \<in> set (devices (sc_db (ssh_pollDeviceWithRetry gcmOpen sink env d c))).
        dv_id r = sd_ID d \<longrightarrow> dv_status r = ''unavailable'')))"
proof -
  obtain a b where "dialAddr d = a @ ''/'' @ b" using dialAddr_loaded [OF assms(1)] by blast
  then have "contains (dialAddr d) ''/''" using contains_infix [of a "''/''" b] by simp
  then obtain e where e: "se_dial env (sd_Username d)
      (authMethods gcmOpen (se_parseKey env) (sc_key c) d) (dialAddr d) = DialError e"
    using assms(2) by blast
  then obtain err where dial: "connectSSH gcmOpen (se_parseKey env) (se_dial env) (sc_key c) d = Inl err"
    unfolding connectSSH_def Let_def e by (cases "authMethods gcmOpen (se_parseKey env) (sc_key c) d = []") auto
  define db' where "db' = ssh_updateDeviceStatus (fst (se_oks env)) (fst (snd (se_oks env)))
    (se_dbNow env) (sd_ID d) ''unavailable'' (''connection failed: '' @ err) (sc_db c)"
  have poll: "ssh_pollDevice gcmOpen sink env d c = (c\<lparr>sc_db := db'\<rparr>, False)"
    unfolding ssh_pollDevice_def dial db'_def by simp
  have st: "\<forall>r \<in> set (devices db'). dv_id r = sd_ID d \<longrightarrow> dv_status r = ''unavailable''" if "fst (se_oks env)"
    using that unfolding db'_def ssh_updateDeviceStatus_def updateWhere_def by (auto simp: Let_def)
  show ?thesis
    unfolding ssh_pollDeviceWithRetry_def poll using st
    by (auto simp: ssh_retry.count_fail)
qed

text \<open>A host with a password, and a network that refuses an address with a slash.\<close>

definition sshExRow :: device_row where
  "sshExRow = \<lparr>dv_id = ''h1'', dv_hostname = ''db'', dv_ip = \<lparr>in_addr = ''10.0.0.9'', in_plen = 32\<rparr>,
     dv_bmc_ip = None, dv_type = ''ssh'', dv_protocol = None, dv_status = ''healthy'', dv_last_seen = None,
     dv_updated_at = 0\<rparr>"

definition sshExDb :: database where
  "sshExDb = \<lparr>devices = [sshExRow], credentials = [], collector_status = [], device_inventory = [],
     device_nics = [], device_disks = []\<rparr>"

definition sshExEnv :: "unit ssh_env" where
  "sshExEnv = \<lparr>se_oor = 0, se_t0 = 5, se_now = 5, se_t2 = 5, se_dbNow = 5, se_oks = (True, True, True),
     se_parseKey = (\<lambda>k. None),
     se_dial = (\<lambda>user auth addr. if contains addr ''/'' then DialError ''no such host''
       else Dialled (\<lambda>cmd. Output []))\<rparr>"

definition sshExCollector :: "sample list ssh_collector" where
  "sshExCollector = \<lparr>sc_db = sshExDb, sc_writer = [], sc_retry = Map.empty, sc_devices = [], sc_key = []\<rparr>"


definition listSink :: "sample list metric_sink" where
  "listSink name v ls ts w = (w @ [(name, v, ls)], None)"

lemma loaded_host_is_never_reached_witness:
  "let d = ssh_loadRow sshExRow None;
       c = ssh_pollDeviceWithRetry (\<lambda>k n x. Some x) listSink sshExEnv d sshExCollector in
   sc_writer c = [] \<and> ssh_count (sc_retry c) ''h1'' = 1 \<and> map dv_status (devices (sc_db c)) = [''unavailable'']"
proof -
  let ?d = "ssh_loadRow sshExRow None"
  let ?c = "ssh_pollDeviceWithRetry (\<lambda>k n x. Some x) listSink sshExEnv ?d sshExCollector"
  have "?d \<in> set (sshRows sshExDb)"
    unfolding sshRows_def sshExDb_def by (simp add: sshExRow_def sshCredentials_def)
  then have "sc_writer ?c = sc_writer sshExCollector \<and>
      (ssh_ShouldRetry (sc_retry sshExCollector) (sd_ID ?d) (se_t0 sshExEnv) \<longrightarrow>
        ssh_count (sc_retry ?c) (sd_ID ?d) = ssh_count (sc_retry sshExCollector) (sd_ID ?d) + 1 \<and>
        (fst (se_oks sshExEnv) \<longrightarrow> (\<forall>r \<in> set (devices (sc_db ?c)).
          dv_id r = sd_ID ?d \<longrightarrow> dv_status r = ''unavailable'')))"
    by (rule loaded_host_is_never_reached) (simp add: sshExEnv_def)
  moreover have "map dv_status (devices (sc_db ?c)) = [''unavailable'']" by code_simp
  ultimately show ?thesis
    by (simp add: sshExCollector_def sshExEnv_def ssh_loadRow_def sshExRow_def ssh_ShouldRetry_def
      ssh_count_def Let_def)
qed

section \<open>One status row for all hosts\<close>

text \<open>All hosts share the one row \<open>ssh-collector\<close> of \<open>collector_status\<close>, so a poll of a second host that
  succeeds leaves there nothing of the failure of a first one: status healthy and an empty error,
  whatever the row held before. (The row of the device itself keeps its own status.)\<close>

theorem success_hides_other_hosts_failure:
  "findBy cs_name ''ssh-collector'' (collector_status (ssh_updateCollectorStatusSuccess True now
     (ssh_updateDeviceStatus ok1 True now d2 ''healthy'' [] db))) =
   Some \<lparr>cs_name = ''ssh-collector'',
     cs_type = (case findBy cs_name ''ssh-collector'' (collector_status db) of None \<Rightarrow> ''ssh'' | Some r \<Rightarrow> cs_type r),
     cs_status = ''healthy'', cs_last_poll = Some now, cs_last_success = Some now,
     cs_last_error = Some [], cs_updated_at = now\<rparr>"
proof (cases "findBy cs_name ''ssh-collector'' (collector_status db)")
  case None
  then show ?thesis
    unfolding ssh_updateCollectorStatusSuccess_def ssh_updateDeviceStatus_def Let_def
    by (simp add: findBy_upsert)
next
  case (Some r)
  then have "cs_name r = ''ssh-collector''"
    unfolding findBy_def by (auto simp: find_Some_iff)
  with Some show ?thesis
    unfolding ssh_updateCollectorStatusSuccess_def ssh_updateDeviceStatus_def Let_def
    by (cases r) (simp add: findBy_upsert)
qed

end
