(* ===== verification/ApiCache.thy ===== *)
theory ApiCache
  imports Prelude
begin

text \<open>
  The response cache of the API server, \<open>backend/internal/api/middleware/cache.go\<close>. \<open>digest\<close> is the
  hexadecimal SHA-256 of a URL. Each read of the clock is an argument; \<open>handler\<close> is the response the
  rest of the chain gives.
\<close>

section \<open>The store\<close>

record http_resp =
  hr_status :: int
  hr_type :: string
  hr_body :: string

record cache_entry =
  ce_statusCode :: int
  ce_contentType :: string
  ce_body :: string
  ce_expiresAt :: time

type_synonym cache = "string \<Rightarrow> cache_entry option"

definition NewCache :: cache where
  "NewCache = Map.empty"

definition cache_cleanup :: "time \<Rightarrow> cache \<Rightarrow> cache" where
  "cache_cleanup now c = (\<lambda>key. case c key of None \<Rightarrow> None
     | Some entry \<Rightarrow> (if ce_expiresAt entry < now then None else Some entry))"

definition cache_get :: "cache \<Rightarrow> string \<Rightarrow> time \<Rightarrow> cache_entry option" where
  "cache_get c key now = (case c key of None \<Rightarrow> None
     | Some entry \<Rightarrow> (if ce_expiresAt entry < now then None else Some entry))"

definition cache_set :: "string \<Rightarrow> cache_entry \<Rightarrow> cache \<Rightarrow> cache" where
  "cache_set key entry c = c(key \<mapsto> entry)"

definition Invalidate :: "(string \<Rightarrow> string) \<Rightarrow> string \<Rightarrow> cache \<Rightarrow> cache" where
  "Invalidate digest urlPrefix c = c(digest urlPrefix := None)"

section \<open>The middleware\<close>

text \<open>The response with its \<open>X-Cache\<close> header, empty where the middleware sets none.\<close>

definition CacheMiddleware ::
  "(string \<Rightarrow> string) \<Rightarrow> time \<Rightarrow> string \<Rightarrow> string \<Rightarrow> time \<Rightarrow> time \<Rightarrow> http_resp \<Rightarrow> cache \<Rightarrow>
   cache \<times> http_resp \<times> string" where
  "CacheMiddleware digest ttl meth url t1 t2 handler c =
     (if meth \<noteq> ''GET'' then (c, handler, [])
      else case cache_get c (digest url) t1 of
        Some entry \<Rightarrow> (c, \<lparr>hr_status = ce_statusCode entry, hr_type = ce_contentType entry,
          hr_body = ce_body entry\<rparr>, ''HIT'')
      | None \<Rightarrow> (if hr_status handler = 200
          then cache_set (digest url) \<lparr>ce_statusCode = hr_status handler, ce_contentType = hr_type handler,
            ce_body = hr_body handler, ce_expiresAt = t2 + ttl\<rparr> c
          else c, handler, ''MISS''))"

section \<open>Laws of the store\<close>

text \<open>What a reader relies on: a lookup sees the last write of its key until it expires, and no sweep
  or write elsewhere is visible.\<close>

locale expiring_store =
  fixes look :: "'c \<Rightarrow> 'k \<Rightarrow> time \<Rightarrow> 'v option"
    and store :: "'k \<Rightarrow> 'v \<Rightarrow> time \<Rightarrow> 'c \<Rightarrow> 'c"
    and drop_key :: "'k \<Rightarrow> 'c \<Rightarrow> 'c"
    and sweep :: "time \<Rightarrow> 'c \<Rightarrow> 'c"
  assumes look_store: "look (store k v e c) j now =
      (if j = k then if e < now then None else Some v else look c j now)"
    and look_drop: "look (drop_key k c) j now = (if j = k then None else look c j now)"
    and look_sweep: "t \<le> now \<Longrightarrow> look (sweep t c) j now = look c j now"
begin

lemma sweeps_invisible: "\<forall>t \<in> set ts. t \<le> now \<Longrightarrow> look (fold sweep ts c) j now = look c j now"
  by (induction ts arbitrary: c) (simp_all add: look_sweep)

lemma store_then_look: "now \<le> e \<Longrightarrow> look (store k v e c) k now = Some v"
  by (simp add: look_store)

lemma drop_then_look: "look (drop_key k c) k now = None"
  by (simp add: look_drop)

end

definition entry_resp :: "cache_entry \<Rightarrow> http_resp" where
  "entry_resp e = \<lparr>hr_status = ce_statusCode e, hr_type = ce_contentType e, hr_body = ce_body e\<rparr>"

definition resp_entry :: "http_resp \<Rightarrow> time \<Rightarrow> cache_entry" where
  "resp_entry r e = \<lparr>ce_statusCode = hr_status r, ce_contentType = hr_type r, ce_body = hr_body r,
     ce_expiresAt = e\<rparr>"

lemma entry_resp_entry [simp]: "entry_resp (resp_entry r e) = r" "ce_expiresAt (resp_entry r e) = e"
  unfolding entry_resp_def resp_entry_def by simp_all

interpretation api_cache: expiring_store
  "\<lambda>c k now. map_option entry_resp (cache_get c k now)" "\<lambda>k r e. cache_set k (resp_entry r e)"
  "\<lambda>k c. c(k := None)" cache_cleanup
  by unfold_locales (auto simp: cache_get_def cache_set_def cache_cleanup_def split: option.splits)

lemma CacheMiddleware_alt:
  "CacheMiddleware digest ttl meth url t1 t2 handler c =
     (if meth \<noteq> ''GET'' then (c, handler, [])
      else case map_option entry_resp (cache_get c (digest url) t1) of
        Some r \<Rightarrow> (c, r, ''HIT'')
      | None \<Rightarrow> (if hr_status handler = 200 then cache_set (digest url) (resp_entry handler (t2 + ttl)) c else c,
          handler, ''MISS''))"
  unfolding CacheMiddleware_def entry_resp_def resp_entry_def by (simp split: option.split)

section \<open>Staleness\<close>

text \<open>A request: method, URL, the two clock readings and the response its handler would give.\<close>

record cache_req =
  q_method :: string
  q_url :: string
  q_t1 :: time
  q_t2 :: time
  q_handler :: http_resp

datatype cache_event = Serve cache_req | Clean time | Drop string

fun cache_step :: "(string \<Rightarrow> string) \<Rightarrow> time \<Rightarrow> cache \<Rightarrow> cache_event \<Rightarrow> cache" where
  "cache_step digest ttl c (Serve q) =
     fst (CacheMiddleware digest ttl (q_method q) (q_url q) (q_t1 q) (q_t2 q) (q_handler q) c)"
| "cache_step digest ttl c (Clean t) = cache_cleanup t c"
| "cache_step digest ttl c (Drop url) = Invalidate digest url c"

definition stored_from :: "(string \<Rightarrow> string) \<Rightarrow> time \<Rightarrow> cache_event list \<Rightarrow> cache \<Rightarrow> bool" where
  "stored_from digest ttl es c = (\<forall>k entry. c k = Some entry \<longrightarrow>
     (\<exists>q. Serve q \<in> set es \<and> k = digest (q_url q) \<and> entry = resp_entry (q_handler q) (q_t2 q + ttl) \<and>
       q_method q = ''GET'' \<and> hr_status (q_handler q) = 200))"

lemma stored_from_mono: "stored_from digest ttl es c \<Longrightarrow> stored_from digest ttl (es @ [e]) c"
  unfolding stored_from_def by (simp, blast)

lemma stored_from_step [inv_intros]:
  assumes "stored_from digest ttl es c"
  shows "stored_from digest ttl (es @ [e]) (cache_step digest ttl c e)"
proof (cases e)
  case (Serve q)
  show ?thesis
    using stored_from_mono [OF assms, of e] Serve
    by (auto simp: CacheMiddleware_alt cache_set_def stored_from_def split: option.split)
next
  case (Clean t)
  show ?thesis
    using stored_from_mono [OF assms, of e] Clean
    by (auto simp: cache_cleanup_def stored_from_def split: option.splits if_splits)
next
  case (Drop url)
  show ?thesis
    using stored_from_mono [OF assms, of e] Drop
    by (auto simp: Invalidate_def stored_from_def split: if_splits)
qed

lemma stored_from_run: "stored_from digest ttl es (foldl (cache_step digest ttl) NewCache es)"
proof (induction es rule: rev_induct)
  case (snoc e es)
  then show ?case using stored_from_step [of digest ttl es _ e] by simp
qed (simp add: stored_from_def NewCache_def)

text \<open>C37: Whatever was served, swept and invalidated before, an answer from the cache is the handler's own
  200 answer to an earlier GET whose URL has the same digest, no older than the time to live; where
  the digest tells URLs apart it is the answer to the same URL. Any other answer is the handler's.\<close>

theorem cache_hit_is_recent:
  "case CacheMiddleware digest ttl meth url t1 t2 handler (foldl (cache_step digest ttl) NewCache es) of
     (c, r, mark) \<Rightarrow>
       (if mark = ''HIT''
        then meth = ''GET'' \<and> (\<exists>q. Serve q \<in> set es \<and> digest (q_url q) = digest url \<and> r = q_handler q \<and>
          q_method q = ''GET'' \<and> hr_status r = 200 \<and> t1 \<le> q_t2 q + ttl)
        else r = handler)"
proof -
  let ?c = "foldl (cache_step digest ttl) NewCache es"
  have "\<exists>q. Serve q \<in> set es \<and> digest (q_url q) = digest url \<and> entry_resp entry = q_handler q \<and>
      q_method q = ''GET'' \<and> hr_status (q_handler q) = 200 \<and> t1 \<le> q_t2 q + ttl"
    if "cache_get ?c (digest url) t1 = Some entry" for entry
  proof -
    have "?c (digest url) = Some entry" "t1 \<le> ce_expiresAt entry"
      using that unfolding cache_get_def by (auto split: option.splits if_splits)
    then show ?thesis using stored_from_run [of digest ttl es] unfolding stored_from_def by fastforce
  qed
  then show ?thesis unfolding CacheMiddleware_alt by (auto split: option.split) metis
qed

text \<open>\<open>Invalidate\<close> drops the entry of the URL it is given and, where the digest tells URLs apart, no
  other: the cached answers to URLs that only start with it, such as the pages of a list, are still
  served.\<close>

theorem invalidate_is_exact:
  assumes "\<And>u v. digest u = digest v \<Longrightarrow> u = v"
  shows "cache_get (Invalidate digest url c) (digest u) now =
    (if u = url then None else cache_get c (digest u) now)"
  using assms unfolding Invalidate_def cache_get_def by (auto split: option.split)

lemma invalidate_is_exact_witness:
  "let c = cache_set ''/devices?page=2'' (resp_entry \<lparr>hr_status = 200, hr_type = [], hr_body = ''old''\<rparr> 60) NewCache in
   cache_get (Invalidate (\<lambda>u. u) ''/devices'' c) ''/devices?page=2'' 5 =
     Some (resp_entry \<lparr>hr_status = 200, hr_type = [], hr_body = ''old''\<rparr> 60)"
  using invalidate_is_exact [of "\<lambda>u. u" "''/devices''" _ "''/devices?page=2''" 5]
  by (simp add: cache_get_def cache_set_def Let_def)

end
