(* ===== verification/Api.thy ===== *)
theory Api
  imports Db
begin

text \<open>
  What the handlers of the API server share: the replies of
  \<open>backend/internal/api/response/response.go\<close>, the texts and checks of
  \<open>backend/internal/api/validation/validation.go\<close>, and the errors of the statements that the
  repositories issue.

  A statement that does not depend on the tables can fail at any time: \<open>dbErr\<close> is its error, if any.
  \<open>uuid.Parse\<close> is not in the repository; a handler is given its outcome, \<open>None\<close> for a text that is not
  a UUID.
\<close>

section \<open>Replies\<close>

type_synonym db_error = "string option"

record page_meta =
  pm_page :: int
  pm_page_size :: int
  pm_total :: int

datatype 'a api_reply =
    Failed int string string
  | Data int 'a
  | Page 'a page_meta
  | Message int string

definition Success :: "'a \<Rightarrow> 'a api_reply" where
  "Success d = Data 200 d"

definition Created :: "'a \<Rightarrow> 'a api_reply" where
  "Created d = Data 201 d"

definition Paginated :: "'a \<Rightarrow> page_meta \<Rightarrow> 'a api_reply" where
  "Paginated d m = Page d m"

definition ErrorReply :: "int \<Rightarrow> string \<Rightarrow> string \<Rightarrow> 'a api_reply" where
  "ErrorReply status message code = Failed status message code"

definition NotFound :: "string \<Rightarrow> 'a api_reply" where
  "NotFound message = Failed 404 message ''NOT_FOUND''"

definition BadRequest :: "string \<Rightarrow> string \<Rightarrow> 'a api_reply" where
  "BadRequest message code = Failed 400 message code"

definition Unauthorized :: "string \<Rightarrow> 'a api_reply" where
  "Unauthorized message = Failed 401 message ''UNAUTHORIZED''"

definition InternalError :: "string \<Rightarrow> 'a api_reply" where
  "InternalError message = Failed 500 message ''INTERNAL_ERROR''"

named_theorems reply_defs

lemmas reply_definitions [reply_defs] = Success_def Created_def Paginated_def ErrorReply_def NotFound_def
  BadRequest_def Unauthorized_def InternalError_def

fun accepted_reply :: "'a api_reply \<Rightarrow> bool" where
  "accepted_reply (Failed _ _ _) = False"
| "accepted_reply _ = True"

lemma replies_accepted [simp]:
  "accepted_reply (Success d)" "accepted_reply (Created d)" "accepted_reply (Paginated d m)"
  "\<not> accepted_reply (NotFound a)" "\<not> accepted_reply (BadRequest a b)" "\<not> accepted_reply (Unauthorized a)"
  "\<not> accepted_reply (InternalError a)" "\<not> accepted_reply (ErrorReply n a b)"
  unfolding reply_defs by simp_all

section \<open>Validation\<close>

text \<open>\<open>net.ParseIP\<close> is given by whether it parses.\<close>

definition ValidateIPAddress :: "(string \<Rightarrow> bool) \<Rightarrow> string \<Rightarrow> string option" where
  "ValidateIPAddress parseIP ip = (if ip = [] then Some ''IP address must not be empty''
     else if \<not> parseIP ip
     then Some ([CHR 0x27] @ ip @ [CHR 0x27] @ '' is not a valid IP address (expected IPv4 or IPv6 format)'')
     else None)"

text \<open>The regular expression of \<open>ValidateEmail\<close>: the domain is what follows the last at sign, since none of
  its characters is one, and its top level follows its last dot.\<close>

definition is_letter :: "char \<Rightarrow> bool" where
  "is_letter c = (is_upper c \<or> is_lower c)"

definition localChar :: "char \<Rightarrow> bool" where
  "localChar c = (is_letter c \<or> is_digit c \<or> c \<in> set ''._%+-'')"

definition domainChar :: "char \<Rightarrow> bool" where
  "domainChar c = (is_letter c \<or> is_digit c \<or> c \<in> set ''.-'')"

definition emailMatches :: "string \<Rightarrow> bool" where
  "emailMatches s = (case splitOn CHR ''@'' s of
     [l, d] \<Rightarrow> l \<noteq> [] \<and> list_all localChar l \<and>
       (let parts = splitOn CHR ''.'' d; tld = last parts; front = joinWith ''.'' (butlast parts) in
         length parts \<ge> 2 \<and> front \<noteq> [] \<and> list_all domainChar front \<and>
         length tld \<ge> 2 \<and> list_all is_letter tld)
   | _ \<Rightarrow> False)"

definition ValidateEmail :: "string \<Rightarrow> string option" where
  "ValidateEmail email = (if email = [] then Some ''email address must not be empty''
     else if \<not> emailMatches email
     then Some ([CHR 0x27] @ email @ [CHR 0x27] @ '' is not a valid email address'') else None)"

text \<open>What the validator reports of one field: its name, the failed tag and the tag's parameter. A binding
  error is such a report or another text.\<close>

record field_error =
  fe_Field :: string
  fe_Tag :: string
  fe_Param :: string

datatype bind_error = FieldErrors "field_error list" | OtherError string

definition quoted :: "string \<Rightarrow> string" where
  "quoted s = [CHR 0x27] @ s @ [CHR 0x27]"

definition formatFieldError :: "field_error \<Rightarrow> string" where
  "formatFieldError fe = (let f = ''field '' @ quoted (fe_Field fe); tag = fe_Tag fe; p = fe_Param fe in
     if tag = ''required'' then f @ '' is required''
     else if tag = ''min'' then f @ '' must be at least '' @ p
     else if tag = ''max'' then f @ '' must be at most '' @ p
     else if tag = ''email'' then f @ '' must be a valid email address''
     else if tag = ''url'' then f @ '' must be a valid URL''
     else if tag = ''oneof'' then f @ '' must be one of: '' @ p
     else if tag = ''gt'' then f @ '' must be greater than '' @ p
     else if tag = ''gte'' then f @ '' must be greater than or equal to '' @ p
     else if tag = ''lt'' then f @ '' must be less than '' @ p
     else if tag = ''lte'' then f @ '' must be less than or equal to '' @ p
     else f @ '' failed validation ('' @ tag @ '')'')"

definition FormatBindingErrors :: "bind_error \<Rightarrow> string" where
  "FormatBindingErrors err = (case err of
     FieldErrors ve \<Rightarrow> joinWith ''; '' (map formatFieldError ve)
   | OtherError e \<Rightarrow> e)"

section \<open>Statements that say whether they met a row\<close>

text \<open>An \<open>UPDATE\<close> or \<open>DELETE\<close> of the rows that satisfy \<open>P\<close>, and the error the repositories make of it: the
  failure of the statement, or that no row was affected.\<close>

definition updateRows ::
  "string \<Rightarrow> string \<Rightarrow> db_error \<Rightarrow> ('r \<Rightarrow> bool) \<Rightarrow> ('r \<Rightarrow> 'r) \<Rightarrow> 'r list \<Rightarrow> 'r list \<times> string option" where
  "updateRows failed missing dbErr P f rs = (case dbErr of
     Some e \<Rightarrow> (rs, Some (failed @ '': '' @ e))
   | None \<Rightarrow> (if list_ex P rs then (updateWhere P f rs, None) else (rs, Some missing)))"

definition deleteRows ::
  "string \<Rightarrow> string \<Rightarrow> db_error \<Rightarrow> ('r \<Rightarrow> bool) \<Rightarrow> 'r list \<Rightarrow> 'r list \<times> string option" where
  "deleteRows failed missing dbErr P rs = (case dbErr of
     Some e \<Rightarrow> (rs, Some (failed @ '': '' @ e))
   | None \<Rightarrow> (if list_ex P rs then (filter (\<lambda>r. \<not> P r) rs, None) else (rs, Some missing)))"

lemma updateRows_fails [simp]: "snd (updateRows a b e P f rs) \<noteq> None \<Longrightarrow> fst (updateRows a b e P f rs) = rs"
  unfolding updateRows_def by (auto split: option.splits if_splits)

lemma deleteRows_fails [simp]: "snd (deleteRows a b e P rs) \<noteq> None \<Longrightarrow> fst (deleteRows a b e P rs) = rs"
  unfolding deleteRows_def by (auto split: option.splits if_splits)

lemma deleteRows_gone: "snd (deleteRows a b e P rs) = None \<Longrightarrow> r \<in> set (fst (deleteRows a b e P rs)) \<Longrightarrow> \<not> P r"
  unfolding deleteRows_def by (auto split: option.splits if_splits)

lemma distinct_updateRows:
  "(\<And>r. key (f r) = key r) \<Longrightarrow> distinct (map key rs) \<Longrightarrow> distinct (map key (fst (updateRows a b e P f rs)))"
  unfolding updateRows_def by (auto simp: keys_update split: option.splits)

lemma distinct_deleteRows:
  "distinct (map key rs) \<Longrightarrow> distinct (map key (fst (deleteRows a b e P rs)))"
  unfolding deleteRows_def by (auto simp: distinct_map split: option.splits intro: inj_on_subset)

end
