(* ===== verification/Detector.thy ===== *)
theory Detector
  imports Api
begin

text \<open>
  The protocol detector (\<open>backend/internal/services/protocol_detector.go\<close>) and its handler
  (\<open>backend/internal/api/handlers/protocol_handler.go\<close>). The probes run in goroutines of their own and
  report over a channel: the order of arrival is an argument, a list of the numbers of the probes. What
  the network and \<open>ipmitool\<close> answer is an argument too.
\<close>

section \<open>Probes\<close>

record probe_result =
  pr_Protocol :: string
  pr_Available :: bool
  pr_Port :: int
  pr_Error :: string

record probe_output =
  po_available :: bool
  po_err :: "string option"
  po_vendor :: string
  po_model :: string
  po_bmcType :: string

definition plainOutput :: "bool \<Rightarrow> string option \<Rightarrow> probe_output" where
  "plainOutput ok err = \<lparr>po_available = ok, po_err = err, po_vendor = [], po_model = [], po_bmcType = []\<rparr>"

text \<open>The answer of a Redfish service: its status, its Server header, and the name in its body when that
  is a JSON object with a text as \<open>Name\<close>.\<close>

datatype redfish_answer = RfError string | RfAnswer int string "string option"

definition fromServer :: "string \<Rightarrow> probe_output \<Rightarrow> probe_output" where
  "fromServer server out = (let s = toUpper server in
     if contains s ''IDRAC'' then out\<lparr>po_vendor := ''Dell'', po_model := ''PowerEdge'',
       po_bmcType := (if contains s ''IDRAC9'' then ''iDRAC9'' else if contains s ''IDRAC8'' then ''iDRAC8''
         else if contains s ''IDRAC7'' then ''iDRAC7'' else ''iDRAC'')\<rparr>
     else if contains s ''ILO'' then out\<lparr>po_vendor := ''HPE'', po_model := ''ProLiant'',
       po_bmcType := (if contains s ''ILO 5'' then ''iLO5'' else if contains s ''ILO 4'' then ''iLO4'' else ''iLO'')\<rparr>
     else if contains s ''XCLARITY'' then out\<lparr>po_vendor := ''Lenovo'', po_bmcType := ''XClarity''\<rparr>
     else if contains s ''SUPERMICRO'' then out\<lparr>po_vendor := ''Supermicro'', po_bmcType := ''BMC''\<rparr>
     else out)"

definition fromName :: "string option \<Rightarrow> probe_output \<Rightarrow> probe_output" where
  "fromName nm out = (case nm of None \<Rightarrow> out
     | Some n \<Rightarrow> (if po_bmcType out \<noteq> [] then out
         else let u = toUpper n in
           if contains u ''IDRAC'' then out\<lparr>po_vendor := ''Dell'', po_bmcType := ''iDRAC''\<rparr>
           else if contains u ''ILO'' then out\<lparr>po_vendor := ''HPE'', po_bmcType := ''iLO''\<rparr>
           else out))"

definition probeRedfish :: "redfish_answer \<Rightarrow> probe_output" where
  "probeRedfish ans = (case ans of RfError e \<Rightarrow> plainOutput False (Some e)
     | RfAnswer code server nm \<Rightarrow> fromName nm (fromServer server (plainOutput (code < 500) None)))"

definition vendorIn :: "string \<Rightarrow> string" where
  "vendorIn output = (if contains output ''Dell'' then ''Dell''
     else if contains output ''Hewlett-Packard'' \<or> contains output ''HPE'' then ''HPE''
     else if contains output ''Supermicro'' then ''Supermicro'' else [])"

text \<open>\<open>chassis\<close> and \<open>fru\<close> are the outputs of the two \<open>ipmitool\<close> commands, \<open>None\<close> when they fail.\<close>

definition probeIPMI :: "string option \<Rightarrow> string \<Rightarrow> string option \<Rightarrow> string option \<Rightarrow> probe_output" where
  "probeIPMI dialErr username chassis fru = (case dialErr of
     Some e \<Rightarrow> plainOutput False (Some e)
   | None \<Rightarrow> (let out = plainOutput True None in
       if username = [] then out
       else case chassis of
         Some o1 \<Rightarrow> out\<lparr>po_vendor := vendorIn o1\<rparr>
       | None \<Rightarrow> (case fru of Some o2 \<Rightarrow> out\<lparr>po_vendor := vendorIn o2\<rparr> | None \<Rightarrow> out)))"

text \<open>\<open>probeTCP\<close> and \<open>probeUDP\<close>: whether the dial succeeds.\<close>

definition probeDial :: "string option \<Rightarrow> probe_output" where
  "probeDial err = plainOutput (err = None) err"

section \<open>Detection\<close>

record detection_result =
  dr_BMCIPAddress :: string
  dr_Vendor :: string
  dr_Model :: string
  dr_BMCType :: string
  dr_SupportedProtocols :: "string list"
  dr_RecommendedProtocol :: string
  dr_Probes :: "probe_result list"

definition stripBrackets :: "string \<Rightarrow> string" where
  "stripBrackets ip = (if length ip > 2 \<and> hd ip = CHR ''['' \<and> last ip = CHR '']''
     then butlast (tl ip) else ip)"

definition probeNames :: "(string \<times> int) list" where
  "probeNames = [(''redfish'', 443), (''ipmi'', 623), (''snmp'', 161), (''ssh'', 22), (''wsman'', 5989), (''kvm'', 5900)]"

record net_answers =
  nw_redfish :: redfish_answer
  nw_ipmiDial :: "string option"
  nw_chassis :: "string option"
  nw_fru :: "string option"
  nw_snmpDial :: "string option"
  nw_sshDial :: "string option"
  nw_wsmanDial :: "string option"
  nw_kvmDial :: "string option"

definition runProbes :: "net_answers \<Rightarrow> string \<Rightarrow> probe_output list" where
  "runProbes nw username = [probeRedfish (nw_redfish nw),
     probeIPMI (nw_ipmiDial nw) username (nw_chassis nw) (nw_fru nw), probeDial (nw_snmpDial nw),
     probeDial (nw_sshDial nw), probeDial (nw_wsmanDial nw), probeDial (nw_kvmDial nw)]"

definition resultOf :: "string \<times> int \<Rightarrow> probe_output \<Rightarrow> probe_result" where
  "resultOf p out = \<lparr>pr_Protocol = fst p, pr_Available = po_available out, pr_Port = snd p,
     pr_Error = (case po_err out of Some e \<Rightarrow> e | None \<Rightarrow> [])\<rparr>"

definition orFirst :: "string \<Rightarrow> string \<Rightarrow> string" where
  "orFirst old x = (if x \<noteq> [] \<and> old = [] then x else old)"

text \<open>The receiving loop: an arrival fills its slot and the identification that is still empty.\<close>

fun receive ::
  "probe_output list \<Rightarrow> nat list \<Rightarrow> probe_result list \<times> string \<times> string \<times> string \<Rightarrow>
   probe_result list \<times> string \<times> string \<times> string" where
  "receive outs [] s = s"
| "receive outs (i # is) (slots, vendor, model, bmc) =
     (let out = outs ! i in
      receive outs is (slots[i := resultOf (probeNames ! i) out], orFirst vendor (po_vendor out),
        orFirst model (po_model out), orFirst bmc (po_bmcType out)))"

definition available :: "string \<Rightarrow> probe_result list \<Rightarrow> bool" where
  "available proto prs = list_ex (\<lambda>pr. pr_Protocol pr = proto \<and> pr_Available pr) prs"

definition priority :: "string list" where
  "priority = [''redfish'', ''snmp'', ''ipmi'', ''ssh'']"

definition recommend :: "probe_result list \<Rightarrow> string" where
  "recommend prs = (case find (\<lambda>p. available p prs) priority of Some p \<Rightarrow> p | None \<Rightarrow> ''unknown'')"

definition mapCapabilities :: "string \<Rightarrow> string \<Rightarrow> probe_result list \<Rightarrow> string list" where
  "mapCapabilities vendor bmcType prs = (let v = toLower vendor; b = toLower bmcType in
     if v = ''dell'' then
       (if contains b ''idrac7'' then [''ipmi'', ''redfish'']
        else if contains b ''idrac8'' then [''redfish'', ''ipmi'']
        else if contains b ''idrac9'' then [''redfish'', ''ipmi'', ''snmp'']
        else [''redfish'', ''ipmi'', ''snmp''])
     else if v = ''hpe'' then
       (if contains b ''ilo4'' then [''ipmi'', ''snmp'']
        else if contains b ''ilo5'' \<or> contains b ''ilo6'' then [''redfish'', ''ipmi'', ''snmp'']
        else [''redfish'', ''ipmi'', ''snmp''])
     else if v = ''lenovo'' \<or> contains v ''xclarity'' then [''redfish'', ''ipmi'']
     else if v = ''cisco'' \<or> contains v ''cimc'' then [''redfish'', ''ipmi'']
     else if v = ''supermicro'' then [''redfish'', ''ipmi'']
     else map pr_Protocol (filter (\<lambda>p. pr_Available p \<and>
       pr_Protocol p \<in> set [''redfish'', ''ipmi'', ''snmp'', ''ssh'']) prs))"

definition blankProbe :: probe_result where
  "blankProbe = \<lparr>pr_Protocol = [], pr_Available = False, pr_Port = 0, pr_Error = []\<rparr>"

definition Detect :: "net_answers \<Rightarrow> nat list \<Rightarrow> string \<Rightarrow> string \<Rightarrow> detection_result" where
  "Detect nw order bmcIP username =
     (case receive (runProbes nw username) order (replicate 6 blankProbe, [], [], []) of
       (prs, vendor, model, bmc) \<Rightarrow>
         \<lparr>dr_BMCIPAddress = stripBrackets bmcIP, dr_Vendor = vendor, dr_Model = model, dr_BMCType = bmc,
          dr_SupportedProtocols = mapCapabilities vendor bmc prs, dr_RecommendedProtocol = recommend prs,
          dr_Probes = prs\<rparr>)"

text \<open>The request: the address and the user name; the time limit that the body may give is read and not
  used.\<close>

datatype detect_reply = DetectError int string | Detected detection_result

definition DetectProtocol :: "(string \<Rightarrow> net_answers) \<Rightarrow> nat list \<Rightarrow> (bind_error + string \<times> int \<times> string) \<Rightarrow> detect_reply" where
  "DetectProtocol nw order req = (case req of
     Inl _ \<Rightarrow> DetectError 400 ''bmc_ip is required''
   | Inr (bmcIP, timeoutSeconds, username) \<Rightarrow> Detected (Detect (nw (stripBrackets bmcIP)) order bmcIP username))"

section \<open>The result hardly depends on the order of arrival\<close>

lemma receive_slots:
  "fst (receive outs is (slots, v, m, b)) =
     map (\<lambda>i. if i \<in> set is then resultOf (probeNames ! i) (outs ! i) else slots ! i) [0..<length slots]"
  if "set is \<subseteq> {..<length slots}"
  using that
proof (induction "is" arbitrary: slots v m b)
  case Nil
  then show ?case by (simp add: map_nth)
next
  case (Cons i "is")
  then show ?case by (auto simp: Let_def nth_list_update)
qed

text \<open>Whatever the order in which the six probes arrive, the list of their results is the same, in the
  fixed order of the probes, and so is the recommendation: the first of Redfish, SNMP, IPMI and SSH
  that answered.\<close>

theorem detection_is_deterministic:
  assumes "set order = {..<6}"
  shows "dr_Probes (Detect nw order ip user) = map2 resultOf probeNames (runProbes nw user) \<and>
    dr_RecommendedProtocol (Detect nw order ip user) = recommend (map2 resultOf probeNames (runProbes nw user))"
proof -
  have e: "fst (receive (runProbes nw user) order (replicate 6 blankProbe, [], [], [])) =
      map (\<lambda>i. resultOf (probeNames ! i) (runProbes nw user ! i)) [0..<6]"
    using receive_slots [of order "replicate 6 blankProbe" "runProbes nw user" "[]" "[]" "[]"] assms
    by (auto cong: map_cong)
  have "map (\<lambda>i. resultOf (probeNames ! i) (runProbes nw user ! i)) [0..<6] =
      map2 resultOf probeNames (runProbes nw user)"
    by (simp add: runProbes_def probeNames_def upt_rec)
  with e show ?thesis unfolding Detect_def
    by (cases "receive (runProbes nw user) order (replicate 6 blankProbe, [], [], [])") simp
qed


definition exAnswers :: net_answers where
  "exAnswers = \<lparr>nw_redfish = RfError ''timeout'', nw_ipmiDial = None, nw_chassis = Some ''Vendor: Dell Inc.'',
     nw_fru = None, nw_snmpDial = None, nw_sshDial = None, nw_wsmanDial = Some ''refused'', nw_kvmDial = Some ''refused''\<rparr>"

lemma detection_is_deterministic_witness:
  "map pr_Protocol (dr_Probes (Detect exAnswers [3, 1, 0, 5, 4, 2] ''10.0.0.1'' ''root'')) =
     [''redfish'', ''ipmi'', ''snmp'', ''ssh'', ''wsman'', ''kvm'']"
proof -
  have "set [3, 1, 0, 5, 4, 2 :: nat] = {..<6}" by (auto simp: numeral_eq_Suc less_Suc_eq)
  from detection_is_deterministic [OF this, of exAnswers "''10.0.0.1''" "''root''"]
  show ?thesis by (simp add: probeNames_def runProbes_def resultOf_def)
qed

section \<open>What a UDP probe tells\<close>

text \<open>A dial over UDP succeeds whether or not anything listens, so the SNMP probe succeeds for every
  address that can be dialled; then the detector only ever recommends Redfish or SNMP: IPMI and SSH are
  never recommended, and an address where nothing answers is not reported as unknown. The IPMI probe is
  reported as available in the same way.\<close>

theorem udp_probe_masks_the_rest:
  assumes "set order = {..<6}" "nw_snmpDial nw = None" "nw_ipmiDial nw = None"
  shows "dr_RecommendedProtocol (Detect nw order ip user) =
      (if po_available (probeRedfish (nw_redfish nw)) then ''redfish'' else ''snmp'') \<and>
    available ''ipmi'' (dr_Probes (Detect nw order ip user)) \<and>
    available ''snmp'' (dr_Probes (Detect nw order ip user))"
proof -
  have "po_available (probeIPMI None u c f)" for u c f
    unfolding probeIPMI_def by (simp add: plainOutput_def Let_def split: option.split)
  then show ?thesis using detection_is_deterministic [OF assms(1), of nw ip user] assms(2,3)
    by (simp add: probeNames_def runProbes_def recommend_def priority_def available_def resultOf_def
        probeDial_def plainOutput_def)
qed

lemma udp_probe_masks_the_rest_witness:
  "dr_RecommendedProtocol (Detect exAnswers [0, 1, 2, 3, 4, 5] ''10.0.0.1'' ''root'') = ''snmp''"
proof -
  have "set [0, 1, 2, 3, 4, 5 :: nat] = {..<6}" by (auto simp: numeral_eq_Suc less_Suc_eq)
  from udp_probe_masks_the_rest [OF this, of exAnswers "''10.0.0.1''" "''root''"] show ?thesis
    by (simp add: exAnswers_def probeRedfish_def plainOutput_def)
qed

section \<open>Identification\<close>

definition bmcTypes :: "string list" where
  "bmcTypes = [[], ''iDRAC'', ''iDRAC9'', ''iDRAC8'', ''iDRAC7'', ''iLO'', ''iLO5'', ''iLO4'', ''XClarity'', ''BMC'']"

lemma fromServer_bmc: "po_bmcType (fromServer server (plainOutput ok e)) \<in> set bmcTypes"
proof -
  have mem: "[] \<in> set bmcTypes" "''iDRAC'' \<in> set bmcTypes" "''iDRAC9'' \<in> set bmcTypes" "''iDRAC8'' \<in> set bmcTypes"
    "''iDRAC7'' \<in> set bmcTypes" "''iLO'' \<in> set bmcTypes" "''iLO5'' \<in> set bmcTypes" "''iLO4'' \<in> set bmcTypes"
    "''XClarity'' \<in> set bmcTypes" "''BMC'' \<in> set bmcTypes" by (simp_all add: bmcTypes_def)
  then show ?thesis unfolding fromServer_def plainOutput_def by (simp add: Let_def del: insert_iff list.set)
qed

lemma fromName_bmc: "po_bmcType out \<in> set bmcTypes \<Longrightarrow> po_bmcType (fromName nm out) \<in> set bmcTypes"
proof -
  have "''iDRAC'' \<in> set bmcTypes" "''iLO'' \<in> set bmcTypes" by (simp_all add: bmcTypes_def)
  then show "po_bmcType out \<in> set bmcTypes \<Longrightarrow> po_bmcType (fromName nm out) \<in> set bmcTypes"
    unfolding fromName_def by (auto simp: Let_def split: option.split)
qed

lemma probe_bmcType: "po_bmcType (probeRedfish ans) \<in> set bmcTypes" "po_bmcType (probeIPMI d u c f) = []"
  "po_bmcType (probeDial e) = []"
proof -
  show "po_bmcType (probeRedfish ans) \<in> set bmcTypes"
    unfolding probeRedfish_def using fromName_bmc [OF fromServer_bmc]
    by (cases ans) (simp_all add: plainOutput_def bmcTypes_def)
qed (simp_all add: probeIPMI_def probeDial_def plainOutput_def Let_def split: option.split)

lemma receive_bmc:
  "\<forall>i \<in> set is. po_bmcType (outs ! i) \<in> set bmcTypes \<Longrightarrow> b \<in> set bmcTypes \<Longrightarrow>
     snd (snd (snd (receive outs is (slots, v, m, b)))) \<in> set bmcTypes"
  by (induction outs "is" "(slots, v, m, b)" arbitrary: slots v m b rule: receive.induct)
    (auto simp: Let_def orFirst_def)

lemma Detect_bmc: "dr_BMCType (Detect nw order ip user) =
    snd (snd (snd (receive (runProbes nw user) order (replicate 6 blankProbe, [], [], []))))"
  unfolding Detect_def by (simp add: case_prod_beta)

text \<open>The generation of an iLO 6 is never found, and its branch of the capability table never taken: the
  controller type of a result is one of ten texts, none of which has it.\<close>

theorem ilo6_never_detected:
  assumes "set order = {..<6}"
  shows "dr_BMCType (Detect nw order ip user) \<in> set bmcTypes \<and>
    \<not> contains (toLower (dr_BMCType (Detect nw order ip user))) ''ilo6''"
proof -
  have "[] \<in> set bmcTypes" by (simp add: bmcTypes_def)
  then have "list_all (\<lambda>out. po_bmcType out \<in> set bmcTypes) (runProbes nw user)"
    unfolding runProbes_def by (simp only: list.pred_inject probe_bmcType simp_thms)
  moreover have "length (runProbes nw user) = 6" by (simp add: runProbes_def)
  ultimately have "\<forall>i \<in> set order. po_bmcType (runProbes nw user ! i) \<in> set bmcTypes"
    using assms by (simp add: list_all_length)
  note m = receive_bmc [OF this \<open>[] \<in> set bmcTypes\<close>, of "replicate 6 blankProbe" "[]" "[]", folded Detect_bmc [of nw order ip user]]
  have "list_all (\<lambda>b. \<not> contains (toLower b) ''ilo6'') bmcTypes" by code_simp
  then show ?thesis using m by (simp add: list_all_iff)
qed

lemma ilo6_never_detected_witness:
  "dr_BMCType (Detect (exAnswers\<lparr>nw_redfish := RfAnswer 200 ''HP-iLO-Server/ilo 6'' None\<rparr>) [0, 1, 2, 3, 4, 5] ''h'' []) = ''iLO'' \<and>
   \<not> contains (toLower (dr_BMCType (Detect (exAnswers\<lparr>nw_redfish := RfAnswer 200 ''HP-iLO-Server/ilo 6'' None\<rparr>)
     [0, 1, 2, 3, 4, 5] ''h'' []))) ''ilo6''"
proof
  show "dr_BMCType (Detect (exAnswers\<lparr>nw_redfish := RfAnswer 200 ''HP-iLO-Server/ilo 6'' None\<rparr>) [0, 1, 2, 3, 4, 5] ''h'' []) = ''iLO''"
    by code_simp
  have "set [0, 1, 2, 3, 4, 5 :: nat] = {..<6}" by (auto simp: numeral_eq_Suc less_Suc_eq)
  from ilo6_never_detected [OF this]
  show "\<not> contains (toLower (dr_BMCType (Detect (exAnswers\<lparr>nw_redfish := RfAnswer 200 ''HP-iLO-Server/ilo 6'' None\<rparr>)
     [0, 1, 2, 3, 4, 5] ''h'' []))) ''ilo6''" by blast
qed

text \<open>The vendor does depend on the order when two probes name different ones.\<close>

lemma vendor_depends_on_order:
  "dr_Vendor (Detect (exAnswers\<lparr>nw_redfish := RfAnswer 200 ''iLO'' None\<rparr>) [0, 1, 2, 3, 4, 5] ''h'' ''u'') = ''HPE'' \<and>
   dr_Vendor (Detect (exAnswers\<lparr>nw_redfish := RfAnswer 200 ''iLO'' None\<rparr>) [1, 0, 2, 3, 4, 5] ''h'' ''u'') = ''Dell''"
  by code_simp

end
