(* ===== verification/Query.thy ===== *)
theory Query
  imports Codec Api
begin

text \<open>
  How the repositories of \<open>backend/internal/db\<close> build their statements: numbered placeholders with the
  list of their values, pages, and the \<open>ILIKE\<close> search; and what PostgreSQL makes of them. A builder is
  the list of the clauses, each with the number of its placeholder, the values so far and the next
  number, as the variables \<open>setClauses\<close> or \<open>whereClauses\<close>, \<open>args\<close> and \<open>argPos\<close> of the code.
\<close>

section \<open>Builders\<close>

datatype sqlval = VText string | VInt int | VTime time | VBool bool | VFloat f64 | VTexts "string list"

type_synonym 'c builder = "('c \<times> nat) list \<times> sqlval list \<times> nat"

definition emptyBuilder :: "'c builder" where
  "emptyBuilder = ([], [], 1)"

text \<open>The step of the builders: nothing for an absent field, else a clause, its value and the next number.\<close>

definition addIf :: "'c \<Rightarrow> sqlval option \<Rightarrow> 'c builder \<Rightarrow> 'c builder" where
  "addIf c x b = (case b of (cs, args, pos) \<Rightarrow> (case x of
     None \<Rightarrow> (cs, args, pos) | Some v \<Rightarrow> (cs @ [(c, pos)], args @ [v], pos + 1)))"

definition addAll :: "('c \<times> sqlval option) list \<Rightarrow> 'c builder \<Rightarrow> 'c builder" where
  "addAll xs b = fold (\<lambda>(c, x). addIf c x) xs b"

text \<open>What the database reads: placeholder \<open>k\<close> is the k-th value.\<close>

definition bound :: "sqlval list \<Rightarrow> nat \<Rightarrow> sqlval" where
  "bound args k = args ! (k - 1)"

definition readClauses :: "('c \<times> nat) list \<Rightarrow> sqlval list \<Rightarrow> ('c \<times> sqlval) list" where
  "readClauses cs args = map (\<lambda>(c, k). (c, bound args k)) cs"

text \<open>The text of a list of assignments.\<close>

definition setText :: "(string \<times> nat) list \<Rightarrow> string" where
  "setText cs = joinWith '', '' (map (\<lambda>(c, k). c @ '' = $'' @ itoa (int k)) cs)"

definition builder_ok :: "'c builder \<Rightarrow> bool" where
  "builder_ok b = (case b of (cs, args, pos) \<Rightarrow> pos = length args + 1 \<and> (\<forall>(c, k) \<in> set cs. 1 \<le> k \<and> k \<le> length args))"

lemma builder_ok_empty [simp]: "builder_ok emptyBuilder"
  by (simp add: builder_ok_def emptyBuilder_def)

lemma readClauses_more:
  "\<forall>(c, k) \<in> set cs. 1 \<le> k \<and> k \<le> length args \<Longrightarrow> readClauses cs (args @ later) = readClauses cs args"
  unfolding readClauses_def bound_def by (fastforce simp: nth_append)

lemma addIf_ok:
  assumes "builder_ok b" "addIf c x b = (cs', args', pos')" "b = (cs, args, pos)"
  shows "builder_ok (cs', args', pos') \<and>
    readClauses cs' args' = readClauses cs args @ (case x of None \<Rightarrow> [] | Some v \<Rightarrow> [(c, v)])"
proof (cases x)
  case None
  with assms show ?thesis by (simp add: addIf_def)
next
  case (Some v)
  with assms have e: "cs' = cs @ [(c, pos)]" "args' = args @ [v]" "pos' = pos + 1" by (auto simp: addIf_def)
  from assms have ok: "pos = length args + 1" "\<forall>(c, k) \<in> set cs. 1 \<le> k \<and> k \<le> length args"
    by (auto simp: builder_ok_def)
  have "readClauses cs' args' = readClauses cs (args @ [v]) @ [(c, v)]"
    by (simp add: e ok(1) readClauses_def bound_def)
  moreover have "builder_ok (cs', args', pos')" using ok e by (fastforce simp: builder_ok_def)
  ultimately show ?thesis using readClauses_more [OF ok(2), of "[v]"] Some by simp
qed

text \<open>The numbers fit the values: whatever fields are given, the database reads exactly the given ones,
  each with its own value, and the next number is one more than the number of values.\<close>

definition given_fields :: "('c \<times> sqlval option) list \<Rightarrow> ('c \<times> sqlval) list" where
  "given_fields xs = List.map_filter (\<lambda>(c, x). map_option (Pair c) x) xs"

lemma given_fields_simps [simp]:
  "given_fields [] = []"
  "given_fields ((c, x) # xs) = (case x of None \<Rightarrow> [] | Some v \<Rightarrow> [(c, v)]) @ given_fields xs"
  unfolding given_fields_def by (auto simp: List.map_filter_simps split: option.split)

lemma addAll_ok:
  assumes "builder_ok b" "b = (cs, args, pos)" "addAll xs b = (cs', args', pos')"
  shows "builder_ok (cs', args', pos') \<and> readClauses cs' args' = readClauses cs args @ given_fields xs"
  using assms
proof (induction xs arbitrary: b cs args pos)
  case Nil
  then show ?case by (simp add: addAll_def)
next
  case (Cons cx xs)
  obtain c x where cx: "cx = (c, x)" by (cases cx)
  obtain cs1 args1 pos1 where b1: "addIf c x b = (cs1, args1, pos1)" by (metis prod_cases3)
  from addIf_ok [OF Cons.prems(1) b1 Cons.prems(2)]
  have ok: "builder_ok (cs1, args1, pos1)" and
    r: "readClauses cs1 args1 = readClauses cs args @ (case x of None \<Rightarrow> [] | Some v \<Rightarrow> [(c, v)])" by auto
  have "addAll xs (cs1, args1, pos1) = (cs', args', pos')"
    using Cons.prems(3) cx b1 by (simp add: addAll_def)
  from Cons.IH [OF ok refl this] show ?case by (simp add: r cx)
qed

section \<open>Numbers in a query string\<close>

text \<open>\<open>fmt.Sscanf(s, "%d", &n)\<close>: leading spaces, a sign, digits; the rest is not looked at. \<open>None\<close> leaves the
  variable as it was.\<close>

definition scanInt :: "string \<Rightarrow> int option" where
  "scanInt s = (case dropWhile (\<lambda>c. c = CHR '' '' \<or> c = CHR 0x09) s of
     [] \<Rightarrow> None
   | c # r \<Rightarrow> parseInt64 (if c = CHR ''-'' \<or> c = CHR ''+'' then c # takeWhile is_digit r
       else takeWhile is_digit (c # r)))"

text \<open>A positive number of the query string, or the default of the handlers.\<close>

definition positiveOr :: "int \<Rightarrow> string \<Rightarrow> int" where
  "positiveOr d s = (if s = [] then d else case scanInt s of None \<Rightarrow> d | Some i \<Rightarrow> if i > 0 then i else d)"

lemma scanInt_itoa:
  assumes "0 \<le> i" "i \<le> 9223372036854775807"
  shows "scanInt (itoa i) = Some i"
proof -
  have d: "itoa i = natDigits i" "list_all is_digit (natDigits i)" "natDigits i \<noteq> []"
    using assms(1) by (simp_all add: itoa_def natDigits_digits)
  then obtain c r where c: "natDigits i = c # r" "is_digit c" by (cases "natDigits i") auto
  moreover have "\<not> is_digit (CHR '' '')" "\<not> is_digit (CHR 0x09)" "\<not> is_digit (CHR ''-'')" "\<not> is_digit (CHR ''+'')"
    by code_simp+
  ultimately have "c \<noteq> CHR '' ''" "c \<noteq> CHR 0x09" "c \<noteq> CHR ''-''" "c \<noteq> CHR ''+''" by auto
  moreover have "takeWhile is_digit (natDigits i) = natDigits i"
    using d(2) by (simp add: list_all_iff takeWhile_eq_all_conv)
  ultimately show ?thesis using parseInt64_itoa [of i] assms d c unfolding scanInt_def
    by (simp add: takeWhile_eq_all_conv [THEN iffD2])
qed

section \<open>Pages\<close>

text \<open>The bounds that \<open>List\<close> of the devices and of the collectors puts on a page, those of the events, and
  the offset of a page in the arithmetic of \<open>int\<close>.\<close>

definition clampPage :: "int \<Rightarrow> int \<Rightarrow> int \<times> int" where
  "clampPage page psize = (let p = (if page < 1 then 1 else page); s = (if psize < 1 then 20 else psize) in
     (p, if s > 100 then 100 else s))"

definition clampEventPage :: "int \<Rightarrow> int \<Rightarrow> int \<times> int" where
  "clampEventPage page psize =
     (if page < 1 then 1 else page, if psize < 1 \<or> psize > 200 then 50 else psize)"

definition pageOffset :: "int \<Rightarrow> int \<Rightarrow> int" where
  "pageOffset page psize = wrap64 (wrap64 (page - 1) * psize)"

text \<open>\<open>LIMIT ... OFFSET ...\<close>; a negative offset is an error of the statement.\<close>

definition limitOffset :: "int \<Rightarrow> int \<Rightarrow> 'r list \<Rightarrow> 'r list result" where
  "limitOffset psize offs rows = (if offs < 0 then Inl ''pq: OFFSET must not be negative''
     else Inr (take (nat psize) (drop (nat offs) rows)))"

lemma limitOffset_page:
  assumes "1 \<le> page" "1 \<le> psize" "(page - 1) * psize < 9223372036854775808"
  shows "limitOffset psize (pageOffset page psize) rows = Inr (take (nat psize) (drop (nat ((page - 1) * psize)) rows))"
proof -
  have "page - 1 \<le> (page - 1) * psize"
    using mult_left_mono [OF assms(2), of "page - 1"] assms(1) by simp
  then have "wrap64 (page - 1) = page - 1" using assms by (intro wrap64_id) linarith+
  moreover have "0 \<le> (page - 1) * psize" using assms by simp
  then have "wrap64 ((page - 1) * psize) = (page - 1) * psize" using assms(3) by (intro wrap64_id) linarith+
  ultimately show ?thesis using \<open>0 \<le> (page - 1) * psize\<close> unfolding limitOffset_def pageOffset_def by simp
qed

text \<open>Walking the pages gives every row once.\<close>

lemma pages_cover:
  "concat (map (\<lambda>p. take s (drop (p * s) rows)) [0..<n]) = take (n * s) rows"
proof (induction n)
  case (Suc n)
  have "take (Suc n * s) rows = take (n * s) rows @ take s (drop (n * s) rows)"
    by (simp only: mult_Suc add.commute [of s] take_add)
  with Suc show ?case by simp
qed simp

section \<open>ILIKE\<close>

text \<open>The pattern language: a percent sign for any text, an underscore for any character, and a backslash
  that takes the next character as it is.\<close>

definition backslash :: char where "backslash = CHR 0x5C"

fun likes :: "string \<Rightarrow> string \<Rightarrow> bool" where
  "likes [] s = (s = [])"
| "likes (p # ps) s =
     (if p = CHR ''%'' then likes ps s \<or> (case s of [] \<Rightarrow> False | c # cs \<Rightarrow> likes (p # ps) cs)
      else if p = CHR ''_'' then (case s of [] \<Rightarrow> False | c # cs \<Rightarrow> likes ps cs)
      else if p = backslash then (case ps of [] \<Rightarrow> False
        | q # qs \<Rightarrow> (case s of [] \<Rightarrow> False | c # cs \<Rightarrow> q = c \<and> likes qs cs))
      else (case s of [] \<Rightarrow> False | c # cs \<Rightarrow> p = c \<and> likes ps cs))"

definition ilike :: "string \<Rightarrow> string \<Rightarrow> bool" where
  "ilike s pat = likes (toLower pat) (toLower s)"

definition searchPattern :: "string \<Rightarrow> string" where
  "searchPattern q = ''%'' @ q @ ''%''"

definition plain_search :: "string \<Rightarrow> bool" where
  "plain_search q = list_all (\<lambda>c. c \<noteq> CHR ''%'' \<and> c \<noteq> CHR ''_'' \<and> c \<noteq> backslash) q"

lemma likes_any: "likes (CHR ''%'' # ps) s = (\<exists>a b. s = a @ b \<and> likes ps b)"
proof (induction s)
  case Nil
  then show ?case by simp
next
  case (Cons c s)
  have "likes (CHR ''%'' # ps) (c # s) = (likes ps (c # s) \<or> likes (CHR ''%'' # ps) s)" by simp
  also have "\<dots> = (\<exists>a b. c # s = a @ b \<and> likes ps b)"
    unfolding Cons by (metis append_Cons append_Nil append_eq_Cons_conv)
  finally show ?case .
qed

lemma likes_plain: "plain_search q \<Longrightarrow> likes (q @ ps) s = (\<exists>b. s = q @ b \<and> likes ps b)"
proof (induction q arbitrary: s)
  case (Cons c q)
  then show ?case by (cases s) (auto simp: plain_search_def)
qed simp

lemma plain_search_lower: "plain_search q \<Longrightarrow> plain_search (toLower q)"
proof -
  have "lower_char c \<noteq> CHR ''%'' \<and> lower_char c \<noteq> CHR ''_'' \<and> lower_char c \<noteq> backslash"
    if "c \<noteq> CHR ''%''" "c \<noteq> CHR ''_''" "c \<noteq> backslash" for c
  proof (cases "is_upper c")
    case True
    then have "is_lower (lower_char c)"
      unfolding is_upper_def is_lower_def lower_char_def by auto
    moreover have "\<not> is_lower (CHR ''%'')" "\<not> is_lower (CHR ''_'')" "\<not> is_lower backslash" by code_simp+
    ultimately show ?thesis by auto
  next
    case False
    with that show ?thesis by (simp add: lower_char_def)
  qed
  moreover assume "plain_search q"
  ultimately show ?thesis unfolding plain_search_def toLower_def by (simp add: list_all_iff)
qed

text \<open>A search text without the three special characters is found exactly where it occurs, whatever the
  case of its letters.\<close>

lemma ilike_contains:
  assumes "plain_search q"
  shows "ilike s (searchPattern q) = contains (toLower s) (toLower q)"
proof -
  have pat: "toLower (searchPattern q) = CHR ''%'' # toLower q @ [CHR ''%'']"
  proof -
    have "lower_char (CHR ''%'') = CHR ''%''" by code_simp
    then show ?thesis by (simp add: searchPattern_def toLower_def)
  qed
  have "likes [CHR ''%''] b" for b using likes_any [of "[]" b] by auto
  then have "likes (CHR ''%'' # toLower q @ [CHR ''%'']) (toLower s) = (\<exists>a b. toLower s = a @ toLower q @ b)"
    unfolding likes_any likes_plain [OF plain_search_lower [OF assms]] by blast
  then show ?thesis unfolding ilike_def pat contains_iff .
qed

lemma ilike_wildcard: "ilike ''cpu 100 C'' (searchPattern ''100%C'') \<and> \<not> contains (toLower ''cpu 100 C'') (toLower ''100%C'')"
  by code_simp


lemma given_fields_all:
  "(\<forall>(c, v) \<in> set (given_fields xs). P c v) = list_all (\<lambda>(c, x). case x of None \<Rightarrow> True | Some v \<Rightarrow> P c v) xs"
  by (induction xs) (auto split: option.split)


section \<open>Lists with a total\<close>

text \<open>The two statements of the paginated lists of devices and collectors: the number of the rows that the
  conditions select, and one page of them in the order of the query.\<close>

definition listRows ::
  "string \<Rightarrow> db_error \<Rightarrow> db_error \<Rightarrow> ('r \<Rightarrow> bool) \<Rightarrow> ('r list \<Rightarrow> 'r list) \<Rightarrow> int \<Rightarrow> int \<Rightarrow> 'r list \<Rightarrow>
   ('r list \<times> int) result" where
  "listRows what err1 err2 sel ord page psize rows = (case err1 of
     Some e \<Rightarrow> Inl (''failed to count '' @ what @ '': '' @ e)
   | None \<Rightarrow> (case err2 of
       Some e \<Rightarrow> Inl (''failed to list '' @ what @ '': '' @ e)
     | None \<Rightarrow> (let found = filter sel rows; (p, s) = clampPage page psize in
        case limitOffset s (pageOffset p s) (ord found) of
          Inl e \<Rightarrow> Inl (''failed to list '' @ what @ '': '' @ e)
        | Inr r \<Rightarrow> Inr (r, int (length found)))))"

lemma listRows_result:
  assumes "listRows what err1 err2 sel ord page psize rows = Inr (r, n)" "\<And>xs. set (ord xs) = set xs"
  shows "n = int (length (filter sel rows)) \<and> length r \<le> 100 \<and> set r \<subseteq> set (filter sel rows)"
proof -
  obtain p s where ps: "clampPage page psize = (p, s)" by fastforce
  then have s: "s \<le> 100" unfolding clampPage_def by (auto simp: Let_def split: if_splits)
  from assms(1) ps have n: "n = int (length (filter sel rows))"
    and r: "r = take (nat s) (drop (nat (pageOffset p s)) (ord (filter sel rows)))"
    unfolding listRows_def limitOffset_def by (auto simp: Let_def split: option.splits if_splits)
  have "set r \<subseteq> set (ord (filter sel rows))" unfolding r by (meson set_drop_subset set_take_subset subset_trans)
  then show ?thesis using n s assms(2) [of "filter sel rows"] r by auto
qed


section \<open>A built condition means its fields\<close>

lemma built_reads:
  "addAll xs emptyBuilder = (cs, args, pos) \<Longrightarrow> readClauses cs args = given_fields xs \<and> pos = length args + 1"
  using addAll_ok [OF builder_ok_empty, of "[]" "[]" 1 xs cs args pos]
  by (simp add: emptyBuilder_def readClauses_def builder_ok_def)

lemma built_condition:
  "(case addAll xs emptyBuilder of (cs, args, pos) \<Rightarrow> \<forall>(c, v) \<in> set (readClauses cs args). P c v) =
     list_all (\<lambda>(c, x). case x of None \<Rightarrow> True | Some v \<Rightarrow> P c v) xs"
proof -
  obtain cs args pos where b: "addAll xs emptyBuilder = (cs, args, pos)" by (metis prod_cases3)
  show ?thesis unfolding b using built_reads [OF b] by (simp add: given_fields_all)
qed

end
