(* ===== verification/Queue.thy ===== *)
theory Queue
  imports Codec IpmiTool
begin

text \<open>
  The messages of the ingestion pipeline and their publisher:
  \<open>collectors/ipmi-collector/internal/queue\<close>. A message is the value that is encoded, with the subject and the
  \<open>Nats-Msg-Id\<close> header under which JetStream drops repetitions. \<open>sha\<close> is SHA-256 as lower-case
  hexadecimal text; the server's answer to a publish is an argument.
\<close>

record metrics_batch =
  mb_schema :: string
  mb_device :: string
  mb_source :: string
  mb_collected :: time
  mb_samples :: "metric list"

record hardware_event =
  he_schema :: string
  he_device :: string
  he_occurred :: "time option"
  he_observed :: time
  he_source :: string
  he_component :: string
  he_type :: string
  he_severity :: string
  he_message :: string
  he_class :: "(string \<times> json) list"
  he_raw :: "(string \<times> json) list"
  he_dedupe :: string

datatype payload = MetricsPayload metrics_batch | EventPayload hardware_event

record message =
  subject :: string
  msg_id :: string
  payload :: payload

definition metricsMsgID :: "(string \<Rightarrow> string) \<Rightarrow> string \<Rightarrow> time \<Rightarrow> string" where
  "metricsMsgID sha d t = sha (d @ ''|'' @ rfc3339Nano t)"

text \<open>A publish gives its error, if any, and the message it handed to the server. Encoding a batch
  fails when a sample is not a finite number.\<close>

definition PublishMetrics ::
  "(string \<Rightarrow> string) \<Rightarrow> string option \<Rightarrow> metrics_batch \<Rightarrow> message option \<times> string option" where
  "PublishMetrics sha answer batch =
     (if \<not> list_all (\<lambda>m. encodable (m_value m)) (mb_samples batch)
      then (None, Some ''marshal metrics batch: json: unsupported value'')
      else let msg = \<lparr>subject = ''infrasense.metrics.v1.default.'' @ mb_device batch,
             msg_id = metricsMsgID sha (mb_device batch) (mb_collected batch),
             payload = MetricsPayload batch\<rparr> in
        case answer of
          Some e \<Rightarrow> (Some msg, Some (''publish metrics: '' @ e))
        | None \<Rightarrow> (Some msg, None))"

definition PublishEvent ::
  "(string \<Rightarrow> string) \<Rightarrow> string option \<Rightarrow> hardware_event \<Rightarrow> message option \<times> string option" where
  "PublishEvent sha answer ev =
     (let msgID = (if he_dedupe ev = [] then metricsMsgID sha (he_device ev) (he_observed ev)
            else he_dedupe ev);
          msg = \<lparr>subject = ''infrasense.events.v1.default.'' @ he_device ev, msg_id = msgID,
            payload = EventPayload ev\<rparr> in
      case answer of
        Some e \<Rightarrow> (Some msg, Some (''publish event: '' @ e))
      | None \<Rightarrow> (Some msg, None))"

text \<open>
  The stream behind the publisher (\<open>EnsureStreams\<close> of the ingester sets no window, the server's
  default holds): within the duplicate window a message whose id was already stored is acknowledged
  and not stored again.
\<close>

definition stored :: "message list \<Rightarrow> message \<Rightarrow> message list" where
  "stored strm m = (if msg_id m \<in> set (map msg_id strm) then strm else strm @ [m])"

definition storeOk :: "message list \<Rightarrow> message option \<times> string option \<Rightarrow> message list" where
  "storeOk strm r = (case r of (Some m, None) \<Rightarrow> stored strm m | _ \<Rightarrow> strm)"

lemma distinct_stored: "distinct (map msg_id strm) \<Longrightarrow> distinct (map msg_id (stored strm m))"
  unfolding stored_def by auto

lemma distinct_storeOk: "distinct (map msg_id strm) \<Longrightarrow> distinct (map msg_id (storeOk strm r))"
  unfolding storeOk_def by (auto split: option.split prod.split intro: distinct_stored)

lemma stored_same: "msg_id m = msg_id m' \<Longrightarrow> stored (stored strm m) m' = stored strm m"
  unfolding stored_def by auto

end
