(* ===== verification/Ingest.thy ===== *)
theory Ingest
  imports VmWriter Queue Api
begin

text \<open>
  The ingester of the API server: \<open>backend/internal/ingest\<close>, with the writer of
  \<open>backend/internal/metrics/victoriametrics.go\<close> (the code of the VmWriter theory) and the events table
  of \<open>backend/internal/db/hardware_event_repository.go\<close>.

  A message is given decoded (\<open>Inl\<close> the error of the JSON decoder); the answers of the server behind
  the writer, the errors of the database, the outcome of \<open>uuid.Parse\<close> and SHA-256 (as lower-case
  hexadecimal text) are arguments. One round of a consumer is one \<open>Fetch\<close> and its messages; its
  acknowledgements are the result, \<open>True\<close> for \<open>Ack\<close> and \<open>False\<close> for \<open>Nak\<close>.
\<close>

section \<open>Streams\<close>

record stream_config =
  sg_Name :: string
  sg_Subjects :: "string list"
  sg_MaxAge :: time

definition wantedStreams :: "stream_config list" where
  "wantedStreams =
     [\<lparr>sg_Name = ''INFRA_METRICS'', sg_Subjects = [''infrasense.metrics.v1.>''], sg_MaxAge = 6 * 3600000000000\<rparr>,
      \<lparr>sg_Name = ''INFRA_EVENTS'', sg_Subjects = [''infrasense.events.v1.>''], sg_MaxAge = 72 * 3600000000000\<rparr>]"

text \<open>\<open>infoErr\<close> says for which streams the query itself fails, \<open>addErr\<close> is the server's answer to a
  creation.\<close>

fun ensureFrom ::
  "(string \<Rightarrow> bool) \<Rightarrow> (string \<Rightarrow> string option) \<Rightarrow> stream_config list \<Rightarrow> stream_config list \<Rightarrow>
   stream_config list \<times> string option" where
  "ensureFrom infoErr addErr [] strs = (strs, None)"
| "ensureFrom infoErr addErr (s # ss) strs =
     (if \<not> infoErr (sg_Name s) \<and> list_ex (\<lambda>t. sg_Name t = sg_Name s) strs
      then ensureFrom infoErr addErr ss strs
      else case addErr (sg_Name s) of
        Some e \<Rightarrow> (strs, Some (''add stream '' @ sg_Name s @ '': '' @ e))
      | None \<Rightarrow> ensureFrom infoErr addErr ss (strs @ [s]))"

definition EnsureStreams ::
  "(string \<Rightarrow> bool) \<Rightarrow> (string \<Rightarrow> string option) \<Rightarrow> stream_config list \<Rightarrow> stream_config list \<times> string option" where
  "EnsureStreams infoErr addErr strs = ensureFrom infoErr addErr wantedStreams strs"

section \<open>Metrics\<close>

text \<open>The core labels are added to a sample that does not have them.\<close>

definition addLabel :: "string \<Rightarrow> string \<Rightarrow> labels \<Rightarrow> labels" where
  "addLabel k v ls = (case map_of ls k of None \<Rightarrow> ls @ [(k, v)] | Some _ \<Rightarrow> ls)"

definition coreLabels :: "metrics_batch \<Rightarrow> labels \<Rightarrow> labels" where
  "coreLabels b ls = addLabel ''source_protocol'' (mb_source b) (addLabel ''device_id'' (mb_device b) ls)"

text \<open>The loop over the samples; \<open>net i\<close> answers the requests of the i-th write. It stops at the first
  error.\<close>

fun writeSamples ::
  "(nat \<Rightarrow> nat \<Rightarrow> send_outcome) \<Rightarrow> nat \<Rightarrow> metrics_batch \<Rightarrow> metric list \<Rightarrow> vm_writer \<Rightarrow>
   vm_writer \<times> string option" where
  "writeSamples net i b [] w = (w, None)"
| "writeSamples net i b (s # ss) w =
     (case WriteMetric (net i) w (m_name s) (m_value s) (coreLabels b (m_labels s)) (m_time s) of
        (w1, Some e) \<Rightarrow> (w1, Some e)
      | (w1, None) \<Rightarrow> writeSamples net (i + 1) b ss w1)"

definition handleMetricsMsg ::
  "(nat \<Rightarrow> nat \<Rightarrow> send_outcome) \<Rightarrow> metrics_batch result \<Rightarrow> vm_writer \<Rightarrow> vm_writer \<times> string option" where
  "handleMetricsMsg net m w = (case m of
     Inl e \<Rightarrow> (w, Some (''decode metrics batch: '' @ e))
   | Inr b \<Rightarrow> writeSamples net 0 b (mb_samples b) w)"

fun metricsLoop ::
  "(nat \<Rightarrow> nat \<Rightarrow> nat \<Rightarrow> send_outcome) \<Rightarrow> nat \<Rightarrow> metrics_batch result list \<Rightarrow> vm_writer \<Rightarrow> vm_writer \<times> bool list" where
  "metricsLoop net k [] w = (w, [])"
| "metricsLoop net k (m # ms) w =
     (case handleMetricsMsg (net k) m w of
        (w1, e) \<Rightarrow> (case metricsLoop net (k + 1) ms w1 of (w2, acks) \<Rightarrow> (w2, (e = None) # acks)))"

text \<open>A \<open>Fetch\<close> that fails otherwise than by its time limit is logged; its messages are not looked at.\<close>

definition consumeMetrics ::
  "(nat \<Rightarrow> nat \<Rightarrow> nat \<Rightarrow> send_outcome) \<Rightarrow> metrics_batch result list result \<Rightarrow> vm_writer \<Rightarrow> vm_writer \<times> bool list" where
  "consumeMetrics net fetched w = (case fetched of Inl e \<Rightarrow> (w, []) | Inr ms \<Rightarrow> metricsLoop net 0 ms w)"

section \<open>Events\<close>

text \<open>The event of a message, and the row of the table.\<close>

record ingest_event =
  ie_DeviceID :: string
  ie_OccurredAt :: "time option"
  ie_ObservedAt :: time
  ie_SourceProtocol :: string
  ie_Vendor :: "string option"
  ie_Model :: "string option"
  ie_Firmware :: "string option"
  ie_Component :: string
  ie_EventType :: string
  ie_Severity :: string
  ie_Message :: string
  ie_Classification :: "(string \<times> json) list"
  ie_Raw :: "(string \<times> json) list"
  ie_DedupeKey :: string

record event_row =
  ev_id :: string
  ev_device_id :: string
  ev_occurred_at :: "time option"
  ev_observed_at :: time
  ev_source_protocol :: string
  ev_vendor :: "string option"
  ev_model :: "string option"
  ev_firmware :: "string option"
  ev_component :: string
  ev_event_type :: string
  ev_severity :: string
  ev_message :: string
  ev_classification :: "(string \<times> json) list"
  ev_raw :: "(string \<times> json) list"
  ev_dedupe_key :: string

definition stableDedupe :: "(string \<Rightarrow> string) \<Rightarrow> ingest_event \<Rightarrow> string" where
  "stableDedupe sha ev = sha (joinWith ''|'' [ie_DeviceID ev, ie_SourceProtocol ev, ie_Component ev,
     ie_EventType ev, ie_Severity ev, ie_Message ev] @
     (case ie_OccurredAt ev of None \<Rightarrow> [] | Some t \<Rightarrow> ''|'' @ rfc3339Nano t))"

definition eventKey :: "event_row \<Rightarrow> string \<times> string" where
  "eventKey r = (ev_device_id r, ev_dedupe_key r)"

definition InsertIfNotExists :: "db_error \<Rightarrow> event_row \<Rightarrow> event_row list \<Rightarrow> event_row list \<times> string option" where
  "InsertIfNotExists dbErr r rows = (case dbErr of
     Some e \<Rightarrow> (rows, Some (''insert hardware event: '' @ e))
   | None \<Rightarrow> (if eventKey r \<in> set (map eventKey rows) then (rows, None) else (rows @ [r], None)))"

definition eventRow :: "(string \<Rightarrow> string) \<Rightarrow> string \<Rightarrow> string \<Rightarrow> ingest_event \<Rightarrow> event_row" where
  "eventRow sha newId did ev = \<lparr>ev_id = newId, ev_device_id = did, ev_occurred_at = ie_OccurredAt ev,
     ev_observed_at = ie_ObservedAt ev, ev_source_protocol = ie_SourceProtocol ev, ev_vendor = ie_Vendor ev,
     ev_model = ie_Model ev, ev_firmware = ie_Firmware ev, ev_component = ie_Component ev,
     ev_event_type = ie_EventType ev, ev_severity = ie_Severity ev, ev_message = ie_Message ev,
     ev_classification = ie_Classification ev, ev_raw = ie_Raw ev,
     ev_dedupe_key = (if ie_DedupeKey ev = [] then stableDedupe sha ev else ie_DedupeKey ev)\<rparr>"

definition handleEventMsg ::
  "(string \<Rightarrow> string) \<Rightarrow> (string \<Rightarrow> string result) \<Rightarrow> db_error \<Rightarrow> string \<Rightarrow> ingest_event result \<Rightarrow>
   event_row list \<Rightarrow> event_row list \<times> string option" where
  "handleEventMsg sha uuid dbErr newId m rows = (case m of
     Inl e \<Rightarrow> (rows, Some (''decode hardware event: '' @ e))
   | Inr ev \<Rightarrow> (case uuid (ie_DeviceID ev) of
       Inl e \<Rightarrow> (rows, Some (''invalid device_id: '' @ e))
     | Inr did \<Rightarrow> InsertIfNotExists dbErr (eventRow sha newId did ev) rows))"

text \<open>A message with what the database answers to it, and the id it would draw.\<close>

type_synonym delivery = "db_error \<times> string \<times> ingest_event result"

fun eventsLoop ::
  "(string \<Rightarrow> string) \<Rightarrow> (string \<Rightarrow> string result) \<Rightarrow> delivery list \<Rightarrow> event_row list \<Rightarrow> event_row list \<times> bool list" where
  "eventsLoop sha uuid [] rows = (rows, [])"
| "eventsLoop sha uuid ((dbErr, newId, m) # ms) rows =
     (case handleEventMsg sha uuid dbErr newId m rows of
        (rows1, e) \<Rightarrow> (case eventsLoop sha uuid ms rows1 of (rows2, acks) \<Rightarrow> (rows2, (e = None) # acks)))"

definition consumeEvents ::
  "(string \<Rightarrow> string) \<Rightarrow> (string \<Rightarrow> string result) \<Rightarrow> delivery list result \<Rightarrow> event_row list \<Rightarrow>
   event_row list \<times> bool list" where
  "consumeEvents sha uuid fetched rows = (case fetched of
     Inl e \<Rightarrow> (rows, []) | Inr ms \<Rightarrow> eventsLoop sha uuid ms rows)"

definition EnvOrDefault :: "(string \<Rightarrow> string) \<Rightarrow> string \<Rightarrow> string \<Rightarrow> string" where
  "EnvOrDefault getenv key def = (if getenv key \<noteq> [] then getenv key else def)"


section \<open>Streams are made once\<close>

lemma ensureFrom_has:
  "ensureFrom infoErr addErr ss strs = (strs', None) \<Longrightarrow>
     \<exists>new. strs' = strs @ new \<and> sg_Name ` set ss \<subseteq> sg_Name ` set strs'"
proof (induction ss arbitrary: strs)
  case (Cons s ss)
  show ?case
  proof (cases "\<not> infoErr (sg_Name s) \<and> list_ex (\<lambda>t. sg_Name t = sg_Name s) strs")
    case True
    with Cons.prems have "ensureFrom infoErr addErr ss strs = (strs', None)" by simp
    from Cons.IH [OF this] obtain new where n: "strs' = strs @ new" "sg_Name ` set ss \<subseteq> sg_Name ` set strs'" by blast
    from True have "sg_Name s \<in> sg_Name ` set strs" by (auto simp: list_ex_iff intro: rev_image_eqI)
    with n show ?thesis by (intro exI [of _ new]) auto
  next
    case False
    with Cons.prems have "ensureFrom infoErr addErr ss (strs @ [s]) = (strs', None)"
      by (auto split: option.splits)
    from Cons.IH [OF this] obtain new where "strs' = strs @ [s] @ new" "sg_Name ` set ss \<subseteq> sg_Name ` set strs'" by auto
    then show ?thesis by (intro exI [of _ "[s] @ new"]) auto
  qed
qed auto

text \<open>When \<open>EnsureStreams\<close> returns without an error both streams exist, none that existed was touched,
  and calling it again changes nothing as long as the server answers its queries.\<close>

theorem streams_ensured:
  assumes "EnsureStreams infoErr addErr strs = (strs', None)"
  shows "\<exists>new. strs' = strs @ new \<and> {''INFRA_METRICS'', ''INFRA_EVENTS''} \<subseteq> sg_Name ` set strs' \<and>
    EnsureStreams (\<lambda>_. False) addErr' strs' = (strs', None)"
proof -
  from ensureFrom_has [OF assms [unfolded EnsureStreams_def]] obtain new
    where n: "strs' = strs @ new" "sg_Name ` set wantedStreams \<subseteq> sg_Name ` set strs'" by blast
  have again: "sg_Name ` set ss \<subseteq> sg_Name ` set strs' \<Longrightarrow>
      ensureFrom (\<lambda>_. False) addErr' ss strs' = (strs', None)" for ss
    by (induction ss) (auto simp: list_ex_iff)
  from n again [OF n(2)] show ?thesis
    by (intro exI [of _ new]) (simp add: EnsureStreams_def wantedStreams_def)
qed

lemma streams_ensured_witness:
  "{''INFRA_METRICS'', ''INFRA_EVENTS''} \<subseteq>
     sg_Name ` set (fst (EnsureStreams (\<lambda>_. False) (\<lambda>_. None) [hd wantedStreams]))"
proof -
  have "snd (EnsureStreams (\<lambda>_. False) (\<lambda>_. None) [hd wantedStreams]) = None" by code_simp
  then have "EnsureStreams (\<lambda>_. False) (\<lambda>_. None) [hd wantedStreams] =
      (fst (EnsureStreams (\<lambda>_. False) (\<lambda>_. None) [hd wantedStreams]), None)"
    by (simp add: prod_eq_iff)
  from streams_ensured [OF this] show ?thesis by blast
qed

section \<open>No acknowledged sample is lost by an acknowledged round\<close>

definition sampleSeries :: "metrics_batch \<Rightarrow> metric \<Rightarrow> series" where
  "sampleSeries b s = mkSeries (m_name s) (m_value s) (coreLabels b (m_labels s)) (m_time s)"

definition messageSeries :: "metrics_batch result \<Rightarrow> series list" where
  "messageSeries m = (case m of Inl e \<Rightarrow> [] | Inr b \<Rightarrow> map (sampleSeries b) (mb_samples b))"

text \<open>All the samples that the writer has delivered or holds, in order.\<close>

definition written :: "vm_writer \<Rightarrow> series list" where
  "written w = concat (accepted w) @ buffer w"

lemma WriteMetric_written:
  assumes "WriteMetric net w n v ls t = (w', r)"
  shows "(if r = None then written w' = written w @ [mkSeries n v ls t] else buffer w' = [] \<and> accepted w' = accepted w)"
proof (cases "int (length (buffer w)) + 1 < batchSize w")
  case True
  with assms have "w' = w\<lparr>buffer := buffer w @ [mkSeries n v ls t]\<rparr>" "r = None"
    unfolding WriteMetric_def by (simp_all add: Let_def)
  then show ?thesis by (simp add: written_def)
next
  case False
  then have "flush net (w\<lparr>buffer := buffer w @ [mkSeries n v ls t]\<rparr>) = (w', r)"
    using assms unfolding WriteMetric_def by (simp add: Let_def)
  from flush_cases [OF this] show ?thesis by (auto simp: written_def split: if_splits)
qed

lemma writeSamples_written:
  "writeSamples net i b ss w = (w', r) \<Longrightarrow>
     (if r = None then written w' = written w @ map (sampleSeries b) ss else buffer w' = [])"
proof (induction ss arbitrary: i w)
  case (Cons s ss)
  obtain w1 e where w1: "WriteMetric (net i) w (m_name s) (m_value s) (coreLabels b (m_labels s)) (m_time s) = (w1, e)"
    by fastforce
  with Cons WriteMetric_written [OF w1] show ?case
    by (cases e) (auto simp: sampleSeries_def split: if_splits)
qed simp

lemma metricsLoop_written:
  "metricsLoop net k ms w = (w', acks) \<Longrightarrow> False \<notin> set acks \<Longrightarrow>
     written w' = written w @ concat (map messageSeries ms)"
proof (induction ms arbitrary: k w acks w')
  case (Cons m ms)
  obtain w1 e where w1: "handleMetricsMsg (net k) m w = (w1, e)" by fastforce
  obtain w2 as where w2: "metricsLoop net (k + 1) ms w1 = (w2, as)" by fastforce
  have r: "w' = w2" "acks = (e = None) # as" using Cons.prems(1) w1 w2 by auto
  with Cons.prems(2) have e: "e = None" "False \<notin> set as" by auto
  have "written w1 = written w @ messageSeries m"
    using w1 e(1) writeSamples_written unfolding handleMetricsMsg_def messageSeries_def
    by (cases m) (fastforce split: if_splits)+
  with Cons.IH [OF w2 e(2)] r show ?case by simp
qed simp


definition exSampleBatch :: metrics_batch where
  "exSampleBatch = \<lparr>mb_schema = ''v1'', mb_device = ''d1'', mb_source = ''ipmi'', mb_collected = 0,
     mb_samples = [\<lparr>m_name = ''fan'', m_value = Fin 1, m_labels = [], m_time = 0\<rparr>,
       \<lparr>m_name = ''cpu'', m_value = Fin 2, m_labels = [(''device_id'', ''d2'')], m_time = 0\<rparr>]\<rparr>"



section \<open>An acknowledgement is not a delivery\<close>

lemma writeSamples_fits:
  "int (length (buffer w)) + int (length ss) < batchSize w \<Longrightarrow>
     writeSamples net i b ss w = (w\<lparr>buffer := buffer w @ map (sampleSeries b) ss\<rparr>, None)"
proof (induction ss arbitrary: i w)
  case (Cons s ss)
  then have "WriteMetric (net i) w (m_name s) (m_value s) (coreLabels b (m_labels s)) (m_time s) =
      (w\<lparr>buffer := buffer w @ [sampleSeries b s]\<rparr>, None)"
    unfolding WriteMetric_def sampleSeries_def by (simp add: Let_def)
  with Cons show ?case by simp
qed simp

text \<open>A message is acknowledged when its samples are in the buffer, before any of them is sent. If the
  server is down at the next tick the flush drops them, and as the message is acknowledged it is
  never delivered again: the samples are lost.\<close>

theorem acknowledged_samples_can_be_lost:
  assumes "int (length (buffer w)) + int (length (mb_samples b)) < batchSize w"
    and "\<forall>k < 3. vm_send w (down k) \<noteq> None" "\<not> cancelled w"
  shows "\<exists>w'. consumeMetrics net (Inr [Inr b]) w = (w', [True]) \<and>
    written w' = written w @ map (sampleSeries b) (mb_samples b) \<and>
    written (flushTick down w') = concat (accepted w)"
proof -
  let ?w = "w\<lparr>buffer := buffer w @ map (sampleSeries b) (mb_samples b)\<rparr>"
  obtain w2 r where f: "flush down ?w = (w2, r)" by fastforce
  have "vm_send ?w out = vm_send w out" for out unfolding vm_send_def by simp
  with flush_cases [OF f] assms(2) have "buffer w2 = [] \<and> accepted w2 = accepted w"
    by (auto split: if_splits)
  moreover have "flushTick down ?w = w2" using f assms(3) unfolding flushTick_def by simp
  moreover have "consumeMetrics net (Inr [Inr b]) w = (?w, [True])"
    using assms(1) unfolding consumeMetrics_def handleMetricsMsg_def
    by (simp add: handleMetricsMsg_def writeSamples_fits)
  ultimately show ?thesis by (intro exI [of _ ?w]) (simp add: written_def)
qed

lemma acknowledged_samples_can_be_lost_witness:
  "\<exists>w'. consumeMetrics (\<lambda>_ _ _. Response 204 []) (Inr [Inr exSampleBatch]) (NewVictoriaMetricsWriter 10) = (w', [True]) \<and>
    length (written w') = 2 \<and> written (flushTick (\<lambda>_. NoResponse ''refused'') w') = []"
proof -
  have "vm_send (NewVictoriaMetricsWriter 10) (NoResponse ''refused'') \<noteq> None"
    by (simp add: vm_send_def NewVictoriaMetricsWriter_def)
  with acknowledged_samples_can_be_lost [of "NewVictoriaMetricsWriter 10" exSampleBatch "\<lambda>_. NoResponse ''refused''"
      "\<lambda>_ _ _. Response 204 []"]
  obtain w' where "consumeMetrics (\<lambda>_ _ _. Response 204 []) (Inr [Inr exSampleBatch]) (NewVictoriaMetricsWriter 10) = (w', [True])"
    "written w' = written (NewVictoriaMetricsWriter 10) @ map (sampleSeries exSampleBatch) (mb_samples exSampleBatch)"
    "written (flushTick (\<lambda>_. NoResponse ''refused'') w') = concat (accepted (NewVictoriaMetricsWriter 10))"
    by (auto simp: NewVictoriaMetricsWriter_def exSampleBatch_def)
  moreover have "written (NewVictoriaMetricsWriter 10) = []" "concat (accepted (NewVictoriaMetricsWriter 10)) = []"
    "length (mb_samples exSampleBatch) = 2"
    by (simp_all add: NewVictoriaMetricsWriter_def exSampleBatch_def written_def)
  ultimately show ?thesis by (intro exI [of _ w']) (simp only: length_map append.simps)
qed

section \<open>Events are stored exactly once\<close>

text \<open>The row that a message stands for, when it decodes and names a device by a UUID.\<close>

definition rowOfMessage ::
  "(string \<Rightarrow> string) \<Rightarrow> (string \<Rightarrow> string result) \<Rightarrow> string \<Rightarrow> ingest_event result \<Rightarrow> event_row option" where
  "rowOfMessage sha uuid newId m = (case m of Inl _ \<Rightarrow> None
     | Inr ev \<Rightarrow> (case uuid (ie_DeviceID ev) of Inl _ \<Rightarrow> None | Inr did \<Rightarrow> Some (eventRow sha newId did ev)))"

lemma handleEventMsg_cases:
  "handleEventMsg sha uuid dbErr newId m rows =
     (case rowOfMessage sha uuid newId m of
        None \<Rightarrow> (rows, snd (handleEventMsg sha uuid dbErr newId m rows))
      | Some r \<Rightarrow> InsertIfNotExists dbErr r rows) \<and>
   (rowOfMessage sha uuid newId m = None \<longrightarrow> snd (handleEventMsg sha uuid dbErr newId m rows) \<noteq> None)"
  unfolding handleEventMsg_def rowOfMessage_def by (auto split: sum.split)

lemma InsertIfNotExists_table:
  assumes "InsertIfNotExists dbErr r rows = (rows', e)"
  shows "\<exists>new. rows' = rows @ new \<and> (distinct (map eventKey rows) \<longrightarrow> distinct (map eventKey rows')) \<and>
    set new \<subseteq> {r} \<and> (e = None \<longrightarrow> eventKey r \<in> set (map eventKey rows'))"
  using assms unfolding InsertIfNotExists_def by (auto split: option.splits if_splits)

lemma handleEventMsg_table:
  assumes "handleEventMsg sha uuid dbErr newId m rows = (rows', e)"
  shows "\<exists>new. rows' = rows @ new \<and> (distinct (map eventKey rows) \<longrightarrow> distinct (map eventKey rows')) \<and>
    (e = None \<longrightarrow> (\<exists>r. rowOfMessage sha uuid newId m = Some r \<and> eventKey r \<in> set (map eventKey rows')))"
proof (cases "rowOfMessage sha uuid newId m")
  case None
  with assms handleEventMsg_cases [of sha uuid dbErr newId m rows] show ?thesis by auto
next
  case (Some r)
  with assms handleEventMsg_cases [of sha uuid dbErr newId m rows]
  have "InsertIfNotExists dbErr r rows = (rows', e)" by simp
  from InsertIfNotExists_table [OF this] Some show ?thesis by auto
qed

lemma eventsLoop_table:
  "eventsLoop sha uuid ds rows = (rows', acks) \<Longrightarrow>
     length acks = length ds \<and> (\<exists>new. rows' = rows @ new) \<and>
     (distinct (map eventKey rows) \<longrightarrow> distinct (map eventKey rows')) \<and>
     (\<forall>i < length ds. acks ! i \<longrightarrow> (\<exists>r. rowOfMessage sha uuid (fst (snd (ds ! i))) (snd (snd (ds ! i))) = Some r \<and>
        eventKey r \<in> set (map eventKey rows')))"
proof (induction ds arbitrary: rows rows' acks)
  case (Cons d ds)
  obtain dbErr newId m where d: "d = (dbErr, newId, m)" by (cases d)
  obtain r1 e where r1: "handleEventMsg sha uuid dbErr newId m rows = (r1, e)" by fastforce
  obtain r2 as where r2: "eventsLoop sha uuid ds r1 = (r2, as)" by fastforce
  have eq: "rows' = r2" "acks = (e = None) # as" using Cons.prems d r1 r2 by auto
  note h = handleEventMsg_table [OF r1] and ih = Cons.IH [OF r2]
  show ?case
  proof (intro conjI allI impI)
    show "length acks = length (d # ds)" "\<exists>new. rows' = rows @ new" using eq h ih by auto
    show "distinct (map eventKey rows')" if "distinct (map eventKey rows)" using eq h ih that by auto
  next
    fix i assume i: "i < length (d # ds)" "acks ! i"
    show "\<exists>r. rowOfMessage sha uuid (fst (snd ((d # ds) ! i))) (snd (snd ((d # ds) ! i))) = Some r \<and>
        eventKey r \<in> set (map eventKey rows')"
    proof (cases i)
      case 0
      then show ?thesis using h ih eq i d by auto
    next
      case (Suc j)
      then show ?thesis using ih eq i by simp
    qed
  qed
qed simp

text \<open>C11: Events are stored exactly once although they may come any number of times: no row is ever changed
  or removed, no two rows have the same device and key, each acknowledged message has exactly one row
  with its device and key, and a message that does not decode or names no device is never
  acknowledged (so it comes again for as long as the server keeps it).\<close>

theorem events_stored_exactly_once:
  assumes "consumeEvents sha uuid (Inr ds) rows = (rows', acks)" "distinct (map eventKey rows)"
  shows "(\<exists>new. rows' = rows @ new) \<and> distinct (map eventKey rows') \<and> length acks = length ds \<and>
    (\<forall>i < length ds. case rowOfMessage sha uuid (fst (snd (ds ! i))) (snd (snd (ds ! i))) of
       None \<Rightarrow> \<not> acks ! i
     | Some r \<Rightarrow> acks ! i \<longrightarrow> length (filter (\<lambda>x. eventKey x = eventKey r) rows') = 1)"
proof -
  have one: "length (filter (\<lambda>x. eventKey x = k) rs) = 1"
    if "distinct (map eventKey rs)" "k \<in> set (map eventKey rs)" for k rs
    using that
  proof (induction rs)
    case (Cons x rs)
    show ?case
    proof (cases "eventKey x = k")
      case True
      with Cons.prems(1) have "\<forall>y \<in> set rs. eventKey y \<noteq> k" by (metis distinct.simps(2) list.simps(9) image_eqI list.set_map)
      with True show ?thesis by simp
    qed (use Cons in auto)
  qed simp
  note t = eventsLoop_table [of sha uuid ds rows rows' acks]
  have l: "eventsLoop sha uuid ds rows = (rows', acks)" using assms(1) unfolding consumeEvents_def by simp
  show ?thesis
  proof (intro conjI allI impI)
    fix i assume i: "i < length ds"
    show "case rowOfMessage sha uuid (fst (snd (ds ! i))) (snd (snd (ds ! i))) of
       None \<Rightarrow> \<not> acks ! i
     | Some r \<Rightarrow> acks ! i \<longrightarrow> length (filter (\<lambda>x. eventKey x = eventKey r) rows') = 1"
    proof (cases "acks ! i")
      case True
      with t [OF l] i obtain r where "rowOfMessage sha uuid (fst (snd (ds ! i))) (snd (snd (ds ! i))) = Some r"
        "eventKey r \<in> set (map eventKey rows')" by blast
      with one t [OF l] assms(2) show ?thesis by simp
    qed (simp split: option.split)
  qed (use t [OF l] assms(2) in auto)
qed

definition exIngestEvent :: ingest_event where
  "exIngestEvent = \<lparr>ie_DeviceID = ''d1'', ie_OccurredAt = None, ie_ObservedAt = 5, ie_SourceProtocol = ''ipmi'',
     ie_Vendor = None, ie_Model = None, ie_Firmware = None, ie_Component = ''system'', ie_EventType = ''sel'',
     ie_Severity = ''info'', ie_Message = ''fan'', ie_Classification = [], ie_Raw = [], ie_DedupeKey = []\<rparr>"

lemma events_stored_exactly_once_witness:
  "let r = consumeEvents id Inr (Inr [(None, ''r1'', Inr exIngestEvent), (None, ''r2'', Inr exIngestEvent),
       (None, ''r3'', Inl ''bad'')]) [] in
   snd r = [True, True, False] \<and> distinct (map eventKey (fst r))"
proof -
  let ?r = "consumeEvents id Inr (Inr [(None, ''r1'', Inr exIngestEvent), (None, ''r2'', Inr exIngestEvent),
       (None, ''r3'', Inl ''bad'')]) []"
  have "snd ?r = [True, True, False]" by code_simp
  moreover have "?r = (fst ?r, snd ?r)" by simp
  from events_stored_exactly_once [OF this] have "distinct (map eventKey (fst ?r))" by simp
  ultimately show ?thesis by (simp only: Let_def)
qed

text \<open>The key that the ingester computes for a message without one is not injective: two different events of
  a device share it, and the second is dropped, when a separator occurs in their texts.\<close>

lemma stableDedupe_ambiguous:
  "stableDedupe sha (e\<lparr>ie_Component := ''a|b'', ie_EventType := ''c''\<rparr>) =
     stableDedupe sha (e\<lparr>ie_Component := ''a'', ie_EventType := ''b|c''\<rparr>)"
  unfolding stableDedupe_def by simp

end
