(* ===== verification/Events.thy ===== *)
theory Events
  imports Query Ingest
begin

text \<open>
  The event log of the API server: the queries of
  \<open>backend/internal/db/hardware_event_query_repository.go\<close> on the events table of the Ingest theory and
  their handlers \<open>backend/internal/api/handlers/event_handler.go\<close>. Rows with the same time come in table
  order, where the database may choose; \<open>hosts\<close> is the join with the devices.
\<close>

section \<open>The filter\<close>

record event_filter =
  ef_DeviceID :: "string option"
  ef_Severity :: "string option"
  ef_Search :: "string option"
  ef_DateFrom :: "time option"
  ef_DateTo :: "time option"
  ef_Page :: int
  ef_PageSize :: int

text \<open>\<open>q\<close> is the query string, the empty text for a missing parameter; \<open>parseTime\<close> is \<open>time.Parse\<close> for
  RFC 3339.\<close>

definition parseEventFilter :: "(string \<Rightarrow> time option) \<Rightarrow> (string \<Rightarrow> string) \<Rightarrow> event_filter" where
  "parseEventFilter parseTime q =
     (let num = (\<lambda>s d. if s = [] then d else case scanInt s of None \<Rightarrow> d | Some i \<Rightarrow> i);
          txt = (\<lambda>s. if s = [] then None else Some s);
          tim = (\<lambda>s. if s = [] then None else parseTime s) in
      \<lparr>ef_DeviceID = None,
       ef_Severity = (if q ''severity'' = ''all'' then None else txt (q ''severity'')),
       ef_Search = txt (q ''search''), ef_DateFrom = tim (q ''from''), ef_DateTo = tim (q ''to''),
       ef_Page = num (q ''page'') 1, ef_PageSize = num (q ''limit'') 50\<rparr>)"

section \<open>The query\<close>

datatype event_cond = OnDevice | OnSeverity | OnMessage | TimeFrom | TimeTo

definition condText :: "event_cond \<Rightarrow> nat \<Rightarrow> string" where
  "condText c k = '' AND '' @ (case c of
       OnDevice \<Rightarrow> ''he.device_id = $'' | OnSeverity \<Rightarrow> ''he.severity = $''
     | OnMessage \<Rightarrow> ''he.message ILIKE $''
     | TimeFrom \<Rightarrow> ''COALESCE(he.occurred_at, he.observed_at) >= $''
     | TimeTo \<Rightarrow> ''COALESCE(he.occurred_at, he.observed_at) <= $'') @ itoa (int k)"

definition nonAll :: "string option \<Rightarrow> string option" where
  "nonAll x = (case x of Some s \<Rightarrow> if s = [] \<or> s = ''all'' then None else Some s | None \<Rightarrow> None)"

definition nonEmpty :: "string option \<Rightarrow> string option" where
  "nonEmpty x = (case x of Some s \<Rightarrow> if s = [] then None else Some s | None \<Rightarrow> None)"

definition eventFields :: "event_filter \<Rightarrow> (event_cond \<times> sqlval option) list" where
  "eventFields f = [(OnDevice, map_option VText (ef_DeviceID f)), (OnSeverity, map_option VText (nonAll (ef_Severity f))),
     (OnMessage, map_option (\<lambda>s. VText (searchPattern s)) (nonEmpty (ef_Search f))),
     (TimeFrom, map_option VTime (ef_DateFrom f)), (TimeTo, map_option VTime (ef_DateTo f))]"

definition eventWhere :: "event_filter \<Rightarrow> event_cond builder" where
  "eventWhere f = addAll (eventFields f) emptyBuilder"

definition whereText :: "event_filter \<Rightarrow> string" where
  "whereText f = ''WHERE 1=1'' @ concat (map (\<lambda>(c, k). condText c k) (fst (eventWhere f)))"

definition eventTime :: "event_row \<Rightarrow> time" where
  "eventTime r = (case ev_occurred_at r of Some t \<Rightarrow> t | None \<Rightarrow> ev_observed_at r)"

definition condHolds :: "event_cond \<Rightarrow> sqlval \<Rightarrow> event_row \<Rightarrow> bool" where
  "condHolds c v r = (case (c, v) of
       (OnDevice, VText s) \<Rightarrow> ev_device_id r = s
     | (OnSeverity, VText s) \<Rightarrow> ev_severity r = s
     | (OnMessage, VText p) \<Rightarrow> ilike (ev_message r) p
     | (TimeFrom, VTime t) \<Rightarrow> eventTime r \<ge> t
     | (TimeTo, VTime t) \<Rightarrow> eventTime r \<le> t
     | _ \<Rightarrow> False)"

definition selectEvents :: "event_filter \<Rightarrow> event_row list \<Rightarrow> event_row list" where
  "selectEvents f rows = (case eventWhere f of
     (cs, args, pos) \<Rightarrow> filter (\<lambda>r. \<forall>(c, v) \<in> set (readClauses cs args). condHolds c v r) rows)"

text \<open>\<open>ListEvents\<close>: the two statements, each of which can fail.\<close>

definition ListEvents ::
  "db_error \<Rightarrow> db_error \<Rightarrow> event_filter \<Rightarrow> event_row list \<Rightarrow> (event_row list \<times> int) result" where
  "ListEvents err1 err2 f rows = (case err1 of
     Some e \<Rightarrow> Inl (''count events: '' @ e)
   | None \<Rightarrow> (case err2 of
       Some e \<Rightarrow> Inl (''query events: '' @ e)
     | None \<Rightarrow>
       (let sel = selectEvents f rows; (p, s) = clampEventPage (ef_Page f) (ef_PageSize f) in
        case limitOffset s (pageOffset p s) (sort_key (\<lambda>r. - eventTime r) sel) of
          Inl e \<Rightarrow> Inl (''query events: '' @ e)
        | Inr page \<Rightarrow> Inr (page, int (length sel)))))"

definition ClearEvents :: "db_error \<Rightarrow> string \<Rightarrow> event_row list \<Rightarrow> event_row list \<times> int result" where
  "ClearEvents dbErr did rows = (case dbErr of
     Some e \<Rightarrow> (rows, Inl (''clear device events: '' @ e))
   | None \<Rightarrow> (filter (\<lambda>r. ev_device_id r \<noteq> did) rows,
       Inr (int (length (filter (\<lambda>r. ev_device_id r = did) rows)))))"

section \<open>The summary\<close>

record device_count =
  dc_DeviceID :: string
  dc_Hostname :: string
  dc_Count :: int
  dc_MaxSeverity :: string

record event_summary =
  es_TotalCritical :: int
  es_TotalWarning :: int
  es_TotalInfo :: int
  es_Last24h :: int
  es_Last7d :: int
  es_ByDevice :: "device_count list"

definition countIf :: "('r \<Rightarrow> bool) \<Rightarrow> 'r list \<Rightarrow> int" where
  "countIf P rs = int (length (filter P rs))"

definition severityCode :: "event_row \<Rightarrow> int" where
  "severityCode r = (if ev_severity r = ''critical'' then 3 else if ev_severity r = ''warning'' then 2 else 1)"

definition severityName :: "int \<Rightarrow> string" where
  "severityName c = (if c = 3 then ''critical'' else if c = 2 then ''warning'' else ''info'')"

definition deviceCounts :: "(string \<Rightarrow> string option) \<Rightarrow> event_row list \<Rightarrow> device_count list" where
  "deviceCounts hosts rows = take 20 (sort_key (\<lambda>c. - dc_Count c) (map (\<lambda>d.
     let mine = filter (\<lambda>r. ev_device_id r = d) rows in
     \<lparr>dc_DeviceID = d, dc_Hostname = (case hosts d of Some h \<Rightarrow> h | None \<Rightarrow> []), dc_Count = int (length mine),
      dc_MaxSeverity = severityName (Max (set (map severityCode mine)))\<rparr>)
     (remdups (map ev_device_id rows))))"

text \<open>The loop over the severities and their counts.\<close>

fun sumSeverities :: "(string \<times> int) list \<Rightarrow> event_summary \<Rightarrow> event_summary" where
  "sumSeverities [] s = s"
| "sumSeverities ((sev, cnt) # gs) s = sumSeverities gs
     (if sev = ''critical'' then s\<lparr>es_TotalCritical := cnt\<rparr>
      else if sev = ''warning'' then s\<lparr>es_TotalWarning := cnt\<rparr>
      else s\<lparr>es_TotalInfo := es_TotalInfo s + cnt\<rparr>)"

definition severityGroups :: "event_row list \<Rightarrow> (string \<times> int) list" where
  "severityGroups rows = map (\<lambda>sev. (sev, countIf (\<lambda>r. ev_severity r = sev) rows)) (remdups (map ev_severity rows))"

text \<open>\<open>errs\<close> are the errors of the four statements; only that of the first is reported, the others leave
  their part empty.\<close>

definition EventSummary ::
  "db_error \<times> bool \<times> bool \<times> bool \<Rightarrow> time \<Rightarrow> (string \<Rightarrow> string option) \<Rightarrow> event_row list \<Rightarrow> event_summary result" where
  "EventSummary errs now hosts rows = (case errs of (e1, ok24, ok7, okDev) \<Rightarrow> (case e1 of
     Some e \<Rightarrow> Inl (''severity counts: '' @ e)
   | None \<Rightarrow>
     (let s0 = sumSeverities (severityGroups rows) \<lparr>es_TotalCritical = 0, es_TotalWarning = 0, es_TotalInfo = 0,
            es_Last24h = 0, es_Last7d = 0, es_ByDevice = []\<rparr>;
          since = (\<lambda>hours. countIf (\<lambda>r. eventTime r \<ge> now - hours * 3600000000000) rows) in
      Inr (s0\<lparr>es_Last24h := (if ok24 then since 24 else 0), es_Last7d := (if ok7 then since 168 else 0),
        es_ByDevice := (if okDev then deviceCounts hosts rows else [])\<rparr>))))"

section \<open>Handlers\<close>

record event_json =
  ej_ID :: string
  ej_DeviceID :: string
  ej_Hostname :: string
  ej_EventTime :: string
  ej_SourceProtocol :: string
  ej_Component :: string
  ej_EventType :: string
  ej_Severity :: string
  ej_Message :: string

definition eventJson :: "(string \<Rightarrow> string) \<Rightarrow> (string \<Rightarrow> string option) \<Rightarrow> event_row \<Rightarrow> event_json" where
  "eventJson sev hosts r = \<lparr>ej_ID = ev_id r, ej_DeviceID = ev_device_id r,
     ej_Hostname = (case hosts (ev_device_id r) of Some h \<Rightarrow> h | None \<Rightarrow> []),
     ej_EventTime = rfc3339 (eventTime r), ej_SourceProtocol = ev_source_protocol r,
     ej_Component = ev_component r, ej_EventType = ev_event_type r, ej_Severity = sev (ev_severity r),
     ej_Message = ev_message r\<rparr>"

text \<open>A listing answers with the rows, the total and the page and limit of the request as parsed.\<close>

definition ListDeviceEvents ::
  "db_error \<Rightarrow> db_error \<Rightarrow> (string \<Rightarrow> string option) \<Rightarrow> string option \<Rightarrow> event_filter \<Rightarrow> event_row list \<Rightarrow>
   event_json list api_reply" where
  "ListDeviceEvents e1 e2 hosts param f rows = (case param of
     None \<Rightarrow> BadRequest ''Invalid device ID'' ''INVALID_ID''
   | Some did \<Rightarrow> (case ListEvents e1 e2 (f\<lparr>ef_DeviceID := Some did\<rparr>) rows of
       Inl e \<Rightarrow> InternalError ''Failed to list device events''
     | Inr (evs, n) \<Rightarrow> Paginated (map (eventJson (\<lambda>s. s) hosts) evs)
         \<lparr>pm_page = ef_Page f, pm_page_size = ef_PageSize f, pm_total = n\<rparr>))"

text \<open>\<open>did\<close> is the \<open>device_id\<close> parameter: missing, not a UUID (\<open>Some None\<close>) or a UUID.\<close>

definition ListAllEvents ::
  "db_error \<Rightarrow> db_error \<Rightarrow> (string \<Rightarrow> string option) \<Rightarrow> string option option \<Rightarrow> event_filter \<Rightarrow> event_row list \<Rightarrow>
   event_json list api_reply" where
  "ListAllEvents e1 e2 hosts did f rows =
     (let go = (\<lambda>f1. case ListEvents e1 e2 f1 rows of
           Inl e \<Rightarrow> InternalError ''Failed to list events''
         | Inr (evs, n) \<Rightarrow> Paginated (map (eventJson toLower hosts) evs)
             \<lparr>pm_page = ef_Page f1, pm_page_size = ef_PageSize f1, pm_total = n\<rparr>) in
      case did of
        None \<Rightarrow> go f
      | Some None \<Rightarrow> BadRequest ''Invalid device_id'' ''INVALID_ID''
      | Some (Some d) \<Rightarrow> go (f\<lparr>ef_DeviceID := Some d\<rparr>))"

definition GetEventSummary ::
  "db_error \<times> bool \<times> bool \<times> bool \<Rightarrow> time \<Rightarrow> (string \<Rightarrow> string option) \<Rightarrow> event_row list \<Rightarrow> event_summary api_reply" where
  "GetEventSummary errs now hosts rows = (case EventSummary errs now hosts rows of
     Inl e \<Rightarrow> InternalError ''Failed to get event summary'' | Inr s \<Rightarrow> Success s)"

definition ClearDeviceEvents ::
  "db_error \<Rightarrow> string option \<Rightarrow> event_row list \<Rightarrow> event_row list \<times> int api_reply" where
  "ClearDeviceEvents dbErr param rows = (case param of
     None \<Rightarrow> (rows, BadRequest ''Invalid device ID'' ''INVALID_ID'')
   | Some did \<Rightarrow> (case ClearEvents dbErr did rows of
       (rows', Inl e) \<Rightarrow> (rows', InternalError ''Failed to clear device events'')
     | (rows', Inr n) \<Rightarrow> (rows', Data 200 n)))"


section \<open>The query selects what the filter says\<close>

definition event_matches :: "event_filter \<Rightarrow> event_row \<Rightarrow> bool" where
  "event_matches f r =
     ((case ef_DeviceID f of None \<Rightarrow> True | Some d \<Rightarrow> ev_device_id r = d) \<and>
      (case nonAll (ef_Severity f) of None \<Rightarrow> True | Some s \<Rightarrow> ev_severity r = s) \<and>
      (case nonEmpty (ef_Search f) of None \<Rightarrow> True | Some s \<Rightarrow> ilike (ev_message r) (searchPattern s)) \<and>
      (case ef_DateFrom f of None \<Rightarrow> True | Some t \<Rightarrow> t \<le> eventTime r) \<and>
      (case ef_DateTo f of None \<Rightarrow> True | Some t \<Rightarrow> eventTime r \<le> t))"

lemma selectEvents_matches: "selectEvents f rows = filter (event_matches f) rows"
proof -
  have "(case eventWhere f of (cs, args, pos) \<Rightarrow> \<forall>(c, v) \<in> set (readClauses cs args). condHolds c v r) = event_matches f r" for r
    unfolding eventWhere_def built_condition event_matches_def eventFields_def
    by (simp add: condHolds_def case_map_option cong: option.case_cong)
  then show ?thesis unfolding selectEvents_def by (cases "eventWhere f") simp
qed

text \<open>C24: The numbered placeholders of the event query fit their values: for every combination of filters the
  database selects exactly the events that satisfy each filter given. A search text without the
  characters that \<open>ILIKE\<close> treats specially finds the messages in which it occurs, in any case.\<close>

theorem event_query_exact:
  "selectEvents f rows = filter (event_matches f) rows \<and>
   (plain_search q \<longrightarrow> selectEvents (f\<lparr>ef_Search := Some q\<rparr>) rows =
      filter (\<lambda>r. event_matches (f\<lparr>ef_Search := None\<rparr>) r \<and> contains (toLower (ev_message r)) (toLower q)) rows)"
proof
  show "selectEvents f rows = filter (event_matches f) rows" by (rule selectEvents_matches)
  show "plain_search q \<longrightarrow> selectEvents (f\<lparr>ef_Search := Some q\<rparr>) rows =
      filter (\<lambda>r. event_matches (f\<lparr>ef_Search := None\<rparr>) r \<and> contains (toLower (ev_message r)) (toLower q)) rows"
  proof
    assume q: "plain_search q"
    have "contains s []" for s by (cases s) auto
    then have "event_matches (f\<lparr>ef_Search := Some q\<rparr>) r =
        (event_matches (f\<lparr>ef_Search := None\<rparr>) r \<and> contains (toLower (ev_message r)) (toLower q))" for r
      unfolding event_matches_def nonEmpty_def by (auto simp: ilike_contains [OF q] toLower_def)
    then show "selectEvents (f\<lparr>ef_Search := Some q\<rparr>) rows =
      filter (\<lambda>r. event_matches (f\<lparr>ef_Search := None\<rparr>) r \<and> contains (toLower (ev_message r)) (toLower q)) rows"
      unfolding selectEvents_matches by (intro filter_cong) simp_all
  qed
qed

definition exEventRow :: "string \<Rightarrow> string \<Rightarrow> time \<Rightarrow> event_row" where
  "exEventRow i msg t = \<lparr>ev_id = i, ev_device_id = ''d1'', ev_occurred_at = None, ev_observed_at = t,
     ev_source_protocol = ''ipmi'', ev_vendor = None, ev_model = None, ev_firmware = None,
     ev_component = ''system'', ev_event_type = ''sel'', ev_severity = ''warning'', ev_message = msg,
     ev_classification = [], ev_raw = [], ev_dedupe_key = i\<rparr>"

definition exFilter :: event_filter where
  "exFilter = \<lparr>ef_DeviceID = Some ''d1'', ef_Severity = Some ''all'', ef_Search = None, ef_DateFrom = Some 5,
     ef_DateTo = None, ef_Page = 1, ef_PageSize = 2\<rparr>"

lemma event_query_exact_witness:
  "map ev_id (selectEvents (exFilter\<lparr>ef_Search := Some ''FAN''\<rparr>)
     [exEventRow ''a'' ''fan failed'' 9, exEventRow ''b'' ''fan ok'' 4, exEventRow ''c'' ''psu'' 9]) = [''a'']"
proof -
  have "plain_search ''FAN''" by code_simp
  with event_query_exact [of exFilter "[exEventRow ''a'' ''fan failed'' 9, exEventRow ''b'' ''fan ok'' 4, exEventRow ''c'' ''psu'' 9]" "''FAN''"]
  have "selectEvents (exFilter\<lparr>ef_Search := Some ''FAN''\<rparr>)
      [exEventRow ''a'' ''fan failed'' 9, exEventRow ''b'' ''fan ok'' 4, exEventRow ''c'' ''psu'' 9] =
    filter (\<lambda>r. event_matches (exFilter\<lparr>ef_Search := None\<rparr>) r \<and> contains (toLower (ev_message r)) (toLower ''FAN''))
      [exEventRow ''a'' ''fan failed'' 9, exEventRow ''b'' ''fan ok'' 4, exEventRow ''c'' ''psu'' 9]" by blast
  moreover have "map ev_id (filter (\<lambda>r. event_matches (exFilter\<lparr>ef_Search := None\<rparr>) r \<and> contains (toLower (ev_message r)) (toLower ''FAN''))
      [exEventRow ''a'' ''fan failed'' 9, exEventRow ''b'' ''fan ok'' 4, exEventRow ''c'' ''psu'' 9]) = [''a'']" by code_simp
  ultimately show ?thesis by simp
qed

section \<open>The pages\<close>

definition eventPage :: "event_filter \<Rightarrow> event_row list \<Rightarrow> int \<Rightarrow> event_row list" where
  "eventPage f rows p = (case ListEvents None None (f\<lparr>ef_Page := p\<rparr>) rows of Inl _ \<Rightarrow> [] | Inr (evs, _) \<Rightarrow> evs)"

lemma eventPage_slice:
  assumes "1 \<le> ef_PageSize f" "ef_PageSize f \<le> 200" "int p * ef_PageSize f < 9223372036854775808"
  shows "eventPage f rows (int p + 1) = take (nat (ef_PageSize f)) (drop (p * nat (ef_PageSize f))
    (sort_key (\<lambda>r. - eventTime r) (selectEvents f rows)))"
proof -
  have sel: "selectEvents (f\<lparr>ef_Page := q\<rparr>) rows = selectEvents f rows" for q
    by (simp add: selectEvents_def eventWhere_def eventFields_def)
  have "nat (int p * ef_PageSize f) = p * nat (ef_PageSize f)" by (simp add: nat_mult_distrib)
  then show ?thesis using assms limitOffset_page [of "int p + 1" "ef_PageSize f"
      "sort_key (\<lambda>r. - eventTime r) (selectEvents f rows)"]
    unfolding eventPage_def ListEvents_def by (simp add: sel clampEventPage_def Let_def)
qed

text \<open>Turning the pages shows every matching event exactly once, the latest first: with a page size from 1
  to 200 the pages together are the matching events sorted by time, and the total of every answer is
  their number.\<close>

theorem event_pages_complete:
  assumes "1 \<le> ef_PageSize f" "ef_PageSize f \<le> 200" "int n * ef_PageSize f < 9223372036854775808"
    and "length (filter (event_matches f) rows) \<le> n * nat (ef_PageSize f)"
  shows "concat (map (\<lambda>p. eventPage f rows (int p + 1)) [0..<n]) =
    sort_key (\<lambda>r. - eventTime r) (filter (event_matches f) rows)"
proof -
  let ?s = "nat (ef_PageSize f)" and ?all = "sort_key (\<lambda>r. - eventTime r) (selectEvents f rows)"
  have "eventPage f rows (int p + 1) = take ?s (drop (p * ?s) ?all)" if "p \<in> set [0..<n]" for p
  proof -
    have "int p * ef_PageSize f \<le> int n * ef_PageSize f" using that assms(1) by (intro mult_right_mono) auto
    from le_less_trans [OF this assms(3)] show ?thesis by (rule eventPage_slice [OF assms(1,2)])
  qed
  then have "map (\<lambda>p. eventPage f rows (int p + 1)) [0..<n] = map (\<lambda>p. take ?s (drop (p * ?s) ?all)) [0..<n]"
    by (intro map_cong) auto
  then have "concat (map (\<lambda>p. eventPage f rows (int p + 1)) [0..<n]) = take (n * ?s) ?all"
    by (simp only: pages_cover)
  also have "\<dots> = ?all" using assms(4) selectEvents_matches [of f rows] by simp
  finally show ?thesis using selectEvents_matches [of f rows] by simp
qed

lemma event_pages_complete_witness:
  "map ev_id (concat (map (\<lambda>p. eventPage exFilter [exEventRow ''a'' [] 6, exEventRow ''b'' [] 9, exEventRow ''c'' [] 7]
     (int p + 1)) [0..<2])) = [''b'', ''c'', ''a'']"
proof -
  let ?rows = "[exEventRow ''a'' [] 6, exEventRow ''b'' [] 9, exEventRow ''c'' [] 7]"
  have "map ev_id (sort_key (\<lambda>r. - eventTime r) (filter (event_matches exFilter) ?rows)) = [''b'', ''c'', ''a'']"
    by code_simp
  moreover have "length (filter (event_matches exFilter) ?rows) = 3" by code_simp
  ultimately show ?thesis using event_pages_complete [of exFilter 2 ?rows] by (simp add: exFilter_def)
qed

section \<open>The summary\<close>

lemma sumSeverities_total:
  "distinct (map fst gs) \<Longrightarrow> es_TotalCritical s = 0 \<or> ''critical'' \<notin> set (map fst gs) \<Longrightarrow>
   es_TotalWarning s = 0 \<or> ''warning'' \<notin> set (map fst gs) \<Longrightarrow>
   es_TotalCritical (sumSeverities gs s) + es_TotalWarning (sumSeverities gs s) + es_TotalInfo (sumSeverities gs s) =
   es_TotalCritical s + es_TotalWarning s + es_TotalInfo s + sum_list (map snd gs)"
proof (induction gs s rule: sumSeverities.induct)
  case (2 sev cnt gs s)
  consider "sev = ''critical''" | "sev = ''warning''" | "sev \<noteq> ''critical''" "sev \<noteq> ''warning''" by blast
  then show ?case
  proof cases
    case 1
    with 2 show ?thesis by simp
  next
    case 2
    with "2.IH" "2.prems" show ?thesis by simp
  next
    case 3
    with "2.IH" "2.prems" show ?thesis by simp
  qed
qed simp

lemma sumSeverities_critical:
  "distinct (map fst gs) \<Longrightarrow> es_TotalCritical (sumSeverities gs s) =
     (case map_of gs ''critical'' of Some c \<Rightarrow> c | None \<Rightarrow> es_TotalCritical s)"
proof (induction gs s rule: sumSeverities.induct)
  case (2 sev cnt gs s)
  show ?case
  proof (cases "sev = ''critical''")
    case True
    with "2.prems" have "map_of gs ''critical'' = None" by (simp add: map_of_eq_None_iff)
    with True 2 show ?thesis by simp
  next
    case False
    with 2 show ?thesis by (cases "sev = ''warning''") (simp_all cong: option.case_cong)
  qed
qed simp

lemma groups_total: "sum_list (map (\<lambda>k. countIf (\<lambda>r. g r = k) rows) (remdups (map g rows))) = int (length rows)"
proof -
  have "sum_list (map (\<lambda>k. countIf (\<lambda>r. g r = k) rs) ks) = int (length (filter (\<lambda>r. g r \<in> set ks) rs))"
    if "distinct ks" for ks rs
    using that
  proof (induction ks)
    case (Cons k ks)
    have "length (filter (\<lambda>r. g r \<in> set (k # ks)) rs) =
        length (filter (\<lambda>r. g r = k) rs) + length (filter (\<lambda>r. g r \<in> set ks) rs)"
      using Cons.prems by (induction rs) auto
    with Cons show ?case by (simp add: countIf_def)
  qed (simp add: countIf_def)
  from this [of "remdups (map g rows)" rows] show ?thesis by (simp add: filter_True)
qed

text \<open>The three severity totals of the summary add up to the number of events: every event is counted, one
  with an unknown severity as information.\<close>

theorem summary_counts_all:
  "case EventSummary (None, ok24, ok7, okDev) now hosts rows of
     Inl e \<Rightarrow> False
   | Inr s \<Rightarrow> es_TotalCritical s + es_TotalWarning s + es_TotalInfo s = int (length rows) \<and>
       es_TotalCritical s = (if list_ex (\<lambda>r. ev_severity r = ''critical'') rows
         then countIf (\<lambda>r. ev_severity r = ''critical'') rows else 0)"
proof -
  let ?z = "\<lparr>es_TotalCritical = 0, es_TotalWarning = 0, es_TotalInfo = 0, es_Last24h = 0, es_Last7d = 0, es_ByDevice = []\<rparr>"
  have d: "map fst (severityGroups rows) = remdups (map ev_severity rows)"
    "map snd (severityGroups rows) = map (\<lambda>k. countIf (\<lambda>r. ev_severity r = k) rows) (remdups (map ev_severity rows))"
    unfolding severityGroups_def by (simp_all add: comp_def)
  have "map_of (severityGroups rows) ''critical'' =
      (if list_ex (\<lambda>r. ev_severity r = ''critical'') rows then Some (countIf (\<lambda>r. ev_severity r = ''critical'') rows) else None)"
    unfolding severityGroups_def map_of_map_restrict by (auto simp: restrict_map_def list_ex_iff image_iff)
  then show ?thesis
    using sumSeverities_total [of "severityGroups rows" ?z] groups_total [of ev_severity rows] d
      sumSeverities_critical [of "severityGroups rows" ?z]
    unfolding EventSummary_def by (simp add: Let_def)
qed

end
