(* ===== verification/IpmiPoll.thy ===== *)
theory IpmiPoll
  imports IpmiTool Retry VmWriter Queue
begin

text \<open>
  The IPMI collector: \<open>collectors/ipmi-collector/internal/collector/ipmi.go\<close> and the poll of
  \<open>retry.go\<close>. Its state has the database, the metrics writer, the retry states, the stream it
  publishes to, the loaded devices and the key. What the world answers during one poll is a
  \<open>poll_env\<close>: every run of \<open>ipmitool\<close>, every database statement, every request of the writer, every
  publish, every clock reading.
\<close>

section \<open>State\<close>

record ipmi_collector =
  ic_db :: database
  ic_writer :: vm_writer
  ic_publisher :: bool
  ic_stream :: "message list"
  ic_retry :: "string retry_manager"
  ic_devices :: "device list"
  ic_key :: string

text \<open>The key of \<open>NewIPMICollector\<close>: \<open>ENCRYPTION_KEY\<close> decoded, or its bytes when it is not base 64,
  if that has 32 bytes; no key otherwise.\<close>

definition encryptionKeyOf :: "string \<Rightarrow> string" where
  "encryptionKeyOf keyStr = (if keyStr = [] then []
     else let decoded = (case b64_decode keyStr of Some b \<Rightarrow> b | None \<Rightarrow> keyStr) in
       if length decoded = 32 then decoded else [])"

definition NewIPMICollector :: "database \<Rightarrow> vm_writer \<Rightarrow> bool \<Rightarrow> message list \<Rightarrow> string \<Rightarrow> ipmi_collector" where
  "NewIPMICollector db w pub strm keyStr = \<lparr>ic_db = db, ic_writer = w, ic_publisher = pub,
     ic_stream = strm, ic_retry = NewRetryManager, ic_devices = [], ic_key = encryptionKeyOf keyStr\<rparr>"

section \<open>Credentials\<close>

text \<open>\<open>gcmOpen key nonce ciphertext\<close> is AES-256-GCM decryption with authentication; the nonce has 12
  bytes. The key has 0 or 32 bytes, so the cipher can always be made.\<close>

definition decrypt :: "(string \<Rightarrow> string \<Rightarrow> string \<Rightarrow> string option) \<Rightarrow> string \<Rightarrow> string \<Rightarrow> string result" where
  "decrypt gcmOpen key encryptedB64 =
     (if key = [] then Inr encryptedB64
      else case b64_decode encryptedB64 of
        None \<Rightarrow> Inr encryptedB64
      | Some data \<Rightarrow>
        (if length key \<noteq> 16 \<and> length key \<noteq> 24 \<and> length key \<noteq> 32
         then Inl (''failed to create AES cipher: crypto/aes: invalid key size '' @ itoa (int (length key)))
         else if length data < 12 then Inr encryptedB64
         else case gcmOpen key (take 12 data) (drop 12 data) of
           None \<Rightarrow> Inr encryptedB64
         | Some plaintext \<Rightarrow> Inr plaintext))"

section \<open>Loading devices\<close>

definition ipmiOnlyTypes :: "string list" where
  "ipmiOnlyTypes = [''dell_drac5'', ''dell_idrac6'', ''dell_idrac7'', ''dell_idrac8_ipmi'',
     ''hpe_ilo3_ipmi'', ''hpe_ilo4_ipmi'', ''lenovo_imm'', ''lenovo_xcc_ipmi'', ''supermicro_ipmi'',
     ''supermicro_old'', ''cisco_cimc_ipmi'', ''huawei_ibmc_ipmi'', ''fujitsu_irmc_ipmi'',
     ''asus_asmb_ipmi'', ''gigabyte_bmc_ipmi'', ''ericsson_bmc_ipmi'', ''ieit_bmc_ipmi'',
     ''generic_ipmi'']"

definition ipmiType :: "string \<Rightarrow> bool" where
  "ipmiType t = (contains (toLower t) ''ipmi'' \<or> t \<in> set ipmiOnlyTypes)"

definition ipmiSelected :: "device_row \<Rightarrow> bool" where
  "ipmiSelected r = ((dv_protocol r = Some ''ipmi'' \<or> ipmiType (dv_type r)) \<and> dv_status r \<noteq> ''deleted'')"

text \<open>The rows of the query: the device with its IPMI credential, or with NULLs where it has none.
  The casts to text keep the netmask length of the \<open>inet\<close> columns.\<close>

definition ipmiRow :: "credential_row list \<Rightarrow> device_row \<Rightarrow> (device \<times> string) list" where
  "ipmiRow creds r =
     (let ms = filter (\<lambda>c. cr_device_id c = dv_id r \<and> cr_protocol c = ''ipmi'') creds;
          mk = (\<lambda>port user pw. (\<lparr>ID = dv_id r, Hostname = dv_hostname r, IPAddress = inet_text (dv_ip r),
             BMCIPAddress = (case dv_bmc_ip r of Some b \<Rightarrow> inet_text b | None \<Rightarrow> inet_text (dv_ip r)),
             Port = port, Username = user, Password = [],
             Protocol = (case dv_protocol r of Some p \<Rightarrow> p | None \<Rightarrow> ''ipmi''),
             Status = dv_status r\<rparr>, pw)) in
      if ms = [] then [mk 623 [] []]
      else map (\<lambda>c. mk (case cr_port c of Some p \<Rightarrow> p | None \<Rightarrow> 623)
        (case cr_username c of Some u \<Rightarrow> u | None \<Rightarrow> [])
        (case cr_password c of Some p \<Rightarrow> p | None \<Rightarrow> [])) ms)"

text \<open>The body of the row loop: \<open>None\<close> for a device that is skipped.\<close>

definition loadRow ::
  "(string \<Rightarrow> string \<Rightarrow> string \<Rightarrow> string option) \<Rightarrow> string \<Rightarrow> device \<times> string \<Rightarrow> device option" where
  "loadRow gcmOpen key row = (case row of (d, passwordEncrypted) \<Rightarrow>
     (case (if passwordEncrypted = [] then Inr [] else decrypt gcmOpen key passwordEncrypted) of
        Inl _ \<Rightarrow> None
      | Inr pw \<Rightarrow>
        (if BMCIPAddress d = [] then None
         else Some (d\<lparr>Password := pw, Port := (if Port d = 0 then 623 else Port d)\<rparr>))))"

text \<open>\<open>loadDevices\<close>; the query or its iteration may fail, and then the devices stay.\<close>

definition loadDevices ::
  "(string \<Rightarrow> string \<Rightarrow> string \<Rightarrow> string option) \<Rightarrow> string option \<Rightarrow> string option \<Rightarrow> ipmi_collector \<Rightarrow>
   ipmi_collector \<times> string option" where
  "loadDevices gcmOpen queryErr rowsErr c =
     (case queryErr of Some e \<Rightarrow> (c, Some (''failed to query devices: '' @ e))
      | None \<Rightarrow> (case rowsErr of Some e \<Rightarrow> (c, Some (''error iterating device rows: '' @ e))
      | None \<Rightarrow> (c\<lparr>ic_devices := List.map_filter (loadRow gcmOpen (ic_key c))
            (concat (map (ipmiRow (credentials (ic_db c))) (filter ipmiSelected (devices (ic_db c)))))\<rparr>,
          None)))"

section \<open>Status writes\<close>

definition collectorName :: "string \<Rightarrow> string" where
  "collectorName d = ''ipmi-collector-'' @ d"

lemma collectorName_inj [simp]: "(collectorName k = collectorName d) = (k = d)"
  unfolding collectorName_def by simp

definition ipmiStatusUpsert :: "string \<Rightarrow> string \<Rightarrow> string \<Rightarrow> time \<Rightarrow> status_row list \<Rightarrow> status_row list" where
  "ipmiStatusUpsert name status errorMsg now rows = upsertBy cs_name
     \<lparr>cs_name = name, cs_type = ''ipmi'', cs_status = status, cs_last_poll = Some now,
      cs_last_success = None, cs_last_error = Some errorMsg, cs_updated_at = now\<rparr>
     (\<lambda>r. r\<lparr>cs_status := status, cs_last_poll := Some now, cs_last_error := Some errorMsg,
        cs_updated_at := now\<rparr>) rows"

definition ipmiStatusSuccess :: "string \<Rightarrow> time \<Rightarrow> status_row list \<Rightarrow> status_row list" where
  "ipmiStatusSuccess name now rows = upsertBy cs_name
     \<lparr>cs_name = name, cs_type = ''ipmi'', cs_status = ''healthy'', cs_last_poll = Some now,
      cs_last_success = Some now, cs_last_error = Some [], cs_updated_at = now\<rparr>
     (\<lambda>r. r\<lparr>cs_status := ''healthy'', cs_last_poll := Some now, cs_last_success := Some now,
        cs_last_error := Some [], cs_updated_at := now\<rparr>) rows"

text \<open>Each statement succeeds or fails on its own: \<open>ok1\<close> and \<open>ok2\<close>.\<close>

definition updateDeviceStatus ::
  "bool \<Rightarrow> bool \<Rightarrow> time \<Rightarrow> string \<Rightarrow> string \<Rightarrow> string \<Rightarrow> database \<Rightarrow> database" where
  "updateDeviceStatus ok1 ok2 now d status errorMsg db =
     (let db1 = (if ok1 then db\<lparr>devices := updateWhere (\<lambda>r. dv_id r = d)
            (\<lambda>r. if errorMsg \<noteq> [] then r\<lparr>dv_status := status, dv_updated_at := now\<rparr>
               else r\<lparr>dv_status := status, dv_last_seen := Some now, dv_updated_at := now\<rparr>)
            (devices db)\<rparr> else db) in
      if ok2 then db1\<lparr>collector_status :=
          ipmiStatusUpsert (collectorName d) status errorMsg now (collector_status db1)\<rparr>
      else db1)"

definition updateCollectorStatusSuccess :: "bool \<Rightarrow> bool \<Rightarrow> time \<Rightarrow> string \<Rightarrow> database \<Rightarrow> database" where
  "updateCollectorStatusSuccess ok1 ok2 now d db =
     (let db1 = (if ok1 then db\<lparr>devices := updateWhere (\<lambda>r. dv_id r = d)
            (\<lambda>r. r\<lparr>dv_status := ''online'', dv_last_seen := Some now, dv_updated_at := now\<rparr>)
            (devices db)\<rparr> else db) in
      if ok2 then db1\<lparr>collector_status :=
          ipmiStatusSuccess (collectorName d) now (collector_status db1)\<rparr>
      else db1)"

definition setDeviceProtocol :: "bool \<Rightarrow> time \<Rightarrow> string \<Rightarrow> string \<Rightarrow> database \<Rightarrow> database" where
  "setDeviceProtocol ok now d protocol db =
     (if protocol = [] then db
      else if ok then db\<lparr>devices := updateWhere (\<lambda>r. dv_id r = d)
          (\<lambda>r. r\<lparr>dv_protocol := Some protocol, dv_updated_at := now\<rparr>) (devices db)\<rparr>
      else db)"

section \<open>One poll\<close>

text \<open>What the world answers during one poll: the runs of \<open>ipmitool\<close> in order (chassis status, sensor,
  sdr, sel list, fru, and sel list again), the clock of each metric, the failure of the FRU upsert,
  the requests that writing each metric makes, the publishes in order, the two clock readings of the
  event and batch messages, and the statements of the status updates.\<close>

record poll_env =
  pe_tool :: "nat \<Rightarrow> ipmitool"
  pe_order :: "string list"
  pe_clock :: "nat \<Rightarrow> nat \<Rightarrow> time"
  pe_fruErr :: "string option"
  pe_net :: "nat \<Rightarrow> nat \<Rightarrow> send_outcome"
  pe_js :: "nat \<Rightarrow> string option"
  pe_sha :: "string \<Rightarrow> string"
  pe_observed :: time
  pe_collected :: time
  pe_dbNow :: time
  pe_ok1 :: bool
  pe_ok2 :: bool

text \<open>\<open>normalizeSEL\<close> and its severity switch, which reads the whole line.\<close>

definition normSeverity :: "string \<Rightarrow> string" where
  "normSeverity lower =
     (if contains lower ''critical'' \<or> contains lower ''non-recoverable'' \<or> contains lower ''failure''
      then ''critical''
      else if contains lower ''warning'' \<or> contains lower ''non-critical'' \<or> contains lower ''degraded''
      then ''warning''
      else ''info'')"

definition normalizeSEL :: "(string \<Rightarrow> string) \<Rightarrow> time \<Rightarrow> string \<Rightarrow> string \<Rightarrow> hardware_event list" where
  "normalizeSEL sha observedAt d selOutput =
     map (\<lambda>line. \<lparr>he_schema = ''v1'', he_device = d, he_occurred = None, he_observed = observedAt,
           he_source = ''ipmi'', he_component = ''system'', he_type = ''sel'',
           he_severity = normSeverity (toLower line), he_message = line, he_class = [],
           he_raw = [(''line'', JStr line)], he_dedupe = sha line\<rparr>)
       (filter (\<lambda>line. line \<noteq> [] \<and> \<not> hasPrefix line ''SEL has no entries'')
         (map trimSpace (splitOn newline selOutput)))"

text \<open>The loop that pushes the metrics; an error of one is logged and the loop goes on.\<close>

fun pushMetrics :: "(nat \<Rightarrow> nat \<Rightarrow> send_outcome) \<Rightarrow> nat \<Rightarrow> metric list \<Rightarrow> vm_writer \<Rightarrow> vm_writer" where
  "pushMetrics net k [] w = w"
| "pushMetrics net k (m # ms) w =
     pushMetrics net (k + 1) ms (fst (WriteMetric (net k) w (m_name m) (m_value m) (m_labels m) (m_time m)))"

fun publishEvents ::
  "(string \<Rightarrow> string) \<Rightarrow> (nat \<Rightarrow> string option) \<Rightarrow> nat \<Rightarrow> hardware_event list \<Rightarrow> message list \<Rightarrow> message list" where
  "publishEvents sha js k [] strm = strm"
| "publishEvents sha js k (ev # evs) strm =
     publishEvents sha js (k + 1) evs (storeOk strm (PublishEvent sha (js k) ev))"

text \<open>The three parts of a poll that passed its two mandatory commands: the metrics it gathered, the
  messages it published.\<close>

definition supplementary :: "poll_env \<Rightarrow> device \<Rightarrow> metric list" where
  "supplementary env d = (case runSELList (pe_tool env 3) (pe_order env) d (pe_clock env 3) of
     Inl _ \<Rightarrow> [] | Inr ms \<Rightarrow> ms)"

definition pollEvents :: "poll_env \<Rightarrow> device \<Rightarrow> hardware_event list" where
  "pollEvents env d =
     (case ExecuteIPMIToolWithPort (pe_tool env 5) (BMCIPAddress d) (Port d) (Username d) (Password d)
         [''sel'', ''list''] of
        Inl _ \<Rightarrow> [] | Inr selOutput \<Rightarrow> normalizeSEL (pe_sha env) (pe_observed env) (ID d) selOutput)"

definition pollBatch :: "poll_env \<Rightarrow> device \<Rightarrow> metric list \<Rightarrow> metrics_batch" where
  "pollBatch env d ms = \<lparr>mb_schema = ''v1'', mb_device = ID d, mb_source = ''ipmi'',
     mb_collected = pe_collected env, mb_samples = ms\<rparr>"

definition PollDevice :: "poll_env \<Rightarrow> device \<Rightarrow> ipmi_collector \<Rightarrow> ipmi_collector \<times> bool" where
  "PollDevice env d c =
     (let offline = (\<lambda>msg. (c\<lparr>ic_db := updateDeviceStatus (pe_ok1 env) (pe_ok2 env) (pe_dbNow env)
            (ID d) ''offline'' msg (ic_db c)\<rparr>, False)) in
      case runChassisStatus (pe_tool env 0) d (pe_clock env 0 0) of
        Inl e \<Rightarrow> offline (''chassis status failed: '' @ e)
      | Inr chassisMetrics \<Rightarrow>
        (case runSensorList (pe_tool env 1) d (pe_clock env 1) of
           Inl e \<Rightarrow> offline (''sensor list failed: '' @ e)
         | Inr sensorMetrics \<Rightarrow>
           (let allMetrics = chassisMetrics @ sensorMetrics @ supplementary env d;
                db1 = fst (runFRU (pe_tool env 4) d (pe_fruErr env) (pe_dbNow env) (ic_db c));
                w1 = pushMetrics (pe_net env) 0 allMetrics (ic_writer c);
                events = pollEvents env d;
                strm1 = (if ic_publisher c
                  then publishEvents (pe_sha env) (pe_js env) 0 events (ic_stream c) else ic_stream c);
                strm2 = (if ic_publisher c \<and> allMetrics \<noteq> []
                  then storeOk strm1 (PublishMetrics (pe_sha env) (pe_js env (length events))
                    (pollBatch env d allMetrics)) else strm1) in
            (c\<lparr>ic_db := db1, ic_writer := w1, ic_stream := strm2\<rparr>, True))))"

text \<open>\<open>PollDeviceWithRetry\<close>: \<open>t0\<close> is the clock in \<open>ShouldRetry\<close>, \<open>t1\<close> and \<open>t2\<close> in \<open>RecordFailure\<close>;
  \<open>ok3\<close> is the success of the statement that changes the protocol.\<close>

record retry_env =
  re_oor :: duration
  re_t0 :: time
  re_t1 :: time
  re_t2 :: time
  re_ok1 :: bool
  re_ok2 :: bool
  re_ok3 :: bool
  re_dbNow :: time

definition PollDeviceWithRetry :: "retry_env \<Rightarrow> poll_env \<Rightarrow> device \<Rightarrow> ipmi_collector \<Rightarrow> ipmi_collector" where
  "PollDeviceWithRetry re env d c =
     (if \<not> ShouldRetry (ic_retry c) (ID d) (re_t0 re) then c
      else case PollDevice env d c of
        (c1, False) \<Rightarrow>
          (let rm = fst (RecordFailure (re_oor re) (ic_retry c1) (ID d) (Hostname d) (re_t1 re) (re_t2 re));
               c2 = c1\<lparr>ic_retry := rm\<rparr> in
           if GetFailureCount rm (ID d) \<ge> 3
           then c2\<lparr>ic_db := setDeviceProtocol (re_ok3 re) (re_dbNow re) (ID d) ''snmp'' (ic_db c2)\<rparr>
           else c2)
      | (c1, True) \<Rightarrow>
          c1\<lparr>ic_retry := RecordSuccess (ic_retry c1) (ID d),
            ic_db := updateCollectorStatusSuccess (re_ok1 re) (re_ok2 re) (re_dbNow re) (ID d) (ic_db c1)\<rparr>)"

text \<open>\<open>pollAllDevices\<close> polls a copy of the device list, each device once, in an order the scheduler
  chooses (\<open>jobs\<close> is a permutation of the devices with what happens in each poll). The polls run in
  goroutines; the model runs each as a whole.\<close>

definition pollAllDevices :: "(retry_env \<times> poll_env \<times> device) list \<Rightarrow> ipmi_collector \<Rightarrow> ipmi_collector" where
  "pollAllDevices jobs c = foldl (\<lambda>c (re, env, d). PollDeviceWithRetry re env d c) c jobs"

section \<open>The two mandatory commands\<close>

definition commandFails :: "ipmitool \<Rightarrow> device \<Rightarrow> string list \<Rightarrow> bool" where
  "commandFails tool d args = (p_error (tool (deviceArgs d @ args)) \<noteq> None)"

lemma runChassisStatus_fails:
  "(\<exists>e. runChassisStatus tool d now = Inl e) = commandFails tool d [''chassis'', ''status'']"
  unfolding runChassisStatus_def runCommand_def commandFails_def
  by (auto simp: Let_def split: option.split sum.split)

lemma runSensorList_fails:
  "(\<exists>e. runSensorList tool d clk = Inl e) = commandFails tool d [''sensor'']"
  unfolding runSensorList_def runCommand_def commandFails_def parseSensorList_def
  by (auto simp: Let_def split: option.split sum.split)

lemma PollDevice_fields:
  "ic_retry (fst (PollDevice env d c)) = ic_retry c"
  "ic_devices (fst (PollDevice env d c)) = ic_devices c"
  "ic_key (fst (PollDevice env d c)) = ic_key c"
  "ic_publisher (fst (PollDevice env d c)) = ic_publisher c"
  unfolding PollDevice_def by (auto simp: Let_def split: sum.split)

lemma PollDevice_ok_iff:
  "snd (PollDevice env d c) \<longleftrightarrow>
     \<not> commandFails (pe_tool env 0) d [''chassis'', ''status''] \<and>
     \<not> commandFails (pe_tool env 1) d [''sensor'']"
  using runChassisStatus_fails [of "pe_tool env 0" d "pe_clock env 0 0"]
    runSensorList_fails [of "pe_tool env 1" d "pe_clock env 1"]
  unfolding PollDevice_def by (auto simp: Let_def split: sum.split)

lemma updateDeviceStatus_frame:
  "device_inventory (updateDeviceStatus a b n i s m db) = device_inventory db"
  "credentials (updateDeviceStatus a b n i s m db) = credentials db"
  unfolding updateDeviceStatus_def by (simp_all add: Let_def)

text \<open>\<open>PollDevice\<close> reports success exactly when the chassis status and sensor commands both end with
  status 0, whatever the sdr, sel and fru commands do; a failed poll pushes and publishes nothing
  and writes only the status of the device.\<close>

theorem PollDevice_succeeds_iff:
  "(snd (PollDevice env d c) \<longleftrightarrow>
     \<not> commandFails (pe_tool env 0) d [''chassis'', ''status''] \<and>
     \<not> commandFails (pe_tool env 1) d [''sensor'']) \<and>
   (snd (PollDevice env d c) \<or>
      ic_writer (fst (PollDevice env d c)) = ic_writer c \<and>
      ic_stream (fst (PollDevice env d c)) = ic_stream c \<and>
      device_inventory (ic_db (fst (PollDevice env d c))) = device_inventory (ic_db c))"
  using PollDevice_ok_iff [of env d c]
  unfolding PollDevice_def by (auto simp: Let_def updateDeviceStatus_frame split: sum.split)

section \<open>The retry schedule of the poll loop\<close>

definition attemptOf :: "retry_env \<Rightarrow> device \<Rightarrow> bool \<Rightarrow> string attempt" where
  "attemptOf re d ok = \<lparr>dev = ID d, host = Hostname d, start = re_t0 re, failed1 = re_t1 re,
     failed2 = re_t2 re, okay = ok\<rparr>"

lemma PollDeviceWithRetry_retry:
  "ic_retry (PollDeviceWithRetry re env d c) =
     ipmi_retry.step (re_oor re) (ic_retry c) (attemptOf re d (snd (PollDevice env d c)))"
  unfolding PollDeviceWithRetry_def ipmi_retry.step_def ipmi_retry.polled_def attemptOf_def
  using PollDevice_fields(1) [of env d c]
  by (auto simp: Let_def split: prod.split bool.split)

text \<open>The outcomes of the polls of a device that the back-off did not skip, in order.\<close>

fun pollOutcomes :: "string \<Rightarrow> ipmi_collector \<Rightarrow> (retry_env \<times> poll_env \<times> device) list \<Rightarrow> bool list" where
  "pollOutcomes k c [] = []"
| "pollOutcomes k c ((re, env, d) # jobs) =
     (if ID d = k \<and> ShouldRetry (ic_retry c) k (re_t0 re) then [snd (PollDevice env d c)] else []) @
     pollOutcomes k (PollDeviceWithRetry re env d c) jobs"

lemma pollAllDevices_simps [simp]:
  "pollAllDevices [] c = c"
  "pollAllDevices ((re, env, d) # jobs) c = pollAllDevices jobs (PollDeviceWithRetry re env d c)"
  unfolding pollAllDevices_def by simp_all

text \<open>C7: After any sequence of polls of any devices, the failure count of a device is the length of the
  run of failures that ends its own polls (zero after a success), and polls of other devices or
  polls that the back-off skipped do not count.\<close>

theorem failure_count_is_streak:
  "GetFailureCount (ic_retry (pollAllDevices jobs c)) k =
     streak (GetFailureCount (ic_retry c) k) (pollOutcomes k c jobs)"
proof (induction jobs arbitrary: c)
  case (Cons job jobs)
  obtain re env d where job: "job = (re, env, d)" by (cases job)
  let ?c1 = "PollDeviceWithRetry re env d c"
  have "GetFailureCount (ic_retry ?c1) k =
      (if ID d = k \<and> ShouldRetry (ic_retry c) (ID d) (re_t0 re)
       then if snd (PollDevice env d c) then 0 else GetFailureCount (ic_retry c) k + 1
       else GetFailureCount (ic_retry c) k)"
    unfolding PollDeviceWithRetry_retry ipmi_retry.count_step
    by (auto simp: attemptOf_def ipmi_retry.polled_def)
  then show ?case using Cons [of ?c1] by (auto simp: job)
qed simp

text \<open>After the n-th failure in a row, n at most 34, the collector leaves the device alone for
  min(2^(n-1), 600) seconds from the recorded failure, as the comment on \<open>RecordFailure\<close> says: a
  poll that starts within that time returns the collector as it was.\<close>

theorem backoff_window:
  assumes "ShouldRetry (ic_retry c) (ID d) (re_t0 re)" "\<not> snd (PollDevice env d c)"
    and "n = GetFailureCount (ic_retry c) (ID d) + 1" "n \<le> 34"
    and "re_t0 re' \<le> re_t2 re + min (2 ^ (n - 1)) 600 * 1000000000"
    and "ID d' = ID d"
  shows "PollDeviceWithRetry re' env' d' (PollDeviceWithRetry re env d c) = PollDeviceWithRetry re env d c"
proof -
  let ?rm = "fst (RecordFailure (re_oor re) (ic_retry c) (ID d) (Hostname d) (re_t1 re) (re_t2 re))"
  have rm: "ic_retry (PollDeviceWithRetry re env d c) = ?rm"
    unfolding PollDeviceWithRetry_retry using assms(1,2)
    by (simp add: ipmi_retry.step_def ipmi_retry.polled_def attemptOf_def)
  have "ipmi_due ?rm (ID d) = Some (re_t2 re + min (2 ^ (n - 1)) 600 * 1000000000)"
    using backoff_delay_exact [of n "re_oor re"] assms(3,4)
    by (simp add: ipmi_retry.due_fail)
  then have "\<not> ShouldRetry ?rm (ID d) (re_t0 re')"
    using assms(5) by (simp add: ipmi_retry.should_iff)
  with rm assms(6) show ?thesis by (simp add: PollDeviceWithRetry_def [of re' env'])
qed

text \<open>The cap of ten minutes fails for long outages: at the 35th failure in a row the delay wraps to
  a negative number, and a poll that starts at the recorded failure time or later is not held
  back.\<close>

theorem backoff_wraps_at_35:
  assumes "ShouldRetry (ic_retry c) (ID d) (re_t0 re)" "\<not> snd (PollDevice env d c)"
    and "GetFailureCount (ic_retry c) (ID d) = 34" "re_t2 re \<le> now"
  shows "ShouldRetry (ic_retry (PollDeviceWithRetry re env d c)) (ID d) now"
proof -
  let ?rm = "fst (RecordFailure (re_oor re) (ic_retry c) (ID d) (Hostname d) (re_t1 re) (re_t2 re))"
  have "ic_retry (PollDeviceWithRetry re env d c) = ?rm"
    unfolding PollDeviceWithRetry_retry using assms(1,2)
    by (simp add: ipmi_retry.step_def ipmi_retry.polled_def attemptOf_def)
  moreover have "ipmi_due ?rm (ID d) = Some (re_t2 re - 1266874889709551616)"
    using backoff_delay_35 [of "re_oor re"] assms(3) by (simp add: ipmi_retry.due_fail)
  ultimately show ?thesis using assms(4) by (simp add: ipmi_retry.should_iff)
qed

section \<open>A device that does not answer, for examples\<close>

definition deadTool :: ipmitool where
  "deadTool args = \<lparr>p_stdout = [], p_stderr = ''no response'', p_combined = ''no response'',
     p_error = Some (Exited 1 ''exit status 1'')\<rparr>"

definition exDevice :: device where
  "exDevice = \<lparr>ID = ''d1'', Hostname = ''web'', IPAddress = ''10.0.0.5'', BMCIPAddress = ''10.0.0.5'',
     Port = 623, Username = ''root'', Password = ''x'', Protocol = ''ipmi'', Status = ''online''\<rparr>"

definition deadEnv :: poll_env where
  "deadEnv = \<lparr>pe_tool = \<lambda>_. deadTool, pe_order = severities, pe_clock = \<lambda>_ _. 0, pe_fruErr = None,
     pe_net = \<lambda>_ _. Response 204 [], pe_js = \<lambda>_. None, pe_sha = \<lambda>s. s, pe_observed = 0,
     pe_collected = 0, pe_dbNow = 0, pe_ok1 = True, pe_ok2 = True\<rparr>"

definition retryAt :: "time \<Rightarrow> retry_env" where
  "retryAt t = \<lparr>re_oor = 0, re_t0 = t, re_t1 = t, re_t2 = t, re_ok1 = True, re_ok2 = True,
     re_ok3 = True, re_dbNow = t\<rparr>"

definition exDb :: database where
  "exDb = \<lparr>devices = [\<lparr>dv_id = ''d1'', dv_hostname = ''web'', dv_ip = \<lparr>in_addr = ''10.0.0.5'', in_plen = 32\<rparr>,
     dv_bmc_ip = None, dv_type = ''server'', dv_protocol = Some ''ipmi'', dv_status = ''online'',
     dv_last_seen = None, dv_updated_at = 0\<rparr>], credentials = [], collector_status = [],
     device_inventory = [], device_nics = [], device_disks = []\<rparr>"

definition exCollector :: "nat \<Rightarrow> ipmi_collector" where
  "exCollector n = \<lparr>ic_db = exDb, ic_writer = NewVictoriaMetricsWriter 100, ic_publisher = True,
     ic_stream = [], ic_retry = (if n = 0 then NewRetryManager
       else NewRetryManager(''d1'' \<mapsto> \<lparr>retry_state.deviceID = ''d1'', hostname = ''web'',
         failureCount = n, lastAttempt = 0, nextAttempt = 0\<rparr>)),
     ic_devices = [exDevice], ic_key = []\<rparr>"

lemma deadEnv_fails: "\<not> snd (PollDevice deadEnv exDevice c)"
  unfolding PollDevice_ok_iff by (simp add: deadEnv_def deadTool_def commandFails_def)

lemma exCollector_simps:
  "ID exDevice = ''d1''" "re_t0 (retryAt t) = t" "re_t2 (retryAt t) = t" "re_ok3 (retryAt t) = True"
  "0 < t \<Longrightarrow> ShouldRetry (ic_retry (exCollector n)) ''d1'' t"
  "GetFailureCount (ic_retry (exCollector n)) ''d1'' = n"
  unfolding exDevice_def retryAt_def exCollector_def ShouldRetry_def GetFailureCount_def
    NewRetryManager_def by simp_all

theorem backoff_window_witness:
  "let c = PollDeviceWithRetry (retryAt 5) deadEnv exDevice (exCollector 3) in
   PollDeviceWithRetry (retryAt 8000000005) deadEnv exDevice c = c"
  unfolding Let_def
  by (rule backoff_window [where n = 4]) (simp_all add: exCollector_simps deadEnv_fails)

theorem backoff_wraps_at_35_witness:
  "ShouldRetry (ic_retry (PollDeviceWithRetry (retryAt 5) deadEnv exDevice (exCollector 34))) ''d1'' 5"
  using backoff_wraps_at_35 [of "exCollector 34" exDevice "retryAt 5" deadEnv 5]
  by (simp add: exCollector_simps deadEnv_fails)

section \<open>Fallback to SNMP\<close>

lemma updateWhere_row:
  assumes "r \<in> set (updateWhere P f rows)"
  shows "\<exists>r0 \<in> set rows. r = (if P r0 then f r0 else r0)"
  using assms unfolding updateWhere_def by auto

lemma setDeviceProtocol_rows:
  assumes "p \<noteq> []" "r \<in> set (devices (setDeviceProtocol True now k p db))" "dv_id r = k"
  shows "dv_protocol r = Some p \<and> (\<exists>r0 \<in> set (devices db). dv_id r0 = k \<and> dv_type r0 = dv_type r)"
proof -
  let ?f = "\<lambda>r. r\<lparr>dv_protocol := Some p, dv_updated_at := now\<rparr>"
  have "r \<in> set (updateWhere (\<lambda>r. dv_id r = k) ?f (devices db))"
    using assms(1,2) unfolding setDeviceProtocol_def by simp
  from updateWhere_row [OF this] obtain r0 where r0: "r0 \<in> set (devices db)"
      "r = (if dv_id r0 = k then ?f r0 else r0)" by blast
  with assms(3) have "dv_id r0 = k" by (cases "dv_id r0 = k") simp_all
  with r0 show ?thesis by auto
qed

lemma updateDeviceStatus_rows:
  assumes "r \<in> set (devices (updateDeviceStatus a b n i s m db))"
  shows "\<exists>r0 \<in> set (devices db). dv_id r0 = dv_id r \<and> dv_type r0 = dv_type r \<and> dv_protocol r0 = dv_protocol r"
proof (cases a)
  case True
  let ?f = "\<lambda>r. if m \<noteq> [] then r\<lparr>dv_status := s, dv_updated_at := n\<rparr>
     else r\<lparr>dv_status := s, dv_last_seen := Some n, dv_updated_at := n\<rparr>"
  have "r \<in> set (updateWhere (\<lambda>r. dv_id r = i) ?f (devices db))"
    using assms True unfolding updateDeviceStatus_def by (cases b) (simp_all add: Let_def)
  from updateWhere_row [OF this] obtain r0 where "r0 \<in> set (devices db)"
      "r = (if dv_id r0 = i then ?f r0 else r0)" by blast
  then show ?thesis by (intro bexI [of _ r0]) auto
next
  case False
  with assms show ?thesis unfolding updateDeviceStatus_def by (cases b) (auto simp: Let_def)
qed

lemma loadRow_ID:
  "loadRow g key (d, pw) = Some d' \<Longrightarrow> ID d' = ID d \<and> BMCIPAddress d' = BMCIPAddress d"
  unfolding loadRow_def by (auto split: if_splits sum.splits)

lemma ipmiRow_ID:
  "(d, pw) \<in> set (ipmiRow creds r) \<Longrightarrow> ID d = dv_id r \<and>
     BMCIPAddress d = (case dv_bmc_ip r of Some b \<Rightarrow> inet_text b | None \<Rightarrow> inet_text (dv_ip r))"
  unfolding ipmiRow_def by (auto simp: Let_def split: if_splits)

lemma loaded_from_row:
  assumes "d \<in> set (ic_devices (fst (loadDevices g None None c)))"
  shows "\<exists>r \<in> set (devices (ic_db c)). ipmiSelected r \<and> ID d = dv_id r \<and>
     BMCIPAddress d = (case dv_bmc_ip r of Some b \<Rightarrow> inet_text b | None \<Rightarrow> inet_text (dv_ip r))"
proof -
  from assms obtain d0 pw r where "r \<in> set (devices (ic_db c))" "ipmiSelected r"
      "(d0, pw) \<in> set (ipmiRow (credentials (ic_db c)) r)" "loadRow g (ic_key c) (d0, pw) = Some d"
    unfolding loadDevices_def by (auto simp: set_map_filter)
  then show ?thesis using loadRow_ID ipmiRow_ID by (metis)
qed

text \<open>The third failed poll in a row hands the device over: when the statement that changes the
  protocol succeeds, the next successful reload of the devices no longer has the device, unless its
  type names it as an IPMI device.\<close>

theorem third_failure_falls_back:
  assumes "ShouldRetry (ic_retry c) (ID d) (re_t0 re)" "\<not> snd (PollDevice env d c)"
    and "GetFailureCount (ic_retry c) (ID d) \<ge> 2" "re_ok3 re"
    and "\<forall>r \<in> set (devices (ic_db c)). dv_id r = ID d \<longrightarrow> \<not> ipmiType (dv_type r)"
    and "loadDevices g None None (PollDeviceWithRetry re env d c) = (c', None)"
  shows "\<forall>d' \<in> set (ic_devices c'). ID d' \<noteq> ID d"
proof
  fix d' assume d': "d' \<in> set (ic_devices c')"
  let ?c1 = "fst (PollDevice env d c)"
  have cnt: "GetFailureCount (fst (RecordFailure (re_oor re) (ic_retry ?c1) (ID d) (Hostname d)
      (re_t1 re) (re_t2 re))) (ID d) \<ge> 3"
    using assms(3) PollDevice_fields(1) [of env d c] by (simp add: ipmi_retry.count_fail)
  have db: "ic_db (PollDeviceWithRetry re env d c) =
      setDeviceProtocol True (re_dbNow re) (ID d) ''snmp'' (ic_db ?c1)"
    using assms(1,2,4) cnt unfolding PollDeviceWithRetry_def
    by (cases "PollDevice env d c") (auto simp: Let_def)
  have st: "\<exists>m. ic_db ?c1 = updateDeviceStatus (pe_ok1 env) (pe_ok2 env) (pe_dbNow env) (ID d)
      ''offline'' m (ic_db c)"
    using assms(2) unfolding PollDevice_def by (auto simp: Let_def split: sum.splits)
  have "d' \<in> set (ic_devices (fst (loadDevices g None None (PollDeviceWithRetry re env d c))))"
    using d' assms(6) by simp
  then obtain r where r: "r \<in> set (devices (ic_db (PollDeviceWithRetry re env d c)))"
      "ipmiSelected r" "ID d' = dv_id r"
    using loaded_from_row by blast
  show "ID d' \<noteq> ID d"
  proof
    assume "ID d' = ID d"
    with r have k: "dv_id r = ID d" by simp
    from setDeviceProtocol_rows [OF _ r(1) [unfolded db] k] obtain r0 where
      p: "dv_protocol r = Some ''snmp''" and r0: "r0 \<in> set (devices (ic_db ?c1))" "dv_id r0 = ID d"
        "dv_type r0 = dv_type r" by auto
    from st r0(1) obtain r1 where "r1 \<in> set (devices (ic_db c))" "dv_id r1 = ID d"
        "dv_type r1 = dv_type r"
      using updateDeviceStatus_rows r0(2,3) by metis
    with assms(5) p have "\<not> ipmiSelected r" unfolding ipmiSelected_def by auto
    with r(2) show False by simp
  qed
qed

theorem third_failure_falls_back_witness:
  "\<exists>c'. loadDevices (\<lambda>_ _ _. None) None None
      (PollDeviceWithRetry (retryAt 5) deadEnv exDevice (exCollector 2)) = (c', None) \<and>
    (\<forall>d' \<in> set (ic_devices c'). ID d' \<noteq> ''d1'')"
proof -
  obtain c' where c': "loadDevices (\<lambda>_ _ _. None) None None
      (PollDeviceWithRetry (retryAt 5) deadEnv exDevice (exCollector 2)) = (c', None)"
    unfolding loadDevices_def by simp
  have "\<not> ipmiType ''server''" by code_simp
  then have "\<forall>r \<in> set (devices (ic_db (exCollector 2))). dv_id r = ID exDevice \<longrightarrow> \<not> ipmiType (dv_type r)"
    by (simp add: exCollector_def exDb_def)
  from third_failure_falls_back [OF _ deadEnv_fails _ _ this c'] c' show ?thesis
    by (simp add: exCollector_simps)
qed

section \<open>Addresses loaded with their netmask\<close>

lemma inet_text_invalid: "validateIPMIInput (inet_text i) \<noteq> None"
proof -
  have "\<not> ipmi_char CHR ''/''" by code_simp
  then show ?thesis unfolding validateIPMIInput_def inet_text_def by simp
qed

text \<open>A device that \<open>loadDevices\<close> loads has the text of an \<open>inet\<close> as its BMC address, which ends in
  "/32" or another netmask length; \<open>ExecuteIPMIToolWithPort\<close> refuses such a host, so the poll of a
  loaded device never finds an event log entry to publish.\<close>

theorem loaded_device_never_publishes_events:
  assumes "d \<in> set (ic_devices (fst (loadDevices g None None c)))"
  shows "pollEvents env d = [] \<and>
    (\<exists>e. ExecuteIPMIToolWithPort tool (BMCIPAddress d) port u p args = Inl (''invalid host: '' @ e))"
proof -
  obtain i where i: "BMCIPAddress d = inet_text i"
    using loaded_from_row [OF assms] by (auto split: option.splits)
  obtain e where "validateIPMIInput (BMCIPAddress d) = Some e"
    using inet_text_invalid [of i] i by auto
  then show ?thesis unfolding pollEvents_def ExecuteIPMIToolWithPort_def by simp
qed

theorem loaded_device_never_publishes_events_witness:
  "\<exists>d. d \<in> set (ic_devices (fst (loadDevices (\<lambda>_ _ _. None) None None (exCollector 0)))) \<and>
     pollEvents deadEnv d = []"
proof -
  have "\<exists>d. d \<in> set (ic_devices (fst (loadDevices (\<lambda>_ _ _. None) None None (exCollector 0))))"
    by (simp add: loadDevices_def exCollector_def exDb_def ipmiSelected_def ipmiRow_def
        List.map_filter_simps loadRow_def inet_text_def)
  then obtain d where "d \<in> set (ic_devices (fst (loadDevices (\<lambda>_ _ _. None) None None (exCollector 0))))" ..
  with loaded_device_never_publishes_events [OF this] show ?thesis by blast
qed

section \<open>Published messages\<close>

lemma normalizeSEL_dedupe:
  "ev \<in> set (normalizeSEL sha t d out) \<Longrightarrow>
     he_dedupe ev = sha (he_message ev) \<and> he_device ev = d \<and> he_message ev \<noteq> []"
  unfolding normalizeSEL_def by auto

text \<open>The deduplication key of an event log line does not depend on the device: when two devices
  report the same line, the event published second is acknowledged and not stored, although the
  table behind the stream would keep both.\<close>

theorem same_line_stored_once:
  assumes "ev1 \<in> set (normalizeSEL sha ta da outa)" "ev2 \<in> set (normalizeSEL sha tb db outb)"
    and "he_message ev1 = he_message ev2" "sha (he_message ev1) \<noteq> []"
  shows "storeOk (storeOk strm (PublishEvent sha None ev1)) (PublishEvent sha None ev2) =
    storeOk strm (PublishEvent sha None ev1)"
  using normalizeSEL_dedupe [OF assms(1)] normalizeSEL_dedupe [OF assms(2)] assms(3,4)
  unfolding PublishEvent_def storeOk_def by (simp add: Let_def stored_same)

theorem same_line_stored_once_witness:
  "\<exists>ev1 ev2. he_device ev1 = ''d1'' \<and> he_device ev2 = ''d2'' \<and>
     storeOk (storeOk [] (PublishEvent (\<lambda>s. s) None ev1)) (PublishEvent (\<lambda>s. s) None ev2) =
     storeOk [] (PublishEvent (\<lambda>s. s) None ev1)"
proof -
  have lines: "filter (\<lambda>line. line \<noteq> [] \<and> \<not> hasPrefix line ''SEL has no entries'')
      (map trimSpace (splitOn newline ''Fan'')) = [''Fan'']" by code_simp
  define ev where "ev = (\<lambda>d. hd (normalizeSEL (\<lambda>s. s) 0 d ''Fan''))"
  have ev: "ev d \<in> set (normalizeSEL (\<lambda>s. s) 0 d ''Fan'')" "he_message (ev d) = ''Fan''"
      "he_device (ev d) = d" for d
    unfolding ev_def normalizeSEL_def lines by simp_all
  have "storeOk (storeOk [] (PublishEvent (\<lambda>s. s) None (ev ''d1''))) (PublishEvent (\<lambda>s. s) None (ev ''d2'')) =
      storeOk [] (PublishEvent (\<lambda>s. s) None (ev ''d1''))"
    by (rule same_line_stored_once [OF ev(1) ev(1)]) (simp_all add: ev(2))
  with ev(3) show ?thesis by blast
qed

text \<open>One reading that is not a finite number keeps the whole batch of a poll off the stream:
  encoding fails, the error is dropped, and no metric of that poll is published.\<close>

theorem non_finite_reading_loses_batch:
  assumes "m \<in> set ms" "\<not> encodable (m_value m)"
  shows "storeOk strm (PublishMetrics sha answer (pollBatch env d ms)) = strm"
proof -
  have "\<not> list_all (\<lambda>m. encodable (m_value m)) ms" using assms by (auto simp: list_all_iff)
  then show ?thesis unfolding PublishMetrics_def pollBatch_def storeOk_def by simp
qed

theorem non_finite_reading_loses_batch_witness:
  "let m = \<lparr>m_name = ''x'', m_value = fst (parse_float ''NaN''), m_labels = [], m_time = 0\<rparr> in
   storeOk [] (PublishMetrics (\<lambda>s. s) None (pollBatch deadEnv exDevice [m])) = []"
proof -
  have "parse_float ''NaN'' = (NaN, True)" by code_simp
  then show ?thesis unfolding Let_def by (intro non_finite_reading_loses_batch) (auto simp: encodable_def)
qed

section \<open>Polls of different devices do not interfere in the database\<close>

lemma findBy_updateWhere_other:
  assumes "j \<noteq> k" "\<And>r. dv_id (f r) = dv_id r"
  shows "filter (\<lambda>r. dv_id r = j) (updateWhere (\<lambda>r. dv_id r = k) f rows) = filter (\<lambda>r. dv_id r = j) rows"
  unfolding updateWhere_def using assms by (induction rows) auto

definition ipmiStatusNew :: "string \<Rightarrow> string \<times> string \<times> time \<Rightarrow> status_row" where
  "ipmiStatusNew name v = (case v of (status, errorMsg, now) \<Rightarrow>
     \<lparr>cs_name = name, cs_type = ''ipmi'', cs_status = status, cs_last_poll = Some now,
      cs_last_success = None, cs_last_error = Some errorMsg, cs_updated_at = now\<rparr>)"

definition ipmiStatusMerge :: "string \<times> string \<times> time \<Rightarrow> status_row \<Rightarrow> status_row" where
  "ipmiStatusMerge v r = (case v of (status, errorMsg, now) \<Rightarrow>
     r\<lparr>cs_status := status, cs_last_poll := Some now, cs_last_error := Some errorMsg,
       cs_updated_at := now\<rparr>)"

lemma ipmiStatusUpsert_eq:
  "ipmiStatusUpsert name status errorMsg now =
     upsertBy cs_name (ipmiStatusNew name (status, errorMsg, now)) (ipmiStatusMerge (status, errorMsg, now))"
  unfolding ipmiStatusUpsert_def ipmiStatusNew_def ipmiStatusMerge_def by auto

lemma ipmiStatus_keys:
  "cs_name (ipmiStatusNew name v) = name" "cs_name (ipmiStatusMerge v r) = cs_name r"
  unfolding ipmiStatusNew_def ipmiStatusMerge_def by (auto split: prod.split)

interpretation ipmi_status: keyed_table "\<lambda>rows k. findBy cs_name k rows"
  "\<lambda>rows k (status, errorMsg, now). ipmiStatusUpsert k status errorMsg now rows"
  ipmiStatusNew ipmiStatusMerge
proof unfold_locales
  show "findBy cs_name j (case v of (status, errorMsg, now) \<Rightarrow> ipmiStatusUpsert k status errorMsg now t) =
      (if j = k then Some (case findBy cs_name k t of None \<Rightarrow> ipmiStatusNew k v | Some r \<Rightarrow> ipmiStatusMerge v r)
       else findBy cs_name j t)" for t k v j
    by (cases v) (auto simp: ipmiStatusUpsert_eq findBy_upsert ipmiStatus_keys)
qed (auto simp: ipmiStatusNew_def ipmiStatusMerge_def split: prod.split)

text \<open>What the database holds about one device.\<close>

definition aboutDevice :: "string \<Rightarrow> database \<Rightarrow>
  device_row list \<times> status_row option \<times> inventory_row option" where
  "aboutDevice k db = (filter (\<lambda>r. dv_id r = k) (devices db),
     findBy cs_name (collectorName k) (collector_status db),
     findBy iv_device_id k (device_inventory db))"

lemma aboutDevice_other:
  assumes "k \<noteq> d"
  shows "aboutDevice k (updateDeviceStatus a b n d s m db) = aboutDevice k db"
    "aboutDevice k (updateCollectorStatusSuccess a b n d db) = aboutDevice k db"
    "aboutDevice k (setDeviceProtocol a n d p db) = aboutDevice k db"
    "aboutDevice k (fst (runFRU tool dd e n db)) = aboutDevice k db \<or> ID dd = k"
proof -
  have st: "findBy cs_name (collectorName k)
      (ipmiStatusUpsert (collectorName d) s m n rows) = findBy cs_name (collectorName k) rows"
    for rows using ipmi_status.get_put [where t = rows and k = "collectorName d"
      and v = "(s, m, n)" and j = "collectorName k"] assms by simp
  have su: "findBy cs_name (collectorName k)
      (ipmiStatusSuccess (collectorName d) n rows) = findBy cs_name (collectorName k) rows"
    for rows unfolding ipmiStatusSuccess_def using assms by (subst findBy_upsert) auto
  note upd = findBy_updateWhere_other [OF assms]
  show "aboutDevice k (updateDeviceStatus a b n d s m db) = aboutDevice k db"
    unfolding aboutDevice_def updateDeviceStatus_def
    by (auto simp: Let_def st intro!: upd)
  show "aboutDevice k (updateCollectorStatusSuccess a b n d db) = aboutDevice k db"
    unfolding aboutDevice_def updateCollectorStatusSuccess_def
    by (auto simp: Let_def su intro!: upd)
  show "aboutDevice k (setDeviceProtocol a n d p db) = aboutDevice k db"
    unfolding aboutDevice_def setDeviceProtocol_def by (auto intro!: upd)
  show "aboutDevice k (fst (runFRU tool dd e n db)) = aboutDevice k db \<or> ID dd = k"
    unfolding aboutDevice_def runFRU_def
    by (auto simp: fruUpsert_eq findBy_upsert fruMerge_def fruNewRow_def split: sum.split option.split prod.split)
qed

lemma PollDevice_db:
  "ic_db (fst (PollDevice env d c)) \<in>
     insert (fst (runFRU (pe_tool env 4) d (pe_fruErr env) (pe_dbNow env) (ic_db c)))
       (range (\<lambda>msg. updateDeviceStatus (pe_ok1 env) (pe_ok2 env) (pe_dbNow env) (ID d) ''offline'' msg (ic_db c)))"
  unfolding PollDevice_def by (auto simp: Let_def split: sum.split)

text \<open>A poll of one device, whatever happens in it, leaves everything the database holds about
  another device and that device's retry state as they were.\<close>

theorem poll_isolation:
  assumes "ID d \<noteq> k"
  shows "aboutDevice k (ic_db (PollDeviceWithRetry re env d c)) = aboutDevice k (ic_db c) \<and>
    ic_retry (PollDeviceWithRetry re env d c) k = ic_retry c k"
proof -
  from assms have "k \<noteq> ID d" by simp
  note other = aboutDevice_other [OF this]
  have 1: "aboutDevice k (ic_db (fst (PollDevice env d c))) = aboutDevice k (ic_db c)"
    using PollDevice_db [of env d c] other(1) other(4) [of "pe_tool env 4" d] assms by auto
  have "ic_retry (PollDeviceWithRetry re env d c) k = ic_retry c k"
    using assms PollDevice_fields(1) [of env d c] unfolding PollDeviceWithRetry_def
    by (auto simp: Let_def RecordFailure_def RecordSuccess_def split: prod.split bool.split)
  moreover have "aboutDevice k (ic_db (PollDeviceWithRetry re env d c)) = aboutDevice k (ic_db c)"
    using 1 unfolding PollDeviceWithRetry_def
    by (auto simp: Let_def other split: prod.split bool.split)
  ultimately show ?thesis by simp
qed

theorem poll_isolation_witness:
  "ic_retry (PollDeviceWithRetry (retryAt 5) deadEnv exDevice (exCollector 1)) ''d2'' = None"
  using poll_isolation [of exDevice "''d2''" "retryAt 5" deadEnv "exCollector 1"]
  by (simp add: exCollector_simps) (simp add: exCollector_def NewRetryManager_def)

section \<open>Keys\<close>

definition b64_alphabet :: "char \<Rightarrow> bool" where
  "b64_alphabet c = (b64_val c \<noteq> None)"

lemma b64_alphabet_not_pad: "b64_alphabet c \<Longrightarrow> c \<noteq> CHR ''='' \<and> c \<noteq> newline \<and> c \<noteq> creturn"
proof -
  have "\<not> b64_alphabet CHR ''=''" "\<not> b64_alphabet newline" "\<not> b64_alphabet creturn" by code_simp+
  then show "b64_alphabet c \<Longrightarrow> ?thesis" by auto
qed

lemma b64_quads_length:
  "list_all b64_alphabet s \<Longrightarrow> length s = 4 * n \<Longrightarrow> \<exists>b. b64_quads s = Some b \<and> length b = 3 * n"
proof (induction n arbitrary: s)
  case (Suc n)
  then obtain p q r u rest where s: "s = p # q # r # u # rest"
    by (cases s; cases "tl s"; cases "tl (tl s)"; cases "tl (tl (tl s))") auto
  with Suc.prems Suc.IH [of rest] obtain b where "b64_quads rest = Some b" "length b = 3 * n" by auto
  moreover have "b64_val p \<noteq> None" "b64_val q \<noteq> None" "b64_val r \<noteq> None" "b64_val u \<noteq> None"
      "r \<noteq> CHR ''=''" "u \<noteq> CHR ''=''"
    using Suc.prems(1) b64_alphabet_not_pad unfolding s by (auto simp: b64_alphabet_def)
  ultimately show ?case unfolding s by (auto split: option.split)
qed simp

text \<open>A raw key of 32 characters, as the backend requires, is not used by the IPMI collector when its
  characters are all of the base 64 alphabet (letters and digits, say): it decodes to 24 bytes, is
  refused, and credentials are then passed on undecrypted.\<close>

theorem alphanumeric_key_discarded:
  assumes "length keyStr = 32" "list_all b64_alphabet keyStr"
  shows "encryptionKeyOf keyStr = [] \<and>
    decrypt gcmOpen (encryptionKeyOf keyStr) stored_password = Inr stored_password"
proof -
  have "filter (\<lambda>c. c \<noteq> newline \<and> c \<noteq> creturn) keyStr = keyStr"
    by (rule filter_True) (use assms(2) b64_alphabet_not_pad in \<open>auto simp: list_all_iff\<close>)
  with b64_quads_length [OF assms(2), of 8] assms(1) obtain b where
    "b64_decode keyStr = Some b" "length b = 24" unfolding b64_decode_def by auto
  then have "encryptionKeyOf keyStr = []" unfolding encryptionKeyOf_def by simp
  then show ?thesis by (simp add: decrypt_def)
qed

theorem alphanumeric_key_discarded_witness:
  "encryptionKeyOf ''0123456789abcdef0123456789abcdef'' = []"
proof -
  have "list_all b64_alphabet ''0123456789abcdef0123456789abcdef''" by code_simp
  from conjunct1 [OF alphanumeric_key_discarded [OF _ this]] show ?thesis by simp
qed

end
