(* ===== verification/Collectors.thy ===== *)
theory Collectors
  imports Query IpmiPoll "HOL-Library.List_Lexorder" "HOL-Library.Char_ord"
begin

text \<open>
  The health of the collectors as the API server sees it:
  \<open>backend/internal/db/collector_status_repository.go\<close>, the handlers of
  \<open>backend/internal/api/handlers/collector_handler.go\<close> and the monitor of
  \<open>backend/internal/api/routes.go\<close>, on the table that the collectors write (theory Db), here with the
  column of the id. Names are ordered by their bytes.
\<close>

section \<open>The repository\<close>

record collector_row = status_row +
  cs_id :: string

record collector_filter =
  clf_Status :: "string option"
  clf_CollectorType :: "string option"
  clf_Page :: int
  clf_PageSize :: int

definition collector_GetByID :: "db_error \<Rightarrow> string \<Rightarrow> collector_row list \<Rightarrow> collector_row result" where
  "collector_GetByID dbErr i rows = (case dbErr of
     Some e \<Rightarrow> Inl (''failed to get collector: '' @ e)
   | None \<Rightarrow> (case findBy cs_id i rows of None \<Rightarrow> Inl ''collector not found'' | Some r \<Rightarrow> Inr r))"

datatype collector_cond = StatusIs | TypeIs

definition collectorFields :: "collector_filter \<Rightarrow> (collector_cond \<times> sqlval option) list" where
  "collectorFields f = [(StatusIs, map_option VText (clf_Status f)), (TypeIs, map_option VText (clf_CollectorType f))]"

definition collectorCond :: "collector_cond \<Rightarrow> sqlval \<Rightarrow> collector_row \<Rightarrow> bool" where
  "collectorCond c v r = (case (c, v) of
       (StatusIs, VText s) \<Rightarrow> cs_status r = s | (TypeIs, VText s) \<Rightarrow> cs_type r = s | _ \<Rightarrow> False)"

definition collectorSelected :: "collector_filter \<Rightarrow> collector_row \<Rightarrow> bool" where
  "collectorSelected f r = (case addAll (collectorFields f) emptyBuilder of
     (cs, args, pos) \<Rightarrow> (\<forall>(c, v) \<in> set (readClauses cs args). collectorCond c v r))"

definition collector_List ::
  "db_error \<Rightarrow> db_error \<Rightarrow> collector_filter \<Rightarrow> collector_row list \<Rightarrow> (collector_row list \<times> int) result" where
  "collector_List e1 e2 f rows = listRows ''collectors'' e1 e2 (collectorSelected f) (sort_key cs_name)
     (clf_Page f) (clf_PageSize f) rows"

definition staleAfter :: time where
  "staleAfter = 10 * 60 * 1000000000"

definition isStale :: "time \<Rightarrow> 'a status_row_scheme \<Rightarrow> bool" where
  "isStale now r = (cs_status r \<noteq> ''unhealthy'' \<and> cs_updated_at r < now - staleAfter)"

definition MarkStaleCollectorsUnhealthy ::
  "db_error \<Rightarrow> time \<Rightarrow> 'a status_row_scheme list \<Rightarrow> 'a status_row_scheme list \<times> int result" where
  "MarkStaleCollectorsUnhealthy dbErr now rows = (case dbErr of
     Some e \<Rightarrow> (rows, Inl (''failed to mark stale collectors unhealthy: '' @ e))
   | None \<Rightarrow> (updateWhere (isStale now) (\<lambda>r. r\<lparr>cs_status := ''unhealthy'', cs_updated_at := now\<rparr>) rows,
       Inr (int (length (filter (isStale now) rows)))))"

text \<open>The monitor: one run each minute, whose error is only logged.\<close>

fun healthMonitor :: "(db_error \<times> time) list \<Rightarrow> 'a status_row_scheme list \<Rightarrow> 'a status_row_scheme list" where
  "healthMonitor [] rows = rows"
| "healthMonitor ((e, now) # ticks) rows = healthMonitor ticks (fst (MarkStaleCollectorsUnhealthy e now rows))"

section \<open>Handlers\<close>

definition ListCollectors ::
  "db_error \<Rightarrow> db_error \<Rightarrow> (string \<Rightarrow> string) \<Rightarrow> collector_row list \<Rightarrow> collector_row list api_reply" where
  "ListCollectors e1 e2 q rows =
     (let txt = (\<lambda>s. if s = [] then None else Some s);
          f = \<lparr>clf_Status = txt (q ''status''), clf_CollectorType = txt (q ''collector_type''),
            clf_Page = positiveOr 1 (q ''page''), clf_PageSize = positiveOr 20 (q ''page_size'')\<rparr> in
      case collector_List e1 e2 f rows of
        Inl e \<Rightarrow> InternalError ''Failed to list collectors''
      | Inr (rs, n) \<Rightarrow> Paginated rs \<lparr>pm_page = clf_Page f, pm_page_size = clf_PageSize f, pm_total = n\<rparr>)"

definition GetCollector :: "db_error \<Rightarrow> string option \<Rightarrow> collector_row list \<Rightarrow> collector_row api_reply" where
  "GetCollector dbErr param rows = (case param of
     None \<Rightarrow> BadRequest ''Invalid collector ID'' ''INVALID_ID''
   | Some i \<Rightarrow> (case collector_GetByID dbErr i rows of
       Inl e \<Rightarrow> if e = ''collector not found'' then NotFound ''Collector not found'' else InternalError ''Failed to get collector''
     | Inr r \<Rightarrow> Success r))"

section \<open>Pages\<close>

lemma collectorSelected_iff:
  "collectorSelected f r =
     ((case clf_Status f of None \<Rightarrow> True | Some s \<Rightarrow> cs_status r = s) \<and>
      (case clf_CollectorType f of None \<Rightarrow> True | Some s \<Rightarrow> cs_type r = s))"
  unfolding collectorSelected_def built_condition collectorFields_def
  by (simp add: collectorCond_def case_map_option cong: option.case_cong)

text \<open>The list of collectors repeats the page size of the request, while the repository never returns more
  than a hundred rows: for a larger size the answer claims pages that it does not deliver. Every row
  has the status and type that the request asks for, and the total is their number.\<close>

theorem collector_list_answer:
  assumes "ListCollectors e1 e2 q rows = Page rs m"
  shows "length rs \<le> 100 \<and> pm_page_size m = positiveOr 20 (q ''page_size'') \<and>
    (q ''status'' = [] \<or> list_all (\<lambda>r. cs_status r = q ''status'') rs) \<and>
    (q ''collector_type'' = [] \<or> list_all (\<lambda>r. cs_type r = q ''collector_type'') rs)"
proof -
  let ?f = "\<lparr>clf_Status = (if q ''status'' = [] then None else Some (q ''status'')),
    clf_CollectorType = (if q ''collector_type'' = [] then None else Some (q ''collector_type'')),
    clf_Page = positiveOr 1 (q ''page''), clf_PageSize = positiveOr 20 (q ''page_size'')\<rparr>"
  from assms obtain n where l: "collector_List e1 e2 ?f rows = Inr (rs, n)"
    and m: "pm_page_size m = positiveOr 20 (q ''page_size'')"
    unfolding ListCollectors_def by (auto simp: Let_def reply_defs split: sum.splits)
  from listRows_result [OF l [unfolded collector_List_def]]
  have "length rs \<le> 100" "set rs \<subseteq> set (filter (collectorSelected ?f) rows)" by simp_all
  then show ?thesis using m by (auto simp: list_all_iff collectorSelected_iff)
qed

definition exCollectorRow :: "string \<Rightarrow> collector_row" where
  "exCollectorRow n = \<lparr>cs_name = n, cs_type = ''ipmi'', cs_status = ''healthy'', cs_last_poll = None,
     cs_last_success = None, cs_last_error = None, cs_updated_at = 0, cs_id = n\<rparr>"

lemma collector_list_answer_witness:
  "let r = ListCollectors None None (\<lambda>k. if k = ''page_size'' then ''500'' else []) [exCollectorRow ''b'', exCollectorRow ''a''] in
   (case r of Page rs m \<Rightarrow> map cs_id rs = [''a'', ''b''] \<and> pm_page_size m = 500 | _ \<Rightarrow> False)"
proof -
  let ?q = "\<lambda>k. if k = ''page_size'' then ''500'' else []" and ?rows = "[exCollectorRow ''b'', exCollectorRow ''a'']"
  have "(case ListCollectors None None ?q ?rows of Page rs m \<Rightarrow> map cs_id rs = [''a'', ''b''] | _ \<Rightarrow> False)"
    by code_simp
  then obtain rs m where r: "ListCollectors None None ?q ?rows = Page rs m" "map cs_id rs = [''a'', ''b'']"
    by (cases "ListCollectors None None ?q ?rows") auto
  have "positiveOr 20 ''500'' = 500" by code_simp
  with collector_list_answer [OF r(1)] r show ?thesis by simp
qed

section \<open>The monitor\<close>

lemma MarkStale_row:
  "fst (MarkStaleCollectorsUnhealthy None now rows) =
     map (\<lambda>r. if isStale now r then r\<lparr>cs_status := ''unhealthy'', cs_updated_at := now\<rparr> else r) rows"
  unfolding MarkStaleCollectorsUnhealthy_def updateWhere_def by simp

text \<open>A run of the health monitor leaves no collector that claims to be well and has not been updated for
  ten minutes; it touches no other collector, and running it again at once changes nothing. A failed
  run changes nothing at all.\<close>

theorem monitor_marks_exactly_the_stale:
  "\<not> list_ex (isStale now) (fst (MarkStaleCollectorsUnhealthy None now rows)) \<and>
   fst (MarkStaleCollectorsUnhealthy None now rows) =
     map (\<lambda>r. if isStale now r then r\<lparr>cs_status := ''unhealthy'', cs_updated_at := now\<rparr> else r) rows \<and>
   MarkStaleCollectorsUnhealthy None now (fst (MarkStaleCollectorsUnhealthy None now rows)) =
     (fst (MarkStaleCollectorsUnhealthy None now rows), Inr 0) \<and>
   fst (MarkStaleCollectorsUnhealthy (Some e) now rows) = rows"
proof -
  let ?rows = "fst (MarkStaleCollectorsUnhealthy None now rows)"
  have none: "\<not> list_ex (isStale now) ?rows" unfolding MarkStale_row
    by (auto simp: list_ex_iff isStale_def)
  moreover have "updateWhere (isStale now) f ?rows = ?rows" for f
    unfolding updateWhere_def by (rule map_idI) (use none in \<open>auto simp: list_ex_iff\<close>)
  moreover have "filter (isStale now) ?rows = []" using none by (simp add: filter_empty_conv list_ex_iff)
  ultimately show ?thesis using MarkStale_row [of now rows] unfolding MarkStaleCollectorsUnhealthy_def
    by simp
qed

lemma monitor_keeps_fresh:
  "r \<in> set rows \<Longrightarrow> \<forall>(e, now) \<in> set ticks. now \<le> cs_updated_at r + staleAfter \<Longrightarrow>
     r \<in> set (healthMonitor ticks rows)"
proof (induction ticks arbitrary: rows)
  case (Cons t ticks)
  obtain e now where t: "t = (e, now)" by (cases t)
  have "\<not> isStale now r" using Cons.prems(2) t unfolding isStale_def by auto
  then have "r \<in> set (fst (MarkStaleCollectorsUnhealthy e now rows))"
    using Cons.prems(1) unfolding MarkStaleCollectorsUnhealthy_def updateWhere_def
    by (cases e) (auto simp: image_iff)
  with Cons t show ?case by simp
qed simp

text \<open>A collector that has just polled a device with success stays reported as healthy for the next ten
  minutes, however often the monitor runs in between.\<close>

theorem polled_collector_stays_healthy:
  assumes "\<forall>(e, now) \<in> set ticks. now \<le> t + staleAfter"
  shows "\<exists>r \<in> set (healthMonitor ticks (collector_status (updateCollectorStatusSuccess ok1 True t d db))).
    cs_name r = collectorName d \<and> cs_status r = ''healthy'' \<and> cs_last_success r = Some t"
proof -
  let ?rows = "collector_status (updateCollectorStatusSuccess ok1 True t d db)"
  have "findBy cs_name (collectorName d) ?rows \<noteq> None \<and>
      (\<forall>r. findBy cs_name (collectorName d) ?rows = Some r \<longrightarrow>
        cs_status r = ''healthy'' \<and> cs_last_success r = Some t \<and> cs_updated_at r = t)"
    unfolding updateCollectorStatusSuccess_def ipmiStatusSuccess_def
    by (auto simp: Let_def findBy_upsert split: option.splits)
  then obtain r where r: "findBy cs_name (collectorName d) ?rows = Some r" "cs_status r = ''healthy''"
    "cs_last_success r = Some t" "cs_updated_at r = t" by auto
  from findBy_SomeD [OF r(1)] have "r \<in> set ?rows" "cs_name r = collectorName d" by auto
  with monitor_keeps_fresh [of r ?rows ticks] assms r show ?thesis by auto
qed

lemma polled_collector_stays_healthy_witness:
  "\<exists>r \<in> set (healthMonitor [(None, 60000000000), (Some ''down'', 120000000000)]
       (collector_status (updateCollectorStatusSuccess True True 0 ''d1'' exDb))).
     cs_name r = collectorName ''d1'' \<and> cs_status r = ''healthy''"
proof -
  have "\<forall>(e, now) \<in> set [(None, 60000000000), (Some ''down'', 120000000000)]. now \<le> (0 :: int) + staleAfter"
    by (simp add: staleAfter_def)
  from polled_collector_stays_healthy [OF this] show ?thesis by blast
qed

end
