(* ===== verification/RateLimit.thy ===== *)
theory RateLimit
  imports Prelude
begin

text \<open>
  The rate limiter of the API server, \<open>backend/internal/api/middleware/rate_limit.go\<close>: the in-memory
  sliding window and its Redis-backed variant. The clock is an argument. The Redis server is an
  argument too: \<open>exec\<close> runs the pipeline of one request (\<open>key\<close>, start of the window, now, window) and
  returns the new server and, unless the pipeline failed, the cardinality it read.
\<close>

section \<open>The in-memory limiter\<close>

record rate_limiter =
  rl_requests :: "string \<Rightarrow> time list option"
  rl_limit :: int
  rl_window :: time

definition newRateLimiter :: "int \<Rightarrow> time \<Rightarrow> rate_limiter" where
  "newRateLimiter lim window = \<lparr>rl_requests = Map.empty, rl_limit = lim, rl_window = window\<rparr>"

definition validTimes :: "time \<Rightarrow> time \<Rightarrow> time list \<Rightarrow> time list" where
  "validTimes window now timestamps = filter (\<lambda>ts. now - ts < window) timestamps"

definition rl_cleanup :: "time \<Rightarrow> rate_limiter \<Rightarrow> rate_limiter" where
  "rl_cleanup now rl = rl\<lparr>rl_requests := (\<lambda>ip. case rl_requests rl ip of
     None \<Rightarrow> None
   | Some timestamps \<Rightarrow> (let valid = validTimes (rl_window rl) now timestamps in
       if valid = [] then None else Some valid))\<rparr>"

definition rl_timestamps :: "rate_limiter \<Rightarrow> string \<Rightarrow> time list" where
  "rl_timestamps rl ip = (case rl_requests rl ip of None \<Rightarrow> [] | Some ts \<Rightarrow> ts)"

definition rl_allow :: "time \<Rightarrow> string \<Rightarrow> rate_limiter \<Rightarrow> rate_limiter \<times> bool" where
  "rl_allow now ip rl = (let valid = validTimes (rl_window rl) now (rl_timestamps rl ip) in
     if int (length valid) \<ge> rl_limit rl then (rl, False)
     else (rl\<lparr>rl_requests := (rl_requests rl)(ip \<mapsto> valid @ [now])\<rparr>, True))"

section \<open>The Redis-backed limiter\<close>

record 'redis redis_limiter =
  rr_client :: "'redis option"
  rr_limit :: int
  rr_window :: time
  rr_fallback :: rate_limiter

definition NewRedisRateLimiter :: "'redis option \<Rightarrow> int \<Rightarrow> time \<Rightarrow> 'redis redis_limiter" where
  "NewRedisRateLimiter client lim window =
     \<lparr>rr_client = client, rr_limit = lim, rr_window = window, rr_fallback = newRateLimiter lim window\<rparr>"

definition rr_allow ::
  "(string \<Rightarrow> time \<Rightarrow> time \<Rightarrow> time \<Rightarrow> 'redis \<Rightarrow> 'redis \<times> int option) \<Rightarrow> time \<Rightarrow> string \<Rightarrow>
   'redis redis_limiter \<Rightarrow> 'redis redis_limiter \<times> bool" where
  "rr_allow exec now ip r =
     (let local = (\<lambda>r. case rl_allow now ip (rr_fallback r) of (f, ok) \<Rightarrow> (r\<lparr>rr_fallback := f\<rparr>, ok)) in
      case rr_client r of
        None \<Rightarrow> local r
      | Some server \<Rightarrow>
          (case exec (''rate_limit:'' @ ip) (now - rr_window r) now (rr_window r) server of
             (server', None) \<Rightarrow> local (r\<lparr>rr_client := Some server'\<rparr>)
           | (server', Some count) \<Rightarrow> (r\<lparr>rr_client := Some server'\<rparr>, count < rr_limit r)))"

section \<open>The middleware\<close>

datatype 'r gate = Refused int string string | Pass 'r

definition rateLimited :: "bool \<Rightarrow> 'r \<Rightarrow> 'r gate" where
  "rateLimited allowed handler =
     (if \<not> allowed then Refused 429 ''Rate limit exceeded'' ''RATE_LIMIT_EXCEEDED'' else Pass handler)"

definition RateLimitMiddleware :: "time \<Rightarrow> string \<Rightarrow> rate_limiter \<Rightarrow> 'r \<Rightarrow> rate_limiter \<times> 'r gate" where
  "RateLimitMiddleware now ip rl handler = (case rl_allow now ip rl of (rl', ok) \<Rightarrow> (rl', rateLimited ok handler))"

section \<open>Runs of the limiter and their specification\<close>

datatype rl_event = Request time string | Sweep time

fun rl_run :: "rate_limiter \<Rightarrow> rl_event list \<Rightarrow> (time \<times> string) list" where
  "rl_run rl [] = []"
| "rl_run rl (Sweep t # es) = rl_run (rl_cleanup t rl) es"
| "rl_run rl (Request t ip # es) = (case rl_allow t ip rl of (rl', ok) \<Rightarrow>
     (if ok then [(t, ip)] else []) @ rl_run rl' es)"

text \<open>The specification keeps the whole history of admitted requests and no other state.\<close>

definition recent :: "time \<Rightarrow> time \<Rightarrow> string \<Rightarrow> (time \<times> string) list \<Rightarrow> (time \<times> string) list" where
  "recent window t ip history = filter (\<lambda>(s, i). i = ip \<and> t - s < window) history"

fun spec_run :: "int \<Rightarrow> time \<Rightarrow> (time \<times> string) list \<Rightarrow> rl_event list \<Rightarrow> (time \<times> string) list" where
  "spec_run lim w history [] = history"
| "spec_run lim w history (Sweep t # es) = spec_run lim w history es"
| "spec_run lim w history (Request t ip # es) =
     spec_run lim w (if int (length (recent w t ip history)) < lim then history @ [(t, ip)] else history) es"

fun event_time :: "rl_event \<Rightarrow> time" where
  "event_time (Request t ip) = t"
| "event_time (Sweep t) = t"

definition rl_rep :: "time \<Rightarrow> rate_limiter \<Rightarrow> (time \<times> string) list \<Rightarrow> bool" where
  "rl_rep t rl history = (\<forall>ip t'. t \<le> t' \<longrightarrow>
     validTimes (rl_window rl) t' (rl_timestamps rl ip) = map fst (recent (rl_window rl) t' ip history))"

lemma rl_frame [simp]:
  "rl_limit (rl_cleanup t rl) = rl_limit rl" "rl_window (rl_cleanup t rl) = rl_window rl"
  "rl_limit (fst (rl_allow t ip rl)) = rl_limit rl" "rl_window (fst (rl_allow t ip rl)) = rl_window rl"
  unfolding rl_cleanup_def rl_allow_def by (simp_all add: Let_def)

lemma validTimes_twice: "t \<le> t' \<Longrightarrow> validTimes w t' (validTimes w t ts) = validTimes w t' ts"
  unfolding validTimes_def by (induction ts) auto

lemma timestamps_cleanup:
  "rl_timestamps (rl_cleanup t rl) ip = validTimes (rl_window rl) t (rl_timestamps rl ip)"
  unfolding rl_timestamps_def rl_cleanup_def by (auto simp: Let_def validTimes_def split: option.split)

lemma timestamps_allow:
  "rl_timestamps (fst (rl_allow t ip rl)) j =
     (if j = ip \<and> snd (rl_allow t ip rl) then validTimes (rl_window rl) t (rl_timestamps rl ip) @ [t]
      else rl_timestamps rl j)"
  unfolding rl_allow_def rl_timestamps_def by (auto simp: Let_def)

lemma rl_rep_cleanup [inv_intros]:
  "rl_rep t0 rl history \<Longrightarrow> t0 \<le> t \<Longrightarrow> rl_rep t (rl_cleanup t rl) history"
  unfolding rl_rep_def timestamps_cleanup rl_frame
  by (intro allI impI) (subst validTimes_twice; simp)

lemma rl_allow_iff:
  assumes "rl_rep t0 rl history" "t0 \<le> t"
  shows "snd (rl_allow t ip rl) = (int (length (recent (rl_window rl) t ip history)) < rl_limit rl)"
  using assms unfolding rl_rep_def rl_allow_def by (auto simp: Let_def)

lemma rl_rep_allow [inv_intros]:
  assumes rep: "rl_rep t0 rl history" "t0 \<le> t"
  shows "rl_rep t (fst (rl_allow t ip rl))
    (if snd (rl_allow t ip rl) then history @ [(t, ip)] else history)"
  unfolding rl_rep_def
proof (intro allI impI)
  fix j t' assume t': "t \<le> t'"
  have "validTimes (rl_window rl) t' (rl_timestamps rl j) = map fst (recent (rl_window rl) t' j history)" for j
    using rep t' unfolding rl_rep_def by simp
  then show "validTimes (rl_window (fst (rl_allow t ip rl))) t' (rl_timestamps (fst (rl_allow t ip rl)) j) =
      map fst (recent (rl_window (fst (rl_allow t ip rl))) t' j
        (if snd (rl_allow t ip rl) then history @ [(t, ip)] else history))"
    using validTimes_twice [OF t', of "rl_window rl" "rl_timestamps rl ip"]
    by (auto simp: timestamps_allow recent_def validTimes_def)
qed

lemma rl_run_rep:
  assumes "rl_rep t0 rl history" "\<forall>e \<in> set es. t0 \<le> event_time e" "sorted (map event_time es)"
  shows "history @ rl_run rl es = spec_run (rl_limit rl) (rl_window rl) history es"
  using assms
proof (induction rl es arbitrary: t0 history rule: rl_run.induct)
  case (2 rl t es)
  then show ?case using rl_rep_cleanup [OF 2(2), of t] by (auto dest!: "2.IH" [rotated 2])
next
  case (3 rl t ip es)
  have t: "t0 \<le> t" and es: "\<forall>e \<in> set es. t \<le> event_time e" "sorted (map event_time es)"
    using 3(3,4) by auto
  obtain rl' ok where a: "rl_allow t ip rl = (rl', ok)" by (cases "rl_allow t ip rl")
  have rep: "rl_rep t rl' (if ok then history @ [(t, ip)] else history)"
    using rl_rep_allow [OF 3(2) t, of ip] a by simp
  have keep: "rl_limit rl' = rl_limit rl" "rl_window rl' = rl_window rl"
    using rl_frame(3,4) [of t ip rl] a by simp_all
  have ok: "ok = (int (length (recent (rl_window rl) t ip history)) < rl_limit rl)"
    using rl_allow_iff [OF 3(2) t, of ip] a by simp
  show ?case using "3.IH" [OF a [symmetric] rep es] ok keep
    by (simp add: a split: if_splits)
qed simp


lemma rl_rep_new: "rl_rep t (newRateLimiter lim w) []"
  unfolding rl_rep_def newRateLimiter_def rl_timestamps_def validTimes_def recent_def by simp

text \<open>C2: The limiter refines its specification: whatever the interleaving of requests and background
  sweeps, in the order of the clock, it admits exactly the requests that the limiter with the whole
  history admits, one that finds fewer than the limit of admitted requests of its address within the
  window. Forgetting expired times, in the sweep or at a request, is never visible.\<close>

theorem rate_limiter_refines_history:
  assumes "sorted (map event_time es)"
  shows "rl_run (newRateLimiter lim w) es = spec_run lim w [] es"
proof (cases es)
  case (Cons e es')
  have "\<forall>e' \<in> set es. event_time e \<le> event_time e'" using assms Cons by auto
  from rl_run_rep [OF rl_rep_new this assms, of lim w]
  show ?thesis by (simp add: newRateLimiter_def)
qed simp

lemma rate_limiter_refines_history_witness:
  "let es = [Request 0 ''a'', Request 10 ''a'', Request 20 ''a'', Sweep 60, Request 60 ''a'', Request 65 ''b''] in
   rl_run (newRateLimiter 2 60) es = spec_run 2 60 [] es \<and>
   rl_run (newRateLimiter 2 60) es = [(0, ''a''), (10, ''a''), (60, ''a''), (65, ''b'')]"
  using rate_limiter_refines_history [of "[Request 0 ''a'', Request 10 ''a'', Request 20 ''a'', Sweep 60,
      Request 60 ''a'', Request 65 ''b'']" 2 60]
  by (simp add: Let_def recent_def)

section \<open>The window bound\<close>

definition admitted :: "time \<Rightarrow> time \<Rightarrow> string \<Rightarrow> (time \<times> string) list \<Rightarrow> nat" where
  "admitted lo hi ip history = length (filter (\<lambda>(s, i). i = ip \<and> lo < s \<and> s \<le> hi) history)"

lemma admitted_step:
  assumes "\<forall>(s, i) \<in> set history. s \<le> t" "int (admitted (T - w) T ip history) \<le> lim" "0 \<le> lim"
    and "int (length (recent w t j history)) < lim"
  shows "int (admitted (T - w) T ip (history @ [(t, j)])) \<le> lim"
proof (cases "j = ip \<and> T - w < t \<and> t \<le> T")
  case True
  then have "filter (\<lambda>(s, i). i = ip \<and> T - w < s \<and> s \<le> T) history = filter (\<lambda>(s, i). i = ip \<and> T - w < s) history"
    using assms(1) by (intro filter_cong) auto
  moreover have "length (filter (\<lambda>(s, i). i = ip \<and> T - w < s) history) \<le> length (recent w t j history)"
    using True unfolding recent_def by (induction history) auto
  ultimately show ?thesis using True assms(4) unfolding admitted_def by simp
qed (use assms(2) in \<open>auto simp: admitted_def\<close>)

lemma spec_run_bound:
  assumes "0 \<le> lim" "sorted (map event_time es)"
    and "\<forall>(s, i) \<in> set history. \<forall>e \<in> set es. s \<le> event_time e"
    and "int (admitted (T - w) T ip history) \<le> lim"
  shows "int (admitted (T - w) T ip (spec_run lim w history es)) \<le> lim"
  using assms
proof (induction lim w history es rule: spec_run.induct)
  case (3 lim w history t j es)
  let ?h = "if int (length (recent w t j history)) < lim then history @ [(t, j)] else history"
  have old: "\<forall>(s, i) \<in> set history. s \<le> t" using 3(4) by auto
  have "int (admitted (T - w) T ip ?h) \<le> lim"
    using admitted_step [OF old 3(5,2)] 3(5) by simp
  moreover have "\<forall>(s, i) \<in> set ?h. \<forall>e \<in> set es. s \<le> event_time e"
    using 3(3,4) by auto
  ultimately show ?case using "3.IH" [of ] 3(2,3) by simp
qed auto

text \<open>No address is ever served more than the limit within one window: for every T, the requests
  admitted for an address in the window that ends at T are at most the limit, for any arrival times
  in the order of the clock and any sweeps in between.\<close>

theorem rate_limit_window_bound:
  assumes "sorted (map event_time es)" "0 \<le> lim"
  shows "int (admitted (T - w) T ip (rl_run (newRateLimiter lim w) es)) \<le> lim"
proof -
  have "rl_run (newRateLimiter lim w) es = spec_run lim w [] es"
  proof (cases es)
    case (Cons e es')
    have "\<forall>e' \<in> set es. event_time e \<le> event_time e'" using assms Cons by auto
    from rl_run_rep [OF rl_rep_new this assms(1), of lim w]
    show ?thesis by (simp add: newRateLimiter_def)
  qed simp
  then show ?thesis using spec_run_bound [OF assms(2,1), of "[]" T w ip] assms(2)
    by (simp add: admitted_def)
qed

lemma rate_limit_window_bound_witness:
  "int (admitted (25 - 60) 25 ''a'' (rl_run (newRateLimiter 2 60)
     [Request 0 ''a'', Request 10 ''a'', Request 20 ''a''])) \<le> 2"
  by (rule rate_limit_window_bound) simp_all

section \<open>Redis\<close>

text \<open>Without a Redis client, and whenever the pipeline fails, the Redis-backed limiter decides as the
  in-memory limiter does and keeps its count there; when Redis answers, the in-memory count is left
  as it was, so requests that Redis counted do not count after it fails.\<close>

theorem redis_fallback:
  "rr_client r = None \<or> (\<exists>server. rr_client r = Some server \<and>
      snd (exec (''rate_limit:'' @ ip) (now - rr_window r) now (rr_window r) server) = None) \<Longrightarrow>
   snd (rr_allow exec now ip r) = snd (rl_allow now ip (rr_fallback r)) \<and>
   rr_fallback (fst (rr_allow exec now ip r)) = fst (rl_allow now ip (rr_fallback r))"
  unfolding rr_allow_def by (auto simp: Let_def split: prod.split option.split)


lemma redis_fallback_witness:
  "let r = NewRedisRateLimiter (Some ()) 1 60 in
   snd (rr_allow (\<lambda>key ws t w server. (server, None)) 7 ''a'' r) = snd (rl_allow 7 ''a'' (rr_fallback r)) \<and>
   snd (rr_allow (\<lambda>key ws t w server. (server, None)) 7 ''a'' r)"
  using redis_fallback [of "NewRedisRateLimiter (Some ()) 1 60" "\<lambda>key ws t w server. (server, None)" "''a''" 7]
  by (simp add: NewRedisRateLimiter_def newRateLimiter_def rl_allow_def rl_timestamps_def validTimes_def Let_def)

end
