(* ===== verification/Access.thy ===== *)
theory Access
  imports RateLimit
begin

text \<open>
  Who may call what: the JWT service (\<open>backend/internal/auth/jwt.go\<close>), the authentication, role and CORS
  middleware (\<open>backend/internal/api/middleware\<close>) and the table of the routes of the API server
  (\<open>backend/internal/api/routes.go\<close>). The JWT library is an argument: \<open>sign\<close> makes a token of claims,
  \<open>parse\<close> reads a token, asking the key function of the program for the key.
\<close>

section \<open>Tokens\<close>

record claims =
  cl_user_id :: string
  cl_username :: string
  cl_role :: string
  cl_expiresAt :: "time option"
  cl_issuedAt :: "time option"
  cl_notBefore :: "time option"

text \<open>The library writes times in whole seconds.\<close>

definition numericDate :: "time \<Rightarrow> time" where
  "numericDate t = t div 1000000000 * 1000000000"

definition GenerateToken ::
  "(string \<Rightarrow> claims \<Rightarrow> string result) \<Rightarrow> string \<Rightarrow> time \<Rightarrow> string \<Rightarrow> string \<Rightarrow> string \<Rightarrow> string result" where
  "GenerateToken sign secret now userID username role =
     (case sign secret \<lparr>cl_user_id = userID, cl_username = username, cl_role = role,
        cl_expiresAt = Some (numericDate (now + 24 * 3600000000000)),
        cl_issuedAt = Some (numericDate now), cl_notBefore = Some (numericDate now)\<rparr> of
      Inl e \<Rightarrow> Inl (''failed to sign token: '' @ e)
    | Inr token \<Rightarrow> Inr token)"

datatype jwt_method = HMAC string | OtherMethod string

definition jwtKey :: "string \<Rightarrow> jwt_method \<Rightarrow> string result" where
  "jwtKey secret m = (case m of
     HMAC alg \<Rightarrow> Inr secret
   | OtherMethod alg \<Rightarrow> Inl (''unexpected signing method: '' @ alg))"

type_synonym jwt_parse = "(jwt_method \<Rightarrow> string result) \<Rightarrow> string \<Rightarrow> (claims \<times> bool) result"

definition ValidateToken :: "jwt_parse \<Rightarrow> string \<Rightarrow> time \<Rightarrow> string \<Rightarrow> claims result" where
  "ValidateToken parse secret now tokenString = (case parse (jwtKey secret) tokenString of
     Inl e \<Rightarrow> Inl (''failed to parse token: '' @ e)
   | Inr (cl, valid) \<Rightarrow> (if \<not> valid then Inl ''invalid token''
       else case cl_expiresAt cl of
         Some e \<Rightarrow> (if e < now then Inl ''token expired'' else Inr cl)
       | None \<Rightarrow> Inr cl))"

section \<open>Authentication\<close>

definition AuthMiddleware ::
  "jwt_parse \<Rightarrow> string \<Rightarrow> time \<Rightarrow> string \<Rightarrow> string \<Rightarrow> claims gate" where
  "AuthMiddleware parse secret now authHeader tokenQuery =
     (let validate = (\<lambda>tokenString. case ValidateToken parse secret now tokenString of
            Inl e \<Rightarrow> Refused 401 ''Unauthorized'' []
          | Inr cl \<Rightarrow> Pass cl) in
      if authHeader \<noteq> []
      then (let parts = splitOn CHR '' '' authHeader in
        if length parts \<noteq> 2 \<or> parts ! 0 \<noteq> ''Bearer''
        then Refused 401 ''Invalid authorization header format'' ''UNAUTHORIZED''
        else validate (parts ! 1))
      else if tokenQuery \<noteq> [] then validate tokenQuery
      else Refused 401 ''Authorization header required'' ''UNAUTHORIZED'')"

section \<open>Roles\<close>

definition RoleAdmin :: string where "RoleAdmin = ''admin''"
definition RoleOperator :: string where "RoleOperator = ''operator''"
definition RoleViewer :: string where "RoleViewer = ''viewer''"

definition RequireRole :: "string list \<Rightarrow> string option \<Rightarrow> 'r \<Rightarrow> 'r gate" where
  "RequireRole allowedRoles role handler = (case role of
     None \<Rightarrow> Refused 401 ''Unauthorized'' []
   | Some userRole \<Rightarrow> (if list_ex (\<lambda>allowedRole. userRole = allowedRole) allowedRoles then Pass handler
       else Refused 403 ''Insufficient permissions'' ''FORBIDDEN''))"

definition adminOnly :: "string list" where "adminOnly = [RoleAdmin]"
definition adminOrOperator :: "string list" where "adminOrOperator = [RoleAdmin, RoleOperator]"

section \<open>CORS\<close>

definition corsAllowed :: "string list \<Rightarrow> string \<Rightarrow> bool" where
  "corsAllowed allowedOrigins origin =
     list_ex (\<lambda>allowedOrigin. origin = allowedOrigin \<or> allowedOrigin = ''*'') allowedOrigins"

text \<open>The headers set on the answer, and whether the chain goes on (a preflight ends with 204).\<close>

definition CORSMiddleware ::
  "string list \<Rightarrow> string \<Rightarrow> string \<Rightarrow> 'r \<Rightarrow> (string \<times> string) list \<times> 'r gate" where
  "CORSMiddleware allowedOrigins meth origin handler =
     (if corsAllowed allowedOrigins origin
      then [(''Access-Control-Allow-Origin'', origin), (''Access-Control-Allow-Credentials'', ''true''),
        (''Access-Control-Allow-Headers'', ''Content-Type, Content-Length, Accept-Encoding, X-CSRF-Token, Authorization, accept, origin, Cache-Control, X-Requested-With''),
        (''Access-Control-Allow-Methods'', ''POST, OPTIONS, GET, PUT, DELETE, PATCH'')]
      else [],
      if meth = ''OPTIONS'' then Refused 204 [] [] else Pass handler)"

definition allowedOriginsOf :: "string \<Rightarrow> string list" where
  "allowedOriginsOf originsStr = [''http://localhost:3000'', ''http://localhost'', ''http://127.0.0.1''] @
     (if originsStr \<noteq> [] then splitOn CHR '','' originsStr else [])"

section \<open>The routes\<close>

datatype guard = Public | Authenticated | Role "string list"

record route =
  rt_method :: string
  rt_path :: string
  rt_guard :: guard
  rt_cached :: bool

definition route_of :: "string \<Rightarrow> string \<Rightarrow> guard \<Rightarrow> route" where
  "route_of m p g = \<lparr>rt_method = m, rt_path = p, rt_guard = g, rt_cached = False\<rparr>"

definition cached_route :: "string \<Rightarrow> route" where
  "cached_route p = \<lparr>rt_method = ''GET'', rt_path = p, rt_guard = Authenticated, rt_cached = True\<rparr>"

definition openRoutes :: "route list" where
  "openRoutes =
     [route_of ''GET'' ''/health'' Public,
      route_of ''GET'' ''/api/v1/health'' Public,
      route_of ''GET'' ''/metrics'' Public,
      route_of ''POST'' ''/api/v1/auth/login'' Public]"

definition userRoutes :: "route list" where
  "userRoutes =
     [route_of ''GET'' ''/api/v1/auth/me'' Authenticated,
      route_of ''POST'' ''/api/v1/auth/logout'' Authenticated,
      route_of ''GET'' ''/api/v1/users/me'' Authenticated,
      route_of ''PUT'' ''/api/v1/users/me/password'' Authenticated,
      route_of ''GET'' ''/api/v1/users'' (Role adminOnly),
      route_of ''POST'' ''/api/v1/users'' (Role adminOnly),
      route_of ''GET'' ''/api/v1/users/:id'' (Role adminOnly),
      route_of ''PUT'' ''/api/v1/users/:id'' (Role adminOnly),
      route_of ''DELETE'' ''/api/v1/users/:id'' (Role adminOnly),
      route_of ''PUT'' ''/api/v1/users/:id/password'' Authenticated]"

definition deviceRoutes :: "route list" where
  "deviceRoutes =
     [cached_route ''/api/v1/devices'',
      route_of ''GET'' ''/api/v1/devices/:id'' Authenticated,
      route_of ''POST'' ''/api/v1/devices'' (Role adminOrOperator),
      route_of ''PUT'' ''/api/v1/devices/:id'' (Role adminOrOperator),
      route_of ''DELETE'' ''/api/v1/devices/:id'' (Role adminOrOperator),
      route_of ''POST'' ''/api/v1/devices/:id/credentials'' (Role adminOrOperator),
      route_of ''PUT'' ''/api/v1/devices/:id/credentials'' (Role adminOrOperator),
      route_of ''DELETE'' ''/api/v1/devices/:id/credentials'' (Role adminOrOperator),
      route_of ''POST'' ''/api/v1/devices/test-ipmi'' (Role adminOrOperator),
      route_of ''POST'' ''/api/v1/devices/:id/test-connection'' (Role adminOrOperator),
      route_of ''POST'' ''/api/v1/devices/:id/sync'' (Role adminOrOperator),
      route_of ''POST'' ''/api/v1/devices/:id/power'' (Role adminOrOperator),
      route_of ''POST'' ''/api/v1/devices/:id/boot'' (Role adminOrOperator),
      route_of ''GET'' ''/api/v1/devices/:id/metrics'' Authenticated,
      route_of ''GET'' ''/api/v1/devices/:id/logs'' Authenticated,
      route_of ''GET'' ''/api/v1/devices/:id/inventory'' Authenticated,
      route_of ''GET'' ''/api/v1/devices/:id/stream'' Authenticated,
      route_of ''POST'' ''/api/v1/devices/detect-protocol'' (Role adminOrOperator)]"

definition groupRoutes :: "route list" where
  "groupRoutes =
     [cached_route ''/api/v1/device-groups'',
      route_of ''GET'' ''/api/v1/device-groups/:id'' Authenticated,
      route_of ''POST'' ''/api/v1/device-groups'' (Role adminOrOperator),
      route_of ''PUT'' ''/api/v1/device-groups/:id'' (Role adminOrOperator),
      route_of ''DELETE'' ''/api/v1/device-groups/:id'' (Role adminOrOperator),
      route_of ''POST'' ''/api/v1/device-groups/:id/devices'' (Role adminOrOperator),
      route_of ''DELETE'' ''/api/v1/device-groups/:id/devices/:deviceId'' (Role adminOrOperator)]"

definition alertRoutes :: "route list" where
  "alertRoutes =
     [cached_route ''/api/v1/alert-rules'',
      route_of ''GET'' ''/api/v1/alert-rules/:id'' Authenticated,
      route_of ''POST'' ''/api/v1/alert-rules'' (Role adminOrOperator),
      route_of ''PUT'' ''/api/v1/alert-rules/:id'' (Role adminOrOperator),
      route_of ''DELETE'' ''/api/v1/alert-rules/:id'' (Role adminOrOperator),
      route_of ''GET'' ''/api/v1/maintenance-windows'' Authenticated,
      route_of ''POST'' ''/api/v1/maintenance-windows'' (Role adminOrOperator),
      route_of ''DELETE'' ''/api/v1/maintenance-windows/:id'' (Role adminOrOperator),
      route_of ''GET'' ''/api/v1/alerts'' Authenticated,
      route_of ''GET'' ''/api/v1/alerts/history'' Authenticated,
      route_of ''POST'' ''/api/v1/alerts/:id/acknowledge'' Authenticated]"

definition eventRoutes :: "route list" where
  "eventRoutes =
     [route_of ''GET'' ''/api/v1/collectors'' Authenticated,
      route_of ''GET'' ''/api/v1/collectors/:id'' Authenticated,
      route_of ''GET'' ''/api/v1/events'' Authenticated,
      route_of ''GET'' ''/api/v1/events/summary'' Authenticated,
      route_of ''GET'' ''/api/v1/devices/:id/events'' Authenticated,
      route_of ''POST'' ''/api/v1/devices/:id/events/clear'' (Role adminOnly)]"

definition routes :: "route list" where
  "routes = openRoutes @ userRoutes @ deviceRoutes @ groupRoutes @ alertRoutes @ eventRoutes"

text \<open>What a route lets pass to its handler: the claims of the caller, none on a public route.\<close>

definition serve ::
  "jwt_parse \<Rightarrow> string \<Rightarrow> time \<Rightarrow> route \<Rightarrow> string \<Rightarrow> string \<Rightarrow> claims option gate" where
  "serve parse secret now r authHeader tokenQuery = (case rt_guard r of
     Public \<Rightarrow> Pass None
   | Authenticated \<Rightarrow> (case AuthMiddleware parse secret now authHeader tokenQuery of
       Refused c m k \<Rightarrow> Refused c m k | Pass cl \<Rightarrow> Pass (Some cl))
   | Role rs \<Rightarrow> (case AuthMiddleware parse secret now authHeader tokenQuery of
       Refused c m k \<Rightarrow> Refused c m k | Pass cl \<Rightarrow> RequireRole rs (Some (cl_role cl)) (Some cl)))"

section \<open>Who gets through\<close>

lemma AuthMiddleware_pass:
  "(AuthMiddleware parse secret now h q = Pass cl) =
    (\<exists>token. ValidateToken parse secret now token = Inr cl \<and>
      (h \<noteq> [] \<and> splitOn CHR '' '' h = [''Bearer'', token] \<or> h = [] \<and> q = token \<and> q \<noteq> []))"
proof -
  have two: "(length ps = 2 \<and> ps ! 0 = b) = (\<exists>t. ps = [b, t])" for ps :: "string list" and b
    by (cases ps; cases "tl ps") auto
  show ?thesis
  proof (cases "h = []")
    case True
    then show ?thesis unfolding AuthMiddleware_def by (auto simp: Let_def split: sum.split)
  next
    case False
    then show ?thesis unfolding AuthMiddleware_def
      using two [of "splitOn CHR '' '' h" "''Bearer''"]
      by (auto simp: Let_def split: sum.splits)
  qed
qed

lemma bearer_split: "(splitOn CHR '' '' h = [''Bearer'', t]) = (h = ''Bearer '' @ t \<and> CHR '' '' \<notin> set t)"
proof
  assume s: "splitOn CHR '' '' h = [''Bearer'', t]"
  have "h = joinWith [CHR '' ''] (splitOn CHR '' '' h)" by (simp add: joinWith_splitOn)
  moreover have "CHR '' '' \<notin> set t" by (rule splitOn_pieces [of t _ h]) (simp add: s)
  ultimately show "h = ''Bearer '' @ t \<and> CHR '' '' \<notin> set t" by (simp add: s)
next
  assume "h = ''Bearer '' @ t \<and> CHR '' '' \<notin> set t"
  then show "splitOn CHR '' '' h = [''Bearer'', t]"
    using splitOn_append [of "CHR '' ''" "''Bearer''" t] splitOn_free [of "CHR '' ''" t] by simp
qed

text \<open>C25: A request passes authentication exactly when it carries a token that the JWT library accepts as
  valid with the server's key and that has not expired, either in a header \<open>Bearer t\<close> with one blank
  and no other, or, only when there is no such header at all, in the query; a malformed header is
  never repaired by a token in the query.\<close>

theorem authenticated_iff:
  "(AuthMiddleware parse secret now h q = Pass cl) =
    (\<exists>t. parse (jwtKey secret) t = Inr (cl, True) \<and>
      (case cl_expiresAt cl of None \<Rightarrow> True | Some e \<Rightarrow> now \<le> e) \<and>
      (if h = [] then q = t \<and> q \<noteq> [] else h = ''Bearer '' @ t \<and> CHR '' '' \<notin> set t))"
proof -
  have "(ValidateToken parse secret now t = Inr cl) =
      (parse (jwtKey secret) t = Inr (cl, True) \<and> (case cl_expiresAt cl of None \<Rightarrow> True | Some e \<Rightarrow> now \<le> e))" for t
    unfolding ValidateToken_def by (auto split: sum.split prod.split option.split)
  then show ?thesis unfolding AuthMiddleware_pass bearer_split by auto
qed


section \<open>What each role may do\<close>

text \<open>Whether a caller with a role reaches the handler of a route.\<close>

definition admits :: "string \<Rightarrow> route \<Rightarrow> bool" where
  "admits role r = (case rt_guard r of
     Public \<Rightarrow> True | Authenticated \<Rightarrow> True | Role rs \<Rightarrow> list_ex (\<lambda>x. role = x) rs)"

definition onlyFor :: "string \<Rightarrow> string \<Rightarrow> (string \<times> string) list" where
  "onlyFor role other = map (\<lambda>r. (rt_method r, rt_path r)) (filter (\<lambda>r. admits role r \<and> \<not> admits other r) routes)"

lemma serve_pass:
  "(serve parse secret now r h q = Pass (Some cl)) =
     (rt_guard r \<noteq> Public \<and> AuthMiddleware parse secret now h q = Pass cl \<and> admits (cl_role cl) r)"
  unfolding serve_def admits_def RequireRole_def
  by (auto split: guard.split gate.splits if_splits)


text \<open>The access matrix. A viewer reaches no route that changes anything but logging in and out,
  passwords (whose handlers check the caller) and the acknowledgement of alerts; an operator may also
  manage devices, their credentials and power, groups, alert rules and maintenance windows; only
  users and the clearing of events are left to the administrator.\<close>

theorem access_matrix:
  "map (\<lambda>r. (rt_method r, rt_path r)) (filter (\<lambda>r. admits RoleViewer r \<and> rt_method r \<noteq> ''GET'') routes) =
     [(''POST'', ''/api/v1/auth/login''), (''POST'', ''/api/v1/auth/logout''),
      (''PUT'', ''/api/v1/users/me/password''), (''PUT'', ''/api/v1/users/:id/password''),
      (''POST'', ''/api/v1/alerts/:id/acknowledge'')] \<and>
   onlyFor RoleAdmin RoleOperator =
     [(''GET'', ''/api/v1/users''), (''POST'', ''/api/v1/users''), (''GET'', ''/api/v1/users/:id''),
      (''PUT'', ''/api/v1/users/:id''), (''DELETE'', ''/api/v1/users/:id''),
      (''POST'', ''/api/v1/devices/:id/events/clear'')] \<and>
   onlyFor RoleOperator RoleAdmin = [] \<and> onlyFor RoleViewer RoleOperator = []"
  by code_simp

section \<open>Origins\<close>

text \<open>An origin is granted credentialed access exactly when the list names it or contains a star;
  with a star every origin is echoed back together with \<open>Access-Control-Allow-Credentials: true\<close>, so
  that any web site may call the server with the user's credentials.\<close>

theorem cors_star_allows_all:
  "map_of (fst (CORSMiddleware origins meth origin handler)) ''Access-Control-Allow-Credentials'' =
     (if origin \<in> set origins \<or> ''*'' \<in> set origins then Some ''true'' else None) \<and>
   map_of (fst (CORSMiddleware origins meth origin handler)) ''Access-Control-Allow-Origin'' =
     (if origin \<in> set origins \<or> ''*'' \<in> set origins then Some origin else None)"
proof -
  have "corsAllowed origins origin = (origin \<in> set origins \<or> ''*'' \<in> set origins)"
    unfolding corsAllowed_def list_ex_iff by auto
  then show ?thesis unfolding CORSMiddleware_def by simp
qed

section \<open>Lifetime of a token\<close>

text \<open>A token of the server expires: 24 hours after it was made it is refused, whatever the library
  says of it; and until then (a second earlier at the latest, since the library cuts the time to whole
  seconds) a library that reads back what it signed makes it pass.\<close>

theorem token_lifetime:
  assumes "GenerateToken sign secret t0 u n r = Inr token"
    and "\<And>cl tok. sign secret cl = Inr tok \<Longrightarrow> parse (jwtKey secret) tok = Inr (cl, True)"
  shows "(t0 + 86400000000000 < now \<longrightarrow> ValidateToken parse secret now token = Inl ''token expired'') \<and>
    (now \<le> t0 + 86399000000000 \<longrightarrow> (\<exists>cl. ValidateToken parse secret now token = Inr cl \<and>
      cl_user_id cl = u \<and> cl_username cl = n \<and> cl_role cl = r))"
proof -
  let ?cl = "\<lparr>cl_user_id = u, cl_username = n, cl_role = r,
    cl_expiresAt = Some (numericDate (t0 + 24 * 3600000000000)),
    cl_issuedAt = Some (numericDate t0), cl_notBefore = Some (numericDate t0)\<rparr>"
  have "sign secret ?cl = Inr token"
    using assms(1) unfolding GenerateToken_def by (simp split: sum.splits)
  then have p: "parse (jwtKey secret) token = Inr (?cl, True)" by (rule assms(2))
  have "numericDate (t0 + 24 * 3600000000000) \<le> t0 + 86400000000000"
    unfolding numericDate_def using div_mult_mod_eq [of "t0 + 24 * 3600000000000" 1000000000]
      pos_mod_sign [of 1000000000 "t0 + 24 * 3600000000000"] by linarith
  moreover have "t0 + 86399000000000 \<le> numericDate (t0 + 24 * 3600000000000)"
    unfolding numericDate_def using div_mult_mod_eq [of "t0 + 24 * 3600000000000" 1000000000]
      pos_mod_bound [of 1000000000 "t0 + 24 * 3600000000000"] by linarith
  ultimately show ?thesis unfolding ValidateToken_def p by simp
qed


text \<open>A library that signs one set of claims.\<close>

definition exClaims :: claims where
  "exClaims = \<lparr>cl_user_id = ''u1'', cl_username = ''ann'', cl_role = ''viewer'',
     cl_expiresAt = Some 86405000000000, cl_issuedAt = Some 5000000000, cl_notBefore = Some 5000000000\<rparr>"

definition exSign :: "string \<Rightarrow> claims \<Rightarrow> string result" where
  "exSign secret cl = (if cl = exClaims then Inr ''tok'' else Inl ''no key'')"

definition exParse :: jwt_parse where
  "exParse key token = (case key (HMAC ''HS256'') of Inl e \<Rightarrow> Inl e
     | Inr k \<Rightarrow> if token = ''tok'' then Inr (exClaims, True) else Inl ''malformed'')"

lemma token_lifetime_witness:
  "ValidateToken exParse ''s'' 100000000000000 ''tok'' = Inl ''token expired'' \<and>
   (\<exists>cl. ValidateToken exParse ''s'' 6000000000 ''tok'' = Inr cl \<and> cl_role cl = ''viewer'')"
proof -
  have "GenerateToken exSign ''s'' 5000000007 ''u1'' ''ann'' ''viewer'' = Inr ''tok''" by code_simp
  moreover have "exParse (jwtKey ''s'') tok = Inr (cl, True)" if "exSign ''s'' cl = Inr tok" for cl tok
    using that unfolding exSign_def exParse_def jwtKey_def by (auto split: if_splits)
  ultimately show ?thesis
    using token_lifetime [of exSign "''s''" 5000000007 "''u1''" "''ann''" "''viewer''" "''tok''" exParse
        100000000000000] token_lifetime [of exSign "''s''" 5000000007 "''u1''" "''ann''" "''viewer''"
        "''tok''" exParse 6000000000] by auto
qed

end
