(* ===== verification/Users.thy ===== *)
theory Users
  imports Access Api
begin

text \<open>
  Users and the audit log of the API server: the handlers of \<open>backend/internal/api/handlers\<close>
  (\<open>auth_handler.go\<close>, \<open>user_handler.go\<close>), the repositories of \<open>backend/internal/db\<close>
  (\<open>user_repository.go\<close>, \<open>audit_repository.go\<close>) and \<open>backend/internal/services/audit_service.go\<close>.

  The JSON of a request comes bound by gin (\<open>Inl\<close> the binding error); \<open>hash\<close> and \<open>verify\<close> are bcrypt;
  the outcome of a statement that does not depend on the tables is an argument: \<open>dbErr\<close> is the error of
  the database, if any.
\<close>

section \<open>Tables\<close>

record user =
  us_ID :: string
  us_Username :: string
  us_PasswordHash :: string
  us_Email :: "string option"
  us_Role :: string
  us_Enabled :: bool
  us_CreatedAt :: time
  us_UpdatedAt :: time
  us_FullName :: string
  us_LastLoginAt :: "time option"
  us_CreatedBy :: "string option"

record audit_log =
  au_ID :: string
  au_UserID :: "string option"
  au_ActionType :: string
  au_TargetResource :: string
  au_TargetID :: "string option"
  au_SourceIP :: string
  au_Details :: "(string \<times> string) list option"
  au_CreatedAt :: time

section \<open>The user repository\<close>



definition notFound :: "string result \<Rightarrow> bool" where
  "notFound r = (r = Inl ''user not found'')"

text \<open>\<open>id\<close> is the primary key and \<open>username\<close> is unique: an insert or update that breaks this fails.\<close>

definition clash :: "user \<Rightarrow> user list \<Rightarrow> bool" where
  "clash u users = list_ex (\<lambda>v. us_ID v \<noteq> us_ID u \<and> us_Username v = us_Username u) users"

definition user_Create :: "db_error \<Rightarrow> user \<Rightarrow> user list \<Rightarrow> user list \<times> string option" where
  "user_Create dbErr u users = (case dbErr of
     Some e \<Rightarrow> (users, Some (''failed to create user: '' @ e))
   | None \<Rightarrow> (if clash u users \<or> list_ex (\<lambda>v. us_ID v = us_ID u) users
       then (users, Some ''failed to create user: pq: duplicate key value violates unique constraint'')
       else (users @ [u], None)))"

definition user_GetByUsername :: "db_error \<Rightarrow> string \<Rightarrow> user list \<Rightarrow> user result" where
  "user_GetByUsername dbErr name users = (case dbErr of
     Some e \<Rightarrow> Inl (''failed to get user: '' @ e)
   | None \<Rightarrow> (case findBy us_Username name users of None \<Rightarrow> Inl ''user not found'' | Some u \<Rightarrow> Inr u))"

definition user_GetByID :: "db_error \<Rightarrow> string \<Rightarrow> user list \<Rightarrow> user result" where
  "user_GetByID dbErr ident users = (case dbErr of
     Some e \<Rightarrow> Inl (''failed to get user: '' @ e)
   | None \<Rightarrow> (case findBy us_ID ident users of None \<Rightarrow> Inl ''user not found'' | Some u \<Rightarrow> Inr u))"

text \<open>\<open>List\<close> orders by creation, the latest first.\<close>

definition user_List :: "db_error \<Rightarrow> user list \<Rightarrow> user list result" where
  "user_List dbErr users = (case dbErr of
     Some e \<Rightarrow> Inl (''failed to list users: '' @ e)
   | None \<Rightarrow> Inr (sort_key (\<lambda>u. - us_CreatedAt u) users))"

text \<open>\<open>Update\<close> returns the user with its new modification time too, since it assigns to its argument.\<close>

definition user_Update ::
  "db_error \<Rightarrow> time \<Rightarrow> user \<Rightarrow> user list \<Rightarrow> user list \<times> user \<times> string option" where
  "user_Update dbErr now u users = (let u1 = u\<lparr>us_UpdatedAt := now\<rparr> in
     case dbErr of
       Some e \<Rightarrow> (users, u1, Some (''failed to update user: '' @ e))
     | None \<Rightarrow>
         (if \<not> list_ex (\<lambda>v. us_ID v = us_ID u) users then (users, u1, Some ''user not found'')
          else if clash u users
          then (users, u1, Some ''failed to update user: pq: duplicate key value violates unique constraint'')
          else (updateWhere (\<lambda>v. us_ID v = us_ID u)
            (\<lambda>v. v\<lparr>us_Username := us_Username u1, us_PasswordHash := us_PasswordHash u1, us_Email := us_Email u1,
               us_Role := us_Role u1, us_Enabled := us_Enabled u1, us_UpdatedAt := us_UpdatedAt u1,
               us_FullName := us_FullName u1\<rparr>) users, u1, None)))"

definition UpdateLastLoginAt :: "db_error \<Rightarrow> time \<Rightarrow> string \<Rightarrow> user list \<Rightarrow> user list \<times> string option" where
  "UpdateLastLoginAt dbErr now ident users = (case dbErr of
     Some e \<Rightarrow> (users, if contains e ''last_login_at'' \<or> contains e ''column'' then None
       else Some (''failed to update last_login_at: '' @ e))
   | None \<Rightarrow> (updateWhere (\<lambda>v. us_ID v = ident) (\<lambda>v. v\<lparr>us_LastLoginAt := Some now\<rparr>) users, None))"

definition UpdatePassword ::
  "db_error \<Rightarrow> time \<Rightarrow> string \<Rightarrow> string \<Rightarrow> user list \<Rightarrow> user list \<times> string option" where
  "UpdatePassword dbErr now ident passwordHash users = (case dbErr of
     Some e \<Rightarrow> (users, Some (''failed to update password: '' @ e))
   | None \<Rightarrow> (if \<not> list_ex (\<lambda>v. us_ID v = ident) users then (users, Some ''user not found'')
       else (updateWhere (\<lambda>v. us_ID v = ident)
         (\<lambda>v. v\<lparr>us_PasswordHash := passwordHash, us_UpdatedAt := now\<rparr>) users, None)))"

definition user_Delete :: "db_error \<Rightarrow> string \<Rightarrow> user list \<Rightarrow> user list \<times> string option" where
  "user_Delete dbErr ident users = (case dbErr of
     Some e \<Rightarrow> (users, Some (''failed to delete user: '' @ e))
   | None \<Rightarrow> (if \<not> list_ex (\<lambda>v. us_ID v = ident) users then (users, Some ''user not found'')
       else (filter (\<lambda>v. us_ID v \<noteq> ident) users, None)))"

section \<open>The audit log\<close>

definition audit_Create :: "db_error \<Rightarrow> string \<Rightarrow> time \<Rightarrow> audit_log \<Rightarrow> audit_log list \<Rightarrow> audit_log list \<times> string option" where
  "audit_Create dbErr newId now log logs = (case dbErr of
     Some e \<Rightarrow> (logs, Some (''failed to create audit log: '' @ e))
   | None \<Rightarrow> (logs @ [log\<lparr>au_ID := newId, au_CreatedAt := now\<rparr>], None))"

definition newAudit ::
  "string option \<Rightarrow> string \<Rightarrow> string \<Rightarrow> string option \<Rightarrow> string \<Rightarrow> (string \<times> string) list option \<Rightarrow> audit_log" where
  "newAudit userID actionType resource targetID sourceIP details =
     \<lparr>au_ID = [], au_UserID = userID, au_ActionType = actionType, au_TargetResource = resource,
      au_TargetID = targetID, au_SourceIP = sourceIP, au_Details = details, au_CreatedAt = 0\<rparr>"

definition LogUserLogin :: "string \<Rightarrow> string \<Rightarrow> string \<Rightarrow> audit_log" where
  "LogUserLogin userID username sourceIP =
     newAudit (Some userID) ''user_login'' ''user'' (Some userID) sourceIP (Some [(''username'', username)])"

definition LogUserLoginFailed :: "string \<Rightarrow> string \<Rightarrow> audit_log" where
  "LogUserLoginFailed username sourceIP =
     newAudit None ''user_login_failed'' ''user'' None sourceIP (Some [(''username'', username)])"

definition LogDeviceCreate :: "string \<Rightarrow> string \<Rightarrow> string \<Rightarrow> (string \<times> string) list option \<Rightarrow> audit_log" where
  "LogDeviceCreate userID deviceID sourceIP details =
     newAudit (Some userID) ''device_create'' ''device'' (Some deviceID) sourceIP details"

definition LogDeviceUpdate :: "string \<Rightarrow> string \<Rightarrow> string \<Rightarrow> (string \<times> string) list option \<Rightarrow> audit_log" where
  "LogDeviceUpdate userID deviceID sourceIP details =
     newAudit (Some userID) ''device_update'' ''device'' (Some deviceID) sourceIP details"

definition LogDeviceDelete :: "string \<Rightarrow> string \<Rightarrow> string \<Rightarrow> (string \<times> string) list option \<Rightarrow> audit_log" where
  "LogDeviceDelete userID deviceID sourceIP details =
     newAudit (Some userID) ''device_delete'' ''device'' (Some deviceID) sourceIP details"

definition LogAlertRuleCreate :: "string \<Rightarrow> string \<Rightarrow> string \<Rightarrow> (string \<times> string) list option \<Rightarrow> audit_log" where
  "LogAlertRuleCreate userID ruleID sourceIP details =
     newAudit (Some userID) ''alert_rule_create'' ''alert_rule'' (Some ruleID) sourceIP details"

definition LogAlertRuleUpdate :: "string \<Rightarrow> string \<Rightarrow> string \<Rightarrow> (string \<times> string) list option \<Rightarrow> audit_log" where
  "LogAlertRuleUpdate userID ruleID sourceIP details =
     newAudit (Some userID) ''alert_rule_update'' ''alert_rule'' (Some ruleID) sourceIP details"

definition LogAlertRuleDelete :: "string \<Rightarrow> string \<Rightarrow> string \<Rightarrow> (string \<times> string) list option \<Rightarrow> audit_log" where
  "LogAlertRuleDelete userID ruleID sourceIP details =
     newAudit (Some userID) ''alert_rule_delete'' ''alert_rule'' (Some ruleID) sourceIP details"

definition LogMaintenanceWindowCreate :: "string \<Rightarrow> string \<Rightarrow> string \<Rightarrow> (string \<times> string) list option \<Rightarrow> audit_log" where
  "LogMaintenanceWindowCreate userID windowID sourceIP details =
     newAudit (Some userID) ''maintenance_window_create'' ''maintenance_window'' (Some windowID) sourceIP details"

definition LogMaintenanceWindowDelete :: "string \<Rightarrow> string \<Rightarrow> string \<Rightarrow> (string \<times> string) list option \<Rightarrow> audit_log" where
  "LogMaintenanceWindowDelete userID windowID sourceIP details =
     newAudit (Some userID) ''maintenance_window_delete'' ''maintenance_window'' (Some windowID) sourceIP details"

definition LogAction :: "string \<Rightarrow> string \<Rightarrow> string \<Rightarrow> (string \<times> string) list option \<Rightarrow> audit_log" where
  "LogAction userID actionType sourceIP details =
     newAudit (Some userID) actionType ''alert'' None sourceIP details"

section \<open>Responses\<close>

datatype reply =
    ReplyError int string string
  | ReplyUser int user
  | ReplyUsers "user list"
  | ReplyMessage string
  | ReplyNoContent
  | ReplyToken string user

definition userResponse :: "user \<Rightarrow> user" where
  "userResponse u = u\<lparr>us_PasswordHash := []\<rparr>"

definition validRole :: "string \<Rightarrow> bool" where
  "validRole r = (r = RoleAdmin \<or> r = RoleOperator \<or> r = RoleViewer)"

definition HashPassword :: "(string \<Rightarrow> string result) \<Rightarrow> string \<Rightarrow> string result" where
  "HashPassword bcryptHash password = (if password = [] then Inl ''password cannot be empty''
     else case bcryptHash password of Inl e \<Rightarrow> Inl (''failed to hash password: '' @ e) | Inr h \<Rightarrow> Inr h)"

section \<open>Login\<close>

record auth_state =
  as_users :: "user list"
  as_audit :: "audit_log list"

text \<open>What the world answers to the statements of one request, in the order they are issued.\<close>

record auth_env =
  ae_getErr :: db_error
  ae_writeErr :: db_error
  ae_auditErr :: db_error
  ae_auditId :: string
  ae_now :: time
  ae_ip :: string

definition writeAudit :: "auth_env \<Rightarrow> audit_log \<Rightarrow> auth_state \<Rightarrow> auth_state" where
  "writeAudit env log s = s\<lparr>as_audit := fst (audit_Create (ae_auditErr env) (ae_auditId env) (ae_now env) log (as_audit s))\<rparr>"

definition badLogin :: "auth_env \<Rightarrow> string \<Rightarrow> auth_state \<Rightarrow> auth_state \<times> reply" where
  "badLogin env username s = (writeAudit env (LogUserLoginFailed username (ae_ip env)) s,
     ReplyError 401 ''Invalid username or password'' [])"

definition Login ::
  "(string \<Rightarrow> string \<Rightarrow> bool) \<Rightarrow> (string \<Rightarrow> claims \<Rightarrow> string result) \<Rightarrow> string \<Rightarrow> auth_env \<Rightarrow>
   (string \<times> string) result \<Rightarrow> auth_state \<Rightarrow> auth_state \<times> reply" where
  "Login verify sign secret env req s = (case req of
     Inl e \<Rightarrow> (s, ReplyError 400 e ''INVALID_REQUEST'')
   | Inr (username, password) \<Rightarrow>
       (case user_GetByUsername (ae_getErr env) username (as_users s) of
          Inl e \<Rightarrow> badLogin env username s
        | Inr u \<Rightarrow>
            (if \<not> us_Enabled u then badLogin env username s
             else if \<not> verify password (us_PasswordHash u) then badLogin env username s
             else case GenerateToken sign secret (ae_now env) (us_ID u) (us_Username u) (us_Role u) of
               Inl e \<Rightarrow> (s, ReplyError 500 ''Failed to generate token'' ''INTERNAL_ERROR'')
             | Inr token \<Rightarrow>
                 (let s1 = s\<lparr>as_users := fst (UpdateLastLoginAt (ae_writeErr env) (ae_now env) (us_ID u) (as_users s))\<rparr> in
                  (writeAudit env (LogUserLogin (us_ID u) (us_Username u) (ae_ip env)) s1,
                   ReplyToken token (userResponse u))))))"

definition Me :: "db_error \<Rightarrow> string option \<Rightarrow> user list \<Rightarrow> reply" where
  "Me dbErr caller users = (case caller of
     None \<Rightarrow> ReplyError 401 ''User not authenticated'' ''UNAUTHORIZED''
   | Some i \<Rightarrow> (case user_GetByID dbErr i users of
       Inl e \<Rightarrow> ReplyError 404 ''User not found'' ''NOT_FOUND''
     | Inr u \<Rightarrow> ReplyUser 200 (userResponse u)))"


section \<open>User management\<close>

text \<open>Requests as bound. \<open>uc_\<close>: creation; \<open>uu_\<close>: update, where the empty string and \<open>None\<close> leave a field
  as it is; a password change is the pair of the current and the new password.\<close>

record user_create =
  uc_Username :: string
  uc_Email :: string
  uc_Password :: string
  uc_Role :: string
  uc_FullName :: string
  uc_Enabled :: bool

record user_update =
  uu_Username :: string
  uu_Email :: string
  uu_Role :: string
  uu_FullName :: string
  uu_Enabled :: "bool option"

definition ListUsers :: "db_error \<Rightarrow> user list \<Rightarrow> reply" where
  "ListUsers dbErr users = (case user_List dbErr users of
     Inl e \<Rightarrow> ReplyError 500 ''Failed to list users'' ''INTERNAL_ERROR''
   | Inr us \<Rightarrow> ReplyUsers (map userResponse us))"

definition CreateUser ::
  "(string \<Rightarrow> string result) \<Rightarrow> db_error \<Rightarrow> string \<Rightarrow> time \<Rightarrow> time \<Rightarrow> string \<Rightarrow> user_create result \<Rightarrow>
   user list \<Rightarrow> user list \<times> reply" where
  "CreateUser bcryptHash dbErr newId t1 t2 caller req users = (case req of
     Inl e \<Rightarrow> (users, ReplyError 400 e ''INVALID_REQUEST'')
   | Inr r \<Rightarrow>
       (if \<not> validRole (uc_Role r) then (users, ReplyError 400 ''Invalid role'' ''INVALID_ROLE'')
        else case HashPassword bcryptHash (uc_Password r) of
          Inl e \<Rightarrow> (users, ReplyError 500 ''Failed to hash password'' ''INTERNAL_ERROR'')
        | Inr h \<Rightarrow>
            (let u = \<lparr>us_ID = newId, us_Username = uc_Username r, us_PasswordHash = h,
                   us_Email = Some (uc_Email r), us_Role = uc_Role r, us_Enabled = uc_Enabled r,
                   us_CreatedAt = t1, us_UpdatedAt = t2, us_FullName = uc_FullName r,
                   us_LastLoginAt = None, us_CreatedBy = Some caller\<rparr> in
             case user_Create dbErr u users of
               (users', Some e) \<Rightarrow> (users', ReplyError 500 ''Failed to create user'' ''INTERNAL_ERROR'')
             | (users', None) \<Rightarrow> (users', ReplyUser 201 (userResponse u)))))"

text \<open>An ID in a path is parsed first: \<open>None\<close> when it is not a UUID.\<close>

definition GetUser :: "db_error \<Rightarrow> string option \<Rightarrow> user list \<Rightarrow> reply" where
  "GetUser dbErr param users = (case param of
     None \<Rightarrow> ReplyError 400 ''Invalid user ID'' ''INVALID_ID''
   | Some i \<Rightarrow> (case user_GetByID dbErr i users of
       Inl e \<Rightarrow> ReplyError 404 ''User not found'' ''NOT_FOUND''
     | Inr u \<Rightarrow> ReplyUser 200 (userResponse u)))"

definition applyUpdate :: "user_update \<Rightarrow> user \<Rightarrow> user option" where
  "applyUpdate r u =
     (let u1 = (if uu_Username r \<noteq> [] then u\<lparr>us_Username := uu_Username r\<rparr> else u);
          u2 = (if uu_Email r \<noteq> [] then u1\<lparr>us_Email := Some (uu_Email r)\<rparr> else u1) in
      if uu_Role r \<noteq> [] \<and> \<not> validRole (uu_Role r) then None
      else let u3 = (if uu_Role r \<noteq> [] then u2\<lparr>us_Role := uu_Role r\<rparr> else u2);
               u4 = (if uu_FullName r \<noteq> [] then u3\<lparr>us_FullName := uu_FullName r\<rparr> else u3) in
        Some (case uu_Enabled r of None \<Rightarrow> u4 | Some b \<Rightarrow> u4\<lparr>us_Enabled := b\<rparr>))"

definition UpdateUser ::
  "db_error \<Rightarrow> db_error \<Rightarrow> time \<Rightarrow> string option \<Rightarrow> user_update result \<Rightarrow> user list \<Rightarrow> user list \<times> reply" where
  "UpdateUser getErr updErr now param req users = (case param of
     None \<Rightarrow> (users, ReplyError 400 ''Invalid user ID'' ''INVALID_ID'')
   | Some i \<Rightarrow> (case req of
       Inl e \<Rightarrow> (users, ReplyError 400 e ''INVALID_REQUEST'')
     | Inr r \<Rightarrow> (case user_GetByID getErr i users of
         Inl e \<Rightarrow> (users, ReplyError 404 ''User not found'' ''NOT_FOUND'')
       | Inr u \<Rightarrow> (case applyUpdate r u of
           None \<Rightarrow> (users, ReplyError 400 ''Invalid role'' ''INVALID_ROLE'')
         | Some u1 \<Rightarrow> (case user_Update updErr now u1 users of
             (users', u2, Some e) \<Rightarrow> (users', ReplyError 500 ''Failed to update user'' ''INTERNAL_ERROR'')
           | (users', u2, None) \<Rightarrow> (users', ReplyUser 200 (userResponse u2)))))))"

definition DeleteUser :: "db_error \<Rightarrow> string option \<Rightarrow> string \<Rightarrow> user list \<Rightarrow> user list \<times> reply" where
  "DeleteUser dbErr param caller users = (case param of
     None \<Rightarrow> (users, ReplyError 400 ''Invalid user ID'' ''INVALID_ID'')
   | Some i \<Rightarrow>
       (if caller = i then (users, ReplyError 403 ''Cannot delete your own account'' ''FORBIDDEN'')
        else case user_Delete dbErr i users of
          (users', Some e) \<Rightarrow> (users', ReplyError 404 ''User not found'' ''NOT_FOUND'')
        | (users', None) \<Rightarrow> (users', ReplyNoContent)))"

definition setPassword ::
  "(string \<Rightarrow> string result) \<Rightarrow> db_error \<Rightarrow> time \<Rightarrow> string \<Rightarrow> string \<Rightarrow> reply \<Rightarrow> user list \<Rightarrow> user list \<times> reply" where
  "setPassword bcryptHash dbErr now i newPassword onErr users =
     (case HashPassword bcryptHash newPassword of
        Inl e \<Rightarrow> (users, ReplyError 500 ''Failed to hash password'' ''INTERNAL_ERROR'')
      | Inr h \<Rightarrow> (case UpdatePassword dbErr now i h users of
          (users', Some e) \<Rightarrow> (users', onErr)
        | (users', None) \<Rightarrow> (users', ReplyMessage ''Password updated successfully'')))"

definition ChangePassword ::
  "(string \<Rightarrow> string result) \<Rightarrow> (string \<Rightarrow> string \<Rightarrow> bool) \<Rightarrow> db_error \<Rightarrow> db_error \<Rightarrow> time \<Rightarrow> claims \<Rightarrow>
   string option \<Rightarrow> (string \<times> string) result \<Rightarrow> user list \<Rightarrow> user list \<times> reply" where
  "ChangePassword bcryptHash verify getErr updErr now caller param req users = (case param of
     None \<Rightarrow> (users, ReplyError 400 ''Invalid user ID'' ''INVALID_ID'')
   | Some i \<Rightarrow> (case req of
       Inl e \<Rightarrow> (users, ReplyError 400 e ''INVALID_REQUEST'')
     | Inr (currentPassword, newPassword) \<Rightarrow>
         (let isSelf = (cl_user_id caller = i); isAdmin = (cl_role caller = RoleAdmin);
              set_it = setPassword bcryptHash updErr now i newPassword
                (ReplyError 404 ''User not found'' ''NOT_FOUND'') users in
          if \<not> isSelf \<and> \<not> isAdmin then (users, ReplyError 403 ''Insufficient permissions'' ''FORBIDDEN'')
          else if isSelf
          then (if currentPassword = []
            then (users, ReplyError 400 ''current_password is required when changing your own password'' ''INVALID_REQUEST'')
            else case user_GetByID getErr i users of
              Inl e \<Rightarrow> (users, ReplyError 404 ''User not found'' ''NOT_FOUND'')
            | Inr u \<Rightarrow> (if \<not> verify currentPassword (us_PasswordHash u)
                then (users, ReplyError 401 ''Current password is incorrect'' ''INVALID_PASSWORD'')
                else set_it))
          else set_it)))"

definition ChangeOwnPassword ::
  "(string \<Rightarrow> string result) \<Rightarrow> (string \<Rightarrow> string \<Rightarrow> bool) \<Rightarrow> db_error \<Rightarrow> db_error \<Rightarrow> time \<Rightarrow> string \<Rightarrow>
   (string \<times> string) result \<Rightarrow> user list \<Rightarrow> user list \<times> reply" where
  "ChangeOwnPassword bcryptHash verify getErr updErr now caller req users = (case req of
     Inl e \<Rightarrow> (users, ReplyError 400 e ''INVALID_REQUEST'')
   | Inr (currentPassword, newPassword) \<Rightarrow>
       (if currentPassword = [] then (users, ReplyError 400 ''current_password is required'' ''INVALID_REQUEST'')
        else case user_GetByID getErr caller users of
          Inl e \<Rightarrow> (users, ReplyError 404 ''User not found'' ''NOT_FOUND'')
        | Inr u \<Rightarrow> (if \<not> verify currentPassword (us_PasswordHash u)
            then (users, ReplyError 401 ''Current password is incorrect'' ''INVALID_PASSWORD'')
            else setPassword bcryptHash updErr now caller newPassword
              (ReplyError 500 ''Failed to update password'' ''INTERNAL_ERROR'') users)))"

definition GetMe :: "db_error \<Rightarrow> string \<Rightarrow> user list \<Rightarrow> reply" where
  "GetMe dbErr caller users = (case user_GetByID dbErr caller users of
     Inl e \<Rightarrow> ReplyError 404 ''User not found'' ''NOT_FOUND''
   | Inr u \<Rightarrow> ReplyUser 200 (userResponse u))"

section \<open>Passwords\<close>

definition hashOf :: "string \<Rightarrow> user list \<Rightarrow> string option" where
  "hashOf i users = map_option us_PasswordHash (findBy us_ID i users)"

lemma hashOf_UpdatePassword:
  "hashOf j (fst (UpdatePassword e now i h users)) =
     (if e = None \<and> j = i \<and> hashOf i users \<noteq> None then Some h else hashOf j users)"
proof -
  have miss: "\<not> list_ex (\<lambda>v. us_ID v = i) users \<Longrightarrow> findBy us_ID i users = None"
    by (induction users) auto
  show ?thesis
    unfolding UpdatePassword_def hashOf_def using miss
    by (auto simp: findBy_update [where k' = i] split: option.split)
qed

lemma hashOf_setPassword:
  "hashOf j (fst (setPassword bh e now i pw onErr users)) \<noteq> hashOf j users \<Longrightarrow>
     j = i \<and> pw \<noteq> [] \<and> (\<exists>h. bh pw = Inr h \<and> hashOf j (fst (setPassword bh e now i pw onErr users)) = Some h)"
  unfolding setPassword_def HashPassword_def
  by (auto simp: hashOf_UpdatePassword split: sum.splits if_splits prod.splits option.splits)
    (metis fst_conv hashOf_UpdatePassword)+


text \<open>C19: Only two kinds of request ever change a stored password through \<open>ChangePassword\<close>: the user's own,
  with the current password verified against the stored hash, and an administrator's for another
  user; and then the new hash is that of the password in the request. An administrator too has to
  give the current password to change its own.\<close>

theorem password_change_is_guarded:
  assumes "hashOf j (fst (ChangePassword bh verify ge ue now caller param req users)) \<noteq> hashOf j users"
  shows "\<exists>cur new h. param = Some j \<and> req = Inr (cur, new) \<and> bh new = Inr h \<and>
    hashOf j (fst (ChangePassword bh verify ge ue now caller param req users)) = Some h \<and>
    (if cl_user_id caller = j then \<exists>old. hashOf j users = Some old \<and> verify cur old
     else cl_role caller = RoleAdmin)"
proof (cases param)
  case None
  with assms show ?thesis unfolding ChangePassword_def by simp
next
  case (Some i)
  show ?thesis
  proof (cases req)
    case (Inl e)
    with Some assms show ?thesis unfolding ChangePassword_def by simp
  next
    case (Inr r)
    obtain cur new where r: "r = (cur, new)" by (cases r)
    let ?set = "setPassword bh ue now i new (ReplyError 404 ''User not found'' ''NOT_FOUND'') users"
    have old: "hashOf i users = Some (us_PasswordHash u)" if "user_GetByID ge i users = Inr u" for u
      using that unfolding user_GetByID_def hashOf_def by (auto split: option.splits)
    have "fst (ChangePassword bh verify ge ue now caller param req users) = fst ?set \<and>
        (if cl_user_id caller = i then \<exists>old. hashOf i users = Some old \<and> verify cur old
         else cl_role caller = RoleAdmin)"
      using assms Some Inr r old unfolding ChangePassword_def
      by (auto simp: Let_def split: if_splits sum.splits)
    with hashOf_setPassword [of j bh ue now i new _ users] assms Some Inr r show ?thesis
      by (metis (no_types, lifting))
  qed
qed

definition exUser :: "string \<Rightarrow> string \<Rightarrow> string \<Rightarrow> user" where
  "exUser i h r = \<lparr>us_ID = i, us_Username = i, us_PasswordHash = h, us_Email = None, us_Role = r,
     us_Enabled = True, us_CreatedAt = 0, us_UpdatedAt = 0, us_FullName = [], us_LastLoginAt = None,
     us_CreatedBy = None\<rparr>"

lemma password_change_is_guarded_witness:
  "\<exists>cur new h. Some ''u1'' = Some ''u1'' \<and> Inr (''old'', ''new'') = (Inr (cur, new) :: (string \<times> string) result) \<and>
     (Inr (''h'' @ new) :: string result) = Inr h \<and> (\<exists>old. hashOf ''u1'' [exUser ''u1'' ''hold'' ''viewer''] = Some old \<and>
       old = ''h'' @ cur)"
proof -
  have "hashOf ''u1'' (fst (ChangePassword (\<lambda>p. Inr (''h'' @ p)) (\<lambda>p h. h = ''h'' @ p) None None 9 exClaims
      (Some ''u1'') (Inr (''old'', ''new'')) [exUser ''u1'' ''hold'' ''viewer''])) = Some ''hnew''"
    by code_simp
  moreover have "hashOf ''u1'' [exUser ''u1'' ''hold'' ''viewer''] = Some ''hold''" by code_simp
  ultimately show ?thesis
    using password_change_is_guarded [of "''u1''" "\<lambda>p. Inr (''h'' @ p)" "\<lambda>p h. h = ''h'' @ p" None None 9
      exClaims "Some ''u1''" "Inr (''old'', ''new'')" "[exUser ''u1'' ''hold'' ''viewer'']"]
    by (simp add: exClaims_def)
qed

section \<open>Login\<close>

text \<open>Login hands out a token exactly when the request binds, the user exists and is enabled, the
  password verifies and signing succeeds; the token is signed for that user and role. Every other
  login that binds is answered by the same 401, which tells an unknown user from a disabled one and
  from a wrong password no more than the database does, and is written to the audit log if that
  statement succeeds.\<close>

theorem login_outcome:
  "case user_GetByUsername (ae_getErr env) n (as_users s) of
     Inl e \<Rightarrow> Login verify sign secret env (Inr (n, p)) s = badLogin env n s
   | Inr u \<Rightarrow>
      (if us_Enabled u \<and> verify p (us_PasswordHash u)
       then (case GenerateToken sign secret (ae_now env) (us_ID u) (us_Username u) (us_Role u) of
           Inl e \<Rightarrow> Login verify sign secret env (Inr (n, p)) s =
             (s, ReplyError 500 ''Failed to generate token'' ''INTERNAL_ERROR'')
         | Inr token \<Rightarrow> snd (Login verify sign secret env (Inr (n, p)) s) = ReplyToken token (userResponse u) \<and>
             map us_PasswordHash (as_users (fst (Login verify sign secret env (Inr (n, p)) s))) =
               map us_PasswordHash (as_users s))
       else Login verify sign secret env (Inr (n, p)) s = badLogin env n s)"
proof -
  have "map us_PasswordHash (fst (UpdateLastLoginAt e t i us)) = map us_PasswordHash us" for e t i us
    unfolding UpdateLastLoginAt_def updateWhere_def by (cases e) (simp_all add: comp_def)
  then show ?thesis unfolding Login_def writeAudit_def
    by (simp add: Let_def split: sum.split)
qed

section \<open>What leaves the server\<close>

fun reply_users :: "reply \<Rightarrow> user list" where
  "reply_users (ReplyUser c u) = [u]"
| "reply_users (ReplyUsers us) = us"
| "reply_users (ReplyToken t u) = [u]"
| "reply_users _ = []"

definition hides_hash :: "reply \<Rightarrow> bool" where
  "hides_hash r = list_all (\<lambda>u. us_PasswordHash u = []) (reply_users r)"

text \<open>No handler sends a password hash: in every answer of the login and of every user handler, on
  every branch, the hash of every user in it has been blanked.\<close>

theorem replies_hide_hash:
  "hides_hash (snd (Login verify sign secret env lreq s)) \<and> hides_hash (Me e1 me users) \<and>
   hides_hash (ListUsers e1 users) \<and> hides_hash (GetUser e1 param users) \<and> hides_hash (GetMe e1 c users) \<and>
   hides_hash (snd (CreateUser bh e1 newId t1 t2 c creq users)) \<and>
   hides_hash (snd (UpdateUser e1 e2 now param ureq users)) \<and>
   hides_hash (snd (DeleteUser e1 param c users)) \<and>
   hides_hash (snd (ChangePassword bh verify e1 e2 now cl param preq users)) \<and>
   hides_hash (snd (ChangeOwnPassword bh verify e1 e2 now c preq users))"
proof -
  have h: "us_PasswordHash (userResponse u) = []" for u unfolding userResponse_def by simp
  have sp: "hides_hash (snd (setPassword bh e now i pw onErr users))" if "hides_hash onErr"
    for bh e now i pw onErr users
    using that unfolding setPassword_def by (auto simp: hides_hash_def split: sum.split prod.split option.split)
  have l: "hides_hash (snd (Login verify sign secret env lreq s))"
    unfolding Login_def badLogin_def by (auto simp: hides_hash_def h Let_def split: sum.split)
  have m: "hides_hash (Me e1 me users)" "hides_hash (ListUsers e1 users)" "hides_hash (GetUser e1 param users)"
      "hides_hash (GetMe e1 c users)"
    unfolding Me_def ListUsers_def GetUser_def GetMe_def
    by (auto simp: hides_hash_def h list_all_iff split: option.split sum.split)
  have u: "hides_hash (snd (CreateUser bh e1 newId t1 t2 c creq users))"
      "hides_hash (snd (UpdateUser e1 e2 now param ureq users))" "hides_hash (snd (DeleteUser e1 param c users))"
    unfolding CreateUser_def UpdateUser_def DeleteUser_def
    by (auto simp: hides_hash_def h Let_def split: option.split sum.split prod.split)
  have p: "hides_hash (snd (ChangePassword bh verify e1 e2 now cl param preq users))"
      "hides_hash (snd (ChangeOwnPassword bh verify e1 e2 now c preq users))"
    unfolding ChangePassword_def ChangeOwnPassword_def Let_def
    by (auto simp: sp hides_hash_def split: option.split sum.split prod.split intro!: sp [unfolded hides_hash_def])
  from l m u p show ?thesis by blast
qed


section \<open>Keys and administrators\<close>

definition users_ok :: "user list \<Rightarrow> bool" where
  "users_ok users = (distinct (map us_ID users) \<and> distinct (map us_Username users))"

lemma users_ok_Create [inv_intros]:
  assumes "users_ok users" shows "users_ok (fst (user_Create e u users))"
proof (cases "clash u users \<or> list_ex (\<lambda>v. us_ID v = us_ID u) users")
  case True
  then show ?thesis using assms unfolding user_Create_def by (simp split: option.split)
next
  case False
  then have i: "\<forall>v \<in> set users. us_ID v \<noteq> us_ID u" unfolding list_ex_iff by blast
  with False have "\<forall>v \<in> set users. us_Username v \<noteq> us_Username u"
    unfolding clash_def list_ex_iff by blast
  with i have "us_ID u \<notin> us_ID ` set users" "us_Username u \<notin> us_Username ` set users"
    by (force simp: image_iff)+
  then show ?thesis using assms False unfolding user_Create_def users_ok_def
    by (simp split: option.split)
qed

lemma users_ok_Delete [inv_intros]: "users_ok users \<Longrightarrow> users_ok (fst (user_Delete e i users))"
  unfolding users_ok_def user_Delete_def by (auto simp: distinct_map_filter split: option.split)

lemma users_ok_cong:
  "(\<And>v. us_ID (f v) = us_ID v) \<Longrightarrow> (\<And>v. us_Username (f v) = us_Username v) \<Longrightarrow>
     users_ok (updateWhere P f users) = users_ok users"
  unfolding users_ok_def by (simp add: keys_update)

lemma users_ok_UpdatePassword [inv_intros]:
  "users_ok users \<Longrightarrow> users_ok (fst (UpdatePassword e now i h users))"
  unfolding UpdatePassword_def by (auto simp: users_ok_cong split: option.split)

lemma users_ok_LastLogin [inv_intros]:
  "users_ok users \<Longrightarrow> users_ok (fst (UpdateLastLoginAt e now i users))"
  unfolding UpdateLastLoginAt_def by (auto simp: users_ok_cong split: option.split)

lemma distinct_rename:
  assumes "distinct (map us_ID users)" "distinct (map us_Username users)"
    and "\<forall>v \<in> set users. us_ID v \<noteq> i \<longrightarrow> us_Username v \<noteq> n"
    and "\<And>v. us_Username (f v) = n"
  shows "distinct (map us_Username (updateWhere (\<lambda>v. us_ID v = i) f users))"
  using assms
proof (induction users)
  case (Cons u us)
  show ?case
  proof (cases "us_ID u = i")
    case True
    have ne: "us_ID v \<noteq> i" if "v \<in> set us" for v
    proof -
      have "us_ID v \<in> us_ID ` set us" using that by (rule imageI)
      with Cons.prems(1) True show ?thesis by auto
    qed
    then have "updateWhere (\<lambda>v. us_ID v = i) f us = us"
      unfolding updateWhere_def by (intro map_idI) simp
    moreover have "us_Username v \<noteq> n" if "v \<in> set us" for v
      using Cons.prems(3) ne [OF that] that by simp
    ultimately show ?thesis using True Cons.prems(2,4) by (auto simp: updateWhere_def)
  next
    case False
    have "us_Username u \<notin> set (map us_Username (updateWhere (\<lambda>v. us_ID v = i) f us))"
      using Cons.prems False by (auto simp: updateWhere_def split: if_splits)
    with Cons False show ?thesis by (simp add: updateWhere_def)
  qed
qed (simp add: updateWhere_def)

lemma users_ok_Update [inv_intros]:
  assumes "users_ok users" shows "users_ok (fst (user_Update e now u users))"
proof (cases "e = None \<and> list_ex (\<lambda>v. us_ID v = us_ID u) users \<and> \<not> clash u users")
  case False
  with assms show ?thesis unfolding user_Update_def by (auto simp: Let_def split: option.split)
next
  case True
  let ?f = "\<lambda>v. v\<lparr>us_Username := us_Username u, us_PasswordHash := us_PasswordHash u, us_Email := us_Email u,
     us_Role := us_Role u, us_Enabled := us_Enabled u, us_UpdatedAt := now, us_FullName := us_FullName u\<rparr>"
  have "fst (user_Update e now u users) = updateWhere (\<lambda>v. us_ID v = us_ID u) ?f users"
    using True unfolding user_Update_def by (simp add: Let_def)
  moreover have "distinct (map us_Username (updateWhere (\<lambda>v. us_ID v = us_ID u) ?f users))"
    using assms True by (intro distinct_rename) (auto simp: users_ok_def clash_def list_ex_iff)
  ultimately show ?thesis using assms unfolding users_ok_def by (simp add: keys_update)
qed

text \<open>Every user operation of the API keeps IDs and user names unique.\<close>

theorem user_keys_unique:
  assumes "users_ok users"
  shows "users_ok (fst (CreateUser bh e1 newId t1 t2 c creq users)) \<and>
    users_ok (fst (UpdateUser e1 e2 now param ureq users)) \<and>
    users_ok (fst (DeleteUser e1 param c users)) \<and>
    users_ok (fst (ChangePassword bh verify e1 e2 now cl param preq users)) \<and>
    users_ok (fst (ChangeOwnPassword bh verify e1 e2 now c preq users))"
proof -
  have sp: "users_ok (fst (setPassword bh e now i pw onErr users))" for e i pw onErr
    using assms users_ok_UpdatePassword [OF assms] unfolding setPassword_def
    by (auto split: sum.split prod.split option.split) (metis fst_conv)+
  have c: "users_ok (fst (CreateUser bh e1 newId t1 t2 c creq users))"
    using assms users_ok_Create [OF assms] unfolding CreateUser_def Let_def
    by (auto split: sum.split prod.split option.split) (metis fst_conv)+
  have u: "users_ok (fst (UpdateUser e1 e2 now param ureq users))"
    using assms users_ok_Update [OF assms] unfolding UpdateUser_def
    by (auto split: sum.split prod.split option.split) (metis fst_conv)+
  have d: "users_ok (fst (DeleteUser e1 param c users))"
    using assms users_ok_Delete [OF assms] unfolding DeleteUser_def
    by (auto split: sum.split prod.split option.split) (metis fst_conv)+
  have p: "users_ok (fst (ChangePassword bh verify e1 e2 now cl param preq users))"
      "users_ok (fst (ChangeOwnPassword bh verify e1 e2 now c preq users))"
    using assms sp unfolding ChangePassword_def ChangeOwnPassword_def Let_def
    by (auto split: sum.split prod.split option.split)
  from c u d p show ?thesis by blast
qed

lemma user_keys_unique_witness:
  "users_ok (fst (DeleteUser None (Some ''u2'') ''u1'' [exUser ''u1'' ''h'' ''admin'', exUser ''u2'' ''h'' ''viewer'']))"
proof -
  have "users_ok [exUser ''u1'' ''h'' ''admin'', exUser ''u2'' ''h'' ''viewer'']"
    by (simp add: users_ok_def exUser_def)
  from user_keys_unique [OF this, where ?e1.0 = None and param = "Some ''u2''" and c = "''u1''"]
  show ?thesis by blast
qed

definition has_admin :: "user list \<Rightarrow> bool" where
  "has_admin users = list_ex (\<lambda>u. us_Role u = RoleAdmin \<and> us_Enabled u) users"

text \<open>Deleting a user never removes the last enabled administrator when an enabled administrator asks
  for it, since no one can delete the own account; but the same administrator can disable it with an
  update, after which no enabled administrator is left.\<close>

theorem last_admin_survives_delete_only:
  "(has_admin (filter (\<lambda>u. us_ID u = c) users) \<longrightarrow> has_admin (fst (DeleteUser e param c users))) \<and>
   snd (UpdateUser None None 9 (Some ''u1'') (Inr \<lparr>uu_Username = [], uu_Email = [], uu_Role = [],
     uu_FullName = [], uu_Enabled = Some False\<rparr>) [exUser ''u1'' ''h'' ''admin'']) =
     ReplyUser 200 ((exUser ''u1'' [] ''admin'')\<lparr>us_Enabled := False, us_UpdatedAt := 9\<rparr>) \<and>
   \<not> has_admin (fst (UpdateUser None None 9 (Some ''u1'') (Inr \<lparr>uu_Username = [], uu_Email = [], uu_Role = [],
     uu_FullName = [], uu_Enabled = Some False\<rparr>) [exUser ''u1'' ''h'' ''admin'']))"
proof (intro conjI impI)
  assume "has_admin (filter (\<lambda>u. us_ID u = c) users)"
  then show "has_admin (fst (DeleteUser e param c users))"
    unfolding DeleteUser_def user_Delete_def has_admin_def list_ex_iff
    by (auto split: option.split)
qed (code_simp, code_simp)

lemma last_admin_survives_delete_only_witness:
  "has_admin (fst (DeleteUser None (Some ''u2'') ''u1'' [exUser ''u1'' ''h'' ''admin'', exUser ''u2'' ''h'' ''admin'']))"
proof -
  have "has_admin (filter (\<lambda>u. us_ID u = ''u1'') [exUser ''u1'' ''h'' ''admin'', exUser ''u2'' ''h'' ''admin''])"
    by code_simp
  with last_admin_survives_delete_only [of "''u1''" "[exUser ''u1'' ''h'' ''admin'', exUser ''u2'' ''h'' ''admin'']"
    None "Some ''u2''"] show ?thesis by blast
qed

end
