(* ===== verification/DeviceGroups.thy ===== *)
theory DeviceGroups
  imports Users
begin

text \<open>
  The device groups (\<open>backend/internal/db/device_group_repository.go\<close>,
  \<open>backend/internal/api/handlers/device_group_handler.go\<close>, \<open>models/device_group.go\<close>), and the contract of an
  \<open>INSERT\<close> into a table with constraints, which the alert rules and the maintenance windows share.

  The order of the texts in \<open>ORDER BY name\<close> is the database's collation, a parameter.
\<close>

section \<open>Inserting under constraints\<close>

text \<open>\<open>violated\<close> is what the database says about a row that breaks a constraint of the table.\<close>

definition insertRow ::
  "string \<Rightarrow> db_error \<Rightarrow> ('r list \<Rightarrow> 'r \<Rightarrow> string option) \<Rightarrow> 'r \<Rightarrow> 'r list \<Rightarrow> 'r list \<times> 'r result" where
  "insertRow failed dbErr violated r rs = (case dbErr of
     Some e \<Rightarrow> (rs, Inl (failed @ '': '' @ e))
   | None \<Rightarrow> (case violated rs r of Some e \<Rightarrow> (rs, Inl (failed @ '': '' @ e)) | None \<Rightarrow> (rs @ [r], Inr r)))"

definition readRow :: "string \<Rightarrow> string \<Rightarrow> db_error \<Rightarrow> ('r \<Rightarrow> 'k) \<Rightarrow> 'k \<Rightarrow> 'r list \<Rightarrow> 'r result" where
  "readRow failed missing dbErr key k rs = (case dbErr of
     Some e \<Rightarrow> Inl (failed @ '': '' @ e)
   | None \<Rightarrow> (case findBy key k rs of None \<Rightarrow> Inl missing | Some r \<Rightarrow> Inr r))"

definition duplicateKey :: string where
  "duplicateKey = ''pq: duplicate key value violates unique constraint''"

definition foreignKey :: string where
  "foreignKey = ''pq: insert or update on table violates foreign key constraint''"

lemma insertRow_cases:
  assumes "insertRow failed e violated r rs = (rs', out)"
  obtains (stored) "out = Inr r" "rs' = rs @ [r]" "e = None" "violated rs r = None"
  | (refused) m where "out = Inl m" "rs' = rs"
  using assms unfolding insertRow_def by (auto split: option.splits)

text \<open>The contract of a table whose constraints include a unique key: what an insertion, a change that keeps
  the key and a deletion leave of the uniqueness and of the other rows.\<close>

locale unique_table =
  fixes key :: "'r \<Rightarrow> 'k" and violated :: "'r list \<Rightarrow> 'r \<Rightarrow> string option"
  assumes key_guarded: "violated rs r = None \<Longrightarrow> key r \<notin> key ` set rs"
begin

lemma insert_keeps_distinct:
  "distinct (map key rs) \<Longrightarrow> distinct (map key (fst (insertRow failed e violated r rs)))"
  unfolding insertRow_def by (auto split: option.split dest: key_guarded)

lemma insert_then_read:
  assumes "insertRow failed e violated r rs = (rs', Inr x)"
  shows "x = r \<and> findBy key k rs' = (if k = key r then Some r else findBy key k rs)"
proof -
  from assms have r: "x = r" "rs' = rs @ [r]" "violated rs r = None"
    by (auto elim: insertRow_cases)
  then have "findBy key (key r) rs = None"
    using key_guarded [OF r(3)] unfolding findBy_def find_None_iff by (metis imageI)
  then show ?thesis unfolding r(1,2) findBy_append by (simp split: option.split)
qed

lemma insert_refused: "insertRow failed e violated r rs = (rs', Inl m) \<Longrightarrow> rs' = rs"
  by (auto elim: insertRow_cases)

lemma delete_after_insert:
  assumes "insertRow failed e violated r rs = (rs', Inr x)"
  shows "deleteRows a b None (\<lambda>q. key q = key r) rs' = (rs, None)"
proof -
  from assms have r: "rs' = rs @ [r]" "violated rs r = None" by (auto elim: insertRow_cases)
  have "filter (\<lambda>q. key q \<noteq> key r) rs = rs"
    using key_guarded [OF r(2)] by (intro filter_True ballI) (metis imageI)
  then show ?thesis unfolding deleteRows_def r(1) by simp
qed

end

section \<open>Data\<close>

record device_group =
  gr_ID :: string
  gr_Name :: string
  gr_Description :: "string option"
  gr_CreatedAt :: time
  gr_UpdatedAt :: time

record group_create =
  gq_Name :: string
  gq_Description :: "string option"

record group_update =
  gu_Name :: "string option"
  gu_Description :: "string option"

record member_row =
  mr_device :: string
  mr_group :: string

text \<open>The tables; of the devices only the identifiers matter here.\<close>

record group_tables =
  gt_devices :: "string list"
  gt_groups :: "device_group list"
  gt_members :: "member_row list"

section \<open>The repository\<close>

definition groupViolation :: "device_group list \<Rightarrow> device_group \<Rightarrow> string option" where
  "groupViolation rs r = (if list_ex (\<lambda>q. gr_ID q = gr_ID r \<or> gr_Name q = gr_Name r) rs then Some duplicateKey else None)"

interpretation groups: unique_table gr_ID groupViolation
  by unfold_locales (auto simp: groupViolation_def list_ex_iff split: if_splits)

interpretation group_names: unique_table gr_Name groupViolation
  by unfold_locales (auto simp: groupViolation_def list_ex_iff split: if_splits)

definition group_Create ::
  "db_error \<Rightarrow> string \<Rightarrow> time \<Rightarrow> time \<Rightarrow> group_create \<Rightarrow> device_group list \<Rightarrow> device_group list \<times> device_group result" where
  "group_Create dbErr newId t1 t2 q rs = insertRow ''failed to create device group'' dbErr groupViolation
     \<lparr>gr_ID = newId, gr_Name = gq_Name q, gr_Description = gq_Description q, gr_CreatedAt = t1, gr_UpdatedAt = t2\<rparr> rs"

definition group_List :: "(string \<Rightarrow> 'o::linorder) \<Rightarrow> db_error \<Rightarrow> device_group list \<Rightarrow> device_group list result" where
  "group_List collate dbErr rs = (case dbErr of
     Some e \<Rightarrow> Inl (''failed to list device groups: '' @ e)
   | None \<Rightarrow> Inr (sort_key (\<lambda>r. collate (gr_Name r)) rs))"

definition group_GetByID :: "db_error \<Rightarrow> string \<Rightarrow> device_group list \<Rightarrow> device_group result" where
  "group_GetByID dbErr i rs = readRow ''failed to get device group'' ''device group not found'' dbErr gr_ID i rs"

text \<open>The group is read, changed and written; the two statements may fail on their own.\<close>

definition changedGroup :: "time \<Rightarrow> group_update \<Rightarrow> device_group \<Rightarrow> device_group" where
  "changedGroup now q g = g\<lparr>gr_Name := (case gu_Name q of Some n \<Rightarrow> n | None \<Rightarrow> gr_Name g),
     gr_Description := (case gu_Description q of Some d \<Rightarrow> Some d | None \<Rightarrow> gr_Description g), gr_UpdatedAt := now\<rparr>"

definition group_Update ::
  "db_error \<Rightarrow> db_error \<Rightarrow> time \<Rightarrow> string \<Rightarrow> group_update \<Rightarrow> device_group list \<Rightarrow> device_group list \<times> device_group result" where
  "group_Update e1 e2 now i q rs = (case group_GetByID e1 i rs of
     Inl e \<Rightarrow> (rs, Inl e)
   | Inr g \<Rightarrow> (let g1 = changedGroup now q g in
       case e2 of Some e \<Rightarrow> (rs, Inl (''failed to update device group: '' @ e))
       | None \<Rightarrow>
         (if list_ex (\<lambda>r. gr_ID r \<noteq> i \<and> gr_Name r = gr_Name g1) rs
          then (rs, Inl (''failed to update device group: '' @ duplicateKey))
          else (updateWhere (\<lambda>r. gr_ID r = i) (\<lambda>r. g1) rs, Inr g1))))"

text \<open>Deleting a group takes its memberships with it (\<open>ON DELETE CASCADE\<close>) and no device.\<close>

definition group_Delete :: "db_error \<Rightarrow> string \<Rightarrow> 'a group_tables_scheme \<Rightarrow> 'a group_tables_scheme \<times> string option" where
  "group_Delete dbErr i t =
     (case deleteRows ''failed to delete device group'' ''device group not found'' dbErr (\<lambda>r. gr_ID r = i) (gt_groups t) of
        (rs, Some e) \<Rightarrow> (t, Some e)
      | (rs, None) \<Rightarrow> (t\<lparr>gt_groups := rs, gt_members := filter (\<lambda>m. mr_group m \<noteq> i) (gt_members t)\<rparr>, None))"

definition AddDevice :: "db_error \<Rightarrow> string \<Rightarrow> string \<Rightarrow> 'a group_tables_scheme \<Rightarrow> 'a group_tables_scheme \<times> string option" where
  "AddDevice dbErr g d t = (case dbErr of
     Some e \<Rightarrow> (t, Some (''failed to add device to group: '' @ e))
   | None \<Rightarrow> (if \<lparr>mr_device = d, mr_group = g\<rparr> \<in> set (gt_members t) then (t, None)
       else if d \<notin> set (gt_devices t) \<or> \<not> list_ex (\<lambda>r. gr_ID r = g) (gt_groups t)
       then (t, Some (''failed to add device to group: '' @ foreignKey))
       else (t\<lparr>gt_members := gt_members t @ [\<lparr>mr_device = d, mr_group = g\<rparr>]\<rparr>, None)))"

definition RemoveDevice :: "db_error \<Rightarrow> string \<Rightarrow> string \<Rightarrow> 'a group_tables_scheme \<Rightarrow> 'a group_tables_scheme \<times> string option" where
  "RemoveDevice dbErr g d t =
     (case deleteRows ''failed to remove device from group'' ''device not in group'' dbErr
        (\<lambda>m. mr_device m = d \<and> mr_group m = g) (gt_members t) of (ms, r) \<Rightarrow> (t\<lparr>gt_members := ms\<rparr>, r))"

text \<open>What the deletion of a device (theory Devices) does to these tables.\<close>

definition forgetDevice :: "string \<Rightarrow> 'a group_tables_scheme \<Rightarrow> 'a group_tables_scheme" where
  "forgetDevice d t = t\<lparr>gt_devices := filter (\<lambda>x. x \<noteq> d) (gt_devices t),
     gt_members := filter (\<lambda>m. mr_device m \<noteq> d) (gt_members t)\<rparr>"

section \<open>Handlers\<close>

text \<open>What the world contributes: the errors of the up to two statements, the new identifier and the
  times. A request that cannot be bound is given by the error's text.\<close>

record group_env =
  ge_e1 :: db_error
  ge_e2 :: db_error
  ge_newId :: string
  ge_t1 :: time
  ge_t2 :: time

definition missingOr :: "string \<Rightarrow> string \<Rightarrow> string \<Rightarrow> string \<Rightarrow> 'b api_reply" where
  "missingOr missing shown other e = (if e = missing then NotFound shown else InternalError other)"

definition CreateGroup ::
  "group_env \<Rightarrow> (string + group_create) \<Rightarrow> 'a group_tables_scheme \<Rightarrow> 'a group_tables_scheme \<times> device_group api_reply" where
  "CreateGroup env req t = (case req of
     Inl e \<Rightarrow> (t, BadRequest e ''INVALID_REQUEST'')
   | Inr q \<Rightarrow> (case group_Create (ge_e1 env) (ge_newId env) (ge_t1 env) (ge_t2 env) q (gt_groups t) of
       (rs, Inl e) \<Rightarrow> (t\<lparr>gt_groups := rs\<rparr>, InternalError ''Failed to create device group'')
     | (rs, Inr g) \<Rightarrow> (t\<lparr>gt_groups := rs\<rparr>, Created g)))"

definition ListGroups :: "(string \<Rightarrow> 'o::linorder) \<Rightarrow> group_env \<Rightarrow> 'a group_tables_scheme \<Rightarrow> device_group list api_reply" where
  "ListGroups collate env t = (case group_List collate (ge_e1 env) (gt_groups t) of
     Inl e \<Rightarrow> InternalError ''Failed to list device groups'' | Inr gs \<Rightarrow> Success gs)"

definition GetGroup :: "group_env \<Rightarrow> string option \<Rightarrow> 'a group_tables_scheme \<Rightarrow> device_group api_reply" where
  "GetGroup env param t = (case param of
     None \<Rightarrow> BadRequest ''Invalid group ID'' ''INVALID_ID''
   | Some i \<Rightarrow> (case group_GetByID (ge_e1 env) i (gt_groups t) of
       Inl e \<Rightarrow> missingOr ''device group not found'' ''Device group not found'' ''Failed to get device group'' e
     | Inr g \<Rightarrow> Success g))"

definition UpdateGroup ::
  "group_env \<Rightarrow> string option \<Rightarrow> (string + group_update) \<Rightarrow> 'a group_tables_scheme \<Rightarrow>
   'a group_tables_scheme \<times> device_group api_reply" where
  "UpdateGroup env param req t = (case param of
     None \<Rightarrow> (t, BadRequest ''Invalid group ID'' ''INVALID_ID'')
   | Some i \<Rightarrow> (case req of
       Inl e \<Rightarrow> (t, BadRequest e ''INVALID_REQUEST'')
     | Inr q \<Rightarrow> (case group_Update (ge_e1 env) (ge_e2 env) (ge_t1 env) i q (gt_groups t) of
         (rs, Inl e) \<Rightarrow> (t\<lparr>gt_groups := rs\<rparr>,
            missingOr ''device group not found'' ''Device group not found'' ''Failed to update device group'' e)
       | (rs, Inr g) \<Rightarrow> (t\<lparr>gt_groups := rs\<rparr>, Success g))))"

definition DeleteGroup ::
  "group_env \<Rightarrow> string option \<Rightarrow> 'a group_tables_scheme \<Rightarrow> 'a group_tables_scheme \<times> unit api_reply" where
  "DeleteGroup env param t = (case param of
     None \<Rightarrow> (t, BadRequest ''Invalid group ID'' ''INVALID_ID'')
   | Some i \<Rightarrow> (case group_Delete (ge_e1 env) i t of
       (t', Some e) \<Rightarrow> (t', missingOr ''device group not found'' ''Device group not found'' ''Failed to delete device group'' e)
     | (t', None) \<Rightarrow> (t', Message 200 ''Device group deleted successfully'')))"

definition AddDeviceToGroup ::
  "group_env \<Rightarrow> string option \<Rightarrow> (string + string) \<Rightarrow> 'a group_tables_scheme \<Rightarrow> 'a group_tables_scheme \<times> unit api_reply" where
  "AddDeviceToGroup env param req t = (case param of
     None \<Rightarrow> (t, BadRequest ''Invalid group ID'' ''INVALID_ID'')
   | Some g \<Rightarrow> (case req of
       Inl e \<Rightarrow> (t, BadRequest e ''INVALID_REQUEST'')
     | Inr d \<Rightarrow> (case AddDevice (ge_e1 env) g d t of
         (t', Some e) \<Rightarrow> (t', InternalError ''Failed to add device to group'')
       | (t', None) \<Rightarrow> (t', Message 200 ''Device added to group successfully''))))"

definition RemoveDeviceFromGroup ::
  "group_env \<Rightarrow> string option \<Rightarrow> string option \<Rightarrow> 'a group_tables_scheme \<Rightarrow> 'a group_tables_scheme \<times> unit api_reply" where
  "RemoveDeviceFromGroup env param deviceParam t = (case param of
     None \<Rightarrow> (t, BadRequest ''Invalid group ID'' ''INVALID_ID'')
   | Some g \<Rightarrow> (case deviceParam of
       None \<Rightarrow> (t, BadRequest ''Invalid device ID'' ''INVALID_ID'')
     | Some d \<Rightarrow> (case RemoveDevice (ge_e1 env) g d t of
         (t', Some e) \<Rightarrow> (t', missingOr ''device not in group'' ''Device not in group'' ''Failed to remove device from group'' e)
       | (t', None) \<Rightarrow> (t', Message 200 ''Device removed from group successfully''))))"

section \<open>The tables stay consistent\<close>

definition group_tables_ok :: "'a group_tables_scheme \<Rightarrow> bool" where
  "group_tables_ok t = (distinct (gt_devices t) \<and> distinct (map gr_ID (gt_groups t)) \<and> distinct (map gr_Name (gt_groups t)) \<and>
     distinct (gt_members t) \<and> mr_device ` set (gt_members t) \<subseteq> set (gt_devices t) \<and>
     mr_group ` set (gt_members t) \<subseteq> gr_ID ` set (gt_groups t))"

datatype group_request =
    GroupCreate "string + group_create"
  | GroupUpdate "string option" "string + group_update"
  | GroupDelete "string option"
  | MemberAdd "string option" "string + string"
  | MemberRemove "string option" "string option"
  | DeviceGone string

definition groupStep :: "group_env \<times> group_request \<Rightarrow> group_tables \<Rightarrow> group_tables" where
  "groupStep er t = (case er of (env, r) \<Rightarrow> (case r of
     GroupCreate req \<Rightarrow> fst (CreateGroup env req t)
   | GroupUpdate param req \<Rightarrow> fst (UpdateGroup env param req t)
   | GroupDelete param \<Rightarrow> fst (DeleteGroup env param t)
   | MemberAdd param req \<Rightarrow> fst (AddDeviceToGroup env param req t)
   | MemberRemove param d \<Rightarrow> fst (RemoveDeviceFromGroup env param d t)
   | DeviceGone d \<Rightarrow> forgetDevice d t))"

lemma group_Create_ok:
  assumes "group_tables_ok t" "group_Create e i t1 t2 q (gt_groups t) = (rs, x)"
  shows "group_tables_ok (t\<lparr>gt_groups := rs\<rparr>)"
  using assms(2) unfolding group_Create_def
proof (cases rule: insertRow_cases)
  case stored
  with assms(1) show ?thesis
    unfolding group_tables_ok_def by (auto simp: groupViolation_def list_ex_iff split: if_splits)
qed (use assms(1) in simp)

lemma renamed_distinct:
  assumes "distinct (map gr_ID xs)" "distinct (map gr_Name xs)" "\<forall>r \<in> set xs. gr_ID r \<noteq> i \<longrightarrow> gr_Name r \<noteq> gr_Name c"
  shows "distinct (map gr_Name (updateWhere (\<lambda>r. gr_ID r = i) (\<lambda>r. c) xs))"
  using assms
proof (induction xs)
  case (Cons r xs)
  have keep: "updateWhere (\<lambda>r. gr_ID r = i) (\<lambda>r. c) xs = xs" if "gr_ID r = i"
    unfolding updateWhere_def using Cons.prems(1) that by (intro map_idI) (auto, metis imageI)
  show ?case
  proof (cases "gr_ID r = i")
    case True
    have "gr_Name c \<notin> gr_Name ` set xs"
    proof
      assume "gr_Name c \<in> gr_Name ` set xs"
      then obtain x where x: "x \<in> set xs" "gr_Name x = gr_Name c" by (metis imageE)
      with Cons.prems(3) have "gr_ID x = i" by auto
      with True Cons.prems(1) x(1) show False by (metis distinct.simps(2) imageI list.simps(9) list.set_map)
    qed
    with True keep Cons.prems(2) show ?thesis by (simp add: updateWhere_def)
  next
    case False
    have "gr_Name r \<notin> gr_Name ` set (updateWhere (\<lambda>r. gr_ID r = i) (\<lambda>r. c) xs)"
      using Cons.prems(2,3) False unfolding updateWhere_def by force
    moreover have "updateWhere (\<lambda>r. gr_ID r = i) (\<lambda>r. c) (r # xs) = r # updateWhere (\<lambda>r. gr_ID r = i) (\<lambda>r. c) xs"
      using False by (simp add: updateWhere_def)
    moreover have "distinct (map gr_Name (updateWhere (\<lambda>r. gr_ID r = i) (\<lambda>r. c) xs))"
      using Cons.prems by (intro Cons.IH) auto
    ultimately show ?thesis by simp
  qed
qed (simp add: updateWhere_def)

lemma group_Update_ok:
  assumes "group_tables_ok t" "group_Update e1 e2 now i q (gt_groups t) = (rs, x)"
  shows "group_tables_ok (t\<lparr>gt_groups := rs\<rparr>)"
proof (cases "rs = gt_groups t")
  case False
  with assms(2) obtain g where g: "findBy gr_ID i (gt_groups t) = Some g"
    and free: "\<not> list_ex (\<lambda>r. gr_ID r \<noteq> i \<and> gr_Name r = gr_Name (changedGroup now q g)) (gt_groups t)"
    and rs: "rs = updateWhere (\<lambda>r. gr_ID r = i) (\<lambda>r. changedGroup now q g) (gt_groups t)"
    unfolding group_Update_def group_GetByID_def readRow_def
    by (auto simp: Let_def split: option.splits sum.splits if_splits)
  define c where "c = changedGroup now q g"
  have c: "gr_ID c = i" using findBy_SomeD [OF g] by (simp add: c_def changedGroup_def)
  from assms(1) have d: "distinct (map gr_ID (gt_groups t))" "distinct (map gr_Name (gt_groups t))"
    by (simp_all add: group_tables_ok_def)
  have ids: "map gr_ID rs = map gr_ID (gt_groups t)"
    unfolding rs updateWhere_def using c by (simp add: c_def)
  have "distinct (map gr_Name rs)"
    unfolding rs using d free by (intro renamed_distinct) (auto simp: list_ex_iff)
  moreover have "gr_ID ` set rs = gr_ID ` set (gt_groups t)" using ids by (metis set_map)
  ultimately show ?thesis using assms(1) ids d(1) unfolding group_tables_ok_def by simp
qed (use assms(1) in simp)

lemma group_Delete_ok:
  assumes "group_tables_ok t"
  shows "group_tables_ok (fst (group_Delete e i t))"
  using assms unfolding group_Delete_def group_tables_ok_def deleteRows_def
  by (auto simp: distinct_map split: option.split intro: inj_on_subset)

lemma members_ok:
  assumes "group_tables_ok t"
  shows "group_tables_ok (fst (AddDevice e g d t))" "group_tables_ok (fst (RemoveDevice e g d t))"
    "group_tables_ok (forgetDevice d t)"
  using assms unfolding AddDevice_def RemoveDevice_def forgetDevice_def group_tables_ok_def deleteRows_def
  by (auto simp: list_ex_iff split: option.split)


definition exGroupEnv :: "string \<Rightarrow> group_env" where
  "exGroupEnv i = \<lparr>ge_e1 = None, ge_e2 = None, ge_newId = i, ge_t1 = 1, ge_t2 = 2\<rparr>"

definition exGroupRequests :: "(group_env \<times> group_request) list" where
  "exGroupRequests = [(exGroupEnv ''g1'', GroupCreate (Inr \<lparr>gq_Name = ''rack 1'', gq_Description = None\<rparr>)),
     (exGroupEnv ''g2'', GroupCreate (Inr \<lparr>gq_Name = ''rack 1'', gq_Description = None\<rparr>)),
     (exGroupEnv [], MemberAdd (Some ''g1'') (Inr ''d1'')), (exGroupEnv [], MemberAdd (Some ''g1'') (Inr ''d2'')),
     (exGroupEnv [], DeviceGone ''d1'')]"


section \<open>Membership\<close>

text \<open>Taking a device out of a group undoes putting it in: in consistent tables the pair of requests leaves
  every table as it was, when the device was not in the group before. Putting it in twice is
  putting it in once.\<close>

theorem membership_round_trip:
  assumes "d \<in> set (gt_devices t)" "list_ex (\<lambda>r. gr_ID r = g) (gt_groups t)" "\<lparr>mr_device = d, mr_group = g\<rparr> \<notin> set (gt_members t)"
    and "ge_e1 env = None"
  shows "let added = fst (AddDeviceToGroup env (Some g) (Inr d) t) in
    \<lparr>mr_device = d, mr_group = g\<rparr> \<in> set (gt_members added) \<and>
    AddDeviceToGroup env (Some g) (Inr d) added = (added, Message 200 ''Device added to group successfully'') \<and>
    RemoveDeviceFromGroup env (Some g) (Some d) added = (t, Message 200 ''Device removed from group successfully'')"
proof -
  have "filter (\<lambda>m. mr_device m = d \<longrightarrow> mr_group m \<noteq> g) (gt_members t) = gt_members t"
    using assms(3) by (intro filter_True) (metis (full_types) member_row.surjective old.unit.exhaust)
  then show ?thesis using assms
    by (simp add: AddDeviceToGroup_def RemoveDeviceFromGroup_def AddDevice_def RemoveDevice_def deleteRows_def Let_def)
qed

lemma membership_round_trip_witness:
  "fst (RemoveDeviceFromGroup (exGroupEnv []) (Some ''g1'') (Some ''d1'') (fst (AddDeviceToGroup (exGroupEnv []) (Some ''g1'') (Inr ''d1'')
     \<lparr>gt_devices = [''d1''], gt_groups = [\<lparr>gr_ID = ''g1'', gr_Name = ''rack'', gr_Description = None, gr_CreatedAt = 0, gr_UpdatedAt = 0\<rparr>],
      gt_members = []\<rparr>))) =
     \<lparr>gt_devices = [''d1''], gt_groups = [\<lparr>gr_ID = ''g1'', gr_Name = ''rack'', gr_Description = None, gr_CreatedAt = 0, gr_UpdatedAt = 0\<rparr>],
      gt_members = []\<rparr>"
  using membership_round_trip [of "''d1''" "\<lparr>gt_devices = [''d1''], gt_groups = [\<lparr>gr_ID = ''g1'', gr_Name = ''rack'', gr_Description = None,
     gr_CreatedAt = 0, gr_UpdatedAt = 0\<rparr>], gt_members = []\<rparr> :: group_tables" "''g1''" "exGroupEnv []"]
  by (simp add: exGroupEnv_def Let_def)

end
