(* ===== verification/AlertRules.thy ===== *)
theory AlertRules
  imports DeviceGroups GoFloat
begin

text \<open>
  The alert rules (\<open>backend/internal/db/alert_rule_repository.go\<close>,
  \<open>backend/internal/api/handlers/alert_rule_handler.go\<close>, \<open>models/alert_rule.go\<close>).

  A rule may be bound to a device or to a group of theory DeviceGroups. How a threshold is printed in the audit
  log is a parameter. Every change asks Prometheus to reload its configuration, in the background and
  without effect on the reply: the handlers return whether they ask.
\<close>

section \<open>Data\<close>

record alert_rule =
  ru_ID :: string
  ru_Name :: string
  ru_MetricName :: string
  ru_Operator :: string
  ru_Threshold :: f64
  ru_Severity :: string
  ru_DeviceID :: "string option"
  ru_DeviceGroupID :: "string option"
  ru_Enabled :: bool
  ru_CreatedAt :: time
  ru_UpdatedAt :: time

record rule_create =
  rq_Name :: string
  rq_MetricName :: string
  rq_Operator :: string
  rq_Threshold :: f64
  rq_Severity :: string
  rq_DeviceID :: "string option"
  rq_DeviceGroupID :: "string option"
  rq_Enabled :: "bool option"

record rule_update =
  rz_Name :: "string option"
  rz_MetricName :: "string option"
  rz_Operator :: "string option"
  rz_Threshold :: "f64 option"
  rz_Severity :: "string option"
  rz_DeviceID :: "string option"
  rz_DeviceGroupID :: "string option"
  rz_Enabled :: "bool option"

record rule_tables = group_tables +
  at_rules :: "alert_rule list"
  at_audit :: "audit_log list"

section \<open>Binding\<close>

text \<open>The tags of the request: the validator's \<open>required\<close> refuses the zero value of a field that is not a
  pointer, the empty text and the number 0 alike. The JSON decoder's errors are given.\<close>

definition requiredText :: "string \<Rightarrow> string \<Rightarrow> field_error list" where
  "requiredText name v = (if v = [] then [\<lparr>fe_Field = name, fe_Tag = ''required'', fe_Param = []\<rparr>] else [])"

definition requiredNumber :: "string \<Rightarrow> f64 \<Rightarrow> field_error list" where
  "requiredNumber name v = (if v = Fin 0 then [\<lparr>fe_Field = name, fe_Tag = ''required'', fe_Param = []\<rparr>] else [])"

definition bindRule :: "string + rule_create \<Rightarrow> bind_error + rule_create" where
  "bindRule req = (case req of
     Inl e \<Rightarrow> Inl (OtherError e)
   | Inr q \<Rightarrow> (let errs = requiredText ''Name'' (rq_Name q) @ requiredText ''MetricName'' (rq_MetricName q) @
         requiredText ''Operator'' (rq_Operator q) @ requiredNumber ''Threshold'' (rq_Threshold q) @
         requiredText ''Severity'' (rq_Severity q) in
       if errs = [] then Inr q else Inl (FieldErrors errs)))"

section \<open>The repository\<close>

text \<open>The references of a row to a device and a group must exist.\<close>

definition targetsExist :: "'a group_tables_scheme \<Rightarrow> alert_rule \<Rightarrow> bool" where
  "targetsExist t r = ((case ru_DeviceID r of None \<Rightarrow> True | Some d \<Rightarrow> d \<in> set (gt_devices t)) \<and>
     (case ru_DeviceGroupID r of None \<Rightarrow> True | Some g \<Rightarrow> list_ex (\<lambda>x. gr_ID x = g) (gt_groups t)))"

definition ruleViolation :: "'a group_tables_scheme \<Rightarrow> alert_rule list \<Rightarrow> alert_rule \<Rightarrow> string option" where
  "ruleViolation t rs r = (if list_ex (\<lambda>q. ru_ID q = ru_ID r) rs then Some duplicateKey
     else if \<not> targetsExist t r then Some foreignKey else None)"

interpretation rules: unique_table ru_ID "ruleViolation t" for t :: "'a group_tables_scheme"
  by unfold_locales (auto simp: ruleViolation_def list_ex_iff split: if_splits)

definition newRule :: "string \<Rightarrow> time \<Rightarrow> time \<Rightarrow> rule_create \<Rightarrow> alert_rule" where
  "newRule newId t1 t2 q = \<lparr>ru_ID = newId, ru_Name = rq_Name q, ru_MetricName = rq_MetricName q, ru_Operator = rq_Operator q,
     ru_Threshold = rq_Threshold q, ru_Severity = rq_Severity q, ru_DeviceID = rq_DeviceID q,
     ru_DeviceGroupID = rq_DeviceGroupID q, ru_Enabled = (case rq_Enabled q of Some b \<Rightarrow> b | None \<Rightarrow> True),
     ru_CreatedAt = t1, ru_UpdatedAt = t2\<rparr>"

definition rule_Create ::
  "db_error \<Rightarrow> string \<Rightarrow> time \<Rightarrow> time \<Rightarrow> rule_create \<Rightarrow> 'a rule_tables_scheme \<Rightarrow> 'a rule_tables_scheme \<times> alert_rule result" where
  "rule_Create dbErr newId t1 t2 q t =
     (case insertRow ''failed to create alert rule'' dbErr (ruleViolation t) (newRule newId t1 t2 q) (at_rules t) of
        (rs, r) \<Rightarrow> (t\<lparr>at_rules := rs\<rparr>, r))"

definition rule_GetByID :: "db_error \<Rightarrow> string \<Rightarrow> alert_rule list \<Rightarrow> alert_rule result" where
  "rule_GetByID dbErr i rs = readRow ''failed to get alert rule'' ''alert rule not found'' dbErr ru_ID i rs"

definition rule_List :: "db_error \<Rightarrow> alert_rule list \<Rightarrow> alert_rule list result" where
  "rule_List dbErr rs = (case dbErr of
     Some e \<Rightarrow> Inl (''failed to list alert rules: '' @ e)
   | None \<Rightarrow> Inr (sort_key (\<lambda>r. - ru_CreatedAt r) rs))"

text \<open>The \<open>SET\<close> list: the columns that the request names, each with its value, after the time.\<close>

datatype rule_set =
    SetUpdatedAt time | SetName string | SetMetricName string | SetOperator string | SetThreshold f64
  | SetSeverity string | SetDeviceID string | SetDeviceGroupID string | SetEnabled bool

definition setOf :: "('v \<Rightarrow> rule_set) \<Rightarrow> 'v option \<Rightarrow> rule_set list" where
  "setOf c x = (case x of None \<Rightarrow> [] | Some v \<Rightarrow> [c v])"

definition setClauses :: "time \<Rightarrow> rule_update \<Rightarrow> rule_set list" where
  "setClauses now q = [SetUpdatedAt now] @ setOf SetName (rz_Name q) @ setOf SetMetricName (rz_MetricName q) @
     setOf SetOperator (rz_Operator q) @ setOf SetThreshold (rz_Threshold q) @ setOf SetSeverity (rz_Severity q) @
     setOf SetDeviceID (rz_DeviceID q) @ setOf SetDeviceGroupID (rz_DeviceGroupID q) @ setOf SetEnabled (rz_Enabled q)"

fun applySet :: "rule_set \<Rightarrow> alert_rule \<Rightarrow> alert_rule" where
  "applySet (SetUpdatedAt x) r = r\<lparr>ru_UpdatedAt := x\<rparr>"
| "applySet (SetName x) r = r\<lparr>ru_Name := x\<rparr>"
| "applySet (SetMetricName x) r = r\<lparr>ru_MetricName := x\<rparr>"
| "applySet (SetOperator x) r = r\<lparr>ru_Operator := x\<rparr>"
| "applySet (SetThreshold x) r = r\<lparr>ru_Threshold := x\<rparr>"
| "applySet (SetSeverity x) r = r\<lparr>ru_Severity := x\<rparr>"
| "applySet (SetDeviceID x) r = r\<lparr>ru_DeviceID := Some x\<rparr>"
| "applySet (SetDeviceGroupID x) r = r\<lparr>ru_DeviceGroupID := Some x\<rparr>"
| "applySet (SetEnabled x) r = r\<lparr>ru_Enabled := x\<rparr>"

definition rule_Update ::
  "db_error \<Rightarrow> time \<Rightarrow> string \<Rightarrow> rule_update \<Rightarrow> 'a rule_tables_scheme \<Rightarrow> 'a rule_tables_scheme \<times> alert_rule result" where
  "rule_Update dbErr now i q t = (case dbErr of
     Some e \<Rightarrow> (t, Inl (''failed to update alert rule: '' @ e))
   | None \<Rightarrow> (case findBy ru_ID i (at_rules t) of
       None \<Rightarrow> (t, Inl ''alert rule not found'')
     | Some r \<Rightarrow> (let f = fold applySet (setClauses now q) in
         if \<not> targetsExist t (f r) then (t, Inl (''failed to update alert rule: '' @ foreignKey))
         else (t\<lparr>at_rules := updateWhere (\<lambda>x. ru_ID x = i) f (at_rules t)\<rparr>, Inr (f r)))))"

definition rule_Delete :: "db_error \<Rightarrow> string \<Rightarrow> 'a rule_tables_scheme \<Rightarrow> 'a rule_tables_scheme \<times> string option" where
  "rule_Delete dbErr i t =
     (case deleteRows ''failed to delete alert rule'' ''alert rule not found'' dbErr (\<lambda>r. ru_ID r = i) (at_rules t) of
        (rs, e) \<Rightarrow> (t\<lparr>at_rules := rs\<rparr>, e))"

text \<open>What remains of the rules when a device or a group has been deleted (\<open>ON DELETE CASCADE\<close>).\<close>

definition cascadeRules :: "'a rule_tables_scheme \<Rightarrow> 'a rule_tables_scheme" where
  "cascadeRules t = t\<lparr>at_rules := filter (targetsExist t) (at_rules t)\<rparr>"

section \<open>Handlers\<close>

record rule_env = auth_env +
  re_newId :: string
  re_t1 :: time
  re_user :: string

definition validOperators :: "string list" where
  "validOperators = [''gt'', ''lt'', ''eq'', ''ne'', ''gte'', ''lte'']"

definition validSeverities :: "string list" where
  "validSeverities = [''critical'', ''warning'', ''info'']"

definition finite64 :: "f64 \<Rightarrow> bool" where
  "finite64 x = (case x of Fin _ \<Rightarrow> True | _ \<Rightarrow> False)"

text \<open>The three checks in their order; an absent field passes.\<close>

definition checkRule :: "string option \<Rightarrow> string option \<Rightarrow> f64 option \<Rightarrow> 'b api_reply option" where
  "checkRule oper severity threshold =
     (if (case oper of None \<Rightarrow> False | Some s \<Rightarrow> s \<notin> set validOperators)
      then Some (BadRequest ''Invalid operator. Must be one of: gt, lt, eq, ne, gte, lte'' ''INVALID_OPERATOR'')
      else if (case severity of None \<Rightarrow> False | Some s \<Rightarrow> s \<notin> set validSeverities)
      then Some (BadRequest ''Invalid severity. Must be one of: critical, warning, info'' ''INVALID_SEVERITY'')
      else if (case threshold of None \<Rightarrow> False | Some x \<Rightarrow> \<not> finite64 x)
      then Some (BadRequest (''Field '' @ quoted ''threshold'' @ '' must be a valid finite number'') ''INVALID_THRESHOLD'')
      else None)"

definition auditRule :: "rule_env \<Rightarrow> audit_log \<Rightarrow> 'a rule_tables_scheme \<Rightarrow> 'a rule_tables_scheme" where
  "auditRule env entry t =
     t\<lparr>at_audit := fst (audit_Create (ae_auditErr env) (ae_auditId env) (ae_now env) entry (at_audit t))\<rparr>"

definition CreateRule ::
  "(f64 \<Rightarrow> string) \<Rightarrow> rule_env \<Rightarrow> string + rule_create \<Rightarrow> 'a rule_tables_scheme \<Rightarrow>
   'a rule_tables_scheme \<times> alert_rule api_reply \<times> bool" where
  "CreateRule showF env req t = (case bindRule req of
     Inl e \<Rightarrow> (t, BadRequest (FormatBindingErrors e) ''INVALID_REQUEST'', False)
   | Inr q \<Rightarrow> (case checkRule (Some (rq_Operator q)) (Some (rq_Severity q)) (Some (rq_Threshold q)) of
       Some r \<Rightarrow> (t, r, False)
     | None \<Rightarrow> (case rule_Create (ae_writeErr env) (re_newId env) (re_t1 env) (ae_now env) q t of
         (t1, Inl e) \<Rightarrow> (t1, InternalError ''Failed to create alert rule'', False)
       | (t1, Inr r) \<Rightarrow>
           (auditRule env (LogAlertRuleCreate (re_user env) (ru_ID r) (ae_ip env) (Some [(''name'', ru_Name r),
              (''metric_name'', ru_MetricName r), (''operator'', ru_Operator r), (''threshold'', showF (ru_Threshold r)),
              (''severity'', ru_Severity r)])) t1, Created r, True))))"

definition ListRules :: "rule_env \<Rightarrow> 'a rule_tables_scheme \<Rightarrow> alert_rule list api_reply" where
  "ListRules env t = (case rule_List (ae_getErr env) (at_rules t) of
     Inl e \<Rightarrow> InternalError ''Failed to list alert rules'' | Inr rs \<Rightarrow> Success rs)"

definition ruleMissing :: "string \<Rightarrow> string \<Rightarrow> 'b api_reply" where
  "ruleMissing other e = missingOr ''alert rule not found'' ''Alert rule not found'' other e"

definition GetRule :: "rule_env \<Rightarrow> string option \<Rightarrow> 'a rule_tables_scheme \<Rightarrow> alert_rule api_reply" where
  "GetRule env param t = (case param of
     None \<Rightarrow> BadRequest ''Invalid alert rule ID'' ''INVALID_ID''
   | Some i \<Rightarrow> (case rule_GetByID (ae_getErr env) i (at_rules t) of
       Inl e \<Rightarrow> ruleMissing ''Failed to get alert rule'' e | Inr r \<Rightarrow> Success r))"

text \<open>The update request has no required fields, so only the decoder can refuse it.\<close>

definition detailOf :: "string \<Rightarrow> string option \<Rightarrow> (string \<times> string) list" where
  "detailOf name x = (case x of None \<Rightarrow> [] | Some v \<Rightarrow> [(name, v)])"

definition UpdateRule ::
  "(f64 \<Rightarrow> string) \<Rightarrow> rule_env \<Rightarrow> string option \<Rightarrow> string + rule_update \<Rightarrow> 'a rule_tables_scheme \<Rightarrow>
   'a rule_tables_scheme \<times> alert_rule api_reply \<times> bool" where
  "UpdateRule showF env param req t = (case param of
     None \<Rightarrow> (t, BadRequest ''Invalid alert rule ID'' ''INVALID_ID'', False)
   | Some i \<Rightarrow> (case req of
       Inl e \<Rightarrow> (t, BadRequest (FormatBindingErrors (OtherError e)) ''INVALID_REQUEST'', False)
     | Inr q \<Rightarrow> (case checkRule (rz_Operator q) (rz_Severity q) (rz_Threshold q) of
         Some r \<Rightarrow> (t, r, False)
       | None \<Rightarrow> (case rule_Update (ae_writeErr env) (ae_now env) i q t of
           (t1, Inl e) \<Rightarrow> (t1, ruleMissing ''Failed to update alert rule'' e, False)
         | (t1, Inr r) \<Rightarrow>
             (auditRule env (LogAlertRuleUpdate (re_user env) (ru_ID r) (ae_ip env) (Some ((''rule_id'', ru_ID r) #
                detailOf ''name'' (rz_Name q) @ detailOf ''metric_name'' (rz_MetricName q) @ detailOf ''operator'' (rz_Operator q) @
                detailOf ''threshold'' (map_option showF (rz_Threshold q)) @ detailOf ''severity'' (rz_Severity q)))) t1,
              Success r, True)))))"

definition DeleteRule ::
  "rule_env \<Rightarrow> string option \<Rightarrow> 'a rule_tables_scheme \<Rightarrow> 'a rule_tables_scheme \<times> unit api_reply \<times> bool" where
  "DeleteRule env param t = (case param of
     None \<Rightarrow> (t, BadRequest ''Invalid alert rule ID'' ''INVALID_ID'', False)
   | Some i \<Rightarrow> (case rule_Delete (ae_writeErr env) i t of
       (t1, Some e) \<Rightarrow> (t1, ruleMissing ''Failed to delete alert rule'' e, False)
     | (t1, None) \<Rightarrow> (auditRule env (LogAlertRuleDelete (re_user env) i (ae_ip env) None) t1,
         Message 200 ''Alert rule deleted successfully'', True)))"

section \<open>What an update changes\<close>

text \<open>The rule after an update, field by field; a field that the request does not name keeps its value, and
  no request can take a device or group away from a rule.\<close>

definition updatedRule :: "time \<Rightarrow> rule_update \<Rightarrow> alert_rule \<Rightarrow> alert_rule" where
  "updatedRule now q r = r\<lparr>ru_Name := case_option (ru_Name r) (\<lambda>v. v) (rz_Name q),
     ru_MetricName := case_option (ru_MetricName r) (\<lambda>v. v) (rz_MetricName q),
     ru_Operator := case_option (ru_Operator r) (\<lambda>v. v) (rz_Operator q),
     ru_Threshold := case_option (ru_Threshold r) (\<lambda>v. v) (rz_Threshold q),
     ru_Severity := case_option (ru_Severity r) (\<lambda>v. v) (rz_Severity q),
     ru_DeviceID := case_option (ru_DeviceID r) Some (rz_DeviceID q),
     ru_DeviceGroupID := case_option (ru_DeviceGroupID r) Some (rz_DeviceGroupID q),
     ru_Enabled := case_option (ru_Enabled r) (\<lambda>v. v) (rz_Enabled q), ru_UpdatedAt := now\<rparr>"

lemma fold_setOf: "fold applySet (setOf c x) r = (case x of None \<Rightarrow> r | Some v \<Rightarrow> applySet (c v) r)"
  by (simp add: setOf_def split: option.split)

lemma sets_are_update: "fold applySet (setClauses now q) r = updatedRule now q r"
  unfolding setClauses_def fold_append comp_def fold_setOf updatedRule_def
  by (simp split: option.split)

lemma updatedRule_fields [simp]:
  "ru_ID (updatedRule now q r) = ru_ID r"
  "ru_Operator (updatedRule now q r) = (case rz_Operator q of None \<Rightarrow> ru_Operator r | Some v \<Rightarrow> v)"
  "ru_Severity (updatedRule now q r) = (case rz_Severity q of None \<Rightarrow> ru_Severity r | Some v \<Rightarrow> v)"
  "ru_Threshold (updatedRule now q r) = (case rz_Threshold q of None \<Rightarrow> ru_Threshold r | Some v \<Rightarrow> v)"
  by (simp_all add: updatedRule_def)

lemma rule_Update_result:
  "rule_Update e now i q t = (case e of
     Some x \<Rightarrow> (t, Inl (''failed to update alert rule: '' @ x))
   | None \<Rightarrow> (case findBy ru_ID i (at_rules t) of
       None \<Rightarrow> (t, Inl ''alert rule not found'')
     | Some r \<Rightarrow> if \<not> targetsExist t (updatedRule now q r) then (t, Inl (''failed to update alert rule: '' @ foreignKey))
         else (t\<lparr>at_rules := updateWhere (\<lambda>x. ru_ID x = i) (updatedRule now q) (at_rules t)\<rparr>, Inr (updatedRule now q r))))"
  unfolding rule_Update_def Let_def sets_are_update by (simp split: option.split)

section \<open>Stored rules are valid\<close>

definition rule_ok :: "alert_rule \<Rightarrow> bool" where
  "rule_ok r = (ru_Operator r \<in> set validOperators \<and> ru_Severity r \<in> set validSeverities \<and> finite64 (ru_Threshold r))"

definition rules_ok :: "'a rule_tables_scheme \<Rightarrow> bool" where
  "rules_ok t = (distinct (map ru_ID (at_rules t)) \<and> (\<forall>r \<in> set (at_rules t). rule_ok r \<and> targetsExist t r))"

lemma checkRule_None:
  "checkRule a b c = None \<longleftrightarrow> (case a of None \<Rightarrow> True | Some s \<Rightarrow> s \<in> set validOperators) \<and>
    (case b of None \<Rightarrow> True | Some s \<Rightarrow> s \<in> set validSeverities) \<and> (case c of None \<Rightarrow> True | Some x \<Rightarrow> finite64 x)"
  unfolding checkRule_def by (auto split: option.split)

lemma checkRule_refuses: "checkRule a b c = Some r \<Longrightarrow> \<not> accepted_reply r"
  unfolding checkRule_def by (auto split: if_splits)

lemma targetsExist_rules [simp]:
  "targetsExist (t\<lparr>at_rules := rs\<rparr>) = targetsExist t" "targetsExist (t\<lparr>at_audit := l\<rparr>) = targetsExist t"
  by (simp_all add: fun_eq_iff targetsExist_def cong: option.case_cong)

lemma auditRule_ok [simp]: "rules_ok (auditRule env e t) = rules_ok t"
  by (simp add: rules_ok_def auditRule_def)

lemma rule_Create_ok:
  assumes "rules_ok t" "rule_Create e i t1 t2 q t = (t', r)" "rule_ok (newRule i t1 t2 q)"
  shows "rules_ok t'"
proof -
  obtain rs where ins: "insertRow ''failed to create alert rule'' e (ruleViolation t) (newRule i t1 t2 q) (at_rules t) = (rs, r)"
    and t': "t' = t\<lparr>at_rules := rs\<rparr>"
    using assms(2) unfolding rule_Create_def by (auto split: prod.splits)
  have "distinct (map ru_ID rs)"
    using rules.insert_keeps_distinct [of "at_rules t" _ e t "newRule i t1 t2 q"] assms(1) ins
    by (metis fst_conv rules_ok_def)
  moreover from ins have "set rs \<subseteq> insert (newRule i t1 t2 q) (set (at_rules t)) \<and>
      (newRule i t1 t2 q \<in> set rs \<longrightarrow> targetsExist t (newRule i t1 t2 q) \<or> newRule i t1 t2 q \<in> set (at_rules t))"
    by (cases rule: insertRow_cases) (auto simp: ruleViolation_def split: if_splits)
  ultimately show ?thesis using assms(1,3) unfolding t' rules_ok_def by auto
qed

lemma rule_Update_ok:
  assumes "rules_ok t" "rule_Update e now i q t = (t', x)"
    and "checkRule (rz_Operator q) (rz_Severity q) (rz_Threshold q) = None"
  shows "rules_ok t'"
proof (cases "t' = t")
  case False
  with assms(2) obtain r where r: "findBy ru_ID i (at_rules t) = Some r" "targetsExist t (updatedRule now q r)"
    and t': "t' = t\<lparr>at_rules := updateWhere (\<lambda>x. ru_ID x = i) (updatedRule now q) (at_rules t)\<rparr>"
    unfolding rule_Update_result by (auto split: option.splits if_splits)
  from assms(1) have d: "distinct (map ru_ID (at_rules t))" by (simp add: rules_ok_def)
  have same: "y = r" if "y \<in> set (at_rules t)" "ru_ID y = i" for y
    using findBy_SomeD [OF r(1)] that d by (metis distinct_map inj_onD)
  have "rule_ok (updatedRule now q y) \<and> targetsExist t (updatedRule now q y)" if y: "y \<in> set (at_rules t)" "ru_ID y = i" for y
    using same [OF y] r(2) assms(1,3) y(1) unfolding checkRule_None rules_ok_def rule_ok_def
    by (auto split: option.split)
  with assms(1) d show ?thesis unfolding t' rules_ok_def
    by (auto simp: keys_update) (auto simp: updateWhere_def)
qed (use assms(1) in simp)

lemma cascadeRules_ok:
  assumes "distinct (map ru_ID (at_rules t))" "\<forall>r \<in> set (at_rules t). rule_ok r"
  shows "rules_ok (cascadeRules t)"
proof -
  have "targetsExist (cascadeRules t) = targetsExist t" by (simp add: cascadeRules_def)
  then show ?thesis using assms unfolding rules_ok_def
    by (simp add: cascadeRules_def distinct_map inj_on_def)
qed

text \<open>The requests, with the deletions elsewhere that cascade here.\<close>

datatype rule_request =
    RuleCreate "string + rule_create"
  | RuleUpdate "string option" "string + rule_update"
  | RuleDelete "string option"
  | TargetDeviceGone string
  | TargetGroupGone group_env "string option"

definition ruleStep :: "(f64 \<Rightarrow> string) \<Rightarrow> rule_env \<times> rule_request \<Rightarrow> rule_tables \<Rightarrow> rule_tables" where
  "ruleStep showF er t = (case er of (env, r) \<Rightarrow> (case r of
     RuleCreate req \<Rightarrow> fst (CreateRule showF env req t)
   | RuleUpdate param req \<Rightarrow> fst (UpdateRule showF env param req t)
   | RuleDelete param \<Rightarrow> fst (DeleteRule env param t)
   | TargetDeviceGone d \<Rightarrow> cascadeRules (forgetDevice d t)
   | TargetGroupGone genv param \<Rightarrow> cascadeRules (fst (DeleteGroup genv param t))))"

lemma DeleteGroup_rules: "at_rules (fst (DeleteGroup env param t)) = at_rules (t :: rule_tables)"
  by (simp add: DeleteGroup_def group_Delete_def split: option.split prod.split)

lemma ruleStep_ok:
  assumes "rules_ok t"
  shows "rules_ok (ruleStep showF (env, r) t)"
proof (cases r)
  case (RuleCreate req)
  have "rules_ok (fst (CreateRule showF env req t))"
    unfolding CreateRule_def using assms
    by (auto simp: checkRule_None rule_ok_def newRule_def intro: rule_Create_ok split: sum.split option.split prod.split)
  with RuleCreate show ?thesis by (simp add: ruleStep_def)
next
  case (RuleUpdate param req)
  have "rules_ok (fst (UpdateRule showF env param req t))"
    unfolding UpdateRule_def using assms
    by (auto intro: rule_Update_ok split: sum.split option.split prod.split)
  with RuleUpdate show ?thesis by (simp add: ruleStep_def)
next
  case (RuleDelete param)
  have "rules_ok (fst (rule_Delete e i t))" for e i
    using assms unfolding rule_Delete_def deleteRows_def rules_ok_def
    by (auto simp: distinct_map inj_on_def split: option.split)
  then have "rules_ok (fst (DeleteRule env param t))"
    unfolding DeleteRule_def using assms by (auto split: option.split prod.split) (metis fst_conv)+
  with RuleDelete show ?thesis by (simp add: ruleStep_def)
next
  case (TargetDeviceGone d)
  have "rules_ok (cascadeRules (forgetDevice d t))"
    using assms by (intro cascadeRules_ok) (simp_all add: rules_ok_def forgetDevice_def)
  with TargetDeviceGone show ?thesis by (simp add: ruleStep_def)
next
  case (TargetGroupGone genv param)
  have "rules_ok (cascadeRules (fst (DeleteGroup genv param t)))"
    using assms by (intro cascadeRules_ok) (simp_all add: rules_ok_def DeleteGroup_rules)
  with TargetGroupGone show ?thesis by (simp add: ruleStep_def)
qed


definition exRuleEnv :: "string \<Rightarrow> rule_env" where
  "exRuleEnv i = \<lparr>ae_getErr = None, ae_writeErr = None, ae_auditErr = None, ae_auditId = ''a1'', ae_now = 7, ae_ip = ''10.0.0.9'',
     re_newId = i, re_t1 = 6, re_user = ''u1''\<rparr>"

definition exRule :: "f64 \<Rightarrow> string option \<Rightarrow> rule_create" where
  "exRule x d = \<lparr>rq_Name = ''too hot'', rq_MetricName = ''temperature'', rq_Operator = ''gt'', rq_Threshold = x,
     rq_Severity = ''critical'', rq_DeviceID = d, rq_DeviceGroupID = None, rq_Enabled = None\<rparr>"

definition noRuleUpdate :: rule_update where
  "noRuleUpdate = \<lparr>rz_Name = None, rz_MetricName = None, rz_Operator = None, rz_Threshold = None, rz_Severity = None,
     rz_DeviceID = None, rz_DeviceGroupID = None, rz_Enabled = None\<rparr>"

definition exRuleTables :: rule_tables where
  "exRuleTables = \<lparr>gt_devices = [''d1'', ''d2''], gt_groups = [], gt_members = [], at_rules = [], at_audit = []\<rparr>"

definition exRuleRequests :: "(rule_env \<times> rule_request) list" where
  "exRuleRequests = [(exRuleEnv ''r1'', RuleCreate (Inr (exRule (Fin 70) (Some ''d1'')))),
     (exRuleEnv ''r2'', RuleCreate (Inr (exRule (Fin 80) (Some ''d9'')))),
     (exRuleEnv ''r3'', RuleCreate (Inr (exRule (Fin 90) (Some ''d2'')))),
     (exRuleEnv [], RuleUpdate (Some ''r3'') (Inr (noRuleUpdate\<lparr>rz_Severity := Some ''fatal''\<rparr>))),
     (exRuleEnv [], TargetDeviceGone ''d1'')]"


section \<open>Replies\<close>

text \<open>A rule that was accepted is the rule that is read: the reply shows the stored row with the requested
  fields, enabled unless the request says otherwise; reading its identifier answers it; Prometheus is
  asked to reload and the audit log has one more entry. A refused request changes nothing and asks for
  nothing.\<close>

theorem rule_creation:
  assumes "CreateRule showF env req t = (t', reply, reload)" "ae_auditErr env = None"
  shows "case reply of
      Data code r \<Rightarrow> \<exists>q. req = Inr q \<and> r = newRule (re_newId env) (re_t1 env) (ae_now env) q \<and> rule_ok r \<and> targetsExist t r \<and>
        at_rules t' = at_rules t @ [r] \<and> length (at_audit t') = Suc (length (at_audit t)) \<and> reload \<and>
        GetRule (env\<lparr>ae_getErr := None\<rparr>) (Some (re_newId env)) t' = Success r
    | _ \<Rightarrow> t' = t \<and> \<not> reload"
proof (cases "\<exists>q. bindRule req = Inr q \<and> checkRule (Some (rq_Operator q)) (Some (rq_Severity q)) (Some (rq_Threshold q)) = (None :: alert_rule api_reply option)")
  case True
  then obtain q where q: "bindRule req = Inr q"
    and c: "checkRule (Some (rq_Operator q)) (Some (rq_Severity q)) (Some (rq_Threshold q)) = (None :: alert_rule api_reply option)" by blast
  define new where "new = newRule (re_newId env) (re_t1 env) (ae_now env) q"
  have req: "req = Inr q" using q unfolding bindRule_def by (auto simp: Let_def split: sum.splits if_splits)
  obtain rs out where ins: "insertRow ''failed to create alert rule'' (ae_writeErr env) (ruleViolation t) new (at_rules t) = (rs, out)"
    by fastforce
  then have made: "rule_Create (ae_writeErr env) (re_newId env) (re_t1 env) (ae_now env) q t = (t\<lparr>at_rules := rs\<rparr>, out)"
    by (simp add: rule_Create_def new_def)
  from ins show ?thesis
  proof (cases rule: insertRow_cases)
    case stored
    have id: "ru_ID new = re_newId env" by (simp add: new_def newRule_def)
    have v: "rule_ok new" using c by (simp add: checkRule_None rule_ok_def new_def newRule_def)
    have x: "targetsExist t new" using stored(4) by (auto simp: ruleViolation_def split: if_splits)
    have f: "findBy ru_ID (ru_ID new) rs = Some new"
      using rules.insert_then_read [OF ins [unfolded stored(1)], of "ru_ID new"] by simp
    have out: "reply = Data 201 new" "reload" "at_rules t' = rs" "length (at_audit t') = Suc (length (at_audit t))"
      using assms q c made stored(1) unfolding CreateRule_def
      by (auto simp: auditRule_def audit_Create_def Created_def)
    moreover have "GetRule (env\<lparr>ae_getErr := None\<rparr>) (Some (re_newId env)) t' = Success new"
      using f by (simp add: GetRule_def rule_GetByID_def readRow_def out(3) id)
    ultimately show ?thesis using v x req stored(2) by (simp add: new_def)
  next
    case (refused m)
    then show ?thesis using assms(1) q c made unfolding CreateRule_def
      by (auto simp: InternalError_def)
  qed
next
  case False
  then have "\<exists>r. CreateRule showF env req t = (t, r, False) \<and> \<not> accepted_reply r"
    unfolding CreateRule_def
    by (cases "bindRule req") (auto dest: checkRule_refuses split: option.split)
  with assms(1) have "t' = t \<and> \<not> reload \<and> \<not> accepted_reply reply" by auto
  then show ?thesis by (cases reply) simp_all
qed

lemma rule_creation_witness:
  "case CreateRule (\<lambda>x. []) (exRuleEnv ''r1'') (Inr (exRule (Fin 70) None)) exRuleTables of (t', reply, reload) \<Rightarrow>
     reload \<and> map ru_ID (at_rules t') = [''r1'']"
proof -
  define r where "r = CreateRule (\<lambda>x. []) (exRuleEnv ''r1'') (Inr (exRule (Fin 70) None)) exRuleTables"
  have e: "CreateRule (\<lambda>x. []) (exRuleEnv ''r1'') (Inr (exRule (Fin 70) None)) exRuleTables = (fst r, fst (snd r), snd (snd r))"
    by (simp add: r_def)
  have "case fst (snd r) of Data code d \<Rightarrow> True | _ \<Rightarrow> False" unfolding r_def by code_simp
  then obtain code d where d: "fst (snd r) = Data code d" by (cases "fst (snd r)") auto
  have "ae_auditErr (exRuleEnv ''r1'') = None" by (simp add: exRuleEnv_def)
  from rule_creation [OF e this] show ?thesis
    unfolding r_def [symmetric] d api_reply.case by (auto simp: exRuleTables_def exRule_def newRule_def exRuleEnv_def)
qed

text \<open>A threshold of zero cannot be created: such a request is refused with a bad request that says the field
  is required, although 0 is a finite number and the very same rule is accepted with any other
  threshold and can be set to 0 by an update.\<close>

theorem zero_threshold_refused:
  assumes "rq_Name q \<noteq> []" "rq_MetricName q \<noteq> []" "rq_Operator q \<noteq> []" "rq_Severity q \<noteq> []"
  shows "CreateRule showF env (Inr (q\<lparr>rq_Threshold := Fin 0\<rparr>)) t =
      (t, BadRequest (''field '' @ quoted ''Threshold'' @ '' is required'') ''INVALID_REQUEST'', False) \<and>
    bindRule (Inr (q\<lparr>rq_Threshold := Fin 1\<rparr>)) = Inr (q\<lparr>rq_Threshold := Fin 1\<rparr>) \<and>
    checkRule None None (Some (Fin 0)) = (None :: alert_rule api_reply option)"
  using assms
  by (simp add: CreateRule_def bindRule_def requiredText_def requiredNumber_def FormatBindingErrors_def formatFieldError_def
      joinWith.simps Let_def checkRule_def finite64_def)

lemma zero_threshold_refused_witness:
  "CreateRule (\<lambda>x. []) (exRuleEnv ''r1'') (Inr (exRule (Fin 0) None)) exRuleTables =
     (exRuleTables, BadRequest (''field '' @ quoted ''Threshold'' @ '' is required'') ''INVALID_REQUEST'', False)"
  using zero_threshold_refused [of "exRule (Fin 5) None" "\<lambda>x. []" "exRuleEnv ''r1''" exRuleTables] by (simp add: exRule_def)

end
