(* ===== verification/Maintenance.thy ===== *)
theory Maintenance
  imports DeviceGroups
begin

text \<open>
  The maintenance windows (\<open>backend/internal/db/maintenance_window_repository.go\<close>,
  \<open>backend/internal/api/handlers/maintenance_window_handler.go\<close>, \<open>models/maintenance_window.go\<close>) and the silences
  that they ask Alertmanager for.

  Alertmanager is given by its answers; the handlers return what they sent to it. The table is given by
  the columns it has: \<open>migrationColumns\<close> is what \<open>migrations/006_create_maintenance_windows_table.up.sql\<close>
  creates, and no later migration adds a column. The columns \<open>start_time\<close> and \<open>end_time\<close> are
  \<open>TIMESTAMP\<close>s without a time zone: PostgreSQL reads the clock of the given time and ignores its offset.
  How a time is printed is a parameter.
\<close>

section \<open>Data\<close>

text \<open>A time with its offset from UTC, and the clock that it shows.\<close>

record zoned =
  zt_utc :: time
  zt_offset :: int

definition clock :: "zoned \<Rightarrow> time" where
  "clock z = zt_utc z + zt_offset z"

record window =
  mw_ID :: string
  mw_DeviceID :: string
  mw_StartTime :: time
  mw_EndTime :: time
  mw_Reason :: string
  mw_CreatedBy :: string
  mw_SilenceID :: "string option"
  mw_CreatedAt :: time

record window_create =
  mq_DeviceID :: string
  mq_StartTime :: zoned
  mq_EndTime :: zoned
  mq_Reason :: string

record window_tables =
  mt_devices :: "string list"
  mt_users :: "string list"
  mt_windows :: "window list"
  mt_audit :: "audit_log list"

section \<open>The repository\<close>

definition migrationColumns :: "string list" where
  "migrationColumns = [''id'', ''device_id'', ''start_time'', ''end_time'', ''reason'', ''created_by'', ''created_at'']"

definition windowColumns :: "string list" where
  "windowColumns = [''id'', ''device_id'', ''start_time'', ''end_time'', ''reason'', ''created_by'', ''silence_id'', ''created_at'']"

text \<open>The error of a statement: its failure, or the first column that it names and the table does not have.\<close>

definition statementErr :: "string list \<Rightarrow> string list \<Rightarrow> db_error \<Rightarrow> db_error" where
  "statementErr cols named dbErr = (case dbErr of
     Some e \<Rightarrow> Some e
   | None \<Rightarrow> (case filter (\<lambda>c. c \<notin> set cols) named of [] \<Rightarrow> None
       | c # _ \<Rightarrow> Some (''pq: column '' @ CHR 0x22 # c @ CHR 0x22 # '' does not exist'')))"

definition windowViolation :: "'a window_tables_scheme \<Rightarrow> window list \<Rightarrow> window \<Rightarrow> string option" where
  "windowViolation t rs r = (if \<not> mw_StartTime r < mw_EndTime r
     then Some ''pq: new row for relation violates check constraint check_time_range''
     else if list_ex (\<lambda>q. mw_ID q = mw_ID r) rs then Some duplicateKey
     else if mw_DeviceID r \<notin> set (mt_devices t) \<or> mw_CreatedBy r \<notin> set (mt_users t) then Some foreignKey else None)"

interpretation windows: unique_table mw_ID "windowViolation t" for t :: "'a window_tables_scheme"
  by unfold_locales (auto simp: windowViolation_def list_ex_iff split: if_splits)

definition newWindow :: "string \<Rightarrow> time \<Rightarrow> string \<Rightarrow> window_create \<Rightarrow> window" where
  "newWindow newId now user q = \<lparr>mw_ID = newId, mw_DeviceID = mq_DeviceID q, mw_StartTime = clock (mq_StartTime q),
     mw_EndTime = clock (mq_EndTime q), mw_Reason = mq_Reason q, mw_CreatedBy = user, mw_SilenceID = None, mw_CreatedAt = now\<rparr>"

definition window_Create ::
  "string list \<Rightarrow> db_error \<Rightarrow> string \<Rightarrow> time \<Rightarrow> string \<Rightarrow> window_create \<Rightarrow> 'a window_tables_scheme \<Rightarrow>
   'a window_tables_scheme \<times> window result" where
  "window_Create cols dbErr newId now user q t =
     (case insertRow ''failed to create maintenance window'' (statementErr cols windowColumns dbErr) (windowViolation t)
        (newWindow newId now user q) (mt_windows t) of (rs, r) \<Rightarrow> (t\<lparr>mt_windows := rs\<rparr>, r))"

definition window_GetByID :: "string list \<Rightarrow> db_error \<Rightarrow> string \<Rightarrow> window list \<Rightarrow> window result" where
  "window_GetByID cols dbErr i rs = readRow ''failed to get maintenance window'' ''maintenance window not found''
     (statementErr cols windowColumns dbErr) mw_ID i rs"

text \<open>\<open>now\<close> is the clock of the database session.\<close>

definition window_List :: "string list \<Rightarrow> db_error \<Rightarrow> time \<Rightarrow> bool \<Rightarrow> window list \<Rightarrow> window list result" where
  "window_List cols dbErr now activeOnly rs = (case statementErr cols windowColumns dbErr of
     Some e \<Rightarrow> Inl (''failed to list maintenance windows: '' @ e)
   | None \<Rightarrow> Inr (sort_key (\<lambda>r. - mw_StartTime r)
       (if activeOnly then filter (\<lambda>r. mw_StartTime r \<le> now \<and> mw_EndTime r \<ge> now) rs else rs)))"

definition window_Delete :: "db_error \<Rightarrow> string \<Rightarrow> window list \<Rightarrow> window list \<times> string option" where
  "window_Delete dbErr i rs = deleteRows ''failed to delete maintenance window'' ''maintenance window not found'' dbErr (\<lambda>r. mw_ID r = i) rs"

definition UpdateSilenceID :: "string list \<Rightarrow> db_error \<Rightarrow> string \<Rightarrow> string \<Rightarrow> window list \<Rightarrow> window list \<times> string option" where
  "UpdateSilenceID cols dbErr i s rs = updateRows ''failed to update silence_id'' ''maintenance window not found''
     (statementErr cols [''silence_id'', ''id''] dbErr) (\<lambda>r. mw_ID r = i) (\<lambda>r. r\<lparr>mw_SilenceID := Some s\<rparr>) rs"

section \<open>Alertmanager\<close>

record silence =
  si_device :: string
  si_StartsAt :: time
  si_EndsAt :: time
  si_CreatedBy :: string
  si_Comment :: string

text \<open>What was sent, and an answer: none, or a status with the body's text and what decoding it gave.\<close>

datatype am_request = PostSilence silence | DeleteSilence string

datatype am_answer = NoAnswer string | Answer int string "string + string"

definition silenceOf :: "window \<Rightarrow> silence" where
  "silenceOf w = \<lparr>si_device = mw_DeviceID w, si_StartsAt = mw_StartTime w, si_EndsAt = mw_EndTime w,
     si_CreatedBy = mw_CreatedBy w, si_Comment = mw_Reason w\<rparr>"

definition badStatus :: "int \<Rightarrow> string \<Rightarrow> string" where
  "badStatus code body = ''alertmanager returned status '' @ itoa code @ '': '' @ body"

definition createAlertmanagerSilence :: "am_answer \<Rightarrow> string result" where
  "createAlertmanagerSilence a = (case a of
     NoAnswer e \<Rightarrow> Inl (''failed to send request: '' @ e)
   | Answer code body decoded \<Rightarrow>
       (if code \<noteq> 200 \<and> code \<noteq> 201 then Inl (badStatus code body)
        else case decoded of Inl e \<Rightarrow> Inl (''failed to decode response: '' @ e) | Inr s \<Rightarrow> Inr s))"

definition deleteAlertmanagerSilence :: "am_answer \<Rightarrow> string option" where
  "deleteAlertmanagerSilence a = (case a of
     NoAnswer e \<Rightarrow> Some (''failed to send request: '' @ e)
   | Answer code body decoded \<Rightarrow> (if code \<noteq> 200 \<and> code \<noteq> 204 then Some (badStatus code body) else None))"

section \<open>Handlers\<close>

text \<open>\<open>me_user\<close> is the caller that the token names, \<open>me_silenceErr\<close> the error of the statement that stores the
  silence, \<open>me_alertmanager\<close> the answer to a request.\<close>

record window_env = auth_env +
  me_newId :: string
  me_user :: "string option"
  me_silenceErr :: db_error
  me_alertmanager :: "am_request \<Rightarrow> am_answer"
  me_columns :: "string list"

definition auditWindow :: "window_env \<Rightarrow> audit_log \<Rightarrow> 'a window_tables_scheme \<Rightarrow> 'a window_tables_scheme" where
  "auditWindow env entry t =
     t\<lparr>mt_audit := fst (audit_Create (ae_auditErr env) (ae_auditId env) (ae_now env) entry (mt_audit t))\<rparr>"

text \<open>The silence is asked for after the window was stored. When that succeeds, its identifier is stored and
  shown; that the storing may fail is only logged.\<close>

definition silenceWindow ::
  "window_env \<Rightarrow> window \<Rightarrow> 'a window_tables_scheme \<Rightarrow> 'a window_tables_scheme \<times> window" where
  "silenceWindow env w t = (case createAlertmanagerSilence (me_alertmanager env (PostSilence (silenceOf w))) of
     Inl e \<Rightarrow> (t, w)
   | Inr s \<Rightarrow> (t\<lparr>mt_windows := fst (UpdateSilenceID (me_columns env) (me_silenceErr env) (mw_ID w) s (mt_windows t))\<rparr>,
       w\<lparr>mw_SilenceID := Some s\<rparr>))"

definition CreateWindow ::
  "(time \<Rightarrow> string) \<Rightarrow> (zoned \<Rightarrow> string) \<Rightarrow> window_env \<Rightarrow> bind_error + window_create \<Rightarrow> 'a window_tables_scheme \<Rightarrow>
   'a window_tables_scheme \<times> window api_reply \<times> am_request list" where
  "CreateWindow showT showZ env req t = (case req of
     Inl e \<Rightarrow> (t, BadRequest (FormatBindingErrors e) ''INVALID_REQUEST'', [])
   | Inr q \<Rightarrow>
       (if \<not> zt_utc (mq_StartTime q) < zt_utc (mq_EndTime q)
        then (t, BadRequest (''end_time ('' @ showZ (mq_EndTime q) @ '') must be after start_time ('' @ showZ (mq_StartTime q) @ '')'')
          ''INVALID_TIME_RANGE'', [])
        else case me_user env of
          None \<Rightarrow> (t, Unauthorized ''User not authenticated'', [])
        | Some user \<Rightarrow>
          (case window_Create (me_columns env) (ae_writeErr env) (me_newId env) (ae_now env) user q t of
             (t1, Inl e) \<Rightarrow> (t1, InternalError ''Failed to create maintenance window'', [])
           | (t1, Inr w) \<Rightarrow> (case silenceWindow env w t1 of (t2, w1) \<Rightarrow>
               (auditWindow env (LogMaintenanceWindowCreate user (mw_ID w1) (ae_ip env) (Some [(''device_id'', mw_DeviceID w1),
                  (''start_time'', showT (mw_StartTime w1)), (''end_time'', showT (mw_EndTime w1)), (''reason'', mw_Reason w1)])) t2,
                Created w1, [PostSilence (silenceOf w)])))))"

definition ListWindows :: "window_env \<Rightarrow> string \<Rightarrow> 'a window_tables_scheme \<Rightarrow> window list api_reply" where
  "ListWindows env active t = (case window_List (me_columns env) (ae_getErr env) (ae_now env) (active = ''true'') (mt_windows t) of
     Inl e \<Rightarrow> InternalError ''Failed to list maintenance windows'' | Inr ws \<Rightarrow> Success ws)"

text \<open>A caller that the token does not name would make the last step panic, after the deletion.\<close>

definition DeleteWindow ::
  "window_env \<Rightarrow> string option \<Rightarrow> 'a window_tables_scheme \<Rightarrow> 'a window_tables_scheme \<times> unit api_reply \<times> am_request list" where
  "DeleteWindow env param t = (case param of
     None \<Rightarrow> (t, BadRequest ''Invalid maintenance window ID'' ''INVALID_ID'', [])
   | Some i \<Rightarrow> (case window_GetByID (me_columns env) (ae_getErr env) i (mt_windows t) of
       Inl e \<Rightarrow> (t, missingOr ''maintenance window not found'' ''Maintenance window not found'' ''Failed to get maintenance window'' e, [])
     | Inr w \<Rightarrow>
         (let sent = (case mw_SilenceID w of None \<Rightarrow> [] | Some s \<Rightarrow> if s = [] then [] else [DeleteSilence s]) in
          case window_Delete (ae_writeErr env) i (mt_windows t) of
            (rs, Some e) \<Rightarrow> (t\<lparr>mt_windows := rs\<rparr>, InternalError ''Failed to delete maintenance window'', sent)
          | (rs, None) \<Rightarrow> (case me_user env of
              None \<Rightarrow> (t\<lparr>mt_windows := rs\<rparr>, ErrorReply 500 [] [], sent)
            | Some user \<Rightarrow>
                (auditWindow env (LogMaintenanceWindowDelete user i (ae_ip env) (Some [(''device_id'', mw_DeviceID w)]))
                   (t\<lparr>mt_windows := rs\<rparr>), Message 200 ''Maintenance window deleted successfully'', sent)))))"

section \<open>On the migrations' table\<close>

lemma no_silence_column: "statementErr migrationColumns windowColumns e \<noteq> None"
  by (simp add: statementErr_def migrationColumns_def windowColumns_def split: option.split)

text \<open>Maintenance windows cannot be used on the database that the migrations create: its table has no column
  for the silence, which every statement that reads or creates a window names. Creating one is answered
  with an internal error whatever the request, without a silence; so is every list, and so is every
  deletion.\<close>

theorem windows_need_a_column_no_migration_makes:
  assumes "me_columns env = migrationColumns"
    and "zt_utc (mq_StartTime q) < zt_utc (mq_EndTime q)" "me_user env = Some user"
  shows "CreateWindow showT showZ env (Inr q) t = (t, InternalError ''Failed to create maintenance window'', []) \<and>
    ListWindows env active t = InternalError ''Failed to list maintenance windows'' \<and>
    DeleteWindow env (Some i) t = (t, InternalError ''Failed to get maintenance window'', [])"
proof -
  obtain e where e: "statementErr migrationColumns windowColumns (ae_writeErr env) = Some e" using no_silence_column by blast
  obtain g where g: "statementErr migrationColumns windowColumns (ae_getErr env) = Some g" using no_silence_column by blast
  show ?thesis using assms
    by (simp add: CreateWindow_def window_Create_def insertRow_def e ListWindows_def window_List_def g DeleteWindow_def
        window_GetByID_def readRow_def missingOr_def)
qed

section \<open>On a table with the column\<close>

lemma statement_ok: "set named \<subseteq> set cols \<Longrightarrow> statementErr cols named e = e"
proof -
  assume "set named \<subseteq> set cols"
  then have "filter (\<lambda>c. c \<notin> set cols) named = []" by (auto simp: filter_empty_conv)
  then show ?thesis by (simp add: statementErr_def split: option.split)
qed

lemma silence_updates_last:
  assumes "mw_ID w \<notin> mw_ID ` set rs"
  shows "updateWhere (\<lambda>r. mw_ID r = mw_ID w) f (rs @ [w]) = rs @ [f w]"
proof -
  have "map (\<lambda>r. if mw_ID r = mw_ID w then f r else r) rs = rs"
    using assms by (intro map_idI) (auto, metis imageI)
  then show ?thesis by (simp add: updateWhere_def)
qed


definition exWindowEnv :: window_env where
  "exWindowEnv = \<lparr>ae_getErr = None, ae_writeErr = None, ae_auditErr = None, ae_auditId = ''a1'', ae_now = 7, ae_ip = ''10.0.0.9'',
     me_newId = ''w1'', me_user = Some ''u1'', me_silenceErr = None, me_alertmanager = (\<lambda>r. Answer 200 [] (Inr ''s1'')),
     me_columns = windowColumns\<rparr>"

definition exWindowTables :: window_tables where
  "exWindowTables = \<lparr>mt_devices = [''d1''], mt_users = [''u1''], mt_windows = [], mt_audit = []\<rparr>"

definition exWindow :: "int \<Rightarrow> int \<Rightarrow> window_create" where
  "exWindow o1 o2 = \<lparr>mq_DeviceID = ''d1'', mq_StartTime = \<lparr>zt_utc = 100, zt_offset = o1\<rparr>, mq_EndTime = \<lparr>zt_utc = 200, zt_offset = o2\<rparr>,
     mq_Reason = ''disks''\<rparr>"

lemma windows_need_a_column_no_migration_makes_witness:
  "CreateWindow (\<lambda>x. []) (\<lambda>x. []) (exWindowEnv\<lparr>me_columns := migrationColumns\<rparr>) (Inr (exWindow 0 0)) exWindowTables =
     (exWindowTables, InternalError ''Failed to create maintenance window'', [])"
  using windows_need_a_column_no_migration_makes [of "exWindowEnv\<lparr>me_columns := migrationColumns\<rparr>" "exWindow 0 0" "''u1''"
    "\<lambda>x. []" "\<lambda>x. []" exWindowTables "[]" "[]"]
  by (simp add: exWindowEnv_def exWindow_def)


section \<open>Offsets\<close>

text \<open>The offset of a time is lost on its way to the database. A window that is asked for with the same
  offset at both ends is stored, and silenced, that much later than asked for: with two hours, the
  first two hours are not silenced. With different offsets a window whose start is before its end can
  be one that the database refuses, which is answered with an internal error.\<close>

theorem window_offset_is_lost:
  assumes "CreateWindow showT showZ env (Inr q) t = (t', reply, sent)" "set windowColumns \<subseteq> set (me_columns env)"
    and "zt_utc (mq_StartTime q) < zt_utc (mq_EndTime q)" "me_user env = Some user"
  shows "list_all (\<lambda>r. case r of PostSilence s \<Rightarrow> si_StartsAt s = zt_utc (mq_StartTime q) + zt_offset (mq_StartTime q) \<and>
        si_EndsAt s = zt_utc (mq_EndTime q) + zt_offset (mq_EndTime q) | _ \<Rightarrow> False) sent \<and>
    (if clock (mq_EndTime q) \<le> clock (mq_StartTime q)
     then t' = t \<and> reply = InternalError ''Failed to create maintenance window'' \<and> sent = [] else True)"
proof -
  define w where "w = newWindow (me_newId env) (ae_now env) user q"
  obtain rs out where ins: "insertRow ''failed to create maintenance window'' (statementErr (me_columns env) windowColumns (ae_writeErr env))
      (windowViolation t) w (mt_windows t) = (rs, out)" by fastforce
  then have made: "window_Create (me_columns env) (ae_writeErr env) (me_newId env) (ae_now env) user q t = (t\<lparr>mt_windows := rs\<rparr>, out)"
    by (simp add: window_Create_def w_def)
  from ins show ?thesis
  proof (cases rule: insertRow_cases)
    case stored
    then have "clock (mq_StartTime q) < clock (mq_EndTime q)"
      by (simp add: windowViolation_def w_def newWindow_def split: if_splits)
    moreover have "sent = [PostSilence (silenceOf w)]"
      using assms(1,3,4) made stored(1) by (auto simp: CreateWindow_def split: prod.splits)
    ultimately show ?thesis by (simp add: silenceOf_def w_def newWindow_def clock_def)
  next
    case (refused m)
    then show ?thesis using assms(1,3,4) made by (auto simp: CreateWindow_def)
  qed
qed

lemma window_offset_is_lost_witness:
  "list_all (\<lambda>r. case r of PostSilence s \<Rightarrow> si_StartsAt s = 7300 \<and> si_EndsAt s = 7400 | _ \<Rightarrow> False)
     (snd (snd (CreateWindow (\<lambda>x. []) (\<lambda>x. []) exWindowEnv (Inr (exWindow 7200 7200)) exWindowTables)))"
proof -
  define r where "r = CreateWindow (\<lambda>x. []) (\<lambda>x. []) exWindowEnv (Inr (exWindow 7200 7200)) exWindowTables"
  have e: "CreateWindow (\<lambda>x. []) (\<lambda>x. []) exWindowEnv (Inr (exWindow 7200 7200)) exWindowTables = (fst r, fst (snd r), snd (snd r))"
    by (simp add: r_def)
  have "set windowColumns \<subseteq> set (me_columns exWindowEnv)" "me_user exWindowEnv = Some ''u1''" by (simp_all add: exWindowEnv_def)
  from window_offset_is_lost [OF e this(1) _ this(2)] show ?thesis
    unfolding r_def [symmetric] by (simp add: exWindow_def)
qed

section \<open>Deletion\<close>

text \<open>A deletion lifts the silence first. When the row cannot be deleted afterwards, the request fails and
  the window stays listed as before, with the identifier of a silence that Alertmanager was told to
  delete; when it can, the window is gone and nothing else changed.\<close>

theorem window_deletion:
  assumes "findBy mw_ID i (mt_windows t) = Some w" "mw_SilenceID w = Some s" "s \<noteq> []"
    and "set windowColumns \<subseteq> set (me_columns env)" "ae_getErr env = None" "me_user env = Some user"
  shows "case DeleteWindow env (Some i) t of (t', reply, sent) \<Rightarrow> sent = [DeleteSilence s] \<and>
    (if ae_writeErr env = None then mt_windows t' = filter (\<lambda>r. mw_ID r \<noteq> i) (mt_windows t) \<and> accepted_reply reply
     else t' = t \<and> reply = InternalError ''Failed to delete maintenance window'')"
proof -
  have "statementErr (me_columns env) windowColumns None = None" using assms(4) by (rule statement_ok)
  moreover have "list_ex (\<lambda>r. mw_ID r = i) (mt_windows t)" using findBy_SomeD [OF assms(1)] by (auto simp: list_ex_iff)
  ultimately show ?thesis using assms
    by (auto simp: DeleteWindow_def window_GetByID_def readRow_def window_Delete_def deleteRows_def auditWindow_def
        split: option.split)
qed

lemma window_deletion_witness:
  "DeleteWindow (exWindowEnv\<lparr>ae_writeErr := Some ''timeout''\<rparr>) (Some ''w0'')
     (exWindowTables\<lparr>mt_windows := [(newWindow ''w0'' 1 ''u1'' (exWindow 0 0))\<lparr>mw_SilenceID := Some ''s0''\<rparr>]\<rparr>) =
   (exWindowTables\<lparr>mt_windows := [(newWindow ''w0'' 1 ''u1'' (exWindow 0 0))\<lparr>mw_SilenceID := Some ''s0''\<rparr>]\<rparr>,
    InternalError ''Failed to delete maintenance window'', [DeleteSilence ''s0''])"
  using window_deletion [of "''w0''" "exWindowTables\<lparr>mt_windows := [(newWindow ''w0'' 1 ''u1'' (exWindow 0 0))\<lparr>mw_SilenceID := Some ''s0''\<rparr>]\<rparr>"
      "(newWindow ''w0'' 1 ''u1'' (exWindow 0 0))\<lparr>mw_SilenceID := Some ''s0''\<rparr>" "''s0''" "exWindowEnv\<lparr>ae_writeErr := Some ''timeout''\<rparr>" "''u1''"]
  by (auto simp: newWindow_def exWindowEnv_def)

end
