(* ===== verification/Alerts.thy ===== *)
theory Alerts
  imports DeviceGroups "HOL-Library.Multiset"
begin

text \<open>
  The alerts that the API server shows (\<open>backend/internal/api/handlers/alert_handler.go\<close>) and their
  acknowledgments (\<open>backend/internal/db/alert_acknowledgment_repository.go\<close>).

  The alerts are Alertmanager's: its answer to the query is a parameter. Labels and annotations are maps
  from names to texts, in which a missing name reads as the empty text. The zero time is \<open>None\<close>. A list
  without alerts is shown as JSON's null, which the model does not tell from the empty list.
\<close>

section \<open>Data\<close>

record am_alert =
  aa_Labels :: "(string \<times> string) list"
  aa_Annotations :: "(string \<times> string) list"
  aa_StartsAt :: time
  aa_EndsAt :: "time option"
  aa_State :: string
  aa_Fingerprint :: string

record alert =
  al_Fingerprint :: string
  al_DeviceName :: string
  al_AlertName :: string
  al_Severity :: string
  al_FiredAt :: time
  al_ResolvedAt :: "time option"
  al_CurrentValue :: string
  al_Description :: string
  al_Labels :: "(string \<times> string) list"
  al_Acknowledged :: bool
  al_AcknowledgedAt :: "time option"

record ack_row =
  ak_ID :: string
  ak_UserID :: string
  ak_Fingerprint :: string
  ak_AcknowledgedAt :: time

record ack_tables =
  kt_users :: "string list"
  kt_acks :: "ack_row list"
  kt_audit :: "audit_log list"

section \<open>Acknowledgments\<close>

text \<open>One row for each fingerprint: a second acknowledgment keeps the row's identifier and takes the new
  caller and time.\<close>

definition ack_Create ::
  "db_error \<Rightarrow> string \<Rightarrow> time \<Rightarrow> string \<Rightarrow> string \<Rightarrow> 'a ack_tables_scheme \<Rightarrow> 'a ack_tables_scheme \<times> ack_row result" where
  "ack_Create dbErr newId now user fp t = (case dbErr of
     Some e \<Rightarrow> (t, Inl (''failed to create alert acknowledgment: '' @ e))
   | None \<Rightarrow>
     (if user \<notin> set (kt_users t) then (t, Inl (''failed to create alert acknowledgment: '' @ foreignKey))
      else (let new = \<lparr>ak_ID = newId, ak_UserID = user, ak_Fingerprint = fp, ak_AcknowledgedAt = now\<rparr>;
                upd = (\<lambda>r. r\<lparr>ak_UserID := user, ak_AcknowledgedAt := now\<rparr>) in
        (t\<lparr>kt_acks := upsertBy ak_Fingerprint new upd (kt_acks t)\<rparr>,
         Inr (case findBy ak_Fingerprint fp (kt_acks t) of None \<Rightarrow> new | Some r \<Rightarrow> upd r)))))"

text \<open>No row is not an error here.\<close>

definition ack_GetByFingerprint :: "db_error \<Rightarrow> string \<Rightarrow> ack_row list \<Rightarrow> ack_row option result" where
  "ack_GetByFingerprint dbErr fp rows = (case dbErr of
     Some e \<Rightarrow> Inl (''failed to get alert acknowledgment: '' @ e) | None \<Rightarrow> Inr (findBy ak_Fingerprint fp rows))"

definition ack_List :: "db_error \<Rightarrow> ack_row list \<Rightarrow> ack_row list result" where
  "ack_List dbErr rows = (case dbErr of
     Some e \<Rightarrow> Inl (''failed to list alert acknowledgments: '' @ e)
   | None \<Rightarrow> Inr (sort_key (\<lambda>r. - ak_AcknowledgedAt r) rows))"

section \<open>Lists of alerts\<close>

datatype am_reply = Unreachable string | Replied int "string + am_alert list"

text \<open>The shared start of both handlers: the alerts, or the reply.\<close>

definition fetchAlerts :: "am_reply \<Rightarrow> alert list api_reply + am_alert list" where
  "fetchAlerts a = (case a of
     Unreachable e \<Rightarrow> Inl (ErrorReply 500 ''Failed to query alerts'' ''ALERTMANAGER_ERROR'')
   | Replied code decoded \<Rightarrow>
       (if code \<noteq> 200 then Inl (ErrorReply 500 ''Failed to query alerts'' ''ALERTMANAGER_ERROR'')
        else case decoded of Inl e \<Rightarrow> Inl (ErrorReply 500 ''Failed to parse alerts'' ''PARSE_ERROR'') | Inr as \<Rightarrow> Inr as))"

text \<open>The acknowledgments by fingerprint, in the order of the rows, a later row over an earlier one; when they
  cannot be read there are none.\<close>

definition ackMap :: "db_error \<Rightarrow> ack_row list \<Rightarrow> string \<Rightarrow> time option" where
  "ackMap dbErr rows = (case ack_List dbErr rows of
     Inl e \<Rightarrow> (\<lambda>_. None)
   | Inr acks \<Rightarrow> fold (\<lambda>a m. m(ak_Fingerprint a \<mapsto> ak_AcknowledgedAt a)) acks (\<lambda>_. None))"

definition textAt :: "(string \<times> string) list \<Rightarrow> string \<Rightarrow> string" where
  "textAt m k = (case map_of m k of None \<Rightarrow> [] | Some v \<Rightarrow> v)"

definition alertOf :: "(string \<Rightarrow> time option) \<Rightarrow> am_alert \<Rightarrow> alert" where
  "alertOf acks a = \<lparr>al_Fingerprint = aa_Fingerprint a, al_DeviceName = textAt (aa_Labels a) ''device'',
     al_AlertName = textAt (aa_Labels a) ''alertname'', al_Severity = textAt (aa_Labels a) ''severity'',
     al_FiredAt = aa_StartsAt a, al_ResolvedAt = None, al_CurrentValue = textAt (aa_Annotations a) ''value'',
     al_Description = textAt (aa_Annotations a) ''description'', al_Labels = aa_Labels a,
     al_Acknowledged = (acks (aa_Fingerprint a) \<noteq> None), al_AcknowledgedAt = acks (aa_Fingerprint a)\<rparr>"

definition asked :: "string \<Rightarrow> string \<Rightarrow> alert \<Rightarrow> bool" where
  "asked severity dev a = (\<not> (severity \<noteq> [] \<and> al_Severity a \<noteq> severity) \<and> \<not> (dev \<noteq> [] \<and> al_DeviceName a \<noteq> dev))"

fun activeLoop :: "(string \<Rightarrow> time option) \<Rightarrow> string \<Rightarrow> string \<Rightarrow> am_alert list \<Rightarrow> alert list \<Rightarrow> alert list" where
  "activeLoop acks severity dev [] out = out"
| "activeLoop acks severity dev (a # as) out =
     (if aa_State a \<noteq> ''active'' then activeLoop acks severity dev as out
      else let x = alertOf acks a in
        activeLoop acks severity dev as (if asked severity dev x then out @ [x] else out))"

definition ListActive :: "am_reply \<Rightarrow> db_error \<Rightarrow> string \<Rightarrow> string \<Rightarrow> 'a ack_tables_scheme \<Rightarrow> alert list api_reply" where
  "ListActive answer dbErr severity dev t = (case fetchAlerts answer of
     Inl r \<Rightarrow> r
   | Inr as \<Rightarrow> Success (activeLoop (ackMap dbErr (kt_acks t)) severity dev as []))"

definition historyAlert :: "(string \<Rightarrow> time option) \<Rightarrow> am_alert \<Rightarrow> alert" where
  "historyAlert acks a = (alertOf acks a)\<lparr>al_ResolvedAt := (if aa_State a = ''resolved'' then aa_EndsAt a else None)\<rparr>"

fun historyLoop :: "(string \<Rightarrow> time option) \<Rightarrow> string \<Rightarrow> string \<Rightarrow> am_alert list \<Rightarrow> alert list \<Rightarrow> alert list" where
  "historyLoop acks severity dev [] out = out"
| "historyLoop acks severity dev (a # as) out =
     (let x = historyAlert acks a in historyLoop acks severity dev as (if asked severity dev x then out @ [x] else out))"

definition ListHistory :: "am_reply \<Rightarrow> db_error \<Rightarrow> string \<Rightarrow> string \<Rightarrow> 'a ack_tables_scheme \<Rightarrow> alert list api_reply" where
  "ListHistory answer dbErr severity dev t = (case fetchAlerts answer of
     Inl r \<Rightarrow> r
   | Inr as \<Rightarrow> Success (historyLoop (ackMap dbErr (kt_acks t)) severity dev as []))"

section \<open>Acknowledging\<close>

record ack_env = auth_env +
  ke_newId :: string
  ke_user :: "string option"

definition Acknowledge ::
  "(time \<Rightarrow> string) \<Rightarrow> ack_env \<Rightarrow> string \<Rightarrow> 'a ack_tables_scheme \<Rightarrow> 'a ack_tables_scheme \<times> ack_row api_reply" where
  "Acknowledge showT env fp t =
     (if fp = [] then (t, BadRequest ''Alert fingerprint is required'' ''INVALID_REQUEST'')
      else case ke_user env of
        None \<Rightarrow> (t, Unauthorized ''User not authenticated'')
      | Some user \<Rightarrow> (case ack_Create (ae_writeErr env) (ke_newId env) (ae_now env) user fp t of
          (t1, Inl e) \<Rightarrow> (t1, InternalError ''Failed to acknowledge alert'')
        | (t1, Inr a) \<Rightarrow>
            (t1\<lparr>kt_audit := fst (audit_Create (ae_auditErr env) (ae_auditId env) (ae_now env) (LogAction user ''alert_acknowledge''
               (ae_ip env) (Some [(''alert_fingerprint'', fp), (''acknowledged_at'', showT (ak_AcknowledgedAt a))])) (kt_audit t1))\<rparr>,
             Success a)))"

section \<open>What is shown\<close>

lemma activeLoop_filter:
  "activeLoop acks severity dev as out =
     out @ filter (asked severity dev) (map (alertOf acks) (filter (\<lambda>a. aa_State a = ''active'') as))"
  by (induction as arbitrary: out) (simp_all add: Let_def)

lemma historyLoop_filter:
  "historyLoop acks severity dev as out = out @ filter (asked severity dev) (map (historyAlert acks) as)"
  by (induction as arbitrary: out) (simp_all add: Let_def)

lemma fold_acks:
  assumes "distinct (map ak_Fingerprint rows)"
  shows "fold (\<lambda>a m. m(ak_Fingerprint a \<mapsto> ak_AcknowledgedAt a)) rows m fp =
    (case findBy ak_Fingerprint fp rows of None \<Rightarrow> m fp | Some a \<Rightarrow> Some (ak_AcknowledgedAt a))"
  using assms
proof (induction rows arbitrary: m)
  case (Cons a rows)
  have "findBy ak_Fingerprint (ak_Fingerprint a) rows = None"
    using Cons.prems unfolding findBy_def find_None_iff by (simp, metis imageI)
  with Cons show ?case by simp
qed simp

lemma findBy_perm:
  assumes "distinct (map key xs)" "mset xs = mset ys"
  shows "findBy key k xs = findBy key k ys"
proof -
  have s: "set xs = set ys" using assms(2) by (metis mset_eq_setD)
  show ?thesis
  proof (cases "findBy key k ys")
    case None
    with s have "findBy key k xs = None" unfolding findBy_def find_None_iff by simp
    with None show ?thesis by simp
  next
    case (Some r)
    with s have r: "r \<in> set xs" "key r = k" using findBy_SomeD by fastforce+
    show ?thesis
    proof (cases "findBy key k xs")
      case None
      with r show ?thesis unfolding findBy_def find_None_iff by blast
    next
      case (Some q)
      then have "q \<in> set xs" "key q = k" using findBy_SomeD by fastforce+
      with r assms(1) have "q = r" by (metis distinct_map inj_onD)
      with Some \<open>findBy key k ys = Some r\<close> show ?thesis by simp
    qed
  qed
qed

lemma ackMap_find:
  assumes "distinct (map ak_Fingerprint rows)"
  shows "ackMap None rows fp = map_option ak_AcknowledgedAt (findBy ak_Fingerprint fp rows)"
proof -
  define s where "s = sort_key (\<lambda>r. - ak_AcknowledgedAt r) rows"
  have m: "mset s = mset rows" by (simp add: s_def)
  then have "distinct (map ak_Fingerprint s)" using assms by (metis distinct_map mset_eq_setD mset_eq_imp_distinct_iff)
  from fold_acks [OF this, of "\<lambda>_. None" fp] show ?thesis
    unfolding ackMap_def ack_List_def option.case sum.case s_def [symmetric]
    by (simp add: findBy_perm [OF \<open>distinct (map ak_Fingerprint s)\<close> m] split: option.split)
qed

text \<open>The active list is exact: Alertmanager's active alerts, in its order, narrowed to the asked severity
  and device, and each is shown as acknowledged, with the time, exactly when the table has a row for
  its fingerprint.\<close>

theorem active_list_exact:
  assumes "distinct (map ak_Fingerprint (kt_acks t))"
  shows "ListActive (Replied 200 (Inr as)) None severity dev t = Success (map
      (alertOf (\<lambda>fp. map_option ak_AcknowledgedAt (findBy ak_Fingerprint fp (kt_acks t))))
      (filter (\<lambda>a. aa_State a = ''active'' \<and> (severity = [] \<or> textAt (aa_Labels a) ''severity'' = severity) \<and>
         (dev = [] \<or> textAt (aa_Labels a) ''device'' = dev)) as))"
proof -
  have "ackMap None (kt_acks t) = (\<lambda>fp. map_option ak_AcknowledgedAt (findBy ak_Fingerprint fp (kt_acks t)))"
    using ackMap_find [OF assms] by blast
  moreover have "asked severity dev (alertOf acks a) = ((severity = [] \<or> textAt (aa_Labels a) ''severity'' = severity) \<and>
      (dev = [] \<or> textAt (aa_Labels a) ''device'' = dev))" for acks a
    by (auto simp: asked_def alertOf_def)
  ultimately show ?thesis
    by (simp add: ListActive_def fetchAlerts_def activeLoop_filter filter_map o_def conj_ac)
qed

text \<open>The history never shows an end. Alertmanager's alerts are active, suppressed or unprocessed, and the
  handler fills in the end of an alert only when its state is \<open>resolved\<close>.\<close>

theorem history_never_resolved:
  assumes "\<And>a. a \<in> set as \<Longrightarrow> aa_State a \<in> {''active'', ''suppressed'', ''unprocessed''}"
  shows "case ListHistory (Replied 200 (Inr as)) dbErr severity dev t of
      Data code xs \<Rightarrow> list_all (\<lambda>x. al_ResolvedAt x = None) xs | _ \<Rightarrow> False"
proof -
  have "historyAlert acks a = alertOf acks a" if "a \<in> set as" for acks a
    using assms [OF that] by (auto simp: historyAlert_def alertOf_def)
  then show ?thesis
    by (auto simp: ListHistory_def fetchAlerts_def historyLoop_filter Success_def list_all_iff) (simp add: alertOf_def)
qed

definition exAmAlert :: "string \<Rightarrow> string \<Rightarrow> am_alert" where
  "exAmAlert fp state = \<lparr>aa_Labels = [(''device'', ''srv1''), (''severity'', ''critical'')], aa_Annotations = [], aa_StartsAt = 50,
     aa_EndsAt = Some 90, aa_State = state, aa_Fingerprint = fp\<rparr>"

definition exAckTables :: ack_tables where
  "exAckTables = \<lparr>kt_users = [''u1'', ''u2''], kt_acks = [\<lparr>ak_ID = ''k1'', ak_UserID = ''u1'', ak_Fingerprint = ''f1'', ak_AcknowledgedAt = 20\<rparr>],
     kt_audit = []\<rparr>"

definition exAckEnv :: ack_env where
  "exAckEnv = \<lparr>ae_getErr = None, ae_writeErr = None, ae_auditErr = None, ae_auditId = ''a1'', ae_now = 60, ae_ip = ''10.0.0.9'',
     ke_newId = ''k2'', ke_user = Some ''u2''\<rparr>"

lemma active_list_exact_witness:
  "case ListActive (Replied 200 (Inr [exAmAlert ''f1'' ''active'', exAmAlert ''f2'' ''suppressed'', exAmAlert ''f3'' ''active''])) None [] ''srv1'' exAckTables of
     Data code xs \<Rightarrow> map al_Acknowledged xs = [True, False] | _ \<Rightarrow> False"
proof -
  have "distinct (map ak_Fingerprint (kt_acks exAckTables))" by (simp add: exAckTables_def)
  note active_list_exact [OF this, of "[exAmAlert ''f1'' ''active'', exAmAlert ''f2'' ''suppressed'', exAmAlert ''f3'' ''active'']" "[]" "''srv1''"]
  then show ?thesis by (simp add: Success_def exAmAlert_def exAckTables_def alertOf_def textAt_def)
qed

lemma history_never_resolved_witness:
  "case ListHistory (Replied 200 (Inr [exAmAlert ''f1'' ''active'', exAmAlert ''f2'' ''suppressed''])) None [] [] exAckTables of
      Data code xs \<Rightarrow> list_all (\<lambda>x. al_ResolvedAt x = None) xs | _ \<Rightarrow> False"
  by (rule history_never_resolved) (auto simp: exAmAlert_def)

section \<open>Acknowledgments stick\<close>

text \<open>An acknowledgment marks its alert from then on. After an accepted request the fingerprint has one row,
  with the caller and the time, and no other fingerprint changes; every later list shows the alert with
  that fingerprint as acknowledged at that time, also one that started long after: nothing takes an
  acknowledgment back when an alert ends and fires again.\<close>

theorem acknowledgment_sticks:
  assumes "Acknowledge showT env fp t = (t', reply)" "distinct (map ak_Fingerprint (kt_acks t))" "accepted_reply reply"
  shows "distinct (map ak_Fingerprint (kt_acks t')) \<and>
    (\<exists>user. ke_user env = Some user \<and> map_option ak_UserID (findBy ak_Fingerprint fp (kt_acks t')) = Some user) \<and>
    filter (\<lambda>r. ak_Fingerprint r \<noteq> fp) (kt_acks t') = filter (\<lambda>r. ak_Fingerprint r \<noteq> fp) (kt_acks t) \<and>
    (if aa_Fingerprint a = fp \<and> aa_State a = ''active''
     then case ListActive (Replied 200 (Inr [a])) None [] [] t' of
         Data code xs \<Rightarrow> map al_AcknowledgedAt xs = [Some (ae_now env)] | _ \<Rightarrow> False
     else True)"
proof -
  from assms(1,3) obtain user r t1 where u: "ke_user env = Some user"
    and c: "ack_Create (ae_writeErr env) (ke_newId env) (ae_now env) user fp t = (t1, Inr r)" and t': "kt_acks t' = kt_acks t1"
    unfolding Acknowledge_def by (auto split: if_splits option.splits prod.splits sum.splits)
  define new where "new = \<lparr>ak_ID = ke_newId env, ak_UserID = user, ak_Fingerprint = fp, ak_AcknowledgedAt = ae_now env\<rparr>"
  define upd where "upd = (\<lambda>r :: ack_row. r\<lparr>ak_UserID := user, ak_AcknowledgedAt := ae_now env\<rparr>)"
  have rows: "kt_acks t' = upsertBy ak_Fingerprint new upd (kt_acks t)"
    using c unfolding t' ack_Create_def new_def upd_def by (auto simp: Let_def split: option.splits if_splits)
  have k: "ak_Fingerprint (upd x) = ak_Fingerprint x" for x by (simp add: upd_def)
  have d: "distinct (map ak_Fingerprint (kt_acks t'))"
    unfolding rows using assms(2) by (intro distinct_upsert) (simp_all add: k)
  have f: "\<exists>x. findBy ak_Fingerprint fp (kt_acks t') = Some x \<and> ak_UserID x = user \<and> ak_AcknowledgedAt x = ae_now env"
    unfolding rows findBy_upsert [of ak_Fingerprint upd, OF k]
    by (simp add: new_def upd_def split: option.split)
  have o: "filter (\<lambda>r. ak_Fingerprint r \<noteq> fp) (upsertBy ak_Fingerprint new upd rs) = filter (\<lambda>r. ak_Fingerprint r \<noteq> fp) rs" for rs
    by (induction rs) (simp_all add: new_def k)
  from f obtain x where x: "findBy ak_Fingerprint fp (kt_acks t') = Some x" "ak_UserID x = user" "ak_AcknowledgedAt x = ae_now env" by blast
  have m: "ackMap None (kt_acks t') fp = Some (ae_now env)" using ackMap_find [OF d, of fp] x by simp
  have "case ListActive (Replied 200 (Inr [a])) None [] [] t' of
      Data code xs \<Rightarrow> map al_AcknowledgedAt xs = [Some (ae_now env)] | _ \<Rightarrow> False"
    if "aa_Fingerprint a = fp" "aa_State a = ''active''"
    using that m by (simp add: ListActive_def fetchAlerts_def Success_def asked_def alertOf_def Let_def)
  with d u x o [of "kt_acks t"] show ?thesis by (simp add: rows)
qed

lemma acknowledgment_sticks_witness:
  "map ak_UserID (filter (\<lambda>r. ak_Fingerprint r = ''f1'') (kt_acks (fst (Acknowledge (\<lambda>x. []) exAckEnv ''f1'' exAckTables)))) = [''u2''] \<and>
   distinct (map ak_Fingerprint (kt_acks (fst (Acknowledge (\<lambda>x. []) exAckEnv ''f1'' exAckTables))))"
proof
  define r where "r = Acknowledge (\<lambda>x. []) exAckEnv ''f1'' exAckTables"
  have e: "Acknowledge (\<lambda>x. []) exAckEnv ''f1'' exAckTables = (fst r, snd r)" by (simp add: r_def)
  have "distinct (map ak_Fingerprint (kt_acks exAckTables))" by (simp add: exAckTables_def)
  moreover have "accepted_reply (snd r)" unfolding r_def by code_simp
  ultimately show "distinct (map ak_Fingerprint (kt_acks (fst (Acknowledge (\<lambda>x. []) exAckEnv ''f1'' exAckTables))))"
    using acknowledgment_sticks [OF e] by (simp add: r_def)
qed code_simp

end
