(* ===== verification/Lifecycle.thy ===== *)
theory Lifecycle
  imports IpmiPoll "HOL-Library.Multiset"
begin

text \<open>
  The goroutines of a collector: \<open>Start\<close>, \<open>Stop\<close>, \<open>deviceReloadLoop\<close>, \<open>pollingLoop\<close> and
  \<open>pollAllDevices\<close> of \<open>ipmi.go\<close>, \<open>redfish.go\<close>, \<open>snmp.go\<close> and \<open>ssh.go\<close> (the four are the same code but for
  the log lines and SNMP's trap listener). The two loops, the goroutine of each poll and the call of
  \<open>Stop\<close> interleave; a step of the relation is one of their visible actions. The polls themselves are
  the \<open>PollDeviceWithRetry\<close> of the collectors' own theories. A sequence of actions is any schedule.
\<close>

section \<open>State\<close>

text \<open>The polling loop is before \<open>pollAllDevices\<close>; in it, with the devices whose goroutine is not yet
  started, those whose goroutine waits for a slot of the semaphore, and those being polled; in its
  \<open>select\<close>; or has returned. The reload loop is in its \<open>select\<close>, in \<open>loadDevices\<close>, or has returned.\<close>

datatype 'd poller = CycleDue | Cycle "'d list" "'d list" "'d list" | PollerIdle | PollerDone

datatype reloader = ReloaderIdle | Reloading | ReloaderDone

text \<open>The channel of a \<open>time.Ticker\<close> holds one tick; \<open>cr_pollTick\<close> and \<open>cr_reloadTick\<close> tell whether there is
  one. \<open>cr_wg\<close> is the counter of the wait group, \<open>cr_cancelled\<close> the state of the context, and \<open>cr_stopped\<close>
  that \<open>Stop\<close> has returned.\<close>

record 'd collector_run =
  cr_devices :: "'d list"
  cr_poller :: "'d poller"
  cr_reloader :: reloader
  cr_pollTick :: bool
  cr_reloadTick :: bool
  cr_wg :: nat
  cr_cancelled :: bool
  cr_stopped :: bool

text \<open>\<open>Start\<close> loads the devices and starts both loops, or returns the error and starts none.\<close>

definition Start :: "'d list result \<Rightarrow> 'd collector_run result" where
  "Start loaded = (case loaded of
     Inl e \<Rightarrow> Inl (''failed to load devices: '' @ e)
   | Inr ds \<Rightarrow> Inr \<lparr>cr_devices = ds, cr_poller = CycleDue, cr_reloader = ReloaderIdle, cr_pollTick = False,
       cr_reloadTick = False, cr_wg = 2, cr_cancelled = False, cr_stopped = False\<rparr>)"

section \<open>Steps\<close>

datatype 'd action = PollTick | ReloadTick | Snapshot "'d list" | Spawn 'd | Acquire 'd | Finish 'd | EndCycle
  | TakePollTick | TakeReloadTick | Reload "'d list option" | PollerQuits | ReloaderQuits | StopCalled | StopReturns

text \<open>\<open>slots\<close> is \<open>maxConcurrent\<close>, the capacity of the semaphore's channel: a send to it proceeds while there
  are fewer elements (with no capacity it never does, since nobody receives before a poll ends). A
  failed reload keeps the devices. A \<open>select\<close> that finds both the context cancelled and a tick may take
  either.\<close>

inductive lc_step :: "nat \<Rightarrow> 'd collector_run \<Rightarrow> 'd action \<Rightarrow> 'd collector_run \<Rightarrow> bool" for slots where
  poll_tick: "cr_poller s \<noteq> PollerDone \<Longrightarrow> lc_step slots s PollTick (s\<lparr>cr_pollTick := True\<rparr>)"
| reload_tick: "cr_reloader s \<noteq> ReloaderDone \<Longrightarrow> lc_step slots s ReloadTick (s\<lparr>cr_reloadTick := True\<rparr>)"
| snapshot: "cr_poller s = CycleDue \<Longrightarrow> lc_step slots s (Snapshot (cr_devices s))
    (s\<lparr>cr_poller := if cr_devices s = [] then PollerIdle else Cycle (cr_devices s) [] []\<rparr>)"
| spawn: "cr_poller s = Cycle (d # ds) w p \<Longrightarrow> lc_step slots s (Spawn d) (s\<lparr>cr_poller := Cycle ds (w @ [d]) p\<rparr>)"
| acquire: "cr_poller s = Cycle ds w p \<Longrightarrow> d \<in> set w \<Longrightarrow> length p < slots \<Longrightarrow>
    lc_step slots s (Acquire d) (s\<lparr>cr_poller := Cycle ds (remove1 d w) (p @ [d])\<rparr>)"
| finish: "cr_poller s = Cycle ds w p \<Longrightarrow> d \<in> set p \<Longrightarrow>
    lc_step slots s (Finish d) (s\<lparr>cr_poller := Cycle ds w (remove1 d p)\<rparr>)"
| end_cycle: "cr_poller s = Cycle [] [] [] \<Longrightarrow> lc_step slots s EndCycle (s\<lparr>cr_poller := PollerIdle\<rparr>)"
| take_poll_tick: "cr_poller s = PollerIdle \<Longrightarrow> cr_pollTick s \<Longrightarrow>
    lc_step slots s TakePollTick (s\<lparr>cr_poller := CycleDue, cr_pollTick := False\<rparr>)"
| take_reload_tick: "cr_reloader s = ReloaderIdle \<Longrightarrow> cr_reloadTick s \<Longrightarrow>
    lc_step slots s TakeReloadTick (s\<lparr>cr_reloader := Reloading, cr_reloadTick := False\<rparr>)"
| reload: "cr_reloader s = Reloading \<Longrightarrow> lc_step slots s (Reload loaded)
    (s\<lparr>cr_reloader := ReloaderIdle, cr_devices := (case loaded of None \<Rightarrow> cr_devices s | Some ds \<Rightarrow> ds)\<rparr>)"
| poller_quits: "cr_poller s = PollerIdle \<Longrightarrow> cr_cancelled s \<Longrightarrow>
    lc_step slots s PollerQuits (s\<lparr>cr_poller := PollerDone, cr_wg := cr_wg s - 1\<rparr>)"
| reloader_quits: "cr_reloader s = ReloaderIdle \<Longrightarrow> cr_cancelled s \<Longrightarrow>
    lc_step slots s ReloaderQuits (s\<lparr>cr_reloader := ReloaderDone, cr_wg := cr_wg s - 1\<rparr>)"
| stop_called: "\<not> cr_cancelled s \<Longrightarrow> lc_step slots s StopCalled (s\<lparr>cr_cancelled := True\<rparr>)"
| stop_returns: "cr_cancelled s \<Longrightarrow> cr_wg s = 0 \<Longrightarrow> \<not> cr_stopped s \<Longrightarrow>
    lc_step slots s StopReturns (s\<lparr>cr_stopped := True\<rparr>)"

inductive lc_run :: "nat \<Rightarrow> 'd collector_run \<Rightarrow> 'd action list \<Rightarrow> 'd collector_run \<Rightarrow> bool" for slots where
  lc_nil: "lc_run slots s [] s"
| lc_cons: "lc_step slots s a s1 \<Longrightarrow> lc_run slots s1 as s2 \<Longrightarrow> lc_run slots s (a # as) s2"

inductive_cases stopE: "lc_step slots s StopReturns s'"
inductive_simps lc_run_simps [simp]: "lc_run slots s [] s'" "lc_run slots s (a # as) s'"

text \<open>The step relation as a function of the action, which runs a given schedule.\<close>

fun lcDo :: "nat \<Rightarrow> 'd action \<Rightarrow> 'd collector_run \<Rightarrow> 'd collector_run option" where
  "lcDo slots PollTick s = (if cr_poller s = PollerDone then None else Some (s\<lparr>cr_pollTick := True\<rparr>))"
| "lcDo slots ReloadTick s = (if cr_reloader s = ReloaderDone then None else Some (s\<lparr>cr_reloadTick := True\<rparr>))"
| "lcDo slots (Snapshot ds) s = (if cr_poller s = CycleDue \<and> ds = cr_devices s
     then Some (s\<lparr>cr_poller := if ds = [] then PollerIdle else Cycle ds [] []\<rparr>) else None)"
| "lcDo slots (Spawn d) s = (case cr_poller s of
     Cycle (d1 # ds) w p \<Rightarrow> if d1 = d then Some (s\<lparr>cr_poller := Cycle ds (w @ [d]) p\<rparr>) else None | _ \<Rightarrow> None)"
| "lcDo slots (Acquire d) s = (case cr_poller s of
     Cycle ds w p \<Rightarrow> if d \<in> set w \<and> length p < slots then Some (s\<lparr>cr_poller := Cycle ds (remove1 d w) (p @ [d])\<rparr>) else None
   | _ \<Rightarrow> None)"
| "lcDo slots (Finish d) s = (case cr_poller s of
     Cycle ds w p \<Rightarrow> if d \<in> set p then Some (s\<lparr>cr_poller := Cycle ds w (remove1 d p)\<rparr>) else None | _ \<Rightarrow> None)"
| "lcDo slots EndCycle s = (if cr_poller s = Cycle [] [] [] then Some (s\<lparr>cr_poller := PollerIdle\<rparr>) else None)"
| "lcDo slots TakePollTick s = (if cr_poller s = PollerIdle \<and> cr_pollTick s
     then Some (s\<lparr>cr_poller := CycleDue, cr_pollTick := False\<rparr>) else None)"
| "lcDo slots TakeReloadTick s = (if cr_reloader s = ReloaderIdle \<and> cr_reloadTick s
     then Some (s\<lparr>cr_reloader := Reloading, cr_reloadTick := False\<rparr>) else None)"
| "lcDo slots (Reload loaded) s = (if cr_reloader s = Reloading
     then Some (s\<lparr>cr_reloader := ReloaderIdle, cr_devices := (case loaded of None \<Rightarrow> cr_devices s | Some ds \<Rightarrow> ds)\<rparr>) else None)"
| "lcDo slots PollerQuits s = (if cr_poller s = PollerIdle \<and> cr_cancelled s
     then Some (s\<lparr>cr_poller := PollerDone, cr_wg := cr_wg s - 1\<rparr>) else None)"
| "lcDo slots ReloaderQuits s = (if cr_reloader s = ReloaderIdle \<and> cr_cancelled s
     then Some (s\<lparr>cr_reloader := ReloaderDone, cr_wg := cr_wg s - 1\<rparr>) else None)"
| "lcDo slots StopCalled s = (if cr_cancelled s then None else Some (s\<lparr>cr_cancelled := True\<rparr>))"
| "lcDo slots StopReturns s = (if cr_cancelled s \<and> cr_wg s = 0 \<and> \<not> cr_stopped s then Some (s\<lparr>cr_stopped := True\<rparr>) else None)"

fun lcDoAll :: "nat \<Rightarrow> 'd action list \<Rightarrow> 'd collector_run \<Rightarrow> 'd collector_run option" where
  "lcDoAll slots [] s = Some s"
| "lcDoAll slots (a # as) s = (case lcDo slots a s of None \<Rightarrow> None | Some s1 \<Rightarrow> lcDoAll slots as s1)"

lemma lc_step_iff: "lc_step slots s a s1 = (lcDo slots a s = Some s1)"
proof
  show "lc_step slots s a s1 \<Longrightarrow> lcDo slots a s = Some s1"
    by (erule lc_step.cases) auto
  show "lcDo slots a s = Some s1 \<Longrightarrow> lc_step slots s a s1"
    using snapshot [of s slots] poller_quits [of s slots] reloader_quits [of s slots]
    by (cases a) (auto intro: lc_step.intros split: if_splits poller.splits list.splits)
qed

lemma lc_run_iff: "lc_run slots s as s' = (lcDoAll slots as s = Some s')"
  by (induction as arbitrary: s) (auto simp: lc_step_iff split: option.splits)

section \<open>What a schedule polls\<close>

definition acquired :: "'d action list \<Rightarrow> 'd list" where
  "acquired as = concat (map (\<lambda>a. case a of Acquire d \<Rightarrow> [d] | _ \<Rightarrow> []) as)"

definition finished :: "'d action list \<Rightarrow> 'd list" where
  "finished as = concat (map (\<lambda>a. case a of Finish d \<Rightarrow> [d] | _ \<Rightarrow> []) as)"

definition snapshots :: "'d action list \<Rightarrow> 'd list" where
  "snapshots as = concat (map (\<lambda>a. case a of Snapshot ds \<Rightarrow> ds | _ \<Rightarrow> []) as)"

text \<open>The devices of the current cycle that are still to be polled, and those being polled.\<close>

definition waitingPolls :: "'d collector_run \<Rightarrow> 'd list" where
  "waitingPolls s = (case cr_poller s of Cycle ds w p \<Rightarrow> ds @ w | _ \<Rightarrow> [])"

definition activePolls :: "'d collector_run \<Rightarrow> 'd list" where
  "activePolls s = (case cr_poller s of Cycle ds w p \<Rightarrow> p | _ \<Rightarrow> [])"

lemma trace_simps [simp]:
  "acquired [] = []" "finished [] = []" "snapshots [] = []"
  "acquired (a # as) = (case a of Acquire d \<Rightarrow> [d] | _ \<Rightarrow> []) @ acquired as"
  "finished (a # as) = (case a of Finish d \<Rightarrow> [d] | _ \<Rightarrow> []) @ finished as"
  "snapshots (a # as) = (case a of Snapshot ds \<Rightarrow> ds | _ \<Rightarrow> []) @ snapshots as"
  by (simp_all add: acquired_def finished_def snapshots_def)

lemma step_conserves:
  assumes "lc_step slots s a s1"
  shows "mset (acquired [a]) + mset (waitingPolls s1) = mset (waitingPolls s) + mset (snapshots [a])"
    and "mset (finished [a]) + mset (activePolls s1) = mset (activePolls s) + mset (acquired [a])"
  using assms by (cases rule: lc_step.cases; simp add: waitingPolls_def activePolls_def)+

lemma run_conserves:
  assumes "lc_run slots s as s'"
  shows "mset (acquired as) + mset (waitingPolls s') = mset (waitingPolls s) + mset (snapshots as) \<and>
    mset (finished as) + mset (activePolls s') = mset (activePolls s) + mset (acquired as)"
  using assms
proof induction
  case (lc_cons s a s1 as s2)
  note c = step_conserves [OF lc_cons.hyps(1)]
  have split: "mset (acquired (a # as)) = mset (acquired [a]) + mset (acquired as)"
    "mset (finished (a # as)) = mset (finished [a]) + mset (finished as)"
    "mset (snapshots (a # as)) = mset (snapshots [a]) + mset (snapshots as)" by simp_all
  have "mset (acquired (a # as)) + mset (waitingPolls s2) = mset (acquired [a]) + mset (waitingPolls s1) + mset (snapshots as)"
    using lc_cons.IH by (simp only: split add.assoc)
  moreover have "mset (finished (a # as)) + mset (activePolls s2) = mset (finished [a]) + mset (activePolls s1) + mset (acquired as)"
    using lc_cons.IH by (simp only: split add.assoc)
  ultimately show ?case using c by (simp only: split add.assoc)
qed simp

text \<open>C3: No device is lost and none is polled twice, whatever the schedule. At any moment of any run the
  devices whose poll has begun, together with those of the current cycle that still wait, are those of
  all the copies of the device list that the cycles took, each as often as it occurs there; and the
  polls that have ended, together with those under way, are the polls that began. A reload during a
  cycle changes neither.\<close>

theorem every_snapshot_is_polled:
  assumes "lc_run slots s as s'"
  shows "mset (acquired as) + mset (waitingPolls s') = mset (waitingPolls s) + mset (snapshots as) \<and>
    mset (finished as) + mset (activePolls s') = mset (activePolls s) + mset (acquired as)"
  using run_conserves [OF assms] .

section \<open>Safety\<close>

text \<open>The invariant of a started collector: the wait group counts the loops that run, a loop only returns
  once the collector is stopped, and no more polls are under way than the semaphore has slots.\<close>

definition lc_ok :: "nat \<Rightarrow> 'd collector_run \<Rightarrow> bool" where
  "lc_ok slots s =
     (cr_wg s = (if cr_poller s = PollerDone then 0 else 1) + (if cr_reloader s = ReloaderDone then 0 else 1) \<and>
      (if cr_poller s = PollerDone \<or> cr_reloader s = ReloaderDone then cr_cancelled s else True) \<and>
      (if cr_stopped s then cr_cancelled s \<and> cr_wg s = 0 else True) \<and> length (activePolls s) \<le> slots)"

lemma started_ok: "Start loaded = Inr s \<Longrightarrow> lc_ok slots s"
  unfolding Start_def lc_ok_def activePolls_def by (auto split: sum.splits)

lemma step_keeps_ok [inv_intros]: "lc_step slots s a s1 \<Longrightarrow> lc_ok slots s \<Longrightarrow> lc_ok slots s1"
  by (erule lc_step.cases) (fastforce simp: lc_ok_def activePolls_def length_remove1 split: if_splits)+

lemma run_keeps_ok: "lc_run slots s as s' \<Longrightarrow> lc_ok slots s \<Longrightarrow> lc_ok slots s'"
  by (induction rule: lc_run.induct) (auto intro: inv_intros)

lemma stopped_is_final: "lc_ok slots s \<Longrightarrow> cr_stopped s \<Longrightarrow> \<not> lc_step slots s a s1"
  by (auto simp: lc_ok_def elim!: lc_step.cases split: if_splits)

text \<open>C16: At no moment of any run are more devices being polled than \<open>max_concurrent\<close>. When \<open>Stop\<close> has returned,
  both loops have returned, no poll is under way or waits, and nothing happens any more.\<close>

theorem stop_leaves_nothing_running:
  assumes "Start loaded = Inr s" "lc_run slots s as s'"
  shows "length (activePolls s') \<le> slots \<and>
    (if cr_stopped s' then cr_poller s' = PollerDone \<and> cr_reloader s' = ReloaderDone \<and> waitingPolls s' = [] \<and>
       activePolls s' = [] \<and> (\<nexists>a s''. lc_step slots s' a s'') else True)"
proof -
  have ok: "lc_ok slots s'" using assms started_ok run_keeps_ok by blast
  moreover have "cr_poller s' = PollerDone \<and> cr_reloader s' = ReloaderDone" if "cr_stopped s'"
    using ok that by (auto simp: lc_ok_def split: if_splits)
  ultimately show ?thesis using stopped_is_final [OF ok]
    by (auto simp: lc_ok_def waitingPolls_def activePolls_def)
qed

section \<open>Stop returns\<close>

definition isTick :: "'d action \<Rightarrow> bool" where
  "isTick a = (case a of PollTick \<Rightarrow> True | ReloadTick \<Rightarrow> True | _ \<Rightarrow> False)"

text \<open>Every list of devices that the collector has, is in the middle of, or gets from a reload has at most
  \<open>n\<close> elements.\<close>

definition smallLists :: "nat \<Rightarrow> 'd collector_run \<Rightarrow> bool" where
  "smallLists n s = (length (cr_devices s) \<le> n \<and> length (waitingPolls s @ activePolls s) \<le> n)"

definition smallReload :: "nat \<Rightarrow> 'd action \<Rightarrow> bool" where
  "smallReload n a = (case a of Reload (Some ds) \<Rightarrow> length ds \<le> n | _ \<Rightarrow> True)"

text \<open>The steps that are left before the next tick, at most.\<close>

definition pollerWork :: "nat \<Rightarrow> 'd collector_run \<Rightarrow> nat" where
  "pollerWork n s = (case cr_poller s of PollerDone \<Rightarrow> 0 | PollerIdle \<Rightarrow> 1 | CycleDue \<Rightarrow> 3 + 3 * n
     | Cycle ds w p \<Rightarrow> 2 + 3 * length ds + 2 * length w + length p) +
     (if cr_pollTick s \<and> cr_poller s \<noteq> PollerDone then 3 + 3 * n else 0)"

definition reloaderWork :: "'d collector_run \<Rightarrow> nat" where
  "reloaderWork s = (case cr_reloader s of ReloaderDone \<Rightarrow> 0 | ReloaderIdle \<Rightarrow> 1 | Reloading \<Rightarrow> 2) +
     (if cr_reloadTick s \<and> cr_reloader s \<noteq> ReloaderDone then 2 else 0)"

definition workLeft :: "nat \<Rightarrow> 'd collector_run \<Rightarrow> nat" where
  "workLeft n s = pollerWork n s + reloaderWork s + (if cr_cancelled s then 0 else 1) + (if cr_stopped s then 0 else 1)"

lemmas work_defs = workLeft_def pollerWork_def reloaderWork_def smallLists_def waitingPolls_def activePolls_def

lemma remove1_less: "d \<in> set w \<Longrightarrow> Suc (length (remove1 d w)) = length w"
  using length_pos_if_in_set [of d w] by (simp add: length_remove1)

lemma step_works:
  assumes "lc_step slots s a s1" "\<not> isTick a" "smallLists n s" "smallReload n a"
  shows "workLeft n s1 < workLeft n s \<and> smallLists n s1"
  using assms
proof (cases rule: lc_step.cases)
  case (acquire ds w p d)
  then show ?thesis using assms remove1_less [of d w] by (simp add: work_defs)
next
  case (finish ds w p d)
  then show ?thesis using assms remove1_less [of d p] by (simp add: work_defs)
qed (use assms in \<open>auto simp: work_defs isTick_def smallReload_def split: option.splits\<close>)

lemma run_bounded:
  assumes "lc_run slots s as s'" "list_all (\<lambda>a. \<not> isTick a \<and> smallReload n a) as" "smallLists n s"
  shows "length as + workLeft n s' \<le> workLeft n s"
  using assms
proof induction
  case (lc_cons s a s1 as s2)
  have "workLeft n s1 < workLeft n s \<and> smallLists n s1"
    using lc_cons.prems by (intro step_works [OF lc_cons.hyps(1)]) simp_all
  with lc_cons show ?case by simp
qed simp

lemma workLeft_bound: "smallLists n s \<Longrightarrow> workLeft n s \<le> 6 * n + 12"
  by (auto simp: work_defs split: poller.splits reloader.splits)

text \<open>A cancelled collector that has not stopped can always go on by itself.\<close>

definition canGoOn :: "nat \<Rightarrow> 'd collector_run \<Rightarrow> bool" where
  "canGoOn slots s = (\<exists>a s'. \<not> isTick a \<and> lc_step slots s a s')"

lemma goes_on: "lc_step slots s a s' \<Longrightarrow> \<not> isTick a \<Longrightarrow> canGoOn slots s"
  unfolding canGoOn_def by blast

lemma poller_goes_on:
  assumes "cr_poller s \<noteq> PollerDone" "0 < slots" "cr_cancelled s"
  shows "canGoOn slots s"
proof -
  from assms(1) consider "cr_poller s = CycleDue" | "cr_poller s = PollerIdle"
    | d ds w p where "cr_poller s = Cycle (d # ds) w p" | w d p where "cr_poller s = Cycle [] w (d # p)"
    | d w where "cr_poller s = Cycle [] (d # w) []" | "cr_poller s = Cycle [] [] []"
    by (metis poller.exhaust list.exhaust)
  then show ?thesis
  proof cases
    case 1 from goes_on [OF snapshot [OF this]] show ?thesis by (simp add: isTick_def)
  next
    case 2 from goes_on [OF poller_quits [OF this assms(3)]] show ?thesis by (simp add: isTick_def)
  next
    case 3 from goes_on [OF spawn [OF this]] show ?thesis by (simp add: isTick_def)
  next
    case (4 w d p) with goes_on [OF finish [OF this, of d]] show ?thesis by (simp add: isTick_def)
  next
    case (5 d w) with goes_on [OF acquire [OF this, of d]] assms(2) show ?thesis by (simp add: isTick_def)
  next
    case 6 from goes_on [OF end_cycle [OF this]] show ?thesis by (simp add: isTick_def)
  qed
qed

lemma cancelled_progress:
  assumes "lc_ok slots s" "0 < slots" "cr_cancelled s" "\<not> cr_stopped s"
  shows "canGoOn slots s"
proof (cases "cr_poller s = PollerDone")
  case quit: True
  show ?thesis
  proof (cases "cr_reloader s")
    case ReloaderIdle
    from goes_on [OF reloader_quits [OF this assms(3)]] show ?thesis by (simp add: isTick_def)
  next
    case Reloading
    from goes_on [OF reload [OF this]] show ?thesis by (simp add: isTick_def)
  next
    case ReloaderDone
    with quit assms(1) have "cr_wg s = 0" by (simp add: lc_ok_def)
    from goes_on [OF stop_returns [OF assms(3) this assms(4)]] show ?thesis by (simp add: isTick_def)
  qed
qed (use poller_goes_on assms in blast)

lemma cancel_sticks: "lc_run slots s as s' \<Longrightarrow> cr_cancelled s \<Longrightarrow> cr_cancelled s'"
  by (induction rule: lc_run.induct) (auto elim!: lc_step.cases)

text \<open>\<open>Stop\<close> returns. Once the context is cancelled, and while no further tick arrives, the goroutines of a
  collector with at least one slot take at most 6n + 12 more steps (n bounds the number of devices in
  any of its lists), and when no step is left, \<open>Stop\<close> has returned. (A tick that is already there may
  still win in the \<open>select\<close>: then \<open>Stop\<close> waits for one more cycle over all devices.)\<close>

theorem stop_terminates:
  assumes "Start loaded = Inr s0" "lc_run slots s0 before s" "cr_cancelled s" "0 < slots"
    and "smallLists n s" "lc_run slots s as s'" "list_all (\<lambda>a. \<not> isTick a \<and> smallReload n a) as"
  shows "length as \<le> 6 * n + 12 \<and> (if canGoOn slots s' then True else cr_stopped s')"
proof -
  have "lc_ok slots s" using assms(1,2) started_ok run_keeps_ok by blast
  then have "lc_ok slots s'" "cr_cancelled s'" using assms(3,6) run_keeps_ok cancel_sticks by blast+
  then have "canGoOn slots s'" if "\<not> cr_stopped s'" using cancelled_progress assms(4) that by blast
  moreover have "length as \<le> 6 * n + 12"
    using run_bounded [OF assms(6,7,5)] workLeft_bound [OF assms(5)] by linarith
  ultimately show ?thesis by auto
qed

definition exRun :: "string collector_run" where
  "exRun = \<lparr>cr_devices = [''a'', ''b''], cr_poller = CycleDue, cr_reloader = ReloaderIdle, cr_pollTick = False,
     cr_reloadTick = False, cr_wg = 2, cr_cancelled = False, cr_stopped = False\<rparr>"

text \<open>A schedule with one slot that is stopped in the middle of its first cycle.\<close>

definition exBefore :: "string action list" where
  "exBefore = [Snapshot [''a'', ''b''], Spawn ''a'', Acquire ''a'', Spawn ''b'', StopCalled]"

definition exAfter :: "string action list" where
  "exAfter = [Finish ''a'', Acquire ''b'', Finish ''b'', EndCycle, PollerQuits, ReloaderQuits, StopReturns]"

definition exStopping :: "string collector_run" where
  "exStopping = exRun\<lparr>cr_poller := Cycle [] [''b''] [''a''], cr_cancelled := True\<rparr>"

definition exStopped :: "string collector_run" where
  "exStopped = exRun\<lparr>cr_poller := PollerDone, cr_reloader := ReloaderDone, cr_wg := 0, cr_cancelled := True, cr_stopped := True\<rparr>"

lemma exStart: "Start (Inr [''a'', ''b'']) = Inr exRun"
  by (simp add: Start_def exRun_def)

lemma exBefore_run: "lc_run 1 exRun exBefore exStopping"
  unfolding lc_run_iff by code_simp

lemma exAfter_run: "lc_run 1 exStopping exAfter exStopped"
  unfolding lc_run_iff by code_simp

lemma every_snapshot_is_polled_witness:
  "mset (acquired exBefore) + mset (waitingPolls exStopping) = mset (waitingPolls exRun) + mset (snapshots exBefore) \<and>
   mset (finished exBefore) + mset (activePolls exStopping) = mset (activePolls exRun) + mset (acquired exBefore) \<and>
   waitingPolls exStopping = [''b''] \<and> activePolls exStopping = [''a'']"
  using every_snapshot_is_polled [OF exBefore_run]
  by (simp add: exStopping_def exRun_def waitingPolls_def activePolls_def)

lemma stop_leaves_nothing_running_witness:
  "length (activePolls exStopping) \<le> 1 \<and> activePolls exStopping = [''a'']"
  using stop_leaves_nothing_running [OF exStart exBefore_run]
  by (simp add: exStopping_def exRun_def activePolls_def)

lemma stop_terminates_witness: "length exAfter \<le> 6 * 2 + 12 \<and> (if canGoOn 1 exStopped then True else cr_stopped exStopped)"
proof (rule stop_terminates [OF exStart exBefore_run _ _ _ exAfter_run])
  show "cr_cancelled exStopping" "0 < (1 :: nat)" by (simp_all add: exStopping_def)
  show "smallLists 2 exStopping" by (simp add: exStopping_def exRun_def smallLists_def waitingPolls_def activePolls_def)
  show "list_all (\<lambda>a. \<not> isTick a \<and> smallReload 2 a) exAfter" by (simp add: exAfter_def isTick_def smallReload_def)
qed

section \<open>A collector without slots\<close>

lemma step_blocked:
  assumes "lc_step 0 s a s1" "lc_ok 0 s" "waitingPolls s \<noteq> []"
  shows "waitingPolls s1 \<noteq> [] \<and> acquired [a] = [] \<and> \<not> cr_stopped s1"
  using assms by (cases rule: lc_step.cases) (auto simp: lc_ok_def waitingPolls_def activePolls_def split: if_splits)

text \<open>Why the configuration refuses \<open>max_concurrent\<close> below one: without a slot a cycle with a device never
  begins a poll and never ends, and \<open>Stop\<close> never returns.\<close>

theorem no_slots_block:
  assumes "lc_run 0 s as s'" "lc_ok 0 s" "waitingPolls s \<noteq> []"
  shows "acquired as = [] \<and> waitingPolls s' \<noteq> [] \<and> \<not> cr_stopped s'"
  using assms
proof induction
  case (lc_nil s)
  then show ?case by (auto simp: lc_ok_def waitingPolls_def split: if_splits)
next
  case (lc_cons s a s1 as s2)
  from step_blocked [OF lc_cons.hyps(1) lc_cons.prems] step_keeps_ok [OF lc_cons.hyps(1) lc_cons.prems(1)] lc_cons.IH
  show ?case by (cases a) simp_all
qed

definition exBlocked :: "string collector_run" where
  "exBlocked = exRun\<lparr>cr_poller := Cycle [] [''a'', ''b''] []\<rparr>"

lemma no_slots_block_witness:
  "acquired [StopCalled, ReloaderQuits] = ([] :: string list) \<and>
   \<not> cr_stopped (exBlocked\<lparr>cr_cancelled := True, cr_reloader := ReloaderDone, cr_wg := 1\<rparr>)"
proof -
  have "lc_run 0 exBlocked [StopCalled, ReloaderQuits] (exBlocked\<lparr>cr_cancelled := True, cr_reloader := ReloaderDone, cr_wg := 1\<rparr>)"
    unfolding lc_run_iff by code_simp
  moreover have "lc_ok 0 exBlocked" "waitingPolls exBlocked \<noteq> []"
    by (simp_all add: exBlocked_def exRun_def lc_ok_def waitingPolls_def activePolls_def)
  ultimately show ?thesis using no_slots_block by blast
qed

section \<open>The order of the polls of a cycle\<close>

text \<open>What a poll does to the failure count of its own device, from the state before the cycle.\<close>

definition ownCount :: "retry_env \<Rightarrow> poll_env \<Rightarrow> device \<Rightarrow> ipmi_collector \<Rightarrow> nat" where
  "ownCount re env d c = (if ShouldRetry (ic_retry c) (ID d) (re_t0 re)
     then if snd (PollDevice env d c) then 0 else GetFailureCount (ic_retry c) (ID d) + 1
     else GetFailureCount (ic_retry c) (ID d))"

definition jobsOf :: "(device \<Rightarrow> retry_env \<times> poll_env) \<Rightarrow> device list \<Rightarrow> (retry_env \<times> poll_env \<times> device) list" where
  "jobsOf world ds = map (\<lambda>d. (fst (world d), snd (world d), d)) ds"

lemma other_poll_keeps:
  assumes "k \<noteq> ID d'"
  shows "GetFailureCount (ic_retry (PollDeviceWithRetry re env d' c)) k = GetFailureCount (ic_retry c) k"
    and "ShouldRetry (ic_retry (PollDeviceWithRetry re env d' c)) k now = ShouldRetry (ic_retry c) k now"
  unfolding PollDeviceWithRetry_retry using assms [symmetric]
  by (simp_all add: ipmi_retry.count_step ipmi_retry.should_iff ipmi_retry.due_step_other attemptOf_def)

lemma success_is_own: "snd (PollDevice env d c) = snd (PollDevice env d c')"
  using PollDevice_ok_iff [of env d c] PollDevice_ok_iff [of env d c'] by simp

lemma others_keep:
  "k \<notin> set (map ID ds) \<Longrightarrow> GetFailureCount (ic_retry (pollAllDevices (jobsOf world ds) c)) k = GetFailureCount (ic_retry c) k"
  by (induction ds arbitrary: c) (simp_all add: jobsOf_def other_poll_keeps)

lemma own_poll_counts:
  "distinct (map ID ds) \<Longrightarrow> d \<in> set ds \<Longrightarrow>
   GetFailureCount (ic_retry (pollAllDevices (jobsOf world ds) c)) (ID d) = ownCount (fst (world d)) (snd (world d)) d c"
proof (induction ds arbitrary: c)
  case (Cons d' ds)
  let ?c1 = "PollDeviceWithRetry (fst (world d')) (snd (world d')) d' c"
  have step: "pollAllDevices (jobsOf world (d' # ds)) c = pollAllDevices (jobsOf world ds) ?c1" by (simp add: jobsOf_def)
  show ?case
  proof (cases "d = d'")
    case True
    then have "GetFailureCount (ic_retry (pollAllDevices (jobsOf world ds) ?c1)) (ID d) = GetFailureCount (ic_retry ?c1) (ID d)"
      using Cons.prems by (intro others_keep) auto
    moreover have "GetFailureCount (ic_retry ?c1) (ID d) = ownCount (fst (world d)) (snd (world d)) d c"
      unfolding PollDeviceWithRetry_retry ipmi_retry.count_step True ownCount_def
      by (auto simp: attemptOf_def ipmi_retry.polled_def)
    ultimately show ?thesis by (simp add: step)
  next
    case False
    then have "d \<in> set ds" using Cons.prems by simp
    moreover from this have "ID d \<in> set (map ID ds)" by simp
    moreover have "ID d' \<notin> set (map ID ds)" using Cons.prems(1) by simp
    ultimately have d: "d \<in> set ds" "ID d \<noteq> ID d'" by metis+
    with Cons.IH [of ?c1] Cons.prems(1) show ?thesis
      using success_is_own [of "snd (world d)" d ?c1 c]
      by (simp add: step ownCount_def other_poll_keeps)
  qed
qed simp


definition exDevice2 :: device where
  "exDevice2 = exDevice\<lparr>ID := ''d2''\<rparr>"

definition exCycle :: "device collector_run" where
  "exCycle = \<lparr>cr_devices = [exDevice, exDevice2], cr_poller = CycleDue, cr_reloader = ReloaderIdle, cr_pollTick = False,
     cr_reloadTick = False, cr_wg = 2, cr_cancelled = False, cr_stopped = False\<rparr>"

definition exOrder :: "device action list" where
  "exOrder = [Snapshot [exDevice, exDevice2], Spawn exDevice, Spawn exDevice2, Acquire exDevice2, Finish exDevice2,
     Acquire exDevice, Finish exDevice, EndCycle]"


end
