(* ===== verification/Credentials.thy ===== *)
theory Credentials
  imports Api Codec IpmiPoll Redfish Ssh
begin

text \<open>
  The credentials of devices: their encryption (\<open>backend/internal/services/credential_service.go\<close>), their
  table (\<open>backend/internal/db/device_credential_repository.go\<close>), the handlers
  (\<open>backend/internal/api/handlers/device_credential_handler.go\<close>), and what the collectors make of what the
  API server stored.

  \<open>seal key nonce plaintext\<close> and \<open>gcmOpen key nonce ciphertext\<close> are AES-GCM of the Go library; the
  nonce comes from the random source, which may fail. A byte slice that is nil and an empty one are
  not told apart.
\<close>

section \<open>The credential service\<close>

type_synonym sealer = "string \<Rightarrow> string \<Rightarrow> string \<Rightarrow> string"
type_synonym opener = "string \<Rightarrow> string \<Rightarrow> string \<Rightarrow> string option"

record credential_service =
  encryptionKey :: string

definition NewCredentialService :: "string \<Rightarrow> credential_service result" where
  "NewCredentialService key = (if length key \<noteq> 32
     then Inl (''encryption key must be exactly 32 bytes, got '' @ itoa (int (length key)))
     else Inr \<lparr>encryptionKey = key\<rparr>)"

definition aesKey :: "string \<Rightarrow> bool" where
  "aesKey key = (length key = 16 \<or> length key = 24 \<or> length key = 32)"

definition keySizeError :: "string \<Rightarrow> string" where
  "keySizeError key =
     ''failed to create cipher: crypto/aes: invalid key size '' @ itoa (int (length key))"

definition Encrypt :: "sealer \<Rightarrow> string result \<Rightarrow> credential_service \<Rightarrow> string \<Rightarrow> string result" where
  "Encrypt seal random s plaintext = (if plaintext = [] then Inl ''plaintext cannot be empty''
     else if \<not> aesKey (encryptionKey s) then Inl (keySizeError (encryptionKey s))
     else case random of
       Inl e \<Rightarrow> Inl (''failed to generate nonce: '' @ e)
     | Inr nonce \<Rightarrow> Inr (nonce @ seal (encryptionKey s) nonce plaintext))"

definition Decrypt :: "opener \<Rightarrow> credential_service \<Rightarrow> string \<Rightarrow> string result" where
  "Decrypt gcmOpen s ciphertext = (if ciphertext = [] then Inl ''ciphertext cannot be empty''
     else if \<not> aesKey (encryptionKey s) then Inl (keySizeError (encryptionKey s))
     else if length ciphertext < 12 then Inl ''ciphertext too short''
     else case gcmOpen (encryptionKey s) (take 12 ciphertext) (drop 12 ciphertext) of
       None \<Rightarrow> Inl ''failed to decrypt: cipher: message authentication failed''
     | Some plaintext \<Rightarrow> Inr plaintext)"

definition EncryptToBase64 :: "sealer \<Rightarrow> string result \<Rightarrow> credential_service \<Rightarrow> string \<Rightarrow> string result" where
  "EncryptToBase64 seal random s plaintext = (case Encrypt seal random s plaintext of
     Inl e \<Rightarrow> Inl e | Inr ciphertext \<Rightarrow> Inr (b64_encode ciphertext))"

definition DecryptFromBase64 :: "opener \<Rightarrow> credential_service \<Rightarrow> string \<Rightarrow> string result" where
  "DecryptFromBase64 gcmOpen s encoded = (case b64_decode encoded of
     None \<Rightarrow> Inl ''failed to decode base64: illegal base64 data''
   | Some ciphertext \<Rightarrow> Decrypt gcmOpen s ciphertext)"

section \<open>The table\<close>

text \<open>A row; the nullable columns are options. The struct of the program has the same fields, with
  the defaults in place of NULL, and a port that is never 0 when it was read from the table.\<close>

record cred_row =
  dc_id :: string
  dc_device_id :: string
  dc_protocol :: string
  dc_username :: "string option"
  dc_password :: string
  dc_community :: string
  dc_auth_protocol :: "string option"
  dc_priv_protocol :: "string option"
  dc_port :: "int option"
  dc_http_scheme :: "string option"
  dc_ssl_verify :: "bool option"
  dc_polling_interval :: "int option"
  dc_timeout_seconds :: "int option"
  dc_retry_attempts :: "int option"
  dc_created_at :: time
  dc_updated_at :: time

record device_credential =
  cd_ID :: string
  cd_DeviceID :: string
  cd_Protocol :: string
  cd_Username :: "string option"
  cd_PasswordEncrypted :: string
  cd_CommunityStringEncrypted :: string
  cd_AuthProtocol :: "string option"
  cd_PrivProtocol :: "string option"
  cd_Port :: "int option"
  cd_HTTPScheme :: string
  cd_SSLVerify :: bool
  cd_PollingInterval :: int
  cd_TimeoutSeconds :: int
  cd_RetryAttempts :: int
  cd_CreatedAt :: time
  cd_UpdatedAt :: time

definition rowOf :: "device_credential \<Rightarrow> cred_row" where
  "rowOf c = \<lparr>dc_id = cd_ID c, dc_device_id = cd_DeviceID c, dc_protocol = cd_Protocol c,
     dc_username = cd_Username c, dc_password = cd_PasswordEncrypted c,
     dc_community = cd_CommunityStringEncrypted c, dc_auth_protocol = cd_AuthProtocol c,
     dc_priv_protocol = cd_PrivProtocol c, dc_port = cd_Port c, dc_http_scheme = Some (cd_HTTPScheme c),
     dc_ssl_verify = Some (cd_SSLVerify c), dc_polling_interval = Some (cd_PollingInterval c),
     dc_timeout_seconds = Some (cd_TimeoutSeconds c), dc_retry_attempts = Some (cd_RetryAttempts c),
     dc_created_at = cd_CreatedAt c, dc_updated_at = cd_UpdatedAt c\<rparr>"

definition coalesce :: "'a option \<Rightarrow> 'a \<Rightarrow> 'a" where
  "coalesce x d = (case x of Some v \<Rightarrow> v | None \<Rightarrow> d)"

definition structOf :: "cred_row \<Rightarrow> device_credential" where
  "structOf r = \<lparr>cd_ID = dc_id r, cd_DeviceID = dc_device_id r, cd_Protocol = dc_protocol r,
     cd_Username = dc_username r, cd_PasswordEncrypted = dc_password r,
     cd_CommunityStringEncrypted = dc_community r, cd_AuthProtocol = dc_auth_protocol r,
     cd_PrivProtocol = dc_priv_protocol r,
     cd_Port = (if coalesce (dc_port r) 0 \<noteq> 0 then Some (coalesce (dc_port r) 0) else None),
     cd_HTTPScheme = coalesce (dc_http_scheme r) ''https'', cd_SSLVerify = coalesce (dc_ssl_verify r) False,
     cd_PollingInterval = coalesce (dc_polling_interval r) 60,
     cd_TimeoutSeconds = coalesce (dc_timeout_seconds r) 30,
     cd_RetryAttempts = coalesce (dc_retry_attempts r) 3,
     cd_CreatedAt = dc_created_at r, cd_UpdatedAt = dc_updated_at r\<rparr>"

definition credAt :: "string \<Rightarrow> string \<Rightarrow> cred_row \<Rightarrow> bool" where
  "credAt did protocol r = (dc_device_id r = did \<and> dc_protocol r = protocol)"

text \<open>A device and a protocol have at most one row, and an id too.\<close>

definition cred_Create ::
  "db_error \<Rightarrow> device_credential \<Rightarrow> cred_row list \<Rightarrow> cred_row list \<times> string option" where
  "cred_Create dbErr c rs = (case dbErr of
     Some e \<Rightarrow> (rs, Some (''failed to create device credential: '' @ e))
   | None \<Rightarrow> (if list_ex (\<lambda>r. dc_id r = cd_ID c \<or> credAt (cd_DeviceID c) (cd_Protocol c) r) rs
       then (rs, Some ''failed to create device credential: pq: duplicate key value violates unique constraint'')
       else (rs @ [rowOf c], None)))"

definition GetByDeviceIDAndProtocol ::
  "db_error \<Rightarrow> string \<Rightarrow> string \<Rightarrow> cred_row list \<Rightarrow> device_credential result" where
  "GetByDeviceIDAndProtocol dbErr did protocol rs = (case dbErr of
     Some e \<Rightarrow> Inl (''failed to get credential: '' @ e)
   | None \<Rightarrow> (case find (credAt did protocol) rs of
       None \<Rightarrow> Inl ''credential not found'' | Some r \<Rightarrow> Inr (structOf r)))"

definition cred_Update ::
  "db_error \<Rightarrow> time \<Rightarrow> device_credential \<Rightarrow> cred_row list \<Rightarrow> cred_row list \<times> string option" where
  "cred_Update dbErr now c rs = updateRows ''failed to update credential'' ''credential not found'' dbErr
     (credAt (cd_DeviceID c) (cd_Protocol c))
     (\<lambda>r. (rowOf (c\<lparr>cd_UpdatedAt := now\<rparr>))\<lparr>dc_id := dc_id r, dc_device_id := dc_device_id r,
        dc_protocol := dc_protocol r, dc_created_at := dc_created_at r\<rparr>) rs"

definition cred_Delete ::
  "db_error \<Rightarrow> string \<Rightarrow> string \<Rightarrow> cred_row list \<Rightarrow> cred_row list \<times> string option" where
  "cred_Delete dbErr did protocol rs = deleteRows ''failed to delete credential'' ''credential not found''
     dbErr (credAt did protocol) rs"


section \<open>The handlers\<close>

record cred_request =
  cq_Protocol :: string
  cq_Username :: "string option"
  cq_Password :: "string option"
  cq_CommunityString :: "string option"
  cq_AuthProtocol :: "string option"
  cq_PrivProtocol :: "string option"
  cq_Port :: "int option"
  cq_HTTPScheme :: "string option"
  cq_SSLVerify :: "bool option"
  cq_PollingInterval :: "int option"
  cq_TimeoutSeconds :: "int option"
  cq_RetryAttempts :: "int option"

definition validProtocols :: "string list" where
  "validProtocols = [''ipmi'', ''redfish'', ''snmp_v2c'', ''snmp_v3'']"

definition given :: "string option \<Rightarrow> bool" where
  "given x = (case x of Some s \<Rightarrow> s \<noteq> [] | None \<Rightarrow> False)"

definition orKeep :: "('a \<Rightarrow> bool) \<Rightarrow> 'a option \<Rightarrow> 'a \<Rightarrow> 'a" where
  "orKeep ok x old = (case x of Some v \<Rightarrow> if ok v then v else old | None \<Rightarrow> old)"

text \<open>The optional connection settings, the same in both handlers.\<close>

definition applySettings :: "cred_request \<Rightarrow> device_credential \<Rightarrow> device_credential" where
  "applySettings q c = c\<lparr>cd_Port := (case cq_Port q of Some p \<Rightarrow> Some p | None \<Rightarrow> cd_Port c),
     cd_HTTPScheme := orKeep (\<lambda>s. s \<noteq> []) (cq_HTTPScheme q) (cd_HTTPScheme c),
     cd_SSLVerify := orKeep (\<lambda>_. True) (cq_SSLVerify q) (cd_SSLVerify c),
     cd_PollingInterval := orKeep (\<lambda>i. i > 0) (cq_PollingInterval q) (cd_PollingInterval c),
     cd_TimeoutSeconds := orKeep (\<lambda>i. i > 0) (cq_TimeoutSeconds q) (cd_TimeoutSeconds c),
     cd_RetryAttempts := orKeep (\<lambda>i. i \<ge> 0) (cq_RetryAttempts q) (cd_RetryAttempts c)\<rparr>"

text \<open>The two secrets, each encrypted with a nonce of its own when the request gives it.\<close>

definition sealSecrets ::
  "sealer \<Rightarrow> string result \<Rightarrow> string result \<Rightarrow> credential_service \<Rightarrow> cred_request \<Rightarrow> device_credential \<Rightarrow>
   device_credential result" where
  "sealSecrets seal rnd1 rnd2 s q c =
     (case (if given (cq_Password q) then Encrypt seal rnd1 s (the (cq_Password q))
            else Inr (cd_PasswordEncrypted c)) of
        Inl e \<Rightarrow> Inl ''Failed to encrypt password''
      | Inr pw \<Rightarrow>
        (case (if given (cq_CommunityString q) then Encrypt seal rnd2 s (the (cq_CommunityString q))
               else Inr (cd_CommunityStringEncrypted c)) of
           Inl e \<Rightarrow> Inl ''Failed to encrypt community string''
         | Inr cs \<Rightarrow> Inr (c\<lparr>cd_PasswordEncrypted := pw, cd_CommunityStringEncrypted := cs\<rparr>)))"

definition v3Protocols :: "cred_request \<Rightarrow> device_credential \<Rightarrow> device_credential" where
  "v3Protocols q c = (if cq_Protocol q = ''snmp_v3''
     then c\<lparr>cd_AuthProtocol := cq_AuthProtocol q, cd_PrivProtocol := cq_PrivProtocol q\<rparr> else c)"

definition newCredential :: "string \<Rightarrow> time \<Rightarrow> time \<Rightarrow> string \<Rightarrow> cred_request \<Rightarrow> device_credential" where
  "newCredential newId t1 t2 did q = \<lparr>cd_ID = newId, cd_DeviceID = did, cd_Protocol = cq_Protocol q,
     cd_Username = cq_Username q, cd_PasswordEncrypted = [], cd_CommunityStringEncrypted = [],
     cd_AuthProtocol = None, cd_PrivProtocol = None, cd_Port = None, cd_HTTPScheme = ''https'',
     cd_SSLVerify = False, cd_PollingInterval = 60, cd_TimeoutSeconds = 30, cd_RetryAttempts = 3,
     cd_CreatedAt = t1, cd_UpdatedAt = t2\<rparr>"

text \<open>What the world contributes to one request: random bytes, the new id, the times and the errors of
  the statements.\<close>

record cred_env =
  ce_rnd1 :: "string result"
  ce_rnd2 :: "string result"
  ce_newId :: string
  ce_t1 :: time
  ce_t2 :: time
  ce_getErr :: db_error
  ce_writeErr :: db_error

definition CreateCredential ::
  "sealer \<Rightarrow> credential_service \<Rightarrow> cred_env \<Rightarrow> string option \<Rightarrow> (bind_error + cred_request) \<Rightarrow>
   cred_row list \<Rightarrow> cred_row list \<times> unit api_reply" where
  "CreateCredential seal s env param req rs = (case param of
     None \<Rightarrow> (rs, BadRequest ''Invalid device ID'' ''INVALID_ID'')
   | Some did \<Rightarrow> (case req of
       Inl e \<Rightarrow> (rs, BadRequest (FormatBindingErrors e) ''INVALID_REQUEST'')
     | Inr q \<Rightarrow>
       (if cq_Protocol q \<notin> set validProtocols
        then (rs, BadRequest ''Invalid protocol. Must be one of: ipmi, redfish, snmp_v2c, snmp_v3'' ''INVALID_PROTOCOL'')
        else case sealSecrets seal (ce_rnd1 env) (ce_rnd2 env) s q
            (applySettings q (newCredential (ce_newId env) (ce_t1 env) (ce_t2 env) did q)) of
          Inl e \<Rightarrow> (rs, InternalError e)
        | Inr c \<Rightarrow> (case cred_Create (ce_writeErr env) (v3Protocols q c) rs of
            (rs', Some e) \<Rightarrow> (rs', InternalError ''Failed to create credential'')
          | (rs', None) \<Rightarrow> (rs', Message 201 ''Credential created successfully'')))))"

definition UpdateCredential ::
  "sealer \<Rightarrow> credential_service \<Rightarrow> cred_env \<Rightarrow> string option \<Rightarrow> (bind_error + cred_request) \<Rightarrow>
   cred_row list \<Rightarrow> cred_row list \<times> unit api_reply" where
  "UpdateCredential seal s env param req rs = (case param of
     None \<Rightarrow> (rs, BadRequest ''Invalid device ID'' ''INVALID_ID'')
   | Some did \<Rightarrow> (case req of
       Inl e \<Rightarrow> (rs, BadRequest (FormatBindingErrors e) ''INVALID_REQUEST'')
     | Inr q \<Rightarrow> (case GetByDeviceIDAndProtocol (ce_getErr env) did (cq_Protocol q) rs of
         Inl e \<Rightarrow> (rs, if e = ''credential not found'' then NotFound ''Credential not found''
           else InternalError ''Failed to get credential'')
       | Inr c \<Rightarrow>
         (case sealSecrets seal (ce_rnd1 env) (ce_rnd2 env) s q (c\<lparr>cd_Username := cq_Username q\<rparr>) of
            Inl e \<Rightarrow> (rs, InternalError e)
          | Inr c1 \<Rightarrow> (case cred_Update (ce_writeErr env) (ce_t1 env) (applySettings q (v3Protocols q c1)) rs of
              (rs', Some e) \<Rightarrow> (rs', InternalError ''Failed to update credential'')
            | (rs', None) \<Rightarrow> (rs', Message 200 ''Credential updated successfully''))))))"

text \<open>\<open>protocol\<close> is the query parameter, empty when it is missing.\<close>

definition DeleteCredential ::
  "db_error \<Rightarrow> string option \<Rightarrow> string \<Rightarrow> cred_row list \<Rightarrow> cred_row list \<times> unit api_reply" where
  "DeleteCredential dbErr param protocol rs = (case param of
     None \<Rightarrow> (rs, BadRequest ''Invalid device ID'' ''INVALID_ID'')
   | Some did \<Rightarrow>
     (if protocol = [] then (rs, BadRequest ''Protocol query parameter required'' ''MISSING_PROTOCOL'')
      else case cred_Delete dbErr did protocol rs of
        (rs', Some e) \<Rightarrow> (rs', if e = ''credential not found'' then NotFound ''Credential not found''
          else InternalError ''Failed to delete credential'')
      | (rs', None) \<Rightarrow> (rs', Message 200 ''Credential deleted successfully'')))"

section \<open>What the collectors see\<close>

text \<open>A row as the queries of the collectors read it; their \<open>COALESCE\<close> of an empty secret gives the empty
  text.\<close>

definition collectorView :: "cred_row \<Rightarrow> credential_row" where
  "collectorView r = \<lparr>cr_device_id = dc_device_id r, cr_protocol = dc_protocol r, cr_username = dc_username r,
     cr_password = (if dc_password r = [] then None else Some (dc_password r)), cr_port = dc_port r\<rparr>"


section \<open>Round trips\<close>

lemma new_service: "NewCredentialService key = Inr s \<Longrightarrow> encryptionKey s = key \<and> length key = 32"
  unfolding NewCredentialService_def by (auto split: if_splits)

lemma Encrypt_result:
  "Encrypt seal random s p = Inr c \<Longrightarrow>
     p \<noteq> [] \<and> aesKey (encryptionKey s) \<and> (\<exists>nonce. random = Inr nonce \<and> c = nonce @ seal (encryptionKey s) nonce p)"
  unfolding Encrypt_def by (auto split: if_splits sum.splits)

text \<open>C22: What the API server encrypts comes back: by the service itself, in the raw form of the table and
  in base64, and by the Redfish and SSH collectors with the same key. The law of AES-GCM is that
  opening undoes sealing.\<close>

theorem credential_roundtrip:
  assumes "\<And>k n p. gcmOpen k n (seal k n p) = Some p"
    and "length nonce = 12" "NewCredentialService key = Inr s" "Encrypt seal (Inr nonce) s p = Inr c"
  shows "Decrypt gcmOpen s c = Inr p \<and>
    rf_decryptCredential gcmOpen key c = Inr p \<and> ssh_decryptCredential gcmOpen key c = Inr p \<and>
    (\<exists>b. EncryptToBase64 seal (Inr nonce) s p = Inr b \<and> DecryptFromBase64 gcmOpen s b = Inr p \<and>
       decrypt gcmOpen key b = Inr p)"
proof -
  have k: "encryptionKey s = key" "length key = 32" and c: "c = nonce @ seal key nonce p"
    using new_service [OF assms(3)] Encrypt_result [OF assms(4)] by auto
  have d: "Decrypt gcmOpen s c = Inr p"
    using assms(1,2) k unfolding Decrypt_def c aesKey_def by (cases nonce) auto
  have e: "EncryptToBase64 seal (Inr nonce) s p = Inr (b64_encode c)"
    unfolding EncryptToBase64_def by (simp add: assms(4))
  have i: "decrypt gcmOpen key (b64_encode c) = Inr p"
    using assms(1,2) k(2) unfolding decrypt_def by (cases key) (simp_all add: b64_decode_encode c)
  have "rf_decryptCredential gcmOpen key c = Inr p" "ssh_decryptCredential gcmOpen key c = Inr p"
    using assms(1,2) k(2) unfolding rf_decryptCredential_def ssh_decryptCredential_def c
    by (cases nonce; simp)+
  with d e i show ?thesis
    by (intro conjI exI [of _ "b64_encode c"]) (simp_all add: DecryptFromBase64_def b64_decode_encode)
qed

text \<open>A cipher that obeys the law: the key and the nonce in front of the text.\<close>

definition exSeal :: sealer where
  "exSeal k n p = k @ n @ p"

definition exOpen :: opener where
  "exOpen k n c = (if take (length k + length n) c = k @ n then Some (drop (length k + length n) c) else None)"

definition exKey :: string where
  "exKey = ''0123456789abcdef0123456789abcde!''"

definition exService :: credential_service where
  "exService = \<lparr>encryptionKey = exKey\<rparr>"

lemma exOpen_law: "exOpen k n (exSeal k n p) = Some p"
  unfolding exOpen_def exSeal_def by simp

lemma credential_roundtrip_witness:
  "Decrypt exOpen exService (''nonce-nonce-'' @ exSeal exKey ''nonce-nonce-'' ''secret'') = Inr ''secret''"
proof -
  have "NewCredentialService exKey = Inr exService"
    "Encrypt exSeal (Inr ''nonce-nonce-'') exService ''secret'' =
       Inr (''nonce-nonce-'' @ exSeal exKey ''nonce-nonce-'' ''secret'')"
    unfolding NewCredentialService_def Encrypt_def exService_def exKey_def aesKey_def by simp_all
  moreover have "length ''nonce-nonce-'' = 12" by simp
  ultimately show ?thesis using credential_roundtrip [where gcmOpen = exOpen, OF exOpen_law] by blast
qed

lemma b64_quads_stops:
  "\<exists>c \<in> set s. b64_val c = None \<and> c \<noteq> CHR ''='' \<Longrightarrow> b64_quads s = None"
proof (induction s rule: b64_quads.induct)
  case (2 p q r s rest)
  then show ?case by (cases "b64_val p"; cases "b64_val q"; cases "b64_val r"; cases "b64_val s") auto
qed auto

text \<open>The IPMI collector cannot use these passwords: it expects base64, the table holds the raw
  ciphertext. As soon as one byte of the ciphertext is not a base64 character, which is all but
  certain, the collector logs in with the ciphertext in place of the password; it says nothing of
  it.\<close>

theorem ipmi_logs_in_with_ciphertext:
  assumes "Encrypt seal random s p = Inr c"
    and "\<exists>x \<in> set c. b64_val x = None \<and> x \<noteq> CHR ''='' \<and> x \<noteq> newline \<and> x \<noteq> creturn"
  shows "decrypt gcmOpen key c = Inr c"
proof -
  have "b64_decode c = None"
    unfolding b64_decode_def by (rule b64_quads_stops) (use assms(2) in auto)
  then show ?thesis unfolding decrypt_def by simp
qed

lemma ipmi_logs_in_with_ciphertext_witness:
  "decrypt exOpen exKey (''nonce-nonce-'' @ exSeal exKey ''nonce-nonce-'' ''secret'') =
     Inr (''nonce-nonce-'' @ exSeal exKey ''nonce-nonce-'' ''secret'')"
proof (rule ipmi_logs_in_with_ciphertext [where s = exService and seal = exSeal and random = "Inr ''nonce-nonce-''"])
  show "Encrypt exSeal (Inr ''nonce-nonce-'') exService ''secret'' =
       Inr (''nonce-nonce-'' @ exSeal exKey ''nonce-nonce-'' ''secret'')"
    unfolding Encrypt_def exService_def exKey_def aesKey_def by simp
  show "\<exists>x \<in> set (''nonce-nonce-'' @ exSeal exKey ''nonce-nonce-'' ''secret'').
      b64_val x = None \<and> x \<noteq> CHR ''='' \<and> x \<noteq> newline \<and> x \<noteq> creturn"
    by (rule bexI [of _ "CHR ''-''"]) (code_simp, simp)
qed


section \<open>The table keeps its keys\<close>

definition credKey :: "cred_row \<Rightarrow> string \<times> string" where
  "credKey r = (dc_device_id r, dc_protocol r)"

definition creds_ok :: "cred_row list \<Rightarrow> bool" where
  "creds_ok rs = (distinct (map credKey rs) \<and> distinct (map dc_id rs))"

lemma credAt_key: "credAt d p r = (credKey r = (d, p))"
  unfolding credAt_def credKey_def by auto

lemma creds_ok_Create: "creds_ok rs \<Longrightarrow> creds_ok (fst (cred_Create e c rs))"
  unfolding creds_ok_def cred_Create_def
  by (auto simp: credAt_key list_ex_iff rowOf_def credKey_def split: option.splits)

lemma creds_ok_Update: "creds_ok rs \<Longrightarrow> creds_ok (fst (cred_Update e now c rs))"
  unfolding creds_ok_def cred_Update_def by (auto intro!: distinct_updateRows simp: credKey_def)

lemma creds_ok_Delete: "creds_ok rs \<Longrightarrow> creds_ok (fst (cred_Delete e d p rs))"
  unfolding creds_ok_def cred_Delete_def by (auto intro!: distinct_deleteRows)

lemma CreateCredential_table:
  "fst (CreateCredential seal s env param req rs) = rs \<or>
   (\<exists>did q c. param = Some did \<and> req = Inr q \<and> cq_Protocol q \<in> set validProtocols \<and>
      sealSecrets seal (ce_rnd1 env) (ce_rnd2 env) s q
        (applySettings q (newCredential (ce_newId env) (ce_t1 env) (ce_t2 env) did q)) = Inr c \<and>
      CreateCredential seal s env param req rs =
        (let r = cred_Create (ce_writeErr env) (v3Protocols q c) rs in
         (fst r, if snd r = None then Message 201 ''Credential created successfully''
                 else InternalError ''Failed to create credential'')))"
  unfolding CreateCredential_def
  by (auto simp: Let_def split: option.splits sum.splits prod.splits if_splits)

lemma UpdateCredential_table:
  "fst (UpdateCredential seal s env param req rs) = rs \<or>
   (\<exists>did q c c1. param = Some did \<and> req = Inr q \<and>
      GetByDeviceIDAndProtocol (ce_getErr env) did (cq_Protocol q) rs = Inr c \<and>
      sealSecrets seal (ce_rnd1 env) (ce_rnd2 env) s q (c\<lparr>cd_Username := cq_Username q\<rparr>) = Inr c1 \<and>
      fst (UpdateCredential seal s env param req rs) =
        fst (cred_Update (ce_writeErr env) (ce_t1 env) (applySettings q (v3Protocols q c1)) rs))"
  unfolding UpdateCredential_def
  by (auto simp: Let_def split: option.splits sum.splits prod.splits if_splits)

lemma DeleteCredential_table:
  "fst (DeleteCredential e param protocol rs) = rs \<or>
   (\<exists>did. param = Some did \<and> fst (DeleteCredential e param protocol rs) = fst (cred_Delete e did protocol rs))"
  unfolding DeleteCredential_def by (auto split: option.splits prod.splits)

text \<open>Whatever requests the credential handlers serve, a device keeps at most one credential per
  protocol.\<close>

theorem credentials_unique:
  assumes "creds_ok rs"
  shows "creds_ok (fst (CreateCredential seal s env param req rs)) \<and>
    creds_ok (fst (UpdateCredential seal s env param req rs)) \<and>
    creds_ok (fst (DeleteCredential e param protocol rs))"
proof (intro conjI)
  show "creds_ok (fst (CreateCredential seal s env param req rs))"
    using CreateCredential_table [of seal s env param req rs] creds_ok_Create [OF assms] assms
    by (auto simp: Let_def)
  show "creds_ok (fst (UpdateCredential seal s env param req rs))"
    using UpdateCredential_table [of seal s env param req rs] creds_ok_Update [OF assms] assms by auto
  show "creds_ok (fst (DeleteCredential e param protocol rs))"
    using DeleteCredential_table [of e param protocol rs] creds_ok_Delete [OF assms] assms by auto
qed

section \<open>From the handler to the collector\<close>

lemma sealSecrets_result:
  assumes "sealSecrets seal r1 r2 s q c = Inr c'"
  shows "(if given (cq_Password q) then Encrypt seal r1 s (the (cq_Password q)) = Inr (cd_PasswordEncrypted c')
      else cd_PasswordEncrypted c' = cd_PasswordEncrypted c) \<and>
    (if given (cq_CommunityString q)
      then Encrypt seal r2 s (the (cq_CommunityString q)) = Inr (cd_CommunityStringEncrypted c')
      else cd_CommunityStringEncrypted c' = cd_CommunityStringEncrypted c)"
  using assms unfolding sealSecrets_def by (auto split: sum.splits if_splits)

lemma sealSecrets_frame:
  assumes "sealSecrets seal r1 r2 s q c = Inr c'"
  shows "cd_ID c' = cd_ID c \<and> cd_DeviceID c' = cd_DeviceID c \<and> cd_Protocol c' = cd_Protocol c \<and>
    cd_Username c' = cd_Username c"
  using assms unfolding sealSecrets_def by (auto split: sum.splits if_splits)

lemma applySettings_frame [simp]:
  "cd_ID (applySettings q c) = cd_ID c" "cd_DeviceID (applySettings q c) = cd_DeviceID c"
  "cd_Protocol (applySettings q c) = cd_Protocol c" "cd_Username (applySettings q c) = cd_Username c"
  "cd_PasswordEncrypted (applySettings q c) = cd_PasswordEncrypted c"
  "cd_CommunityStringEncrypted (applySettings q c) = cd_CommunityStringEncrypted c"
  unfolding applySettings_def by simp_all

lemma v3Protocols_frame [simp]:
  "cd_ID (v3Protocols q c) = cd_ID c" "cd_DeviceID (v3Protocols q c) = cd_DeviceID c"
  "cd_Protocol (v3Protocols q c) = cd_Protocol c" "cd_Username (v3Protocols q c) = cd_Username c"
  "cd_PasswordEncrypted (v3Protocols q c) = cd_PasswordEncrypted c"
  "cd_CommunityStringEncrypted (v3Protocols q c) = cd_CommunityStringEncrypted c"
  unfolding v3Protocols_def by simp_all

lemma newCredential_frame [simp]:
  "cd_DeviceID (newCredential i t1 t2 did q) = did" "cd_Protocol (newCredential i t1 t2 did q) = cq_Protocol q"
  "cd_Username (newCredential i t1 t2 did q) = cq_Username q"
  unfolding newCredential_def by simp_all

lemma created_row:
  assumes "accepted_reply (snd (CreateCredential seal s env (Some did) (Inr q) rs))"
  shows "\<exists>r \<in> set (fst (CreateCredential seal s env (Some did) (Inr q) rs)).
    dc_device_id r = did \<and> dc_protocol r = cq_Protocol q \<and> dc_username r = cq_Username q \<and>
    (if given (cq_Password q) then Encrypt seal (ce_rnd1 env) s (the (cq_Password q)) = Inr (dc_password r)
     else dc_password r = [])"
proof -
  let ?n = "applySettings q (newCredential (ce_newId env) (ce_t1 env) (ce_t2 env) did q)"
  from assms obtain c where c: "sealSecrets seal (ce_rnd1 env) (ce_rnd2 env) s q ?n = Inr c"
    and ok: "snd (cred_Create (ce_writeErr env) (v3Protocols q c) rs) = None"
    and res: "fst (CreateCredential seal s env (Some did) (Inr q) rs) =
      fst (cred_Create (ce_writeErr env) (v3Protocols q c) rs)"
    unfolding CreateCredential_def by (auto split: if_splits sum.splits prod.splits option.splits)
  from ok have "rowOf (v3Protocols q c) \<in> set (fst (cred_Create (ce_writeErr env) (v3Protocols q c) rs))"
    unfolding cred_Create_def by (auto split: option.splits if_splits)
  moreover have "cd_PasswordEncrypted ?n = []" by (simp add: newCredential_def)
  moreover have "cd_DeviceID c = did" "cd_Protocol c = cq_Protocol q" "cd_Username c = cq_Username q"
    using sealSecrets_frame [OF c] by simp_all
  ultimately show ?thesis using sealSecrets_result [OF c] unfolding res
    by (intro bexI [of _ "rowOf (v3Protocols q c)"]) (auto simp: rowOf_def)
qed


lemma rfRows_member:
  assumes "dv \<in> set (devices db)" "dv_status dv \<noteq> ''deleted''"
    and "k \<in> set (credentials db)" "cr_device_id k = dv_id dv" "cr_protocol k = ''redfish''"
  shows "\<exists>d. (d, coalesce (cr_password k) []) \<in> set (rfRows db) \<and> rd_ID d = dv_id dv \<and>
    rd_Username d = coalesce (cr_username k) []"
proof -
  let ?d = "\<lparr>rd_ID = dv_id dv, rd_Hostname = dv_hostname dv,
       rd_IPAddress = (case dv_bmc_ip dv of Some b \<Rightarrow> inet_host b | None \<Rightarrow> inet_host (dv_ip dv)),
       rd_Username = coalesce (cr_username k) [], rd_Password = [],
       rd_Protocol = cr_protocol k, rd_Status = dv_status dv\<rparr>"
  have "(?d, coalesce (cr_password k) []) \<in> set (rfRows db)"
    unfolding rfRows_def coalesce_def using assms by (auto simp: image_iff intro!: bexI [of _ dv] bexI [of _ k])
  then show ?thesis by (intro exI [of _ ?d]) simp
qed

text \<open>C31: A password that an operator enters through the API arrives at the Redfish collector: once the
  handler has answered that the credential was created, the collector's next load of the devices has
  the device with that user name and, decrypted, that password.\<close>

theorem credentials_reach_redfish:
  assumes "\<And>k n p. gcmOpen k n (seal k n p) = Some p"
    and "length nonce = 12" "ce_rnd1 env = Inr nonce" "NewCredentialService (rc_key c) = Inr s"
    and "cq_Protocol q = ''redfish''" "cq_Password q = Some pw" "pw \<noteq> []"
    and "accepted_reply (snd (CreateCredential seal s env (Some did) (Inr q) rs))"
    and "dv \<in> set (devices (rc_db c))" "dv_id dv = did" "dv_status dv \<noteq> ''deleted''"
    and "credentials (rc_db c) = map collectorView (fst (CreateCredential seal s env (Some did) (Inr q) rs))"
  shows "\<exists>d \<in> set (rc_devices (fst (rf_loadDevices gcmOpen None None c))).
    rd_ID d = did \<and> rd_Password d = pw \<and> rd_Username d = coalesce (cq_Username q) []"
proof -
  have "given (cq_Password q)" using assms(6,7) by (simp add: given_def)
  with created_row [OF assms(8)] assms(6) obtain r
    where r: "r \<in> set (fst (CreateCredential seal s env (Some did) (Inr q) rs))" "dc_device_id r = did"
      "dc_protocol r = ''redfish''" "dc_username r = cq_Username q"
      and e: "Encrypt seal (Inr nonce) s pw = Inr (dc_password r)"
    using assms(3,5) by auto
  have dec: "rf_decryptCredential gcmOpen (rc_key c) (dc_password r) = Inr pw"
    using credential_roundtrip [OF assms(1) assms(2) assms(4) e] by blast
  have ne: "dc_password r \<noteq> []" using Encrypt_result [OF e] assms(2) by auto
  have k: "collectorView r \<in> set (credentials (rc_db c))" unfolding assms(12) using r(1) by simp
  from rfRows_member [OF assms(9) assms(11) k] r ne assms(10) obtain d
    where d: "(d, dc_password r) \<in> set (rfRows (rc_db c))" "rd_ID d = did"
      "rd_Username d = coalesce (cq_Username q) []"
    by (auto simp: collectorView_def coalesce_def)
  have "rfLoadRow gcmOpen (rc_key c) (d, dc_password r) = Some (d\<lparr>rd_Password := pw\<rparr>)"
    unfolding rfLoadRow_def using ne dec by simp
  with d(1) have "d\<lparr>rd_Password := pw\<rparr> \<in> set (rc_devices (fst (rf_loadDevices gcmOpen None None c)))"
    unfolding rf_loadDevices_def by (force simp: List.map_filter_def image_iff)
  then show ?thesis using d by (intro bexI [of _ "d\<lparr>rd_Password := pw\<rparr>"]) simp_all
qed

definition exCredEnv :: cred_env where
  "exCredEnv = \<lparr>ce_rnd1 = Inr ''nonce-nonce-'', ce_rnd2 = Inr ''other-nonce-'', ce_newId = ''c1'', ce_t1 = 1,
     ce_t2 = 2, ce_getErr = None, ce_writeErr = None\<rparr>"

definition exCredRequest :: cred_request where
  "exCredRequest = \<lparr>cq_Protocol = ''redfish'', cq_Username = Some ''root'', cq_Password = Some ''pw'',
     cq_CommunityString = None, cq_AuthProtocol = None, cq_PrivProtocol = None, cq_Port = None,
     cq_HTTPScheme = None, cq_SSLVerify = None, cq_PollingInterval = None, cq_TimeoutSeconds = None,
     cq_RetryAttempts = None\<rparr>"

definition exCredTable :: "cred_row list" where
  "exCredTable = fst (CreateCredential exSeal exService exCredEnv (Some ''d1'') (Inr exCredRequest) [])"

definition exCredCollector :: rf_collector where
  "exCredCollector = rfExCollector\<lparr>rc_key := exKey,
     rc_db := rfExDb\<lparr>credentials := map collectorView exCredTable\<rparr>\<rparr>"

lemma credentials_reach_redfish_witness:
  "\<exists>d \<in> set (rc_devices (fst (rf_loadDevices exOpen None None exCredCollector))).
     rd_ID d = ''d1'' \<and> rd_Password d = ''pw'' \<and> rd_Username d = ''root''"
proof -
  have "\<exists>d \<in> set (rc_devices (fst (rf_loadDevices exOpen None None exCredCollector))).
     rd_ID d = ''d1'' \<and> rd_Password d = ''pw'' \<and> rd_Username d = coalesce (cq_Username exCredRequest) []"
  proof (rule credentials_reach_redfish [where seal = exSeal and nonce = "''nonce-nonce-''" and env = exCredEnv
        and s = exService and rs = "[]" and dv = "hd (devices rfExDb)"])
    show "NewCredentialService (rc_key exCredCollector) = Inr exService"
      unfolding NewCredentialService_def exCredCollector_def exService_def exKey_def by simp
    show "accepted_reply (snd (CreateCredential exSeal exService exCredEnv (Some ''d1'') (Inr exCredRequest) []))"
      by code_simp
  qed (simp_all add: exOpen_law exCredEnv_def exCredRequest_def exCredCollector_def exCredTable_def rfExDb_def)
  then show ?thesis by (simp add: exCredRequest_def coalesce_def)
qed

lemma credentials_unique_witness:
  "creds_ok exCredTable \<and> creds_ok (fst (DeleteCredential None (Some ''d1'') ''redfish'' exCredTable))"
proof
  have "creds_ok []" by (simp add: creds_ok_def)
  from credentials_unique [OF this, where param = "Some ''d1''" and req = "Inr exCredRequest"]
  show "creds_ok exCredTable" unfolding exCredTable_def by blast
  from credentials_unique [OF this, where param = "Some ''d1''" and protocol = "''redfish''" and e = None]
  show "creds_ok (fst (DeleteCredential None (Some ''d1'') ''redfish'' exCredTable))" by blast
qed


section \<open>Updates\<close>

lemma updateRows_ok:
  "snd (updateRows a b e P f rs) = None \<Longrightarrow> fst (updateRows a b e P f rs) = updateWhere P f rs"
  unfolding updateRows_def by (auto split: option.splits if_splits)

text \<open>An accepted update changes only the credential it names, and keeps the secret that the request
  does not give; but the user name is always that of the request, so a request without one erases
  it.\<close>

theorem credential_update_effect:
  assumes "accepted_reply (snd (UpdateCredential seal s env (Some did) (Inr q) rs))"
  shows "\<exists>old f. find (credAt did (cq_Protocol q)) rs = Some old \<and>
    fst (UpdateCredential seal s env (Some did) (Inr q) rs) = updateWhere (credAt did (cq_Protocol q)) f rs \<and>
    (\<forall>r. credKey (f r) = credKey r \<and> dc_username (f r) = cq_Username q \<and>
      (if given (cq_Password q) then Encrypt seal (ce_rnd1 env) s (the (cq_Password q)) = Inr (dc_password (f r))
       else dc_password (f r) = dc_password old) \<and>
      (if given (cq_CommunityString q)
       then Encrypt seal (ce_rnd2 env) s (the (cq_CommunityString q)) = Inr (dc_community (f r))
       else dc_community (f r) = dc_community old))"
proof -
  from assms obtain c c1 where c: "GetByDeviceIDAndProtocol (ce_getErr env) did (cq_Protocol q) rs = Inr c"
    and c1: "sealSecrets seal (ce_rnd1 env) (ce_rnd2 env) s q (c\<lparr>cd_Username := cq_Username q\<rparr>) = Inr c1"
    and ok: "snd (cred_Update (ce_writeErr env) (ce_t1 env) (applySettings q (v3Protocols q c1)) rs) = None"
    and res: "fst (UpdateCredential seal s env (Some did) (Inr q) rs) =
      fst (cred_Update (ce_writeErr env) (ce_t1 env) (applySettings q (v3Protocols q c1)) rs)"
    unfolding UpdateCredential_def by (auto split: if_splits sum.splits prod.splits option.splits)
  from c obtain old where old: "find (credAt did (cq_Protocol q)) rs = Some old" "c = structOf old"
    unfolding GetByDeviceIDAndProtocol_def by (auto split: option.splits)
  then have key: "cd_DeviceID c = did" "cd_Protocol c = cq_Protocol q"
    by (auto simp: find_Some_iff credAt_def structOf_def)
  let ?f = "\<lambda>r. (rowOf (applySettings q (v3Protocols q c1)\<lparr>cd_UpdatedAt := ce_t1 env\<rparr>))\<lparr>dc_id := dc_id r,
      dc_device_id := dc_device_id r, dc_protocol := dc_protocol r, dc_created_at := dc_created_at r\<rparr>"
  have "fst (UpdateCredential seal s env (Some did) (Inr q) rs) = updateWhere (credAt did (cq_Protocol q)) ?f rs"
    using updateRows_ok [OF ok [unfolded cred_Update_def]] key sealSecrets_frame [OF c1]
    unfolding res cred_Update_def by simp
  moreover have "dc_username (?f r) = cq_Username q" "credKey (?f r) = credKey r" for r
    using sealSecrets_frame [OF c1] by (simp_all add: rowOf_def credKey_def)
  ultimately show ?thesis using sealSecrets_result [OF c1] old
    by (intro exI [of _ old] exI [of _ ?f] conjI allI) (auto simp: rowOf_def structOf_def)
qed

lemma credential_update_effect_witness:
  "let q = exCredRequest\<lparr>cq_Username := None, cq_Password := None\<rparr>;
       rs' = fst (UpdateCredential exSeal exService exCredEnv (Some ''d1'') (Inr q) exCredTable) in
   map dc_username rs' = [None] \<and> map dc_password rs' = map dc_password exCredTable"
proof -
  let ?q = "exCredRequest\<lparr>cq_Username := None, cq_Password := None\<rparr>"
  have "accepted_reply (snd (UpdateCredential exSeal exService exCredEnv (Some ''d1'') (Inr ?q) exCredTable))"
    by code_simp
  from credential_update_effect [OF this] obtain old f where
    f: "find (credAt ''d1'' ''redfish'') exCredTable = Some old"
      "fst (UpdateCredential exSeal exService exCredEnv (Some ''d1'') (Inr ?q) exCredTable) =
         updateWhere (credAt ''d1'' ''redfish'') f exCredTable"
      "\<And>r. dc_username (f r) = None" "\<And>r. dc_password (f r) = dc_password old"
    by (auto simp: exCredRequest_def given_def)
  have "length exCredTable = 1" by code_simp
  then obtain r where r: "exCredTable = [r]" by (auto simp: length_Suc_conv)
  have "list_all (credAt ''d1'' ''redfish'') exCredTable" by code_simp
  then have "credAt ''d1'' ''redfish'' r" unfolding r by simp
  with f(1) have "old = r" unfolding r by simp
  have "fst (UpdateCredential exSeal exService exCredEnv (Some ''d1'') (Inr ?q) exCredTable) = [f r]"
    unfolding f(2) unfolding r updateWhere_def using \<open>credAt ''d1'' ''redfish'' r\<close> by simp
  then show ?thesis using f(3,4) \<open>old = r\<close> by (simp only: Let_def list.map) (simp add: r)
qed

end
