(* ===== verification/RedfishApi.thy ===== *)
theory RedfishApi
  imports Credentials
begin

text \<open>
  The Redfish client of the API server, \<open>backend/internal/services/redfish_service.go\<close>: test of a connection,
  synchronisation, power and boot control, with the data types of \<open>backend/internal/models/device.go\<close>.

  The management controller is a function of the credentials sent, the URL and the number of the attempt;
  within one operation a URL that is asked twice is answered alike. A JSON body comes with its decoding
  into a map, where \<open>null\<close> is the empty map. \<open>toI\<close> is the conversion of a float to an integer where Go
  leaves it open (theory Redfish).
\<close>

section \<open>Requests\<close>

text \<open>What one attempt gives: no answer, the end of the context before or during it, an address that makes
  no request, or a response.\<close>

datatype rs_answer =
    Transport string
  | CtxDone string
  | BadUrl string
  | Reply int string "(string \<times> json) list result"

type_synonym basic_auth = "(string \<times> string) option"

record rs_session =
  se_net :: "basic_auth \<Rightarrow> string \<Rightarrow> nat \<Rightarrow> rs_answer"
  se_base :: string
  se_user :: string
  se_pass :: string

definition basicAuth :: "string \<Rightarrow> string \<Rightarrow> basic_auth" where
  "basicAuth user pass = (if user \<noteq> [] \<or> pass \<noteq> [] then Some (user, pass) else None)"

definition ellipsis :: string where
  "ellipsis = [CHR 0xE2, CHR 0x80, CHR 0xA6]"

definition rs_truncate :: "string \<Rightarrow> nat \<Rightarrow> string" where
  "rs_truncate s n = (if length s \<le> n then s else take n s @ ellipsis)"

definition httpError :: "int \<Rightarrow> string \<Rightarrow> string" where
  "httpError code body = ''HTTP '' @ itoa code @ '': '' @ rs_truncate body 200"

definition authError :: "int \<Rightarrow> string" where
  "authError code = ''HTTP '' @ itoa code @ '': authentication failed''"

text \<open>The attempts of a read: \<open>left\<close> are those that remain; the status and the error are those of the last
  attempt that is worth another one.\<close>

fun getLoop ::
  "(nat \<Rightarrow> rs_answer) \<Rightarrow> nat \<Rightarrow> nat \<Rightarrow> int \<Rightarrow> string \<Rightarrow> (string \<times> json) list result \<times> int" where
  "getLoop ans attempt 0 lastStatus lastErr = (Inl lastErr, lastStatus)"
| "getLoop ans attempt (Suc left) lastStatus lastErr = (case ans attempt of
     CtxDone e \<Rightarrow> (Inl e, 0)
   | BadUrl e \<Rightarrow> (Inl (''create request: '' @ e), 0)
   | Transport e \<Rightarrow> getLoop ans (attempt + 1) left lastStatus (''request failed: '' @ e)
   | Reply code body decoded \<Rightarrow>
       (if code = 401 \<or> code = 403 then (Inl (authError code), code)
        else if code \<noteq> 200
        then (if code < 500 then (Inl (httpError code body), code)
          else getLoop ans (attempt + 1) left code (httpError code body))
        else case decoded of Inl e \<Rightarrow> (Inl (''decode JSON: '' @ e), code) | Inr m \<Rightarrow> (Inr m, code)))"

definition redfishGetWithRetry ::
  "rs_session \<Rightarrow> basic_auth \<Rightarrow> string \<Rightarrow> nat \<Rightarrow> (string \<times> json) list result \<times> int" where
  "redfishGetWithRetry se auth path maxRetries =
     getLoop (se_net se auth (se_base se @ path)) 0 (maxRetries + 1) 0 []"

definition redfishGet :: "rs_session \<Rightarrow> string \<Rightarrow> (string \<times> json) list result \<times> int" where
  "redfishGet se path = redfishGetWithRetry se (basicAuth (se_user se) (se_pass se)) path 2"

definition rget :: "rs_session \<Rightarrow> string \<Rightarrow> (string \<times> json) list result" where
  "rget se path = fst (redfishGet se path)"

definition redfishGetCollection :: "rs_session \<Rightarrow> string \<Rightarrow> (string \<times> json) list list result" where
  "redfishGetCollection se path = (case rget se path of
     Inl e \<Rightarrow> Inl e
   | Inr data \<Rightarrow> Inr (List.map_filter (\<lambda>m. case asObj (Some m) of None \<Rightarrow> None
       | Some link \<Rightarrow> (case asStr (field ''@odata.id'' link) of None \<Rightarrow> None
         | Some href \<Rightarrow> (case rget se href of Inl _ \<Rightarrow> None | Inr item \<Rightarrow> Some item)))
       (arrField ''Members'' data)))"

section \<open>Extractors\<close>

type_synonym jmap = "(string \<times> json) list"

definition strVal :: "jmap \<Rightarrow> string \<Rightarrow> string option" where
  "strVal m key = (case asStr (field key m) of Some s \<Rightarrow> if s = [] then None else Some s | None \<Rightarrow> None)"

definition floatVal :: "jmap \<Rightarrow> string \<Rightarrow> f64 option" where
  "floatVal m key = numField key m"

definition intVal :: "(f64 \<Rightarrow> int) \<Rightarrow> jmap \<Rightarrow> string \<Rightarrow> int" where
  "intVal toI m key = (case numField key m of Some v \<Rightarrow> f_to_int toI v | None \<Rightarrow> 0)"

definition int64Val :: "(f64 \<Rightarrow> int) \<Rightarrow> jmap \<Rightarrow> string \<Rightarrow> int option" where
  "int64Val toI m key = map_option (f_to_int toI) (numField key m)"

definition subVal :: "string \<Rightarrow> jmap \<Rightarrow> string" where
  "subVal key m = (case objField ''Status'' m of None \<Rightarrow> [] | Some status \<Rightarrow> strField key status)"

definition healthVal :: "jmap \<Rightarrow> string" where
  "healthVal m = subVal ''Health'' m"

definition stateVal :: "jmap \<Rightarrow> string" where
  "stateVal m = subVal ''State'' m"

definition oDataLink :: "jmap \<Rightarrow> string \<Rightarrow> string" where
  "oDataLink m key = (case objField key m of None \<Rightarrow> [] | Some sub \<Rightarrow> strField ''@odata.id'' sub)"

definition strDeref :: "string option \<Rightarrow> string \<Rightarrow> string" where
  "strDeref s fallback = (case s of Some v \<Rightarrow> v | None \<Rightarrow> fallback)"

text \<open>\<open>strDeref(strVal(m, key), fallback)\<close> and the objects of an array, in one word each.\<close>

definition strOr :: "jmap \<Rightarrow> string \<Rightarrow> string \<Rightarrow> string" where
  "strOr m key fallback = strDeref (strVal m key) fallback"

definition objects :: "json list \<Rightarrow> jmap list" where
  "objects xs = List.map_filter (\<lambda>x. asObj (Some x)) xs"

definition firstObject :: "string \<Rightarrow> jmap \<Rightarrow> jmap option" where
  "firstObject key m = (case arrField key m of [] \<Rightarrow> None | x # _ \<Rightarrow> asObj (Some x))"

text \<open>A path through nested objects.\<close>

fun objPath :: "string list \<Rightarrow> jmap \<Rightarrow> jmap option" where
  "objPath [] m = Some m"
| "objPath (k # ks) m = (case objField k m of None \<Rightarrow> None | Some m' \<Rightarrow> objPath ks m')"

section \<open>Finding the resources\<close>

definition firstMember :: "jmap \<Rightarrow> string" where
  "firstMember data = (case firstObject ''Members'' data of None \<Rightarrow> [] | Some m \<Rightarrow> strField ''@odata.id'' m)"

fun trySystems :: "rs_session \<Rightarrow> string list \<Rightarrow> string result" where
  "trySystems se [] = Inl ''could not discover system path''"
| "trySystems se (p # ps) = (case redfishGet se p of
     (Inr _, _) \<Rightarrow> Inr p
   | (Inl _, status) \<Rightarrow> if status = 401 \<or> status = 403 then Inl (authError status) else trySystems se ps)"

definition discoverSystemPath :: "rs_session \<Rightarrow> string result" where
  "discoverSystemPath se =
     (let href = (case rget se ''/redfish/v1/Systems'' of Inl _ \<Rightarrow> [] | Inr coll \<Rightarrow> firstMember coll) in
      if href \<noteq> [] then Inr href
      else trySystems se [''/redfish/v1/Systems/System.Embedded.1'', ''/redfish/v1/Systems/1'', ''/redfish/v1/Systems/Self''])"

text \<open>The chassis and the manager: the first member, or the first known path that answers, or nothing.\<close>

definition discoverPath :: "rs_session \<Rightarrow> string \<Rightarrow> string list \<Rightarrow> string" where
  "discoverPath se coll known =
     (let href = (case rget se coll of Inl _ \<Rightarrow> [] | Inr data \<Rightarrow> firstMember data) in
      if href \<noteq> [] then href
      else case find (\<lambda>p. case rget se p of Inl _ \<Rightarrow> False | Inr _ \<Rightarrow> True) known of None \<Rightarrow> [] | Some p \<Rightarrow> p)"

definition discoverChassisPath :: "rs_session \<Rightarrow> string" where
  "discoverChassisPath se = discoverPath se ''/redfish/v1/Chassis''
     [''/redfish/v1/Chassis/System.Embedded.1'', ''/redfish/v1/Chassis/1'']"

definition discoverManagerPath :: "rs_session \<Rightarrow> string" where
  "discoverManagerPath se = discoverPath se ''/redfish/v1/Managers''
     [''/redfish/v1/Managers/iDRAC.Embedded.1'', ''/redfish/v1/Managers/1'']"

definition classifyError :: "string option \<Rightarrow> int \<Rightarrow> string" where
  "classifyError err statusCode = (if statusCode = 401 \<or> statusCode = 403 then ''AUTH_FAILED''
     else case err of None \<Rightarrow> ''UNKNOWN''
     | Some e \<Rightarrow> (let msg = toLower e in
         if contains msg ''timeout'' \<or> contains msg ''deadline'' then ''TIMEOUT''
         else if contains msg ''certificate'' \<or> contains msg ''tls'' \<or> contains msg ''x509'' then ''SSL_ERROR''
         else if contains msg ''connection refused'' \<or> contains msg ''no route'' then ''BMC_OFFLINE''
         else if statusCode = 404 then ''ENDPOINT_NOT_FOUND''
         else if statusCode \<ge> 500 then ''BMC_ERROR'' else ''NETWORK_ERROR''))"

section \<open>Sessions\<close>

definition baseURL :: "string \<Rightarrow> device_credential \<Rightarrow> string" where
  "baseURL bmcIP c = (let scheme = (if cd_HTTPScheme c = [] then ''https'' else cd_HTTPScheme c);
       port = (case cd_Port c of Some p \<Rightarrow> p | None \<Rightarrow> if scheme = ''http'' then 80 else 443) in
     scheme @ ''://'' @ bmcIP @ '':'' @ itoa port)"

definition portFromCred :: "device_credential \<Rightarrow> int" where
  "portFromCred c = (case cd_Port c of Some p \<Rightarrow> p | None \<Rightarrow> 443)"

text \<open>\<open>net\<close> is the network as seen with the certificate check that the credential asks for and the timeout in
  seconds.\<close>

type_synonym rs_network = "bool \<Rightarrow> int \<Rightarrow> basic_auth \<Rightarrow> string \<Rightarrow> nat \<Rightarrow> rs_answer"

definition openSession :: "rs_network \<Rightarrow> int \<Rightarrow> string \<Rightarrow> device_credential \<Rightarrow> string \<Rightarrow> rs_session" where
  "openSession net defaultTimeout bmcIP c password =
     \<lparr>se_net = net (cd_SSLVerify c) (if cd_TimeoutSeconds c \<le> 0 then defaultTimeout else cd_TimeoutSeconds c),
      se_base = baseURL bmcIP c, se_user = strDeref (cd_Username c) [], se_pass = password\<rparr>"

record connection_test =
  ct_Success :: bool
  ct_Message :: string
  ct_RedfishVersion :: string
  ct_ErrorCode :: string

definition emDash :: string where
  "emDash = [CHR 0xE2, CHR 0x80, CHR 0x94]"

definition rs_TestConnection :: "rs_network \<Rightarrow> string \<Rightarrow> device_credential \<Rightarrow> string \<Rightarrow> connection_test" where
  "rs_TestConnection net bmcIP c password =
     (let se = openSession net 30 bmcIP c password in
      case redfishGetWithRetry se (basicAuth [] []) ''/redfish/v1'' 2 of
        (Inl e, status) \<Rightarrow> \<lparr>ct_Success = False,
          ct_Message = ''Cannot reach Redfish endpoint ('' @ bmcIP @ '':'' @ itoa (portFromCred c) @ ''): '' @ e,
          ct_RedfishVersion = [], ct_ErrorCode = classifyError (Some e) status\<rparr>
      | (Inr data, _) \<Rightarrow> (case discoverSystemPath se of
          Inl e \<Rightarrow> \<lparr>ct_Success = False, ct_Message = ''Authentication failed: '' @ e, ct_RedfishVersion = [],
            ct_ErrorCode = (if contains e ''authentication failed'' then ''AUTH_FAILED'' else classifyError (Some e) 0)\<rparr>
        | Inr path \<Rightarrow> (let v = strField ''RedfishVersion'' data in
            \<lparr>ct_Success = True, ct_Message = ''Connection successful '' @ emDash @ '' Redfish v'' @ v,
             ct_RedfishVersion = v, ct_ErrorCode = []\<rparr>)))"


section \<open>What a synchronisation collects\<close>

record processor_info =
  pi_Name :: string
  pi_Model :: string
  pi_Manufacturer :: string
  pi_Socket :: string
  pi_Cores :: int
  pi_Threads :: int
  pi_SpeedMHz :: int
  pi_MaxSpeedMHz :: int
  pi_CacheSizeMiB :: int
  pi_Health :: string

record memory_info =
  mi_Name :: string
  mi_CapacityGB :: f64
  mi_Manufacturer :: string
  mi_PartNumber :: string
  mi_SerialNumber :: string
  mi_Location :: string
  mi_SpeedMHz :: int
  mi_MemoryType :: string
  mi_ECCEnabled :: "bool option"
  mi_Health :: string

record storage_controller =
  sc_Name :: string
  sc_Model :: string
  sc_Manufacturer :: string
  sc_Health :: string
  sc_FirmwareVer :: string
  sc_BatteryHealth :: string

record drive_info =
  di_Name :: string
  di_Model :: string
  di_Manufacturer :: string
  di_SerialNumber :: string
  di_CapacityGB :: f64
  di_MediaType :: string
  di_BusProtocol :: string
  di_TemperatureCelsius :: "f64 option"
  di_ReadPolicy :: string
  di_WritePolicy :: string
  di_Health :: string
  di_Status :: string

record virtual_disk =
  vd_Name :: string
  vd_RAIDLevel :: string
  vd_CapacityGB :: f64
  vd_ReadPolicy :: string
  vd_WritePolicy :: string
  vd_CachePolicy :: string
  vd_Health :: string
  vd_Status :: string

record storage_enclosure =
  en_Name :: string
  en_BackplaneID :: string
  en_Controller :: string
  en_Health :: string

record temperature_reading =
  tr_Name :: string
  tr_ReadingCelsius :: "f64 option"
  tr_UpperThreshWarn :: "f64 option"
  tr_UpperThreshCrit :: "f64 option"
  tr_Health :: string

record fan_reading =
  fr_Name :: string
  fr_FanID :: string
  fr_ReadingRPM :: "f64 option"
  fr_LowerThresh :: "f64 option"
  fr_Health :: string

record power_supply =
  ps_Name :: string
  ps_PowerInputWatts :: "f64 option"
  ps_PowerOutputWatts :: "f64 option"
  ps_LastPowerOutputW :: "f64 option"
  ps_PowerCapWatts :: "f64 option"
  ps_Health :: string
  ps_Status :: string
  ps_Redundancy :: string

record voltage_reading =
  vr_Name :: string
  vr_ReadingVolts :: "f64 option"
  vr_UpperThreshWarn :: "f64 option"
  vr_LowerThreshWarn :: "f64 option"
  vr_Health :: string

record full_nic =
  fn_Name :: string
  fn_Model :: string
  fn_FirmwareVersion :: string
  fn_MACAddress :: string
  fn_IPv4Address :: string
  fn_IPv6Address :: string
  fn_LinkStatus :: string
  fn_SpeedMbps :: int
  fn_Health :: string

record pcie_slot =
  pc_Name :: string
  pc_SlotType :: string
  pc_PCIeType :: string
  pc_Status :: string
  pc_DeviceName :: string

record sel_entry =
  le_ID :: string
  le_Severity :: string
  le_Message :: string
  le_Created :: string

record lifecycle_entry = sel_entry +
  le_Category :: string

record sync_step =
  ss_Name :: string
  ss_Status :: string
  ss_Message :: string

record os_info =
  oi_Name :: string
  oi_Version :: string
  oi_Kernel :: string
  oi_Hostname :: string
  oi_UptimeSeconds :: int

text \<open>\<open>DeviceSyncResult\<close>, in the order of the struct but split into three; \<open>Accelerators\<close> is left out, since
  nothing fills it.\<close>

record sync_system =
  sr_Success :: bool
  sr_Message :: string
  sr_Steps :: "sync_step list"
  sr_Manufacturer :: "string option"
  sr_Model :: "string option"
  sr_SerialNumber :: "string option"
  sr_ServiceTag :: "string option"
  sr_AssetTag :: "string option"
  sr_PowerState :: "string option"
  sr_HealthStatus :: "string option"
  sr_BIOSVersion :: "string option"
  sr_SystemUUID :: "string option"
  sr_SystemRevision :: "string option"
  sr_SystemUptimeSeconds :: "int option"
  sr_BootMode :: "string option"
  sr_LifecycleControllerVersion :: "string option"
  sr_IntrusionStatus :: "string option"

record sync_bmc = sync_system +
  sr_BMCFirmware :: "string option"
  sr_BMCName :: "string option"
  sr_BMCHardwareVersion :: "string option"
  sr_BMCMACAddress :: "string option"
  sr_BMCDNSName :: "string option"
  sr_BMCLicense :: "string option"
  sr_TotalPowerWatts :: "f64 option"
  sr_MemoryTotalGB :: "f64 option"
  sr_OS :: "os_info option"

record sync_result = sync_bmc +
  sr_Processors :: "processor_info list"
  sr_MemoryModules :: "memory_info list"
  sr_StorageControllers :: "storage_controller list"
  sr_Drives :: "drive_info list"
  sr_VirtualDisks :: "virtual_disk list"
  sr_StorageEnclosures :: "storage_enclosure list"
  sr_Temperatures :: "temperature_reading list"
  sr_Fans :: "fan_reading list"
  sr_PowerSupplies :: "power_supply list"
  sr_Voltages :: "voltage_reading list"
  sr_NICs :: "full_nic list"
  sr_PCIeSlots :: "pcie_slot list"
  sr_SELEntries :: "sel_entry list"
  sr_LifecycleLogs :: "lifecycle_entry list"

definition emptySync :: sync_result where
  "emptySync = \<lparr>sr_Success = False, sr_Message = [], sr_Steps = [], sr_Manufacturer = None, sr_Model = None,
     sr_SerialNumber = None, sr_ServiceTag = None, sr_AssetTag = None, sr_PowerState = None, sr_HealthStatus = None,
     sr_BIOSVersion = None, sr_SystemUUID = None, sr_SystemRevision = None, sr_SystemUptimeSeconds = None,
     sr_BootMode = None, sr_LifecycleControllerVersion = None, sr_IntrusionStatus = None, sr_BMCFirmware = None,
     sr_BMCName = None, sr_BMCHardwareVersion = None, sr_BMCMACAddress = None, sr_BMCDNSName = None,
     sr_BMCLicense = None, sr_TotalPowerWatts = None, sr_MemoryTotalGB = None, sr_OS = None, sr_Processors = [],
     sr_MemoryModules = [], sr_StorageControllers = [], sr_Drives = [], sr_VirtualDisks = [],
     sr_StorageEnclosures = [], sr_Temperatures = [], sr_Fans = [], sr_PowerSupplies = [], sr_Voltages = [],
     sr_NICs = [], sr_PCIeSlots = [], sr_SELEntries = [], sr_LifecycleLogs = []\<rparr>"

definition addStep :: "string \<Rightarrow> string \<Rightarrow> string \<Rightarrow> sync_result \<Rightarrow> sync_result" where
  "addStep name status msg r = r\<lparr>sr_Steps := sr_Steps r @ [\<lparr>ss_Name = name, ss_Status = status, ss_Message = msg\<rparr>]\<rparr>"


section \<open>The steps of a synchronisation\<close>

definition count :: "'a list \<Rightarrow> string" where
  "count xs = itoa (int (length xs))"

text \<open>Step 2, once the system resource was read.\<close>

definition stepSystem :: "(f64 \<Rightarrow> int) \<Rightarrow> jmap \<Rightarrow> sync_result \<Rightarrow> sync_result" where
  "stepSystem toI sys r = r\<lparr>sr_Success := True, sr_Message := ''Sync completed'',
     sr_Manufacturer := strVal sys ''Manufacturer'', sr_Model := strVal sys ''Model'',
     sr_SerialNumber := strVal sys ''SerialNumber'', sr_ServiceTag := strVal sys ''SKU'',
     sr_AssetTag := strVal sys ''AssetTag'', sr_PowerState := strVal sys ''PowerState'',
     sr_BIOSVersion := strVal sys ''BiosVersion'', sr_SystemUUID := strVal sys ''UUID'',
     sr_SystemRevision := strVal sys ''SystemType'',
     sr_SystemUptimeSeconds := map_option (\<lambda>m. wrap64 (m * 60)) (int64Val toI sys ''PowerOnMinutes''),
     sr_BootMode := (case objField ''Boot'' sys of None \<Rightarrow> sr_BootMode r | Some boot \<Rightarrow>
       (case strVal boot ''BootSourceOverrideMode'' of None \<Rightarrow> sr_BootMode r | Some mode \<Rightarrow> Some mode)),
     sr_HealthStatus := (case objField ''Status'' sys of None \<Rightarrow> sr_HealthStatus r | Some status \<Rightarrow>
       (case asStr (field ''Health'' status) of None \<Rightarrow> sr_HealthStatus r | Some h \<Rightarrow> Some h)),
     sr_LifecycleControllerVersion := (case objPath [''Oem'', ''Dell'', ''DellSystem''] sys of
       None \<Rightarrow> sr_LifecycleControllerVersion r | Some d \<Rightarrow> strVal d ''LifecycleControllerVersion'')\<rparr>"

text \<open>Step 3: the operating system, from its own resource or from the vendors' extensions.\<close>

definition oemOS :: "jmap \<Rightarrow> string \<times> string" where
  "oemOS oem = (let (n1, v1) = (case objPath [''Hpe''] oem of None \<Rightarrow> ([], [])
         | Some hpe \<Rightarrow> (strOr hpe ''OperatingSystemName'' [], strOr hpe ''OperatingSystemVersion'' [])) in
     case objPath [''Dell'', ''DellSystem''] oem of None \<Rightarrow> (n1, v1)
     | Some d \<Rightarrow> (strOr d ''OSName'' n1, strOr d ''OSVersion'' v1))"

definition osNamed :: "string \<Rightarrow> string \<Rightarrow> string \<Rightarrow> os_info" where
  "osNamed name version kern = \<lparr>oi_Name = name, oi_Version = version, oi_Kernel = kern, oi_Hostname = [], oi_UptimeSeconds = 0\<rparr>"

definition stepOS :: "rs_session \<Rightarrow> jmap \<Rightarrow> sync_result \<Rightarrow> sync_result" where
  "stepOS se sys r = (let link = oDataLink sys ''OperatingSystem'' in
     if link \<noteq> [] then (case rget se link of
         Inr d \<Rightarrow> addStep ''OS Information'' ''ok'' (strOr d ''Name'' [])
           (r\<lparr>sr_OS := Some (osNamed (strOr d ''Name'' []) (strOr d ''Version'' []) (strOr d ''KernelVersion'' []))\<rparr>)
       | Inl _ \<Rightarrow> addStep ''OS Information'' ''skipped'' ''not available'' r)
     else addStep ''OS Information'' ''skipped'' ''no dedicated OS link''
       (case objField ''Oem'' sys of None \<Rightarrow> r
        | Some oem \<Rightarrow> (case oemOS oem of (name, version) \<Rightarrow>
            if name \<noteq> [] then r\<lparr>sr_OS := Some (osNamed name version [])\<rparr> else r)))"

text \<open>Steps 4 to 6 and 8 follow a link of the system resource to a collection.\<close>

definition collectionStep ::
  "rs_session \<Rightarrow> jmap \<Rightarrow> string \<Rightarrow> string \<Rightarrow> (jmap list \<Rightarrow> sync_result \<Rightarrow> sync_result) \<Rightarrow> (sync_result \<Rightarrow> string) \<Rightarrow>
   sync_result \<Rightarrow> sync_result" where
  "collectionStep se sys key name f msg r = (let link = oDataLink sys key in
     if link = [] then addStep name ''skipped'' ''no link in system resource'' r
     else case redfishGetCollection se link of
       Inl e \<Rightarrow> addStep name ''error'' e r
     | Inr items \<Rightarrow> (let r1 = f items r in addStep name ''ok'' (msg r1) r1))"

definition parseProcessor :: "(f64 \<Rightarrow> int) \<Rightarrow> jmap \<Rightarrow> processor_info" where
  "parseProcessor toI p = \<lparr>pi_Name = strOr p ''Name'' (strOr p ''Id'' ''CPU''), pi_Model = strOr p ''Model'' [],
     pi_Manufacturer = strOr p ''Manufacturer'' [], pi_Socket = strOr p ''Socket'' [],
     pi_Cores = intVal toI p ''TotalCores'', pi_Threads = intVal toI p ''TotalThreads'',
     pi_SpeedMHz = intVal toI p ''OperatingSpeedMHz'', pi_MaxSpeedMHz = intVal toI p ''MaxSpeedMHz'',
     pi_CacheSizeMiB = fold (\<lambda>c s. wrap64 (s + intVal toI c ''MaxSizeMiB'')) (objects (arrField ''Cache'' p)) 0,
     pi_Health = healthVal p\<rparr>"

definition stepProcessors :: "(f64 \<Rightarrow> int) \<Rightarrow> rs_session \<Rightarrow> jmap \<Rightarrow> sync_result \<Rightarrow> sync_result" where
  "stepProcessors toI se sys = collectionStep se sys ''Processors'' ''Processors''
     (\<lambda>ps r. r\<lparr>sr_Processors := sr_Processors r @ map (parseProcessor toI) ps\<rparr>)
     (\<lambda>r. count (sr_Processors r) @ '' found'')"

definition parseMemory :: "(f64 \<Rightarrow> int) \<Rightarrow> jmap \<Rightarrow> memory_info" where
  "parseMemory toI m = \<lparr>mi_Name = strOr m ''Name'' (strOr m ''Id'' ''DIMM''),
     mi_CapacityGB = (case floatVal m ''CapacityMiB'' of None \<Rightarrow> Fin 0 | Some c \<Rightarrow> fdiv c (Fin 1024)),
     mi_Manufacturer = strOr m ''Manufacturer'' [], mi_PartNumber = strOr m ''PartNumber'' [],
     mi_SerialNumber = strOr m ''SerialNumber'' [],
     mi_Location = strOr m ''DeviceLocator'' (strOr m ''MemoryLocation'' []),
     mi_SpeedMHz = intVal toI m ''OperatingSpeedMhz'',
     mi_MemoryType = strOr m ''MemoryDeviceType'' (strOr m ''MemoryType'' []),
     mi_ECCEnabled = map_option (\<lambda>ec. contains (toLower ec) ''ecc'' \<or> contains (toLower ec) ''multi'') (strVal m ''ErrorCorrection''),
     mi_Health = healthVal m\<rparr>"

definition totalMiB :: "jmap list \<Rightarrow> f64" where
  "totalMiB ms = fold (\<lambda>m s. case floatVal m ''CapacityMiB'' of None \<Rightarrow> s | Some c \<Rightarrow> fadd s c) ms (Fin 0)"

definition stepMemory :: "(f64 \<Rightarrow> int) \<Rightarrow> rs_session \<Rightarrow> jmap \<Rightarrow> sync_result \<Rightarrow> sync_result" where
  "stepMemory toI se sys = collectionStep se sys ''Memory'' ''Memory''
     (\<lambda>ms r. r\<lparr>sr_MemoryModules := sr_MemoryModules r @ map (parseMemory toI) ms,
        sr_MemoryTotalGB := (if flt (Fin 0) (totalMiB ms) then Some (fdiv (totalMiB ms) (Fin 1024)) else sr_MemoryTotalGB r)\<rparr>)
     (\<lambda>r. count (sr_MemoryModules r) @ '' modules'')"

definition bytesToGB :: "f64 option \<Rightarrow> f64" where
  "bytesToGB x = (case x of None \<Rightarrow> Fin 0 | Some b \<Rightarrow> fdiv b (Fin 1073741824))"

definition parseDrive :: "jmap \<Rightarrow> drive_info" where
  "parseDrive d = \<lparr>di_Name = strOr d ''Name'' (strOr d ''Id'' ''Drive''), di_Model = strOr d ''Model'' [],
     di_Manufacturer = strOr d ''Manufacturer'' [], di_SerialNumber = strOr d ''SerialNumber'' [],
     di_CapacityGB = bytesToGB (floatVal d ''CapacityBytes''), di_MediaType = strOr d ''MediaType'' [],
     di_BusProtocol = strOr d ''Protocol'' [], di_TemperatureCelsius = floatVal d ''TemperatureCelsius'',
     di_ReadPolicy = strOr d ''ReadCachePolicy'' [], di_WritePolicy = strOr d ''WriteCachePolicy'' [],
     di_Health = healthVal d, di_Status = stateVal d\<rparr>"

definition parseVolume :: "jmap \<Rightarrow> virtual_disk" where
  "parseVolume v = \<lparr>vd_Name = strOr v ''Name'' (strOr v ''Id'' ''VD''),
     vd_RAIDLevel = strOr v ''RAIDType'' (strOr v ''VolumeType'' []),
     vd_CapacityGB = bytesToGB (floatVal v ''CapacityBytes''), vd_ReadPolicy = strOr v ''ReadCachePolicy'' [],
     vd_WritePolicy = strOr v ''WriteCachePolicy'' [], vd_CachePolicy = strOr v ''CacheSetting'' [],
     vd_Health = healthVal v, vd_Status = stateVal v\<rparr>"

text \<open>A collection whose failure is not looked at.\<close>

definition collectionOrNone :: "rs_session \<Rightarrow> string \<Rightarrow> jmap list" where
  "collectionOrNone se link = (if link = [] then []
     else case redfishGetCollection se link of Inl _ \<Rightarrow> [] | Inr items \<Rightarrow> items)"

definition controllerDrives :: "rs_session \<Rightarrow> jmap \<Rightarrow> drive_info list" where
  "controllerDrives se ctrl = (if oDataLink ctrl ''Drives'' \<noteq> []
     then map parseDrive (collectionOrNone se (oDataLink ctrl ''Drives''))
     else List.map_filter (\<lambda>link. case asStr (field ''@odata.id'' link) of None \<Rightarrow> None
       | Some href \<Rightarrow> (case rget se href of Inl _ \<Rightarrow> None | Inr d \<Rightarrow> Some (parseDrive d)))
       (objects (arrField ''Drives'' ctrl)))"

definition parseController :: "jmap \<Rightarrow> storage_controller" where
  "parseController ctrl = \<lparr>sc_Name = strOr ctrl ''Name'' (strOr ctrl ''Id'' ''Controller''),
     sc_Model = strOr ctrl ''Model'' [], sc_Manufacturer = strOr ctrl ''Manufacturer'' [], sc_Health = healthVal ctrl,
     sc_FirmwareVer = (case firstObject ''StorageControllers'' ctrl of None \<Rightarrow> [] | Some c0 \<Rightarrow> strOr c0 ''FirmwareVersion'' []),
     sc_BatteryHealth = (case objPath [''Oem'', ''Dell'', ''DellControllerBattery''] ctrl of None \<Rightarrow> [] | Some bat \<Rightarrow> healthVal bat)\<rparr>"

definition addController :: "rs_session \<Rightarrow> jmap \<Rightarrow> sync_result \<Rightarrow> sync_result" where
  "addController se ctrl r = r\<lparr>sr_StorageControllers := sr_StorageControllers r @ [parseController ctrl],
     sr_Drives := sr_Drives r @ controllerDrives se ctrl,
     sr_VirtualDisks := sr_VirtualDisks r @ map parseVolume (collectionOrNone se (oDataLink ctrl ''Volumes'')),
     sr_StorageEnclosures := sr_StorageEnclosures r @ map (\<lambda>e. \<lparr>en_Name = strOr e ''Name'' (strOr e ''Id'' ''Enclosure''),
       en_BackplaneID = strOr e ''Id'' [], en_Controller = sc_Name (parseController ctrl), en_Health = healthVal e\<rparr>)
       (collectionOrNone se (oDataLink ctrl ''Enclosures''))\<rparr>"

definition stepStorage :: "rs_session \<Rightarrow> jmap \<Rightarrow> sync_result \<Rightarrow> sync_result" where
  "stepStorage se sys = collectionStep se sys ''Storage'' ''Storage'' (\<lambda>cs r. fold (addController se) cs r)
     (\<lambda>r. count (sr_StorageControllers r) @ '' controllers, '' @ count (sr_Drives r) @ '' drives, '' @
        count (sr_VirtualDisks r) @ '' virtual, '' @ count (sr_StorageEnclosures r) @ '' enclosures'')"


text \<open>Step 7: the chassis.\<close>

definition parseTemperature :: "jmap \<Rightarrow> temperature_reading" where
  "parseTemperature t = \<lparr>tr_Name = strOr t ''Name'' ''Sensor'', tr_ReadingCelsius = floatVal t ''ReadingCelsius'',
     tr_UpperThreshWarn = floatVal t ''UpperThresholdNonCritical'',
     tr_UpperThreshCrit = floatVal t ''UpperThresholdCritical'', tr_Health = healthVal t\<rparr>"

definition parseFan :: "jmap \<Rightarrow> fan_reading" where
  "parseFan f = \<lparr>fr_Name = strOr f ''Name'' (strOr f ''FanName'' ''Fan''), fr_FanID = strOr f ''MemberId'' (strOr f ''Id'' []),
     fr_ReadingRPM = (case floatVal f ''Reading'' of Some x \<Rightarrow> Some x | None \<Rightarrow> floatVal f ''ReadingRPM''),
     fr_LowerThresh = floatVal f ''LowerThresholdNonCritical'', fr_Health = healthVal f\<rparr>"

definition stepThermal :: "rs_session \<Rightarrow> string \<Rightarrow> sync_result \<Rightarrow> sync_result" where
  "stepThermal se chassis r = (case rget se (chassis @ ''/Thermal'') of
     Inl e \<Rightarrow> addStep ''Thermal Sensors'' ''error'' e r
   | Inr d \<Rightarrow> (let r1 = r\<lparr>sr_Temperatures := sr_Temperatures r @ map parseTemperature (objects (arrField ''Temperatures'' d)),
         sr_Fans := sr_Fans r @ map parseFan (objects (arrField ''Fans'' d))\<rparr> in
       addStep ''Thermal Sensors'' ''ok'' (count (sr_Temperatures r1) @ '' temps, '' @ count (sr_Fans r1) @ '' fans'') r1))"

definition parsePSU :: "jmap \<Rightarrow> power_supply" where
  "parsePSU p = \<lparr>ps_Name = strOr p ''Name'' (strOr p ''MemberId'' ''PSU''), ps_PowerInputWatts = floatVal p ''PowerInputWatts'',
     ps_PowerOutputWatts = floatVal p ''PowerOutputWatts'', ps_LastPowerOutputW = floatVal p ''LastPowerOutputWatts'',
     ps_PowerCapWatts = floatVal p ''PowerCapacityWatts'', ps_Health = healthVal p, ps_Status = stateVal p,
     ps_Redundancy = (case firstObject ''Redundancy'' p of None \<Rightarrow> [] | Some r0 \<Rightarrow> strOr r0 ''Mode'' [])\<rparr>"

definition parseVoltage :: "jmap \<Rightarrow> voltage_reading" where
  "parseVoltage v = \<lparr>vr_Name = strOr v ''Name'' ''Voltage'', vr_ReadingVolts = floatVal v ''ReadingVolts'',
     vr_UpperThreshWarn = floatVal v ''UpperThresholdNonCritical'',
     vr_LowerThreshWarn = floatVal v ''LowerThresholdNonCritical'', vr_Health = healthVal v\<rparr>"

definition stepPower :: "rs_session \<Rightarrow> string \<Rightarrow> sync_result \<Rightarrow> sync_result" where
  "stepPower se chassis r = (case rget se (chassis @ ''/Power'') of
     Inl e \<Rightarrow> addStep ''Power & Voltages'' ''error'' e r
   | Inr d \<Rightarrow> (let r1 = r\<lparr>sr_TotalPowerWatts := (case firstObject ''PowerControl'' d of None \<Rightarrow> sr_TotalPowerWatts r
             | Some ctrl \<Rightarrow> floatVal ctrl ''PowerConsumedWatts''),
         sr_PowerSupplies := sr_PowerSupplies r @ map parsePSU (objects (arrField ''PowerSupplies'' d)),
         sr_Voltages := sr_Voltages r @ map parseVoltage (objects (arrField ''Voltages'' d))\<rparr> in
       addStep ''Power & Voltages'' ''ok'' (count (sr_PowerSupplies r1) @ '' PSUs, '' @ count (sr_Voltages r1) @ '' voltages'') r1))"

definition stepIntrusion :: "rs_session \<Rightarrow> string \<Rightarrow> sync_result \<Rightarrow> sync_result" where
  "stepIntrusion se chassis r = (case rget se chassis of
     Inl _ \<Rightarrow> r
   | Inr d \<Rightarrow> (case objField ''PhysicalSecurity'' d of None \<Rightarrow> r | Some phy \<Rightarrow>
       (case asStr (field ''IntrusionSensor'' phy) of None \<Rightarrow> r | Some state \<Rightarrow> r\<lparr>sr_IntrusionStatus := Some state\<rparr>)))"

definition stepChassis :: "rs_session \<Rightarrow> sync_result \<Rightarrow> sync_result" where
  "stepChassis se r = (let chassis = discoverChassisPath se in
     if chassis \<noteq> [] then stepIntrusion se chassis (stepPower se chassis (stepThermal se chassis r))
     else addStep ''Power & Voltages'' ''skipped'' ''chassis path not found''
       (addStep ''Thermal Sensors'' ''skipped'' ''chassis path not found'' r))"

text \<open>Step 8: the network interfaces; one without a MAC address is passed over.\<close>

definition nicMac :: "jmap \<Rightarrow> string" where
  "nicMac n = strOr n ''MACAddress'' (strOr n ''PermanentMACAddress'' [])"

definition parseNic :: "(f64 \<Rightarrow> int) \<Rightarrow> jmap \<Rightarrow> full_nic" where
  "parseNic toI n = \<lparr>fn_Name = strOr n ''Name'' (strOr n ''Id'' ''NIC''), fn_Model = strOr n ''Description'' [],
     fn_FirmwareVersion = (case strVal n ''FirmwareVersion'' of Some fw \<Rightarrow> fw
       | None \<Rightarrow> (case objPath [''Oem'', ''Dell'', ''DellNIC''] n of None \<Rightarrow> [] | Some d \<Rightarrow> strOr d ''FamilyVersion'' [])),
     fn_MACAddress = nicMac n,
     fn_IPv4Address = (case firstObject ''IPv4Addresses'' n of None \<Rightarrow> [] | Some a \<Rightarrow> strOr a ''Address'' []),
     fn_IPv6Address = (case firstObject ''IPv6Addresses'' n of None \<Rightarrow> [] | Some a \<Rightarrow> strOr a ''Address'' []),
     fn_LinkStatus = strOr n ''LinkStatus'' [], fn_SpeedMbps = intVal toI n ''SpeedMbps'', fn_Health = healthVal n\<rparr>"

definition stepNics :: "(f64 \<Rightarrow> int) \<Rightarrow> rs_session \<Rightarrow> jmap \<Rightarrow> sync_result \<Rightarrow> sync_result" where
  "stepNics toI se sys = collectionStep se sys ''EthernetInterfaces'' ''Network Interfaces''
     (\<lambda>ns r. r\<lparr>sr_NICs := sr_NICs r @ map (parseNic toI) (filter (\<lambda>n. nicMac n \<noteq> []) ns)\<rparr>)
     (\<lambda>r. count (sr_NICs r) @ '' NICs'')"

text \<open>Step 9: the slots, numbered by their place in the array.\<close>

definition parseSlot :: "nat \<times> json \<Rightarrow> pcie_slot option" where
  "parseSlot ix = (case ix of (i, s) \<Rightarrow> (case asObj (Some s) of None \<Rightarrow> None
     | Some sm \<Rightarrow> Some \<lparr>pc_Name = ''Slot '' @ itoa (int i + 1), pc_SlotType = strOr sm ''SlotType'' [],
         pc_PCIeType = strOr sm ''PCIeType'' [], pc_Status = stateVal sm,
         pc_DeviceName = (case firstObject ''PCIeDevice'' sm of None \<Rightarrow> [] | Some d \<Rightarrow> strOr d ''Name'' [])\<rparr>))"

definition stepSlots :: "rs_session \<Rightarrow> jmap \<Rightarrow> sync_result \<Rightarrow> sync_result" where
  "stepSlots se sys r = (let link = oDataLink sys ''PCIeSlots'' in
     if link = [] then addStep ''PCIe Slots'' ''skipped'' ''no link in system resource'' r
     else case rget se link of
       Inl e \<Rightarrow> addStep ''PCIe Slots'' ''error'' e r
     | Inr d \<Rightarrow> (let r1 = r\<lparr>sr_PCIeSlots := sr_PCIeSlots r @ List.map_filter parseSlot (enumerate 0 (arrField ''Slots'' d))\<rparr> in
         addStep ''PCIe Slots'' ''ok'' (count (sr_PCIeSlots r1) @ '' slots'') r1))"

text \<open>Step 10: the manager; the first address and the first name among its interfaces count.\<close>

definition addBmcInterface :: "jmap \<Rightarrow> sync_result \<Rightarrow> sync_result" where
  "addBmcInterface e r = (let keep = (\<lambda>old key. case old of None \<Rightarrow> strVal e key | Some v \<Rightarrow> Some v) in
     r\<lparr>sr_BMCMACAddress := keep (sr_BMCMACAddress r) ''MACAddress'',
       sr_BMCDNSName := keep (keep (sr_BMCDNSName r) ''FQDN'') ''HostName''\<rparr>)"

definition stepManager :: "rs_session \<Rightarrow> string \<Rightarrow> sync_result \<Rightarrow> sync_result" where
  "stepManager se manager r = (case rget se manager of
     Inl e \<Rightarrow> addStep ''BMC Info'' ''error'' e r
   | Inr m \<Rightarrow>
     (let r1 = r\<lparr>sr_BMCFirmware := strVal m ''FirmwareVersion'', sr_BMCName := strVal m ''Name'',
            sr_BMCHardwareVersion := strVal m ''HardwareVersion''\<rparr>;
          r2 = fold addBmcInterface (collectionOrNone se (oDataLink m ''EthernetInterfaces'')) r1;
          r3 = (case objPath [''Oem'', ''Dell'', ''iDRAC'', ''License''] m of None \<Rightarrow> r2
            | Some lic \<Rightarrow> r2\<lparr>sr_BMCLicense := strVal lic ''LicenseDescription''\<rparr>) in
      addStep ''BMC Info'' ''ok'' (strDeref (sr_BMCFirmware r3) ''unknown'') r3))"

text \<open>Steps 11 and 12: the first log service that answers; a nil slice and an answer without entries are
  the same to the caller.\<close>

definition parseSel :: "jmap \<Rightarrow> sel_entry" where
  "parseSel e = \<lparr>le_ID = strOr e ''Id'' [], le_Severity = strOr e ''Severity'' ''Info'',
     le_Message = strOr e ''Message'' (strOr e ''Name'' []), le_Created = strOr e ''Created'' []\<rparr>"

definition parseLifecycle :: "jmap \<Rightarrow> lifecycle_entry" where
  "parseLifecycle e = \<lparr>le_ID = strOr e ''Id'' [], le_Severity = strOr e ''Severity'' ''Info'',
     le_Message = strOr e ''Message'' (strOr e ''Name'' []), le_Created = strOr e ''Created'' [],
     le_Category = (case objPath [''Oem'', ''Dell''] e of None \<Rightarrow> [] | Some d \<Rightarrow> strOr d ''Category'' [])\<rparr>"

fun firstLog :: "rs_session \<Rightarrow> string list \<Rightarrow> jmap list" where
  "firstLog se [] = []"
| "firstLog se (p # ps) = (case rget se p of Inl _ \<Rightarrow> firstLog se ps | Inr d \<Rightarrow> objects (arrField ''Members'' d))"

definition collectSEL :: "rs_session \<Rightarrow> string \<Rightarrow> sel_entry list" where
  "collectSEL se manager = map parseSel (firstLog se [manager @ ''/LogServices/Sel/Entries'',
     manager @ ''/LogServices/SEL/Entries'', manager @ ''/LogServices/Log1/Entries''])"

definition collectLifecycleLogs :: "rs_session \<Rightarrow> string \<Rightarrow> lifecycle_entry list" where
  "collectLifecycleLogs se manager = map parseLifecycle (firstLog se [manager @ ''/LogServices/Lclog/Entries'',
     manager @ ''/LogServices/LCLog/Entries'', manager @ ''/LogServices/Audit/Entries'', manager @ ''/LogServices/AuditLog/Entries''])"

definition stepLogs :: "rs_session \<Rightarrow> string \<Rightarrow> sync_result \<Rightarrow> sync_result" where
  "stepLogs se manager r =
     (let sel = collectSEL se manager; lc = collectLifecycleLogs se manager;
          r1 = (if sel \<noteq> [] then addStep ''System Event Log'' ''ok'' (count sel @ '' entries'') (r\<lparr>sr_SELEntries := sel\<rparr>)
            else addStep ''System Event Log'' ''skipped'' ''SEL not available'' r) in
      if lc \<noteq> [] then addStep ''Lifecycle Logs'' ''ok'' (count lc @ '' entries'') (r1\<lparr>sr_LifecycleLogs := lc\<rparr>)
      else addStep ''Lifecycle Logs'' ''skipped'' ''not available'' r1)"

definition stepBmc :: "rs_session \<Rightarrow> sync_result \<Rightarrow> sync_result" where
  "stepBmc se r = (let manager = discoverManagerPath se; missing = ''manager path not found'' in
     if manager \<noteq> [] then stepLogs se manager (stepManager se manager r)
     else addStep ''Lifecycle Logs'' ''skipped'' missing (addStep ''System Event Log'' ''skipped'' missing
       (addStep ''BMC Info'' ''skipped'' missing r)))"

text \<open>The whole synchronisation: the result, and the error when the system resource cannot be had.\<close>

definition rs_SyncDevice ::
  "(f64 \<Rightarrow> int) \<Rightarrow> rs_network \<Rightarrow> string \<Rightarrow> device_credential \<Rightarrow> string \<Rightarrow> sync_result \<times> string option" where
  "rs_SyncDevice toI net bmcIP c password =
     (let se = openSession net 60 bmcIP c password in
      case discoverSystemPath se of
        Inl e \<Rightarrow> (addStep ''System Discovery'' ''error'' e emptySync, Some (''system discovery failed: '' @ e))
      | Inr path \<Rightarrow> (let r1 = addStep ''System Discovery'' ''ok'' path emptySync in
          case rget se path of
            Inl e \<Rightarrow> (addStep ''System Information'' ''error'' e r1, Some (''failed to retrieve system information: '' @ e))
          | Inr sys \<Rightarrow> (stepBmc se (stepSlots se sys (stepNics toI se sys (stepChassis se
              (stepStorage se sys (stepMemory toI se sys (stepProcessors toI se sys (stepOS se sys
                (stepSystem toI sys (addStep ''System Information'' ''ok'' [] r1))))))))), None)))"


section \<open>Control\<close>

text \<open>A request that changes something is sent once: its outcome, with the status.\<close>

record rs_write =
  rw_method :: string
  rw_url :: string
  rw_auth :: basic_auth
  rw_body :: jmap

type_synonym rs_writer = "bool \<Rightarrow> int \<Rightarrow> rs_write \<Rightarrow> rs_answer"

definition redfishPost :: "rs_answer \<Rightarrow> string option \<times> int" where
  "redfishPost a = (case a of
     BadUrl e \<Rightarrow> (Some (''create request: '' @ e), 0)
   | Transport e \<Rightarrow> (Some (''request failed: '' @ e), 0)
   | CtxDone e \<Rightarrow> (Some (''request failed: '' @ e), 0)
   | Reply code body decoded \<Rightarrow>
       (if code = 401 \<or> code = 403 then (Some (authError code), code)
        else if code \<ge> 400 then (Some (httpError code body), code) else (None, code)))"

definition redfishPatch :: "rs_answer \<Rightarrow> string option \<times> int" where
  "redfishPatch a = (case a of
     BadUrl e \<Rightarrow> (Some (''create request: '' @ e), 0)
   | Transport e \<Rightarrow> (Some (''request failed: '' @ e), 0)
   | CtxDone e \<Rightarrow> (Some (''request failed: '' @ e), 0)
   | Reply code body decoded \<Rightarrow>
       (if code = 401 \<or> code = 403 then (Some (authError code), code)
        else if code \<ge> 400 then (Some (httpError code body), code) else (None, code)))"

record control_result =
  cr_Success :: bool
  cr_Message :: string
  cr_Target :: string

definition sessionTimeout :: "int \<Rightarrow> device_credential \<Rightarrow> int" where
  "sessionTimeout d c = (if cd_TimeoutSeconds c \<le> 0 then d else cd_TimeoutSeconds c)"

definition resetTarget :: "string \<Rightarrow> jmap \<Rightarrow> string" where
  "resetTarget path sys = (case objPath [''Actions'', ''#ComputerSystem.Reset''] sys of
     None \<Rightarrow> path @ ''/Actions/ComputerSystem.Reset''
   | Some reset \<Rightarrow> (case strVal reset ''target'' of None \<Rightarrow> path @ ''/Actions/ComputerSystem.Reset'' | Some t \<Rightarrow> t))"

text \<open>The operations return the requests they sent beside their result.\<close>

definition rs_PowerControl ::
  "rs_network \<Rightarrow> rs_writer \<Rightarrow> string \<Rightarrow> device_credential \<Rightarrow> string \<Rightarrow> string \<Rightarrow> control_result \<times> rs_write list" where
  "rs_PowerControl net wr bmcIP c password resetType =
     (let se = openSession net 30 bmcIP c password;
          failed = (\<lambda>m. \<lparr>cr_Success = False, cr_Message = m, cr_Target = resetType\<rparr>) in
      case discoverSystemPath se of
        Inl e \<Rightarrow> (failed (''System discovery failed: '' @ e), [])
      | Inr path \<Rightarrow> (case rget se path of
          Inl e \<Rightarrow> (failed (''Failed to read system resource: '' @ e), [])
        | Inr sys \<Rightarrow>
            (let w = \<lparr>rw_method = ''POST'', rw_url = se_base se @ resetTarget path sys,
                   rw_auth = basicAuth (se_user se) (se_pass se), rw_body = [(''ResetType'', JStr resetType)]\<rparr> in
             case redfishPost (wr (cd_SSLVerify c) (sessionTimeout 30 c) w) of
               (Some e, status) \<Rightarrow> (failed (''Power control failed (HTTP '' @ itoa status @ '', '' @
                  classifyError (Some e) status @ ''): '' @ e), [w])
             | (None, _) \<Rightarrow> (\<lparr>cr_Success = True, cr_Message = ''Power action '' @ quoted resetType @ '' sent successfully'',
                  cr_Target = resetType\<rparr>, [w]))))"

definition rs_BootControl ::
  "rs_network \<Rightarrow> rs_writer \<Rightarrow> string \<Rightarrow> device_credential \<Rightarrow> string \<Rightarrow> string \<Rightarrow> bool \<Rightarrow> control_result \<times> rs_write list" where
  "rs_BootControl net wr bmcIP c password target once =
     (let se = openSession net 30 bmcIP c password;
          failed = (\<lambda>m. \<lparr>cr_Success = False, cr_Message = m, cr_Target = target\<rparr>);
          enabled = (if once then ''Once'' else ''Continuous'') in
      case discoverSystemPath se of
        Inl e \<Rightarrow> (failed (''System discovery failed: '' @ e), [])
      | Inr path \<Rightarrow>
          (let w = \<lparr>rw_method = ''PATCH'', rw_url = se_base se @ path, rw_auth = basicAuth (se_user se) (se_pass se),
                 rw_body = [(''Boot'', JObj [(''BootSourceOverrideTarget'', JStr target), (''BootSourceOverrideEnabled'', JStr enabled)])]\<rparr> in
           case redfishPatch (wr (cd_SSLVerify c) (sessionTimeout 30 c) w) of
             (Some e, status) \<Rightarrow> (failed (''Boot control failed (HTTP '' @ itoa status @ ''): '' @ e), [w])
           | (None, _) \<Rightarrow> (\<lparr>cr_Success = True,
                cr_Message = ''Boot override '' @ quoted target @ '' ('' @ enabled @ '') set successfully'', cr_Target = target\<rparr>, [w])))"

section \<open>Reading with repetition\<close>

text \<open>An attempt is worth another one when it got no answer or the server failed.\<close>

fun worthRetry :: "rs_answer \<Rightarrow> bool" where
  "worthRetry (Transport e) = True"
| "worthRetry (Reply code body decoded) = (code \<ge> 500)"
| "worthRetry _ = False"

text \<open>What a decisive attempt means for the reader, and what is reported when none is.\<close>

fun decided :: "rs_answer \<Rightarrow> jmap result \<times> int" where
  "decided (CtxDone e) = (Inl e, 0)"
| "decided (BadUrl e) = (Inl (''create request: '' @ e), 0)"
| "decided (Transport e) = (Inl (''request failed: '' @ e), 0)"
| "decided (Reply code body dec) =
     (if code = 401 \<or> code = 403 then (Inl (authError code), code)
      else if code \<noteq> 200 then (Inl (httpError code body), code)
      else case dec of Inl e \<Rightarrow> (Inl (''decode JSON: '' @ e), code) | Inr m \<Rightarrow> (Inr m, code))"

definition lastStatusOf :: "rs_answer \<Rightarrow> int \<Rightarrow> int" where
  "lastStatusOf a s = (case a of Reply code _ _ \<Rightarrow> code | _ \<Rightarrow> s)"

lemma getLoop_step:
  "getLoop ans n (Suc left) s e = (if worthRetry (ans n)
     then getLoop ans (n + 1) left (lastStatusOf (ans n) s) (case fst (decided (ans n)) of Inl e' \<Rightarrow> e' | Inr _ \<Rightarrow> e)
     else decided (ans n))"
  by (cases "ans n") (auto simp: lastStatusOf_def split: sum.split)

text \<open>A read of the controller is decided by the first of its three attempts that is not worth another
  one, that is, which neither failed on the way nor met a failing server; a refused login, a client
  error, an unreadable body and the end of the request decide at once. When no attempt decides, the
  error is that of the third.\<close>

theorem redfish_read_outcome:
  "rget se path = (let a = se_net se (basicAuth (se_user se) (se_pass se)) (se_base se @ path) in
     fst (decided (if \<not> worthRetry (a 0) then a 0 else if \<not> worthRetry (a 1) then a 1 else a 2)))"
proof -
  define a where "a = se_net se (basicAuth (se_user se) (se_pass se)) (se_base se @ path)"
  have err: "(case fst (decided x) of Inl e' \<Rightarrow> e' | Inr _ \<Rightarrow> e) = e'" if "worthRetry x" "fst (decided x) = Inl e'" for x e e'
    using that by simp
  have w: "\<exists>e. fst (decided x) = Inl e" if "worthRetry x" for x
    using that by (cases x) auto
  have "rget se path = fst (getLoop a 0 (Suc (Suc (Suc 0))) 0 [])"
    unfolding rget_def redfishGet_def redfishGetWithRetry_def a_def by (simp add: numeral_2_eq_2)
  also have "\<dots> = fst (decided (if \<not> worthRetry (a 0) then a 0 else if \<not> worthRetry (a 1) then a 1 else a 2))"
    using w [of "a 0"] w [of "a 1"] w [of "a 2"]
    unfolding getLoop_step by (auto simp: numeral_2_eq_2)
  finally show ?thesis by (simp add: a_def Let_def)
qed


section \<open>A synchronisation reports every part\<close>

definition stepNames :: "sync_result \<Rightarrow> string list" where
  "stepNames r = map ss_Name (sr_Steps r)"

definition syncStatuses :: "string list" where
  "syncStatuses = [''ok'', ''error'', ''skipped'']"

definition steps_ok :: "sync_result \<Rightarrow> bool" where
  "steps_ok r = list_all (\<lambda>s. ss_Status s \<in> set syncStatuses) (sr_Steps r)"

named_theorems sync_steps \<open>what a step of the synchronisation adds to the report\<close>

lemma addStep_report [sync_steps]:
  "stepNames (addStep n st m r) = stepNames r @ [n]"
  "steps_ok (addStep n st m r) = (st \<in> set syncStatuses \<and> steps_ok r)"
  "sr_Success (addStep n st m r) = sr_Success r"
  by (auto simp: addStep_def stepNames_def steps_ok_def)

lemma statuses [simp]: "''ok'' \<in> set syncStatuses" "''error'' \<in> set syncStatuses" "''skipped'' \<in> set syncStatuses"
  by (simp_all add: syncStatuses_def)

text \<open>A step adds the parts \<open>ns\<close> to the report and nothing else of it.\<close>

definition reports :: "string list \<Rightarrow> (sync_result \<Rightarrow> sync_result) \<Rightarrow> bool" where
  "reports ns f = (\<forall>r. stepNames (f r) = stepNames r @ ns \<and> (steps_ok r \<longrightarrow> steps_ok (f r)) \<and> sr_Success (f r) = sr_Success r)"

lemma reportsI:
  "(\<And>r. stepNames (f r) = stepNames r @ ns) \<Longrightarrow> (\<And>r. steps_ok r \<Longrightarrow> steps_ok (f r)) \<Longrightarrow>
     (\<And>r. sr_Success (f r) = sr_Success r) \<Longrightarrow> reports ns f"
  by (simp add: reports_def)

lemma reports_comp: "reports ms g \<Longrightarrow> reports ns f \<Longrightarrow> reports (ns @ ms) (\<lambda>r. g (f r))"
  by (simp add: reports_def)

lemma reports_addStep: "st \<in> set syncStatuses \<Longrightarrow> reports [n] (addStep n st m)"
  by (rule reportsI) (simp_all add: sync_steps)

lemma reports_collection:
  assumes "\<And>items. reports [] (f items)"
  shows "reports [name] (collectionStep se sys key name f msg)"
  using assms unfolding reports_def collectionStep_def
  by (auto simp: Let_def sync_steps split: sum.split)

lemma steps_unchanged:
  "sr_Steps (f r) = sr_Steps r \<Longrightarrow> stepNames (f r) = stepNames r \<and> steps_ok (f r) = steps_ok r"
  by (simp add: stepNames_def steps_ok_def)

lemma reports_silent: "(\<And>r. sr_Steps (f r) = sr_Steps r) \<Longrightarrow> (\<And>r. sr_Success (f r) = sr_Success r) \<Longrightarrow> reports [] f"
  by (rule reportsI) (simp_all add: stepNames_def steps_ok_def)

lemma fold_silent:
  "(\<And>x r. sr_Steps (f x r) = sr_Steps r) \<Longrightarrow> sr_Steps (fold f xs r) = sr_Steps r"
  "(\<And>x r. sr_Success (f x r) = sr_Success r) \<Longrightarrow> sr_Success (fold f xs r) = sr_Success r"
  by (induction xs arbitrary: r) auto

lemma link_steps_report:
  "reports [''Processors''] (stepProcessors toI se sys)"
  "reports [''Memory''] (stepMemory toI se sys)"
  "reports [''Storage''] (stepStorage se sys)"
  "reports [''Network Interfaces''] (stepNics toI se sys)"
  unfolding stepProcessors_def stepMemory_def stepStorage_def stepNics_def
  by (rule reports_collection, rule reports_silent; simp add: fold_silent addController_def)+

lemmas report_unfold = reports_def stepNames_def steps_ok_def addStep_def

lemma single_steps_report:
  "reports [''OS Information''] (stepOS se sys)"
  "reports [''PCIe Slots''] (stepSlots se sys)"
  "reports [''Thermal Sensors''] (stepThermal se chassis)"
  "reports [''Power & Voltages''] (stepPower se chassis)"
  "reports [] (stepIntrusion se chassis)"
  "reports [''System Event Log'', ''Lifecycle Logs''] (stepLogs se manager)"
  unfolding stepOS_def stepSlots_def stepThermal_def stepPower_def stepIntrusion_def stepLogs_def report_unfold
  by (auto simp: Let_def split: sum.split option.split prod.split)

lemma manager_reports: "reports [''BMC Info''] (stepManager se manager)"
proof -
  have f: "sr_Steps (fold addBmcInterface xs r) = sr_Steps r \<and> sr_Success (fold addBmcInterface xs r) = sr_Success r" for xs r
    by (simp add: fold_silent addBmcInterface_def Let_def)
  show ?thesis unfolding stepManager_def report_unfold
    by (auto simp: Let_def f split: sum.split option.split)
qed

lemma chassis_reports: "reports [''Thermal Sensors'', ''Power & Voltages''] (stepChassis se)"
proof (cases "discoverChassisPath se = []")
  case True
  then show ?thesis unfolding stepChassis_def report_unfold by (simp add: Let_def)
next
  case False
  then have "stepChassis se = (\<lambda>r. stepIntrusion se (discoverChassisPath se) (stepPower se (discoverChassisPath se)
      (stepThermal se (discoverChassisPath se) r)))"
    by (intro ext) (simp add: stepChassis_def Let_def)
  with reports_comp [OF single_steps_report(5) reports_comp [OF single_steps_report(4) single_steps_report(3)]]
  show ?thesis by simp
qed

lemma bmc_reports: "reports [''BMC Info'', ''System Event Log'', ''Lifecycle Logs''] (stepBmc se)"
proof (cases "discoverManagerPath se = []")
  case True
  then show ?thesis unfolding stepBmc_def report_unfold by (simp add: Let_def)
next
  case False
  then have "stepBmc se = (\<lambda>r. stepLogs se (discoverManagerPath se) (stepManager se (discoverManagerPath se) r))"
    by (intro ext) (simp add: stepBmc_def Let_def)
  with reports_comp [OF single_steps_report(6) manager_reports] show ?thesis by simp
qed

definition syncParts :: "string list" where
  "syncParts = [''System Discovery'', ''System Information'', ''OS Information'', ''Processors'', ''Memory'', ''Storage'',
     ''Thermal Sensors'', ''Power & Voltages'', ''Network Interfaces'', ''PCIe Slots'', ''BMC Info'', ''System Event Log'',
     ''Lifecycle Logs'']"

lemmas all_reports = reports_comp [OF bmc_reports reports_comp [OF single_steps_report(2)
  reports_comp [OF link_steps_report(4) reports_comp [OF chassis_reports reports_comp [OF link_steps_report(3)
    reports_comp [OF link_steps_report(2) reports_comp [OF link_steps_report(1) single_steps_report(1)]]]]]]]

lemma sync_completes:
  assumes "discoverSystemPath (openSession net 60 bmcIP c password) = Inr path"
    and "rget (openSession net 60 bmcIP c password) path = Inr sys"
  shows "\<exists>r. rs_SyncDevice toI net bmcIP c password = (r, None) \<and> stepNames r = syncParts \<and> steps_ok r \<and> sr_Success r"
proof -
  define se where "se = openSession net 60 bmcIP c password"
  define steps where "steps = (\<lambda>r. stepBmc se (stepSlots se sys (stepNics toI se sys (stepChassis se
      (stepStorage se sys (stepMemory toI se sys (stepProcessors toI se sys (stepOS se sys r))))))))"
  define r0 where "r0 = stepSystem toI sys (addStep ''System Information'' ''ok'' [] (addStep ''System Discovery'' ''ok'' path emptySync))"
  have "reports (drop 2 syncParts) steps"
    using all_reports unfolding steps_def by (simp add: syncParts_def)
  moreover have "stepNames r0 = take 2 syncParts" "steps_ok r0" "sr_Success r0"
    by (simp_all add: r0_def stepSystem_def stepNames_def steps_ok_def addStep_def syncParts_def emptySync_def)
  ultimately have "stepNames (steps r0) = syncParts \<and> steps_ok (steps r0) \<and> sr_Success (steps r0)"
    by (auto simp: reports_def)
  moreover have "rs_SyncDevice toI net bmcIP c password = (steps r0, None)"
    using assms by (simp add: rs_SyncDevice_def se_def [symmetric] steps_def r0_def Let_def)
  ultimately show ?thesis by simp
qed

lemma sync_fails:
  "discoverSystemPath (openSession net 60 bmcIP c password) = Inl e \<Longrightarrow> rs_SyncDevice toI net bmcIP c password =
     (addStep ''System Discovery'' ''error'' e emptySync, Some (''system discovery failed: '' @ e))"
  "discoverSystemPath (openSession net 60 bmcIP c password) = Inr path \<Longrightarrow>
   rget (openSession net 60 bmcIP c password) path = Inl e \<Longrightarrow> rs_SyncDevice toI net bmcIP c password =
     (addStep ''System Information'' ''error'' e (addStep ''System Discovery'' ''ok'' path emptySync),
      Some (''failed to retrieve system information: '' @ e))"
  by (simp_all add: rs_SyncDevice_def Let_def)

lemma sync_success_no_error: "sr_Success (fst (rs_SyncDevice toI net bmcIP c password)) = (snd (rs_SyncDevice toI net bmcIP c password) = None)"
proof (cases "discoverSystemPath (openSession net 60 bmcIP c password)")
  case (Inl e)
  then show ?thesis by (simp add: sync_fails addStep_def emptySync_def)
next
  case (Inr path)
  then show ?thesis
    using sync_completes [OF Inr, of _ toI]
    by (cases "rget (openSession net 60 bmcIP c password) path") (auto simp: sync_fails addStep_def emptySync_def)
qed

text \<open>C14: A synchronisation succeeds exactly when the system resource is found and can be read, whatever
  else the controller refuses. It then reports every one of the thirteen parts once and in order, each
  as done, failed or passed over. When it fails, the report ends with the failed step, the result does
  not claim success and the error names the step.\<close>

theorem sync_reports_every_part:
  "let se = openSession net 60 bmcIP c password; (r, err) = rs_SyncDevice toI net bmcIP c password in
     (err = None) = (case discoverSystemPath se of Inl _ \<Rightarrow> False
       | Inr path \<Rightarrow> (case rget se path of Inl _ \<Rightarrow> False | Inr _ \<Rightarrow> True)) \<and>
     sr_Success r = (err = None) \<and> steps_ok r \<and>
     (if err = None then stepNames r = syncParts
      else ss_Status (last (sr_Steps r)) = ''error'' \<and> stepNames r \<in> {take 1 syncParts, take 2 syncParts})"
proof -
  have e: "stepNames emptySync = []" "steps_ok emptySync" "sr_Success emptySync = False"
    by (simp_all add: emptySync_def stepNames_def steps_ok_def)
  show ?thesis
  proof (cases "discoverSystemPath (openSession net 60 bmcIP c password)")
    case (Inl msg)
    then show ?thesis using e
      by (simp add: sync_fails Let_def sync_steps syncParts_def) (simp add: addStep_def)
  next
    case path: (Inr path)
    show ?thesis
    proof (cases "rget (openSession net 60 bmcIP c password) path")
      case (Inl msg)
      with path show ?thesis using e
        by (simp add: sync_fails Let_def sync_steps syncParts_def) (simp add: addStep_def)
    next
      case (Inr sys)
      from sync_completes [OF path this, of toI] path Inr show ?thesis by (auto simp: Let_def)
    qed
  qed
qed


section \<open>Refused logins\<close>

definition refuses :: "rs_answer \<Rightarrow> bool" where
  "refuses a = (case a of Reply code _ _ \<Rightarrow> code = 401 \<or> code = 403 | _ \<Rightarrow> False)"

lemma read_refused:
  assumes "\<And>url n. refuses (se_net se (basicAuth (se_user se) (se_pass se)) url n)"
  shows "\<exists>code. (code = 401 \<or> code = 403) \<and> redfishGet se path = (Inl (authError code), code)"
proof -
  define a where "a = se_net se (basicAuth (se_user se) (se_pass se)) (se_base se @ path) 0"
  with assms have "refuses a" by simp
  then obtain code body dec where c: "a = Reply code body dec" "code = 401 \<or> code = 403"
    unfolding refuses_def by (auto split: rs_answer.splits)
  then have "redfishGet se path = (Inl (authError code), code)"
    unfolding redfishGet_def redfishGetWithRetry_def by (auto simp: numeral_2_eq_2 a_def [symmetric])
  with c(2) show ?thesis by blast
qed

lemma authError_says: "contains (authError code) ''authentication failed''"
  unfolding authError_def contains_iff by (intro exI [of _ "''HTTP '' @ itoa code @ '': ''"] exI [of _ "[]"]) simp

lemma discover_refused:
  assumes "\<And>url n. refuses (se_net se (basicAuth (se_user se) (se_pass se)) url n)"
  shows "\<exists>code. (code = 401 \<or> code = 403) \<and> discoverSystemPath se = Inl (authError code)"
proof -
  note r = read_refused [OF assms]
  from r [of "''/redfish/v1/Systems''"] have "\<exists>e. rget se ''/redfish/v1/Systems'' = Inl e" by (auto simp: rget_def)
  moreover from r [of "''/redfish/v1/Systems/System.Embedded.1''"] obtain code where
    "code = 401 \<or> code = 403" "redfishGet se ''/redfish/v1/Systems/System.Embedded.1'' = (Inl (authError code), code)" by blast
  ultimately show ?thesis unfolding discoverSystemPath_def by (auto simp: Let_def)
qed

text \<open>A wrong login is told apart from everything else. When the controller shows its root to anyone but
  refuses every request that carries the device's credentials, the test of the connection fails with
  the code \<open>AUTH_FAILED\<close>, a synchronisation fails in its first part, and power and boot control send no
  request that changes anything.\<close>

theorem refused_login_is_reported:
  assumes "\<And>url n. refuses (net (cd_SSLVerify c) t (Some (user, password)) url n)"
    and "cd_TimeoutSeconds c = t" "0 < t" "cd_Username c = Some user" "user \<noteq> []"
    and "net (cd_SSLVerify c) t None (baseURL bmcIP c @ ''/redfish/v1'') 0 = Reply 200 body (Inr rootData)"
  shows "\<not> ct_Success (rs_TestConnection net bmcIP c password) \<and>
    ct_ErrorCode (rs_TestConnection net bmcIP c password) = ''AUTH_FAILED'' \<and>
    snd (rs_SyncDevice toI net bmcIP c password) \<noteq> None \<and>
    stepNames (fst (rs_SyncDevice toI net bmcIP c password)) = [''System Discovery''] \<and>
    snd (rs_PowerControl net wr bmcIP c password reset) = [] \<and> snd (rs_BootControl net wr bmcIP c password target once) = []"
proof -
  have s: "se_net (openSession net d bmcIP c password) = net (cd_SSLVerify c) t"
    "basicAuth (se_user (openSession net d bmcIP c password)) (se_pass (openSession net d bmcIP c password)) = Some (user, password)"
    "se_base (openSession net d bmcIP c password) = baseURL bmcIP c" for d
    using assms(2-5) by (simp_all add: openSession_def strDeref_def basicAuth_def)
  have disc: "\<exists>code. discoverSystemPath (openSession net d bmcIP c password) = Inl (authError code)" for d
    using discover_refused [of "openSession net d bmcIP c password"] assms(1) by (auto simp: s)
  from disc [of 30] obtain c1 where d30: "discoverSystemPath (openSession net 30 bmcIP c password) = Inl (authError c1)" by blast
  from disc [of 60] obtain c2 where d60: "discoverSystemPath (openSession net 60 bmcIP c password) = Inl (authError c2)" by blast
  have "redfishGetWithRetry (openSession net 30 bmcIP c password) None ''/redfish/v1'' 2 = (Inr rootData, 200)"
    using assms(6) by (simp add: redfishGetWithRetry_def s numeral_2_eq_2)
  then have "\<not> ct_Success (rs_TestConnection net bmcIP c password)"
    "ct_ErrorCode (rs_TestConnection net bmcIP c password) = ''AUTH_FAILED''"
    unfolding rs_TestConnection_def by (simp_all add: Let_def basicAuth_def d30 authError_says)
  moreover have "stepNames emptySync = []" by (simp add: stepNames_def emptySync_def)
  ultimately show ?thesis
    by (simp add: rs_SyncDevice_def rs_PowerControl_def rs_BootControl_def Let_def d30 d60 sync_steps)
qed

definition exCredential :: device_credential where
  "exCredential = structOf (rowOf ((newCredential ''c1'' 0 0 ''d1'' \<lparr>cq_Protocol = ''redfish'', cq_Username = Some ''root'',
     cq_Password = None, cq_CommunityString = None, cq_AuthProtocol = None, cq_PrivProtocol = None, cq_Port = None,
     cq_HTTPScheme = None, cq_SSLVerify = None, cq_PollingInterval = None, cq_TimeoutSeconds = None, cq_RetryAttempts = None\<rparr>)))"

text \<open>A controller that shows its root to anyone and refuses every login.\<close>

definition refusingNet :: rs_network where
  "refusingNet ssl t auth url n = (case auth of None \<Rightarrow> Reply 200 [] (Inr []) | Some _ \<Rightarrow> Reply 401 [] (Inr []))"

lemma refused_login_is_reported_witness:
  "\<not> ct_Success (rs_TestConnection refusingNet ''10.1.0.1'' exCredential ''secret'') \<and>
   ct_ErrorCode (rs_TestConnection refusingNet ''10.1.0.1'' exCredential ''secret'') = ''AUTH_FAILED''"
proof -
  have "cd_TimeoutSeconds exCredential = 30" "cd_Username exCredential = Some ''root''"
    by (simp_all add: exCredential_def structOf_def rowOf_def newCredential_def coalesce_def)
  from refused_login_is_reported [of refusingNet exCredential 30 "''root''" "''secret''" "''10.1.0.1''", OF _ this(1) _ this(2)]
  show ?thesis by (simp add: refusingNet_def refuses_def)
qed

section \<open>Control requests\<close>

text \<open>A power action sends at most one request that changes something: a \<open>POST\<close> with the requested reset
  type and the device's credentials, never repeated. It reports success exactly when it was sent and
  the controller answered it without an error status.\<close>

theorem power_control_sends_once:
  "case rs_PowerControl net wr bmcIP c password resetType of (r, ws) \<Rightarrow>
     length ws \<le> 1 \<and>
     list_all (\<lambda>w. rw_method w = ''POST'' \<and> rw_body w = [(''ResetType'', JStr resetType)] \<and>
       rw_auth w = basicAuth (strDeref (cd_Username c) []) password) ws \<and>
     cr_Target r = resetType \<and>
     cr_Success r = (case ws of [] \<Rightarrow> False
       | w # _ \<Rightarrow> (case wr (cd_SSLVerify c) (sessionTimeout 30 c) w of Reply code _ _ \<Rightarrow> code < 400 | _ \<Rightarrow> False))"
proof -
  have p: "fst (redfishPost a) = None \<longleftrightarrow> (case a of Reply code _ _ \<Rightarrow> code < 400 | _ \<Rightarrow> False)" for a
    unfolding redfishPost_def by (auto split: rs_answer.split)
  have s: "se_user (openSession net 30 bmcIP c password) = strDeref (cd_Username c) []"
    "se_pass (openSession net 30 bmcIP c password) = password" by (simp_all add: openSession_def)
  show ?thesis
  proof (cases "discoverSystemPath (openSession net 30 bmcIP c password)")
    case (Inl e)
    then show ?thesis by (simp add: rs_PowerControl_def Let_def)
  next
    case path: (Inr path)
    show ?thesis
    proof (cases "rget (openSession net 30 bmcIP c password) path")
      case (Inl e)
      with path show ?thesis by (simp add: rs_PowerControl_def Let_def)
    next
      case (Inr sys)
      define w where "w = \<lparr>rw_method = ''POST'', rw_url = se_base (openSession net 30 bmcIP c password) @ resetTarget path sys,
        rw_auth = basicAuth (strDeref (cd_Username c) []) password, rw_body = [(''ResetType'', JStr resetType)]\<rparr>"
      obtain err status where e: "redfishPost (wr (cd_SSLVerify c) (sessionTimeout 30 c) w) = (err, status)" by fastforce
      from p [of "wr (cd_SSLVerify c) (sessionTimeout 30 c) w"] e
      have q: "(err = None) = (case wr (cd_SSLVerify c) (sessionTimeout 30 c) w of Reply code _ _ \<Rightarrow> code < 400 | _ \<Rightarrow> False)" by simp
      have "rw_method w = ''POST''" "rw_body w = [(''ResetType'', JStr resetType)]"
        "rw_auth w = basicAuth (strDeref (cd_Username c) []) password" by (simp_all add: w_def)
      moreover have "rs_PowerControl net wr bmcIP c password resetType = (case err of
          Some m \<Rightarrow> (\<lparr>cr_Success = False, cr_Message = ''Power control failed (HTTP '' @ itoa status @ '', '' @
            classifyError (Some m) status @ ''): '' @ m, cr_Target = resetType\<rparr>, [w])
        | None \<Rightarrow> (\<lparr>cr_Success = True, cr_Message = ''Power action '' @ quoted resetType @ '' sent successfully'',
            cr_Target = resetType\<rparr>, [w]))"
        using path Inr e unfolding rs_PowerControl_def by (simp add: Let_def s w_def split: option.split)
      ultimately show ?thesis by (cases err) (simp_all add: q [symmetric])
    qed
  qed
qed

end
