(* ===== verification/Inventory.thy ===== *)
theory Inventory
  imports RedfishApi Query "HOL-Library.List_Lexorder" "HOL-Library.Char_ord"
begin

text \<open>
  The hardware inventory of a device in the API server: what \<open>UpsertInventory\<close> and \<open>GetInventory\<close> of
  \<open>backend/internal/db/device_repository.go\<close> write and read, and the logs that \<open>GetDeviceLogs\<close> of
  \<open>backend/internal/api/handlers/device_handler.go\<close> makes of it.

  The row has the columns of the collectors (theory Db) and those of the migrations 011 and 012. The
  JSONB columns are written by \<open>UpsertInventory\<close> only and all at once: they are one part of the row here,
  missing when a collector made the row, holding the lists that the documents encode.
\<close>

section \<open>Rows\<close>

record inventory_sections =
  is_Processors :: "processor_info list"
  is_MemoryModules :: "memory_info list"
  is_StorageControllers :: "storage_controller list"
  is_Drives :: "drive_info list"
  is_Temperatures :: "temperature_reading list"
  is_Fans :: "fan_reading list"
  is_PowerSupplies :: "power_supply list"
  is_NICs :: "full_nic list"
  is_SELEntries :: "sel_entry list"
  is_PCIeSlots :: "pcie_slot list"
  is_Voltages :: "voltage_reading list"
  is_LifecycleLogs :: "lifecycle_entry list"
  is_VirtualDisks :: "virtual_disk list"
  is_StorageEnclosures :: "storage_enclosure list"

record api_inventory_row = inventory_row +
  iv_firmware_bios :: "string option"
  iv_firmware_raid :: "string option"
  iv_asset_tag :: "string option"
  iv_power_state :: "string option"
  iv_health_status :: "string option"
  iv_bmc_mac_address :: "string option"
  iv_bmc_dns_name :: "string option"
  iv_bmc_license :: "string option"
  iv_bmc_hardware_version :: "string option"
  iv_lifecycle_controller_ver :: "string option"
  iv_total_power_watts :: "rat option"
  iv_memory_total_gb :: "rat option"
  iv_bmc_name :: "string option"
  iv_system_uuid :: "string option"
  iv_system_revision :: "string option"
  iv_system_uptime_seconds :: "int option"
  iv_boot_mode :: "string option"
  iv_os :: "string option \<times> string option \<times> string option \<times> string option \<times> int option"
  iv_sections :: "inventory_sections option"

text \<open>A disk row as the API server writes it, with NULL for an empty text.\<close>

record api_disk_row =
  ad_device_id :: string
  ad_model :: "string option"
  ad_capacity_gb :: int
  ad_serial :: "string option"
  ad_collected_at :: time

record inventory_tables =
  it_rows :: "api_inventory_row list"
  it_nics :: "nic_row list"
  it_disks :: "api_disk_row list"

section \<open>Writing\<close>

text \<open>The casts of PostgreSQL: a float that goes into an \<open>INT\<close> column is refused unless it is a whole number
  in range; \<open>NUMERIC(10,2)\<close> rounds to two places, half away from zero, and refuses what has more than
  eight digits before the point.\<close>

definition fitsInt4 :: "int \<Rightarrow> bool" where
  "fitsInt4 i = (- 2147483648 \<le> i \<and> i \<le> 2147483647)"

definition castInt4 :: "f64 \<Rightarrow> int result" where
  "castInt4 x = (case x of
     Fin q \<Rightarrow> if q = of_int \<lfloor>q\<rfloor> \<and> fitsInt4 \<lfloor>q\<rfloor> then Inr \<lfloor>q\<rfloor> else Inl ''pq: invalid input syntax for type integer''
   | _ \<Rightarrow> Inl ''pq: invalid input syntax for type integer'')"

definition roundCents :: "rat \<Rightarrow> int" where
  "roundCents q = (if q \<ge> 0 then \<lfloor>q * 100 + 1 / 2\<rfloor> else - \<lfloor>- q * 100 + 1 / 2\<rfloor>)"

definition castNumeric :: "f64 \<Rightarrow> rat result" where
  "castNumeric x = (case x of
     Fin q \<Rightarrow> if \<bar>roundCents q\<bar> < 10000000000 then Inr (of_int (roundCents q) / 100) else Inl ''pq: numeric field overflow''
   | _ \<Rightarrow> Inl ''pq: numeric field overflow'')"

fun castOpt :: "('a \<Rightarrow> 'b result) \<Rightarrow> 'a option \<Rightarrow> 'b option result" where
  "castOpt f None = Inr None"
| "castOpt f (Some x) = (case f x of Inl e \<Rightarrow> Inl e | Inr y \<Rightarrow> Inr (Some y))"

definition castCount :: "int \<Rightarrow> int result" where
  "castCount i = (if fitsInt4 i then Inr i else Inl ''pq: integer out of range'')"

definition nonEmptyText :: "string \<Rightarrow> string option" where
  "nonEmptyText s = (if s = [] then None else Some s)"

definition positive :: "int \<Rightarrow> int option" where
  "positive i = (if i > 0 then Some i else None)"

definition sectionsOf :: "sync_result \<Rightarrow> inventory_sections" where
  "sectionsOf r = \<lparr>is_Processors = sr_Processors r, is_MemoryModules = sr_MemoryModules r,
     is_StorageControllers = sr_StorageControllers r, is_Drives = sr_Drives r, is_Temperatures = sr_Temperatures r,
     is_Fans = sr_Fans r, is_PowerSupplies = sr_PowerSupplies r, is_NICs = sr_NICs r, is_SELEntries = sr_SELEntries r,
     is_PCIeSlots = sr_PCIeSlots r, is_Voltages = sr_Voltages r, is_LifecycleLogs = sr_LifecycleLogs r,
     is_VirtualDisks = sr_VirtualDisks r, is_StorageEnclosures = sr_StorageEnclosures r\<rparr>"

text \<open>The columns of the operating system and of the first processor.\<close>

definition osColumns :: "os_info option \<Rightarrow> string option \<times> string option \<times> string option \<times> string option \<times> int option" where
  "osColumns os = (case os of None \<Rightarrow> (None, None, None, None, None)
     | Some i \<Rightarrow> (nonEmptyText (oi_Name i), nonEmptyText (oi_Version i), nonEmptyText (oi_Kernel i),
         nonEmptyText (oi_Hostname i), positive (oi_UptimeSeconds i)))"

definition cpuColumns :: "processor_info list \<Rightarrow> string option \<times> int option \<times> int option" where
  "cpuColumns ps = (case ps of [] \<Rightarrow> (None, None, None)
     | p # _ \<Rightarrow> (nonEmptyText (pi_Model p), positive (pi_Cores p), positive (pi_Threads p)))"

text \<open>The row that the statement inserts, when all its values can be cast. \<open>firmware_raid\<close> is not among the
  columns of the statement.\<close>

definition inventoryRow :: "string \<Rightarrow> time \<Rightarrow> sync_result \<Rightarrow> api_inventory_row result" where
  "inventoryRow did now r = (case cpuColumns (sr_Processors r) of (model, cores, threads) \<Rightarrow>
     (case castOpt castCount cores of Inl e \<Rightarrow> Inl e | Inr c \<Rightarrow>
     (case castOpt castCount threads of Inl e \<Rightarrow> Inl e | Inr t \<Rightarrow>
     (case castOpt castInt4 (sr_MemoryTotalGB r) of Inl e \<Rightarrow> Inl e | Inr ram \<Rightarrow>
     (case castOpt castNumeric (sr_TotalPowerWatts r) of Inl e \<Rightarrow> Inl e | Inr watts \<Rightarrow>
     (case castOpt castNumeric (sr_MemoryTotalGB r) of Inl e \<Rightarrow> Inl e | Inr mem \<Rightarrow>
      Inr \<lparr>iv_device_id = did, iv_cpu_model = model, iv_cpu_cores = c, iv_cpu_threads = t, iv_ram_total_gb = ram,
        iv_firmware_bmc = sr_BMCFirmware r, iv_manufacturer = sr_Manufacturer r, iv_system_model = sr_Model r,
        iv_service_tag = sr_ServiceTag r, iv_collected_at = now, iv_firmware_bios = sr_BIOSVersion r,
        iv_firmware_raid = None, iv_asset_tag = sr_AssetTag r, iv_power_state = sr_PowerState r,
        iv_health_status = sr_HealthStatus r, iv_bmc_mac_address = sr_BMCMACAddress r, iv_bmc_dns_name = sr_BMCDNSName r,
        iv_bmc_license = sr_BMCLicense r, iv_bmc_hardware_version = sr_BMCHardwareVersion r,
        iv_lifecycle_controller_ver = sr_LifecycleControllerVersion r, iv_total_power_watts = watts,
        iv_memory_total_gb = mem, iv_bmc_name = sr_BMCName r, iv_system_uuid = sr_SystemUUID r,
        iv_system_revision = sr_SystemRevision r, iv_system_uptime_seconds = sr_SystemUptimeSeconds r,
        iv_boot_mode = sr_BootMode r, iv_os = osColumns (sr_OS r), iv_sections = Some (sectionsOf r)\<rparr>))))))"

text \<open>What the world contributes: the errors of the three statements that are checked, whether each of the
  other insertions succeeds, and the cast of a text to \<open>macaddr\<close>, which prints it in one form.\<close>

record upsert_env =
  ue_upsertErr :: db_error
  ue_nicsErr :: db_error
  ue_disksErr :: db_error
  ue_nicOk :: "nat \<Rightarrow> bool"
  ue_diskOk :: "nat \<Rightarrow> bool"
  ue_mac :: "string \<Rightarrow> string option"

definition nicRows :: "upsert_env \<Rightarrow> string \<Rightarrow> time \<Rightarrow> full_nic list \<Rightarrow> nic_row list" where
  "nicRows env did now nics = List.map_filter (\<lambda>(i, n). if fn_MACAddress n = [] \<or> \<not> ue_nicOk env i then None
     else map_option (\<lambda>mac. \<lparr>nr_device_id = did, nr_model = fn_Model n, nr_mac = mac, nr_collected_at = now\<rparr>)
       (ue_mac env (fn_MACAddress n))) (enumerate 0 nics)"

definition diskRows :: "(f64 \<Rightarrow> int) \<Rightarrow> upsert_env \<Rightarrow> string \<Rightarrow> time \<Rightarrow> drive_info list \<Rightarrow> api_disk_row list" where
  "diskRows toI env did now drives = List.map_filter (\<lambda>(i, d).
     if \<not> ue_diskOk env i \<or> \<not> fitsInt4 (f_to_int toI (di_CapacityGB d)) then None
     else Some \<lparr>ad_device_id = did, ad_model = nonEmptyText (di_Model d), ad_capacity_gb = f_to_int toI (di_CapacityGB d),
       ad_serial = nonEmptyText (di_SerialNumber d), ad_collected_at = now\<rparr>) (enumerate 0 drives)"

definition UpsertInventory ::
  "(f64 \<Rightarrow> int) \<Rightarrow> upsert_env \<Rightarrow> time \<Rightarrow> string \<Rightarrow> sync_result \<Rightarrow> 'a inventory_tables_scheme \<Rightarrow>
   'a inventory_tables_scheme \<times> string option" where
  "UpsertInventory toI env now did r t =
     (case (case ue_upsertErr env of Some e \<Rightarrow> Inl e | None \<Rightarrow> inventoryRow did now r) of
        Inl e \<Rightarrow> (t, Some (''upsert inventory: '' @ e))
      | Inr row \<Rightarrow>
        (let t1 = t\<lparr>it_rows := upsertBy iv_device_id row (\<lambda>old. row\<lparr>iv_device_id := iv_device_id old, iv_firmware_raid := iv_firmware_raid old\<rparr>) (it_rows t)\<rparr> in
         case ue_nicsErr env of
           Some e \<Rightarrow> (t1, Some (''delete nics: '' @ e))
         | None \<Rightarrow>
           (let t2 = t1\<lparr>it_nics := filter (\<lambda>n. nr_device_id n \<noteq> did) (it_nics t) @ nicRows env did now (sr_NICs r)\<rparr> in
            case ue_disksErr env of
              Some e \<Rightarrow> (t2, Some (''delete disks: '' @ e))
            | None \<Rightarrow> (t2\<lparr>it_disks := filter (\<lambda>d. ad_device_id d \<noteq> did) (it_disks t) @ diskRows toI env did now (sr_Drives r)\<rparr>, None))))"

section \<open>Reading\<close>

text \<open>The inventory as the reply shows it: the row, the memory with its fallback, the texts that are shown
  only when they are not empty, and the legacy rows. A disk row with a NULL cannot be scanned and is
  passed over. The two last queries may fail, which leaves their lists empty.\<close>

record inventory_view =
  vw_row :: api_inventory_row
  vw_RAMTotalGB :: "rat option"
  vw_BMCName :: "string option"
  vw_SystemUUID :: "string option"
  vw_SystemRevision :: "string option"
  vw_LegacyNICs :: "nic_row list"
  vw_LegacyDisks :: "(string \<times> int \<times> string \<times> time) list"

definition orEmpty :: "string option \<Rightarrow> string option" where
  "orEmpty x = nonEmptyText (case x of Some s \<Rightarrow> s | None \<Rightarrow> [])"

definition scanDisk :: "api_disk_row \<Rightarrow> (string \<times> int \<times> string \<times> time) option" where
  "scanDisk d = (case (ad_model d, ad_serial d) of
     (Some m, Some s) \<Rightarrow> Some (m, ad_capacity_gb d, s, ad_collected_at d) | _ \<Rightarrow> None)"

definition GetInventory ::
  "db_error \<Rightarrow> bool \<Rightarrow> bool \<Rightarrow> string \<Rightarrow> 'a inventory_tables_scheme \<Rightarrow> inventory_view result" where
  "GetInventory dbErr nicsOk disksOk did t = (case dbErr of
     Some e \<Rightarrow> Inl (''failed to get inventory: '' @ e)
   | None \<Rightarrow> (case findBy iv_device_id did (it_rows t) of
       None \<Rightarrow> Inl ''inventory not found''
     | Some r \<Rightarrow> Inr \<lparr>vw_row = r,
         vw_RAMTotalGB = (case iv_memory_total_gb r of Some g \<Rightarrow> Some g | None \<Rightarrow> map_option of_int (iv_ram_total_gb r)),
         vw_BMCName = orEmpty (iv_bmc_name r), vw_SystemUUID = orEmpty (iv_system_uuid r),
         vw_SystemRevision = orEmpty (iv_system_revision r),
         vw_LegacyNICs = (if nicsOk then filter (\<lambda>n. nr_device_id n = did) (it_nics t) else []),
         vw_LegacyDisks = (if disksOk then List.map_filter scanDisk (filter (\<lambda>d. ad_device_id d = did) (it_disks t)) else [])\<rparr>))"


section \<open>What is stored is what is read\<close>

lemma upsert_stored:
  assumes "UpsertInventory toI env now did r t = (t', None)"
  obtains row where "inventoryRow did now r = Inr row"
    "it_rows t' = upsertBy iv_device_id row (\<lambda>old. row\<lparr>iv_device_id := iv_device_id old, iv_firmware_raid := iv_firmware_raid old\<rparr>) (it_rows t)"
    "it_nics t' = filter (\<lambda>n. nr_device_id n \<noteq> did) (it_nics t) @ nicRows env did now (sr_NICs r)"
    "it_disks t' = filter (\<lambda>d. ad_device_id d \<noteq> did) (it_disks t) @ diskRows toI env did now (sr_Drives r)"
  using assms unfolding UpsertInventory_def
  by (auto simp: Let_def split: option.splits sum.splits)

lemma inventoryRow_fields:
  assumes "inventoryRow did now r = Inr row"
  shows "iv_device_id row = did" "iv_sections row = Some (sectionsOf r)" "iv_collected_at row = now"
    "iv_manufacturer row = sr_Manufacturer r" "iv_system_model row = sr_Model r"
    "castOpt castNumeric (sr_MemoryTotalGB r) = Inr (iv_memory_total_gb row)"
    "castOpt castInt4 (sr_MemoryTotalGB r) = Inr (iv_ram_total_gb row)" "iv_firmware_raid row = None"
  using assms unfolding inventoryRow_def by (auto split: prod.splits sum.splits)

lemma nicRows_device: "n \<in> set (nicRows env did now nics) \<Longrightarrow> nr_device_id n = did"
  unfolding nicRows_def set_map_filter by (auto split: if_splits)

lemma diskRows_device: "d \<in> set (diskRows toI env did now drives) \<Longrightarrow> ad_device_id d = did"
  unfolding diskRows_def set_map_filter by (auto split: if_splits)

lemma filter_own:
  assumes "\<forall>x \<in> set ys. key x = did"
  shows "filter (\<lambda>x. key x = did) (filter (\<lambda>x. key x \<noteq> did) xs @ ys) = ys"
    and "k \<noteq> did \<Longrightarrow> filter (\<lambda>x. key x = k) (filter (\<lambda>x. key x \<noteq> did) xs @ ys) = filter (\<lambda>x. key x = k) xs"
proof -
  have "filter (\<lambda>x. key x = did) ys = ys" using assms by (simp add: filter_id_conv)
  moreover have "filter (\<lambda>x. key x = did) (filter (\<lambda>x. key x \<noteq> did) xs) = []" by (simp add: filter_empty_conv)
  ultimately show "filter (\<lambda>x. key x = did) (filter (\<lambda>x. key x \<noteq> did) xs @ ys) = ys" by simp
  assume k: "k \<noteq> did"
  then have "filter (\<lambda>x. key x = k) ys = []" using assms by (simp add: filter_empty_conv)
  moreover have "(\<lambda>x. key x \<noteq> did \<and> key x = k) = (\<lambda>x. key x = k)" using k by auto
  ultimately show "filter (\<lambda>x. key x = k) (filter (\<lambda>x. key x \<noteq> did) xs @ ys) = filter (\<lambda>x. key x = k) xs"
    by simp
qed



definition exUpsertEnv :: upsert_env where
  "exUpsertEnv = \<lparr>ue_upsertErr = None, ue_nicsErr = None, ue_disksErr = None, ue_nicOk = (\<lambda>_. True), ue_diskOk = (\<lambda>_. True),
     ue_mac = Some\<rparr>"

definition exDrive :: "string \<Rightarrow> string \<Rightarrow> drive_info" where
  "exDrive model serial = (parseDrive [(''Model'', JStr model), (''SerialNumber'', JStr serial)])"

definition exSync :: sync_result where
  "exSync = emptySync\<lparr>sr_Success := True, sr_Manufacturer := Some ''Dell'', sr_MemoryTotalGB := Some (Fin 64),
     sr_Drives := [exDrive ''SSD'' ''S1'', exDrive ''SSD'' []]\<rparr>"

definition noInventory :: inventory_tables where
  "noInventory = \<lparr>it_rows = [], it_nics = [], it_disks = []\<rparr>"

lemma ex_upsert: "snd (UpsertInventory (\<lambda>_. 0) exUpsertEnv 5 ''d1'' exSync noInventory) = None"
  by code_simp


section \<open>Losses\<close>

text \<open>A machine whose memory is not a whole number of gigabytes has no inventory: the same number goes
  into an integer column, the database refuses it, and the whole statement fails. Nothing is stored,
  neither the row nor cards nor disks.\<close>

theorem fractional_memory_is_not_stored:
  assumes "sr_MemoryTotalGB r = Some (Fin q)" "q \<noteq> of_int \<lfloor>q\<rfloor>"
  shows "\<exists>e. UpsertInventory toI env now did r t = (t, Some (''upsert inventory: '' @ e))"
proof -
  have "castOpt castInt4 (sr_MemoryTotalGB r) = Inl ''pq: invalid input syntax for type integer''"
    using assms by (simp add: castInt4_def)
  then have "\<exists>e. inventoryRow did now r = Inl e"
    unfolding inventoryRow_def by (auto split: prod.split sum.split)
  then show ?thesis unfolding UpsertInventory_def by (auto split: option.split)
qed

lemma fractional_memory_is_not_stored_witness:
  "\<exists>e. UpsertInventory (\<lambda>_. 0) exUpsertEnv 5 ''d1'' (exSync\<lparr>sr_MemoryTotalGB := Some (Fin (1 / 2))\<rparr>) noInventory =
     (noInventory, Some (''upsert inventory: '' @ e))"
proof (rule fractional_memory_is_not_stored [of _ "1 / 2"])
  have "\<lfloor>1 / 2 :: rat\<rfloor> = 0" by (rule floor_unique) simp_all
  then show "(1 / 2 :: rat) \<noteq> of_int \<lfloor>1 / 2 :: rat\<rfloor>" by simp
qed simp

text \<open>A disk without a model or a serial number is written but never shown: it is stored with NULL, which
  cannot be scanned. After a synchronisation the reply lists exactly the drives that have both, in
  their order.\<close>

theorem only_full_disks_are_shown:
  assumes "UpsertInventory toI env now did r t = (t', None)" "ue_diskOk env = (\<lambda>_. True)"
    and "list_all (\<lambda>d. fitsInt4 (f_to_int toI (di_CapacityGB d))) (sr_Drives r)"
  shows "case GetInventory None nicsOk True did t' of
      Inr v \<Rightarrow> length (filter (\<lambda>d. ad_device_id d = did) (it_disks t')) = length (sr_Drives r) \<and>
        vw_LegacyDisks v = map (\<lambda>d. (di_Model d, f_to_int toI (di_CapacityGB d), di_SerialNumber d, now))
          (filter (\<lambda>d. di_Model d \<noteq> [] \<and> di_SerialNumber d \<noteq> []) (sr_Drives r))
    | Inl e \<Rightarrow> False"
proof -
  obtain row where r: "inventoryRow did now r = Inr row"
    "it_rows t' = upsertBy iv_device_id row (\<lambda>old. row\<lparr>iv_device_id := iv_device_id old, iv_firmware_raid := iv_firmware_raid old\<rparr>) (it_rows t)"
    "it_nics t' = filter (\<lambda>n. nr_device_id n \<noteq> did) (it_nics t) @ nicRows env did now (sr_NICs r)"
    "it_disks t' = filter (\<lambda>d. ad_device_id d \<noteq> did) (it_disks t) @ diskRows toI env did now (sr_Drives r)"
    by (rule upsert_stored [OF assms(1)])
  define mk where "mk = (\<lambda>d :: drive_info. \<lparr>ad_device_id = did, ad_model = nonEmptyText (di_Model d), ad_capacity_gb = f_to_int toI (di_CapacityGB d),
       ad_serial = nonEmptyText (di_SerialNumber d), ad_collected_at = now\<rparr>)"
  have mf: "List.map_filter (\<lambda>(i, d). if \<not> fitsInt4 (f_to_int toI (di_CapacityGB d)) then None else Some (mk d)) (enumerate n ds) = map mk ds"
    if "list_all (\<lambda>d. fitsInt4 (f_to_int toI (di_CapacityGB d))) ds" for n ds
    using that by (induction ds arbitrary: n) (simp_all add: List.map_filter_simps)
  have dr: "diskRows toI env did now (sr_Drives r) = map mk (sr_Drives r)"
    using mf [OF assms(3)] unfolding diskRows_def assms(2) mk_def by simp
  have o: "filter (\<lambda>d. ad_device_id d = did) (it_disks t') = map mk (sr_Drives r)"
    unfolding r(4) dr by (rule filter_own) (simp add: mk_def)
  have s: "List.map_filter scanDisk (map mk ds) = map (\<lambda>d. (di_Model d, f_to_int toI (di_CapacityGB d), di_SerialNumber d, now))
          (filter (\<lambda>d. di_Model d \<noteq> [] \<and> di_SerialNumber d \<noteq> []) ds)" for ds
    by (induction ds) (simp_all add: List.map_filter_simps scanDisk_def mk_def nonEmptyText_def)
  have "findBy iv_device_id did (it_rows t') \<noteq> None"
    unfolding r(2) using inventoryRow_fields(1) [OF r(1)] by (subst findBy_upsert) simp_all
  then show ?thesis unfolding GetInventory_def by (auto simp: o s)
qed

lemma only_full_disks_are_shown_witness:
  "case GetInventory None True True ''d1'' (fst (UpsertInventory (\<lambda>_. 0) exUpsertEnv 5 ''d1'' exSync noInventory)) of
     Inr v \<Rightarrow> length (vw_LegacyDisks v) = 1 | Inl e \<Rightarrow> False"
proof -
  have u: "UpsertInventory (\<lambda>_. 0) exUpsertEnv 5 ''d1'' exSync noInventory =
      (fst (UpsertInventory (\<lambda>_. 0) exUpsertEnv 5 ''d1'' exSync noInventory), None)"
    using ex_upsert by (simp add: prod_eq_iff)
  have "list_all (\<lambda>d. fitsInt4 (f_to_int (\<lambda>_. 0) (di_CapacityGB d))) (sr_Drives exSync)"
    "length (filter (\<lambda>d. di_Model d \<noteq> [] \<and> di_SerialNumber d \<noteq> []) (sr_Drives exSync)) = 1" by code_simp+
  with only_full_disks_are_shown [OF u, of True] show ?thesis
    by (auto simp: exUpsertEnv_def split: sum.splits)
qed

section \<open>The logs of a device\<close>

record log_entry =
  lg_ID :: string
  lg_Source :: string
  lg_Severity :: string
  lg_Message :: string
  lg_Timestamp :: string

definition logOf :: "string \<Rightarrow> 'a sel_entry_scheme \<Rightarrow> log_entry" where
  "logOf source e = \<lparr>lg_ID = le_ID e, lg_Source = source, lg_Severity = le_Severity e, lg_Message = le_Message e,
     lg_Timestamp = le_Created e\<rparr>"

text \<open>\<open>sort.Slice\<close> by descending time stamp, as an insertion sort; the order of equal time stamps is not
  promised by the library.\<close>

fun insertLog :: "log_entry \<Rightarrow> log_entry list \<Rightarrow> log_entry list" where
  "insertLog x [] = [x]"
| "insertLog x (y # ys) = (if lg_Timestamp x > lg_Timestamp y then x # y # ys else y # insertLog x ys)"

definition sortLogs :: "log_entry list \<Rightarrow> log_entry list" where
  "sortLogs xs = fold insertLog xs []"

text \<open>The query string: a missing severity is \<open>all\<close>, a limit that is no number or not positive is 50.\<close>

definition logLimit :: "string option \<Rightarrow> int" where
  "logLimit s = (case scanInt (case s of None \<Rightarrow> ''50'' | Some t \<Rightarrow> t) of Some i \<Rightarrow> if i < 1 then 50 else i | None \<Rightarrow> 50)"

definition wantedLogs :: "string \<Rightarrow> inventory_sections option \<Rightarrow> log_entry list" where
  "wantedLogs severity sec =
     (let all = (case sec of None \<Rightarrow> [] | Some s \<Rightarrow> map (logOf ''sel'') (is_SELEntries s) @ map (logOf ''lifecycle'') (is_LifecycleLogs s)) in
      if severity = ''all'' then all else filter (\<lambda>l. toLower (lg_Severity l) = toLower severity) all)"

definition deviceLogs :: "string \<Rightarrow> int \<Rightarrow> inventory_sections option \<Rightarrow> log_entry list \<times> int" where
  "deviceLogs severity psize sec = (let logs = sortLogs (wantedLogs severity sec) in
     (if psize < int (length logs) then take (nat psize) logs else logs, int (length logs)))"


definition logSections :: "db_error \<Rightarrow> string \<Rightarrow> api_inventory_row list \<Rightarrow> inventory_sections option" where
  "logSections dbErr did rows = (case dbErr of Some _ \<Rightarrow> None
     | None \<Rightarrow> (case findBy iv_device_id did rows of None \<Rightarrow> None | Some r \<Rightarrow> iv_sections r))"

lemma mset_insertLog: "mset (insertLog x ys) = add_mset x (mset ys)"
  by (induction ys) auto

lemma set_insertLog: "set (insertLog x ys) = insert x (set ys)"
  by (induction ys) auto

abbreviation newer_first :: "log_entry list \<Rightarrow> bool" where
  "newer_first \<equiv> sorted_wrt (\<lambda>a b. lg_Timestamp a \<ge> lg_Timestamp b)"

lemma insertLog_sorted: "newer_first ys \<Longrightarrow> newer_first (insertLog x ys)"
proof (induction ys)
  case (Cons y ys)
  show ?case
  proof (cases "lg_Timestamp x > lg_Timestamp y")
    case True
    with Cons.prems show ?thesis by (auto intro: order_trans)
  next
    case False
    with Cons show ?thesis by (auto simp: set_insertLog)
  qed
qed simp

lemma sortLogs_correct: "newer_first (sortLogs xs) \<and> mset (sortLogs xs) = mset xs"
proof -
  have "newer_first ys \<Longrightarrow> newer_first (fold insertLog xs ys) \<and> mset (fold insertLog xs ys) = mset xs + mset ys" for ys
    by (induction xs arbitrary: ys) (simp_all add: insertLog_sorted mset_insertLog)
  from this [of "[]"] show ?thesis by (simp add: sortLogs_def)
qed

text \<open>The logs of a device are the newest of those asked for: the reply has at most the requested number
  of entries, newest first, each of them an entry with the requested severity from the event log or
  the lifecycle log; the total counts all such entries, and no entry left out is newer than one that
  is shown.\<close>

theorem logs_are_the_newest:
  assumes "deviceLogs severity psize sec = (shown, n)" "0 \<le> psize"
  shows "\<exists>hidden. mset shown + mset hidden = mset (wantedLogs severity sec) \<and> n = int (length (wantedLogs severity sec)) \<and>
    int (length shown) = min psize n \<and> newer_first shown \<and>
    list_all (\<lambda>s. list_all (\<lambda>h. lg_Timestamp s \<ge> lg_Timestamp h) hidden) shown"
proof -
  define logs where "logs = sortLogs (wantedLogs severity sec)"
  have s: "newer_first logs" "mset logs = mset (wantedLogs severity sec)" by (simp_all add: logs_def sortLogs_correct)
  then have l: "length logs = length (wantedLogs severity sec)" by (metis size_mset)
  from assms have sh: "shown = take (nat psize) logs" "n = int (length logs)"
    unfolding deviceLogs_def by (auto simp: Let_def logs_def split: if_splits)
  have split: "take (nat psize) logs @ drop (nat psize) logs = logs" by simp
  have "newer_first (take (nat psize) logs @ drop (nat psize) logs)" using s(1) by simp
  then have "newer_first shown" "list_all (\<lambda>s. list_all (\<lambda>h. lg_Timestamp s \<ge> lg_Timestamp h) (drop (nat psize) logs)) shown"
    unfolding sorted_wrt_append sh(1) by (auto simp: list_all_iff)
  moreover have "mset shown + mset (drop (nat psize) logs) = mset logs"
    unfolding sh(1) by (metis mset_append split)
  moreover have "int (length shown) = min psize n" using assms(2) by (auto simp: sh)
  ultimately show ?thesis using s(2) l sh(2) by (intro exI [of _ "drop (nat psize) logs"]) auto
qed

definition exSections :: inventory_sections where
  "exSections = (sectionsOf emptySync)\<lparr>is_SELEntries := [\<lparr>le_ID = ''1'', le_Severity = ''Critical'', le_Message = ''fan'', le_Created = ''2024-01-01''\<rparr>,
     \<lparr>le_ID = ''2'', le_Severity = ''critical'', le_Message = ''psu'', le_Created = ''2024-02-01''\<rparr>]\<rparr>"

lemma logs_are_the_newest_witness:
  "\<exists>hidden. mset (fst (deviceLogs ''CRITICAL'' 1 (Some exSections))) + mset hidden = mset (wantedLogs ''CRITICAL'' (Some exSections)) \<and>
     map lg_ID (fst (deviceLogs ''CRITICAL'' 1 (Some exSections))) = [''2'']"
proof -
  have "map lg_ID (fst (deviceLogs ''CRITICAL'' 1 (Some exSections))) = [''2'']" by code_simp
  with logs_are_the_newest [of "''CRITICAL''" 1 "Some exSections", OF prod.collapse [symmetric]]
  show ?thesis by auto
qed

end
