(* ===== verification/Devices.thy ===== *)
theory Devices
  imports Inventory Users Ingest
begin

text \<open>
  The devices of the API server: \<open>backend/internal/db/device_repository.go\<close> (without the inventory) and
  the handlers of \<open>backend/internal/api/handlers/device_handler.go\<close> that create, list, read, change and
  delete them.

  A row is that of the collectors (theory Db) with the columns that only the API server uses.
  \<open>toInet\<close> is the cast of a text to \<open>inet\<close> by PostgreSQL, \<open>None\<close> when it refuses the text; \<open>newId\<close> is the
  identifier drawn by \<open>uuid.New\<close>. \<open>dbErr\<close> stands for every other error of a statement.
\<close>

section \<open>Rows and requests\<close>

record api_device_row = device_row +
  dv_vendor :: "string option"
  dv_controller :: "string option"
  dv_polling_interval :: "int option"
  dv_ssl_verify :: "bool option"
  dv_location :: "string option"
  dv_tags :: "string list option"
  dv_last_sync_at :: "time option"
  dv_connection_status :: string
  dv_connection_error :: "string option"
  dv_created_at :: time

record device_create =
  dr_Hostname :: string
  dr_IPAddress :: string
  dr_BMCIPAddress :: "string option"
  dr_DeviceType :: string
  dr_Vendor :: "string option"
  dr_ManagementController :: "string option"
  dr_Protocol :: "string option"
  dr_PollingInterval :: "int option"
  dr_SSLVerify :: "bool option"
  dr_Location :: "string option"
  dr_Tags :: "string list option"

record device_update =
  dq_Hostname :: "string option"
  dq_IPAddress :: "string option"
  dq_BMCIPAddress :: "string option"
  dq_DeviceType :: "string option"
  dq_Vendor :: "string option"
  dq_ManagementController :: "string option"
  dq_Protocol :: "string option"
  dq_PollingInterval :: "int option"
  dq_SSLVerify :: "bool option"
  dq_Location :: "string option"
  dq_Tags :: "string list option"
  dq_Status :: "string option"

record device_filter =
  df_DeviceType :: "string option"
  df_Status :: "string option"
  df_Location :: "string option"
  df_Tags :: "string list"
  df_Search :: "string option"
  df_Page :: int
  df_PageSize :: int

text \<open>The struct of a device has the row's columns with the addresses as PostgreSQL prints an \<open>inet\<close>: without
  the netmask when it covers the whole address.\<close>

definition inet_out :: "inet \<Rightarrow> string" where
  "inet_out i = (if in_plen i = (if CHR '':'' \<in> set (in_addr i) then 128 else 32) then in_addr i else inet_text i)"

record device_json =
  dj_row :: api_device_row
  dj_IPAddress :: string
  dj_BMCIPAddress :: "string option"

definition deviceJson :: "api_device_row \<Rightarrow> device_json" where
  "deviceJson r = \<lparr>dj_row = r, dj_IPAddress = inet_out (dv_ip r), dj_BMCIPAddress = map_option inet_out (dv_bmc_ip r)\<rparr>"

section \<open>The repository\<close>

definition badInet :: "string \<Rightarrow> string" where
  "badInet s = ''pq: invalid input syntax for type inet: '' @ quoted s"

text \<open>A nullable address: NULL stays NULL, a text is cast.\<close>

definition castInet :: "(string \<Rightarrow> inet option) \<Rightarrow> string option \<Rightarrow> inet option result" where
  "castInet toInet x = (case x of None \<Rightarrow> Inr None
     | Some s \<Rightarrow> (case toInet s of None \<Rightarrow> Inl (badInet s) | Some i \<Rightarrow> Inr (Some i)))"

definition newDevice :: "string \<Rightarrow> time \<Rightarrow> time \<Rightarrow> device_create \<Rightarrow> inet \<Rightarrow> inet option \<Rightarrow> api_device_row" where
  "newDevice newId t1 t2 q ip bmc = \<lparr>dv_id = newId, dv_hostname = dr_Hostname q, dv_ip = ip, dv_bmc_ip = bmc,
     dv_type = dr_DeviceType q, dv_protocol = dr_Protocol q, dv_status = ''unknown'', dv_last_seen = None,
     dv_updated_at = t2, dv_vendor = dr_Vendor q, dv_controller = dr_ManagementController q,
     dv_polling_interval = dr_PollingInterval q, dv_ssl_verify = dr_SSLVerify q, dv_location = dr_Location q,
     dv_tags = dr_Tags q, dv_last_sync_at = None, dv_connection_status = ''unknown'', dv_connection_error = None,
     dv_created_at = t1\<rparr>"

definition device_Create ::
  "(string \<Rightarrow> inet option) \<Rightarrow> db_error \<Rightarrow> string \<Rightarrow> time \<Rightarrow> time \<Rightarrow> device_create \<Rightarrow>
   api_device_row list \<Rightarrow> api_device_row list \<times> device_json result" where
  "device_Create toInet dbErr newId t1 t2 q rows =
     (let failed = (\<lambda>e. (rows, Inl (''failed to create device: '' @ e))) in
      case dbErr of Some e \<Rightarrow> failed e
      | None \<Rightarrow> (case toInet (dr_IPAddress q) of
          None \<Rightarrow> failed (badInet (dr_IPAddress q))
        | Some ip \<Rightarrow> (case castInet toInet (dr_BMCIPAddress q) of
            Inl e \<Rightarrow> failed e
          | Inr bmc \<Rightarrow>
              (if list_ex (\<lambda>r. dv_id r = newId) rows
               then failed ''pq: duplicate key value violates unique constraint''
               else let r = newDevice newId t1 t2 q ip bmc in (rows @ [r], Inr (deviceJson r))))))"

definition device_GetByID :: "db_error \<Rightarrow> string \<Rightarrow> api_device_row list \<Rightarrow> api_device_row result" where
  "device_GetByID dbErr i rows = (case dbErr of
     Some e \<Rightarrow> Inl (''failed to get device: '' @ e)
   | None \<Rightarrow> (case findBy dv_id i rows of None \<Rightarrow> Inl ''device not found'' | Some r \<Rightarrow> Inr r))"

text \<open>The list: \<open>tags && $k\<close> is overlap of arrays, and the search looks at the name and at the address
  with its netmask.\<close>

datatype device_cond = TypeEq | StatusEq | LocationEq | TagsOverlap | NameOrAddress

definition deviceFields :: "device_filter \<Rightarrow> (device_cond \<times> sqlval option) list" where
  "deviceFields f = [(TypeEq, map_option VText (df_DeviceType f)), (StatusEq, map_option VText (df_Status f)),
     (LocationEq, map_option VText (df_Location f)),
     (TagsOverlap, if df_Tags f = [] then None else Some (VTexts (df_Tags f))),
     (NameOrAddress, case df_Search f of Some s \<Rightarrow> if s = [] then None else Some (VText (searchPattern s)) | None \<Rightarrow> None)]"

definition deviceCond :: "device_cond \<Rightarrow> sqlval \<Rightarrow> api_device_row \<Rightarrow> bool" where
  "deviceCond c v r = (case (c, v) of
       (TypeEq, VText s) \<Rightarrow> dv_type r = s
     | (StatusEq, VText s) \<Rightarrow> dv_status r = s
     | (LocationEq, VText s) \<Rightarrow> dv_location r = Some s
     | (TagsOverlap, VTexts ts) \<Rightarrow> (case dv_tags r of None \<Rightarrow> False | Some us \<Rightarrow> list_ex (\<lambda>t. t \<in> set us) ts)
     | (NameOrAddress, VText p) \<Rightarrow> ilike (dv_hostname r) p \<or> ilike (inet_text (dv_ip r)) p
     | _ \<Rightarrow> False)"

definition deviceSelected :: "device_filter \<Rightarrow> api_device_row \<Rightarrow> bool" where
  "deviceSelected f r = (case addAll (deviceFields f) emptyBuilder of
     (cs, args, pos) \<Rightarrow> (\<forall>(c, v) \<in> set (readClauses cs args). deviceCond c v r))"

definition device_List ::
  "db_error \<Rightarrow> db_error \<Rightarrow> device_filter \<Rightarrow> api_device_row list \<Rightarrow> (api_device_row list \<times> int) result" where
  "device_List e1 e2 f rows = listRows ''devices'' e1 e2 (deviceSelected f) (sort_key (\<lambda>r. - dv_created_at r))
     (df_Page f) (df_PageSize f) rows"


section \<open>Changing a device\<close>

datatype device_col = SetUpdatedAt | SetHostname | SetIp | SetBmcIp | SetType | SetVendor | SetController
  | SetProtocol | SetInterval | SetSslVerify | SetLocation | SetTags | SetStatus

definition colName :: "device_col \<Rightarrow> string" where
  "colName c = (case c of SetUpdatedAt \<Rightarrow> ''updated_at'' | SetHostname \<Rightarrow> ''hostname'' | SetIp \<Rightarrow> ''ip_address''
     | SetBmcIp \<Rightarrow> ''bmc_ip_address'' | SetType \<Rightarrow> ''device_type'' | SetVendor \<Rightarrow> ''vendor''
     | SetController \<Rightarrow> ''management_controller'' | SetProtocol \<Rightarrow> ''protocol'' | SetInterval \<Rightarrow> ''polling_interval''
     | SetSslVerify \<Rightarrow> ''ssl_verify'' | SetLocation \<Rightarrow> ''location'' | SetTags \<Rightarrow> ''tags'' | SetStatus \<Rightarrow> ''status'')"

definition updateFields :: "device_update \<Rightarrow> (device_col \<times> sqlval option) list" where
  "updateFields q = [(SetHostname, map_option VText (dq_Hostname q)), (SetIp, map_option VText (dq_IPAddress q)),
     (SetBmcIp, map_option VText (dq_BMCIPAddress q)), (SetType, map_option VText (dq_DeviceType q)),
     (SetVendor, map_option VText (dq_Vendor q)), (SetController, map_option VText (dq_ManagementController q)),
     (SetProtocol, map_option VText (dq_Protocol q)), (SetInterval, map_option VInt (dq_PollingInterval q)),
     (SetSslVerify, map_option VBool (dq_SSLVerify q)), (SetLocation, map_option VText (dq_Location q)),
     (SetTags, map_option VTexts (dq_Tags q)), (SetStatus, map_option VText (dq_Status q))]"

definition updateBuilder :: "time \<Rightarrow> device_update \<Rightarrow> device_col builder" where
  "updateBuilder now q = addAll (updateFields q) ([(SetUpdatedAt, 1)], [VTime now], 2)"

definition updateText :: "time \<Rightarrow> device_update \<Rightarrow> string" where
  "updateText now q = (case updateBuilder now q of (cs, args, pos) \<Rightarrow>
     ''UPDATE devices SET '' @ setText (map (\<lambda>(c, k). (colName c, k)) cs) @ '' WHERE id = $'' @ itoa (int pos))"

text \<open>An assignment of the statement; a value that the column's type refuses is an error of the statement.\<close>

definition setCol :: "(string \<Rightarrow> inet option) \<Rightarrow> device_col \<Rightarrow> sqlval \<Rightarrow> (api_device_row \<Rightarrow> api_device_row) result" where
  "setCol toInet c v = (case (c, v) of
       (SetUpdatedAt, VTime t) \<Rightarrow> Inr (\<lambda>r. r\<lparr>dv_updated_at := t\<rparr>)
     | (SetHostname, VText s) \<Rightarrow> Inr (\<lambda>r. r\<lparr>dv_hostname := s\<rparr>)
     | (SetIp, VText s) \<Rightarrow> (case toInet s of None \<Rightarrow> Inl (badInet s) | Some i \<Rightarrow> Inr (\<lambda>r. r\<lparr>dv_ip := i\<rparr>))
     | (SetBmcIp, VText s) \<Rightarrow> (case toInet s of None \<Rightarrow> Inl (badInet s) | Some i \<Rightarrow> Inr (\<lambda>r. r\<lparr>dv_bmc_ip := Some i\<rparr>))
     | (SetType, VText s) \<Rightarrow> Inr (\<lambda>r. r\<lparr>dv_type := s\<rparr>)
     | (SetVendor, VText s) \<Rightarrow> Inr (\<lambda>r. r\<lparr>dv_vendor := Some s\<rparr>)
     | (SetController, VText s) \<Rightarrow> Inr (\<lambda>r. r\<lparr>dv_controller := Some s\<rparr>)
     | (SetProtocol, VText s) \<Rightarrow> Inr (\<lambda>r. r\<lparr>dv_protocol := Some s\<rparr>)
     | (SetInterval, VInt i) \<Rightarrow> Inr (\<lambda>r. r\<lparr>dv_polling_interval := Some i\<rparr>)
     | (SetSslVerify, VBool b) \<Rightarrow> Inr (\<lambda>r. r\<lparr>dv_ssl_verify := Some b\<rparr>)
     | (SetLocation, VText s) \<Rightarrow> Inr (\<lambda>r. r\<lparr>dv_location := Some s\<rparr>)
     | (SetTags, VTexts ts) \<Rightarrow> Inr (\<lambda>r. r\<lparr>dv_tags := Some ts\<rparr>)
     | (SetStatus, VText s) \<Rightarrow> Inr (\<lambda>r. r\<lparr>dv_status := s\<rparr>)
     | _ \<Rightarrow> Inl ''pq: invalid input syntax'')"

fun setAll :: "(string \<Rightarrow> inet option) \<Rightarrow> (device_col \<times> sqlval) list \<Rightarrow> (api_device_row \<Rightarrow> api_device_row) result" where
  "setAll toInet [] = Inr (\<lambda>r. r)"
| "setAll toInet ((c, v) # cvs) = (case setCol toInet c v of Inl e \<Rightarrow> Inl e
     | Inr f \<Rightarrow> (case setAll toInet cvs of Inl e \<Rightarrow> Inl e | Inr g \<Rightarrow> Inr (\<lambda>r. g (f r))))"

text \<open>The identifier is the last value, at the number the builder ends with. The values are cast before
  any row is looked at.\<close>

definition device_Update ::
  "(string \<Rightarrow> inet option) \<Rightarrow> db_error \<Rightarrow> time \<Rightarrow> string \<Rightarrow> device_update \<Rightarrow>
   api_device_row list \<Rightarrow> api_device_row list \<times> device_json result" where
  "device_Update toInet dbErr now i q rows = (case updateBuilder now q of (cs, args0, pos) \<Rightarrow>
     (let args = args0 @ [VText i]; hit = (\<lambda>r. VText (dv_id r) = bound args pos) in
      case dbErr of Some e \<Rightarrow> (rows, Inl (''failed to update device: '' @ e))
      | None \<Rightarrow> (case setAll toInet (readClauses cs args) of
          Inl e \<Rightarrow> (rows, Inl (''failed to update device: '' @ e))
        | Inr f \<Rightarrow> (case find hit rows of
            None \<Rightarrow> (rows, Inl ''device not found'')
          | Some r \<Rightarrow> (updateWhere hit f rows, Inr (deviceJson (f r)))))))"

text \<open>The agents that have not been seen for the timeout.\<close>

definition isAgent :: "'a device_row_scheme \<Rightarrow> bool" where
  "isAgent r = (dv_type r = ''linux_agent'' \<or> dv_type r = ''windows_agent'')"

definition timedOut :: "time \<Rightarrow> time \<Rightarrow> 'a device_row_scheme \<Rightarrow> bool" where
  "timedOut timeout now r = (isAgent r \<and> dv_status r \<noteq> ''unavailable'' \<and>
     (case dv_last_seen r of None \<Rightarrow> True | Some t \<Rightarrow> t < now - timeout))"

definition MarkTimedOutAgentsUnavailable ::
  "db_error \<Rightarrow> time \<Rightarrow> time \<Rightarrow> 'a device_row_scheme list \<Rightarrow> 'a device_row_scheme list \<times> int result" where
  "MarkTimedOutAgentsUnavailable dbErr timeout now rows = (case dbErr of
     Some e \<Rightarrow> (rows, Inl (''failed to mark timed-out agents as unavailable: '' @ e))
   | None \<Rightarrow> (updateWhere (timedOut timeout now) (\<lambda>r. r\<lparr>dv_status := ''unavailable'', dv_updated_at := now\<rparr>) rows,
       Inr (int (length (filter (timedOut timeout now) rows)))))"

text \<open>The background job: a run at the start and one per tick, whose errors are only logged.\<close>

definition agentTimeout :: time where
  "agentTimeout = 5 * 60 * 1000000000"

fun agentJob :: "(db_error \<times> time) list \<Rightarrow> 'a device_row_scheme list \<Rightarrow> 'a device_row_scheme list" where
  "agentJob [] rows = rows"
| "agentJob ((e, now) # ticks) rows = agentJob ticks (fst (MarkTimedOutAgentsUnavailable e agentTimeout now rows))"

text \<open>What a test of the connection and a synchronisation record. An empty message is NULL.\<close>

definition errPtr :: "string \<Rightarrow> string option" where
  "errPtr msg = (if msg = [] then None else Some msg)"

definition UpdateConnectionStatus ::
  "db_error \<Rightarrow> time \<Rightarrow> string \<Rightarrow> string \<Rightarrow> string \<Rightarrow> api_device_row list \<Rightarrow> api_device_row list \<times> string option" where
  "UpdateConnectionStatus dbErr now i status msg rows = (case dbErr of
     Some e \<Rightarrow> (rows, Some (''failed to update connection status: '' @ e))
   | None \<Rightarrow> (updateWhere (\<lambda>r. dv_id r = i)
       (\<lambda>r. r\<lparr>dv_connection_status := status, dv_connection_error := errPtr msg, dv_updated_at := now\<rparr>) rows, None))"

definition UpdateSyncResult ::
  "db_error \<Rightarrow> time \<Rightarrow> string \<Rightarrow> string \<Rightarrow> string \<Rightarrow> api_device_row list \<Rightarrow> api_device_row list \<times> string option" where
  "UpdateSyncResult dbErr now i connectionStatus msg rows = (case dbErr of
     Some e \<Rightarrow> (rows, Some (''failed to update sync result: '' @ e))
   | None \<Rightarrow> (updateWhere (\<lambda>r. dv_id r = i)
       (\<lambda>r. r\<lparr>dv_last_sync_at := Some now, dv_connection_status := connectionStatus, dv_connection_error := errPtr msg,
          dv_status := (if connectionStatus \<noteq> ''connected'' then ''critical'' else ''healthy''), dv_updated_at := now\<rparr>) rows, None))"

text \<open>The tables that refer to the devices, from which a deletion takes the device's rows too
  (\<open>ON DELETE CASCADE\<close>), and the audit log, which it leaves alone.\<close>

record device_tables = inventory_tables +
  dt_devices :: "api_device_row list"
  dt_credentials :: "cred_row list"
  dt_events :: "event_row list"
  dt_audit :: "audit_log list"

definition device_Delete :: "db_error \<Rightarrow> string \<Rightarrow> device_tables \<Rightarrow> device_tables \<times> string option" where
  "device_Delete dbErr i t = (case deleteRows ''failed to delete device'' ''device not found'' dbErr (\<lambda>r. dv_id r = i) (dt_devices t) of
     (rows, Some e) \<Rightarrow> (t\<lparr>dt_devices := rows\<rparr>, Some e)
   | (rows, None) \<Rightarrow> (t\<lparr>dt_devices := rows,
       dt_credentials := filter (\<lambda>r. dc_device_id r \<noteq> i) (dt_credentials t),
       dt_events := filter (\<lambda>r. ev_device_id r \<noteq> i) (dt_events t),
       it_rows := filter (\<lambda>r. iv_device_id r \<noteq> i) (it_rows t),
       it_nics := filter (\<lambda>r. nr_device_id r \<noteq> i) (it_nics t),
       it_disks := filter (\<lambda>r. ad_device_id r \<noteq> i) (it_disks t)\<rparr>, None))"


section \<open>Handlers\<close>

text \<open>What the world contributes to a request: the errors of the statements and the audit entry's values
  (theory Users), the new identifier, the time of creation and the caller that the token names.\<close>

record device_env = auth_env +
  de_newId :: string
  de_t1 :: time
  de_user :: string

definition auditDevice :: "device_env \<Rightarrow> audit_log \<Rightarrow> device_tables \<Rightarrow> device_tables" where
  "auditDevice env entry t =
     t\<lparr>dt_audit := fst (audit_Create (ae_auditErr env) (ae_auditId env) (ae_now env) entry (dt_audit t))\<rparr>"

text \<open>The check of an optional address: a missing and an empty one pass.\<close>

definition badAddress :: "(string \<Rightarrow> bool) \<Rightarrow> string \<Rightarrow> string option \<Rightarrow> string option" where
  "badAddress parseIP name x = (case x of None \<Rightarrow> None
     | Some s \<Rightarrow> if s = [] then None else map_option (\<lambda>e. ''Invalid '' @ name @ '': '' @ e) (ValidateIPAddress parseIP s))"

definition CreateDevice ::
  "(string \<Rightarrow> bool) \<Rightarrow> (string \<Rightarrow> inet option) \<Rightarrow> device_env \<Rightarrow> (bind_error + device_create) \<Rightarrow>
   device_tables \<Rightarrow> device_tables \<times> device_json api_reply" where
  "CreateDevice parseIP toInet env req t = (case req of
     Inl e \<Rightarrow> (t, BadRequest (FormatBindingErrors e) ''INVALID_REQUEST'')
   | Inr q \<Rightarrow> (case ValidateIPAddress parseIP (dr_IPAddress q) of
       Some e \<Rightarrow> (t, BadRequest (''Invalid ip_address: '' @ e) ''INVALID_IP_ADDRESS'')
     | None \<Rightarrow> (case badAddress parseIP ''bmc_ip_address'' (dr_BMCIPAddress q) of
         Some e \<Rightarrow> (t, BadRequest e ''INVALID_IP_ADDRESS'')
       | None \<Rightarrow> (case device_Create toInet (ae_writeErr env) (de_newId env) (de_t1 env) (ae_now env) q (dt_devices t) of
           (rows, Inl e) \<Rightarrow> (t\<lparr>dt_devices := rows\<rparr>, InternalError ''Failed to create device'')
         | (rows, Inr d) \<Rightarrow>
             (auditDevice env (LogDeviceCreate (de_user env) (dv_id (dj_row d)) (ae_ip env)
                (Some [(''hostname'', dv_hostname (dj_row d)), (''device_type'', dv_type (dj_row d))])) (t\<lparr>dt_devices := rows\<rparr>),
              Created d)))))"

definition ListDevices ::
  "db_error \<Rightarrow> db_error \<Rightarrow> (string \<Rightarrow> string) \<Rightarrow> api_device_row list \<Rightarrow> device_json list api_reply" where
  "ListDevices e1 e2 q rows =
     (let txt = (\<lambda>s. if s = [] then None else Some s);
          f = \<lparr>df_DeviceType = txt (q ''device_type''), df_Status = txt (q ''status''), df_Location = txt (q ''location''),
            df_Tags = [], df_Search = txt (q ''search''),
            df_Page = positiveOr 1 (q ''page''), df_PageSize = positiveOr 20 (q ''page_size'')\<rparr> in
      case device_List e1 e2 f rows of
        Inl e \<Rightarrow> InternalError ''Failed to list devices''
      | Inr (rs, n) \<Rightarrow> Paginated (map deviceJson rs) \<lparr>pm_page = df_Page f, pm_page_size = df_PageSize f, pm_total = n\<rparr>)"

definition deviceMissing :: "string \<Rightarrow> string \<Rightarrow> 'a api_reply" where
  "deviceMissing other e = (if e = ''device not found'' then NotFound ''Device not found'' else InternalError other)"

definition GetDevice :: "db_error \<Rightarrow> string option \<Rightarrow> api_device_row list \<Rightarrow> device_json api_reply" where
  "GetDevice dbErr param rows = (case param of
     None \<Rightarrow> BadRequest ''Invalid device ID'' ''INVALID_ID''
   | Some i \<Rightarrow> (case device_GetByID dbErr i rows of
       Inl e \<Rightarrow> deviceMissing ''Failed to get device'' e | Inr r \<Rightarrow> Success (deviceJson r)))"

definition UpdateDevice ::
  "(string \<Rightarrow> bool) \<Rightarrow> (string \<Rightarrow> inet option) \<Rightarrow> device_env \<Rightarrow> string option \<Rightarrow> (bind_error + device_update) \<Rightarrow>
   device_tables \<Rightarrow> device_tables \<times> device_json api_reply" where
  "UpdateDevice parseIP toInet env param req t = (case param of
     None \<Rightarrow> (t, BadRequest ''Invalid device ID'' ''INVALID_ID'')
   | Some i \<Rightarrow> (case req of
       Inl e \<Rightarrow> (t, BadRequest (FormatBindingErrors e) ''INVALID_REQUEST'')
     | Inr q \<Rightarrow> (case badAddress parseIP ''ip_address'' (dq_IPAddress q) of
         Some e \<Rightarrow> (t, BadRequest e ''INVALID_IP_ADDRESS'')
       | None \<Rightarrow> (case badAddress parseIP ''bmc_ip_address'' (dq_BMCIPAddress q) of
           Some e \<Rightarrow> (t, BadRequest e ''INVALID_IP_ADDRESS'')
         | None \<Rightarrow> (case device_Update toInet (ae_writeErr env) (ae_now env) i q (dt_devices t) of
             (rows, Inl e) \<Rightarrow> (t\<lparr>dt_devices := rows\<rparr>, deviceMissing ''Failed to update device'' e)
           | (rows, Inr d) \<Rightarrow>
               (auditDevice env (LogDeviceUpdate (de_user env) (dv_id (dj_row d)) (ae_ip env)
                  (Some [(''hostname'', dv_hostname (dj_row d))])) (t\<lparr>dt_devices := rows\<rparr>),
                Success d))))))"

definition DeleteDevice :: "device_env \<Rightarrow> string option \<Rightarrow> device_tables \<Rightarrow> device_tables \<times> unit api_reply" where
  "DeleteDevice env param t = (case param of
     None \<Rightarrow> (t, BadRequest ''Invalid device ID'' ''INVALID_ID'')
   | Some i \<Rightarrow> (case device_Delete (ae_writeErr env) i t of
       (t1, Some e) \<Rightarrow> (t1, deviceMissing ''Failed to delete device'' e)
     | (t1, None) \<Rightarrow> (auditDevice env (LogDeviceDelete (de_user env) i (ae_ip env) None) t1,
         Message 200 ''Device deleted successfully'')))"

section \<open>The effect of an update\<close>

text \<open>What a request means for a row: each field that it gives replaces the column, every other column stays.\<close>

definition keepNull :: "'a option \<Rightarrow> 'a option \<Rightarrow> 'a option" where
  "keepNull x old = (case x of Some v \<Rightarrow> Some v | None \<Rightarrow> old)"

definition updated_device :: "(string \<Rightarrow> inet option) \<Rightarrow> time \<Rightarrow> device_update \<Rightarrow> api_device_row \<Rightarrow> api_device_row" where
  "updated_device toInet now q r = r\<lparr>dv_updated_at := now,
     dv_hostname := coalesce (dq_Hostname q) (dv_hostname r),
     dv_ip := (case dq_IPAddress q of None \<Rightarrow> dv_ip r | Some s \<Rightarrow> the (toInet s)),
     dv_bmc_ip := (case dq_BMCIPAddress q of None \<Rightarrow> dv_bmc_ip r | Some s \<Rightarrow> toInet s),
     dv_type := coalesce (dq_DeviceType q) (dv_type r), dv_vendor := keepNull (dq_Vendor q) (dv_vendor r),
     dv_controller := keepNull (dq_ManagementController q) (dv_controller r),
     dv_protocol := keepNull (dq_Protocol q) (dv_protocol r),
     dv_polling_interval := keepNull (dq_PollingInterval q) (dv_polling_interval r),
     dv_ssl_verify := keepNull (dq_SSLVerify q) (dv_ssl_verify r), dv_location := keepNull (dq_Location q) (dv_location r),
     dv_tags := keepNull (dq_Tags q) (dv_tags r), dv_status := coalesce (dq_Status q) (dv_status r)\<rparr>"

definition addressesCast :: "(string \<Rightarrow> inet option) \<Rightarrow> device_update \<Rightarrow> bool" where
  "addressesCast toInet q = (pred_option (\<lambda>s. toInet s \<noteq> None) (dq_IPAddress q) \<and>
     pred_option (\<lambda>s. toInet s \<noteq> None) (dq_BMCIPAddress q))"

definition setOpt :: "(string \<Rightarrow> inet option) \<Rightarrow> device_col \<Rightarrow> sqlval option \<Rightarrow> (api_device_row \<Rightarrow> api_device_row) result" where
  "setOpt toInet c x = (case x of None \<Rightarrow> Inr (\<lambda>r. r) | Some v \<Rightarrow> setCol toInet c v)"

lemma setAll_given:
  "setAll toInet (given_fields ((c, x) # xs)) = (case setOpt toInet c x of Inl e \<Rightarrow> Inl e
     | Inr f \<Rightarrow> (case setAll toInet (given_fields xs) of Inl e \<Rightarrow> Inl e | Inr g \<Rightarrow> Inr (\<lambda>r. g (f r))))"
  unfolding setOpt_def by (cases x) (auto split: sum.split)

lemma setOpt_plain:
  "setOpt toInet SetHostname (map_option VText x) = Inr (\<lambda>r. r\<lparr>dv_hostname := coalesce x (dv_hostname r)\<rparr>)"
  "setOpt toInet SetType (map_option VText x) = Inr (\<lambda>r. r\<lparr>dv_type := coalesce x (dv_type r)\<rparr>)"
  "setOpt toInet SetStatus (map_option VText x) = Inr (\<lambda>r. r\<lparr>dv_status := coalesce x (dv_status r)\<rparr>)"
  "setOpt toInet SetVendor (map_option VText x) = Inr (\<lambda>r. r\<lparr>dv_vendor := keepNull x (dv_vendor r)\<rparr>)"
  "setOpt toInet SetController (map_option VText x) = Inr (\<lambda>r. r\<lparr>dv_controller := keepNull x (dv_controller r)\<rparr>)"
  "setOpt toInet SetProtocol (map_option VText x) = Inr (\<lambda>r. r\<lparr>dv_protocol := keepNull x (dv_protocol r)\<rparr>)"
  "setOpt toInet SetLocation (map_option VText x) = Inr (\<lambda>r. r\<lparr>dv_location := keepNull x (dv_location r)\<rparr>)"
  "setOpt toInet SetInterval (map_option VInt y) = Inr (\<lambda>r. r\<lparr>dv_polling_interval := keepNull y (dv_polling_interval r)\<rparr>)"
  "setOpt toInet SetSslVerify (map_option VBool b) = Inr (\<lambda>r. r\<lparr>dv_ssl_verify := keepNull b (dv_ssl_verify r)\<rparr>)"
  "setOpt toInet SetTags (map_option VTexts z) = Inr (\<lambda>r. r\<lparr>dv_tags := keepNull z (dv_tags r)\<rparr>)"
  unfolding setOpt_def setCol_def coalesce_def keepNull_def
  by (cases x; cases y; cases b; cases z; simp)+

lemma setOpt_inet:
  "setOpt toInet SetIp (map_option VText x) = (if pred_option (\<lambda>s. toInet s \<noteq> None) x
     then Inr (\<lambda>r. r\<lparr>dv_ip := (case x of None \<Rightarrow> dv_ip r | Some s \<Rightarrow> the (toInet s))\<rparr>) else Inl (badInet (the x)))"
  "setOpt toInet SetBmcIp (map_option VText x) = (if pred_option (\<lambda>s. toInet s \<noteq> None) x
     then Inr (\<lambda>r. r\<lparr>dv_bmc_ip := (case x of None \<Rightarrow> dv_bmc_ip r | Some s \<Rightarrow> toInet s)\<rparr>) else Inl (badInet (the x)))"
  unfolding setOpt_def setCol_def by (cases x; auto split: option.split)+


lemma setAll_update:
  "addressesCast toInet q \<Longrightarrow>
     setAll toInet ((SetUpdatedAt, VTime now) # given_fields (updateFields q)) = Inr (updated_device toInet now q)"
  "\<not> addressesCast toInet q \<Longrightarrow>
     \<exists>e. setAll toInet ((SetUpdatedAt, VTime now) # given_fields (updateFields q)) = Inl e"
proof -
  have t: "setCol toInet SetUpdatedAt (VTime now) = Inr (\<lambda>r. r\<lparr>dv_updated_at := now\<rparr>)" by (simp add: setCol_def)
  have n: "given_fields [] = ([] :: (device_col \<times> sqlval) list)" by simp
  show "addressesCast toInet q \<Longrightarrow>
     setAll toInet ((SetUpdatedAt, VTime now) # given_fields (updateFields q)) = Inr (updated_device toInet now q)"
    unfolding updateFields_def setAll.simps t setAll_given setOpt_plain setOpt_inet n addressesCast_def
    by (simp add: updated_device_def fun_eq_iff cong: option.case_cong)
  show "\<not> addressesCast toInet q \<Longrightarrow>
     \<exists>e. setAll toInet ((SetUpdatedAt, VTime now) # given_fields (updateFields q)) = Inl e"
    unfolding updateFields_def setAll.simps t setAll_given setOpt_plain setOpt_inet n addressesCast_def by auto
qed

lemma updateBuilder_reads:
  assumes "updateBuilder now q = (cs, args, pos)"
  shows "readClauses cs (args @ [VText i]) = (SetUpdatedAt, VTime now) # given_fields (updateFields q)"
    and "bound (args @ [VText i]) pos = VText i"
proof -
  have "builder_ok ([(SetUpdatedAt, 1)], [VTime now], 2)" by (simp add: builder_ok_def)
  from addAll_ok [OF this refl assms [unfolded updateBuilder_def]]
  have ok: "builder_ok (cs, args, pos)" and
    "readClauses cs args = readClauses [(SetUpdatedAt, 1)] [VTime now] @ given_fields (updateFields q)" by auto
  moreover have "readClauses cs (args @ [VText i]) = readClauses cs args"
    using ok by (intro readClauses_more) (simp add: builder_ok_def)
  ultimately show "readClauses cs (args @ [VText i]) = (SetUpdatedAt, VTime now) # given_fields (updateFields q)"
    by (simp add: readClauses_def bound_def)
  from ok show "bound (args @ [VText i]) pos = VText i" by (simp add: builder_ok_def bound_def)
qed

lemma device_Update_result:
  "device_Update toInet dbErr now i q rows = (case dbErr of Some e \<Rightarrow> (rows, Inl (''failed to update device: '' @ e))
     | None \<Rightarrow> if addressesCast toInet q then (case findBy dv_id i rows of None \<Rightarrow> (rows, Inl ''device not found'')
           | Some r \<Rightarrow> (updateWhere (\<lambda>r. dv_id r = i) (updated_device toInet now q) rows,
               Inr (deviceJson (updated_device toInet now q r))))
         else (rows, Inl (''failed to update device: '' @
           (case setAll toInet ((SetUpdatedAt, VTime now) # given_fields (updateFields q)) of Inl e \<Rightarrow> e))))"
proof -
  obtain cs args pos where b: "updateBuilder now q = (cs, args, pos)" by (metis prod_cases3)
  note r = updateBuilder_reads [OF b, of i]
  show ?thesis
  proof (cases "addressesCast toInet q")
    case True
    then show ?thesis unfolding device_Update_def b
      by (simp add: r setAll_update(1) findBy_def Let_def del: setAll.simps split: option.split)
  next
    case False
    from setAll_update(2) [OF this] obtain e where
      "setAll toInet ((SetUpdatedAt, VTime now) # given_fields (updateFields q)) = Inl e" by blast
    with False show ?thesis unfolding device_Update_def b by (simp add: r Let_def del: setAll.simps split: option.split)
  qed
qed

lemma updated_device_id [simp]: "dv_id (updated_device toInet now q r) = dv_id r"
  by (simp add: updated_device_def)

text \<open>C18: A change of a device does what the request says and nothing else: of the row with the device's
  identifier every given field replaces its column, with the addresses as the database reads them,
  the time of change is that of the request, and every other column and every other row stays; the
  reply is that row, and the audit log grows by one entry of the caller. Every other reply leaves all
  tables as they were.\<close>

theorem device_update_effect:
  assumes "UpdateDevice parseIP toInet env (Some i) (Inr q) t = (t', reply)" "ae_auditErr env = None"
  shows "case reply of
      Data code d \<Rightarrow> (\<exists>r \<in> set (dt_devices t). dv_id r = i \<and> d = deviceJson (updated_device toInet (ae_now env) q r)) \<and>
        t' = t\<lparr>dt_devices := updateWhere (\<lambda>r. dv_id r = i) (updated_device toInet (ae_now env) q) (dt_devices t),
          dt_audit := dt_audit t @ [(LogDeviceUpdate (de_user env) i (ae_ip env) (Some [(''hostname'', dv_hostname (dj_row d))]))
            \<lparr>au_ID := ae_auditId env, au_CreatedAt := ae_now env\<rparr>]\<rparr>
    | _ \<Rightarrow> t' = t"
proof (cases "badAddress parseIP ''ip_address'' (dq_IPAddress q) = None \<and>
    badAddress parseIP ''bmc_ip_address'' (dq_BMCIPAddress q) = None")
  case True
  show ?thesis
  proof (cases "ae_writeErr env = None \<and> addressesCast toInet q \<and> findBy dv_id i (dt_devices t) \<noteq> None")
    case ok: True
    then obtain r where r: "findBy dv_id i (dt_devices t) = Some r" by auto
    from findBy_SomeD [OF r] have "r \<in> set (dt_devices t)" "dv_id r = i" by auto
    with assms True ok r show ?thesis
      unfolding UpdateDevice_def
      by (auto simp: device_Update_result auditDevice_def audit_Create_def reply_defs deviceJson_def)
  next
    case False
    with assms True show ?thesis
      unfolding UpdateDevice_def
      by (auto simp: device_Update_result reply_defs deviceMissing_def split: option.splits if_splits)
  qed
next
  case False
  with assms(1) show ?thesis unfolding UpdateDevice_def by (auto simp: reply_defs split: option.splits)
qed


text \<open>A database with one device, and a cast that takes dotted numbers.\<close>

definition exToInet :: "string \<Rightarrow> inet option" where
  "exToInet s = (if s \<noteq> [] \<and> list_all (\<lambda>c. is_digit c \<or> c = CHR ''.'') s then Some \<lparr>in_addr = s, in_plen = 32\<rparr> else None)"

definition exParseIP :: "string \<Rightarrow> bool" where
  "exParseIP s = (exToInet s \<noteq> None)"

definition exDeviceEnv :: device_env where
  "exDeviceEnv = \<lparr>ae_getErr = None, ae_writeErr = None, ae_auditErr = None, ae_auditId = ''a1'', ae_now = 7, ae_ip = ''10.0.0.9'',
     de_newId = ''n1'', de_t1 = 6, de_user = ''u1''\<rparr>"

definition exCreate :: device_create where
  "exCreate = \<lparr>dr_Hostname = ''srv1'', dr_IPAddress = ''10.0.0.1'', dr_BMCIPAddress = Some ''10.1.0.1'',
     dr_DeviceType = ''ipmi'', dr_Vendor = None, dr_ManagementController = None, dr_Protocol = Some ''ipmi'',
     dr_PollingInterval = Some 60, dr_SSLVerify = None, dr_Location = Some ''rack 1'', dr_Tags = Some [''lab'']\<rparr>"

definition exTables :: device_tables where
  "exTables = \<lparr>it_rows = [], it_nics = [], it_disks = [], dt_devices = [newDevice ''d1'' 1 1 exCreate \<lparr>in_addr = ''10.0.0.1'', in_plen = 32\<rparr> None],
     dt_credentials = [], dt_events = [], dt_audit = []\<rparr>"

definition noUpdate :: device_update where
  "noUpdate = \<lparr>dq_Hostname = None, dq_IPAddress = None, dq_BMCIPAddress = None, dq_DeviceType = None, dq_Vendor = None,
     dq_ManagementController = None, dq_Protocol = None, dq_PollingInterval = None, dq_SSLVerify = None,
     dq_Location = None, dq_Tags = None, dq_Status = None\<rparr>"

lemma device_update_effect_witness:
  "let q = noUpdate\<lparr>dq_IPAddress := Some ''10.0.0.5'', dq_Location := Some ''rack 2''\<rparr>;
       r = UpdateDevice exParseIP exToInet exDeviceEnv (Some ''d1'') (Inr q) exTables in
   case snd r of Data code d \<Rightarrow> \<exists>x \<in> set (dt_devices exTables). dv_id x = ''d1'' \<and>
       d = deviceJson (updated_device exToInet 7 q x) | _ \<Rightarrow> False"
proof -
  define q where "q = noUpdate\<lparr>dq_IPAddress := Some ''10.0.0.5'', dq_Location := Some ''rack 2''\<rparr>"
  define r where "r = UpdateDevice exParseIP exToInet exDeviceEnv (Some ''d1'') (Inr q) exTables"
  have "case snd r of Data code d \<Rightarrow> True | _ \<Rightarrow> False"
    unfolding r_def q_def by code_simp
  moreover have "UpdateDevice exParseIP exToInet exDeviceEnv (Some ''d1'') (Inr q) exTables = (fst r, snd r)"
    by (simp add: r_def)
  note device_update_effect [OF this]
  moreover have "ae_auditErr exDeviceEnv = None" "ae_now exDeviceEnv = 7" by (simp_all add: exDeviceEnv_def)
  ultimately have "case snd r of Data code d \<Rightarrow> \<exists>x \<in> set (dt_devices exTables). dv_id x = ''d1'' \<and>
       d = deviceJson (updated_device exToInet 7 q x) | _ \<Rightarrow> False"
    by (cases "snd r") auto
  then show ?thesis unfolding r_def q_def Let_def .
qed

section \<open>Creation\<close>

text \<open>A creation stores what the request says: the accepted request adds one row, with the new
  identifier, the addresses as the database reads them, the requested fields, status and connection
  status unknown; the reply is that row, reading the identifier gives it back, and the audit log
  names the caller, the device and its type. Every other reply leaves all tables as they were.\<close>

theorem device_creation:
  assumes "CreateDevice parseIP toInet env (Inr q) t = (t', reply)" "ae_auditErr env = None"
  shows "case reply of
      Data code d \<Rightarrow> \<exists>ip bmc. toInet (dr_IPAddress q) = Some ip \<and> castInet toInet (dr_BMCIPAddress q) = Inr bmc \<and>
        (let r = newDevice (de_newId env) (de_t1 env) (ae_now env) q ip bmc in
          d = deviceJson r \<and> GetDevice None (Some (de_newId env)) (dt_devices t') = Success d \<and>
          t' = t\<lparr>dt_devices := dt_devices t @ [r], dt_audit := dt_audit t @
            [(LogDeviceCreate (de_user env) (de_newId env) (ae_ip env)
               (Some [(''hostname'', dr_Hostname q), (''device_type'', dr_DeviceType q)]))
               \<lparr>au_ID := ae_auditId env, au_CreatedAt := ae_now env\<rparr>]\<rparr>)
    | _ \<Rightarrow> t' = t"
proof (cases "accepted_reply reply")
  case True
  with assms(1) obtain ip bmc where c: "toInet (dr_IPAddress q) = Some ip" "castInet toInet (dr_BMCIPAddress q) = Inr bmc"
    "ae_writeErr env = None" "\<not> list_ex (\<lambda>r. dv_id r = de_newId env) (dt_devices t)"
    "ValidateIPAddress parseIP (dr_IPAddress q) = None" "badAddress parseIP ''bmc_ip_address'' (dr_BMCIPAddress q) = None"
    unfolding CreateDevice_def device_Create_def by (auto simp: Let_def split: option.splits sum.splits if_splits)
  then have "findBy dv_id (de_newId env) (dt_devices t) = None"
    by (auto simp: findBy_def find_None_iff list_ex_iff)
  note f = findBy_append [of dv_id "de_newId env" "dt_devices t", unfolded this]
  from assms c show ?thesis
    unfolding CreateDevice_def device_Create_def
    by (auto simp: Let_def reply_defs f newDevice_def deviceJson_def auditDevice_def audit_Create_def GetDevice_def device_GetByID_def)
next
  case False
  with assms(1) show ?thesis
    unfolding CreateDevice_def device_Create_def
    by (auto simp: Let_def reply_defs split: option.splits sum.splits if_splits)
qed

lemma device_creation_witness:
  "case snd (CreateDevice exParseIP exToInet exDeviceEnv (Inr exCreate) exTables) of
     Data code d \<Rightarrow> GetDevice None (Some ''n1'') (dt_devices (fst (CreateDevice exParseIP exToInet exDeviceEnv (Inr exCreate) exTables))) = Success d
   | _ \<Rightarrow> False"
proof -
  define r where "r = CreateDevice exParseIP exToInet exDeviceEnv (Inr exCreate) exTables"
  have "case snd r of Data code d \<Rightarrow> True | _ \<Rightarrow> False" unfolding r_def by code_simp
  moreover have "CreateDevice exParseIP exToInet exDeviceEnv (Inr exCreate) exTables = (fst r, snd r)" by (simp add: r_def)
  note device_creation [OF this]
  moreover have "ae_auditErr exDeviceEnv = None" "de_newId exDeviceEnv = ''n1''" by (simp_all add: exDeviceEnv_def)
  ultimately show ?thesis unfolding r_def [symmetric] by (cases "snd r") (auto simp: Let_def)
qed

text \<open>An empty address passes the checks of the handlers and fails in the database: creating a device
  with an empty BMC address, or setting the address of any device to the empty text, answers with an
  internal error instead of a bad request, also when there is no such device.\<close>

theorem empty_address_is_internal_error:
  assumes "toInet [] = None"
    and "ValidateIPAddress parseIP (dr_IPAddress q) = None" "dr_BMCIPAddress q = Some []"
    and "dq_IPAddress u = Some []" "badAddress parseIP ''bmc_ip_address'' (dq_BMCIPAddress u) = None"
  shows "CreateDevice parseIP toInet env (Inr q) t = (t, InternalError ''Failed to create device'') \<and>
    UpdateDevice parseIP toInet env (Some i) (Inr u) t = (t, InternalError ''Failed to update device'')"
proof
  show "CreateDevice parseIP toInet env (Inr q) t = (t, InternalError ''Failed to create device'')"
    using assms(1-3) unfolding CreateDevice_def device_Create_def
    by (auto simp: badAddress_def castInet_def Let_def split: option.split)
  show "UpdateDevice parseIP toInet env (Some i) (Inr u) t = (t, InternalError ''Failed to update device'')"
    using assms(1,4,5) unfolding UpdateDevice_def
    by (auto simp: badAddress_def device_Update_result addressesCast_def deviceMissing_def split: option.split)
qed

lemma empty_address_is_internal_error_witness:
  "CreateDevice exParseIP exToInet exDeviceEnv (Inr (exCreate\<lparr>dr_BMCIPAddress := Some []\<rparr>)) exTables =
     (exTables, InternalError ''Failed to create device'') \<and>
   UpdateDevice exParseIP exToInet exDeviceEnv (Some ''d9'') (Inr (noUpdate\<lparr>dq_IPAddress := Some []\<rparr>)) exTables =
     (exTables, InternalError ''Failed to update device'')"
proof (rule empty_address_is_internal_error)
  show "ValidateIPAddress exParseIP (dr_IPAddress (exCreate\<lparr>dr_BMCIPAddress := Some []\<rparr>)) = None" by code_simp
qed (simp_all add: exToInet_def noUpdate_def badAddress_def exCreate_def)


section \<open>The list\<close>

text \<open>What the parameters of a request ask for, said without the builder.\<close>

definition device_matches :: "(string \<Rightarrow> string) \<Rightarrow> api_device_row \<Rightarrow> bool" where
  "device_matches q r = ((q ''device_type'' = [] \<or> dv_type r = q ''device_type'') \<and>
     (q ''status'' = [] \<or> dv_status r = q ''status'') \<and>
     (q ''location'' = [] \<or> dv_location r = Some (q ''location'')) \<and>
     (q ''search'' = [] \<or> contains (toLower (dv_hostname r)) (toLower (q ''search'')) \<or>
        contains (toLower (inet_text (dv_ip r))) (toLower (q ''search''))))"

lemma deviceSelected_iff:
  "deviceSelected f r = list_all (\<lambda>(c, x). case x of None \<Rightarrow> True | Some v \<Rightarrow> deviceCond c v r) (deviceFields f)"
proof -
  obtain cs args pos where b: "addAll (deviceFields f) emptyBuilder = (cs, args, pos)" by (metis prod_cases3)
  then have "deviceSelected f r = (\<forall>(c, v) \<in> set (given_fields (deviceFields f)). deviceCond c v r)"
    unfolding deviceSelected_def using built_reads [OF b] by simp
  then show ?thesis by (simp only: given_fields_all)
qed

lemma positiveOr_pos: "1 \<le> d \<Longrightarrow> 1 \<le> positiveOr d s"
  unfolding positiveOr_def by (auto split: option.split)

text \<open>The list is exact: when the search text has no wildcard, the reply has the page the client asked
  for, of at most 100 devices, out of exactly the devices that have the requested type, status and
  location and whose name or address contains the search text, the latest first; the total is the
  number of all of them.\<close>

theorem device_list_exact:
  assumes "ListDevices e1 e2 q rows = Page ds m" "plain_search (q ''search'')"
    and "(positiveOr 1 (q ''page'') - 1) * min 100 (positiveOr 20 (q ''page_size'')) < 9223372036854775808"
  shows "let found = sort_key (\<lambda>r. - dv_created_at r) (filter (device_matches q) rows);
      p = positiveOr 1 (q ''page''); s = min 100 (positiveOr 20 (q ''page_size'')) in
    ds = map deviceJson (take (nat s) (drop (nat ((p - 1) * s)) found)) \<and> pm_total m = int (length found)"
proof -
  define f where "f = \<lparr>df_DeviceType = if q ''device_type'' = [] then None else Some (q ''device_type''),
    df_Status = if q ''status'' = [] then None else Some (q ''status''),
    df_Location = if q ''location'' = [] then None else Some (q ''location''), df_Tags = [],
    df_Search = if q ''search'' = [] then None else Some (q ''search''),
    df_Page = positiveOr 1 (q ''page''), df_PageSize = positiveOr 20 (q ''page_size'')\<rparr>"
  define p s where "p = positiveOr 1 (q ''page'')" and "s = min 100 (positiveOr 20 (q ''page_size''))"
  have sel: "deviceSelected f = device_matches q"
  proof
    fix r
    show "deviceSelected f r = device_matches q r"
      unfolding deviceSelected_iff device_matches_def
      by (simp add: deviceFields_def f_def deviceCond_def ilike_contains [OF assms(2)])
  qed
  have b: "1 \<le> p" "1 \<le> s" using positiveOr_pos [of 1] positiveOr_pos [of 20] by (auto simp: p_def s_def)
  have c: "clampPage (df_Page f) (df_PageSize f) = (p, s)"
    using positiveOr_pos [of 1 "q ''page''"] positiveOr_pos [of 20 "q ''page_size''"]
    by (auto simp: clampPage_def f_def p_def s_def min_def Let_def)
  from assms(1) obtain rs where rs: "device_List e1 e2 f rows = Inr (rs, pm_total m)" "ds = map deviceJson rs"
    unfolding ListDevices_def by (auto simp: Let_def f_def reply_defs split: sum.splits)
  have l: "limitOffset s (pageOffset p s) (sort_key (\<lambda>r. - dv_created_at r) (filter (device_matches q) rows)) =
      Inr (take (nat s) (drop (nat ((p - 1) * s)) (sort_key (\<lambda>r. - dv_created_at r) (filter (device_matches q) rows))))"
    using b assms(3) by (intro limitOffset_page) (simp_all add: p_def s_def)
  from rs(1) have "rs = take (nat s) (drop (nat ((p - 1) * s)) (sort_key (\<lambda>r. - dv_created_at r) (filter (device_matches q) rows))) \<and>
      pm_total m = int (length (filter (device_matches q) rows))"
    unfolding device_List_def listRows_def sel c by (auto simp: l Let_def split: option.splits)
  then show ?thesis using rs(2) by (simp add: Let_def p_def s_def)
qed

lemma device_list_exact_witness:
  "case ListDevices None None (\<lambda>k. if k = ''search'' then ''SRV'' else []) (dt_devices exTables) of
     Page ds m \<Rightarrow> ds = map deviceJson (dt_devices exTables) \<and> pm_total m = 1 | _ \<Rightarrow> False"
proof -
  define q where "q = (\<lambda>k. if k = ''search'' then ''SRV'' else [] :: string)"
  define found where "found = sort_key (\<lambda>r. - dv_created_at r) (filter (device_matches q) (dt_devices exTables))"
  have one: "\<exists>r. dt_devices exTables = [r] \<and> dv_hostname r = ''srv1''"
    by (simp add: exTables_def newDevice_def exCreate_def)
  have "contains (toLower ''srv1'') (toLower ''SRV'')" by code_simp
  with one have f: "found = dt_devices exTables" "length found = 1"
    unfolding found_def device_matches_def q_def by auto
  have n: "positiveOr 1 (q ''page'') = 1" "positiveOr 20 (q ''page_size'') = 20" by (simp_all add: positiveOr_def q_def)
  have "case ListDevices None None q (dt_devices exTables) of Page ds m \<Rightarrow> True | _ \<Rightarrow> False"
    unfolding q_def by code_simp
  then obtain ds m where r: "ListDevices None None q (dt_devices exTables) = Page ds m"
    by (cases "ListDevices None None q (dt_devices exTables)") auto
  have "plain_search (q ''search'')" unfolding q_def by code_simp
  from device_list_exact [OF r this, folded found_def] f n show ?thesis
    by (simp add: r Let_def q_def [symmetric])
qed

text \<open>The search looks at the address with its netmask: a part of \<open>/32\<close> finds every IPv4 device.\<close>

lemma search_finds_netmask:
  "in_plen (dv_ip r) = 32 \<Longrightarrow> deviceCond NameOrAddress (VText (searchPattern ''/32'')) r"
proof -
  assume "in_plen (dv_ip r) = 32"
  moreover have "itoa 32 = ''32''" by code_simp
  ultimately have "toLower (inet_text (dv_ip r)) = toLower (in_addr (dv_ip r)) @ toLower ''/32'' @ []"
    by (simp add: inet_text_def flip: toLower_append)
  moreover have "plain_search ''/32''" by code_simp
  ultimately have "ilike (inet_text (dv_ip r)) (searchPattern ''/32'')"
    using ilike_contains [of "''/32''" "inet_text (dv_ip r)"] contains_infix [of "toLower (in_addr (dv_ip r))" "toLower ''/32''" "[]"]
    by simp
  then show ?thesis by (simp add: deviceCond_def)
qed


section \<open>The tables stay consistent\<close>

text \<open>Identifiers are unique, and every row of a dependent table belongs to a device.\<close>

definition refersTo :: "('r \<Rightarrow> string) \<Rightarrow> 'r list \<Rightarrow> api_device_row list \<Rightarrow> bool" where
  "refersTo key rs devs = (key ` set rs \<subseteq> dv_id ` set devs)"

definition device_tables_ok :: "device_tables \<Rightarrow> bool" where
  "device_tables_ok t = (distinct (map dv_id (dt_devices t)) \<and>
     refersTo dc_device_id (dt_credentials t) (dt_devices t) \<and> refersTo ev_device_id (dt_events t) (dt_devices t) \<and>
     refersTo iv_device_id (it_rows t) (dt_devices t) \<and> refersTo nr_device_id (it_nics t) (dt_devices t) \<and>
     refersTo ad_device_id (it_disks t) (dt_devices t))"

datatype device_req =
    CreateReq "bind_error + device_create"
  | UpdateReq "string option" "bind_error + device_update"
  | DeleteReq "string option"

definition deviceStep ::
  "(string \<Rightarrow> bool) \<Rightarrow> (string \<Rightarrow> inet option) \<Rightarrow> device_env \<times> device_req \<Rightarrow> device_tables \<Rightarrow> device_tables" where
  "deviceStep parseIP toInet er t = (case er of
     (env, CreateReq req) \<Rightarrow> fst (CreateDevice parseIP toInet env req t)
   | (env, UpdateReq param req) \<Rightarrow> fst (UpdateDevice parseIP toInet env param req t)
   | (env, DeleteReq param) \<Rightarrow> fst (DeleteDevice env param t))"

lemma refersTo_mono: "refersTo key rs devs \<Longrightarrow> dv_id ` set devs \<subseteq> dv_id ` set devs' \<Longrightarrow> refersTo key rs devs'"
  unfolding refersTo_def by blast

lemma refersTo_delete:
  "refersTo key rs devs \<Longrightarrow> refersTo key (filter (\<lambda>r. key r \<noteq> i) rs) (filter (\<lambda>r. \<not> dv_id r = i) devs)"
proof (unfold refersTo_def, rule image_subsetI)
  fix r assume s: "key ` set rs \<subseteq> dv_id ` set devs" and r: "r \<in> set (filter (\<lambda>r. key r \<noteq> i) rs)"
  then have "key r \<in> dv_id ` set devs" "key r \<noteq> i" by auto
  then obtain d where "d \<in> set devs" "dv_id d = key r" "dv_id d \<noteq> i" by force
  then show "key r \<in> dv_id ` set (filter (\<lambda>r. \<not> dv_id r = i) devs)"
    by (intro rev_image_eqI [of d]) simp_all
qed

lemma device_tables_ok_audit [simp]:
  "device_tables_ok (auditDevice env entry t) = device_tables_ok t"
  by (simp add: device_tables_ok_def auditDevice_def)

lemma device_tables_ok_devices:
  assumes "device_tables_ok t" "distinct (map dv_id rows)" "dv_id ` set (dt_devices t) \<subseteq> dv_id ` set rows"
  shows "device_tables_ok (t\<lparr>dt_devices := rows\<rparr>)"
  using assms(1,2) unfolding device_tables_ok_def by (simp add: refersTo_mono [OF _ assms(3)])

lemma device_Create_keys:
  assumes "device_Create toInet e i t1 t2 q rows = (rows', r)" "distinct (map dv_id rows)"
  shows "distinct (map dv_id rows') \<and> dv_id ` set rows \<subseteq> dv_id ` set rows'"
  using assms unfolding device_Create_def
  by (auto simp: Let_def newDevice_def list_ex_iff split: option.splits sum.splits if_splits)

lemma device_Update_keys:
  assumes "device_Update toInet e now i q rows = (rows', r)"
  shows "map dv_id rows' = map dv_id rows"
  using assms unfolding device_Update_result
  by (auto simp: keys_update split: option.splits if_splits)

lemma device_Delete_ok:
  assumes "device_tables_ok t"
  shows "device_tables_ok (fst (device_Delete e i t))"
proof (cases "e = None \<and> list_ex (\<lambda>r. dv_id r = i) (dt_devices t)")
  case True
  have "distinct (map dv_id (filter (\<lambda>r. \<not> dv_id r = i) (dt_devices t)))"
    using assms unfolding device_tables_ok_def by (auto simp: distinct_map intro: inj_on_subset)
  with True assms show ?thesis
    unfolding device_Delete_def deleteRows_def device_tables_ok_def by (simp add: refersTo_delete)
next
  case False
  then have "fst (device_Delete e i t) = t" unfolding device_Delete_def deleteRows_def by (auto split: option.split)
  with assms show ?thesis by simp
qed

lemma deviceStep_ok:
  assumes "device_tables_ok t"
  shows "device_tables_ok (deviceStep parseIP toInet er t)"
proof -
  from assms have d: "distinct (map dv_id (dt_devices t))" by (simp add: device_tables_ok_def)
  obtain env r where er: "er = (env, r)" by (cases er)
  have "device_tables_ok (fst (CreateDevice parseIP toInet env req t))" for req
    unfolding CreateDevice_def using assms device_tables_ok_devices [OF assms] device_Create_keys [OF _ d]
    by (simp split: sum.split option.split prod.split)
  moreover have "device_tables_ok (fst (UpdateDevice parseIP toInet env param req t))" for param req
  proof -
    have "device_tables_ok (t\<lparr>dt_devices := rows\<rparr>)" if "device_Update toInet e now i q (dt_devices t) = (rows, x)" for e now i q rows x
    proof -
      from device_Update_keys [OF that] have k: "map dv_id rows = map dv_id (dt_devices t)" .
      then have "dv_id ` set (dt_devices t) = dv_id ` set rows" by (metis set_map)
      with k d device_tables_ok_devices [OF assms, of rows] show ?thesis by simp
    qed
    then show ?thesis unfolding UpdateDevice_def using assms
      by (simp split: sum.split option.split prod.split)
  qed
  moreover have "device_tables_ok (fst (DeleteDevice env param t))" for param
  proof (cases param)
    case (Some i)
    with device_Delete_ok [OF assms, of "ae_writeErr env" i] show ?thesis
      unfolding DeleteDevice_def by (auto split: prod.split option.split)
  qed (use assms in \<open>simp add: DeleteDevice_def\<close>)
  ultimately show ?thesis unfolding er deviceStep_def by (cases r) simp_all
qed



section \<open>Agents\<close>

text \<open>A run of the background job marks exactly the agents that have not been seen for five minutes:
  each of them is unavailable afterwards, and so is an agent that was never seen; every other device
  is untouched. A failed run changes nothing.\<close>

theorem agent_job_marks_the_silent:
  "agentJob [(e, now)] rows = map (\<lambda>r.
     if e = None \<and> isAgent r \<and> dv_status r \<noteq> ''unavailable'' \<and> (case dv_last_seen r of None \<Rightarrow> True | Some t \<Rightarrow> t < now - 300000000000)
     then r\<lparr>dv_status := ''unavailable'', dv_updated_at := now\<rparr> else r) rows"
  unfolding agentJob.simps MarkTimedOutAgentsUnavailable_def updateWhere_def timedOut_def agentTimeout_def
  by (auto split: option.split)

end
