(* ===== verification/DeviceControl.thy ===== *)
theory DeviceControl
  imports Devices
begin

text \<open>
  What an operator does to a device through the API server: the IPMI service
  (\<open>backend/internal/services/ipmi_service.go\<close>), and the handlers of
  \<open>backend/internal/api/handlers/device_handler.go\<close> that test a connection, synchronise, switch power and set
  the boot target, over it and over the Redfish service (theory RedfishApi).

  \<open>ipmitool\<close> is the external program of theory IpmiTool. The credential repository and services are those
  that the routes inject, so the checks for their absence never fire.
\<close>

section \<open>The IPMI service\<close>

definition ipmiPort :: "int \<Rightarrow> int" where
  "ipmiPort port = (if port = 0 then 623 else port)"

definition ipmiArgs :: "string \<Rightarrow> int \<Rightarrow> string \<Rightarrow> string \<Rightarrow> string list \<Rightarrow> string list" where
  "ipmiArgs h port user password cmd = [''-I'', ''lanplus'', ''-H'', h, ''-p'', itoa (ipmiPort port), ''-U'', user,
     ''-P'', password, ''-R'', ''1'', ''-N'', ''5''] @ cmd"

text \<open>A missing and an empty user name.\<close>

definition noUser :: "device_credential \<Rightarrow> bool" where
  "noUser c = (case cd_Username c of None \<Rightarrow> True | Some u \<Rightarrow> u = [])"

definition friendlyMsg :: "int \<Rightarrow> string \<Rightarrow> string" where
  "friendlyMsg port errMsg =
     (if contains errMsg ''RAKP 2 HMAC is invalid'' then ''Authentication failed: Wrong username or password''
      else if contains errMsg ''Unable to establish IPMI''
      then ''Cannot connect: IPMI may be disabled or port blocked. Check BMC settings.''
      else if contains errMsg ''Error in open session''
      then ''Session error: Check IPMI over LAN is enabled in BMC settings''
      else if contains errMsg ''timeout'' \<or> contains errMsg ''Timed out''
      then ''Connection timeout: Device unreachable. Check IP address and network.''
      else if contains errMsg ''connection refused''
      then ''Connection refused on port '' @ itoa port @ ''. Check IPMI port in BMC settings.''
      else ''IPMI error: '' @ trimSpace errMsg)"

definition is_TestConnection :: "ipmitool \<Rightarrow> string \<Rightarrow> int \<Rightarrow> device_credential \<Rightarrow> string \<Rightarrow> connection_test" where
  "is_TestConnection tool h port c password =
     (let reply = (\<lambda>ok m. \<lparr>ct_Success = ok, ct_Message = m, ct_RedfishVersion = [], ct_ErrorCode = []\<rparr>) in
      if noUser c then reply False ''IPMI requires username and password''
      else (let out = tool (ipmiArgs h port (the (cd_Username c)) password [''chassis'', ''status'']) in
        case p_error out of
          None \<Rightarrow> reply True ''Connected successfully via IPMI 2.0 (lanplus)''
        | Some e \<Rightarrow> (let m = trimSpace (p_combined out); errMsg = (if m = [] then proc_error_msg e else m) in
            reply False (friendlyMsg (ipmiPort port) errMsg))))"

text \<open>The lines of the FRU output; the first maker that is not empty and the last product name and serial
  number count.\<close>

definition syncFruLine :: "string \<Rightarrow> sync_result \<Rightarrow> sync_result" where
  "syncFruLine line r = (case splitN2 CHR '':'' line of
     [k, v] \<Rightarrow> (let key = trimSpace k; val = trimSpace v in
       if key = ''Product Manufacturer'' \<or> key = ''Board Mfg''
       then (if (case sr_Manufacturer r of None \<Rightarrow> True | Some m \<Rightarrow> m = []) then r\<lparr>sr_Manufacturer := Some val\<rparr> else r)
       else if key = ''Product Name'' then r\<lparr>sr_Model := Some val\<rparr>
       else if key = ''Product Serial'' then r\<lparr>sr_SerialNumber := Some val\<rparr> else r)
   | _ \<Rightarrow> r)"

text \<open>\<open>None\<close> is the panic of a credential without a user name, which is not checked here; the second
  command, for the firmware, only writes to the log.\<close>

definition is_SyncDevice :: "ipmitool \<Rightarrow> string \<Rightarrow> int \<Rightarrow> device_credential \<Rightarrow> string \<Rightarrow> (sync_result \<times> string option) option" where
  "is_SyncDevice tool h port c password = (case cd_Username c of None \<Rightarrow> None
     | Some user \<Rightarrow> (let r = emptySync\<lparr>sr_Success := True, sr_Message := ''Sync completed via IPMI 2.0''\<rparr>;
           out = tool (ipmiArgs h port user password [''fru'']) in
         case p_error out of
           Some e \<Rightarrow> Some (r\<lparr>sr_Message := ''Sync connected, but FRU read failed: '' @ proc_error_msg e\<rparr>, None)
         | None \<Rightarrow> Some (fold syncFruLine (splitOn newline (p_combined out)) r, None)))"

definition powerCommand :: "string \<Rightarrow> string option" where
  "powerCommand resetType = (if resetType = ''On'' then Some ''on'' else if resetType = ''ForceOff'' then Some ''off''
     else if resetType = ''GracefulShutdown'' then Some ''soft'' else if resetType = ''ForceRestart'' then Some ''reset''
     else if resetType = ''PowerCycle'' then Some ''cycle'' else if resetType = ''GracefulRestart'' then Some ''soft'' else None)"

definition bootDevice :: "string \<Rightarrow> string option" where
  "bootDevice target = (if target = ''Pxe'' then Some ''pxe'' else if target = ''Cd'' then Some ''cdrom''
     else if target = ''Hdd'' then Some ''disk'' else if target = ''BiosSetup'' then Some ''bios''
     else if target = ''None'' then Some ''none'' else None)"

text \<open>The control operations return the command they ran beside their result.\<close>

definition is_PowerControl ::
  "ipmitool \<Rightarrow> string \<Rightarrow> int \<Rightarrow> device_credential \<Rightarrow> string \<Rightarrow> string \<Rightarrow> control_result \<times> string list option" where
  "is_PowerControl tool h port c password resetType =
     (if noUser c then (\<lparr>cr_Success = False, cr_Message = ''IPMI requires username and password'', cr_Target = []\<rparr>, None)
      else case powerCommand resetType of
        None \<Rightarrow> (\<lparr>cr_Success = False, cr_Message = ''Unsupported power action for IPMI: '' @ resetType, cr_Target = []\<rparr>, None)
      | Some cmd \<Rightarrow>
          (let args = ipmiArgs h port (the (cd_Username c)) password [''chassis'', ''power'', cmd] in
           (case p_error (tool args) of
              Some e \<Rightarrow> \<lparr>cr_Success = False, cr_Message = ''IPMI power command failed: '' @ proc_error_msg e, cr_Target = resetType\<rparr>
            | None \<Rightarrow> \<lparr>cr_Success = True, cr_Message = ''IPMI power command '' @ quoted cmd @ '' sent successfully'', cr_Target = resetType\<rparr>,
            Some args)))"

definition boolText :: "bool \<Rightarrow> string" where
  "boolText b = (if b then ''true'' else ''false'')"

definition is_BootControl ::
  "ipmitool \<Rightarrow> string \<Rightarrow> int \<Rightarrow> device_credential \<Rightarrow> string \<Rightarrow> string \<Rightarrow> bool \<Rightarrow> control_result \<times> string list option" where
  "is_BootControl tool h port c password target once =
     (if noUser c then (\<lparr>cr_Success = False, cr_Message = ''IPMI requires username and password'', cr_Target = []\<rparr>, None)
      else case bootDevice target of
        None \<Rightarrow> (\<lparr>cr_Success = False, cr_Message = ''Unsupported boot target for IPMI: '' @ target, cr_Target = []\<rparr>, None)
      | Some d \<Rightarrow>
          (let args = ipmiArgs h port (the (cd_Username c)) password
                 ([''chassis'', ''bootdev'', d] @ (if once then [] else [''options=persistent''])) in
           (case p_error (tool args) of
              Some e \<Rightarrow> \<lparr>cr_Success = False, cr_Message = ''IPMI boot command failed: '' @ proc_error_msg e, cr_Target = target\<rparr>
            | None \<Rightarrow> \<lparr>cr_Success = True, cr_Message = ''IPMI boot target set to '' @ quoted d @ '' (once: '' @ boolText once @ '')'', cr_Target = target\<rparr>,
            Some args)))"

section \<open>Which credential is used\<close>

text \<open>The exact type first, then the families that the type contains, in the order of the code. Each look-up
  is a statement of its own, with its own error; a failed one is passed over like a missing row.\<close>

fun firstCredential :: "(nat \<Rightarrow> db_error) \<Rightarrow> nat \<Rightarrow> string \<Rightarrow> string list \<Rightarrow> cred_row list \<Rightarrow> device_credential option" where
  "firstCredential errs n did [] rows = None"
| "firstCredential errs n did (p # ps) rows = (case GetByDeviceIDAndProtocol (errs n) did p rows of
     Inr c \<Rightarrow> Some c | Inl _ \<Rightarrow> firstCredential errs (n + 1) did ps rows)"

definition protocolFamilies :: "string list" where
  "protocolFamilies = [''redfish'', ''ipmi'', ''snmp_v3'', ''snmp_v2c'']"

definition candidates :: "string \<Rightarrow> string list" where
  "candidates dtype = dtype # filter (\<lambda>p. hasSuffix dtype p \<or> contains dtype p) protocolFamilies"

definition resolveCredential :: "(nat \<Rightarrow> db_error) \<Rightarrow> string \<Rightarrow> string \<Rightarrow> cred_row list \<Rightarrow> device_credential option" where
  "resolveCredential errs did dtype rows = firstCredential errs 0 did (candidates dtype) rows"


section \<open>Finding the device's controller\<close>

text \<open>What the world contributes to a control request, beside what any device request has (theory Devices):
  the errors of the credential look-ups and of the update of the status, the network, the program and
  the cipher.\<close>

record control_env = device_env +
  ke_credErrs :: "nat \<Rightarrow> db_error"
  ke_statusErr :: db_error
  ke_net :: rs_network
  ke_writer :: rs_writer
  ke_tool :: ipmitool
  ke_open :: opener
  ke_svc :: credential_service
  ke_toI :: "f64 \<Rightarrow> int"
  ke_upsert :: upsert_env

definition passwordOf :: "control_env \<Rightarrow> device_credential \<Rightarrow> string result" where
  "passwordOf env c = (if cd_PasswordEncrypted c = [] then Inr []
     else Decrypt (ke_open env) (ke_svc env) (cd_PasswordEncrypted c))"

text \<open>The part that all control handlers share: the device, the address of its controller, the credential and
  the password, or the reply that ends the request.\<close>

definition findTarget ::
  "control_env \<Rightarrow> string \<Rightarrow> string \<Rightarrow> device_tables \<Rightarrow>
   'a api_reply + (api_device_row \<times> string \<times> device_credential \<times> string)" where
  "findTarget env noCred i t = (case device_GetByID (ae_getErr env) i (dt_devices t) of
     Inl e \<Rightarrow> Inl (deviceMissing ''Failed to get device'' e)
   | Inr d \<Rightarrow> (let bmc = (case dv_bmc_ip d of None \<Rightarrow> [] | Some ip \<Rightarrow> inet_out ip) in
       if bmc = [] then Inl (BadRequest ''Device has no BMC IP address configured'' ''NO_BMC_IP'')
       else case resolveCredential (ke_credErrs env) i (dv_type d) (dt_credentials t) of
         None \<Rightarrow> Inl (BadRequest noCred ''NO_CREDENTIALS'')
       | Some c \<Rightarrow> (case passwordOf env c of
           Inl e \<Rightarrow> Inl (InternalError ''Failed to decrypt credentials'')
         | Inr pw \<Rightarrow> Inr (d, bmc, c, pw))))"

definition viaIpmi :: "api_device_row \<Rightarrow> bool" where
  "viaIpmi d = (dv_protocol d = Some ''ipmi'')"

definition credPort :: "device_credential \<Rightarrow> int" where
  "credPort c = (case cd_Port c of None \<Rightarrow> 623 | Some p \<Rightarrow> p)"

definition addCredentialsFirst :: string where
  "addCredentialsFirst = ''No credentials configured for this device. Please add credentials first.''"

section \<open>Testing and synchronising\<close>

definition TestDevice :: "control_env \<Rightarrow> string option \<Rightarrow> device_tables \<Rightarrow> device_tables \<times> connection_test api_reply" where
  "TestDevice env param t = (case param of
     None \<Rightarrow> (t, BadRequest ''Invalid device ID'' ''INVALID_ID'')
   | Some i \<Rightarrow> (case findTarget env addCredentialsFirst i t of
       Inl r \<Rightarrow> (t, r)
     | Inr (d, bmc, c, pw) \<Rightarrow>
         (let r = (if viaIpmi d then is_TestConnection (ke_tool env) bmc (credPort c) c pw
                else rs_TestConnection (ke_net env) bmc c pw) in
          (t\<lparr>dt_devices := fst (if ct_Success r
               then UpdateConnectionStatus (ke_statusErr env) (ae_now env) i ''connected'' [] (dt_devices t)
               else UpdateConnectionStatus (ke_statusErr env) (ae_now env) i ''failed'' (ct_Message r) (dt_devices t))\<rparr>,
           Data 200 r))))"

definition syncTarget :: "control_env \<Rightarrow> api_device_row \<Rightarrow> string \<Rightarrow> device_credential \<Rightarrow> string \<Rightarrow> (sync_result \<times> string option) option" where
  "syncTarget env d bmc c pw = (if viaIpmi d then is_SyncDevice (ke_tool env) bmc (credPort c) c pw
     else Some (rs_SyncDevice (ke_toI env) (ke_net env) bmc c pw))"

definition auditControl :: "control_env \<Rightarrow> string \<Rightarrow> (string \<times> string) list \<Rightarrow> device_tables \<Rightarrow> device_tables" where
  "auditControl env i details t = t\<lparr>dt_audit := fst (audit_Create (ae_auditErr env) (ae_auditId env) (ae_now env)
     (LogDeviceUpdate (de_user env) i (ae_ip env) (Some details)) (dt_audit t))\<rparr>"

text \<open>The answer \<open>None\<close> is a panic of the handler (what the server makes of it is in the Middleware theory).\<close>

definition SyncDevice :: "control_env \<Rightarrow> string option \<Rightarrow> device_tables \<Rightarrow> device_tables \<times> sync_result api_reply option" where
  "SyncDevice env param t = (case param of
     None \<Rightarrow> (t, Some (BadRequest ''Invalid device ID'' ''INVALID_ID''))
   | Some i \<Rightarrow> (case findTarget env addCredentialsFirst i t of
       Inl r \<Rightarrow> (t, Some r)
     | Inr (d, bmc, c, pw) \<Rightarrow> (case syncTarget env d bmc c pw of
         None \<Rightarrow> (t, None)
       | Some (r, Some e) \<Rightarrow>
           (t\<lparr>dt_devices := fst (UpdateSyncResult (ke_statusErr env) (ae_now env) i ''failed'' e (dt_devices t))\<rparr>,
            Some (Data 200 (r\<lparr>sr_Success := False, sr_Message := e\<rparr>)))
       | Some (r, None) \<Rightarrow>
           (let t1 = t\<lparr>dt_devices := fst (UpdateSyncResult (ke_statusErr env) (ae_now env) i ''connected'' [] (dt_devices t))\<rparr>;
                t2 = fst (UpsertInventory (ke_toI env) (ke_upsert env) (ae_now env) i r t1) in
            (auditControl env (dv_id d) [(''action'', ''sync'')] t2, Some (Data 200 r))))))"

text \<open>The test of an IPMI controller that is not a device yet; the port is as the request gives it, 0 when it
  does not.\<close>

record ipmi_test_request =
  tq_Host :: string
  tq_Port :: int
  tq_Username :: string
  tq_Password :: string

definition TestIPMI :: "control_env \<Rightarrow> (bind_error + ipmi_test_request) \<Rightarrow> connection_test api_reply" where
  "TestIPMI env req = (case req of
     Inl e \<Rightarrow> BadRequest ''Invalid request body'' ''INVALID_REQUEST''
   | Inr q \<Rightarrow> Data 200 (is_TestConnection (ke_tool env) (tq_Host q) (tq_Port q)
       ((newCredential [] 0 0 [] \<lparr>cq_Protocol = [], cq_Username = Some (tq_Username q), cq_Password = None,
          cq_CommunityString = None, cq_AuthProtocol = None, cq_PrivProtocol = None, cq_Port = None, cq_HTTPScheme = None,
          cq_SSLVerify = None, cq_PollingInterval = None, cq_TimeoutSeconds = None, cq_RetryAttempts = None\<rparr>)) (tq_Password q)))"

section \<open>Power and boot\<close>

definition validResetTypes :: "string list" where
  "validResetTypes = [''On'', ''ForceOff'', ''GracefulShutdown'', ''ForceRestart'', ''PowerCycle'', ''GracefulRestart'']"

definition validTargets :: "string list" where
  "validTargets = [''Pxe'', ''Cd'', ''Hdd'', ''BiosSetup'', ''None'']"

text \<open>What reached the controller: a Redfish request or an \<open>ipmitool\<close> command.\<close>

datatype effect = Request rs_write | Command "string list"

definition commands :: "string list option \<Rightarrow> effect list" where
  "commands c = (case c of None \<Rightarrow> [] | Some args \<Rightarrow> [Command args])"

text \<open>The result of a handler: the tables, the reply and what it did to the controller.\<close>

definition controlled ::
  "control_env \<Rightarrow> string \<Rightarrow> (string \<times> string) list \<Rightarrow> control_result \<times> effect list \<Rightarrow> device_tables \<Rightarrow>
   device_tables \<times> control_result api_reply \<times> effect list" where
  "controlled env i details re t = (case re of (r, es) \<Rightarrow>
     (auditControl env i (details @ [(''success'', boolText (cr_Success r))]) t, Data 200 r, es))"

definition PowerControl ::
  "control_env \<Rightarrow> string option \<Rightarrow> (bind_error + string) \<Rightarrow> device_tables \<Rightarrow>
   device_tables \<times> control_result api_reply \<times> effect list" where
  "PowerControl env param req t = (case param of
     None \<Rightarrow> (t, BadRequest ''Invalid device ID'' ''INVALID_ID'', [])
   | Some i \<Rightarrow> (case req of
       Inl e \<Rightarrow> (t, BadRequest ''Invalid request body: reset_type is required'' ''INVALID_REQUEST'', [])
     | Inr resetType \<Rightarrow>
       (if resetType \<notin> set validResetTypes
        then (t, BadRequest (''Invalid reset_type '' @ quoted resetType @ ''. Valid values: On, ForceOff, GracefulShutdown, ForceRestart, PowerCycle, GracefulRestart'')
          ''INVALID_RESET_TYPE'', [])
        else case findTarget env ''No credentials configured for this device'' i t of
          Inl r \<Rightarrow> (t, r, [])
        | Inr (d, bmc, c, pw) \<Rightarrow>
            controlled env (dv_id d) [(''action'', ''power_control''), (''reset_type'', resetType)]
              (if viaIpmi d then map_prod id commands (is_PowerControl (ke_tool env) bmc (credPort c) c pw resetType)
               else map_prod id (map Request) (rs_PowerControl (ke_net env) (ke_writer env) bmc c pw resetType)) t)))"

definition BootControl ::
  "control_env \<Rightarrow> string option \<Rightarrow> (bind_error + string \<times> bool) \<Rightarrow> device_tables \<Rightarrow>
   device_tables \<times> control_result api_reply \<times> effect list" where
  "BootControl env param req t = (case param of
     None \<Rightarrow> (t, BadRequest ''Invalid device ID'' ''INVALID_ID'', [])
   | Some i \<Rightarrow> (case req of
       Inl e \<Rightarrow> (t, BadRequest ''Invalid request body: target is required'' ''INVALID_REQUEST'', [])
     | Inr (target, once) \<Rightarrow>
       (if target \<notin> set validTargets
        then (t, BadRequest (''Invalid boot target '' @ quoted target @ ''. Valid values: Pxe, Cd, Hdd, BiosSetup, None'')
          ''INVALID_BOOT_TARGET'', [])
        else case findTarget env ''No credentials configured for this device'' i t of
          Inl r \<Rightarrow> (t, r, [])
        | Inr (d, bmc, c, pw) \<Rightarrow>
            controlled env (dv_id d) [(''action'', ''boot_control''), (''target'', target), (''once'', boolText once)]
              (if viaIpmi d then map_prod id commands (is_BootControl (ke_tool env) bmc (credPort c) c pw target once)
               else map_prod id (map Request) (rs_BootControl (ke_net env) (ke_writer env) bmc c pw target once)) t)))"

section \<open>Logs and inventory\<close>

definition GetDeviceLogs ::
  "db_error \<Rightarrow> db_error \<Rightarrow> string option \<Rightarrow> string option \<Rightarrow> string option \<Rightarrow> device_tables \<Rightarrow> (log_entry list \<times> int) api_reply" where
  "GetDeviceLogs e1 e2 param severity limitText t = (case param of
     None \<Rightarrow> BadRequest ''Invalid device ID'' ''INVALID_ID''
   | Some i \<Rightarrow> (case device_GetByID e1 i (dt_devices t) of
       Inl e \<Rightarrow> deviceMissing ''Failed to get device'' e
     | Inr d \<Rightarrow> Data 200 (deviceLogs (case severity of None \<Rightarrow> ''all'' | Some s \<Rightarrow> s) (logLimit limitText)
         (logSections e2 i (it_rows t)))))"

definition GetDeviceInventory ::
  "db_error \<Rightarrow> bool \<Rightarrow> bool \<Rightarrow> string option \<Rightarrow> device_tables \<Rightarrow> inventory_view api_reply" where
  "GetDeviceInventory dbErr nicsOk disksOk param t = (case param of
     None \<Rightarrow> BadRequest ''Invalid device ID'' ''INVALID_ID''
   | Some i \<Rightarrow> (case GetInventory dbErr nicsOk disksOk i t of
       Inl e \<Rightarrow> if e = ''inventory not found'' then NotFound ''No inventory data found for this device''
         else InternalError ''Failed to get inventory''
     | Inr v \<Rightarrow> Success v))"


section \<open>The choice of the credential\<close>

lemma find_filter_head: "find P xs = (case filter P xs of [] \<Rightarrow> None | x # _ \<Rightarrow> Some x)"
  by (induction xs) auto

text \<open>The handlers use the first credential of the device, in the order of the candidate protocols: the
  device's type itself, then the families that the type contains in the order redfish, ipmi, SNMPv3,
  SNMPv2c, and among rows of one protocol the first of the table. They answer that there is none
  exactly when the device has no row with any of these protocols.\<close>

theorem credential_choice:
  "resolveCredential (\<lambda>n. None) did dtype rows =
     (case concat (map (\<lambda>p. filter (credAt did p) rows) (candidates dtype)) of [] \<Rightarrow> None | r # _ \<Rightarrow> Some (structOf r))"
proof -
  have "firstCredential (\<lambda>n. None) n did ps rows =
      (case concat (map (\<lambda>p. filter (credAt did p) rows) ps) of [] \<Rightarrow> None | r # _ \<Rightarrow> Some (structOf r))" for n ps
  proof (induction ps arbitrary: n)
    case (Cons p ps)
    show ?case
    proof (cases "filter (credAt did p) rows")
      case Nil
      then have "find (credAt did p) rows = None" by (simp add: find_None_iff filter_empty_conv)
      with Nil Cons.IH [of "n + 1"] show ?thesis by (simp add: GetByDeviceIDAndProtocol_def)
    next
      case (Cons r rs)
      then have "find (credAt did p) rows = Some r" by (simp add: find_filter_head)
      with Cons show ?thesis by (simp add: GetByDeviceIDAndProtocol_def)
    qed
  qed simp
  then show ?thesis unfolding resolveCredential_def .
qed

section \<open>What a synchronisation records\<close>

lemma UpsertInventory_devices [simp]:
  "dt_devices (fst (UpsertInventory toI env now did r t)) = dt_devices t"
  "dt_credentials (fst (UpsertInventory toI env now did r t)) = dt_credentials t"
  unfolding UpsertInventory_def by (auto simp: Let_def split: sum.split option.split)

text \<open>The device table after a synchronisation, by its outcome: the row of the device takes the time, the
  connection status and the health.\<close>

definition synced :: "time \<Rightarrow> string \<Rightarrow> sync_result \<times> string option \<Rightarrow> api_device_row list \<Rightarrow> api_device_row list" where
  "synced now i out = updateWhere (\<lambda>r. dv_id r = i) (\<lambda>r. r\<lparr>dv_last_sync_at := Some now,
     dv_connection_status := (if snd out = None then ''connected'' else ''failed''),
     dv_connection_error := (case snd out of None \<Rightarrow> None | Some e \<Rightarrow> errPtr e),
     dv_status := (if snd out = None then ''healthy'' else ''critical''), dv_updated_at := now\<rparr>)"

lemma synced_frame: "filter (\<lambda>r. dv_id r \<noteq> i) (synced now i out rows) = filter (\<lambda>r. dv_id r \<noteq> i) rows"
  unfolding synced_def updateWhere_def by (induction rows) auto

lemma synced_rows:
  assumes "x \<in> set (synced now i out rows)" "dv_id x = i"
  shows "dv_status x = (if snd out = None then ''healthy'' else ''critical'')"
    "dv_connection_status x = (if snd out = None then ''connected'' else ''failed'')"
    "dv_last_sync_at x = Some now" "dv_connection_error x = (case snd out of None \<Rightarrow> None | Some e \<Rightarrow> errPtr e)"
proof -
  from assms(1) obtain y where y: "x = (if dv_id y = i then y\<lparr>dv_last_sync_at := Some now,
     dv_connection_status := (if snd out = None then ''connected'' else ''failed''),
     dv_connection_error := (case snd out of None \<Rightarrow> None | Some e \<Rightarrow> errPtr e),
     dv_status := (if snd out = None then ''healthy'' else ''critical''), dv_updated_at := now\<rparr> else y)"
    unfolding synced_def updateWhere_def set_map by blast
  with assms(2) have "dv_id y = i" by (metis (full_types))
  with y show "dv_status x = (if snd out = None then ''healthy'' else ''critical'')"
    "dv_connection_status x = (if snd out = None then ''connected'' else ''failed'')"
    "dv_last_sync_at x = Some now" "dv_connection_error x = (case snd out of None \<Rightarrow> None | Some e \<Rightarrow> errPtr e)"
    by simp_all
qed

lemma SyncDevice_found:
  assumes "findTarget env addCredentialsFirst i t = (Inr (d, bmc, c, pw) :: sync_result api_reply + _)" "syncTarget env d bmc c pw = Some out"
    and "ke_statusErr env = None"
  shows "dt_devices (fst (SyncDevice env (Some i) t)) = synced (ae_now env) i out (dt_devices t)"
    and "\<exists>r. snd (SyncDevice env (Some i) t) = Some (Data 200 r) \<and> sr_Success r = (snd out = None \<and> sr_Success (fst out))"
proof -
  have u: "fst (UpdateSyncResult None now i st e rows) = updateWhere (\<lambda>r. dv_id r = i)
      (\<lambda>r. r\<lparr>dv_last_sync_at := Some now, dv_connection_status := st, dv_connection_error := errPtr e,
        dv_status := (if st \<noteq> ''connected'' then ''critical'' else ''healthy''), dv_updated_at := now\<rparr>) rows" for now st e rows
    by (simp add: UpdateSyncResult_def)
  have e: "errPtr [] = None" by (simp add: errPtr_def)
  obtain r x where out: "out = (r, x)" by fastforce
  show "dt_devices (fst (SyncDevice env (Some i) t)) = synced (ae_now env) i out (dt_devices t)"
    using assms by (cases x) (simp_all add: SyncDevice_def out synced_def auditControl_def Let_def u e)
  show "\<exists>r. snd (SyncDevice env (Some i) t) = Some (Data 200 r) \<and> sr_Success r = (snd out = None \<and> sr_Success (fst out))"
    using assms by (cases x) (simp_all add: SyncDevice_def out Let_def)
qed

text \<open>What a synchronisation of a Redfish device records is what it saw: the device becomes healthy and
  connected when the controller's system resource was found and read, critical and failed when not,
  the reply claims success in the same case, and no other device changes.\<close>

theorem redfish_sync_recorded:
  assumes "findTarget env addCredentialsFirst i t = (Inr (d, bmc, c, pw) :: sync_result api_reply + _)" "\<not> viaIpmi d" "ke_statusErr env = None"
  shows "let se = openSession (ke_net env) 60 bmc c pw;
      reached = (case discoverSystemPath se of Inl _ \<Rightarrow> False | Inr path \<Rightarrow> \<not> isl (rget se path)) in
    case SyncDevice env (Some i) t of (t', reply) \<Rightarrow>
      (case reply of Some (Data code r) \<Rightarrow> code = 200 \<and> sr_Success r = reached | _ \<Rightarrow> False) \<and>
      list_all (\<lambda>r. dv_status r = (if reached then ''healthy'' else ''critical'') \<and>
          dv_connection_status r = (if reached then ''connected'' else ''failed'') \<and> dv_last_sync_at r = Some (ae_now env))
        (filter (\<lambda>r. dv_id r = i) (dt_devices t')) \<and>
      filter (\<lambda>r. dv_id r \<noteq> i) (dt_devices t') = filter (\<lambda>r. dv_id r \<noteq> i) (dt_devices t)"
proof -
  define se where "se = openSession (ke_net env) 60 bmc c pw"
  define out where "out = rs_SyncDevice (ke_toI env) (ke_net env) bmc c pw"
  define reached where "reached = (case discoverSystemPath se of Inl _ \<Rightarrow> False | Inr path \<Rightarrow> \<not> isl (rget se path))"
  have o: "syncTarget env d bmc c pw = Some out" using assms(2) by (simp add: syncTarget_def out_def)
  note f = SyncDevice_found [OF assms(1) o assms(3)]
  have r: "reached = (snd out = None)"
    unfolding reached_def out_def se_def
    by (cases "discoverSystemPath (openSession (ke_net env) 60 bmc c pw)";
        cases "rget (openSession (ke_net env) 60 bmc c pw) (projr (discoverSystemPath (openSession (ke_net env) 60 bmc c pw)))")
      (auto simp: sync_fails dest: sync_completes [where toI = "ke_toI env"])
  have s: "sr_Success (fst out) = (snd out = None)" unfolding out_def by (rule sync_success_no_error)
  obtain x where x: "snd (SyncDevice env (Some i) t) = Some (Data 200 x)" "sr_Success x = reached" using f(2) r s by auto
  show ?thesis
    unfolding Let_def se_def [symmetric] reached_def [symmetric] case_prod_beta x(1) f(1) synced_frame
    using x(2) synced_rows [of _ "ae_now env" i out "dt_devices t"] by (auto simp: list_all_iff r)
qed

text \<open>Over IPMI the outcome does not matter. With a readable device, credentials with a user name and a
  working status update, a synchronisation marks the device healthy and connected and answers that
  it succeeded whatever \<open>ipmitool\<close> does: also when the program fails because nothing answers at the
  address.\<close>

theorem ipmi_sync_always_healthy:
  assumes "findTarget env addCredentialsFirst i t = (Inr (d, bmc, c, pw) :: sync_result api_reply + _)"
    and "viaIpmi d" "ke_statusErr env = None" "cd_Username c \<noteq> None"
  shows "case SyncDevice env (Some i) t of (t', reply) \<Rightarrow>
      (case reply of Some (Data code r) \<Rightarrow> code = 200 \<and> sr_Success r | _ \<Rightarrow> False) \<and>
      list_all (\<lambda>r. dv_status r = ''healthy'' \<and> dv_connection_status r = ''connected'' \<and> dv_connection_error r = None)
        (filter (\<lambda>r. dv_id r = i) (dt_devices t'))"
proof -
  have k: "sr_Success (fold syncFruLine ls r) = sr_Success r" for ls r
    by (induction ls arbitrary: r) (auto simp: syncFruLine_def Let_def split: list.split)
  from assms(4) obtain user where u: "cd_Username c = Some user" by blast
  have "\<exists>r. syncTarget env d bmc c pw = Some (r, None) \<and> sr_Success r"
    using assms(2) by (simp add: syncTarget_def is_SyncDevice_def u Let_def k split: option.split)
  then obtain r where o: "syncTarget env d bmc c pw = Some (r, None)" and s: "sr_Success r" by blast
  note f = SyncDevice_found [OF assms(1) o assms(3)]
  then obtain x where "snd (SyncDevice env (Some i) t) = Some (Data 200 x)" "sr_Success x" using s by auto
  then show ?thesis
    using synced_rows [of _ "ae_now env" i "(r, None)" "dt_devices t"] by (auto simp: case_prod_beta f(1) list_all_iff)
qed

text \<open>A credential without a user name makes a synchronisation over IPMI panic before anything is
  recorded, while the test of the same connection explains what is
  missing.\<close>

theorem ipmi_sync_needs_user_name:
  assumes "findTarget env addCredentialsFirst i t = (Inr (d, bmc, c, pw) :: sync_result api_reply + _)"
    and "viaIpmi d" "cd_Username c = None"
  shows "SyncDevice env (Some i) t = (t, None) \<and>
    ct_Message (is_TestConnection (ke_tool env) bmc (credPort c) c pw) = ''IPMI requires username and password''"
  using assms by (simp add: SyncDevice_def syncTarget_def is_SyncDevice_def is_TestConnection_def noUser_def)


section \<open>Control requests are checked and audited\<close>

lemma findTarget_refuses: "findTarget env m i t = (Inl r :: 'a api_reply + _) \<Longrightarrow> \<not> accepted_reply r"
  unfolding findTarget_def by (auto simp: Let_def deviceMissing_def split: sum.splits if_splits option.splits)

lemma findTarget_device:
  "findTarget env m i t = (Inr (d, bmc, c, pw) :: 'a api_reply + _) \<Longrightarrow> d \<in> set (dt_devices t) \<and> dv_id d = i"
  unfolding findTarget_def device_GetByID_def findBy_def
  by (auto simp: Let_def find_Some_iff split: sum.splits if_splits option.splits)

lemma rs_PowerControl_writes:
  "rs_PowerControl net wr bmc c pw resetType = (r, ws) \<Longrightarrow>
   list_all (\<lambda>w. rw_method w = ''POST'' \<and> rw_body w = [(''ResetType'', JStr resetType)]) ws \<and>
   (if cr_Success r then length ws = 1 else length ws \<le> 1)"
  unfolding rs_PowerControl_def by (auto simp: Let_def split: sum.splits prod.splits option.splits)

lemma rs_BootControl_writes:
  "rs_BootControl net wr bmc c pw target once = (r, ws) \<Longrightarrow>
   list_all (\<lambda>w. rw_method w = ''PATCH'') ws \<and> (if cr_Success r then length ws = 1 else length ws \<le> 1)"
  unfolding rs_BootControl_def by (auto simp: Let_def split: sum.splits prod.splits option.splits)

text \<open>What a power action may do to a controller: ask for the reset type, or run the matching command. What a
  boot action may do: one \<open>PATCH\<close>, or setting the boot device, persistent only when asked for.\<close>

definition powerEffect :: "string \<Rightarrow> effect \<Rightarrow> bool" where
  "powerEffect resetType e = (case e of
     Request w \<Rightarrow> rw_method w = ''POST'' \<and> rw_body w = [(''ResetType'', JStr resetType)]
   | Command args \<Rightarrow> map_option (\<lambda>cmd. [''chassis'', ''power'', cmd]) (powerCommand resetType) = Some (drop 14 args))"

definition bootEffect :: "string \<Rightarrow> bool \<Rightarrow> effect \<Rightarrow> bool" where
  "bootEffect target once e = (case e of
     Request w \<Rightarrow> rw_method w = ''PATCH''
   | Command args \<Rightarrow> map_option (\<lambda>d. [''chassis'', ''bootdev'', d] @ (if once then [] else [''options=persistent''])) (bootDevice target)
       = Some (drop 14 args))"

definition oneEffect :: "(effect \<Rightarrow> bool) \<Rightarrow> control_result \<times> effect list \<Rightarrow> bool" where
  "oneEffect allowed re = (list_all allowed (snd re) \<and>
     (if cr_Success (fst re) then length (snd re) = 1 else length (snd re) \<le> 1))"

lemma ipmi_effects:
  "oneEffect (powerEffect resetType) (map_prod id commands (is_PowerControl tool h port c pw resetType))"
  "oneEffect (bootEffect target once) (map_prod id commands (is_BootControl tool h port c pw target once))"
  unfolding is_PowerControl_def is_BootControl_def oneEffect_def
  by (auto simp: commands_def Let_def powerEffect_def bootEffect_def ipmiArgs_def split: option.split)

lemma redfish_effects:
  "oneEffect (powerEffect resetType) (map_prod id (map Request) (rs_PowerControl net wr bmc c pw resetType))"
  "oneEffect (bootEffect target once) (map_prod id (map Request) (rs_BootControl net wr bmc c pw target once))"
  using rs_PowerControl_writes [of net wr bmc c pw resetType] rs_BootControl_writes [of net wr bmc c pw target once]
  by (cases "rs_PowerControl net wr bmc c pw resetType"; cases "rs_BootControl net wr bmc c pw target once";
      force simp: oneEffect_def powerEffect_def bootEffect_def list_all_iff)+

lemma controlled_outcome:
  assumes "findTarget env m i t = (Inr (d, bmc, c, pw) :: 'a api_reply + _)" "oneEffect allowed re"
  shows "\<exists>r es. controlled env (dv_id d) details re t =
      (auditControl env i (details @ [(''success'', boolText (cr_Success r))]) t, Data 200 r, es) \<and>
    list_all allowed es \<and> (if cr_Success r then length es = 1 else length es \<le> 1) \<and> i \<in> set (map dv_id (dt_devices t))"
proof -
  obtain r es where re: "re = (r, es)" by fastforce
  have "dv_id d = i" "i \<in> set (map dv_id (dt_devices t))" using findTarget_device [OF assms(1)] by force+
  with assms(2) show ?thesis unfolding oneEffect_def re fst_conv snd_conv
    by (intro exI [of _ r] exI [of _ es]) (simp add: controlled_def split: if_splits)
qed


text \<open>The same holds of boot requests: an existing device, one of the five targets, at most one request
  or command with that target and its duration, an audit entry with the outcome, and no change nor
  message at all when the request is refused.\<close>

theorem boot_is_checked_and_audited:
  "case BootControl env param req t of (t', reply, es) \<Rightarrow> (case reply of
     Data code r \<Rightarrow> (\<exists>i target once. param = Some i \<and> req = Inr (target, once) \<and> target \<in> set validTargets \<and>
       i \<in> set (map dv_id (dt_devices t)) \<and>
       t' = auditControl env i [(''action'', ''boot_control''), (''target'', target), (''once'', boolText once),
         (''success'', boolText (cr_Success r))] t \<and>
       list_all (bootEffect target once) es \<and> (if cr_Success r then length es = 1 else length es \<le> 1))
   | _ \<Rightarrow> t' = t \<and> es = [])"
proof (cases "\<exists>i target once. param = Some i \<and> req = Inr (target, once) \<and> target \<in> set validTargets")
  case True
  then obtain i target once where k: "param = Some i" "req = Inr (target, once)" "target \<in> set validTargets" by blast
  show ?thesis
  proof (cases "findTarget env ''No credentials configured for this device'' i t :: control_result api_reply + _")
    case (Inl r)
    with k have "BootControl env param req t = (t, r, [])" by (simp add: BootControl_def)
    with findTarget_refuses [OF Inl] show ?thesis by (cases r) simp_all
  next
    case (Inr x)
    then obtain d bmc c pw where f: "findTarget env ''No credentials configured for this device'' i t =
        (Inr (d, bmc, c, pw) :: control_result api_reply + _)" by (cases x) auto
    define re where "re = (if viaIpmi d then map_prod id commands (is_BootControl (ke_tool env) bmc (credPort c) c pw target once)
        else map_prod id (map Request) (rs_BootControl (ke_net env) (ke_writer env) bmc c pw target once))"
    have "oneEffect (bootEffect target once) re" unfolding re_def by (simp add: ipmi_effects redfish_effects)
    from controlled_outcome [OF f this, of "[(''action'', ''boot_control''), (''target'', target), (''once'', boolText once)]"]
    obtain r es where r: "BootControl env param req t = (auditControl env i ([(''action'', ''boot_control''), (''target'', target), (''once'', boolText once)] @
          [(''success'', boolText (cr_Success r))]) t, Data 200 r, es)"
      "list_all (bootEffect target once) es" "if cr_Success r then length es = 1 else length es \<le> 1" "i \<in> set (map dv_id (dt_devices t))"
      by (auto simp: BootControl_def k f re_def)
    show ?thesis unfolding r(1) prod.case api_reply.case
      using k r(2-4) by (intro exI) (auto split: if_splits)
  qed
next
  case False
  then have "\<exists>r. BootControl env param req t = (t, r, []) \<and> \<not> accepted_reply r"
    by (cases param; cases req) (auto simp: BootControl_def split: prod.split)
  then obtain r where "BootControl env param req t = (t, r, [])" "\<not> accepted_reply r" by blast
  then show ?thesis by (cases r) simp_all
qed

text \<open>Over IPMI a graceful restart is a shutdown: it runs the very command of the graceful shutdown, so a
  machine that obeys goes off and stays off, and the reply reports a restart that was sent.\<close>

theorem graceful_restart_is_shutdown:
  "snd (is_PowerControl tool h port c pw ''GracefulRestart'') = snd (is_PowerControl tool h port c pw ''GracefulShutdown'') \<and>
   (fst (is_PowerControl tool h port c pw ''GracefulRestart''))\<lparr>cr_Target := []\<rparr> =
   (fst (is_PowerControl tool h port c pw ''GracefulShutdown''))\<lparr>cr_Target := []\<rparr> \<and>
   powerCommand ''GracefulRestart'' = Some ''soft''"
  by (simp add: is_PowerControl_def powerCommand_def Let_def split: option.split)


section \<open>Examples\<close>

text \<open>Two devices, one over IPMI and one over Redfish, whose controllers do not answer.\<close>

definition exControlEnv :: control_env where
  "exControlEnv = \<lparr>ae_getErr = None, ae_writeErr = None, ae_auditErr = None, ae_auditId = ''a1'', ae_now = 7, ae_ip = ''10.0.0.9'',
     de_newId = ''n1'', de_t1 = 6, de_user = ''u1'', ke_credErrs = (\<lambda>n. None), ke_statusErr = None,
     ke_net = (\<lambda>_ _ _ _ _. Transport ''no route to host''), ke_writer = (\<lambda>_ _ _. Transport ''no route to host''),
     ke_tool = (\<lambda>args. \<lparr>p_stdout = [], p_stderr = ''no route'', p_combined = ''no route'', p_error = Some (Exited 1 ''exit status 1'')\<rparr>),
     ke_open = exOpen, ke_svc = exService, ke_toI = (\<lambda>_. 0), ke_upsert = exUpsertEnv\<rparr>"

definition exControlRow :: "string \<Rightarrow> string \<Rightarrow> api_device_row" where
  "exControlRow i protocol = (newDevice i 1 1 exCreate \<lparr>in_addr = ''10.0.0.1'', in_plen = 32\<rparr> (Some \<lparr>in_addr = ''10.1.0.1'', in_plen = 32\<rparr>))
     \<lparr>dv_type := protocol, dv_protocol := Some protocol\<rparr>"

definition exControlCredential :: "string \<Rightarrow> string \<Rightarrow> string option \<Rightarrow> device_credential" where
  "exControlCredential i protocol user = newCredential (''c'' @ i) 1 1 i (exCredRequest\<lparr>cq_Protocol := protocol, cq_Username := user\<rparr>)"

definition exControlTables :: "string option \<Rightarrow> device_tables" where
  "exControlTables user = exTables\<lparr>dt_devices := [exControlRow ''d1'' ''ipmi'', exControlRow ''d2'' ''redfish''],
     dt_credentials := [rowOf (exControlCredential ''d1'' ''ipmi'' user), rowOf (exControlCredential ''d2'' ''redfish'' user)]\<rparr>"

lemma exControl_target:
  assumes "(i, p) \<in> {(''d1'', ''ipmi''), (''d2'', ''redfish'')}"
  shows "findTarget exControlEnv addCredentialsFirst i (exControlTables user) =
    Inr (exControlRow i p, ''10.1.0.1'', structOf (rowOf (exControlCredential i p user)), [])"
  using assms by (auto simp: findTarget_def device_GetByID_def findBy_def exControlTables_def exControlRow_def newDevice_def exControlEnv_def
    resolveCredential_def candidates_def GetByDeviceIDAndProtocol_def credAt_def inet_out_def passwordOf_def
    exControlCredential_def newCredential_def rowOf_def structOf_def exCredRequest_def coalesce_def Let_def)

lemma exControl_via: "viaIpmi (exControlRow i p) = (p = ''ipmi'')" "ke_statusErr exControlEnv = None"
  "cd_Username (structOf (rowOf (exControlCredential i p user))) = user"
  by (simp_all add: viaIpmi_def exControlRow_def exControlEnv_def exControlCredential_def newCredential_def rowOf_def structOf_def exCredRequest_def)

lemma redfish_sync_recorded_witness:
  "filter (\<lambda>r. dv_id r \<noteq> ''d2'') (dt_devices (fst (SyncDevice exControlEnv (Some ''d2'') (exControlTables (Some ''root''))))) =
     filter (\<lambda>r. dv_id r \<noteq> ''d2'') (dt_devices (exControlTables (Some ''root'')))"
proof -
  have "(''d2'', ''redfish'') \<in> {(''d1'', ''ipmi''), (''d2'', ''redfish'')}" by simp
  note redfish_sync_recorded [OF exControl_target [OF this, of "Some ''root''"]]
  then show ?thesis by (simp add: exControl_via case_prod_beta Let_def)
qed

lemma ipmi_sync_always_healthy_witness:
  "list_all (\<lambda>r. dv_status r = ''healthy'' \<and> dv_connection_status r = ''connected'' \<and> dv_connection_error r = None)
     (filter (\<lambda>r. dv_id r = ''d1'') (dt_devices (fst (SyncDevice exControlEnv (Some ''d1'') (exControlTables (Some ''root''))))))"
proof -
  have "(''d1'', ''ipmi'') \<in> {(''d1'', ''ipmi''), (''d2'', ''redfish'')}" by simp
  note ipmi_sync_always_healthy [OF exControl_target [OF this, of "Some ''root''"]]
  then show ?thesis by (simp add: exControl_via case_prod_beta)
qed

lemma ipmi_sync_needs_user_name_witness:
  "SyncDevice exControlEnv (Some ''d1'') (exControlTables None) = (exControlTables None, None)"
proof -
  have "(''d1'', ''ipmi'') \<in> {(''d1'', ''ipmi''), (''d2'', ''redfish'')}" by simp
  note ipmi_sync_needs_user_name [OF exControl_target [OF this, of None]]
  then show ?thesis by (simp add: exControl_via)
qed

end
