(* ===== verification/Telemetry.thy ===== *)
theory Telemetry
  imports DeviceControl
begin

text \<open>
  The live data of a device: the metrics of the last day (\<open>GetMetrics\<close> of
  \<open>backend/internal/api/handlers/device_handler.go\<close>) and the event stream
  (\<open>backend/internal/api/handlers/stream_handler.go\<close>).

  The time series database is given by its answers to a URL. The stream is a fold over what its \<open>select\<close>
  statement chooses: the end of the request, the heartbeat, or the ticker with the world that the tick
  meets.
\<close>

section \<open>Queries in a URL\<close>

text \<open>\<open>url.QueryEscape\<close>, and the decoding of a form value that undoes it.\<close>

definition hexText :: "string" where
  "hexText = ''0123456789ABCDEF''"

definition escapeChar :: "char \<Rightarrow> string" where
  "escapeChar c = (if is_letter c \<or> is_digit c \<or> c \<in> set ''-_.~'' then [c]
     else if c = CHR '' '' then ''+''
     else [CHR ''%'', hexText ! (of_char c div 16), hexText ! (of_char c mod 16)])"

definition QueryEscape :: "string \<Rightarrow> string" where
  "QueryEscape s = concat (map escapeChar s)"

definition hexDigit :: "char \<Rightarrow> nat option" where
  "hexDigit c = (if is_digit c then Some (of_char c - 48)
     else if CHR ''A'' \<le> c \<and> c \<le> CHR ''F'' then Some (of_char c - 55)
     else if CHR ''a'' \<le> c \<and> c \<le> CHR ''f'' then Some (of_char c - 87) else None)"

fun formDecode :: "string \<Rightarrow> string option" where
  "formDecode [] = Some []"
| "formDecode (c # cs) =
     (if c = CHR ''%'' then (case cs of
        a # b # rest \<Rightarrow> (case (hexDigit a, hexDigit b) of
          (Some x, Some y) \<Rightarrow> map_option ((#) (char_of (16 * x + y))) (formDecode rest) | _ \<Rightarrow> None)
      | _ \<Rightarrow> None)
      else map_option ((#) (if c = CHR ''+'' then CHR '' '' else c)) (formDecode cs))"

section \<open>The metrics of a device\<close>

definition metricNames :: "string list" where
  "metricNames = [''infrasense_redfish_temperature_celsius'', ''infrasense_redfish_fan_speed_rpm'',
     ''infrasense_redfish_psu_status'', ''infrasense_redfish_psu_power_watts'', ''infrasense_redfish_system_health'',
     ''infrasense_redfish_cpu_health'', ''infrasense_redfish_memory_health'', ''infrasense_redfish_raid_status'',
     ''infrasense_redfish_disk_health'']"

definition metricQuery :: "string \<Rightarrow> string \<Rightarrow> string" where
  "metricQuery name param = name @ ''{device_id='' @ [CHR 0x22] @ param @ [CHR 0x22] @ ''}''"

definition unixOf :: "time \<Rightarrow> int" where
  "unixOf t = t div 1000000000"

definition metricURL :: "string \<Rightarrow> time \<Rightarrow> string \<Rightarrow> string \<Rightarrow> string" where
  "metricURL base now param name = base @ ''/api/v1/query_range?query='' @ QueryEscape (metricQuery name param) @
     ''&start='' @ itoa (unixOf (now - 86400000000000)) @ ''&end='' @ itoa (unixOf now) @ ''&step=60''"

text \<open>An answer: no response, or the decoded body, an object whose \<open>data\<close> may be missing. The status is not
  looked at.\<close>

datatype 'd vm_answer = Unanswered string | Undecodable string | Object "'d option"

definition answerData :: "'d vm_answer \<Rightarrow> 'd option" where
  "answerData a = (case a of Object d \<Rightarrow> d | _ \<Rightarrow> None)"

definition GetMetrics ::
  "string \<Rightarrow> (string \<Rightarrow> string option) \<Rightarrow> time \<Rightarrow> (string \<Rightarrow> 'd vm_answer) \<Rightarrow> string \<Rightarrow> (string \<times> 'd) list api_reply" where
  "GetMetrics vmQueryURL parseID now vm param =
     (if parseID param = None then BadRequest ''Invalid device ID'' ''INVALID_ID''
      else if vmQueryURL = [] then InternalError ''Metrics backend not configured''
      else Success (concat (map (\<lambda>name. case answerData (vm (metricURL vmQueryURL now param name)) of
         None \<Rightarrow> [] | Some d \<Rightarrow> [(name, d)]) metricNames)))"

section \<open>The stream\<close>

record telemetry_event =
  te_DeviceID :: string
  te_Timestamp :: int
  te_PowerState :: "string option"
  te_HealthStatus :: "string option"
  te_Temperatures :: "temperature_reading list"
  te_Fans :: "fan_reading list"
  te_PowerSupplies :: "power_supply list"
  te_TotalPowerWatts :: "f64 option"
  te_Voltages :: "voltage_reading list"
  te_Error :: string

datatype frame = is_Telemetry: Telemetry telemetry_event | Keepalive

text \<open>The controller is always asked over Redfish. That an event can be marshalled is taken for granted: it
  holds texts and finite numbers.\<close>

definition telemetryEvent ::
  "(f64 \<Rightarrow> int) \<Rightarrow> rs_network \<Rightarrow> time \<Rightarrow> string \<Rightarrow> string \<Rightarrow> device_credential \<Rightarrow> string \<Rightarrow> telemetry_event" where
  "telemetryEvent toI net now i bmc c pw =
     (let base = \<lparr>te_DeviceID = i, te_Timestamp = unixOf now, te_PowerState = None, te_HealthStatus = None, te_Temperatures = [],
            te_Fans = [], te_PowerSupplies = [], te_TotalPowerWatts = None, te_Voltages = [], te_Error = []\<rparr> in
      case rs_SyncDevice toI net bmc c pw of
        (r, Some e) \<Rightarrow> base\<lparr>te_Error := e\<rparr>
      | (r, None) \<Rightarrow> base\<lparr>te_PowerState := sr_PowerState r, te_HealthStatus := sr_HealthStatus r, te_Temperatures := sr_Temperatures r,
          te_Fans := sr_Fans r, te_PowerSupplies := sr_PowerSupplies r, te_TotalPowerWatts := sr_TotalPowerWatts r,
          te_Voltages := sr_Voltages r\<rparr>)"

datatype stream_event = ClientGone | HeartbeatDue | is_TickDue: TickDue time rs_network

fun streamLoop :: "(time \<Rightarrow> rs_network \<Rightarrow> telemetry_event) \<Rightarrow> stream_event list \<Rightarrow> frame list" where
  "streamLoop read [] = []"
| "streamLoop read (ClientGone # es) = []"
| "streamLoop read (HeartbeatDue # es) = Keepalive # streamLoop read es"
| "streamLoop read (TickDue now net # es) = Telemetry (read now net) # streamLoop read es"

definition streamInterval :: "device_credential \<Rightarrow> int" where
  "streamInterval c = (if 0 < cd_PollingInterval c \<and> cd_PollingInterval c < 60
     then cd_PollingInterval c * 1000000000 else 5 * 1000000000)"

text \<open>The part before the stream: its replies are plain error objects without a code.\<close>

definition streamTarget ::
  "control_env \<Rightarrow> string option \<Rightarrow> device_tables \<Rightarrow> unit api_reply + (string \<times> string \<times> device_credential \<times> string)" where
  "streamTarget env param t = (case param of
     None \<Rightarrow> Inl (ErrorReply 400 ''Invalid device ID'' [])
   | Some i \<Rightarrow> (case device_GetByID (ae_getErr env) i (dt_devices t) of
       Inl e \<Rightarrow> Inl (ErrorReply 404 ''Device not found'' [])
     | Inr d \<Rightarrow> (let bmc = (case dv_bmc_ip d of None \<Rightarrow> [] | Some ip \<Rightarrow> inet_out ip) in
         if bmc = [] then Inl (ErrorReply 400 ''Device has no BMC IP configured'' [])
         else case resolveCredential (ke_credErrs env) i (dv_type d) (dt_credentials t) of
           None \<Rightarrow> Inl (ErrorReply 400 ''No credentials configured'' [])
         | Some c \<Rightarrow> (case passwordOf env c of
             Inl e \<Rightarrow> Inl (ErrorReply 500 ''Failed to decrypt credentials'' [])
           | Inr pw \<Rightarrow> Inr (dv_id d, bmc, c, pw)))))"

text \<open>The ticker's period and the frames: one at once, then one for each choice until the client is gone.\<close>

definition StreamTelemetry ::
  "control_env \<Rightarrow> string option \<Rightarrow> device_tables \<Rightarrow> stream_event list \<Rightarrow> unit api_reply + (int \<times> frame list)" where
  "StreamTelemetry env param t es = (case streamTarget env param t of
     Inl r \<Rightarrow> Inl r
   | Inr (i, bmc, c, pw) \<Rightarrow>
       (let read = (\<lambda>now net. telemetryEvent (ke_toI env) net now i bmc c pw) in
        Inr (streamInterval c, Telemetry (read (ae_now env) (ke_net env)) # streamLoop read es)))"

section \<open>The query arrives\<close>

lemma hexDigit_hexText: "n < 16 \<Longrightarrow> hexDigit (hexText ! n) = Some n"
proof -
  have "list_all (\<lambda>n. hexDigit (hexText ! n) = Some n) [0..<16]" by code_simp
  then show "n < 16 \<Longrightarrow> hexDigit (hexText ! n) = Some n" by (simp add: list_all_iff)
qed

lemma hexText_safe: "n < 16 \<Longrightarrow> hexText ! n \<noteq> CHR ''%'' \<and> hexText ! n \<notin> set ''&=#?/ ''"
proof -
  have "list_all (\<lambda>n. hexText ! n \<noteq> CHR ''%'' \<and> hexText ! n \<notin> set ''&=#?/ '') [0..<16]" by code_simp
  then show "n < 16 \<Longrightarrow> hexText ! n \<noteq> CHR ''%'' \<and> hexText ! n \<notin> set ''&=#?/ ''" by (simp add: list_all_iff)
qed

lemma plain_chars:
  assumes "is_letter c \<or> is_digit c \<or> c \<in> set ''-_.~''"
  shows "c \<noteq> CHR ''%''" "c \<noteq> CHR ''+''" "c \<notin> set ''&=#?/ ''"
proof -
  have "list_all (\<lambda>c. \<not> (is_letter c \<or> is_digit c \<or> c \<in> set ''-_.~'')) ''%+&=#?/ ''" by code_simp
  with assms show "c \<noteq> CHR ''%''" "c \<noteq> CHR ''+''" "c \<notin> set ''&=#?/ ''" by (auto simp: list_all_iff)
qed

lemma byte_halves: "of_char c div 16 < (16 :: nat)" "of_char c mod 16 < (16 :: nat)"
  "char_of (16 * (of_char c div 16) + of_char c mod 16 :: nat) = c"
proof -
  have "of_char c < (256 :: nat)" by simp
  then show "of_char c div 16 < (16 :: nat)" by linarith
qed simp_all

lemma escapeChar_decode: "formDecode (escapeChar c @ rest) = map_option ((#) c) (formDecode rest)"
proof (cases "is_letter c \<or> is_digit c \<or> c \<in> set ''-_.~''")
  case True
  with plain_chars [OF True] show ?thesis by (simp add: escapeChar_def)
next
  case False
  then show ?thesis
    by (simp add: escapeChar_def hexDigit_hexText byte_halves)
qed

lemma escape_round_trip: "formDecode (QueryEscape s) = Some s"
  unfolding QueryEscape_def by (induction s) (simp_all add: escapeChar_decode)

text \<open>An escaped text has no character that separates the parameters of a query.\<close>

lemma escape_safe: "list_all (\<lambda>c. c \<notin> set ''&=#?/ '') (QueryEscape s)"
proof -
  have "list_all (\<lambda>c. c \<notin> set ''&=#?/ '') (escapeChar c)" for c
    using plain_chars [of c] hexText_safe [OF byte_halves(1) [of c]] hexText_safe [OF byte_halves(2) [of c]]
    by (auto simp: escapeChar_def)
  then show ?thesis unfolding QueryEscape_def by (induction s) simp_all
qed

text \<open>The metrics of a device are asked for as meant: whatever text the path has, the query of each metric
  reaches the time series database whole, as one parameter that no separator cuts short and that decodes to
  the series of the metric with that device's label, over the last 86400 seconds in steps of a minute.\<close>

theorem metric_query_arrives:
  "\<exists>q. metricURL base now param name = base @ ''/api/v1/query_range?query='' @ q @ ''&start='' @ itoa (unixOf now - 86400) @
      ''&end='' @ itoa (unixOf now) @ ''&step=60'' \<and>
    list_all (\<lambda>c. c \<notin> set ''&=#?/ '') q \<and> formDecode q = Some (name @ ''{device_id='' @ [CHR 0x22] @ param @ [CHR 0x22] @ ''}'')"
proof -
  have "now - 86400000000000 = now + (- 86400) * 1000000000" by simp
  then have "unixOf (now - 86400000000000) = unixOf now - 86400"
    unfolding unixOf_def by (simp del: mult_minus_left)
  then show ?thesis
    by (intro exI [of _ "QueryEscape (metricQuery name param)"] conjI escape_safe)
      (simp add: metricURL_def, simp only: escape_round_trip metricQuery_def)
qed

text \<open>One failing query costs only its own metric: an accepted request answers, for each of the nine metrics,
  the data that its own query gave, and leaves out exactly those whose query was not answered with an
  object that has data.\<close>

theorem metrics_are_independent:
  assumes "parseID param \<noteq> None" "base \<noteq> []"
  shows "case GetMetrics base parseID now vm param of
      Data code xs \<Rightarrow> code = 200 \<and> distinct (map fst xs) \<and>
        map_of xs name = (if name \<in> set metricNames then answerData (vm (metricURL base now param name)) else None)
    | _ \<Rightarrow> False"
proof -
  define f where "f = (\<lambda>name. answerData (vm (metricURL base now param name)))"
  define g where "g = (\<lambda>name. case f name of None \<Rightarrow> [] | Some d \<Rightarrow> [(name, d)])"
  have keys: "set (map fst (concat (map g ns))) \<subseteq> set ns" for ns
    unfolding g_def by (auto split: option.splits)
  have "distinct (map fst (concat (map g ns))) \<and> map_of (concat (map g ns)) name = (if name \<in> set ns then f name else None)"
    if "distinct ns" for ns
    using that
  proof (induction ns)
    case (Cons n ns)
    from keys [of ns] Cons.prems have "n \<notin> set (map fst (concat (map g ns)))" by auto
    moreover from this have "map_of (concat (map g ns)) n = None" by (simp add: map_of_eq_None_iff)
    ultimately show ?case using Cons by (cases "f n") (auto simp: g_def)
  qed simp
  moreover have "distinct metricNames" by (simp add: metricNames_def)
  moreover have "GetMetrics base parseID now vm param = Data 200 (concat (map g metricNames))"
    using assms by (auto simp: GetMetrics_def Success_def g_def f_def)
  ultimately show ?thesis by (simp add: f_def)
qed

lemma metrics_are_independent_witness:
  "case GetMetrics ''http://vm'' Some 0 (\<lambda>url. if contains url ''fan'' then Unanswered ''timeout'' else Object (Some (1 :: nat))) ''d1'' of
      Data code xs \<Rightarrow> map_of xs ''infrasense_redfish_fan_speed_rpm'' =
        answerData (if contains (metricURL ''http://vm'' 0 ''d1'' ''infrasense_redfish_fan_speed_rpm'') ''fan'' then Unanswered ''timeout'' else Object (Some 1))
    | _ \<Rightarrow> False"
  using metrics_are_independent [where parseID = Some and param = "''d1''" and base = "''http://vm''" and now = 0
    and vm = "\<lambda>url. if contains url ''fan'' then Unanswered ''timeout'' else Object (Some (1 :: nat))"
    and name = "''infrasense_redfish_fan_speed_rpm''"]
  by (simp add: metricNames_def split: api_reply.splits)

section \<open>What a stream sends\<close>

lemma streamLoop_frames:
  "length (filter is_Telemetry (streamLoop read es)) = length (filter is_TickDue (takeWhile (\<lambda>e. e \<noteq> ClientGone) es))"
  "length (streamLoop read es) = length (takeWhile (\<lambda>e. e \<noteq> ClientGone) es)"
  by (induction read es rule: streamLoop.induct) simp_all

text \<open>A stream keeps its pace: its period is between one second and 59, the credential's polling interval when
  that is in this range and five seconds otherwise, so the default interval of a minute is polled twelve
  times as often as asked for. It sends its first readings at once, one frame for each tick and each
  heartbeat after that, and nothing after the client has gone.\<close>

theorem stream_pace:
  "case StreamTelemetry env param t es of
     Inl r \<Rightarrow> \<not> accepted_reply r
   | Inr (period, frames) \<Rightarrow> 1000000000 \<le> period \<and> period \<le> 59000000000 \<and>
       (\<exists>i bmc c pw. streamTarget env param t = Inr (i, bmc, c, pw) \<and>
         period = (if cd_PollingInterval c \<in> {1..59} then cd_PollingInterval c * 1000000000 else 5000000000) \<and>
         hd frames = Telemetry (telemetryEvent (ke_toI env) (ke_net env) (ae_now env) i bmc c pw)) \<and>
       length (filter is_Telemetry frames) = Suc (length (filter is_TickDue (takeWhile (\<lambda>e. e \<noteq> ClientGone) es))) \<and>
       length frames = Suc (length (takeWhile (\<lambda>e. e \<noteq> ClientGone) es))"
proof (cases "streamTarget env param t")
  case (Inl r)
  then have "\<not> accepted_reply r"
    unfolding streamTarget_def by (auto simp: Let_def split: option.splits sum.splits if_splits)
  with Inl show ?thesis by (simp add: StreamTelemetry_def)
next
  case (Inr x)
  obtain i bmc c pw where x: "x = (i, bmc, c, pw)" by (cases x) auto
  have p: "streamInterval c = (if cd_PollingInterval c \<in> {1..59} then cd_PollingInterval c * 1000000000 else 5000000000)"
    by (auto simp: streamInterval_def)
  then have "1000000000 \<le> streamInterval c \<and> streamInterval c \<le> 59000000000" by auto
  with p show ?thesis using Inr by (simp add: StreamTelemetry_def x Let_def streamLoop_frames)
qed

end
