(* ===== verification/Middleware.thy ===== *)
theory Middleware
  imports Access DeviceControl Telemetry
begin

text \<open>
  The way of a request through the API server: the global middleware in the order in which
  \<open>SetupRoutes\<close> of \<open>routes.go\<close> installs it (\<open>logging.go\<close>, \<open>cors.go\<close>, \<open>rate_limit.go\<close>, \<open>security.go\<close>), the
  guards of the route, and the handler. \<open>gin.Default\<close> puts gin's recovery around all of it, but the
  timeout middleware runs the rest of the chain in a goroutine of its own, where a panic is not
  recovered and ends the process. Compression and the metrics page are left out; which route a path
  belongs to is gin's.
\<close>

section \<open>The middleware\<close>

text \<open>A run of a handler: how long it takes when nothing stops it, and its answer, \<open>None\<close> when it panics.\<close>

record 'r handler_run =
  hn_time :: time
  hn_answer :: "'r option"

datatype 'r answer = Handled 'r | Refusal int string string | GatewayTimeout | Aborted

definition SecurityHeadersMiddleware :: "(string \<times> string) list" where
  "SecurityHeadersMiddleware = [(''X-Content-Type-Options'', ''nosniff''), (''X-Frame-Options'', ''DENY''),
     (''X-XSS-Protection'', ''1; mode=block''), (''Strict-Transport-Security'', ''max-age=31536000; includeSubDomains'')]"

text \<open>The log entry itself is output; what the client sees of it is the request's identifier.\<close>

definition LoggingMiddleware :: "string \<Rightarrow> (string \<times> string) list" where
  "LoggingMiddleware requestID = [(''X-Request-ID'', requestID)]"

definition requestTimeout :: time where "requestTimeout = 30 * 1000000000"

text \<open>\<open>TimeoutMiddleware\<close> answers what the goroutine answers when that ends in time, and 504 when not; when
  both happen at once, \<open>select\<close> picks (\<open>doneFirst\<close>). The goroutine is not stopped by the timeout. The
  second component tells whether the server is still there once the goroutine has ended.\<close>

definition TimeoutMiddleware :: "time \<Rightarrow> bool \<Rightarrow> 'r answer handler_run \<Rightarrow> 'r answer \<times> bool" where
  "TimeoutMiddleware timeout doneFirst h =
     (if hn_time h < timeout \<or> hn_time h = timeout \<and> doneFirst
      then (case hn_answer h of None \<Rightarrow> (Aborted, False) | Some a \<Rightarrow> (a, True))
      else (GatewayTimeout, hn_answer h \<noteq> None))"

text \<open>The guards of the route, then the handler with the claims of the caller.\<close>

definition guarded :: "'c gate \<Rightarrow> ('c \<Rightarrow> 'r handler_run) \<Rightarrow> 'r answer handler_run" where
  "guarded g handler = (case g of
     Refused code msg k \<Rightarrow> \<lparr>hn_time = 0, hn_answer = Some (Refusal code msg k)\<rparr>
   | Pass c \<Rightarrow> \<lparr>hn_time = hn_time (handler c), hn_answer = map_option Handled (hn_answer (handler c))\<rparr>)"

record request =
  rq_Method :: string
  rq_Origin :: string
  rq_Ip :: string
  rq_Auth :: string
  rq_Token :: string
  rq_RequestID :: string
  rq_Time :: time
  rq_DoneFirst :: bool

record 'r response =
  rs_Headers :: "(string \<times> string) list"
  rs_Answer :: "'r answer"
  rs_Alive :: bool  \<comment> \<open>the server survives the request\<close>

text \<open>\<open>route\<close> is \<open>None\<close> for a path that has none: gin then runs the global middleware and answers 404.\<close>

definition routed ::
  "jwt_parse \<Rightarrow> string \<Rightarrow> request \<Rightarrow> route option \<Rightarrow> (claims option \<Rightarrow> 'r handler_run) \<Rightarrow> 'r answer handler_run" where
  "routed parse secret q route handler = (case route of
     None \<Rightarrow> \<lparr>hn_time = 0, hn_answer = Some (Refusal 404 ''404 page not found'' [])\<rparr>
   | Some r \<Rightarrow> guarded (serve parse secret (rq_Time q) r (rq_Auth q) (rq_Token q)) handler)"

definition handleRequest ::
  "jwt_parse \<Rightarrow> string \<Rightarrow> string list \<Rightarrow> request \<Rightarrow> route option \<Rightarrow> (claims option \<Rightarrow> 'r handler_run) \<Rightarrow>
   rate_limiter \<Rightarrow> rate_limiter \<times> 'r response" where
  "handleRequest parse secret origins q route handler rl =
     (let logged = LoggingMiddleware (rq_RequestID q) in
      case CORSMiddleware origins (rq_Method q) (rq_Origin q) () of
        (cors, Refused code msg k) \<Rightarrow> (rl, \<lparr>rs_Headers = logged @ cors, rs_Answer = Refusal code msg k, rs_Alive = True\<rparr>)
      | (cors, Pass _) \<Rightarrow>
        (case RateLimitMiddleware (rq_Time q) (rq_Ip q) rl () of
           (rl', Refused code msg k) \<Rightarrow> (rl', \<lparr>rs_Headers = logged @ cors, rs_Answer = Refusal code msg k, rs_Alive = True\<rparr>)
         | (rl', Pass _) \<Rightarrow>
           (case TimeoutMiddleware requestTimeout (rq_DoneFirst q) (routed parse secret q route handler) of
              (a, alive) \<Rightarrow> (rl', \<lparr>rs_Headers = logged @ cors @ SecurityHeadersMiddleware, rs_Answer = a, rs_Alive = alive\<rparr>))))"

definition newServerLimiter :: rate_limiter where
  "newServerLimiter = newRateLimiter 100 (60 * 1000000000)"

section \<open>The outcome of a request\<close>

lemma TimeoutMiddleware_guarded:
  "TimeoutMiddleware requestTimeout b (routed parse secret q route handler) =
   (case route of None \<Rightarrow> (Refusal 404 ''404 page not found'' [], True)
    | Some r \<Rightarrow> (case serve parse secret (rq_Time q) r (rq_Auth q) (rq_Token q) of
        Refused code msg k \<Rightarrow> (Refusal code msg k, True)
      | Pass c \<Rightarrow> TimeoutMiddleware requestTimeout b (guarded (Pass c) handler)))"
  by (simp add: routed_def guarded_def TimeoutMiddleware_def requestTimeout_def split: option.split gate.split)


section \<open>A panic ends the server\<close>

definition syncRoute :: route where
  "syncRoute = route_of ''POST'' ''/api/v1/devices/:id/sync'' (Role adminOrOperator)"

lemma syncRoute_is_a_route: "syncRoute \<in> set routes"
  by code_simp

definition syncHandler :: "time \<Rightarrow> control_env \<Rightarrow> string \<Rightarrow> device_tables \<Rightarrow> claims option \<Rightarrow> sync_result api_reply handler_run" where
  "syncHandler d env i t cl = \<lparr>hn_time = d, hn_answer = snd (SyncDevice env (Some i) t)\<rparr>"

lemma panic_kills:
  assumes "rq_Method q \<noteq> ''OPTIONS''" "snd (rl_allow (rq_Time q) (rq_Ip q) rl)"
    and "serve parse secret (rq_Time q) rt (rq_Auth q) (rq_Token q) = Pass c" "hn_answer (handler c) = None"
  shows "\<not> rs_Alive (snd (handleRequest parse secret origins q (Some rt) handler rl))"
proof -
  obtain hs where cors: "CORSMiddleware origins (rq_Method q) (rq_Origin q) () = (hs, Pass ())"
    using assms(1) by (simp add: CORSMiddleware_def)
  obtain rl1 where a: "rl_allow (rq_Time q) (rq_Ip q) rl = (rl1, True)" using assms(2) by (metis prod.collapse)
  show ?thesis
    by (simp add: handleRequest_def cors RateLimitMiddleware_def a rateLimited_def TimeoutMiddleware_guarded assms(3))
      (simp add: TimeoutMiddleware_def guarded_def assms(4) case_prod_beta)
qed

text \<open>C20: One request can end the API server for everyone. For a device that is managed over IPMI and whose
  credential has no user name (which the API accepts), a synchronisation that an operator or an
  administrator asks for panics in the goroutine of the timeout middleware, out of the reach of gin's
  recovery.\<close>

theorem nameless_credential_ends_server:
  assumes "findTarget env addCredentialsFirst i t = (Inr (d, bmc, c, pw) :: sync_result api_reply + _)"
    and "viaIpmi d" "cd_Username c = None"
    and "rq_Method q = ''POST''" "snd (rl_allow (rq_Time q) (rq_Ip q) rl)"
    and "AuthMiddleware parse secret (rq_Time q) (rq_Auth q) (rq_Token q) = Pass cl" "cl_role cl \<in> set adminOrOperator"
  shows "\<not> rs_Alive (snd (handleRequest parse secret origins q (Some syncRoute) (syncHandler dur env i t) rl))"
proof (rule panic_kills)
  show "rq_Method q \<noteq> ''OPTIONS''" using assms(4) by simp
  show "snd (rl_allow (rq_Time q) (rq_Ip q) rl)" by fact
  show "serve parse secret (rq_Time q) syncRoute (rq_Auth q) (rq_Token q) = Pass (Some cl)"
    using assms(6,7) by (auto simp: serve_pass syncRoute_def route_of_def admits_def list_ex_iff)
  show "hn_answer (syncHandler dur env i t (Some cl)) = None"
    using ipmi_sync_needs_user_name [OF assms(1-3)] by (simp add: syncHandler_def)
qed

section \<open>Streams end after thirty seconds\<close>

text \<open>What the stream's loop chooses, with the time since the request began: when the request's context ends,
  the client counts as gone.\<close>

definition untilDeadline :: "time \<Rightarrow> (time \<times> stream_event) list \<Rightarrow> stream_event list" where
  "untilDeadline limit evs = map snd (takeWhile (\<lambda>e. fst e < limit) evs) @ [ClientGone]"

text \<open>The ticks that are received from a ticker: the n-th not before n periods have passed.\<close>

definition paced :: "time \<Rightarrow> time list \<Rightarrow> bool" where
  "paced period us = list_all (\<lambda>k. (int k + 1) * period \<le> us ! k) [0..<length us]"

definition is_HeartbeatDue :: "stream_event \<Rightarrow> bool" where
  "is_HeartbeatDue e = (e = HeartbeatDue)"

lemma filter_takeWhile_prefix: "\<exists>n. filter P (takeWhile Q xs) = take n (filter P xs)"
proof (induction xs)
  case (Cons x xs)
  then obtain n where n: "filter P (takeWhile Q xs) = take n (filter P xs)" by blast
  show ?case
  proof (cases "Q x")
    case True
    with n show ?thesis by (intro exI [of _ "if P x then Suc n else n"]) simp
  qed (auto intro: exI [of _ 0])
qed simp

lemma filter_takeWhile_le: "length (filter P (takeWhile Q xs)) \<le> length (filter P xs)"
  using filter_takeWhile_prefix [of P Q xs] by (metis length_take min.cobounded1)

lemma paced_count:
  assumes "paced period (map fst (filter P evs))" "0 < period"
  shows "int (length (filter P (takeWhile (\<lambda>e. fst e < limit) evs))) \<le> max 0 ((limit - 1) div period)"
proof -
  let ?early = "filter P (takeWhile (\<lambda>e. fst e < limit) evs)"
  obtain n where n: "?early = take n (filter P evs)" using filter_takeWhile_prefix by blast
  show ?thesis
  proof (cases "length ?early")
    case (Suc m)
    then have m: "m < length (filter P evs)" "?early ! m = filter P evs ! m" using n by simp_all
    have "?early ! m \<in> set ?early" using Suc by (intro nth_mem) simp
    then have "fst (?early ! m) < limit" by (auto dest: set_takeWhileD)
    moreover have "(int m + 1) * period \<le> fst (filter P evs ! m)"
      using assms(1) m(1) by (simp add: paced_def list_all_iff)
    ultimately have "(int m + 1) * period \<le> limit - 1" using m(2) by simp
    from zdiv_mono1 [OF this assms(2)] have "int m + 1 \<le> (limit - 1) div period" using assms(2) by simp
    with Suc show ?thesis by simp
  qed simp
qed

lemma streamLoop_keepalives:
  "length (filter (\<lambda>f. \<not> is_Telemetry f) (streamLoop read es)) = length (filter is_HeartbeatDue (takeWhile (\<lambda>e. e \<noteq> ClientGone) es))"
  by (induction read es rule: streamLoop.induct) (simp_all add: is_HeartbeatDue_def)

lemma untilDeadline_count:
  assumes "\<not> P ClientGone"
  shows "length (filter P (takeWhile (\<lambda>e. e \<noteq> ClientGone) (untilDeadline limit evs))) \<le>
    length (filter (P \<circ> snd) (takeWhile (\<lambda>e. fst e < limit) evs))"
proof -
  have "length (filter P (map snd (takeWhile (\<lambda>e. fst e < limit) evs) @ [ClientGone])) =
      length (filter (P \<circ> snd) (takeWhile (\<lambda>e. fst e < limit) evs))" using assms by (simp add: filter_map)
  then show ?thesis unfolding untilDeadline_def
    using filter_takeWhile_le [of P "\<lambda>e. e \<noteq> ClientGone" "map snd (takeWhile (\<lambda>e. fst e < limit) evs) @ [ClientGone]"] by simp
qed


section \<open>Examples\<close>

definition exCaller :: claims where
  "exCaller = \<lparr>cl_user_id = ''u1'', cl_username = ''op'', cl_role = ''operator'', cl_expiresAt = None, cl_issuedAt = None, cl_notBefore = None\<rparr>"

definition exAccepts :: jwt_parse where
  "exAccepts key token = Inr (exCaller, True)"

definition exRequest :: request where
  "exRequest = \<lparr>rq_Method = ''POST'', rq_Origin = [], rq_Ip = ''10.0.0.9'', rq_Auth = ''Bearer t'', rq_Token = [],
     rq_RequestID = ''r1'', rq_Time = 7, rq_DoneFirst = True\<rparr>"

lemma exRequest_admitted: "snd (rl_allow (rq_Time exRequest) (rq_Ip exRequest) newServerLimiter)"
  by (simp add: rl_allow_def newServerLimiter_def newRateLimiter_def rl_timestamps_def validTimes_def Let_def)

lemma exRequest_auth: "AuthMiddleware exAccepts ''secret'' (rq_Time exRequest) (rq_Auth exRequest) (rq_Token exRequest) = Pass exCaller"
  unfolding AuthMiddleware_pass bearer_split
  by (simp add: exRequest_def ValidateToken_def exAccepts_def exCaller_def)

lemma nameless_credential_ends_server_witness:
  "\<not> rs_Alive (snd (handleRequest exAccepts ''secret'' [] exRequest (Some syncRoute)
     (syncHandler 5 exControlEnv ''d1'' (exControlTables None)) newServerLimiter))"
proof (rule nameless_credential_ends_server [OF _ _ _ _ exRequest_admitted exRequest_auth])
  show "findTarget exControlEnv addCredentialsFirst ''d1'' (exControlTables None) =
      Inr (exControlRow ''d1'' ''ipmi'', ''10.1.0.1'', structOf (rowOf (exControlCredential ''d1'' ''ipmi'' None)), [])"
    by (rule exControl_target) simp
  show "viaIpmi (exControlRow ''d1'' ''ipmi'')" "cd_Username (structOf (rowOf (exControlCredential ''d1'' ''ipmi'' None))) = None"
    by (simp_all add: exControl_via)
  show "rq_Method exRequest = ''POST''" by (simp add: exRequest_def)
  show "cl_role exCaller \<in> set adminOrOperator" by (simp add: exCaller_def adminOrOperator_def RoleOperator_def)
qed

definition exStream :: "(time \<times> stream_event) list" where
  "exStream = [(5000000000, TickDue 5 (ke_net exControlEnv)), (25000000000, HeartbeatDue), (40000000000, TickDue 40 (ke_net exControlEnv))]"


end
