(* ===== verification/Settings.thy ===== *)
theory Settings
  imports Credentials Codec
begin

text \<open>
  The configuration of the programs: \<open>backend/internal/config/config.go\<close>, the \<open>internal/config/config.go\<close> of the
  IPMI, SNMP and Redfish collectors, which differ in three defaults and the Redfish collector's key, and
  the environment of the ingester (\<open>backend/cmd/ingester/main.go\<close>). Durations are read by
  \<open>time.ParseDuration\<close>, modelled as the standard library has it.

  The YAML decoder is a parameter: it turns the file into the structure it fills, with zero values for
  what the file does not name. The environment reads as the empty text where a variable is not set.
\<close>

section \<open>Durations\<close>

definition durationUnit :: "string \<Rightarrow> int option" where
  "durationUnit u = (if u = ''ns'' then Some 1
     else if u = ''us'' \<or> u = [CHR 0xC2, CHR 0xB5] @ ''s'' \<or> u = [CHR 0xCE, CHR 0xBC] @ ''s'' then Some 1000
     else if u = ''ms'' then Some 1000000 else if u = ''s'' then Some 1000000000
     else if u = ''m'' then Some 60000000000 else if u = ''h'' then Some 3600000000000 else None)"

text \<open>The package's own quoting of a text for its errors.\<close>

definition lowerHex :: "int \<Rightarrow> char" where
  "lowerHex n = char_of (if n < 10 then 48 + n else 87 + n)"

definition quoteChar :: "char \<Rightarrow> string" where
  "quoteChar c = (if code_of c \<ge> 128 \<or> code_of c < 32
     then [CHR 0x5C, CHR ''x'', lowerHex (code_of c div 16), lowerHex (code_of c mod 16)]
     else if c = CHR 0x22 \<or> c = CHR 0x5C then [CHR 0x5C, c] else [c])"

definition timeQuote :: "string \<Rightarrow> string" where
  "timeQuote s = [CHR 0x22] @ concat (map quoteChar s) @ [CHR 0x22]"

definition invalidDuration :: "string \<Rightarrow> string" where
  "invalidDuration s = ''time: invalid duration '' @ timeQuote s"

text \<open>The digits before the point; \<open>None\<close> when the value leaves the range.\<close>

fun leadingInt :: "int \<Rightarrow> string \<Rightarrow> int option" where
  "leadingInt x [] = Some x"
| "leadingInt x (c # cs) = (if x > 2 ^ 63 div 10 then None
     else let y = x * 10 + digit_val c in if y > 2 ^ 63 then None else leadingInt y cs)"

text \<open>The digits after the point, with the power of ten that they count; digits beyond the range are dropped.\<close>

fun leadingFraction :: "int \<Rightarrow> f64 \<Rightarrow> bool \<Rightarrow> string \<Rightarrow> int \<times> f64" where
  "leadingFraction x scale over [] = (x, scale)"
| "leadingFraction x scale over (c # cs) =
     (if over then leadingFraction x scale over cs
      else if x > (2 ^ 63 - 1) div 10 then leadingFraction x scale True cs
      else let y = x * 10 + digit_val c in
        if y > 2 ^ 63 then leadingFraction x scale True cs else leadingFraction y (fmul scale (Fin 10)) False cs)"

definition truncated :: "f64 \<Rightarrow> int" where
  "truncated x = (case x of Fin q \<Rightarrow> \<lfloor>q\<rfloor> | _ \<Rightarrow> 0)"

text \<open>The value of one number with its unit, in unsigned 64 bit arithmetic.\<close>

definition durationPart :: "int \<Rightarrow> int \<Rightarrow> string \<Rightarrow> int option" where
  "durationPart v u fraction =
     (if v > 2 ^ 63 div u then None
      else case leadingFraction 0 (Fin 1) False fraction of (f, scale) \<Rightarrow>
        (let w = (if f > 0 then v * u + truncated (fmul (f_of_int f) (fdiv (f_of_int u) scale)) else v * u) in
         if w > 2 ^ 63 then None else Some w))"

definition unitChar :: "char \<Rightarrow> bool" where
  "unitChar c = (c \<noteq> CHR ''.'' \<and> \<not> is_digit c)"

definition fractionOf :: "string \<Rightarrow> string" where
  "fractionOf s = (case s of c # r \<Rightarrow> if c = CHR ''.'' then takeWhile is_digit r else [] | [] \<Rightarrow> [])"

definition afterFraction :: "string \<Rightarrow> string" where
  "afterFraction s = (case s of c # r \<Rightarrow> if c = CHR ''.'' then dropWhile is_digit r else s | [] \<Rightarrow> [])"

lemma length_afterFraction: "length (afterFraction s) \<le> length s"
  unfolding afterFraction_def by (auto split: list.split intro: le_SucI length_dropWhile_le)

function durationLoop :: "string \<Rightarrow> int \<Rightarrow> string \<Rightarrow> int result" where
  "durationLoop orig d s =
     (if s = [] then Inr d
      else if \<not> (hd s = CHR ''.'' \<or> is_digit (hd s)) then Inl (invalidDuration orig)
      else let ds = takeWhile is_digit s; s1 = dropWhile is_digit s; fs = fractionOf s1; s2 = afterFraction s1;
          u = takeWhile unitChar s2; s3 = dropWhile unitChar s2 in
        case leadingInt 0 ds of
          None \<Rightarrow> Inl (invalidDuration orig)
        | Some v \<Rightarrow>
          (if ds = [] \<and> fs = [] then Inl (invalidDuration orig)
           else if u = [] then Inl (''time: missing unit in duration '' @ timeQuote orig)
           else case durationUnit u of
             None \<Rightarrow> Inl (''time: unknown unit '' @ timeQuote u @ '' in duration '' @ timeQuote orig)
           | Some n \<Rightarrow> (case durationPart v n fs of
               None \<Rightarrow> Inl (invalidDuration orig)
             | Some w \<Rightarrow> (let d1 = (d + w) mod 2 ^ 64 in
                 if d1 > 2 ^ 63 then Inl (invalidDuration orig) else durationLoop orig d1 s3))))"
  by pat_completeness auto

termination
proof (relation "measure (\<lambda>(_, _, s). length s)")
  fix orig :: string and d :: int and s ds s1 fs s2 u s3 :: string and v n w d1 :: int
  assume h: "s1 = dropWhile is_digit s" "s2 = afterFraction s1" "u = takeWhile unitChar s2" "s3 = dropWhile unitChar s2"
    "\<not> u = []"
  have "length s2 = length u + length s3" unfolding h(3,4) by (metis length_append takeWhile_dropWhile_id)
  moreover have "length s2 \<le> length s"
    unfolding h(1,2) by (rule order_trans [OF length_afterFraction length_dropWhile_le])
  moreover have "0 < length u" using h(5) by simp
  ultimately have "length s3 < length s" by linarith
  then show "((orig, d1, s3), (orig, d, s)) \<in> measure (\<lambda>(_, _, s). length s)" by simp
qed simp

declare durationLoop.simps [simp del]

definition ParseDuration :: "string \<Rightarrow> int result" where
  "ParseDuration s = (case s of [] \<Rightarrow> Inl (invalidDuration s)
     | c # r \<Rightarrow> (let neg = (c = CHR ''-''); body = (if c = CHR ''-'' \<or> c = CHR ''+'' then r else s) in
         if body = ''0'' then Inr 0
         else if body = [] then Inl (invalidDuration s)
         else case durationLoop s 0 body of
           Inl e \<Rightarrow> Inl e
         | Inr d \<Rightarrow> if neg then Inr (wrap64 (- d)) else if d > 2 ^ 63 - 1 then Inl (invalidDuration s) else Inr d))"

section \<open>The backend's configuration\<close>

record server_config =
  sc_Host :: string
  sc_Port :: int

record database_config =
  db_Host :: string
  db_Port :: int
  db_Database :: string
  db_User :: string
  db_Password :: string
  db_SSLMode :: string

record logging_config =
  lg_Level :: string
  lg_Format :: string

record auth_config =
  ac_JWTSecret :: string
  ac_EncryptionKey :: string

record backend_config =
  bc_Server :: server_config
  bc_Database :: database_config
  bc_VictoriaMetricsURL :: string
  bc_Logging :: logging_config
  bc_Auth :: auth_config

definition emptyDatabase :: database_config where
  "emptyDatabase = \<lparr>db_Host = [], db_Port = 0, db_Database = [], db_User = [], db_Password = [], db_SSLMode = []\<rparr>"

definition emptyLogging :: logging_config where
  "emptyLogging = \<lparr>lg_Level = [], lg_Format = []\<rparr>"

definition emptyBackend :: backend_config where
  "emptyBackend = \<lparr>bc_Server = \<lparr>sc_Host = [], sc_Port = 0\<rparr>, bc_Database = emptyDatabase, bc_VictoriaMetricsURL = [],
     bc_Logging = emptyLogging, bc_Auth = \<lparr>ac_JWTSecret = [], ac_EncryptionKey = []\<rparr>\<rparr>"

text \<open>An environment variable over a value: a text when it is not empty, a number when it also reads as one.\<close>

definition envText :: "(string \<Rightarrow> string) \<Rightarrow> string \<Rightarrow> string \<Rightarrow> string" where
  "envText env key old = (if env key \<noteq> [] then env key else old)"

definition envInt :: "(string \<Rightarrow> string) \<Rightarrow> string \<Rightarrow> int \<Rightarrow> int" where
  "envInt env key old = (if env key \<noteq> [] then (case parseInt64 (env key) of Some n \<Rightarrow> n | None \<Rightarrow> old) else old)"

definition envTrimmed :: "(string \<Rightarrow> string) \<Rightarrow> string \<Rightarrow> string \<Rightarrow> string" where
  "envTrimmed env key old = (if env key \<noteq> [] then trimSpace (env key) else old)"

definition overrideFromEnv :: "(string \<Rightarrow> string) \<Rightarrow> backend_config \<Rightarrow> backend_config" where
  "overrideFromEnv env c = \<lparr>
     bc_Server = \<lparr>sc_Host = envText env ''SERVER_HOST'' (sc_Host (bc_Server c)), sc_Port = envInt env ''SERVER_PORT'' (sc_Port (bc_Server c))\<rparr>,
     bc_Database = \<lparr>db_Host = envText env ''DB_HOST'' (db_Host (bc_Database c)), db_Port = envInt env ''DB_PORT'' (db_Port (bc_Database c)),
       db_Database = envText env ''DB_NAME'' (db_Database (bc_Database c)), db_User = envText env ''DB_USER'' (db_User (bc_Database c)),
       db_Password = envText env ''DB_PASSWORD'' (db_Password (bc_Database c)), db_SSLMode = envText env ''DB_SSL_MODE'' (db_SSLMode (bc_Database c))\<rparr>,
     bc_VictoriaMetricsURL = envText env ''VICTORIAMETRICS_URL'' (bc_VictoriaMetricsURL c),
     bc_Logging = \<lparr>lg_Level = envText env ''LOG_LEVEL'' (lg_Level (bc_Logging c)), lg_Format = envText env ''LOG_FORMAT'' (lg_Format (bc_Logging c))\<rparr>,
     bc_Auth = \<lparr>ac_JWTSecret = envTrimmed env ''JWT_SECRET'' (ac_JWTSecret (bc_Auth c)),
       ac_EncryptionKey = envTrimmed env ''ENCRYPTION_KEY'' (ac_EncryptionKey (bc_Auth c))\<rparr>\<rparr>"

definition validPort :: "int \<Rightarrow> bool" where
  "validPort p = (\<not> (p \<le> 0 \<or> p > 65535))"

definition logLevels :: "string list" where
  "logLevels = [''debug'', ''info'', ''warn'', ''error'']"

definition logFormats :: "string list" where
  "logFormats = [''json'', ''text'']"

text \<open>A check that adds one complaint.\<close>

definition complain :: "bool \<Rightarrow> string \<Rightarrow> string list" where
  "complain bad msg = (if bad then [msg] else [])"

definition databaseProblems :: "database_config \<Rightarrow> string list" where
  "databaseProblems d = complain (db_Host d = []) ''database.host is required'' @
     complain (\<not> validPort (db_Port d)) ''database.port must be between 1 and 65535'' @
     complain (db_Database d = []) ''database.database is required'' @
     complain (db_User d = []) ''database.user is required'' @
     complain (db_Password d = []) ''database.password is required''"

definition backendProblems :: "backend_config \<Rightarrow> string list" where
  "backendProblems c = complain (\<not> validPort (sc_Port (bc_Server c))) ''server.port must be between 1 and 65535'' @
     databaseProblems (bc_Database c) @
     complain (bc_VictoriaMetricsURL c = []) ''metrics.victoriametrics_url is required'' @
     complain (toLower (lg_Level (bc_Logging c)) \<notin> set logLevels) ''logging.level must be one of: debug, info, warn, error'' @
     complain (toLower (lg_Format (bc_Logging c)) \<notin> set logFormats) ''logging.format must be one of: json, text'' @
     complain (ac_JWTSecret (bc_Auth c) = []) ''auth.jwt_secret is required'' @
     complain (length (ac_JWTSecret (bc_Auth c)) < 32) ''auth.jwt_secret must be at least 32 characters'' @
     complain (ac_EncryptionKey (bc_Auth c) = []) ''auth.encryption_key is required'' @
     complain (length (ac_EncryptionKey (bc_Auth c)) \<noteq> 32) ''auth.encryption_key must be exactly 32 bytes''"

definition listProblems :: "string list \<Rightarrow> string" where
  "listProblems ps = newline # ''  - '' @ joinWith (newline # ''  - '') ps"

definition backend_Validate :: "backend_config \<Rightarrow> string option" where
  "backend_Validate c = (let ps = backendProblems c in
     if ps \<noteq> [] then Some (''configuration validation failed:'' @ listProblems ps) else None)"

text \<open>Reading the file: it may be missing, which only the backend accepts.\<close>

datatype file_read = Missing string | ReadFailed string | Contents string

definition backend_Load ::
  "(string \<Rightarrow> backend_config result) \<Rightarrow> (string \<Rightarrow> file_read) \<Rightarrow> (string \<Rightarrow> string) \<Rightarrow> string \<Rightarrow> backend_config result" where
  "backend_Load unmarshal readFile env path =
     (case (if path = [] then Inr emptyBackend
        else case readFile path of
          Contents data \<Rightarrow> (case unmarshal data of Inl e \<Rightarrow> Inl (''failed to parse config file: '' @ e) | Inr c \<Rightarrow> Inr c)
        | Missing e \<Rightarrow> Inr emptyBackend
        | ReadFailed e \<Rightarrow> Inl (''failed to read config file: '' @ e)) of
        Inl e \<Rightarrow> Inl e
      | Inr c \<Rightarrow> (let c1 = overrideFromEnv env c in
          case backend_Validate c1 of Some e \<Rightarrow> Inl (''invalid configuration: '' @ e) | None \<Rightarrow> Inr c1))"

section \<open>The collectors' configuration\<close>

record metrics_config =
  mc_VictoriaMetricsURL :: string
  mc_BatchSize :: int
  mc_BatchTimeout :: string

record polling_config =
  pc_PollingInterval :: string
  pc_DeviceReloadInterval :: string
  pc_MaxConcurrent :: int
  pc_Timeout :: string

text \<open>\<open>cc_EncryptionKey\<close> is the Redfish collector's; the others have none and leave it empty.\<close>

record collector_file =
  cc_Database :: database_config
  cc_Metrics :: metrics_config
  cc_Collector :: polling_config
  cc_Logging :: logging_config
  cc_HealthPort :: int
  cc_EncryptionKey :: string

datatype collector_kind = IpmiKind | SnmpKind | RedfishKind

fun defaultReload :: "collector_kind \<Rightarrow> string" where
  "defaultReload IpmiKind = ''60s''" | "defaultReload SnmpKind = ''5m''" | "defaultReload RedfishKind = ''5m''"

fun defaultTimeout :: "collector_kind \<Rightarrow> string" where
  "defaultTimeout IpmiKind = ''30s''" | "defaultTimeout SnmpKind = ''10s''" | "defaultTimeout RedfishKind = ''30s''"

fun defaultHealthPort :: "collector_kind \<Rightarrow> int" where
  "defaultHealthPort IpmiKind = 8080" | "defaultHealthPort SnmpKind = 8080" | "defaultHealthPort RedfishKind = 8081"

definition collectorEnv :: "collector_kind \<Rightarrow> (string \<Rightarrow> string) \<Rightarrow> collector_file \<Rightarrow> collector_file" where
  "collectorEnv k env c = c\<lparr>
     cc_Database := (cc_Database c)\<lparr>db_Host := envText env ''DB_HOST'' (db_Host (cc_Database c)),
       db_Password := envText env ''DB_PASSWORD'' (db_Password (cc_Database c))\<rparr>,
     cc_Metrics := (cc_Metrics c)\<lparr>mc_VictoriaMetricsURL := envText env ''VICTORIAMETRICS_URL'' (mc_VictoriaMetricsURL (cc_Metrics c))\<rparr>,
     cc_EncryptionKey := (if k = RedfishKind then envText env ''ENCRYPTION_KEY'' (cc_EncryptionKey c) else cc_EncryptionKey c)\<rparr>"

definition orText :: "string \<Rightarrow> string \<Rightarrow> string" where
  "orText v d = (if v = [] then d else v)"

definition orInt :: "int \<Rightarrow> int \<Rightarrow> int" where
  "orInt v d = (if v = 0 then d else v)"

definition setDefaults :: "collector_kind \<Rightarrow> collector_file \<Rightarrow> collector_file" where
  "setDefaults k c = c\<lparr>
     cc_Collector := \<lparr>pc_PollingInterval = orText (pc_PollingInterval (cc_Collector c)) ''60s'',
       pc_DeviceReloadInterval = orText (pc_DeviceReloadInterval (cc_Collector c)) (defaultReload k),
       pc_MaxConcurrent = orInt (pc_MaxConcurrent (cc_Collector c)) 100,
       pc_Timeout = orText (pc_Timeout (cc_Collector c)) (defaultTimeout k)\<rparr>,
     cc_Metrics := (cc_Metrics c)\<lparr>mc_BatchSize := orInt (mc_BatchSize (cc_Metrics c)) 1000,
       mc_BatchTimeout := orText (mc_BatchTimeout (cc_Metrics c)) ''10s''\<rparr>,
     cc_HealthPort := orInt (cc_HealthPort c) (defaultHealthPort k)\<rparr>"

definition durationProblem :: "string \<Rightarrow> string \<Rightarrow> string list" where
  "durationProblem name v = (case ParseDuration v of Inl e \<Rightarrow> [name @ '' is invalid: '' @ e] | Inr d \<Rightarrow> [])"

definition collectorProblems :: "collector_file \<Rightarrow> string list" where
  "collectorProblems c = databaseProblems (cc_Database c) @
     complain (mc_VictoriaMetricsURL (cc_Metrics c) = []) ''metrics.victoriametrics_url is required'' @
     complain (mc_BatchSize (cc_Metrics c) \<le> 0) ''metrics.batch_size must be greater than 0'' @
     (case ParseDuration (pc_PollingInterval (cc_Collector c)) of
        Inl e \<Rightarrow> [''collector.polling_interval is invalid: '' @ e]
      | Inr d \<Rightarrow> complain (d < 5 * 1000000000 \<or> d > 3600 * 1000000000) ''collector.polling_interval must be between 5 seconds and 3600 seconds'') @
     durationProblem ''collector.device_reload_interval'' (pc_DeviceReloadInterval (cc_Collector c)) @
     durationProblem ''collector.timeout'' (pc_Timeout (cc_Collector c)) @
     durationProblem ''metrics.batch_timeout'' (mc_BatchTimeout (cc_Metrics c)) @
     complain (pc_MaxConcurrent (cc_Collector c) \<le> 0) ''collector.max_concurrent must be greater than 0'' @
     complain (\<not> validPort (cc_HealthPort c)) ''health_server.port must be between 1 and 65535'' @
     complain (lg_Level (cc_Logging c) \<noteq> [] \<and> lg_Level (cc_Logging c) \<notin> set logLevels) ''logging.level must be one of: debug, info, warn, error'' @
     complain (lg_Format (cc_Logging c) \<noteq> [] \<and> lg_Format (cc_Logging c) \<notin> set logFormats) ''logging.format must be one of: json, text''"

definition collector_Validate :: "collector_file \<Rightarrow> string option" where
  "collector_Validate c = (let ps = collectorProblems c in if ps \<noteq> [] then Some (listProblems ps) else None)"

definition LoadConfig ::
  "collector_kind \<Rightarrow> (string \<Rightarrow> collector_file result) \<Rightarrow> (string \<Rightarrow> file_read) \<Rightarrow> (string \<Rightarrow> string) \<Rightarrow> string \<Rightarrow> collector_file result" where
  "LoadConfig k unmarshal readFile env path = (case readFile path of
     Missing e \<Rightarrow> Inl (''failed to read config file: '' @ e)
   | ReadFailed e \<Rightarrow> Inl (''failed to read config file: '' @ e)
   | Contents data \<Rightarrow> (case unmarshal data of
       Inl e \<Rightarrow> Inl (''failed to parse config file: '' @ e)
     | Inr c \<Rightarrow> (let c1 = setDefaults k (collectorEnv k env c) in
         case collector_Validate c1 of Some e \<Rightarrow> Inl (''configuration validation failed: '' @ e) | None \<Rightarrow> Inr c1)))"

text \<open>The getters drop the error, with which \<open>ParseDuration\<close> returns 0.\<close>

definition durationOr0 :: "string \<Rightarrow> int" where
  "durationOr0 s = (case ParseDuration s of Inl e \<Rightarrow> 0 | Inr d \<Rightarrow> d)"

definition GetPollingInterval :: "collector_file \<Rightarrow> int" where
  "GetPollingInterval c = durationOr0 (pc_PollingInterval (cc_Collector c))"

definition GetDeviceReloadInterval :: "collector_file \<Rightarrow> int" where
  "GetDeviceReloadInterval c = durationOr0 (pc_DeviceReloadInterval (cc_Collector c))"

definition GetTimeout :: "collector_file \<Rightarrow> int" where
  "GetTimeout c = durationOr0 (pc_Timeout (cc_Collector c))"

definition GetBatchTimeout :: "collector_file \<Rightarrow> int" where
  "GetBatchTimeout c = durationOr0 (mc_BatchTimeout (cc_Metrics c))"

section \<open>The ingester's environment\<close>

definition envDuration :: "(string \<Rightarrow> string) \<Rightarrow> string \<Rightarrow> int \<Rightarrow> int" where
  "envDuration env key def = (if env key \<noteq> [] then (case ParseDuration (env key) of Inr d \<Rightarrow> d | Inl e \<Rightarrow> def) else def)"

record ingester_settings =
  ig_VmURL :: string
  ig_BatchSize :: int
  ig_BatchTimeout :: int

definition ingesterSettings :: "(string \<Rightarrow> string) \<Rightarrow> ingester_settings" where
  "ingesterSettings env = \<lparr>ig_VmURL = envText env ''VICTORIAMETRICS_URL'' ''http://victoriametrics:8428/api/v1/write'',
     ig_BatchSize = envInt env ''VM_BATCH_SIZE'' 1000, ig_BatchTimeout = envDuration env ''VM_BATCH_TIMEOUT'' 10000000000\<rparr>"

section \<open>Reading durations\<close>

lemma leadingInt_value:
  assumes "list_all is_digit ds" "0 \<le> x" "fold (\<lambda>c v. v * 10 + digit_val c) ds x \<le> 2 ^ 63"
  shows "leadingInt x ds = Some (fold (\<lambda>c v. v * 10 + digit_val c) ds x)"
  using assms
proof (induction ds arbitrary: x)
  case (Cons c cs)
  have d: "0 \<le> digit_val c" using Cons.prems(1) by (simp add: is_digit_def digit_val_def)
  have mono: "y \<le> fold (\<lambda>c v. v * 10 + digit_val c) es y" if "list_all is_digit es" "0 \<le> y" for es :: string and y
    using that
  proof (induction es arbitrary: y)
    case (Cons e es)
    have "0 \<le> digit_val e" using Cons.prems(1) by (simp add: is_digit_def digit_val_def)
    with Cons.prems Cons.IH [of "y * 10 + digit_val e"] show ?case by simp
  qed simp
  have "x * 10 + digit_val c \<le> 2 ^ 63"
    using mono [of cs "x * 10 + digit_val c"] Cons.prems d by simp
  moreover from this d have "\<not> x > 2 ^ 63 div 10" by simp
  moreover have "leadingInt (x * 10 + digit_val c) cs = Some (fold (\<lambda>c v. v * 10 + digit_val c) cs (x * 10 + digit_val c))"
    using Cons d by (intro Cons.IH) auto
  ultimately show ?case by (simp add: Let_def)
qed simp

lemma durationUnit_chars: "durationUnit u = Some k \<Longrightarrow> list_all unitChar u \<and> u \<noteq> [] \<and> 0 < k"
  unfolding durationUnit_def by (auto simp: unitChar_def is_digit_def code_of_def split: if_splits)

text \<open>A whole number with a unit is read as that many units: the durations that a configuration writes as
  \<open>60s\<close> or \<open>5m\<close> are the ones meant, as long as they fit into 63 bits.\<close>

theorem whole_durations_read:
  assumes "durationUnit u = Some k" "0 \<le> n" "n * k < 2 ^ 63"
  shows "ParseDuration (itoa n @ u) = Inr (n * k)"
proof -
  have u: "list_all unitChar u" "u \<noteq> []" "0 < k" using durationUnit_chars [OF assms(1)] by simp_all
  define ds where "ds = natDigits n"
  have ds: "itoa n = ds" "list_all is_digit ds" "ds \<noteq> []" "decimalVal ds = n"
    using assms(2) natDigits_digits [of n] decimalVal_natDigits [of n] by (auto simp: itoa_def ds_def)
  have n: "n < 2 ^ 63" using assms(2,3) u(3) by (smt (verit) mult_le_cancel_left1 mult.commute)
  have take: "takeWhile is_digit (ds @ u) = ds" "dropWhile is_digit (ds @ u) = u"
    using ds(2) u(1,2) by (cases u; simp add: takeWhile_append list_all_iff unitChar_def dropWhile_append)+
  obtain c r where u': "u = c # r" "c \<noteq> CHR ''.''" using u(1,2) by (cases u) (auto simp: unitChar_def)
  then have f: "fractionOf u = []" "afterFraction u = u" by (simp_all add: fractionOf_def afterFraction_def)
  have all: "takeWhile unitChar u = u" "dropWhile unitChar u = []"
    using u(1) by (simp_all add: list_all_iff takeWhile_eq_all_conv dropWhile_eq_Nil_conv)
  have v: "leadingInt 0 ds = Some n"
    using leadingInt_value [of ds 0] ds(2,4) n by (simp add: decimalVal_def foldl_conv_fold)
  have "n * k div k \<le> 2 ^ 63 div k" using assms(3) u(3) by (intro zdiv_mono1) simp_all
  then have "n \<le> 2 ^ 63 div k" using u(3) by simp
  then have p: "durationPart n k [] = Some (n * k)" using assms(3) by (simp add: durationPart_def Let_def)
  obtain a b where ab: "ds = a # b" "is_digit a" using ds(2,3) by (cases ds) auto
  then have a: "a \<noteq> CHR ''-''" "a \<noteq> CHR ''+''" by (auto simp: is_digit_def code_of_def)
  have "0 \<le> n * k" using assms(2) u(3) by simp
  define w where "w = ds @ u"
  have w: "w \<noteq> []" "is_digit (hd w)" "takeWhile is_digit w = ds" "dropWhile is_digit w = u"
    using ds(3) take ab by (simp_all add: w_def)
  have "durationLoop s 0 w = Inr (n * k)" for s
    using \<open>0 \<le> n * k\<close> assms(1,3) v p u(2)
    by (subst durationLoop.simps) (simp add: w f all Let_def ds(3) durationLoop.simps [of s _ "[]"])
  then have "durationLoop s 0 (ds @ u) = Inr (n * k)" for s by (simp add: w_def)
  moreover have "ds @ u \<noteq> ''0''" using ab(1) u(2) by (cases b) auto
  ultimately show ?thesis using a assms(3) u(2) unfolding ParseDuration_def ds(1)
    by (simp add: ab(1) Let_def split: list.split)
qed

lemma whole_durations_read_witness: "ParseDuration ''90m'' = Inr 5400000000000"
proof -
  have "itoa 90 = ''90''" by code_simp
  with whole_durations_read [of "''m''" 60000000000 90] show ?thesis by (simp add: durationUnit_def)
qed

section \<open>Accepted configurations\<close>

lemma complain_nil [simp]: "complain b m = [] \<longleftrightarrow> \<not> b"
  by (simp add: complain_def)

lemma durationProblem_nil: "durationProblem name v = [] \<longleftrightarrow> ParseDuration v = Inr (durationOr0 v)"
  by (simp add: durationProblem_def durationOr0_def split: sum.split)

definition database_ok :: "database_config \<Rightarrow> bool" where
  "database_ok d = (db_Host d \<noteq> [] \<and> validPort (db_Port d) \<and> db_Database d \<noteq> [] \<and> db_User d \<noteq> [] \<and> db_Password d \<noteq> [])"

lemma databaseProblems_nil: "databaseProblems d = [] \<longleftrightarrow> database_ok d"
  by (simp add: databaseProblems_def database_ok_def)

text \<open>The API server only starts with a configuration that it can use: when the configuration is loaded,
  whatever came from the file and what from the environment, both ports are ports, the database's
  settings are there, the secret of the tokens has at least 32 bytes and the encryption key is one
  that the credential service accepts.\<close>

theorem loaded_backend_config_usable:
  assumes "backend_Load unmarshal readFile env path = Inr c"
  shows "validPort (sc_Port (bc_Server c)) \<and> database_ok (bc_Database c) \<and> bc_VictoriaMetricsURL c \<noteq> [] \<and>
    32 \<le> length (ac_JWTSecret (bc_Auth c)) \<and>
    NewCredentialService (ac_EncryptionKey (bc_Auth c)) = Inr \<lparr>encryptionKey = ac_EncryptionKey (bc_Auth c)\<rparr> \<and>
    toLower (lg_Level (bc_Logging c)) \<in> set logLevels"
proof -
  from assms have "backend_Validate c = None"
    unfolding backend_Load_def by (auto simp: Let_def split: sum.splits option.splits file_read.splits if_splits)
  then show ?thesis
    by (simp add: backend_Validate_def backendProblems_def databaseProblems_nil Let_def NewCredentialService_def
        not_less split: if_splits)
qed

text \<open>The environment decides: a setting of the API server that has a variable is the variable's value when
  that is not empty, the secret and the key without surrounding spaces; a port's variable counts only
  when it reads as a number. The file decides only the others.\<close>

theorem environment_overrides_file:
  assumes "backend_Load unmarshal readFile env path = Inr c" "env ''DB_HOST'' \<noteq> []" "env ''JWT_SECRET'' \<noteq> []"
    and "parseInt64 (env ''SERVER_PORT'') = None"
  shows "db_Host (bc_Database c) = env ''DB_HOST'' \<and> ac_JWTSecret (bc_Auth c) = trimSpace (env ''JWT_SECRET'') \<and>
    (\<exists>f. (f = emptyBackend \<or> (\<exists>data. unmarshal data = Inr f)) \<and> sc_Port (bc_Server c) = sc_Port (bc_Server f) \<and>
      (if env ''DB_USER'' = [] then db_User (bc_Database c) = db_User (bc_Database f) else db_User (bc_Database c) = env ''DB_USER''))"
proof -
  from assms(1) obtain f where f: "f = emptyBackend \<or> (\<exists>data. unmarshal data = Inr f)" "c = overrideFromEnv env f"
    unfolding backend_Load_def by (auto simp: Let_def split: sum.splits option.splits file_read.splits if_splits)
  with assms(2-4) show ?thesis by (auto simp: overrideFromEnv_def envText_def envTrimmed_def envInt_def)
qed

definition exEnvironment :: "string \<Rightarrow> string" where
  "exEnvironment k = (if k = ''JWT_SECRET'' \<or> k = ''ENCRYPTION_KEY'' then ''0123456789abcdef0123456789abcdef''
     else if k = ''DB_PORT'' then ''5432'' else if k = ''LOG_LEVEL'' then ''info'' else if k = ''LOG_FORMAT'' then ''json''
     else if k = ''SERVER_PORT'' then [] else ''x'')"

definition exBackendFile :: "string \<Rightarrow> backend_config result" where
  "exBackendFile data = Inr (emptyBackend\<lparr>bc_Server := \<lparr>sc_Host = [], sc_Port = 8080\<rparr>\<rparr>)"

definition exLoaded :: "backend_config result" where
  "exLoaded = backend_Load exBackendFile (\<lambda>p. Contents []) exEnvironment ''config.yml''"

lemma exLoaded_ok: "exLoaded = Inr (projr exLoaded)"
proof -
  have "\<not> isl exLoaded" unfolding exLoaded_def by code_simp
  then show ?thesis by (cases exLoaded) simp_all
qed

lemma loaded_backend_config_usable_witness: "32 \<le> length (ac_JWTSecret (bc_Auth (projr exLoaded)))"
  using loaded_backend_config_usable [OF exLoaded_ok [unfolded exLoaded_def]] by (simp add: exLoaded_def)

lemma environment_overrides_file_witness: "db_Host (bc_Database (projr exLoaded)) = ''x''"
proof -
  have "exEnvironment ''DB_HOST'' = ''x''" "exEnvironment ''JWT_SECRET'' \<noteq> []" "parseInt64 (exEnvironment ''SERVER_PORT'') = None"
    by code_simp+
  with environment_overrides_file [OF exLoaded_ok [unfolded exLoaded_def]] show ?thesis by (simp add: exLoaded_def)
qed

text \<open>A collector only starts with a configuration that it can use: the loaded polling interval lies between
  five seconds and an hour, the limits are positive, the ports are ports, and the other durations are
  the ones written.\<close>

theorem loaded_collector_config_usable:
  assumes "LoadConfig k unmarshal readFile env path = Inr c"
  shows "5000000000 \<le> GetPollingInterval c \<and> GetPollingInterval c \<le> 3600000000000 \<and> 0 < pc_MaxConcurrent (cc_Collector c) \<and>
    0 < mc_BatchSize (cc_Metrics c) \<and> database_ok (cc_Database c) \<and> validPort (cc_HealthPort c) \<and>
    ParseDuration (pc_DeviceReloadInterval (cc_Collector c)) = Inr (GetDeviceReloadInterval c) \<and>
    ParseDuration (pc_Timeout (cc_Collector c)) = Inr (GetTimeout c) \<and>
    ParseDuration (mc_BatchTimeout (cc_Metrics c)) = Inr (GetBatchTimeout c)"
proof -
  from assms have "collector_Validate c = None"
    unfolding LoadConfig_def by (auto simp: Let_def split: sum.splits option.splits file_read.splits)
  then have "collectorProblems c = []" by (simp add: collector_Validate_def Let_def split: if_splits)
  then show ?thesis
    unfolding collectorProblems_def GetPollingInterval_def GetDeviceReloadInterval_def GetTimeout_def GetBatchTimeout_def
    by (auto simp: databaseProblems_nil durationProblem_nil durationOr0_def split: sum.splits)
qed

lemma accepted_collector: "collector_Validate c = None \<longleftrightarrow> collectorProblems c = []"
  by (simp add: collector_Validate_def Let_def)

text \<open>The other durations of a collector are only checked to be durations: any accepted configuration stays
  accepted when its batch timeout becomes \<open>0s\<close> or its reload interval \<open>-5m\<close>, and these are the values
  that the collector then gives to \<open>time.NewTicker\<close>, which panics on them.\<close>

theorem unusable_durations_accepted:
  assumes "collector_Validate c = None"
  shows "let c1 = c\<lparr>cc_Metrics := (cc_Metrics c)\<lparr>mc_BatchTimeout := ''0s''\<rparr>\<rparr>;
      c2 = c\<lparr>cc_Collector := (cc_Collector c)\<lparr>pc_DeviceReloadInterval := ''-5m''\<rparr>\<rparr> in
    collector_Validate c1 = None \<and> GetBatchTimeout c1 = 0 \<and>
    collector_Validate c2 = None \<and> GetDeviceReloadInterval c2 = - 300000000000"
proof -
  have d: "ParseDuration ''0s'' = Inr 0" "ParseDuration ''-5m'' = Inr (- 300000000000)" by code_simp+
  then show ?thesis using assms
    by (simp add: accepted_collector collectorProblems_def Let_def durationProblem_nil durationOr0_def
        GetBatchTimeout_def GetDeviceReloadInterval_def)
qed

definition exCollectorFile :: collector_file where
  "exCollectorFile = \<lparr>cc_Database = \<lparr>db_Host = ''db'', db_Port = 5432, db_Database = ''infra'', db_User = ''u'', db_Password = ''p'',
     db_SSLMode = ''disable''\<rparr>, cc_Metrics = \<lparr>mc_VictoriaMetricsURL = ''http://vm'', mc_BatchSize = 0, mc_BatchTimeout = []\<rparr>,
     cc_Collector = \<lparr>pc_PollingInterval = [], pc_DeviceReloadInterval = [], pc_MaxConcurrent = 0, pc_Timeout = []\<rparr>,
     cc_Logging = emptyLogging, cc_HealthPort = 0, cc_EncryptionKey = []\<rparr>"

text \<open>Every default is usable: a file that only says how to reach the database and the metrics store is
  accepted by each collector, with polling every minute, devices reloaded every minute by the IPMI
  collector and every five by the others, and batches sent after ten seconds.\<close>

theorem defaults_suffice:
  assumes "database_ok (cc_Database f)" "mc_VictoriaMetricsURL (cc_Metrics f) \<noteq> []"
    and "f = \<lparr>cc_Database = cc_Database f, cc_Metrics = \<lparr>mc_VictoriaMetricsURL = mc_VictoriaMetricsURL (cc_Metrics f), mc_BatchSize = 0, mc_BatchTimeout = []\<rparr>,
      cc_Collector = \<lparr>pc_PollingInterval = [], pc_DeviceReloadInterval = [], pc_MaxConcurrent = 0, pc_Timeout = []\<rparr>,
      cc_Logging = emptyLogging, cc_HealthPort = 0, cc_EncryptionKey = []\<rparr>"
  shows "case LoadConfig k (\<lambda>d. Inr f) (\<lambda>p. Contents data) (\<lambda>v. []) path of Inl e \<Rightarrow> False
    | Inr c \<Rightarrow> cc_Database c = cc_Database f \<and> GetPollingInterval c = 60000000000 \<and> GetBatchTimeout c = 10000000000 \<and>
        GetDeviceReloadInterval c = (if k = IpmiKind then 60000000000 else 300000000000) \<and>
        GetTimeout c = (if k = SnmpKind then 10000000000 else 30000000000)"
proof -
  have d: "ParseDuration ''60s'' = Inr 60000000000" "ParseDuration ''5m'' = Inr 300000000000"
    "ParseDuration ''30s'' = Inr 30000000000" "ParseDuration ''10s'' = Inr 10000000000" by code_simp+
  define c where "c = setDefaults k (collectorEnv k (\<lambda>v. []) f)"
  have c: "cc_Database c = cc_Database f" "mc_VictoriaMetricsURL (cc_Metrics c) = mc_VictoriaMetricsURL (cc_Metrics f)"
    "mc_BatchSize (cc_Metrics c) = 1000" "mc_BatchTimeout (cc_Metrics c) = ''10s''" "pc_PollingInterval (cc_Collector c) = ''60s''"
    "pc_DeviceReloadInterval (cc_Collector c) = defaultReload k" "pc_MaxConcurrent (cc_Collector c) = 100"
    "pc_Timeout (cc_Collector c) = defaultTimeout k" "cc_Logging c = emptyLogging" "cc_HealthPort c = defaultHealthPort k"
    unfolding c_def by (subst assms(3), simp add: setDefaults_def collectorEnv_def envText_def orText_def orInt_def)+
  have "collector_Validate c = None"
    using assms(1,2) unfolding accepted_collector collectorProblems_def c
    by (cases k) (simp_all add: d databaseProblems_nil durationProblem_nil durationOr0_def validPort_def emptyLogging_def)
  then have "LoadConfig k (\<lambda>d. Inr f) (\<lambda>p. Contents data) (\<lambda>v. []) path = Inr c"
    by (simp add: LoadConfig_def c_def Let_def)
  then show ?thesis using d
    by (cases k) (simp_all add: c GetPollingInterval_def GetBatchTimeout_def GetDeviceReloadInterval_def GetTimeout_def durationOr0_def)
qed

lemma defaults_suffice_witness:
  "case LoadConfig SnmpKind (\<lambda>d. Inr exCollectorFile) (\<lambda>p. Contents []) (\<lambda>v. []) [] of Inl e \<Rightarrow> False
    | Inr c \<Rightarrow> GetTimeout c = 10000000000"
proof -
  have "database_ok (cc_Database exCollectorFile)" "mc_VictoriaMetricsURL (cc_Metrics exCollectorFile) \<noteq> []"
    by (simp_all add: exCollectorFile_def database_ok_def validPort_def)
  from defaults_suffice [OF this, of SnmpKind "[]" "[]"] show ?thesis
    by (simp add: exCollectorFile_def split: sum.splits)
qed

definition exAccepted :: "collector_file result" where
  "exAccepted = LoadConfig IpmiKind (\<lambda>d. Inr exCollectorFile) (\<lambda>p. Contents []) (\<lambda>v. []) []"

lemma exAccepted_ok: "exAccepted = Inr (projr exAccepted)"
proof -
  have "\<not> isl exAccepted" unfolding exAccepted_def by code_simp
  then show ?thesis by (cases exAccepted) simp_all
qed

lemma loaded_collector_config_usable_witness: "5000000000 \<le> GetPollingInterval (projr exAccepted)"
  using loaded_collector_config_usable [OF exAccepted_ok [unfolded exAccepted_def]] by (simp add: exAccepted_def)

lemma unusable_durations_accepted_witness:
  "collector_Validate ((setDefaults IpmiKind exCollectorFile)\<lparr>cc_Metrics := (cc_Metrics (setDefaults IpmiKind exCollectorFile))\<lparr>mc_BatchTimeout := ''0s''\<rparr>\<rparr>) = None"
proof -
  have "collector_Validate (setDefaults IpmiKind exCollectorFile) = None" by code_simp
  from unusable_durations_accepted [OF this] show ?thesis by (simp add: Let_def)
qed

end
