(* ===== verification/Database.thy ===== *)
theory Database
  imports Prelude
begin

text \<open>
  The connection pool, the migrations and the transactions of the API server and the ingester:
  \<open>backend/internal/db/postgres.go\<close>.

  The migration library is a parameter: a record of its operations on the state of the schema. What is
  used of it is stated where it is needed and is in its documentation: a schema on which a migration
  failed is dirty, and a dirty schema refuses to be stepped.
\<close>

section \<open>The pool\<close>

record db_config =
  dg_Host :: string
  dg_Port :: int
  dg_Database :: string
  dg_User :: string
  dg_Password :: string
  dg_SSLMode :: string

definition dataSource :: "db_config \<Rightarrow> string" where
  "dataSource c = ''host='' @ dg_Host c @ '' port='' @ itoa (dg_Port c) @ '' user='' @ dg_User c @
     '' password='' @ dg_Password c @ '' dbname='' @ dg_Database c @ '' sslmode='' @ dg_SSLMode c"

record pool =
  pl_source :: string
  pl_maxOpen :: int
  pl_maxIdle :: int
  pl_lifetime :: int
  pl_idleTime :: int

definition NewDB :: "(string \<Rightarrow> string option) \<Rightarrow> (string \<Rightarrow> string option) \<Rightarrow> db_config \<Rightarrow> pool result" where
  "NewDB connect ping c = (let dsn = dataSource c in
     case connect dsn of Some e \<Rightarrow> Inl (''failed to open database: '' @ e)
     | None \<Rightarrow> (case ping dsn of Some e \<Rightarrow> Inl (''failed to ping database: '' @ e)
       | None \<Rightarrow> Inr \<lparr>pl_source = dsn, pl_maxOpen = 25, pl_maxIdle = 5, pl_lifetime = 3600000000000, pl_idleTime = 600000000000\<rparr>))"

section \<open>Migrations\<close>

text \<open>The version of a schema: none yet, one with its dirty flag, or an error.\<close>

datatype version = NilVersion | Version nat bool | VersionFailed string

datatype up_result = Migrated | NoChange | UpFailed string

record 's migrator =
  mg_driverErr :: "string option"
  mg_instanceErr :: "string option"
  mg_version :: "'s \<Rightarrow> version"
  mg_force :: "nat \<Rightarrow> 's \<Rightarrow> 's \<times> string option"
  mg_stepBack :: "'s \<Rightarrow> 's \<times> string option"
  mg_up :: "'s \<Rightarrow> 's \<times> up_result"

definition maxSupportedVersion :: nat where
  "maxSupportedVersion = 17"

text \<open>The least supported version is 0, so no version is too old.\<close>

definition validateSchemaVersion :: "nat \<Rightarrow> string option" where
  "validateSchemaVersion v =
     (if v > maxSupportedVersion then Some (''database schema version '' @ itoa (int v) @ '' is newer than supported version '' @
        itoa (int maxSupportedVersion) @ ''. Please upgrade the application'')
      else if v = 0 then None
      else if v < 0 then Some (''database schema version '' @ itoa (int v) @ '' is older than minimum supported version '' @
        itoa 0 @ ''. Please run migrations'')
      else None)"

text \<open>Recovery of a dirty schema: the version is forced clean and its migration taken back.\<close>

definition recoverDirty :: "'s migrator \<Rightarrow> nat \<Rightarrow> 's \<Rightarrow> 's \<times> version result" where
  "recoverDirty m v s = (case mg_force m v s of
     (s1, Some e) \<Rightarrow> (s1, Inl (''database schema is in dirty state and cannot be recovered: '' @ e))
   | (s1, None) \<Rightarrow> (case mg_stepBack m s1 of
       (s2, Some e) \<Rightarrow> (s2, Inl (''failed to rollback failed migration: '' @ e))
     | (s2, None) \<Rightarrow> (case mg_version m s2 of
         VersionFailed e \<Rightarrow> (s2, Inl (''failed to get schema version after rollback: '' @ e))
       | v2 \<Rightarrow> (s2, Inr v2))))"

definition applyUp :: "'s migrator \<Rightarrow> 's \<Rightarrow> 's \<times> string option" where
  "applyUp m s = (case mg_up m s of
     (s1, Migrated) \<Rightarrow> (s1, None)
   | (s1, NoChange) \<Rightarrow> (s1, None)
   | (s1, UpFailed e) \<Rightarrow> (case mg_stepBack m s1 of
       (s2, Some r) \<Rightarrow> (s2, Some (''migration failed and rollback failed: migration error: '' @ e @ '', rollback error: '' @ r))
     | (s2, None) \<Rightarrow> (s2, Some (''migration failed and was rolled back: '' @ e))))"

definition versionNumber :: "version \<Rightarrow> nat" where
  "versionNumber v = (case v of Version n d \<Rightarrow> n | _ \<Rightarrow> 0)"

definition RunMigrations :: "'s migrator \<Rightarrow> 's \<Rightarrow> 's \<times> string option" where
  "RunMigrations m s = (case mg_driverErr m of
     Some e \<Rightarrow> (s, Some (''failed to create migration driver: '' @ e))
   | None \<Rightarrow> (case mg_instanceErr m of
       Some e \<Rightarrow> (s, Some (''failed to create migration instance: '' @ e))
     | None \<Rightarrow>
         (let proceed = (\<lambda>s1 v. case validateSchemaVersion (versionNumber v) of
                Some e \<Rightarrow> (s1, Some (''schema version incompatible: '' @ e)) | None \<Rightarrow> applyUp m s1) in
          case mg_version m s of
            VersionFailed e \<Rightarrow> (s, Some (''failed to get current schema version: '' @ e))
          | NilVersion \<Rightarrow> proceed s NilVersion
          | Version n dirty \<Rightarrow>
              (if dirty then (case recoverDirty m n s of (s1, Inl e) \<Rightarrow> (s1, Some e) | (s1, Inr v) \<Rightarrow> proceed s1 v)
               else proceed s (Version n dirty)))))"

section \<open>Transactions\<close>

definition isDeadlock :: "string \<Rightarrow> bool" where
  "isDeadlock e = (e = ''pq: deadlock detected'' \<or> contains e ''40P01'')"

definition maxRetries :: nat where "maxRetries = 3"

text \<open>The pause before the next of the attempts, which are counted from 0.\<close>

definition txPause :: "nat \<Rightarrow> int" where
  "txPause i = (int i + 1) * 100000000"

fun beginLoop :: "(nat \<Rightarrow> string option) \<Rightarrow> nat \<Rightarrow> nat \<Rightarrow> int list \<Rightarrow> string option \<times> int list" where
  "beginLoop attempt i 0 pauses = (Some ''failed to begin transaction after 3 retries'', pauses)"
| "beginLoop attempt i (Suc k) pauses = (case attempt i of
     None \<Rightarrow> (None, pauses)
   | Some e \<Rightarrow> (if isDeadlock e \<and> i < maxRetries - 1 then beginLoop attempt (i + 1) k (pauses @ [txPause i])
       else (Some (''failed to begin transaction after 3 retries: '' @ e), pauses)))"

definition BeginTx :: "(nat \<Rightarrow> string option) \<Rightarrow> string option \<times> int list" where
  "BeginTx attempt = beginLoop attempt 0 maxRetries []"

text \<open>One attempt of a transaction: beginning it, the function on the tables that it sees, the commit. What
  the function did counts only once it is committed.\<close>

record 's tx_attempt =
  ta_begin :: "string option"
  ta_run :: "'s \<Rightarrow> 's \<times> string option"
  ta_commit :: "string option"

fun txLoop :: "(nat \<Rightarrow> 's tx_attempt) \<Rightarrow> nat \<Rightarrow> nat \<Rightarrow> int list \<Rightarrow> 's \<Rightarrow> 's \<times> string option \<times> int list" where
  "txLoop world i 0 pauses s = (s, Some ''transaction failed after 3 retries'', pauses)"
| "txLoop world i (Suc k) pauses s =
     (let a = world i; again = (\<lambda>e. isDeadlock e \<and> i < maxRetries - 1) in
      case ta_begin a of
        Some e \<Rightarrow> (if again e then txLoop world (i + 1) k (pauses @ [txPause i]) s
          else (s, Some (''failed to begin transaction: '' @ e), pauses))
      | None \<Rightarrow> (case ta_run a s of
          (s1, Some e) \<Rightarrow> (if again e then txLoop world (i + 1) k (pauses @ [txPause i]) s else (s, Some e, pauses))
        | (s1, None) \<Rightarrow> (case ta_commit a of
            Some e \<Rightarrow> (if again e then txLoop world (i + 1) k (pauses @ [txPause i]) s
              else (s, Some (''failed to commit transaction: '' @ e), pauses))
          | None \<Rightarrow> (s1, None, pauses))))"

definition WithTransaction :: "(nat \<Rightarrow> 's tx_attempt) \<Rightarrow> 's \<Rightarrow> 's \<times> string option \<times> int list" where
  "WithTransaction world s = txLoop world 0 maxRetries [] s"

section \<open>Transactions are atomic\<close>

text \<open>The error that an attempt meets, if any.\<close>

definition attemptErr :: "'s tx_attempt \<Rightarrow> 's \<Rightarrow> string option" where
  "attemptErr a s = (case ta_begin a of Some e \<Rightarrow> Some e
     | None \<Rightarrow> (case ta_run a s of (_, Some e) \<Rightarrow> Some e | (_, None) \<Rightarrow> ta_commit a))"

definition deadlocked :: "'s tx_attempt \<Rightarrow> 's \<Rightarrow> bool" where
  "deadlocked a s = (case attemptErr a s of None \<Rightarrow> False | Some e \<Rightarrow> isDeadlock e)"

definition txErr :: "'s tx_attempt \<Rightarrow> 's \<Rightarrow> string option" where
  "txErr a s = (case ta_begin a of Some e \<Rightarrow> Some (''failed to begin transaction: '' @ e)
     | None \<Rightarrow> (case ta_run a s of (_, Some e) \<Rightarrow> Some e
       | (_, None) \<Rightarrow> map_option (\<lambda>e. ''failed to commit transaction: '' @ e) (ta_commit a)))"

lemma txErr_None: "txErr a s = None \<longleftrightarrow> attemptErr a s = None"
  unfolding txErr_def attemptErr_def by (auto split: option.split prod.split)

lemma txLoop_step:
  "txLoop world i (Suc k) ps s = (if deadlocked (world i) s \<and> i < 2 then txLoop world (i + 1) k (ps @ [txPause i]) s
     else (if attemptErr (world i) s = None then fst (ta_run (world i) s) else s, txErr (world i) s, ps))"
  unfolding deadlocked_def attemptErr_def txErr_def
  by (auto simp: Let_def maxRetries_def split: option.split prod.split)

lemma WithTransaction_cases:
  "WithTransaction world s = (let n = (if \<not> deadlocked (world 0) s then 0 else if \<not> deadlocked (world 1) s then 1 else 2 :: nat) in
     (if attemptErr (world n) s = None then fst (ta_run (world n) s) else s, txErr (world n) s, take n [100000000, 200000000]))"
proof -
  have "WithTransaction world s = txLoop world 0 (Suc (Suc (Suc 0))) [] s"
    by (simp add: WithTransaction_def maxRetries_def numeral_3_eq_3 del: txLoop.simps)
  also have "\<dots> = (let n = (if \<not> deadlocked (world 0) s then 0 else if \<not> deadlocked (world 1) s then 1 else 2 :: nat) in
     (if attemptErr (world n) s = None then fst (ta_run (world n) s) else s, txErr (world n) s, take n [100000000, 200000000]))"
    unfolding txLoop_step by (simp add: Let_def txPause_def numeral_2_eq_2)
  finally show ?thesis .
qed


section \<open>Failed migrations\<close>

definition instanceOk :: "'s migrator \<Rightarrow> bool" where
  "instanceOk m = (mg_driverErr m = None \<and> mg_instanceErr m = None)"

text \<open>C34: The automatic rollback never happens. A migration that fails leaves the schema dirty, and a dirty schema
  refuses to be stepped back: the start ends with both errors and the schema stays as the failed
  migration left it. It is the next start that forces the version, takes the failed migration back
  and applies the migrations again, when the version that it then finds is supported.\<close>

theorem failed_migration_waits_for_restart:
  assumes "instanceOk m" "mg_version m s = Version n False" "n \<le> maxSupportedVersion"
    and "mg_up m s = (s1, UpFailed e)" "mg_version m s1 = Version k True"
    and "\<And>x j. mg_version m x = Version j True \<Longrightarrow> \<exists>r. mg_stepBack m x = (x, Some r)"
    and "mg_force m k s1 = (s2, None)" "mg_stepBack m s2 = (s3, None)" "mg_version m s3 = Version j False" "j \<le> maxSupportedVersion"
  shows "(\<exists>r. RunMigrations m s = (s1, Some (''migration failed and rollback failed: migration error: '' @ e @ '', rollback error: '' @ r))) \<and>
    RunMigrations m s1 = applyUp m s3"
proof
  from assms(6) [OF assms(5)] obtain r where r: "mg_stepBack m s1 = (s1, Some r)" by blast
  have v: "validateSchemaVersion n = None" "validateSchemaVersion j = None" using assms(3,10) by (simp_all add: validateSchemaVersion_def)
  have "RunMigrations m s = (s1, Some (''migration failed and rollback failed: migration error: '' @ e @ '', rollback error: '' @ r))"
    using assms(1,2,4) r v(1) by (simp add: RunMigrations_def instanceOk_def versionNumber_def applyUp_def Let_def)
  then show "\<exists>r. RunMigrations m s = (s1, Some (''migration failed and rollback failed: migration error: '' @ e @ '', rollback error: '' @ r))"
    by blast
  show "RunMigrations m s1 = applyUp m s3"
    using assms(1,5,7-9) v(2) by (simp add: RunMigrations_def instanceOk_def recoverDirty_def versionNumber_def Let_def)
qed

text \<open>A migrator whose fifth migration fails.\<close>

definition exMigrator :: "(nat \<times> bool) migrator" where
  "exMigrator = \<lparr>mg_driverErr = None, mg_instanceErr = None, mg_version = (\<lambda>(v, d). if v = 0 then NilVersion else Version v d),
     mg_force = (\<lambda>v s. ((v, False), None)),
     mg_stepBack = (\<lambda>(v, d). if d then ((v, d), Some ''Dirty database'') else ((v - 1, False), None)),
     mg_up = (\<lambda>s. ((5, True), UpFailed ''syntax error''))\<rparr>"

lemma failed_migration_waits_for_restart_witness:
  "fst (RunMigrations exMigrator (4, False)) = (5, True) \<and> RunMigrations exMigrator (5, True) = applyUp exMigrator (4, False)"
proof -
  have "\<And>x j. mg_version exMigrator x = Version j True \<Longrightarrow> \<exists>r. mg_stepBack exMigrator x = (x, Some r)"
    by (auto simp: exMigrator_def split: prod.splits if_splits)
  moreover have "instanceOk exMigrator" "mg_version exMigrator (4, False) = Version 4 False" "4 \<le> maxSupportedVersion"
    "mg_up exMigrator (4, False) = ((5, True), UpFailed ''syntax error'')" "mg_version exMigrator (5, True) = Version 5 True"
    "mg_force exMigrator 5 (5, True) = ((5, False), None)" "mg_stepBack exMigrator (5, False) = ((4, False), None)"
    by (simp_all add: exMigrator_def instanceOk_def maxSupportedVersion_def)
  ultimately have "(\<exists>r. RunMigrations exMigrator (4, False) = ((5, True), Some (''migration failed and rollback failed: migration error: '' @
      ''syntax error'' @ '', rollback error: '' @ r))) \<and> RunMigrations exMigrator (5, True) = applyUp exMigrator (4, False)"
    by (intro failed_migration_waits_for_restart)
  then show ?thesis by auto
qed

text \<open>A schema from the future is left alone: on a clean schema whose version is above 17 the start fails before
  anything is applied. On a clean supported schema, or an empty one, the start succeeds exactly when
  applying the migrations does.\<close>

theorem newer_schema_is_refused:
  assumes "instanceOk m" "mg_version m s = NilVersion \<or> mg_version m s = Version n False"
  shows "if versionNumber (mg_version m s) > 17
    then fst (RunMigrations m s) = s \<and> snd (RunMigrations m s) \<noteq> None
    else (snd (RunMigrations m s) = None) = (case snd (mg_up m s) of UpFailed _ \<Rightarrow> False | _ \<Rightarrow> True)"
proof -
  have "RunMigrations m s = (case validateSchemaVersion (versionNumber (mg_version m s)) of
      Some e \<Rightarrow> (s, Some (''schema version incompatible: '' @ e)) | None \<Rightarrow> applyUp m s)"
    using assms by (auto simp: RunMigrations_def instanceOk_def Let_def)
  then show ?thesis
    by (auto simp: validateSchemaVersion_def maxSupportedVersion_def applyUp_def split: prod.split up_result.split option.split)
qed

lemma newer_schema_is_refused_witness: "fst (RunMigrations exMigrator (18, False)) = (18, False)"
  using newer_schema_is_refused [of exMigrator "(18, False)" 18]
  by (simp add: exMigrator_def instanceOk_def versionNumber_def)

end
