(* ===== verification/Startup.thy ===== *)
theory Startup
  imports Settings Database Users
begin

text \<open>
  How the programs start: the API server (\<open>backend/cmd/server/main.go\<close>) up to the point where it serves, with
  the first administrator that it creates, and the collectors (\<open>collectors/*/cmd/main.go\<close>) up to the point
  where they poll. The parts are those of the theories Settings, Database and Users; what they rely on
  outside (files, the connection, the migration library, bcrypt) stays a parameter.
\<close>

section \<open>The first administrator\<close>

text \<open>The count and the insertion are two statements; an administrator that someone else inserts in between is
  kept.\<close>

definition adminUser :: "string \<Rightarrow> time \<Rightarrow> string \<Rightarrow> user" where
  "adminUser newId now h = \<lparr>us_ID = newId, us_Username = ''admin'', us_PasswordHash = h, us_Email = Some ''admin@infrasense.local'',
     us_Role = RoleAdmin, us_Enabled = True, us_CreatedAt = now, us_UpdatedAt = now, us_FullName = [], us_LastLoginAt = None,
     us_CreatedBy = None\<rparr>"

definition defaultAdminPassword :: string where
  "defaultAdminPassword = ''Admin@123456''"

definition seedAdminUser ::
  "(string \<Rightarrow> string result) \<Rightarrow> (string \<Rightarrow> string) \<Rightarrow> db_error \<Rightarrow> db_error \<Rightarrow> string \<Rightarrow> time \<Rightarrow> user list \<Rightarrow> user list \<times> string option" where
  "seedAdminUser bcryptHash env countErr insertErr newId now users = (case countErr of
     Some e \<Rightarrow> (users, Some (''failed to check for admin user: '' @ e))
   | None \<Rightarrow>
     (if length (filter (\<lambda>u. us_Username u = ''admin'') users) > 0 then (users, None)
      else case HashPassword bcryptHash (if env ''ADMIN_PASSWORD'' = [] then defaultAdminPassword else env ''ADMIN_PASSWORD'') of
        Inl e \<Rightarrow> (users, Some (''failed to hash admin password: '' @ e))
      | Inr h \<Rightarrow> (case insertErr of
          Some e \<Rightarrow> (users, Some (''failed to create admin user: '' @ e))
        | None \<Rightarrow> (if list_ex (\<lambda>u. us_Username u = ''admin'') users then (users, None)
            else if list_ex (\<lambda>u. us_ID u = newId) users
            then (users, Some ''failed to create admin user: pq: duplicate key value violates unique constraint'')
            else (users @ [adminUser newId now h], None)))))"

section \<open>The API server\<close>

record 's server_world =
  sw_unmarshal :: "string \<Rightarrow> backend_config result"
  sw_readFile :: "string \<Rightarrow> file_read"
  sw_env :: "string \<Rightarrow> string"
  sw_connect :: "string \<Rightarrow> string option"
  sw_ping :: "string \<Rightarrow> string option"
  sw_migrator :: "'s migrator"
  sw_bcrypt :: "string \<Rightarrow> string result"
  sw_countErr :: db_error
  sw_insertErr :: db_error
  sw_newId :: string
  sw_now :: time

record 's server_state =
  sv_schema :: 's
  sv_users :: "user list"

datatype start = Fatal string | Serving string

definition dbConfig :: "database_config \<Rightarrow> db_config" where
  "dbConfig d = \<lparr>dg_Host = db_Host d, dg_Port = db_Port d, dg_Database = db_Database d, dg_User = db_User d,
     dg_Password = db_Password d, dg_SSLMode = db_SSLMode d\<rparr>"

text \<open>That the first administrator cannot be created is only logged.\<close>

definition startServer :: "'s server_world \<Rightarrow> 's server_state \<Rightarrow> 's server_state \<times> start" where
  "startServer w s = (case backend_Load (sw_unmarshal w) (sw_readFile w) (sw_env w) ''config.yml'' of
     Inl e \<Rightarrow> (s, Fatal (''Failed to load configuration: '' @ e))
   | Inr c \<Rightarrow> (case NewDB (sw_connect w) (sw_ping w) (dbConfig (bc_Database c)) of
       Inl e \<Rightarrow> (s, Fatal (''Failed to connect to database: '' @ e))
     | Inr p \<Rightarrow> (case RunMigrations (sw_migrator w) (sv_schema s) of
         (sch, Some e) \<Rightarrow> (s\<lparr>sv_schema := sch\<rparr>, Fatal e)
       | (sch, None) \<Rightarrow>
           (s\<lparr>sv_schema := sch, sv_users := fst (seedAdminUser (sw_bcrypt w) (sw_env w) (sw_countErr w) (sw_insertErr w)
               (sw_newId w) (sw_now w) (sv_users s))\<rparr>,
            Serving (sc_Host (bc_Server c) @ '':'' @ itoa (sc_Port (bc_Server c)))))))"

section \<open>The collectors\<close>

text \<open>A collector that polls, with what it was given; a process that exits with an error; one that a panic of
  \<open>time.NewTicker\<close> ends, which refuses a period that is not positive. Loading the devices for the first
  time and the NATS connection of the IPMI collector may fail too.\<close>

record poll_settings =
  ps_batchSize :: int
  ps_batchTimeout :: int
  ps_polling :: int
  ps_reload :: int
  ps_maxConcurrent :: int
  ps_timeout :: int

datatype collector_start = Exits string | Panics string | Polls poll_settings

definition newTicker :: "int \<Rightarrow> string option" where
  "newTicker d = (if d \<le> 0 then Some ''non-positive interval for NewTicker'' else None)"

definition startCollector ::
  "collector_kind \<Rightarrow> (string \<Rightarrow> collector_file result) \<Rightarrow> (string \<Rightarrow> file_read) \<Rightarrow> (string \<Rightarrow> string) \<Rightarrow>
   (string \<Rightarrow> string option) \<Rightarrow> (string \<Rightarrow> string option) \<Rightarrow> db_error \<Rightarrow> db_error \<Rightarrow> collector_start" where
  "startCollector k unmarshal readFile env connect ping natsErr loadErr =
     (case LoadConfig k unmarshal readFile env ''config.yml'' of
        Inl e \<Rightarrow> Exits e
      | Inr c \<Rightarrow> (let dsn = dataSource (dbConfig (cc_Database c)) in
          case connect dsn of Some e \<Rightarrow> Exits e
          | None \<Rightarrow> (case ping dsn of Some e \<Rightarrow> Exits e
            | None \<Rightarrow> (case newTicker (GetBatchTimeout c) of Some e \<Rightarrow> Panics e
              | None \<Rightarrow> (if k = RedfishKind \<and> length (envText env ''ENCRYPTION_KEY'' (cc_EncryptionKey c)) \<noteq> 32
                  then Exits ''ENCRYPTION_KEY must be exactly 32 characters''
                else case (if k = IpmiKind \<and> env ''NATS_URL'' \<noteq> [] then natsErr else None) of Some e \<Rightarrow> Exits e
                | None \<Rightarrow> (case loadErr of Some e \<Rightarrow> Exits e
                  | None \<Rightarrow> (case newTicker (GetDeviceReloadInterval c) of Some e \<Rightarrow> Panics e
                    | None \<Rightarrow> (case newTicker (GetPollingInterval c) of Some e \<Rightarrow> Panics e
                      | None \<Rightarrow> Polls \<lparr>ps_batchSize = mc_BatchSize (cc_Metrics c), ps_batchTimeout = GetBatchTimeout c,
                          ps_polling = GetPollingInterval c, ps_reload = GetDeviceReloadInterval c,
                          ps_maxConcurrent = pc_MaxConcurrent (cc_Collector c), ps_timeout = GetTimeout c\<rparr>))))))))"

section \<open>The first login\<close>


definition exHash :: "string \<Rightarrow> string result" where "exHash p = Inr (''h:'' @ p)"


text \<open>A start keeps the users that there are and adds at most the administrator: an existing \<open>admin\<close>, also a
  disabled one, is left as it is; when the administrator was deleted or renamed, the next start creates
  it again, with the password of the environment or the built-in one.\<close>

theorem start_seeds_once:
  "case seedAdminUser bcryptHash env countErr insertErr newId now users of (users', err) \<Rightarrow>
     take (length users) users' = users \<and>
     (if ''admin'' \<in> us_Username ` set users then users' = users
      else if err = None then (\<exists>h. HashPassword bcryptHash (if env ''ADMIN_PASSWORD'' = [] then ''Admin@123456'' else env ''ADMIN_PASSWORD'') = Inr h \<and>
          users' = users @ [adminUser newId now h])
      else users' = users)"
proof (cases "''admin'' \<in> us_Username ` set users")
  case True
  then have "filter (\<lambda>u. us_Username u = ''admin'') users \<noteq> []" by (auto simp: filter_empty_conv)
  with True show ?thesis by (simp add: seedAdminUser_def split: option.split)
next
  case False
  then have "us_Username u \<noteq> ''admin''" if "u \<in> set users" for u using that by (metis imageI)
  then have "filter (\<lambda>u. us_Username u = ''admin'') users = []" "\<not> list_ex (\<lambda>u. us_Username u = ''admin'') users"
    by (auto simp: filter_empty_conv list_ex_iff)
  with False show ?thesis
    by (auto simp: seedAdminUser_def defaultAdminPassword_def split: option.split sum.split)
qed

section \<open>Starts\<close>

text \<open>A server that serves is ready: its configuration is usable (the key is one that the credential service
  takes), the connection was tried, every migration was applied without an error, and the users are
  those from before, perhaps with the first administrator.\<close>

theorem serving_server_is_ready:
  assumes "startServer w s = (s', Serving addr)"
  shows "\<exists>c. backend_Load (sw_unmarshal w) (sw_readFile w) (sw_env w) ''config.yml'' = Inr c \<and>
    addr = sc_Host (bc_Server c) @ '':'' @ itoa (sc_Port (bc_Server c)) \<and> validPort (sc_Port (bc_Server c)) \<and>
    length (ac_EncryptionKey (bc_Auth c)) = 32 \<and> sw_ping w (dataSource (dbConfig (bc_Database c))) = None \<and>
    RunMigrations (sw_migrator w) (sv_schema s) = (sv_schema s', None) \<and> take (length (sv_users s)) (sv_users s') = sv_users s"
proof -
  have seed: "take (length us) (fst (seedAdminUser b e c i n t us)) = us" for b e c i n t us
    unfolding seedAdminUser_def by (auto split: option.split sum.split)
  from assms obtain c where c: "backend_Load (sw_unmarshal w) (sw_readFile w) (sw_env w) ''config.yml'' = Inr c"
    unfolding startServer_def by (auto split: sum.splits)
  then have "backend_Validate c = None"
    unfolding backend_Load_def by (auto simp: Let_def split: sum.splits option.splits file_read.splits if_splits)
  then have v: "validPort (sc_Port (bc_Server c))" "length (ac_EncryptionKey (bc_Auth c)) = 32"
    by (simp_all add: backend_Validate_def backendProblems_def Let_def split: if_splits)
  from assms c obtain sch where m: "RunMigrations (sw_migrator w) (sv_schema s) = (sch, None)"
    and p: "sw_ping w (dataSource (dbConfig (bc_Database c))) = None"
    and s': "s' = s\<lparr>sv_schema := sch, sv_users := fst (seedAdminUser (sw_bcrypt w) (sw_env w) (sw_countErr w) (sw_insertErr w)
               (sw_newId w) (sw_now w) (sv_users s))\<rparr>" "addr = sc_Host (bc_Server c) @ '':'' @ itoa (sc_Port (bc_Server c))"
    unfolding startServer_def by (auto simp: NewDB_def Let_def split: sum.splits option.splits prod.splits)
  show ?thesis using c v m p by (intro exI [of _ c]) (simp add: s' seed)
qed

lemma polls_soundly:
  "(case startCollector k unmarshal readFile env connect ping natsErr loadErr of
      Polls p \<Rightarrow> 5000000000 \<le> ps_polling p \<and> ps_polling p \<le> 3600000000000 \<and> 0 < ps_reload p \<and> 0 < ps_batchTimeout p \<and>
        0 < ps_batchSize p \<and> 0 < ps_maxConcurrent p
    | _ \<Rightarrow> True) \<and>
   (case LoadConfig k unmarshal readFile env ''config.yml'' of
      Inl e \<Rightarrow> startCollector k unmarshal readFile env connect ping natsErr loadErr = Exits e
    | Inr c \<Rightarrow> (if mc_BatchTimeout (cc_Metrics c) = ''0s'' \<and> connect (dataSource (dbConfig (cc_Database c))) = None \<and>
          ping (dataSource (dbConfig (cc_Database c))) = None
        then startCollector k unmarshal readFile env connect ping natsErr loadErr = Panics ''non-positive interval for NewTicker''
        else True))"
proof (cases "LoadConfig k unmarshal readFile env ''config.yml''")
  case (Inl e)
  then show ?thesis by (simp add: startCollector_def)
next
  case (Inr c)
  then have "collector_Validate c = None"
    unfolding LoadConfig_def by (auto simp: Let_def split: sum.splits option.splits file_read.splits)
  then have v: "collectorProblems c = []" by (simp add: accepted_collector)
  then have "5000000000 \<le> GetPollingInterval c \<and> GetPollingInterval c \<le> 3600000000000 \<and>
      0 < mc_BatchSize (cc_Metrics c) \<and> 0 < pc_MaxConcurrent (cc_Collector c)"
    unfolding collectorProblems_def GetPollingInterval_def by (auto simp: durationOr0_def split: sum.splits)
  moreover have "GetBatchTimeout c = 0" if "mc_BatchTimeout (cc_Metrics c) = ''0s''"
  proof -
    have "ParseDuration ''0s'' = Inr 0" by code_simp
    with that show ?thesis by (simp add: GetBatchTimeout_def durationOr0_def)
  qed
  ultimately show ?thesis
    using Inr by (auto simp: startCollector_def Let_def newTicker_def split: option.splits)
qed

text \<open>A collector that polls has periods that it can keep: the polling interval lies between five seconds and an
  hour, the batch timeout and the reload interval are positive and so are the limits. An accepted
  configuration is not enough for that: with a batch timeout of \<open>0s\<close> every collector that reaches
  its database panics.\<close>

theorem polling_collector_is_sound:
  "(case startCollector k unmarshal readFile env connect ping natsErr loadErr of
      Polls p \<Rightarrow> 5000000000 \<le> ps_polling p \<and> ps_polling p \<le> 3600000000000 \<and> 0 < ps_reload p \<and> 0 < ps_batchTimeout p \<and>
        0 < ps_batchSize p \<and> 0 < ps_maxConcurrent p
    | _ \<Rightarrow> True) \<and>
   (case LoadConfig k unmarshal readFile env ''config.yml'' of
      Inl e \<Rightarrow> startCollector k unmarshal readFile env connect ping natsErr loadErr = Exits e
    | Inr c \<Rightarrow> (if mc_BatchTimeout (cc_Metrics c) = ''0s'' \<and> connect (dataSource (dbConfig (cc_Database c))) = None \<and>
          ping (dataSource (dbConfig (cc_Database c))) = None
        then startCollector k unmarshal readFile env connect ping natsErr loadErr = Panics ''non-positive interval for NewTicker''
        else True))"
  by (rule polls_soundly)

end
