(* ===== verification/Notify.thy ===== *)
theory Notify
  imports Codec "HOL-Library.Multiset"
begin

text \<open>
  The notification service (\<open>notification-service/internal\<close>): the Alertmanager webhook
  (\<open>webhook/handler.go\<close>), the three channels (\<open>notifier/telegram.go\<close>, \<open>slack.go\<close>, \<open>email.go\<close>) with their
  token bucket and their resending, and the configuration (\<open>config/config.go\<close>). The network is an
  argument: the outcome of the k-th attempt. Strings are bytes, so the symbols of a message are
  written in UTF-8.
\<close>

section \<open>Alerts\<close>

text \<open>A time with its zone: the instant, the offset of the zone and its abbreviation.\<close>

record wall =
  wl_instant :: time
  wl_offset :: time
  wl_zone :: string

record alert =
  al_Status :: string
  al_Labels :: labels
  al_Annotations :: labels
  al_StartsAt :: wall
  al_EndsAt :: wall
  al_GeneratorURL :: string
  al_Fingerprint :: string

record notification_alert =
  na_Severity :: string
  na_DeviceName :: string
  na_DeviceID :: string
  na_MetricName :: string
  na_CurrentValue :: string
  na_Timestamp :: wall
  na_Summary :: string
  na_Description :: string
  na_Status :: string

definition mapGet :: "labels \<Rightarrow> string \<Rightarrow> string" where
  "mapGet m k = (case map_of m k of None \<Rightarrow> [] | Some v \<Rightarrow> v)"

definition parseAlert :: "alert \<Rightarrow> notification_alert" where
  "parseAlert a =
     \<lparr>na_Severity = mapGet (al_Labels a) ''severity'', na_DeviceName = mapGet (al_Labels a) ''hostname'',
      na_DeviceID = mapGet (al_Labels a) ''device_id'',
      na_MetricName = mapGet (al_Annotations a) ''metric_name'',
      na_CurrentValue = mapGet (al_Annotations a) ''current_value'', na_Timestamp = al_StartsAt a,
      na_Summary = mapGet (al_Annotations a) ''summary'',
      na_Description = mapGet (al_Annotations a) ''description'', na_Status = al_Status a\<rparr>"

section \<open>The text of a message\<close>

definition redCircle :: string where "redCircle = [CHR 0xF0, CHR 0x9F, CHR 0x94, CHR 0xB4]"
definition checkMark :: string where "checkMark = [CHR 0xE2, CHR 0x9C, CHR 0x85]"
definition siren :: string where "siren = [CHR 0xF0, CHR 0x9F, CHR 0x9A, CHR 0xA8]"
definition warnSign :: string where
  "warnSign = [CHR 0xE2, CHR 0x9A, CHR 0xA0, CHR 0xEF, CHR 0xB8, CHR 0x8F]"
definition infoSign :: string where
  "infoSign = [CHR 0xE2, CHR 0x84, CHR 0xB9, CHR 0xEF, CHR 0xB8, CHR 0x8F]"

definition wallText :: "wall \<Rightarrow> string" where
  "wallText w = map (\<lambda>c. if c = CHR ''T'' then CHR '' '' else c) (dateTime (wl_instant w + wl_offset w)) @
     '' '' @ wl_zone w"

definition statusText :: "notification_alert \<Rightarrow> string" where
  "statusText a = (if na_Status a = ''resolved'' then checkMark @ '' RESOLVED'' else redCircle @ '' FIRING'')"

definition severityEmoji :: "string \<Rightarrow> string" where
  "severityEmoji s = (if s = ''critical'' \<or> s = ''emergency'' then siren
     else if s = ''warning'' then warnSign else if s = ''info'' then infoSign else [])"

definition msgLine :: "string \<Rightarrow> string \<Rightarrow> string" where
  "msgLine what v = (if v = [] then [] else what @ '': '' @ v @ [newline])"

definition FormatAlertMessage :: "notification_alert \<Rightarrow> string" where
  "FormatAlertMessage a =
     statusText a @ '' '' @ severityEmoji (na_Severity a) @ '' '' @ na_Summary a @ [newline, newline] @
     msgLine ''Description'' (na_Description a) @ msgLine ''Device ID'' (na_DeviceID a) @
     msgLine ''Device'' (na_DeviceName a) @ msgLine ''Metric'' (na_MetricName a) @
     msgLine ''Current Value'' (na_CurrentValue a) @
     ''Severity: '' @ na_Severity a @ [newline] @
     ''Time: '' @ wallText (na_Timestamp a) @ [newline]"

section \<open>The token bucket\<close>

record bucket =
  bk_tokens :: int
  bk_maxTokens :: int
  bk_refillRate :: time
  bk_lastRefill :: time

definition NewRateLimiter :: "int \<Rightarrow> time \<Rightarrow> time \<Rightarrow> bucket" where
  "NewRateLimiter maxTokens refillRate now =
     \<lparr>bk_tokens = maxTokens, bk_maxTokens = maxTokens, bk_refillRate = refillRate, bk_lastRefill = now\<rparr>"

definition refill :: "time \<Rightarrow> bucket \<Rightarrow> bucket" where
  "refill now b = (let elapsed = now - bk_lastRefill b; tokensToAdd = elapsed div bk_refillRate b in
     if tokensToAdd > 0
     then b\<lparr>bk_tokens := min (bk_tokens b + tokensToAdd) (bk_maxTokens b), bk_lastRefill := now\<rparr>
     else b)"

definition Allow :: "time \<Rightarrow> bucket \<Rightarrow> bucket \<times> bool" where
  "Allow now b = (let b1 = refill now b in
     if bk_tokens b1 > 0 then (b1\<lparr>bk_tokens := bk_tokens b1 - 1\<rparr>, True) else (b1, False))"

text \<open>The waiting loop of \<open>Send\<close>: try, sleep 100 ms, try again. \<open>clock k\<close> is the time of the k-th try; the
  loop has no bound of its own, \<open>fuel\<close> tries are followed. The result has the number of tries.\<close>

fun waitAllow :: "nat \<Rightarrow> (nat \<Rightarrow> time) \<Rightarrow> nat \<Rightarrow> bucket \<Rightarrow> (bucket \<times> nat) option" where
  "waitAllow 0 clock k b = None"
| "waitAllow (Suc fuel) clock k b = (case Allow (clock k) b of
     (b', True) \<Rightarrow> Some (b', k) | (b', False) \<Rightarrow> waitAllow fuel clock (k + 1) b')"

section \<open>Resending\<close>

text \<open>One attempt of a channel gives an error or \<open>None\<close>. The loop of the three \<open>sendWithRetry\<close>: the
  outcome, the number of attempts made and the waits between them in nanoseconds.\<close>

fun retryLoop :: "(nat \<Rightarrow> string option) \<Rightarrow> nat \<Rightarrow> nat \<Rightarrow> string \<Rightarrow> string option \<times> nat \<times> time list" where
  "retryLoop send attempt 0 lastErr = (Some lastErr, 0, [])"
| "retryLoop send attempt (Suc left) lastErr =
     (let wait = (if attempt > 0 then [2 ^ (attempt - 1) * 1000000000] else []) in
      case send attempt of
        None \<Rightarrow> (None, 1, wait)
      | Some e \<Rightarrow> (case retryLoop send (attempt + 1) left e of (r, n, ws) \<Rightarrow> (r, n + 1, wait @ ws)))"

definition notify_sendWithRetry ::
  "(nat \<Rightarrow> string option) \<Rightarrow> nat \<Rightarrow> string option \<times> nat \<times> time list" where
  "notify_sendWithRetry send maxRetries = (case retryLoop send 0 maxRetries ''%!w(<nil>)'' of
     (None, n, ws) \<Rightarrow> (None, n, ws)
   | (Some e, n, ws) \<Rightarrow> (Some (''failed after '' @ itoa (int maxRetries) @ '' attempts: '' @ e), n, ws))"

section \<open>The channels\<close>

datatype post_outcome = PostError string | Posted int

definition posted :: "post_outcome \<Rightarrow> string option" where
  "posted r = (case r of PostError e \<Rightarrow> Some (''failed to send request: '' @ e)
     | Posted code \<Rightarrow> (if code \<noteq> 200 then Some (''unexpected status code: '' @ itoa code) else None))"

record telegram =
  tg_botToken :: string
  tg_chatID :: string
  tg_rateLimiter :: bucket

definition NewTelegramNotifier :: "string \<Rightarrow> string \<Rightarrow> time \<Rightarrow> telegram" where
  "NewTelegramNotifier botToken chatID now =
     \<lparr>tg_botToken = botToken, tg_chatID = chatID, tg_rateLimiter = NewRateLimiter 30 2000000000 now\<rparr>"

definition telegramPayload :: "telegram \<Rightarrow> notification_alert \<Rightarrow> json" where
  "telegramPayload t a = JObj [(''chat_id'', JStr (tg_chatID t)), (''text'', JStr (FormatAlertMessage a)),
     (''parse_mode'', JStr ''HTML'')]"

text \<open>\<open>net k url payload\<close> is the answer to the k-th attempt.\<close>

definition telegram_sendMessage ::
  "(string \<Rightarrow> json \<Rightarrow> post_outcome) \<Rightarrow> telegram \<Rightarrow> notification_alert \<Rightarrow> string option" where
  "telegram_sendMessage net t a =
     posted (net (''https://api.telegram.org/bot'' @ tg_botToken t @ ''/sendMessage'') (telegramPayload t a))"

definition telegram_Send ::
  "nat \<Rightarrow> (nat \<Rightarrow> time) \<Rightarrow> (nat \<Rightarrow> string \<Rightarrow> json \<Rightarrow> post_outcome) \<Rightarrow> telegram \<Rightarrow> notification_alert \<Rightarrow>
   (telegram \<times> string option) option" where
  "telegram_Send fuel clock net t a = (case waitAllow fuel clock 0 (tg_rateLimiter t) of
     None \<Rightarrow> None
   | Some (b, k) \<Rightarrow> Some (t\<lparr>tg_rateLimiter := b\<rparr>,
       fst (notify_sendWithRetry (\<lambda>i. telegram_sendMessage (net i) t a) 3)))"

record slack =
  sl_webhookURL :: string
  sl_rateLimiter :: bucket

definition NewSlackNotifier :: "string \<Rightarrow> time \<Rightarrow> slack" where
  "NewSlackNotifier webhookURL now =
     \<lparr>sl_webhookURL = webhookURL, sl_rateLimiter = NewRateLimiter 1 1000000000 now\<rparr>"

definition getSeverityColor :: "string \<Rightarrow> string" where
  "getSeverityColor s = (if s = ''critical'' \<or> s = ''emergency'' then ''danger''
     else if s = ''warning'' then ''warning'' else if s = ''info'' then ''good'' else ''#808080'')"

definition slackField :: "string \<Rightarrow> string \<Rightarrow> json" where
  "slackField t v = JObj [(''title'', JStr t), (''value'', JStr v), (''short'', JBool True)]"

definition slackPayload :: "notification_alert \<Rightarrow> json" where
  "slackPayload a = JObj [(''attachments'', JArr [JObj
     [(''color'', JStr (getSeverityColor (na_Severity a))), (''title'', JStr (na_Summary a)),
      (''text'', JStr (na_Description a)), (''footer'', JStr ''InfraSense Alert''),
      (''footer_icon'', JStr ''https://platform.slack-edge.com/img/default_application_icon.png''),
      (''ts'', JNum (f_of_int (wl_instant (na_Timestamp a) div 1000000000))),
      (''fields'', JArr [slackField ''Severity'' (na_Severity a), slackField ''Status'' (na_Status a),
         slackField ''Device ID'' (na_DeviceID a), slackField ''Metric'' (na_MetricName a),
         slackField ''Current Value'' (na_CurrentValue a)])]])]"

definition slack_sendMessage ::
  "(string \<Rightarrow> json \<Rightarrow> post_outcome) \<Rightarrow> slack \<Rightarrow> notification_alert \<Rightarrow> string option" where
  "slack_sendMessage net s a = posted (net (sl_webhookURL s) (slackPayload a))"

definition slack_Send ::
  "nat \<Rightarrow> (nat \<Rightarrow> time) \<Rightarrow> (nat \<Rightarrow> string \<Rightarrow> json \<Rightarrow> post_outcome) \<Rightarrow> slack \<Rightarrow> notification_alert \<Rightarrow>
   (slack \<times> string option) option" where
  "slack_Send fuel clock net s a = (case waitAllow fuel clock 0 (sl_rateLimiter s) of
     None \<Rightarrow> None
   | Some (b, k) \<Rightarrow> Some (s\<lparr>sl_rateLimiter := b\<rparr>,
       fst (notify_sendWithRetry (\<lambda>i. slack_sendMessage (net i) s a) 3)))"


record email =
  em_smtpHost :: string
  em_smtpPort :: int
  em_username :: string
  em_password :: string
  em_from :: string
  em_to :: string
  em_useTLS :: bool

definition crlf :: string where "crlf = [creturn, newline]"

definition emailMessage :: "email \<Rightarrow> notification_alert \<Rightarrow> string" where
  "emailMessage e a = ''From: '' @ em_from e @ crlf @ ''To: '' @ em_to e @ crlf @
     ''Subject: '' @ (''['' @ na_Severity a @ ''] '' @ na_Summary a) @ crlf @
     ''Content-Type: text/plain; charset=UTF-8'' @ crlf @ crlf @ FormatAlertMessage a"

text \<open>The errors of the steps of one SMTP session over TLS, and of one call of \<open>smtp.SendMail\<close> (which also
  ends with a QUIT, so it too can fail after the server took the message).\<close>

record smtp =
  sm_dial :: "string option"
  sm_client :: "string option"
  sm_auth :: "string option"
  sm_mail :: "string option"
  sm_rcpt :: "string option"
  sm_data :: "string option"
  sm_write :: "string option"
  sm_close :: "string option"
  sm_quit :: "string option"
  sm_sendMail :: "string option \<times> bool"

text \<open>The error of the session, and whether the server was given the whole message (the writer closed).\<close>

definition sendWithTLS :: "smtp \<Rightarrow> string option \<times> bool" where
  "sendWithTLS s = (case sm_dial s of Some e \<Rightarrow> (Some (''failed to connect: '' @ e), False)
   | None \<Rightarrow> (case sm_client s of Some e \<Rightarrow> (Some (''failed to create SMTP client: '' @ e), False)
   | None \<Rightarrow> (case sm_auth s of Some e \<Rightarrow> (Some (''authentication failed: '' @ e), False)
   | None \<Rightarrow> (case sm_mail s of Some e \<Rightarrow> (Some (''failed to set sender: '' @ e), False)
   | None \<Rightarrow> (case sm_rcpt s of Some e \<Rightarrow> (Some (''failed to set recipient: '' @ e), False)
   | None \<Rightarrow> (case sm_data s of Some e \<Rightarrow> (Some (''failed to get data writer: '' @ e), False)
   | None \<Rightarrow> (case sm_write s of Some e \<Rightarrow> (Some (''failed to write message: '' @ e), False)
   | None \<Rightarrow> (case sm_close s of Some e \<Rightarrow> (Some (''failed to close writer: '' @ e), False)
   | None \<Rightarrow> (sm_quit s, True)))))))))"

text \<open>\<open>net addr message\<close> is what the server at that address does with that message.\<close>

definition sendEmail :: "(string \<Rightarrow> string \<Rightarrow> smtp) \<Rightarrow> email \<Rightarrow> notification_alert \<Rightarrow> string option \<times> bool" where
  "sendEmail net e a = (let addr = em_smtpHost e @ '':'' @ itoa (em_smtpPort e);
       s = net addr (emailMessage e a) in
     if em_useTLS e then sendWithTLS s else sm_sendMail s)"

definition email_Send :: "(nat \<Rightarrow> string \<Rightarrow> string \<Rightarrow> smtp) \<Rightarrow> email \<Rightarrow> notification_alert \<Rightarrow> string option" where
  "email_Send net e a = fst (notify_sendWithRetry (\<lambda>i. fst (sendEmail (net i) e a)) 3)"

section \<open>The webhook\<close>

datatype http_reply = HttpError int string | HttpOk "(string \<times> string) list"

text \<open>The answer, and the deliveries that the handler starts, each in a goroutine of its own: an alert
  and the number of a configured notifier. A payload that does not decode is \<open>Inl\<close>.\<close>

definition sendToNotifiers :: "nat \<Rightarrow> notification_alert \<Rightarrow> (notification_alert \<times> nat) list" where
  "sendToNotifiers n a = map (\<lambda>i. (a, i)) [0..<n]"

definition HandleWebhook ::
  "nat \<Rightarrow> string \<Rightarrow> alert list result \<Rightarrow> http_reply \<times> (notification_alert \<times> nat) list" where
  "HandleWebhook notifiers meth payload =
     (if meth \<noteq> ''POST'' then (HttpError 405 ''Method not allowed'', [])
      else case payload of
        Inl e \<Rightarrow> (HttpError 400 ''Invalid payload'', [])
      | Inr alerts \<Rightarrow> (HttpOk [(''status'', ''ok'')],
          concat (map (\<lambda>a. sendToNotifiers notifiers (parseAlert a)) alerts)))"

section \<open>Configuration\<close>

record notify_config =
  nc_port :: int
  nc_emailEnabled :: bool
  nc_smtpHost :: string
  nc_smtpPort :: int
  nc_emailUsername :: string
  nc_emailPassword :: string
  nc_from :: string
  nc_to :: string
  nc_useTLS :: bool
  nc_telegramEnabled :: bool
  nc_botToken :: string
  nc_chatID :: string
  nc_slackEnabled :: bool
  nc_webhookURL :: string
  nc_logLevel :: string
  nc_logFormat :: string

definition portBad :: "int \<Rightarrow> bool" where
  "portBad p = (p \<le> 0 \<or> p > 65535)"

definition complaint :: "bool \<Rightarrow> string \<Rightarrow> string list" where
  "complaint bad msg = (if bad then [msg] else [])"

definition notifyComplaints :: "notify_config \<Rightarrow> string list" where
  "notifyComplaints c =
     complaint (portBad (nc_port c)) ''server.port must be between 1 and 65535'' @
     (if nc_emailEnabled c then
        complaint (nc_smtpHost c = []) ''email.smtp_host is required when email is enabled'' @
        complaint (portBad (nc_smtpPort c)) ''email.smtp_port must be between 1 and 65535 when email is enabled'' @
        complaint (nc_from c = []) ''email.from is required when email is enabled'' @
        complaint (nc_to c = []) ''email.to is required when email is enabled''
      else []) @
     (if nc_telegramEnabled c then
        complaint (nc_botToken c = []) ''telegram.bot_token is required when telegram is enabled'' @
        complaint (nc_chatID c = []) ''telegram.chat_id is required when telegram is enabled''
      else []) @
     (if nc_slackEnabled c then
        complaint (nc_webhookURL c = []) ''slack.webhook_url is required when slack is enabled''
      else []) @
     complaint (nc_logLevel c \<noteq> [] \<and> nc_logLevel c \<notin> {''debug'', ''info'', ''warn'', ''error''})
       ''logging.level must be one of: debug, info, warn, error'' @
     complaint (nc_logFormat c \<noteq> [] \<and> nc_logFormat c \<notin> {''json'', ''text''})
       ''logging.format must be one of: json, text''"

definition notify_Validate :: "notify_config \<Rightarrow> string option" where
  "notify_Validate c = (let errors = notifyComplaints c in
     if errors \<noteq> [] then Some ([newline] @ ''  - '' @ joinWith ([newline] @ ''  - '') errors) else None)"

definition envOr :: "(string \<Rightarrow> string) \<Rightarrow> string \<Rightarrow> string \<Rightarrow> string" where
  "envOr env var old = (if env var \<noteq> [] then env var else old)"

text \<open>\<open>file\<close> is the error of reading or the text, \<open>parseYaml\<close> the YAML library, \<open>env\<close> the environment.\<close>

definition notify_LoadConfig ::
  "(string \<Rightarrow> notify_config result) \<Rightarrow> (string \<Rightarrow> string) \<Rightarrow> string result \<Rightarrow> notify_config result" where
  "notify_LoadConfig parseYaml env file = (case file of
     Inl e \<Rightarrow> Inl (''failed to read config file: '' @ e)
   | Inr data \<Rightarrow> (case parseYaml data of
       Inl e \<Rightarrow> Inl (''failed to parse config file: '' @ e)
     | Inr c \<Rightarrow>
         (let c1 = c\<lparr>nc_smtpHost := envOr env ''SMTP_HOST'' (nc_smtpHost c),
                nc_emailPassword := envOr env ''SMTP_PASSWORD'' (nc_emailPassword c),
                nc_botToken := envOr env ''TELEGRAM_BOT_TOKEN'' (nc_botToken c),
                nc_chatID := envOr env ''TELEGRAM_CHAT_ID'' (nc_chatID c),
                nc_webhookURL := envOr env ''SLACK_WEBHOOK_URL'' (nc_webhookURL c),
                nc_port := (if nc_port c = 0 then 8080 else nc_port c)\<rparr> in
          case notify_Validate c1 of
            Some e \<Rightarrow> Inl (''configuration validation failed: '' @ e)
          | None \<Rightarrow> Inr c1)))"

section \<open>The bucket over time\<close>

definition bucket_ok :: "bucket \<Rightarrow> bool" where
  "bucket_ok b = (0 \<le> bk_tokens b \<and> bk_tokens b \<le> bk_maxTokens b \<and> 0 < bk_refillRate b)"

lemma bucket_ok_Allow [inv_intros]: "bucket_ok b \<Longrightarrow> bucket_ok (fst (Allow now b))"
  unfolding bucket_ok_def Allow_def refill_def by (auto simp: Let_def)

lemma Allow_frame [simp]:
  "bk_maxTokens (fst (Allow now b)) = bk_maxTokens b" "bk_refillRate (fst (Allow now b)) = bk_refillRate b"
  unfolding Allow_def refill_def by (simp_all add: Let_def)

text \<open>The requests granted in a run of requests at given times.\<close>

fun granted :: "time list \<Rightarrow> bucket \<Rightarrow> nat" where
  "granted [] b = 0"
| "granted (t # ts) b = (case Allow t b of (b', ok) \<Rightarrow> (if ok then 1 else 0) + granted ts b')"

text \<open>Tokens are worth their number plus the time since the last refill: what a request can still draw.\<close>

definition credit :: "time \<Rightarrow> bucket \<Rightarrow> int" where
  "credit T b = bk_tokens b + (T - bk_lastRefill b) div bk_refillRate b"

lemma refill_credit:
  assumes "bucket_ok b" "t \<le> T"
  shows "credit T (refill t b) \<le> credit T b"
proof (cases "(t - bk_lastRefill b) div bk_refillRate b > 0")
  case True
  let ?r = "bk_refillRate b" and ?x = "t - bk_lastRefill b"
  have "(T - t) div ?r + ?x div ?r \<le> (T - t + ?x) div ?r"
    using assms(1) div_add1_eq [of "T - t" ?x ?r] by (simp add: bucket_ok_def pos_imp_zdiv_nonneg_iff)
  with True show ?thesis unfolding credit_def refill_def by (simp add: Let_def)
qed (simp add: refill_def Let_def)


lemma Allow_credit:
  assumes "bucket_ok b" "t \<le> T"
  shows "credit T (fst (Allow t b)) + (if snd (Allow t b) then 1 else 0) \<le> credit T b"
  using refill_credit [OF assms] unfolding Allow_def credit_def by (simp add: Let_def)

lemma Allow_lastRefill:
  "t \<le> T \<Longrightarrow> bk_lastRefill b \<le> T \<Longrightarrow> bk_lastRefill (fst (Allow t b)) \<le> T"
  unfolding Allow_def refill_def by (auto simp: Let_def)

lemma granted_credit:
  assumes "bucket_ok b" "bk_lastRefill b \<le> T" "\<forall>t \<in> set ts. t \<le> T"
  shows "int (granted ts b) \<le> credit T b"
  using assms
proof (induction ts arbitrary: b)
  case Nil
  then show ?case unfolding credit_def bucket_ok_def by (simp add: pos_imp_zdiv_nonneg_iff)
next
  case (Cons t ts)
  obtain b' ok where a: "Allow t b = (b', ok)" by (cases "Allow t b")
  have "int (granted ts b') \<le> credit T b'"
    using Cons.IH [of b'] Cons.prems bucket_ok_Allow [of b t] Allow_lastRefill [of t T b] a by simp
  then show ?case using Allow_credit [of b t T] Cons.prems a by (cases ok) simp_all
qed

text \<open>A token bucket of m tokens that refills one token every r lets at most m + T/r messages through in
  the first T after it was made, whatever the times of the requests. (For Telegram, 30 tokens and two
  seconds, this is 60 in the first minute and not the 30 per minute of the comment.)\<close>

theorem bucket_bound:
  assumes "0 \<le> m" "0 < r" "t0 \<le> T" "\<forall>t \<in> set ts. t \<le> T"
  shows "int (granted ts (NewRateLimiter m r t0)) \<le> m + (T - t0) div r"
  using granted_credit [of "NewRateLimiter m r t0" T ts] assms
  unfolding NewRateLimiter_def bucket_ok_def credit_def by simp

text \<open>The bound is reached: sixty messages in the first minute of a Telegram bucket.\<close>

lemma bucket_bound_witness:
  "int (granted (replicate 30 0 @ map (\<lambda>i. 2000000000 * int i) [1..<31]) (NewRateLimiter 30 2000000000 0))
     \<le> 30 + (60000000000 - 0) div 2000000000 \<and>
   int (granted (replicate 30 0 @ map (\<lambda>i. 2000000000 * int i) [1..<31]) (NewRateLimiter 30 2000000000 0)) = 60"
proof
  show "int (granted (replicate 30 0 @ map (\<lambda>i. 2000000000 * int i) [1..<31]) (NewRateLimiter 30 2000000000 0))
     \<le> 30 + (60000000000 - 0) div 2000000000"
    by (rule bucket_bound) auto
  show "int (granted (replicate 30 0 @ map (\<lambda>i. 2000000000 * int i) [1..<31]) (NewRateLimiter 30 2000000000 0)) = 60"
    by code_simp
qed

lemma Allow_denied:
  assumes "bucket_ok b" "1 \<le> bk_maxTokens b" "\<not> snd (Allow t b)"
  shows "fst (Allow t b) = b \<and> t - bk_lastRefill b < bk_refillRate b"
proof -
  have r: "0 < bk_refillRate b" using assms(1) by (simp add: bucket_ok_def)
  have n: "\<not> (t - bk_lastRefill b) div bk_refillRate b > 0"
    using assms unfolding Allow_def refill_def bucket_ok_def by (auto simp: Let_def split: if_splits)
  then have "\<not> bk_refillRate b \<le> t - bk_lastRefill b"
    using r by (simp add: pos_imp_zdiv_pos_iff)
  then show ?thesis using assms(3) n unfolding Allow_def refill_def
    by (auto simp: Let_def split: if_splits)
qed

lemma waitAllow_ready:
  assumes "bucket_ok b" "1 \<le> bk_maxTokens b" "\<And>i. clock i + 100000000 \<le> clock (Suc i)"
    and "bk_refillRate b \<le> clock k - bk_lastRefill b + 100000000 * int n"
  shows "\<exists>r. waitAllow (Suc n) clock k b = Some r"
  using assms(4)
proof (induction n arbitrary: k)
  case 0
  show ?case using Allow_denied [OF assms(1,2), of "clock k"] 0
    by (cases "Allow (clock k) b"; cases "snd (Allow (clock k) b)") auto
next
  case (Suc n)
  show ?case
  proof (cases "snd (Allow (clock k) b)")
    case True
    then show ?thesis by (cases "Allow (clock k) b") simp
  next
    case False
    then have "Allow (clock k) b = (b, False)"
      using Allow_denied [OF assms(1,2) False] by (simp add: prod_eq_iff)
    moreover have "\<exists>r. waitAllow (Suc n) clock (Suc k) b = Some r"
      using Suc.prems assms(3) [of k] by (intro Suc.IH) (simp add: algebra_simps)
    ultimately show ?thesis by simp
  qed
qed

text \<open>C38: A sender that waits for the bucket alone gets through: when its tries are at least 100 ms apart it
  is granted after at most one refill period, that is within n + 1 tries where n times 100 ms is the
  period. For Telegram 21 tries are enough, for Slack 11.\<close>

theorem wait_ends:
  assumes "bucket_ok b" "1 \<le> bk_maxTokens b" "\<And>i. clock i + 100000000 \<le> clock (Suc i)"
    and "bk_lastRefill b \<le> clock 0" "bk_refillRate b \<le> 100000000 * int n"
  shows "\<exists>r. waitAllow (Suc n) clock 0 b = Some r"
  using assms by (intro waitAllow_ready) simp_all

lemma wait_ends_witness:
  "\<exists>r. waitAllow (Suc 20) (\<lambda>i. 100000000 * int i) 0 ((NewRateLimiter 30 2000000000 0)\<lparr>bk_tokens := 0\<rparr>) = Some r"
  by (rule wait_ends) (simp_all add: bucket_ok_def NewRateLimiter_def)


section \<open>Three attempts\<close>

lemma three_attempts:
  "notify_sendWithRetry send 3 =
    (case (send 0, send 1, send 2) of
       (None, _) \<Rightarrow> (None, 1, [])
     | (_, None, _) \<Rightarrow> (None, 2, [1000000000])
     | (_, _, None) \<Rightarrow> (None, 3, [1000000000, 2000000000])
     | (_, _, Some e) \<Rightarrow> (Some (''failed after 3 attempts: '' @ e), 3, [1000000000, 2000000000]))"
proof -
  have three: "3 = Suc (Suc (Suc 0))" and i: "itoa 3 = ''3''" by (simp, code_simp)
  have "retryLoop send 0 3 x =
    (case (send 0, send 1, send 2) of
       (None, _) \<Rightarrow> (None, 1, [])
     | (_, None, _) \<Rightarrow> (None, 2, [1000000000])
     | (_, _, None) \<Rightarrow> (None, 3, [1000000000, 2000000000])
     | (_, _, Some e) \<Rightarrow> (Some e, 3, [1000000000, 2000000000]))" for x
    unfolding three retryLoop.simps Let_def by (simp add: numeral_2_eq_2 split: option.split)
  then show ?thesis unfolding notify_sendWithRetry_def by (simp add: i split: option.split)
qed

text \<open>A channel reports success exactly when one of its three attempts succeeds, and sends nothing after
  the first success; between the attempts it waits one and two seconds. A message is retried when the
  SMTP server took it and only the closing QUIT failed, so an alert can be mailed up to three times.\<close>

theorem delivery_attempts:
  "(fst (notify_sendWithRetry send 3) = None) = (\<exists>k \<in> {0, 1, 2}. send k = None) \<and>
   fst (snd (notify_sendWithRetry send 3)) =
     (if send 0 = None then 1 else if send 1 = None then 2 else 3) \<and>
   snd (snd (notify_sendWithRetry send 3)) =
     take (fst (snd (notify_sendWithRetry send 3)) - 1) [1000000000, 2000000000] \<and>
   fst (sendWithTLS \<lparr>sm_dial = None, sm_client = None, sm_auth = None, sm_mail = None, sm_rcpt = None,
     sm_data = None, sm_write = None, sm_close = None, sm_quit = Some q, sm_sendMail = (None, True)\<rparr>) = Some q \<and>
   snd (sendWithTLS \<lparr>sm_dial = None, sm_client = None, sm_auth = None, sm_mail = None, sm_rcpt = None,
     sm_data = None, sm_write = None, sm_close = None, sm_quit = Some q, sm_sendMail = (None, True)\<rparr>)"
  unfolding three_attempts sendWithTLS_def by (auto split: option.split)

section \<open>Headers of a mail\<close>

text \<open>The header lines of a message: up to the first empty line.\<close>

definition headersOf :: "string \<Rightarrow> string list" where
  "headersOf m = takeWhile (\<lambda>l. l \<noteq> []) (map dropCR (splitOn newline m))"

definition one_line :: "string \<Rightarrow> bool" where
  "one_line s = (newline \<notin> set s)"

lemma split_crlf: "newline \<notin> set l \<Longrightarrow> splitOn newline (l @ crlf @ m) = (l @ [creturn]) # splitOn newline m"
proof -
  assume "newline \<notin> set l"
  then have "newline \<notin> set (l @ [creturn])" by (simp add: newline_def creturn_def)
  from splitOn_append [OF this, of m] show ?thesis by (simp add: crlf_def)
qed

lemma headersOf_line:
  "newline \<notin> set l \<Longrightarrow> l \<noteq> [] \<Longrightarrow> headersOf (l @ crlf @ m) = l # headersOf m"
  unfolding headersOf_def by (simp add: split_crlf dropCR_def)

lemma headersOf_end: "headersOf (crlf @ m) = []"
  using split_crlf [of "[]" m] unfolding headersOf_def by (simp add: dropCR_def)

lemma headersOf_lines:
  "\<forall>l \<in> set ls. one_line l \<and> l \<noteq> [] \<Longrightarrow> headersOf (concat (map (\<lambda>l. l @ crlf) ls) @ crlf @ m) = ls"
proof (induction ls)
  case (Cons l ls)
  then show ?case using headersOf_line [of l "concat (map (\<lambda>l. l @ crlf) ls) @ crlf @ m"]
    by (simp add: one_line_def)
qed (simp add: headersOf_end)

text \<open>A mail has exactly its four headers as long as the addresses, the severity and the summary of the
  alert are single lines; but nothing checks the summary, and one with a line break adds headers of
  its own, such as another recipient.\<close>

theorem mail_headers:
  "(one_line (em_from e @ em_to e @ na_Severity a @ na_Summary a) \<longrightarrow>
     headersOf (emailMessage e a) = [''From: '' @ em_from e, ''To: '' @ em_to e,
       ''Subject: ['' @ na_Severity a @ ''] '' @ na_Summary a, ''Content-Type: text/plain; charset=UTF-8'']) \<and>
   (\<exists>s. \<forall>a'. one_line (em_from e @ em_to e @ na_Severity a') \<longrightarrow> na_Summary a' = s \<longrightarrow>
     ''Bcc: x@y'' \<in> set (headersOf (emailMessage e a')))"
proof
  show "one_line (em_from e @ em_to e @ na_Severity a @ na_Summary a) \<longrightarrow>
     headersOf (emailMessage e a) = [''From: '' @ em_from e, ''To: '' @ em_to e,
       ''Subject: ['' @ na_Severity a @ ''] '' @ na_Summary a, ''Content-Type: text/plain; charset=UTF-8'']"
    (is "_ \<longrightarrow> _ = ?hs")
  proof
    assume "one_line (em_from e @ em_to e @ na_Severity a @ na_Summary a)"
    then have "\<forall>l \<in> set ?hs. one_line l \<and> l \<noteq> []" by (auto simp: one_line_def newline_def)
    from headersOf_lines [OF this, of "FormatAlertMessage a"]
    show "headersOf (emailMessage e a) = ?hs" unfolding emailMessage_def by simp
  qed
  show "\<exists>s. \<forall>a'. one_line (em_from e @ em_to e @ na_Severity a') \<longrightarrow> na_Summary a' = s \<longrightarrow>
     ''Bcc: x@y'' \<in> set (headersOf (emailMessage e a'))"
  proof (intro exI allI impI)
    fix a' :: notification_alert assume ol: "one_line (em_from e @ em_to e @ na_Severity a')"
      and s: "na_Summary a' = ''hi'' @ crlf @ ''Bcc: x@y''"
    let ?hs = "[''From: '' @ em_from e, ''To: '' @ em_to e, ''Subject: ['' @ na_Severity a' @ ''] hi'',
      ''Bcc: x@y'', ''Content-Type: text/plain; charset=UTF-8'']"
    have "\<forall>l \<in> set ?hs. one_line l \<and> l \<noteq> []" using ol by (auto simp: one_line_def newline_def)
    from headersOf_lines [OF this, of "FormatAlertMessage a'"]
    have "headersOf (emailMessage e a') = ?hs" unfolding emailMessage_def s by simp
    then show "''Bcc: x@y'' \<in> set (headersOf (emailMessage e a'))" by simp
  qed
qed


definition exEmail :: email where
  "exEmail = \<lparr>em_smtpHost = ''mail'', em_smtpPort = 587, em_username = [], em_password = [], em_from = ''a@b'',
     em_to = ''c@d'', em_useTLS = True\<rparr>"

definition exAlert :: notification_alert where
  "exAlert = \<lparr>na_Severity = ''critical'', na_DeviceName = ''web'', na_DeviceID = ''d1'', na_MetricName = [],
     na_CurrentValue = [], na_Timestamp = \<lparr>wl_instant = 0, wl_offset = 0, wl_zone = ''UTC''\<rparr>,
     na_Summary = ''hot'', na_Description = [], na_Status = ''firing''\<rparr>"

lemma mail_headers_witness:
  "headersOf (emailMessage exEmail exAlert) = [''From: a@b'', ''To: c@d'', ''Subject: [critical] hot'',
     ''Content-Type: text/plain; charset=UTF-8'']"
proof -
  have "one_line (em_from exEmail @ em_to exEmail @ na_Severity exAlert @ na_Summary exAlert)"
    by (simp add: exEmail_def exAlert_def one_line_def newline_def)
  with mail_headers [of exEmail exAlert] show ?thesis by (simp add: exEmail_def exAlert_def)
qed

section \<open>Every alert to every channel\<close>

lemma count_pairs:
  "count (mset (concat (map (\<lambda>a. sendToNotifiers n (f a)) xs))) (b, i) =
     (if i < n then count (mset (map f xs)) b else 0)"
proof -
  have "count (mset (sendToNotifiers n a)) (b, i) = (if a = b \<and> i < n then 1 else 0)" for a
  proof -
    have "distinct (sendToNotifiers n a)" unfolding sendToNotifiers_def by (simp add: distinct_map inj_on_def)
    then show ?thesis unfolding sendToNotifiers_def by (auto simp: distinct_count_atmost_1)
  qed
  then show ?thesis by (induction xs) auto
qed

text \<open>A webhook that decodes is answered with success before anything is delivered: the answer does not
  depend on the channels, so Alertmanager never repeats a lost alert. Each alert of the payload is
  handed to each configured channel exactly once, and nothing else is.\<close>

theorem webhook_fans_out:
  "fst (HandleWebhook n ''POST'' (Inr alerts)) = HttpOk [(''status'', ''ok'')] \<and>
   count (mset (snd (HandleWebhook n ''POST'' (Inr alerts)))) (a, i) =
     (if i < n then count (mset (map parseAlert alerts)) a else 0)"
  unfolding HandleWebhook_def by (simp add: count_pairs)

section \<open>A configuration that loads\<close>

lemma complaint_none [simp]: "(complaint b m = []) = (\<not> b)"
  unfolding complaint_def by simp

text \<open>A configuration that loads is usable: its port is a port, and every enabled channel has what it
  needs to send; and a file that parses is refused only for a complaint about it.\<close>

theorem loaded_config_is_usable:
  assumes "notify_LoadConfig parseYaml env file = Inr c"
  shows "1 \<le> nc_port c \<and> nc_port c \<le> 65535 \<and>
    (nc_emailEnabled c \<longrightarrow> nc_smtpHost c \<noteq> [] \<and> 1 \<le> nc_smtpPort c \<and> nc_smtpPort c \<le> 65535 \<and>
      nc_from c \<noteq> [] \<and> nc_to c \<noteq> []) \<and>
    (nc_telegramEnabled c \<longrightarrow> nc_botToken c \<noteq> [] \<and> nc_chatID c \<noteq> []) \<and>
    (nc_slackEnabled c \<longrightarrow> nc_webhookURL c \<noteq> [])"
proof -
  have "notify_Validate c = None"
    using assms unfolding notify_LoadConfig_def by (auto simp: Let_def split: sum.splits option.splits)
  then have "notifyComplaints c = []" unfolding notify_Validate_def by (simp add: Let_def split: if_splits)
  then show ?thesis unfolding notifyComplaints_def by (auto simp: portBad_def split: if_splits)
qed

definition exNotifyConfig :: notify_config where
  "exNotifyConfig = \<lparr>nc_port = 0, nc_emailEnabled = False, nc_smtpHost = [], nc_smtpPort = 0,
     nc_emailUsername = [], nc_emailPassword = [], nc_from = [], nc_to = [], nc_useTLS = False, nc_telegramEnabled = True, nc_botToken = [],
     nc_chatID = ''42'', nc_slackEnabled = False, nc_webhookURL = [], nc_logLevel = ''info'', nc_logFormat = []\<rparr>"

definition exNotifyEnv :: "string \<Rightarrow> string" where
  "exNotifyEnv v = (if v = ''TELEGRAM_BOT_TOKEN'' then ''tok'' else [])"

lemma loaded_config_is_usable_witness:
  "\<exists>c. notify_LoadConfig (\<lambda>d. Inr exNotifyConfig) exNotifyEnv (Inr []) = Inr c \<and> nc_port c = 8080 \<and>
     nc_botToken c \<noteq> []"
proof -
  let ?c = "exNotifyConfig\<lparr>nc_port := 8080, nc_botToken := ''tok''\<rparr>"
  have "notify_LoadConfig (\<lambda>d. Inr exNotifyConfig) exNotifyEnv (Inr []) = Inr ?c" by code_simp
  moreover from loaded_config_is_usable [OF this] have "nc_botToken ?c \<noteq> []"
    by (simp add: exNotifyConfig_def)
  ultimately show ?thesis by (intro exI [of _ ?c]) simp
qed

end
