(* ===== verification/Services.thy ===== *)
theory Services
  imports Startup Ingest Notify
begin

text \<open>
  The start of the two services behind the API: the notification service
  (\<open>notification-service/cmd/main.go\<close>), which hands the webhook handler the list of its enabled channels, and
  the ingester (\<open>backend/cmd/ingester/main.go\<close>). The HTTP server, the NATS connection and the subscriptions are
  parameters; the shutdown is left out.
\<close>

section \<open>The notification service\<close>

datatype channel = EmailChannel email | TelegramChannel telegram | SlackChannel slack

definition channelName :: "channel \<Rightarrow> string" where
  "channelName ch = (case ch of EmailChannel e \<Rightarrow> ''Email'' | TelegramChannel t \<Rightarrow> ''Telegram'' | SlackChannel s \<Rightarrow> ''Slack'')"

definition NewEmailNotifier :: "string \<Rightarrow> int \<Rightarrow> string \<Rightarrow> string \<Rightarrow> string \<Rightarrow> string \<Rightarrow> bool \<Rightarrow> email" where
  "NewEmailNotifier smtpHost smtpPort username password sender recipient useTLS =
     \<lparr>em_smtpHost = smtpHost, em_smtpPort = smtpPort, em_username = username, em_password = password,
       em_from = sender, em_to = recipient, em_useTLS = useTLS\<rparr>"

definition enabledNotifiers :: "time \<Rightarrow> notify_config \<Rightarrow> channel list" where
  "enabledNotifiers now c =
     (if nc_emailEnabled c
      then [EmailChannel (NewEmailNotifier (nc_smtpHost c) (nc_smtpPort c) (nc_emailUsername c) (nc_emailPassword c)
        (nc_from c) (nc_to c) (nc_useTLS c))]
      else []) @
     (if nc_telegramEnabled c then [TelegramChannel (NewTelegramNotifier (nc_botToken c) (nc_chatID c) now)] else []) @
     (if nc_slackEnabled c then [SlackChannel (NewSlackNotifier (nc_webhookURL c) now)] else [])"

text \<open>The address and the channels of a service that listens, or the error it exits with.\<close>

definition startNotification ::
  "(string \<Rightarrow> notify_config result) \<Rightarrow> (string \<Rightarrow> string) \<Rightarrow> string result \<Rightarrow> time \<Rightarrow> (string \<times> channel list) result" where
  "startNotification parseYaml env file now = (case notify_LoadConfig parseYaml env file of
     Inl e \<Rightarrow> Inl e
   | Inr c \<Rightarrow> Inr ('':'' @ itoa (nc_port c), enabledNotifiers now c))"

definition healthBody :: "channel list \<Rightarrow> string" where
  "healthBody chs = ''{'' @ quoted ''status'' @ '':'' @ quoted ''healthy'' @ '','' @ quoted ''notifiers'' @ '':'' @
     itoa (int (length chs)) @ ''}''"

text \<open>What a running service does with a webhook: the answer, and the deliveries it starts.\<close>

definition serveWebhook :: "channel list \<Rightarrow> string \<Rightarrow> alert list result \<Rightarrow> http_reply \<times> (notification_alert \<times> channel) list" where
  "serveWebhook chs meth body =
     map_prod id (map (\<lambda>(a, i). (a, chs ! i))) (HandleWebhook (length chs) meth body)"

text \<open>A channel that has what it needs to send.\<close>

definition usable :: "channel \<Rightarrow> bool" where
  "usable ch = (case ch of
     EmailChannel e \<Rightarrow> em_smtpHost e \<noteq> [] \<and> 1 \<le> em_smtpPort e \<and> em_smtpPort e \<le> 65535 \<and> em_from e \<noteq> [] \<and> em_to e \<noteq> []
   | TelegramChannel t \<Rightarrow> tg_botToken t \<noteq> [] \<and> tg_chatID t \<noteq> []
   | SlackChannel s \<Rightarrow> sl_webhookURL s \<noteq> [])"

lemma sendToNotifiers_channels: "map (\<lambda>(b, i). (b, chs ! i)) (sendToNotifiers (length chs) a) = map (Pair a) chs"
  by (intro nth_equalityI) (simp_all add: sendToNotifiers_def)

lemma serveWebhook_post:
  "serveWebhook chs ''POST'' (Inr alerts) =
     (HttpOk [(''status'', ''ok'')], concat (map (\<lambda>a. map (Pair (parseAlert a)) chs) alerts))"
proof -
  have "map (\<lambda>(b, i). (b, chs ! i)) (concat (map (\<lambda>a. sendToNotifiers (length chs) (parseAlert a)) alerts)) =
      concat (map (\<lambda>a. map (Pair (parseAlert a)) chs) alerts)"
    by (induction alerts) (simp_all add: sendToNotifiers_channels)
  then show ?thesis by (simp add: serveWebhook_def HandleWebhook_def)
qed

text \<open>C29: A notification service that listens has exactly the channels that its configuration enables, one of
  each kind and each with what it needs to send, and hands each alert of a webhook to every one of them
  once, in the order of the alerts. When no channel is enabled it starts all the same, answers the
  webhook with success and tells nobody.\<close>

theorem alerts_reach_enabled_channels:
  assumes "startNotification parseYaml env file now = Inr (addr, chs)"
  shows "\<exists>c. notify_LoadConfig parseYaml env file = Inr c \<and> addr = '':'' @ itoa (nc_port c) \<and>
    map channelName chs = filter (\<lambda>n. if n = ''Email'' then nc_emailEnabled c else if n = ''Telegram'' then nc_telegramEnabled c
      else nc_slackEnabled c) [''Email'', ''Telegram'', ''Slack''] \<and> list_all usable chs \<and>
    serveWebhook chs ''POST'' (Inr alerts) =
      (HttpOk [(''status'', ''ok'')], concat (map (\<lambda>a. map (Pair (parseAlert a)) chs) alerts))"
proof -
  from assms obtain c where c: "notify_LoadConfig parseYaml env file = Inr c" "addr = '':'' @ itoa (nc_port c)" "chs = enabledNotifiers now c"
    unfolding startNotification_def by (auto split: sum.splits)
  have "list_all usable chs"
    using loaded_config_is_usable [OF c(1)]
    by (simp add: c(3) enabledNotifiers_def usable_def NewEmailNotifier_def NewTelegramNotifier_def NewSlackNotifier_def)
  then show ?thesis using c(1,2)
    by (intro exI [of _ c]) (simp add: serveWebhook_post, simp add: c(3) enabledNotifiers_def channelName_def)
qed

lemma alerts_reach_enabled_channels_witness:
  "\<exists>addr chs. startNotification (\<lambda>d. Inr exNotifyConfig) exNotifyEnv (Inr []) 5 = Inr (addr, chs) \<and>
     map channelName chs = [''Telegram''] \<and> list_all usable chs"
proof -
  define chs where "chs = [TelegramChannel (NewTelegramNotifier ''tok'' ''42'' 5)]"
  have "notify_LoadConfig (\<lambda>d. Inr exNotifyConfig) exNotifyEnv (Inr []) = Inr (exNotifyConfig\<lparr>nc_port := 8080, nc_botToken := ''tok''\<rparr>)"
    by code_simp
  then have s: "startNotification (\<lambda>d. Inr exNotifyConfig) exNotifyEnv (Inr []) 5 = Inr ('':'' @ itoa 8080, chs)"
    by (simp add: startNotification_def enabledNotifiers_def exNotifyConfig_def chs_def)
  moreover have "map channelName chs = [''Telegram'']" unfolding chs_def channelName_def by simp
  moreover have "list_all usable chs" using alerts_reach_enabled_channels [OF s, of "[]"] by (elim exE conjE)
  ultimately show ?thesis by (intro exI conjI)
qed

section \<open>The ingester\<close>

text \<open>How a start ends: with an error, with a panic (of \<open>make\<close> for a negative batch size, or of
  \<open>time.NewTicker\<close> in the writer's goroutine), consuming, or with a subscription that failed. In the last
  case the error is logged and the consumers are cancelled, but the process goes on waiting for a signal.\<close>

datatype ingester_start = IngesterFatal string | IngesterPanics string | Ingesting ingester_settings | Stalled string

record 's ingester_world =
  iw_unmarshal :: "string \<Rightarrow> backend_config result"
  iw_readFile :: "string \<Rightarrow> file_read"
  iw_env :: "string \<Rightarrow> string"
  iw_connect :: "string \<Rightarrow> string option"
  iw_ping :: "string \<Rightarrow> string option"
  iw_migrator :: "'s migrator"
  iw_nats :: "string \<Rightarrow> string option"
  iw_jetstream :: "string option"
  iw_infoErr :: "string \<Rightarrow> bool"
  iw_addErr :: "string \<Rightarrow> string option"
  iw_subMetrics :: "string option"
  iw_subEvents :: "string option"

definition subscribe :: "'s ingester_world \<Rightarrow> string option" where
  "subscribe w = (case iw_subMetrics w of Some e \<Rightarrow> Some (''subscribe metrics: '' @ e)
     | None \<Rightarrow> map_option (\<lambda>e. ''subscribe events: '' @ e) (iw_subEvents w))"

definition startIngester :: "'s ingester_world \<Rightarrow> 's \<times> stream_config list \<Rightarrow> ('s \<times> stream_config list) \<times> ingester_start" where
  "startIngester w st = (case st of (sch, strs) \<Rightarrow>
     (case backend_Load (iw_unmarshal w) (iw_readFile w) (iw_env w) ''config.yml'' of
        Inl e \<Rightarrow> ((sch, strs), IngesterFatal (''Failed to load configuration: '' @ e))
      | Inr c \<Rightarrow> (case NewDB (iw_connect w) (iw_ping w) (dbConfig (bc_Database c)) of
          Inl e \<Rightarrow> ((sch, strs), IngesterFatal (''Failed to connect to database: '' @ e))
        | Inr p \<Rightarrow> (case RunMigrations (iw_migrator w) sch of
            (sch1, Some e) \<Rightarrow> ((sch1, strs), IngesterFatal (''Database migration failed: '' @ e))
          | (sch1, None) \<Rightarrow> (case iw_nats w (EnvOrDefault (iw_env w) ''NATS_URL'' ''nats://nats:4222'') of
              Some e \<Rightarrow> ((sch1, strs), IngesterFatal (''Failed to connect to NATS: '' @ e))
            | None \<Rightarrow> (case iw_jetstream w of
                Some e \<Rightarrow> ((sch1, strs), IngesterFatal (''Failed to init JetStream: '' @ e))
              | None \<Rightarrow> (case EnsureStreams (iw_infoErr w) (iw_addErr w) strs of
                  (strs1, Some e) \<Rightarrow> ((sch1, strs1), IngesterFatal (''Failed to ensure streams: '' @ e))
                | (strs1, None) \<Rightarrow> (let s = ingesterSettings (iw_env w) in
                    ((sch1, strs1),
                     if ig_BatchSize s < 0 then IngesterPanics ''makeslice: cap out of range''
                     else case newTicker (ig_BatchTimeout s) of Some e \<Rightarrow> IngesterPanics e
                     | None \<Rightarrow> (case subscribe w of Some e \<Rightarrow> Stalled e | None \<Rightarrow> Ingesting s))))))))))"

lemma ensureFrom_keeps: "ensureFrom infoErr addErr ss strs = (strs1, e) \<Longrightarrow> \<exists>new. strs1 = strs @ new"
  by (induction ss arbitrary: strs) (force split: if_splits option.splits)+

lemma streams_present:
  "EnsureStreams infoErr addErr strs = (strs1, None) \<Longrightarrow> {''INFRA_METRICS'', ''INFRA_EVENTS''} \<subseteq> sg_Name ` set strs1"
  unfolding EnsureStreams_def by (drule ensureFrom_has) (auto simp: wantedStreams_def)

text \<open>An ingester that consumes has what it needs: every migration was applied, both streams exist (those that
  were there are kept), its batch size is not negative and its period is positive. The environment is
  not checked, though: a negative batch size or a period of zero panics. And a subscription that fails
  leaves a process that neither consumes nor ends, so nothing restarts it.\<close>

theorem ingester_start_outcome:
  "case startIngester w (sch, strs) of ((sch1, strs1), r) \<Rightarrow>
     (\<exists>new. strs1 = strs @ new) \<and>
     (case r of IngesterFatal e \<Rightarrow> True
      | Ingesting s \<Rightarrow> s = ingesterSettings (iw_env w) \<and> RunMigrations (iw_migrator w) sch = (sch1, None) \<and>
          {''INFRA_METRICS'', ''INFRA_EVENTS''} \<subseteq> sg_Name ` set strs1 \<and> 0 \<le> ig_BatchSize s \<and> 0 < ig_BatchTimeout s \<and>
          iw_subMetrics w = None \<and> iw_subEvents w = None
      | IngesterPanics e \<Rightarrow> ig_BatchSize (ingesterSettings (iw_env w)) < 0 \<or> ig_BatchTimeout (ingesterSettings (iw_env w)) \<le> 0
      | Stalled e \<Rightarrow> {''INFRA_METRICS'', ''INFRA_EVENTS''} \<subseteq> sg_Name ` set strs1 \<and> (iw_subMetrics w \<noteq> None \<or> iw_subEvents w \<noteq> None))"
proof -
  obtain sch1 e1 where m: "RunMigrations (iw_migrator w) sch = (sch1, e1)" by fastforce
  obtain strs1 e2 where s: "EnsureStreams (iw_infoErr w) (iw_addErr w) strs = (strs1, e2)" by fastforce
  have new: "\<exists>new. strs1 = strs @ new" using s unfolding EnsureStreams_def by (rule ensureFrom_keeps)
  show ?thesis
    using new streams_present [of "iw_infoErr w" "iw_addErr w" strs strs1] s
    by (simp add: startIngester_def m s Let_def newTicker_def subscribe_def split: sum.split option.split)
qed

end
