(* ===== verification/Dates.thy ===== *)
theory Dates
  imports Codec
begin

text \<open>
  Times on the wire. \<open>encoding/json\<close> writes a \<open>time.Time\<close> as RFC 3339 with nanoseconds and the zone of the
  value, and reads it back with the strict parser of the \<open>time\<close> package; the messages between the
  collectors and the ingester carry such texts. Reading undoes writing for every time of the years 0 to
  9999, which are those that can be written.
\<close>

section \<open>The calendar\<close>

definition leap :: "int \<Rightarrow> bool" where
  "leap y = (4 dvd y \<and> (\<not> 100 dvd y \<or> 400 dvd y))"

definition daysIn :: "int \<Rightarrow> int \<Rightarrow> int" where
  "daysIn y m = (if m = 2 then if leap y then 29 else 28 else if m \<in> {4, 6, 9, 11} then 30 else 31)"

definition daysOf :: "int \<Rightarrow> int \<Rightarrow> int \<Rightarrow> int" where
  "daysOf y m d = (let y1 = (if m \<le> 2 then y - 1 else y); mp = (if m \<le> 2 then m + 9 else m - 3);
       yoe = y1 mod 400; doy = (153 * mp + 2) div 5 + d - 1 in
     y1 div 400 * 146097 + (365 * yoe + yoe div 4 - yoe div 100 + doy) - 719468)"

text \<open>\<open>civil\<close> counts years from March in eras of 400; \<open>yearAt\<close> is its year of an era for a day of the era,
  \<open>yearStart\<close> the first day of that year.\<close>

definition yearSum :: "int \<Rightarrow> int" where
  "yearSum n = n - n div 1460 + n div 36524 - n div 146096"

definition yearAt :: "int \<Rightarrow> int" where
  "yearAt n = yearSum n div 365"

definition yearStart :: "int \<Rightarrow> int" where
  "yearStart y = 365 * y + y div 4 - y div 100 + y div 400"

lemma div_next: "0 < k \<Longrightarrow> (n + 1) div k = n div k + (if k dvd n + 1 then 1 else (0 :: int))"
proof -
  assume k: "0 < k"
  have n: "n = k * (n div k) + n mod k" and m: "0 \<le> n mod k" "n mod k < k" using k by simp_all
  show ?thesis
  proof (cases "n mod k = k - 1")
    case True
    with n have e: "n + 1 = k * (n div k + 1)" by (simp add: algebra_simps)
    then show ?thesis using k by (metis dvd_triv_left nonzero_mult_div_cancel_left order_less_irrefl)
  next
    case False
    have e: "n + 1 = k * (n div k) + (n mod k + 1)" using n by simp
    from False m have r: "0 \<le> n mod k + 1" "n mod k + 1 < k" by simp_all
    from int_div_pos_eq [OF e r] have "(n + 1) div k = n div k" .
    moreover from int_mod_pos_eq [OF e r] have "(n + 1) mod k = n mod k + 1" .
    then have "\<not> k dvd n + 1" using m by (simp add: dvd_eq_mod_eq_0)
    ultimately show ?thesis by simp
  qed
qed

lemma yearSum_step: "yearSum n \<le> yearSum (n + 1)"
proof -
  have "36524 dvd n + 1" if "146096 dvd n + 1" using that dvd_trans [of 36524 146096 "n + 1"] by simp
  then show ?thesis by (simp add: yearSum_def div_next)
qed

lemma yearSum_mono: "m \<le> n \<Longrightarrow> yearSum m \<le> yearSum n"
  by (induction n rule: int_ge_induct) (use yearSum_step order_trans in blast)+

lemma yearAt_mono: "m \<le> n \<Longrightarrow> yearAt m \<le> yearAt n"
  unfolding yearAt_def by (intro zdiv_mono1 yearSum_mono) simp_all

lemma yearAt_ends: "list_all (\<lambda>y. yearAt (yearStart y) = y \<and> yearAt (yearStart (y + 1) - 1) = y) [0..399]"
  by code_simp

lemma yearAt_ends_at:
  assumes "0 \<le> y" "y \<le> 399"
  shows "yearAt (yearStart y) = y" "yearAt (yearStart (y + 1) - 1) = y"
  using yearAt_ends assms by (auto simp: list_all_iff)

lemma yearAt_bounds:
  assumes "0 \<le> n" "n < 146097"
  shows "0 \<le> yearAt n" "yearAt n \<le> 399" "yearStart (yearAt n) \<le> n" "n < yearStart (yearAt n + 1)"
proof -
  have ends: "yearAt 0 = 0" "yearAt 146096 = 399" by code_simp+
  show y: "0 \<le> yearAt n" "yearAt n \<le> 399"
    using yearAt_mono [of 0 n] yearAt_mono [of n 146096] assms ends by simp_all
  show "yearStart (yearAt n) \<le> n"
  proof (rule ccontr)
    assume early: "\<not> ?thesis"
    then have "yearAt n \<le> yearAt (yearStart (yearAt n) - 1)" by (intro yearAt_mono) simp
    moreover have "yearAt n \<noteq> 0" using early assms by (auto simp: yearStart_def)
    ultimately show False using yearAt_ends_at(2) [of "yearAt n - 1"] y by simp
  qed
  show "n < yearStart (yearAt n + 1)"
  proof (rule ccontr)
    assume late: "\<not> ?thesis"
    then have "yearAt (yearStart (yearAt n + 1)) \<le> yearAt n" by (intro yearAt_mono) simp
    moreover have "yearAt n \<noteq> 399" using late assms by (auto simp: yearStart_def)
    ultimately show False using yearAt_ends_at(1) [of "yearAt n + 1"] y by simp
  qed
qed

lemma yearStart_next: "yearStart (y + 1) = yearStart y + 365 + (if leap (y + 1) then 1 else 0)"
proof -
  have d: "(100 :: int) dvd k \<Longrightarrow> 4 dvd k" "(400 :: int) dvd k \<Longrightarrow> 100 dvd k" for k
    using dvd_trans [of 4 100 k] dvd_trans [of 100 400 k] by simp_all
  show ?thesis
    by (cases "4 dvd y + 1"; cases "100 dvd y + 1"; cases "400 dvd y + 1")
      (use d [of "y + 1"] in \<open>simp_all add: yearStart_def div_next leap_def\<close>)
qed

lemma leap_era: "leap (y + 400 * e) = leap y"
proof -
  have "400 * e = 4 * (100 * e)" "400 * e = 100 * (4 * e)" by simp_all
  then have "4 dvd 400 * e" "100 dvd 400 * e" by (metis dvd_triv_left)+
  then show ?thesis by (simp add: leap_def dvd_add_left_iff)
qed

text \<open>The calendar reads back, and gives only days that exist.\<close>

definition dayOk :: "int \<Rightarrow> bool" where
  "dayOk doy = (let mp = (5 * doy + 2) div 153; d = doy - (153 * mp + 2) div 5 + 1 in
     0 \<le> mp \<and> mp \<le> 11 \<and> 1 \<le> d \<and>
     d \<le> (if mp = 11 then (if doy = 365 then 29 else 28) else if mp \<in> {1, 3, 6, 8} then 30 else 31))"

lemma dayOk_all: "list_all dayOk [0..365]"
  by code_simp

lemma month_day:
  fixes doy mp d :: int
  assumes "0 \<le> doy" "doy \<le> 365" "mp = (5 * doy + 2) div 153" "d = doy - (153 * mp + 2) div 5 + 1"
  shows "0 \<le> mp" "mp \<le> 11" "1 \<le> d" "doy = (153 * mp + 2) div 5 + d - 1"
    "d \<le> (if mp = 11 then (if doy = 365 then 29 else 28) else if mp \<in> {1, 3, 6, 8} then 30 else 31)"
proof -
  have "dayOk doy" using dayOk_all assms(1,2) by (auto simp: list_all_iff)
  then show "0 \<le> mp" "mp \<le> 11" "1 \<le> d"
    "d \<le> (if mp = 11 then (if doy = 365 then 29 else 28) else if mp \<in> {1, 3, 6, 8} then 30 else 31)"
    unfolding dayOk_def Let_def assms(3) [symmetric] assms(4) [symmetric] by simp_all
  show "doy = (153 * mp + 2) div 5 + d - 1" using assms(4) by simp
qed

text \<open>\<open>civil\<close> in terms of the year of the era and the day of the year.\<close>

lemma civil_parts:
  fixes days :: int
  defines "era \<equiv> (days + 719468) div 146097" and "doe \<equiv> (days + 719468) mod 146097"
  defines "yoe \<equiv> yearAt doe"
  defines "doy \<equiv> doe - yearStart yoe"
  defines "mp \<equiv> (5 * doy + 2) div 153"
  assumes "civil days = (y, m, d)"
  shows "d = doy - (153 * mp + 2) div 5 + 1" "m = (if mp < 10 then mp + 3 else mp - 9)"
    "y = yoe + era * 400 + (if m \<le> 2 then 1 else 0)"
proof -
  have doe: "0 \<le> doe" "doe < 146097" by (simp_all add: doe_def)
  have y: "(doe - doe div 1460 + doe div 36524 - doe div 146096) div 365 = yoe"
    by (simp add: yoe_def yearAt_def yearSum_def)
  have "0 \<le> yoe" "yoe \<le> 399" using yearAt_bounds [OF doe] by (simp_all add: yoe_def)
  then have s: "doe - (365 * yoe + yoe div 4 - yoe div 100) = doy"
    by (simp add: doy_def yearStart_def)
  have "civil days = (yoe + era * 400 + (if (if mp < 10 then mp + 3 else mp - 9) \<le> 2 then 1 else 0),
      (if mp < 10 then mp + 3 else mp - 9), doy - (153 * mp + 2) div 5 + 1)"
    unfolding civil_def Let_def era_def [symmetric] doe_def [symmetric] y s mp_def ..
  with assms(6) show "d = doy - (153 * mp + 2) div 5 + 1" "m = (if mp < 10 then mp + 3 else mp - 9)"
    "y = yoe + era * 400 + (if m \<le> 2 then 1 else 0)" by auto
qed

lemma civil_reads_back:
  assumes "civil days = (y, m, d)"
  shows "daysOf y m d = days" "1 \<le> m" "m \<le> 12" "1 \<le> d" "d \<le> daysIn y m"
proof -
  define era where "era = (days + 719468) div 146097"
  define doe where "doe = (days + 719468) mod 146097"
  define yoe where "yoe = yearAt doe"
  define doy where "doy = doe - yearStart yoe"
  define mp where "mp = (5 * doy + 2) div 153"
  have doe: "0 \<le> doe" "doe < 146097" by (simp_all add: doe_def)
  note yb = yearAt_bounds [OF doe, folded yoe_def]
  have doy: "0 \<le> doy" "doy < 365 + (if leap (yoe + 1) then 1 else 0)"
    using yb(3,4) by (simp_all add: doy_def yearStart_next)
  have sum: "yearStart yoe = 365 * yoe + yoe div 4 - yoe div 100" using yb(1,2) by (simp add: yearStart_def)
  note c = civil_parts [OF assms, folded doe_def era_def, folded yoe_def, folded doy_def, folded mp_def]
  have "doy \<le> 365" using doy(2) by (simp split: if_splits)
  note md = month_day [OF doy(1) this mp_def c(1)]
  show m: "1 \<le> m" "m \<le> 12" using md(1,2) by (auto simp: c(2))
  show "1 \<le> d" by (rule md(3))
  define y1 where "y1 = (if m \<le> 2 then y - 1 else y)"
  have y1: "y1 = yoe + 400 * era" by (simp add: y1_def c(3))
  have ym: "y1 mod 400 = yoe" "y1 div 400 = era" using yb(1,2) by (simp_all add: y1 div_pos_pos_trivial)
  have mp: "(if m \<le> 2 then m + 9 else m - 3) = mp" using md(1,2) by (simp add: c(2))
  have "days + 719468 = era * 146097 + doe" by (simp add: era_def doe_def)
  then show "daysOf y m d = days"
    using md(4) sum by (simp add: daysOf_def Let_def y1_def [symmetric] mp ym doy_def)
  show "d \<le> daysIn y m"
  proof (cases "m = 2")
    case True
    then have "mp = 11" using md(1,2) by (simp add: c(2) split: if_splits)
    moreover have "leap y = leap (yoe + 1)" using leap_era [of "yoe + 1" era] True by (simp add: c(3) algebra_simps)
    ultimately show ?thesis using md(5) doy(2) True by (auto simp: daysIn_def split: if_splits)
  next
    case False
    have "mp \<noteq> 11" "(mp \<in> {1, 3, 6, 8}) = (m \<in> {4, 6, 9, 11})" using False md(1,2) by (auto simp: c(2) split: if_splits)
    then show ?thesis using md(5) False by (simp add: daysIn_def split: if_splits)
  qed
qed

section \<open>Times as text, and back\<close>

definition zoneText :: "int \<Rightarrow> string" where
  "zoneText zone = (if zone = 0 then ''Z''
     else (if zone < 0 then ''-'' else ''+'') @ padTo 2 (\<bar>zone\<bar> div 60) @ '':'' @ padTo 2 (\<bar>zone\<bar> mod 60))"

definition fracText :: "int \<Rightarrow> string" where
  "fracText n = (let frac = trimRight (\<lambda>c. c = CHR ''0'') (padTo 9 n) in if frac = [] then [] else ''.'' @ frac)"

text \<open>\<open>MarshalJSON\<close> of a time in a zone so many minutes east of Greenwich.\<close>

definition encodeTime :: "int \<Rightarrow> time \<Rightarrow> string result" where
  "encodeTime zone t = (let wall = t + zone * 60000000000 in
     case civil (wall div 1000000000 div 86400) of (y, m, d) \<Rightarrow>
       if y < 0 \<or> 9999 < y then Inl ''Time.MarshalJSON: year outside of range [0,9999]''
       else if 1440 \<le> \<bar>zone\<bar> then Inl ''Time.MarshalJSON: timezone hour outside of range [0,23]''
       else Inr (dateTime wall @ fracText (wall mod 1000000000) @ zoneText zone))"

definition fixedNum :: "int \<Rightarrow> int \<Rightarrow> string \<Rightarrow> int option" where
  "fixedNum lo hi s = (let n = decimalVal s in if list_all is_digit s \<and> lo \<le> n \<and> n \<le> hi then Some n else None)"

definition readFrac :: "string \<Rightarrow> int \<times> string" where
  "readFrac s = (case s of
     c # d # r \<Rightarrow>
       if c = CHR ''.'' \<and> is_digit d
       then (let ds = take 9 (takeWhile is_digit (d # r)) in
         (decimalVal ds * 10 ^ (9 - length ds), dropWhile is_digit (d # r)))
       else (0, s)
   | _ \<Rightarrow> (0, s))"

definition readZone :: "string \<Rightarrow> int option" where
  "readZone s = (if s = ''Z'' then Some 0
     else if length s \<noteq> 6 then None
     else case (fixedNum 0 23 (take 2 (drop 1 s)), fixedNum 0 59 (drop 4 s)) of
       (Some h, Some m) \<Rightarrow> (if (s ! 0 = CHR ''-'' \<or> s ! 0 = CHR ''+'') \<and> s ! 3 = CHR '':''
          then Some (if s ! 0 = CHR ''-'' then - (h * 60 + m) else h * 60 + m) else None)
     | _ \<Rightarrow> None)"

text \<open>\<open>UnmarshalJSON\<close>: fields of fixed width, each in its range.\<close>

definition decodeTime :: "string \<Rightarrow> time option" where
  "decodeTime s =
     (if length s < 19 then None
      else case (fixedNum 0 9999 (take 4 s), fixedNum 1 12 (take 2 (drop 5 s))) of
        (Some y, Some m) \<Rightarrow>
          (case (fixedNum 1 (daysIn y m) (take 2 (drop 8 s)), fixedNum 0 23 (take 2 (drop 11 s)),
             fixedNum 0 59 (take 2 (drop 14 s)), fixedNum 0 59 (take 2 (drop 17 s))) of
             (Some d, Some h, Some mi, Some sec) \<Rightarrow>
               (if s ! 4 = CHR ''-'' \<and> s ! 7 = CHR ''-'' \<and> s ! 10 = CHR ''T'' \<and> s ! 13 = CHR '':'' \<and> s ! 16 = CHR '':''
                then case readFrac (drop 19 s) of (ns, r) \<Rightarrow>
                  map_option (\<lambda>zone. (daysOf y m d * 86400 + h * 3600 + mi * 60 + sec - zone * 60) * 1000000000 + ns)
                    (readZone r)
                else None)
           | _ \<Rightarrow> None)
      | _ \<Rightarrow> None)"

lemma natDigits_length: "0 \<le> n \<Longrightarrow> n < 10 ^ w \<Longrightarrow> 0 < w \<Longrightarrow> length (natDigits n) \<le> w"
proof (induction n arbitrary: w rule: natDigits.induct)
  case (1 n)
  show ?case
  proof (cases "n < 10")
    case True
    then show ?thesis using 1 by (subst natDigits.simps) simp
  next
    case False
    with 1(3,4) obtain v where v: "w = Suc v" "0 < v" by (cases w; cases "w - 1") auto
    have "n div 10 < 10 ^ v" using 1(3) v by simp
    with 1 False v show ?thesis by (subst natDigits.simps) simp
  qed
qed

lemma decimalVal_zeros: "decimalVal (replicate k CHR ''0'' @ s) = decimalVal s"
  by (induction k) (simp_all add: decimalVal_def digit_val_def code_of_def)

lemma padTo_field:
  assumes "0 \<le> n" "n < 10 ^ w" "0 < w"
  shows "length (padTo w n) = w" "list_all is_digit (padTo w n)" "decimalVal (padTo w n) = n"
proof -
  have n: "itoa n = natDigits n" using assms(1) by (simp add: itoa_def)
  show "length (padTo w n) = w" using natDigits_length [OF assms] by (simp add: padTo_def n Let_def)
  show "list_all is_digit (padTo w n)" using natDigits_digits [OF assms(1)]
    by (auto simp: padTo_def n Let_def list_all_iff is_digit_def code_of_def)
  show "decimalVal (padTo w n) = n" using decimalVal_natDigits [OF assms(1)]
    by (simp add: padTo_def n Let_def decimalVal_zeros)
qed

lemma fixedNum_padTo: "0 \<le> n \<Longrightarrow> n < 10 ^ w \<Longrightarrow> 0 < w \<Longrightarrow> lo \<le> n \<Longrightarrow> n \<le> hi \<Longrightarrow> fixedNum lo hi (padTo w n) = Some n"
  by (simp add: fixedNum_def padTo_field)

lemma decodeTime_fields:
  assumes "fixedNum 0 9999 Y = Some y" "fixedNum 1 12 M = Some m" "fixedNum 1 (daysIn y m) D = Some d"
    "fixedNum 0 23 H = Some h" "fixedNum 0 59 I = Some i" "fixedNum 0 59 S = Some s"
    "length Y = 4" "length M = 2" "length D = 2" "length H = 2" "length I = 2" "length S = 2"
    "readFrac R = (ns, R')"
  shows "decodeTime (Y @ ''-'' @ M @ ''-'' @ D @ ''T'' @ H @ '':'' @ I @ '':'' @ S @ R) =
    map_option (\<lambda>zone. (daysOf y m d * 86400 + h * 3600 + i * 60 + s - zone * 60) * 1000000000 + ns) (readZone R')"
  using assms unfolding decodeTime_def by (simp add: nth_append take_Cons' drop_Cons' nth_Cons')

lemma trimmed_zeros: "s = trimRight (\<lambda>c. c = CHR ''0'') s @ replicate (length s - length (trimRight (\<lambda>c. c = CHR ''0'') s)) CHR ''0''"
proof -
  let ?z = "takeWhile (\<lambda>c. c = CHR ''0'') (rev s)"
  have "rev ?z = replicate (length ?z) CHR ''0''"
    by (intro replicate_eqI) (auto dest: set_takeWhileD)
  moreover have s: "s = rev (dropWhile (\<lambda>c. c = CHR ''0'') (rev s)) @ rev ?z"
    by (metis rev_append rev_rev_ident takeWhile_dropWhile_id)
  moreover have "length s = length (dropWhile (\<lambda>c. c = CHR ''0'') (rev s)) + length ?z"
    by (metis add.commute length_append length_rev takeWhile_dropWhile_id)
  ultimately show ?thesis by (simp add: trimRight_def)
qed

lemma decimalVal_scaled: "decimalVal (s @ replicate k CHR ''0'') = decimalVal s * 10 ^ k"
proof (induction k)
  case (Suc k)
  have "s @ replicate (Suc k) CHR ''0'' = (s @ replicate k CHR ''0'') @ [CHR ''0'']"
    by (simp add: replicate_append_same)
  then show ?case using Suc by (simp only: decimalVal_snoc) (simp add: digit_val_def code_of_def)
qed simp

lemma readFrac_fracText:
  assumes "0 \<le> n" "n < 1000000000" "z \<noteq> []" "\<not> is_digit (hd z)" "hd z \<noteq> CHR ''.''"
  shows "readFrac (fracText n @ z) = (n, z)"
proof -
  have pad: "length (padTo 9 n) = 9" "list_all is_digit (padTo 9 n)" "decimalVal (padTo 9 n) = n"
    using padTo_field [of n 9] assms(1,2) by simp_all
  define f where "f = trimRight (\<lambda>c. c = CHR ''0'') (padTo 9 n)"
  have ft: "fracText n = (if f = [] then [] else CHR ''.'' # f)" by (simp add: fracText_def f_def Let_def)
  note split = trimmed_zeros [of "padTo 9 n", folded f_def, unfolded pad(1)]
  have len: "length f \<le> 9" using arg_cong [OF split, of length] pad(1) by simp
  have "list_all is_digit (f @ replicate (9 - length f) CHR ''0'')" using pad(2) split by simp
  then have f: "list_all is_digit f" by simp
  have val: "decimalVal f * 10 ^ (9 - length f) = n" using pad(3) split by (metis decimalVal_scaled)
  obtain c r where z: "z = c # r" using assms(3) by (cases z) auto
  show ?thesis
  proof (cases f)
    case Nil
    then have "n = 0" using val by (simp add: decimalVal_def)
    moreover have "fracText n = []" using Nil ft by simp
    ultimately show ?thesis using z assms(4,5) by (simp add: readFrac_def split: list.split)
  next
    case (Cons d ds)
    have "takeWhile is_digit (f @ z) = f" "dropWhile is_digit (f @ z) = z"
      using f z assms(4) by (simp_all add: list_all_iff takeWhile_append dropWhile_append)
    then show ?thesis using Cons f len val
      by (simp add: ft readFrac_def Let_def)
  qed
qed

lemma zoneText_start: "zoneText zone \<noteq> []" "\<not> is_digit (hd (zoneText zone))" "hd (zoneText zone) \<noteq> CHR ''.''"
  by (simp_all add: zoneText_def is_digit_def code_of_def)

lemma readZone_zoneText:
  assumes "\<bar>zone\<bar> < 1440"
  shows "readZone (zoneText zone) = Some zone"
proof (cases "zone = 0")
  case False
  have h: "0 \<le> \<bar>zone\<bar> div 60" "\<bar>zone\<bar> div 60 \<le> 23" "0 \<le> \<bar>zone\<bar> mod 60" "\<bar>zone\<bar> mod 60 \<le> 59"
    using assms zdiv_mono1 [of "\<bar>zone\<bar>" 1439 60] by (auto simp: pos_imp_zdiv_nonneg_iff)
  show ?thesis using False h div_mult_mod_eq [of "\<bar>zone\<bar>" 60]
    by (simp add: zoneText_def readZone_def fixedNum_padTo padTo_field nth_append take_Cons' drop_Cons' nth_Cons')
qed (simp add: zoneText_def readZone_def)

text \<open>What is written reads back as the same instant, whatever the zone it was written in.\<close>

theorem time_reads_back:
  assumes "encodeTime zone t = Inr s"
  shows "decodeTime s = Some t"
proof -
  define wall where "wall = t + zone * 60000000000"
  define secs where "secs = wall div 1000000000"
  define sod where "sod = secs mod 86400"
  obtain y m d where c: "civil (secs div 86400) = (y, m, d)" by (cases "civil (secs div 86400)")
  from assms c have y: "0 \<le> y" "y \<le> 9999" and zone: "\<bar>zone\<bar> < 1440"
    and s: "s = dateTime wall @ fracText (wall mod 1000000000) @ zoneText zone"
    by (auto simp: encodeTime_def wall_def secs_def Let_def split: if_splits)
  note cv = civil_reads_back [OF c]
  have dd: "daysIn y m \<le> 31" by (simp add: daysIn_def)
  have sod: "0 \<le> sod" "sod < 86400" by (simp_all add: sod_def)
  have hms: "0 \<le> sod div 3600" "sod div 3600 \<le> 23" "0 \<le> sod mod 3600 div 60" "sod mod 3600 div 60 \<le> 59"
    "0 \<le> sod mod 60" "sod mod 60 \<le> 59"
    using sod zdiv_mono1 [of sod 86399 3600] zdiv_mono1 [of "sod mod 3600" 3599 60]
    by (simp_all add: pos_imp_zdiv_nonneg_iff)
  have whole: "sod div 3600 * 3600 + sod mod 3600 div 60 * 60 + sod mod 60 = sod"
    using div_mult_mod_eq [of sod 3600] div_mult_mod_eq [of "sod mod 3600" 60] mod_mod_cancel [of 60 3600 sod, simplified]
    by linarith
  have frac: "readFrac (fracText (wall mod 1000000000) @ zoneText zone) = (wall mod 1000000000, zoneText zone)"
    by (intro readFrac_fracText zoneText_start) simp_all
  have dt: "dateTime wall = padTo 4 y @ ''-'' @ padTo 2 m @ ''-'' @ padTo 2 d @ ''T'' @ padTo 2 (sod div 3600) @ '':'' @
      padTo 2 (sod mod 3600 div 60) @ '':'' @ padTo 2 (sod mod 60)"
    by (simp add: dateTime_def Let_def secs_def [symmetric] sod_def [symmetric] c)
  have two: "fixedNum lo hi (padTo 2 n) = Some n \<and> length (padTo 2 n) = 2"
    if "0 \<le> n" "n < 100" "lo \<le> n" "n \<le> hi" for lo hi n :: int
    using that fixedNum_padTo [of n 2 lo hi] padTo_field(1) [of n 2] by simp
  have four: "fixedNum 0 9999 (padTo 4 y) = Some y \<and> length (padTo 4 y) = 4"
    using y fixedNum_padTo [of y 4 0 9999] padTo_field(1) [of y 4] by simp
  have "fixedNum 1 12 (padTo 2 m) = Some m \<and> length (padTo 2 m) = 2"
    "fixedNum 1 (daysIn y m) (padTo 2 d) = Some d \<and> length (padTo 2 d) = 2"
    "fixedNum 0 23 (padTo 2 (sod div 3600)) = Some (sod div 3600) \<and> length (padTo 2 (sod div 3600)) = 2"
    "fixedNum 0 59 (padTo 2 (sod mod 3600 div 60)) = Some (sod mod 3600 div 60) \<and> length (padTo 2 (sod mod 3600 div 60)) = 2"
    "fixedNum 0 59 (padTo 2 (sod mod 60)) = Some (sod mod 60) \<and> length (padTo 2 (sod mod 60)) = 2"
    using cv(2-5) dd hms by (intro two; linarith)+
  note fields = four [THEN conjunct1] this [THEN conjunct1] four [THEN conjunct2] this [THEN conjunct2] frac
  have "decodeTime s = map_option (\<lambda>zone. (daysOf y m d * 86400 + sod div 3600 * 3600 + sod mod 3600 div 60 * 60 +
      sod mod 60 - zone * 60) * 1000000000 + wall mod 1000000000) (readZone (zoneText zone))"
    unfolding s dt append_assoc
    by (rule decodeTime_fields [OF fields])
  also have "\<dots> = Some ((secs div 86400 * 86400 + sod - zone * 60) * 1000000000 + wall mod 1000000000)"
    using whole by (simp add: readZone_zoneText [OF zone] cv(1) add.assoc)
  also have "secs div 86400 * 86400 + sod = secs" by (simp add: sod_def)
  also have "(secs - zone * 60) * 1000000000 + wall mod 1000000000 = t"
    using div_mult_mod_eq [of wall 1000000000] by (simp add: secs_def wall_def algebra_simps)
  finally show ?thesis .
qed

end
