(* ===== verification/Wire.thy ===== *)
theory Wire
  imports Queue Ingest Dates
begin

text \<open>
  The messages as bytes: what \<open>json.Marshal\<close> makes of the structs of
  \<open>collectors/ipmi-collector/internal/queue/contracts.go\<close> and what \<open>json.Unmarshal\<close> makes of it in those of
  \<open>backend/internal/ingest/contracts.go\<close>, which are other types with the same tags. JSON is given as the value of
  its text; a map keeps the order of the model's list, where the encoder sorts the keys. \<open>zone\<close> gives the local
  offset from UTC in minutes that a time of the collector carries.
\<close>

section \<open>Text\<close>

text \<open>The length of the UTF-8 sequence at the start, 0 when there is none.\<close>

fun runeLen :: "string \<Rightarrow> nat" where
  "runeLen [] = 0"
| "runeLen (c # r) =
     (let b = code_of c;
          follows = (\<lambda>i lo hi. i < length r \<and> lo \<le> code_of (r ! i) \<and> code_of (r ! i) \<le> (hi :: int));
          lo = (if b = 224 then 160 else if b = 240 then 144 else 128);
          hi = (if b = 237 then 159 else if b = 244 then 143 else 191) in
      if b < 128 then 1
      else if 194 \<le> b \<and> b \<le> 223 then if follows 0 128 191 then 2 else 0
      else if 224 \<le> b \<and> b \<le> 239 then if follows 0 lo hi \<and> follows 1 128 191 then 3 else 0
      else if 240 \<le> b \<and> b \<le> 244 then if follows 0 lo hi \<and> follows 1 128 191 \<and> follows 2 128 191 then 4 else 0
      else 0)"

text \<open>A string as it comes out of the decoder: the encoder writes U+FFFD for a byte that begins no character.\<close>

fun cleanText :: "string \<Rightarrow> string" where
  "cleanText [] = []"
| "cleanText (c # r) =
     (let n = runeLen (c # r) in
      if n = 0 then map char_of [239, 191, 189 :: int] @ cleanText r
      else c # take (n - 1) r @ cleanText (drop (n - 1) r))"

text \<open>A value of type \<open>any\<close>.\<close>

fun finiteJson :: "json \<Rightarrow> bool" where
  "finiteJson (JNum x) = encodable x"
| "finiteJson (JArr js) = list_all finiteJson js"
| "finiteJson (JObj ms) = list_all (\<lambda>m. finiteJson (snd m)) ms"
| "finiteJson _ = True"

fun cleanJson :: "json \<Rightarrow> json" where
  "cleanJson (JStr s) = JStr (cleanText s)"
| "cleanJson (JArr js) = JArr (map cleanJson js)"
| "cleanJson (JObj ms) = JObj (map (\<lambda>m. (cleanText (fst m), cleanJson (snd m))) ms)"
| "cleanJson j = j"

definition cleanMembers :: "(string \<times> json) list \<Rightarrow> (string \<times> json) list" where
  "cleanMembers ms = map (\<lambda>m. (cleanText (fst m), cleanJson (snd m))) ms"

definition encodeAny :: "(string \<times> json) list \<Rightarrow> json result" where
  "encodeAny ms = (if finiteJson (JObj ms) then Inr (JObj (cleanMembers ms)) else Inl ''json: unsupported value'')"

section \<open>Encoding and decoding by fields\<close>

definition encodeText :: "string \<Rightarrow> json result" where
  "encodeText s = Inr (JStr (cleanText s))"

definition encodeFloat :: "f64 \<Rightarrow> json result" where
  "encodeFloat x = (if encodable x then Inr (JNum x) else Inl ''json: unsupported value'')"

definition encodeStamp :: "(time \<Rightarrow> int) \<Rightarrow> time \<Rightarrow> json result" where
  "encodeStamp zone t = (case encodeTime (zone t) t of Inl e \<Rightarrow> Inl e | Inr s \<Rightarrow> Inr (JStr s))"

fun allOk :: "('a \<Rightarrow> 'b result) \<Rightarrow> 'a list \<Rightarrow> 'b list result" where
  "allOk f [] = Inr []"
| "allOk f (x # xs) = (case f x of Inl e \<Rightarrow> Inl e
     | Inr y \<Rightarrow> (case allOk f xs of Inl e \<Rightarrow> Inl e | Inr ys \<Rightarrow> Inr (y # ys)))"

definition taggedField :: "string \<times> json result \<Rightarrow> (string \<times> json) result" where
  "taggedField m = (case snd m of Inl e \<Rightarrow> Inl e | Inr j \<Rightarrow> Inr (fst m, j))"

definition encodeStruct :: "(string \<times> json result) list \<Rightarrow> json result" where
  "encodeStruct ms = (case allOk taggedField ms of Inl e \<Rightarrow> Inl e | Inr ps \<Rightarrow> Inr (JObj ps))"

definition encodeList :: "('a \<Rightarrow> json result) \<Rightarrow> 'a list \<Rightarrow> json result" where
  "encodeList enc xs = (case allOk enc xs of Inl e \<Rightarrow> Inl e | Inr js \<Rightarrow> Inr (JArr js))"

definition wrongType :: string where
  "wrongType = ''json: cannot unmarshal into Go value''"

definition decodeText :: "json \<Rightarrow> string result" where
  "decodeText j = (case j of JStr s \<Rightarrow> Inr s | _ \<Rightarrow> Inl wrongType)"

definition decodeFloat :: "json \<Rightarrow> f64 result" where
  "decodeFloat j = (case j of JNum x \<Rightarrow> Inr x | _ \<Rightarrow> Inl wrongType)"

definition decodeStamp :: "json \<Rightarrow> time result" where
  "decodeStamp j = (case j of
     JStr s \<Rightarrow> (case decodeTime s of None \<Rightarrow> Inl ''parsing time'' | Some t \<Rightarrow> Inr t)
   | _ \<Rightarrow> Inl ''Time.UnmarshalJSON: input is not a JSON string'')"

text \<open>A struct is filled member by member: a member sets the field with its name, else the one with its name in
  other case; a name that no field has is skipped. \<open>null\<close> leaves a plain field alone and empties a pointer.\<close>

type_synonym 'r setter = "string \<times> (json \<Rightarrow> 'r \<Rightarrow> 'r result)"

definition plain :: "(json \<Rightarrow> 'a result) \<Rightarrow> ('a \<Rightarrow> 'r \<Rightarrow> 'r) \<Rightarrow> json \<Rightarrow> 'r \<Rightarrow> 'r result" where
  "plain dec upd j r = (if j = JNull then Inr r else case dec j of Inl e \<Rightarrow> Inl e | Inr x \<Rightarrow> Inr (upd x r))"

definition pointer :: "(json \<Rightarrow> 'a result) \<Rightarrow> ('a option \<Rightarrow> 'r \<Rightarrow> 'r) \<Rightarrow> json \<Rightarrow> 'r \<Rightarrow> 'r result" where
  "pointer dec upd j r = (if j = JNull then Inr (upd None r)
     else case dec j of Inl e \<Rightarrow> Inl e | Inr x \<Rightarrow> Inr (upd (Some x) r))"

definition slice :: "(json \<Rightarrow> 'a result) \<Rightarrow> ('a list \<Rightarrow> 'r \<Rightarrow> 'r) \<Rightarrow> json \<Rightarrow> 'r \<Rightarrow> 'r result" where
  "slice dec upd j r = (case j of JNull \<Rightarrow> Inr (upd [] r)
     | JArr js \<Rightarrow> (case allOk dec js of Inl e \<Rightarrow> Inl e | Inr xs \<Rightarrow> Inr (upd xs r))
     | _ \<Rightarrow> Inl wrongType)"

definition setMember :: "'r setter list \<Rightarrow> string \<times> json \<Rightarrow> 'r \<Rightarrow> 'r result" where
  "setMember fs m r = (case find (\<lambda>f. fst f = fst m) fs of
     Some f \<Rightarrow> snd f (snd m) r
   | None \<Rightarrow> (case find (\<lambda>f. toLower (fst f) = toLower (fst m)) fs of
       Some f \<Rightarrow> snd f (snd m) r
     | None \<Rightarrow> Inr r))"

fun setMembers :: "'r setter list \<Rightarrow> (string \<times> json) list \<Rightarrow> 'r \<Rightarrow> 'r result" where
  "setMembers fs [] r = Inr r"
| "setMembers fs (m # ms) r = (case setMember fs m r of Inl e \<Rightarrow> Inl e | Inr r' \<Rightarrow> setMembers fs ms r')"

definition decodeStruct :: "'r setter list \<Rightarrow> 'r \<Rightarrow> json \<Rightarrow> 'r result" where
  "decodeStruct fs zero j = (case j of JObj ms \<Rightarrow> setMembers fs ms zero | JNull \<Rightarrow> Inr zero | _ \<Rightarrow> Inl wrongType)"

text \<open>A map keeps what it has and takes the new members; an element of type string that is \<open>null\<close> is empty.\<close>

definition putKey :: "string \<Rightarrow> string \<Rightarrow> labels \<Rightarrow> labels" where
  "putKey k v ls = (if k \<in> fst ` set ls then map (\<lambda>(k', v'). (k', if k' = k then v else v')) ls else ls @ [(k, v)])"

fun putLabels :: "(string \<times> json) list \<Rightarrow> labels \<Rightarrow> labels result" where
  "putLabels [] ls = Inr ls"
| "putLabels ((k, j) # ms) ls = (if j = JNull then putLabels ms (putKey k [] ls)
     else case decodeText j of Inl e \<Rightarrow> Inl e | Inr v \<Rightarrow> putLabels ms (putKey k v ls))"

section \<open>The structs\<close>

definition encodeLabels :: "labels \<Rightarrow> json result" where
  "encodeLabels ls = Inr (JObj (map (\<lambda>(k, v). (cleanText k, JStr (cleanText v))) ls))"

definition encodeSample :: "(time \<Rightarrow> int) \<Rightarrow> metric \<Rightarrow> json result" where
  "encodeSample zone m = encodeStruct [(''name'', encodeText (m_name m)), (''value'', encodeFloat (m_value m)),
     (''labels'', encodeLabels (m_labels m)), (''timestamp'', encodeStamp zone (m_time m))]"

definition encodeBatch :: "(time \<Rightarrow> int) \<Rightarrow> metrics_batch \<Rightarrow> json result" where
  "encodeBatch zone b = encodeStruct [(''schema_version'', encodeText (mb_schema b)),
     (''device_id'', encodeText (mb_device b)), (''source'', encodeText (mb_source b)),
     (''collected_at'', encodeStamp zone (mb_collected b)),
     (''samples'', encodeList (encodeSample zone) (mb_samples b))]"

definition encodeEvent :: "(time \<Rightarrow> int) \<Rightarrow> hardware_event \<Rightarrow> json result" where
  "encodeEvent zone ev = encodeStruct (
     [(''schema_version'', encodeText (he_schema ev)), (''device_id'', encodeText (he_device ev))] @
     (case he_occurred ev of None \<Rightarrow> [] | Some t \<Rightarrow> [(''occurred_at'', encodeStamp zone t)]) @
     [(''observed_at'', encodeStamp zone (he_observed ev)), (''source_protocol'', encodeText (he_source ev)),
      (''component'', encodeText (he_component ev)), (''event_type'', encodeText (he_type ev)),
      (''severity'', encodeText (he_severity ev)), (''message'', encodeText (he_message ev))] @
     (if he_class ev = [] then [] else [(''classification'', encodeAny (he_class ev))]) @
     (if he_raw ev = [] then [] else [(''raw'', encodeAny (he_raw ev))]) @
     [(''dedupe_key'', encodeText (he_dedupe ev))])"

definition decodeLabels :: "json \<Rightarrow> labels \<Rightarrow> labels result" where
  "decodeLabels j ls = (case j of JNull \<Rightarrow> Inr [] | JObj ms \<Rightarrow> putLabels ms ls | _ \<Rightarrow> Inl wrongType)"

definition sampleFields :: "metric setter list" where
  "sampleFields = [(''name'', plain decodeText (\<lambda>x. m_name_update (\<lambda>_. x))),
     (''value'', plain decodeFloat (\<lambda>x. m_value_update (\<lambda>_. x))),
     (''labels'', \<lambda>j r. case decodeLabels j (m_labels r) of Inl e \<Rightarrow> Inl e | Inr ls \<Rightarrow> Inr (r\<lparr>m_labels := ls\<rparr>)),
     (''timestamp'', plain decodeStamp (\<lambda>x. m_time_update (\<lambda>_. x)))]"

text \<open>The zero time of Go is the first of January of the year 1.\<close>

definition zeroTime :: time where
  "zeroTime = - 62135596800000000000"

definition zeroSample :: metric where
  "zeroSample = \<lparr>m_name = [], m_value = Fin 0, m_labels = [], m_time = zeroTime\<rparr>"

definition zeroBatch :: metrics_batch where
  "zeroBatch = \<lparr>mb_schema = [], mb_device = [], mb_source = [], mb_collected = zeroTime, mb_samples = []\<rparr>"

definition batchFields :: "metrics_batch setter list" where
  "batchFields = [(''schema_version'', plain decodeText (\<lambda>x. mb_schema_update (\<lambda>_. x))),
     (''device_id'', plain decodeText (\<lambda>x. mb_device_update (\<lambda>_. x))),
     (''source'', plain decodeText (\<lambda>x. mb_source_update (\<lambda>_. x))),
     (''collected_at'', plain decodeStamp (\<lambda>x. mb_collected_update (\<lambda>_. x))),
     (''samples'', slice (decodeStruct sampleFields zeroSample) (\<lambda>x. mb_samples_update (\<lambda>_. x)))]"

definition decodeBatch :: "json \<Rightarrow> metrics_batch result" where
  "decodeBatch j = decodeStruct batchFields zeroBatch j"

definition decodeMap :: "((string \<times> json) list \<Rightarrow> 'r \<Rightarrow> 'r) \<Rightarrow> ('r \<Rightarrow> (string \<times> json) list) \<Rightarrow> json \<Rightarrow> 'r \<Rightarrow> 'r result" where
  "decodeMap upd get j r = (case j of JNull \<Rightarrow> Inr (upd [] r) | JObj ms \<Rightarrow> Inr (upd (get r @ ms) r) | _ \<Rightarrow> Inl wrongType)"

definition zeroEvent :: ingest_event where
  "zeroEvent = \<lparr>ie_DeviceID = [], ie_OccurredAt = None, ie_ObservedAt = zeroTime, ie_SourceProtocol = [],
     ie_Vendor = None, ie_Model = None, ie_Firmware = None, ie_Component = [], ie_EventType = [],
     ie_Severity = [], ie_Message = [], ie_Classification = [], ie_Raw = [], ie_DedupeKey = []\<rparr>"

text \<open>The schema version is decoded and not looked at.\<close>

definition eventSetters :: "ingest_event setter list" where
  "eventSetters = [(''schema_version'', plain decodeText (\<lambda>x r. r)),
     (''device_id'', plain decodeText (\<lambda>x. ie_DeviceID_update (\<lambda>_. x))),
     (''occurred_at'', pointer decodeStamp (\<lambda>x. ie_OccurredAt_update (\<lambda>_. x))),
     (''observed_at'', plain decodeStamp (\<lambda>x. ie_ObservedAt_update (\<lambda>_. x))),
     (''source_protocol'', plain decodeText (\<lambda>x. ie_SourceProtocol_update (\<lambda>_. x))),
     (''vendor'', pointer decodeText (\<lambda>x. ie_Vendor_update (\<lambda>_. x))),
     (''model'', pointer decodeText (\<lambda>x. ie_Model_update (\<lambda>_. x))),
     (''firmware'', pointer decodeText (\<lambda>x. ie_Firmware_update (\<lambda>_. x))),
     (''component'', plain decodeText (\<lambda>x. ie_Component_update (\<lambda>_. x))),
     (''event_type'', plain decodeText (\<lambda>x. ie_EventType_update (\<lambda>_. x))),
     (''severity'', plain decodeText (\<lambda>x. ie_Severity_update (\<lambda>_. x))),
     (''message'', plain decodeText (\<lambda>x. ie_Message_update (\<lambda>_. x))),
     (''classification'', decodeMap (\<lambda>x. ie_Classification_update (\<lambda>_. x)) ie_Classification),
     (''raw'', decodeMap (\<lambda>x. ie_Raw_update (\<lambda>_. x)) ie_Raw),
     (''dedupe_key'', plain decodeText (\<lambda>x. ie_DedupeKey_update (\<lambda>_. x)))]"

definition decodeEvent :: "json \<Rightarrow> ingest_event result" where
  "decodeEvent j = decodeStruct eventSetters zeroEvent j"

section \<open>Whatever is encoded is decoded\<close>

text \<open>The contract of an encoder and its decoder: what comes back is the value in the form \<open>canon\<close>.\<close>

locale json_codec =
  fixes enc :: "'a \<Rightarrow> json result" and dec :: "json \<Rightarrow> 'a result" and canon :: "'a \<Rightarrow> 'a"
  assumes reads_back: "enc x = Inr j \<Longrightarrow> dec j = Inr (canon x)"
    and never_null: "enc x = Inr j \<Longrightarrow> j \<noteq> JNull"
begin

lemma list_reads_back: "allOk enc xs = Inr js \<Longrightarrow> allOk dec js = Inr (map canon xs)"
proof (induction xs arbitrary: js)
  case (Cons x xs)
  then obtain j js' where "enc x = Inr j" "allOk enc xs = Inr js'" "js = j # js'" by (auto split: sum.splits)
  with Cons.IH [of js'] reads_back [of x j] show ?case by simp
qed simp

lemma plain_reads_back: "enc x = Inr j \<Longrightarrow> plain dec upd j r = Inr (upd (canon x) r)"
  using reads_back never_null by (auto simp: plain_def)

lemma pointer_reads_back: "enc x = Inr j \<Longrightarrow> pointer dec upd j r = Inr (upd (Some (canon x)) r)"
  using reads_back never_null by (auto simp: pointer_def)

lemma slice_reads_back: "encodeList enc xs = Inr j \<Longrightarrow> slice dec upd j r = Inr (upd (map canon xs) r)"
  using list_reads_back by (auto simp: encodeList_def slice_def split: sum.splits)

end

interpretation jtext: json_codec encodeText decodeText cleanText
  by unfold_locales (auto simp: encodeText_def decodeText_def)

interpretation jfloat: json_codec encodeFloat decodeFloat "\<lambda>x. x"
  by unfold_locales (auto simp: encodeFloat_def decodeFloat_def split: if_splits)

interpretation jtime: json_codec "encodeStamp zone" decodeStamp "\<lambda>t. t"
  by unfold_locales (auto simp: encodeStamp_def decodeStamp_def time_reads_back split: sum.splits)

text \<open>Labels come back when their keys stay apart.\<close>

definition canonLabels :: "labels \<Rightarrow> labels" where
  "canonLabels ls = fold (\<lambda>(k, v). putKey (cleanText k) (cleanText v)) ls []"

lemma putLabels_clean:
  "putLabels (map (\<lambda>(k, v). (cleanText k, JStr (cleanText v))) ls) acc =
     Inr (fold (\<lambda>(k, v). putKey (cleanText k) (cleanText v)) ls acc)"
  by (induction ls arbitrary: acc) (auto simp: decodeText_def)

definition canonSample :: "metric \<Rightarrow> metric" where
  "canonSample m = m\<lparr>m_name := cleanText (m_name m), m_labels := canonLabels (m_labels m)\<rparr>"

lemma allOk_members:
  "allOk taggedField ((k, e) # ms) = Inr ps \<longleftrightarrow> (\<exists>j qs. e = Inr j \<and> allOk taggedField ms = Inr qs \<and> ps = (k, j) # qs)"
  by (auto simp: taggedField_def split: sum.splits)

lemma encodeStruct_members: "encodeStruct ms = Inr j \<longleftrightarrow> (\<exists>ps. allOk taggedField ms = Inr ps \<and> j = JObj ps)"
  by (auto simp: encodeStruct_def split: sum.splits)

named_theorems wire

declare jtext.plain_reads_back [wire] jfloat.plain_reads_back [wire] jtime.plain_reads_back [wire]
  jtime.pointer_reads_back [wire] setMember_def [wire] decodeStruct_def [wire]

interpretation jsample: json_codec "encodeSample zone" "decodeStruct sampleFields zeroSample" canonSample
proof
  fix x :: metric and j
  assume e: "encodeSample zone x = Inr j"
  then show "j \<noteq> JNull" by (auto simp: encodeSample_def encodeStruct_members)
  from e show "decodeStruct sampleFields zeroSample j = Inr (canonSample x)"
    unfolding encodeSample_def encodeStruct_members allOk_members
    by (auto simp: wire sampleFields_def encodeLabels_def decodeLabels_def putLabels_clean canonLabels_def
      canonSample_def zeroSample_def)
qed

definition canonBatch :: "metrics_batch \<Rightarrow> metrics_batch" where
  "canonBatch b = \<lparr>mb_schema = cleanText (mb_schema b), mb_device = cleanText (mb_device b),
     mb_source = cleanText (mb_source b), mb_collected = mb_collected b, mb_samples = map canonSample (mb_samples b)\<rparr>"

declare jsample.slice_reads_back [wire]

interpretation jbatch: json_codec "encodeBatch zone" decodeBatch canonBatch
proof
  fix x :: metrics_batch and j
  assume e: "encodeBatch zone x = Inr j"
  then show "j \<noteq> JNull" by (auto simp: encodeBatch_def encodeStruct_members)
  from e show "decodeBatch j = Inr (canonBatch x)"
    unfolding encodeBatch_def encodeStruct_members allOk_members
    by (auto simp: wire decodeBatch_def batchFields_def canonBatch_def zeroBatch_def)
qed

text \<open>The event of the ingester for an event of the collector, which has no vendor, model and firmware.\<close>

definition receivedEvent :: "hardware_event \<Rightarrow> ingest_event" where
  "receivedEvent ev = \<lparr>ie_DeviceID = cleanText (he_device ev), ie_OccurredAt = he_occurred ev,
     ie_ObservedAt = he_observed ev, ie_SourceProtocol = cleanText (he_source ev), ie_Vendor = None,
     ie_Model = None, ie_Firmware = None, ie_Component = cleanText (he_component ev),
     ie_EventType = cleanText (he_type ev), ie_Severity = cleanText (he_severity ev),
     ie_Message = cleanText (he_message ev), ie_Classification = cleanMembers (he_class ev),
     ie_Raw = cleanMembers (he_raw ev), ie_DedupeKey = cleanText (he_dedupe ev)\<rparr>"

lemma any_reads_back:
  "encodeAny ms = Inr j \<Longrightarrow> decodeMap upd get j r = Inr (upd (get r @ cleanMembers ms) r)"
  by (auto simp: encodeAny_def decodeMap_def split: if_splits)

lemma event_reads_back:
  assumes "encodeEvent zone ev = Inr j"
  shows "decodeEvent j = Inr (receivedEvent ev)"
  using assms unfolding encodeEvent_def encodeStruct_members
  by (cases "he_occurred ev"; cases "he_class ev = []"; cases "he_raw ev = []")
    (auto simp del: allOk.simps(2) simp: allOk_members wire any_reads_back decodeEvent_def eventSetters_def receivedEvent_def zeroEvent_def
      cleanMembers_def)

section \<open>Clean messages come back as they were sent\<close>

lemma cleanText_ascii: "list_all (\<lambda>c. code_of c < 128) s \<Longrightarrow> cleanText s = s"
  by (induction s) (simp_all add: Let_def)

declare cleanText.simps(2) [simp del] runeLen.simps(2) [simp del]

definition clean :: "string \<Rightarrow> bool" where
  "clean s = (cleanText s = s)"

definition cleanSample :: "metric \<Rightarrow> bool" where
  "cleanSample m = (clean (m_name m) \<and> list_all (\<lambda>(k, v). clean k \<and> clean v) (m_labels m) \<and>
     distinct (map fst (m_labels m)))"

definition cleanBatch :: "metrics_batch \<Rightarrow> bool" where
  "cleanBatch b = (clean (mb_schema b) \<and> clean (mb_device b) \<and> clean (mb_source b) \<and> list_all cleanSample (mb_samples b))"

lemma canonLabels_clean:
  assumes "list_all (\<lambda>(k, v). clean k \<and> clean v) ls" "distinct (map fst ls)"
  shows "canonLabels ls = ls"
  using assms
proof (induction ls rule: rev_induct)
  case (snoc l ls)
  then have "canonLabels ls = ls" by simp
  with snoc.prems show ?case by (cases l) (simp add: canonLabels_def putKey_def clean_def image_iff)
qed (simp add: canonLabels_def)

lemma canonBatch_clean: "cleanBatch b \<Longrightarrow> canonBatch b = b"
  by (cases b) (auto simp: cleanBatch_def canonBatch_def clean_def list_all_iff cleanSample_def canonSample_def
    canonLabels_clean intro!: map_idI)

text \<open>A batch is refused only for a number that is not finite or a year of more than four digits.\<close>

definition datable :: "(time \<Rightarrow> int) \<Rightarrow> time \<Rightarrow> bool" where
  "datable zone t = (\<not> isl (encodeTime (zone t) t))"

lemma encodeSample_ok: "isl (encodeSample zone m) = (\<not> (encodable (m_value m) \<and> datable zone (m_time m)))"
  by (simp add: encodeSample_def encodeStruct_def taggedField_def encodeText_def encodeFloat_def encodeLabels_def
    encodeStamp_def datable_def split: sum.split)

lemma allOk_ok: "isl (allOk f xs) = list_ex (\<lambda>x. isl (f x)) xs"
  by (induction xs) (auto split: sum.split)

lemma encodeBatch_ok:
  "isl (encodeBatch zone b) =
     (\<not> (datable zone (mb_collected b) \<and> list_all (\<lambda>m. encodable (m_value m) \<and> datable zone (m_time m)) (mb_samples b)))"
proof -
  have l: "isl (allOk (encodeSample zone) (mb_samples b)) =
      (\<not> list_all (\<lambda>m. encodable (m_value m) \<and> datable zone (m_time m)) (mb_samples b))"
    by (auto simp: allOk_ok encodeSample_ok list_all_iff list_ex_iff)
  then show ?thesis
    by (cases "allOk (encodeSample zone) (mb_samples b)"; cases "encodeTime (zone (mb_collected b)) (mb_collected b)")
      (simp_all add: encodeBatch_def encodeStruct_def taggedField_def encodeText_def encodeStamp_def datable_def
        encodeList_def)
qed

text \<open>C13: The ingester reads what the collector wrote, although each has its own types. Of every batch and every
  event that can be encoded the decoded value has the same fields (times to the nanosecond in whatever zone,
  values and labels included), with U+FFFD for bytes that are not UTF-8; a batch of clean texts comes back as it
  was sent. It can be encoded exactly when all its readings are finite and its times have years of four digits.\<close>

theorem messages_read_back:
  "(case encodeBatch zone b of
      Inr j \<Rightarrow> decodeBatch j = Inr (if cleanBatch b then b else canonBatch b)
    | Inl _ \<Rightarrow> \<not> (datable zone (mb_collected b) \<and>
        list_all (\<lambda>m. encodable (m_value m) \<and> datable zone (m_time m)) (mb_samples b))) \<and>
   (case encodeEvent zone ev of Inr j \<Rightarrow> decodeEvent j = Inr (receivedEvent ev)
    | Inl _ \<Rightarrow> \<not> (finiteJson (JObj (he_class ev)) \<and> finiteJson (JObj (he_raw ev)) \<and>
        list_all (datable zone) (he_observed ev # (case he_occurred ev of None \<Rightarrow> [] | Some t \<Rightarrow> [t]))))"
proof
  show "case encodeBatch zone b of
      Inr j \<Rightarrow> decodeBatch j = Inr (if cleanBatch b then b else canonBatch b)
    | Inl _ \<Rightarrow> \<not> (datable zone (mb_collected b) \<and>
        list_all (\<lambda>m. encodable (m_value m) \<and> datable zone (m_time m)) (mb_samples b))"
    using jbatch.reads_back [of zone b] encodeBatch_ok [of zone b] canonBatch_clean [of b]
    by (cases "encodeBatch zone b") auto
  show "case encodeEvent zone ev of Inr j \<Rightarrow> decodeEvent j = Inr (receivedEvent ev)
    | Inl _ \<Rightarrow> \<not> (finiteJson (JObj (he_class ev)) \<and> finiteJson (JObj (he_raw ev)) \<and>
        list_all (datable zone) (he_observed ev # (case he_occurred ev of None \<Rightarrow> [] | Some t \<Rightarrow> [t])))"
  proof (cases "encodeEvent zone ev")
    case (Inl e)
    then show ?thesis
      by (cases "he_occurred ev"; cases "he_class ev = []"; cases "he_raw ev = []")
        (auto simp: encodeEvent_def encodeStruct_def taggedField_def encodeText_def encodeStamp_def encodeAny_def
          datable_def split: sum.splits if_splits)
  qed (simp add: event_reads_back)
qed

lemma encoded_example:
  "encodeTime 330 1500000000 = Inr ''1970-01-01T05:30:01.5+05:30'' \<and>
   decodeTime ''1970-01-01T05:30:01.5+05:30'' = Some 1500000000 \<and> decodeTime ''2023-02-29T00:00:00Z'' = None"
  by code_simp

end
