(* ===== verification/Pipeline.thy ===== *)
theory Pipeline
  imports Wire Events IpmiPoll
begin

text \<open>
  From the event log of a server to the event list of the API: the IPMI collector (IpmiPoll) publishes the lines
  of \<open>ipmitool sel list\<close> to the stream (Queue), the ingester (Ingest) decodes the messages (Wire) and fills the
  table, the query of the API (Events) reads it. The way begins where a log has been read: a device loaded from the
  database as it is does not get there, because its address carries the length of the netmask (IpmiPoll).
\<close>

text \<open>What the consumer of events decodes from a message.\<close>

definition wireEvent :: "(time \<Rightarrow> int) \<Rightarrow> message \<Rightarrow> ingest_event result" where
  "wireEvent zone m =
     (case (case payload m of MetricsPayload b \<Rightarrow> encodeBatch zone b | EventPayload ev \<Rightarrow> encodeEvent zone ev) of
        Inl e \<Rightarrow> Inl e | Inr j \<Rightarrow> decodeEvent j)"

text \<open>A round of the consumer that fetches messages with a database that works.\<close>

definition deliveries :: "(time \<Rightarrow> int) \<Rightarrow> (message \<Rightarrow> string) \<Rightarrow> message list \<Rightarrow> delivery list" where
  "deliveries zone newId ms = map (\<lambda>m. (None, newId m, wireEvent zone m)) ms"

definition eventMessage :: "hardware_event \<Rightarrow> message" where
  "eventMessage ev = \<lparr>subject = ''infrasense.events.v1.default.'' @ he_device ev, msg_id = he_dedupe ev,
     payload = EventPayload ev\<rparr>"

text \<open>The list without repetitions, each element at its first place.\<close>

definition firsts :: "'a list \<Rightarrow> 'a list" where
  "firsts xs = rev (remdups (rev xs))"

lemma firsts_set [simp]: "set (firsts xs) = set xs" and firsts_distinct [simp]: "distinct (firsts xs)"
  by (simp_all add: firsts_def)

lemma stored_firsts:
  assumes "inj_on (\<lambda>x. msg_id (f x)) (set xs)" "\<And>x. x \<in> set xs \<Longrightarrow> msg_id (f x) \<notin> msg_id ` set strm"
  shows "fold (\<lambda>x s. stored s (f x)) xs strm = strm @ map f (firsts xs)"
  using assms
proof (induction xs rule: rev_induct)
  case (snoc x xs)
  have "fold (\<lambda>x s. stored s (f x)) xs strm = strm @ map f (firsts xs)"
    by (rule snoc.IH) (use snoc.prems in \<open>auto intro: inj_on_subset\<close>)
  moreover have "msg_id (f x) \<in> msg_id ` set (map f (firsts xs)) \<longleftrightarrow> x \<in> set xs"
    using snoc.prems(1) by (auto simp: inj_on_def)
  ultimately show ?case using snoc.prems(2) [of x] by (auto simp: stored_def firsts_def)
qed (simp add: firsts_def)

lemma publishEvents_stored:
  "list_all (\<lambda>ev. he_dedupe ev \<noteq> []) evs \<Longrightarrow>
     publishEvents sha (\<lambda>_. None) k evs strm = fold (\<lambda>ev s. stored s (eventMessage ev)) evs strm"
  by (induction evs arbitrary: k strm) (simp_all add: PublishEvent_def storeOk_def eventMessage_def)

lemma eventsLoop_fresh:
  assumes "\<And>m. m \<in> set ms \<Longrightarrow> wireEvent zone m = Inr (g m) \<and> uuid (ie_DeviceID (g m)) = Inr d"
    "distinct (map (\<lambda>m. eventKey (eventRow sha (newId m) d (g m))) ms)"
    "\<And>m. m \<in> set ms \<Longrightarrow> eventKey (eventRow sha (newId m) d (g m)) \<notin> eventKey ` set rows"
  shows "eventsLoop sha uuid (deliveries zone newId ms) rows =
    (rows @ map (\<lambda>m. eventRow sha (newId m) d (g m)) ms, map (\<lambda>_. True) ms)"
  using assms
proof (induction ms arbitrary: rows)
  case (Cons m ms)
  let ?r = "eventRow sha (newId m) d (g m)"
  have "handleEventMsg sha uuid None (newId m) (wireEvent zone m) rows = (rows @ [?r], None)"
    using Cons.prems(1,3) [of m] by (auto simp: handleEventMsg_def InsertIfNotExists_def)
  moreover have "eventsLoop sha uuid (deliveries zone newId ms) (rows @ [?r]) =
      ((rows @ [?r]) @ map (\<lambda>m. eventRow sha (newId m) d (g m)) ms, map (\<lambda>_. True) ms)"
    by (rule Cons.IH) (use Cons.prems in \<open>auto simp: image_iff\<close>)
  ultimately show ?case by (simp add: deliveries_def)
qed (simp add: deliveries_def)

text \<open>The event of a line.\<close>

definition selEvent :: "(string \<Rightarrow> string) \<Rightarrow> time \<Rightarrow> string \<Rightarrow> string \<Rightarrow> hardware_event" where
  "selEvent sha t d line = \<lparr>he_schema = ''v1'', he_device = d, he_occurred = None,
     he_observed = t, he_source = ''ipmi'', he_component = ''system'', he_type = ''sel'',
     he_severity = normSeverity (toLower line), he_message = line, he_class = [],
     he_raw = [(''line'', JStr line)], he_dedupe = sha line\<rparr>"

lemma normalizeSEL_shape: "ev \<in> set (normalizeSEL sha t d out) \<Longrightarrow> ev = selEvent sha t d (he_message ev)"
  unfolding normalizeSEL_def selEvent_def by auto

definition deviceFilter :: "string \<Rightarrow> event_filter" where
  "deviceFilter d = \<lparr>ef_DeviceID = Some d, ef_Severity = None, ef_Search = None, ef_DateFrom = None,
     ef_DateTo = None, ef_Page = 1, ef_PageSize = 50\<rparr>"

lemma clean_words:
  "cleanText ''v1'' = ''v1''" "cleanText ''ipmi'' = ''ipmi''" "cleanText ''system'' = ''system''" "cleanText ''sel'' = ''sel''"
  "cleanText ''line'' = ''line''" "cleanText (normSeverity s) = normSeverity s"
  by (code_simp | simp add: normSeverity_def cleanText_ascii code_of_def)+

definition selRow :: "(string \<Rightarrow> string) \<Rightarrow> string \<Rightarrow> time \<Rightarrow> string \<Rightarrow> string \<Rightarrow> event_row" where
  "selRow sha i t d line = \<lparr>ev_id = i, ev_device_id = d, ev_occurred_at = None, ev_observed_at = t,
     ev_source_protocol = ''ipmi'', ev_vendor = None, ev_model = None, ev_firmware = None,
     ev_component = ''system'', ev_event_type = ''sel'', ev_severity = normSeverity (toLower line),
     ev_message = line, ev_classification = [], ev_raw = [(''line'', JStr line)], ev_dedupe_key = sha line\<rparr>"

lemma sel_event_received:
  assumes "clean d" "clean line" "clean (sha line)" "sha line \<noteq> []" "datable zone t"
  shows "wireEvent zone (eventMessage (selEvent sha t d line)) = Inr (receivedEvent (selEvent sha t d line))"
    "ie_DeviceID (receivedEvent (selEvent sha t d line)) = d"
    "eventRow sha i d (receivedEvent (selEvent sha t d line)) = selRow sha i t d line"
proof -
  obtain s where s: "encodeTime (zone t) t = Inr s" using assms(5) by (cases "encodeTime (zone t) t") (auto simp: datable_def)
  then obtain j where j: "encodeEvent zone (selEvent sha t d line) = Inr j"
    by (simp add: selEvent_def encodeEvent_def encodeStruct_def taggedField_def encodeText_def encodeStamp_def encodeAny_def)
  then show "wireEvent zone (eventMessage (selEvent sha t d line)) = Inr (receivedEvent (selEvent sha t d line))"
    by (simp add: wireEvent_def eventMessage_def event_reads_back)
  show "ie_DeviceID (receivedEvent (selEvent sha t d line)) = d"
    "eventRow sha i d (receivedEvent (selEvent sha t d line)) = selRow sha i t d line"
    using assms(1-4) by (simp_all add: selEvent_def receivedEvent_def eventRow_def selRow_def clean_def clean_words cleanMembers_def)
qed



section \<open>A reading takes two ways\<close>

text \<open>What the consumer of metrics decodes from a message.\<close>

definition wireBatch :: "(time \<Rightarrow> int) \<Rightarrow> message \<Rightarrow> metrics_batch result" where
  "wireBatch zone m =
     (case (case payload m of MetricsPayload b \<Rightarrow> encodeBatch zone b | EventPayload ev \<Rightarrow> encodeEvent zone ev) of
        Inl e \<Rightarrow> Inl e | Inr j \<Rightarrow> decodeBatch j)"

text \<open>The collector writes a reading to the time series database and also publishes it; the ingester writes it
  again with a label more. The labels tell time series apart: every IPMI reading exists twice.\<close>

lemma reading_is_two_series:
  assumes "map_of (m_labels m) ''source_protocol'' = None"
  shows "map_of (sr_labels (mkSeries (m_name m) (m_value m) (m_labels m) (m_time m))) ''source_protocol'' = None"
    "map_of (sr_labels (sampleSeries (pollBatch env d ms) m)) ''source_protocol'' = Some ''ipmi''"
proof -
  show "map_of (sr_labels (mkSeries (m_name m) (m_value m) (m_labels m) (m_time m))) ''source_protocol'' = None"
    using assms by (simp add: mkSeries_def)
  show "map_of (sr_labels (sampleSeries (pollBatch env d ms) m)) ''source_protocol'' = Some ''ipmi''"
    using assms by (auto simp: sampleSeries_def mkSeries_def coreLabels_def addLabel_def pollBatch_def
      map_add_def split: option.splits)
qed

lemma sensor_readings_have_no_source:
  assumes "parseSensorList output d clk = Inr ms" "m \<in> set ms"
  shows "map_of (m_labels m) ''source_protocol'' = None"
  using parseSensorList_sound [OF assms] by auto

text \<open>A batch that JetStream takes and the ingester acknowledges is in the ingester's writer reading by reading,
  none of them under the labels with which the collector wrote it itself.\<close>

theorem published_readings_written_again:
  assumes "PublishMetrics sha answer (pollBatch env d ms) = (Some msg, None)"
    and "cleanBatch (pollBatch env d ms)" "datable zone (pe_collected env)" "list_all (\<lambda>m. datable zone (m_time m)) ms"
    and "list_all (\<lambda>m. map_of (m_labels m) ''source_protocol'' = None) ms"
    and "consumeMetrics net (Inr [wireBatch zone msg]) w = (w', [True])"
  shows "written w' = written w @ map (sampleSeries (pollBatch env d ms)) ms"
    "set (map (sampleSeries (pollBatch env d ms)) ms) \<inter>
       set (map (\<lambda>m. mkSeries (m_name m) (m_value m) (m_labels m) (m_time m)) ms) = {}"
proof -
  let ?b = "pollBatch env d ms"
  have fields: "mb_samples ?b = ms" "mb_collected ?b = pe_collected env" by (simp_all add: pollBatch_def)
  from assms(1) have enc: "list_all (\<lambda>m. encodable (m_value m)) ms" and msg: "payload msg = MetricsPayload ?b"
    by (auto simp: PublishMetrics_def fields Let_def split: if_splits option.splits)
  have "\<not> isl (encodeBatch zone ?b)"
    using enc assms(3,4) by (simp add: encodeBatch_ok fields list_all_iff)
  then obtain j where j: "encodeBatch zone ?b = Inr j" by (cases "encodeBatch zone ?b") auto
  have "wireBatch zone msg = Inr ?b"
    using jbatch.reads_back [OF j] canonBatch_clean [OF assms(2)] by (simp add: wireBatch_def msg j)
  with metricsLoop_written [of net 0 "[wireBatch zone msg]" w w' "[True]"] assms(6)
  show "written w' = written w @ map (sampleSeries ?b) ms"
    by (simp add: consumeMetrics_def messageSeries_def fields)
  show "set (map (sampleSeries ?b) ms) \<inter> set (map (\<lambda>m. mkSeries (m_name m) (m_value m) (m_labels m) (m_time m)) ms) = {}"
  proof (intro equals0I)
    fix x assume x: "x \<in> set (map (sampleSeries ?b) ms) \<inter> set (map (\<lambda>m. mkSeries (m_name m) (m_value m) (m_labels m) (m_time m)) ms)"
    from IntD1 [OF x] obtain m where m: "x = sampleSeries ?b m" "m \<in> set ms" unfolding set_map by blast
    from IntD2 [OF x] obtain m' where "x = mkSeries (m_name m') (m_value m') (m_labels m') (m_time m')" "m' \<in> set ms"
      unfolding set_map by blast
    with m assms(5) reading_is_two_series(1) [of m'] reading_is_two_series(2) [of m env d ms] show False
      by (auto simp: list_all_iff)
  qed
qed

end
