(* ===== verification/Copies.thy ===== *)
theory Copies
  imports Startup VmWriter Telemetry
begin

text \<open>
  The programs do not share code: the writer of VictoriaMetrics and the collectors' configuration and \<open>main\<close> exist
  several times. This theory translates the other copies from their own files (\<open>be_\<close>: the backend's writer, \<open>rf_\<close>:
  the Redfish collector's, \<open>snmp_\<close>: the SNMP collector's) and shows where they do the same as the copy of the IPMI
  collector, so that what is proved of that one holds for them, and where they differ.
\<close>

section \<open>The other writers\<close>

definition be_NewVictoriaMetricsWriter :: "int \<Rightarrow> vm_writer" where
  "be_NewVictoriaMetricsWriter n = \<lparr>batchSize = n, buffer = [], cancelled = False, accepted = [], slept = []\<rparr>"

definition be_send :: "vm_writer \<Rightarrow> send_outcome \<Rightarrow> string option" where
  "be_send w out = (if cancelled w then Some ''failed to send request: context canceled''
     else case out of
       NoResponse e \<Rightarrow> Some (''failed to send request: '' @ e)
     | Response code body \<Rightarrow>
         (if code < 200 \<or> 300 \<le> code
          then Some (''unexpected status code '' @ itoa code @ '': '' @ body) else None))"

text \<open>The loop of the backend counts its attempts upwards; its first test fails when no attempt is left.\<close>

function be_attempts ::
  "(nat \<Rightarrow> send_outcome) \<Rightarrow> vm_writer \<Rightarrow> series list \<Rightarrow> nat \<Rightarrow> nat \<Rightarrow> string \<Rightarrow> vm_writer \<times> string option" where
  "be_attempts net w batch tries attempt lastErr =
     (if attempt < tries
      then let w1 = (if attempt > 0 then w\<lparr>slept := slept w @ [2 ^ (attempt - 1) * 1000000000]\<rparr> else w) in
        (case be_send w1 (net attempt) of
           None \<Rightarrow> (w1\<lparr>accepted := accepted w1 @ [batch]\<rparr>, None)
         | Some e \<Rightarrow> be_attempts net w1 batch tries (attempt + 1) e)
      else (w, Some (''failed to push metrics after '' @ itoa (int tries) @ '' attempts: '' @ lastErr)))"
  by pat_completeness auto
termination by (relation "measure (\<lambda>(net, w, batch, tries, attempt, lastErr). tries - attempt)") auto

declare be_attempts.simps [simp del]

definition be_sendWithRetry ::
  "(nat \<Rightarrow> send_outcome) \<Rightarrow> vm_writer \<Rightarrow> series list \<Rightarrow> nat \<Rightarrow> vm_writer \<times> string option" where
  "be_sendWithRetry net w batch tries = be_attempts net w batch tries 0 ''%!w(<nil>)''"

definition be_flush :: "(nat \<Rightarrow> send_outcome) \<Rightarrow> vm_writer \<Rightarrow> vm_writer \<times> string option" where
  "be_flush net w = (if length (buffer w) = 0 then (w, None)
     else be_sendWithRetry net (w\<lparr>buffer := []\<rparr>) (buffer w) 3)"

definition be_WriteMetric ::
  "(nat \<Rightarrow> send_outcome) \<Rightarrow> vm_writer \<Rightarrow> string \<Rightarrow> f64 \<Rightarrow> labels \<Rightarrow> time \<Rightarrow> vm_writer \<times> string option" where
  "be_WriteMetric net w name v ls t =
     (let s = \<lparr>sr_labels = [(''__name__'', name)] @ ls, sr_value = v, sr_millis = t div 1000000\<rparr>;
          w1 = w\<lparr>buffer := buffer w @ [s]\<rparr> in
      if batchSize w1 \<le> int (length (buffer w1)) then be_flush net w1 else (w1, None))"

definition be_flushTick :: "(nat \<Rightarrow> send_outcome) \<Rightarrow> vm_writer \<Rightarrow> vm_writer" where
  "be_flushTick net w = (if cancelled w then w else fst (be_flush net w))"

definition be_Stop :: "(nat \<Rightarrow> send_outcome) \<Rightarrow> vm_writer \<Rightarrow> vm_writer" where
  "be_Stop net w = fst (be_flush net (w\<lparr>cancelled := True\<rparr>))"

definition rf_NewVictoriaMetricsWriter :: "int \<Rightarrow> vm_writer" where
  "rf_NewVictoriaMetricsWriter n = \<lparr>batchSize = n, buffer = [], cancelled = False, accepted = [], slept = []\<rparr>"

definition rf_send :: "vm_writer \<Rightarrow> send_outcome \<Rightarrow> string option" where
  "rf_send w out = (if cancelled w then Some ''failed to send request: context canceled''
     else case out of
       NoResponse e \<Rightarrow> Some (''failed to send request: '' @ e)
     | Response code body \<Rightarrow>
         (if code < 200 \<or> 300 \<le> code
          then Some (''unexpected status code '' @ itoa code @ '': '' @ body) else None))"

definition rf_sendWithRetry ::
  "(nat \<Rightarrow> send_outcome) \<Rightarrow> vm_writer \<Rightarrow> series list \<Rightarrow> nat \<Rightarrow> vm_writer \<times> string option" where
  "rf_sendWithRetry net w batch tries = sendLoop rf_send net w batch tries 0 tries ''%!w(<nil>)''"

definition rf_flush :: "(nat \<Rightarrow> send_outcome) \<Rightarrow> vm_writer \<Rightarrow> vm_writer \<times> string option" where
  "rf_flush net w = (if length (buffer w) = 0 then (w, None)
     else rf_sendWithRetry net (w\<lparr>buffer := []\<rparr>) (buffer w) 3)"

definition rf_WriteMetric ::
  "(nat \<Rightarrow> send_outcome) \<Rightarrow> vm_writer \<Rightarrow> string \<Rightarrow> f64 \<Rightarrow> labels \<Rightarrow> time \<Rightarrow> vm_writer \<times> string option" where
  "rf_WriteMetric net w name v ls t =
     (let s = \<lparr>sr_labels = [(''__name__'', name)] @ ls, sr_value = v, sr_millis = t div 1000000\<rparr>;
          w1 = w\<lparr>buffer := buffer w @ [s]\<rparr> in
      if batchSize w1 \<le> int (length (buffer w1)) then rf_flush net w1 else (w1, None))"

definition rf_flushTick :: "(nat \<Rightarrow> send_outcome) \<Rightarrow> vm_writer \<Rightarrow> vm_writer" where
  "rf_flushTick net w = (if cancelled w then w else fst (rf_flush net w))"

definition rf_Stop :: "(nat \<Rightarrow> send_outcome) \<Rightarrow> vm_writer \<Rightarrow> vm_writer" where
  "rf_Stop net w = fst (rf_flush net (w\<lparr>cancelled := True\<rparr>))"

definition snmp_NewVictoriaMetricsWriter :: "int \<Rightarrow> vm_writer" where
  "snmp_NewVictoriaMetricsWriter n = \<lparr>batchSize = n, buffer = [], cancelled = False, accepted = [], slept = []\<rparr>"

definition snmp_flushTick :: "(nat \<Rightarrow> send_outcome) \<Rightarrow> vm_writer \<Rightarrow> vm_writer" where
  "snmp_flushTick net w = (if cancelled w then w else fst (snmp_flush net w))"

lemma be_send_eq: "be_send = vm_send" and rf_send_eq: "rf_send = vm_send"
  by (intro ext; simp add: be_send_def rf_send_def vm_send_def split: send_outcome.split; linarith?)+

text \<open>Counting upwards to a bound is counting down what is left.\<close>

lemma be_attempts_eq:
  "attempt + left = tries \<Longrightarrow>
     be_attempts net w batch tries attempt e = sendLoop vm_send net w batch tries attempt left e"
proof (induction left arbitrary: attempt w e)
  case 0
  then show ?case by (subst be_attempts.simps) simp
next
  case (Suc left)
  show ?case using Suc
    by (subst be_attempts.simps, unfold nap_def [symmetric]) (simp add: Let_def be_send_eq split: option.split)
qed

text \<open>The three writers are one: what holds of the IPMI collector's holds of the others.\<close>

lemma writers_agree:
  "be_NewVictoriaMetricsWriter = NewVictoriaMetricsWriter" "rf_NewVictoriaMetricsWriter = NewVictoriaMetricsWriter"
  "be_flush = flush" "rf_flush = flush" "be_WriteMetric = WriteMetric" "rf_WriteMetric = WriteMetric"
  "be_flushTick = flushTick" "rf_flushTick = flushTick" "be_Stop = VmWriter.Stop" "rf_Stop = VmWriter.Stop"
proof -
  have s: "be_sendWithRetry = sendWithRetry" "rf_sendWithRetry = sendWithRetry"
    by (intro ext; simp add: be_sendWithRetry_def rf_sendWithRetry_def sendWithRetry_def be_attempts_eq rf_send_eq)+
  show f: "be_flush = flush" "rf_flush = flush"
    by (intro ext; simp add: be_flush_def rf_flush_def flush_def s)+
  show "be_NewVictoriaMetricsWriter = NewVictoriaMetricsWriter" "rf_NewVictoriaMetricsWriter = NewVictoriaMetricsWriter"
    "be_WriteMetric = WriteMetric" "rf_WriteMetric = WriteMetric"
    "be_flushTick = flushTick" "rf_flushTick = flushTick" "be_Stop = VmWriter.Stop" "rf_Stop = VmWriter.Stop"
    by (intro ext; simp add: be_NewVictoriaMetricsWriter_def rf_NewVictoriaMetricsWriter_def NewVictoriaMetricsWriter_def
      be_WriteMetric_def rf_WriteMetric_def WriteMetric_def mkSeries_def Let_def be_flushTick_def rf_flushTick_def
      flushTick_def be_Stop_def rf_Stop_def VmWriter.Stop_def f)+
qed

section \<open>The configuration of the SNMP and of the Redfish collector\<close>

text \<open>Each step is one \<open>if\<close> of \<open>LoadConfig\<close>, in its order.\<close>

definition step :: "bool \<Rightarrow> ('a \<Rightarrow> 'a) \<Rightarrow> 'a \<Rightarrow> 'a" where
  "step b f c = (if b then f c else c)"

definition onDb :: "(database_config \<Rightarrow> database_config) \<Rightarrow> collector_file \<Rightarrow> collector_file" where
  "onDb f c = c\<lparr>cc_Database := f (cc_Database c)\<rparr>"

definition onMetrics :: "(metrics_config \<Rightarrow> metrics_config) \<Rightarrow> collector_file \<Rightarrow> collector_file" where
  "onMetrics f c = c\<lparr>cc_Metrics := f (cc_Metrics c)\<rparr>"

definition onPolling :: "(polling_config \<Rightarrow> polling_config) \<Rightarrow> collector_file \<Rightarrow> collector_file" where
  "onPolling f c = c\<lparr>cc_Collector := f (cc_Collector c)\<rparr>"

definition snmp_override :: "(string \<Rightarrow> string) \<Rightarrow> collector_file \<Rightarrow> collector_file" where
  "snmp_override env c =
     (let c = step (env ''DB_HOST'' \<noteq> []) (onDb (\<lambda>d. d\<lparr>db_Host := env ''DB_HOST''\<rparr>)) c;
          c = step (env ''DB_PASSWORD'' \<noteq> []) (onDb (\<lambda>d. d\<lparr>db_Password := env ''DB_PASSWORD''\<rparr>)) c in
      step (env ''VICTORIAMETRICS_URL'' \<noteq> [])
        (onMetrics (\<lambda>m. m\<lparr>mc_VictoriaMetricsURL := env ''VICTORIAMETRICS_URL''\<rparr>)) c)"

definition snmp_defaults :: "collector_file \<Rightarrow> collector_file" where
  "snmp_defaults c =
     (let c = step (pc_MaxConcurrent (cc_Collector c) = 0) (onPolling (\<lambda>p. p\<lparr>pc_MaxConcurrent := 100\<rparr>)) c;
          c = step (pc_PollingInterval (cc_Collector c) = []) (onPolling (\<lambda>p. p\<lparr>pc_PollingInterval := ''60s''\<rparr>)) c;
          c = step (pc_DeviceReloadInterval (cc_Collector c) = []) (onPolling (\<lambda>p. p\<lparr>pc_DeviceReloadInterval := ''5m''\<rparr>)) c;
          c = step (pc_Timeout (cc_Collector c) = []) (onPolling (\<lambda>p. p\<lparr>pc_Timeout := ''10s''\<rparr>)) c;
          c = step (mc_BatchSize (cc_Metrics c) = 0) (onMetrics (\<lambda>m. m\<lparr>mc_BatchSize := 1000\<rparr>)) c;
          c = step (mc_BatchTimeout (cc_Metrics c) = []) (onMetrics (\<lambda>m. m\<lparr>mc_BatchTimeout := ''10s''\<rparr>)) c in
      step (cc_HealthPort c = 0) (\<lambda>c. c\<lparr>cc_HealthPort := 8080\<rparr>) c)"

definition rf_override :: "(string \<Rightarrow> string) \<Rightarrow> collector_file \<Rightarrow> collector_file" where
  "rf_override env c =
     (let c = step (env ''DB_HOST'' \<noteq> []) (onDb (\<lambda>d. d\<lparr>db_Host := env ''DB_HOST''\<rparr>)) c;
          c = step (env ''DB_PASSWORD'' \<noteq> []) (onDb (\<lambda>d. d\<lparr>db_Password := env ''DB_PASSWORD''\<rparr>)) c;
          c = step (env ''VICTORIAMETRICS_URL'' \<noteq> [])
            (onMetrics (\<lambda>m. m\<lparr>mc_VictoriaMetricsURL := env ''VICTORIAMETRICS_URL''\<rparr>)) c in
      step (env ''ENCRYPTION_KEY'' \<noteq> []) (\<lambda>c. c\<lparr>cc_EncryptionKey := env ''ENCRYPTION_KEY''\<rparr>) c)"

definition rf_defaults :: "collector_file \<Rightarrow> collector_file" where
  "rf_defaults c =
     (let c = step (pc_MaxConcurrent (cc_Collector c) = 0) (onPolling (\<lambda>p. p\<lparr>pc_MaxConcurrent := 100\<rparr>)) c;
          c = step (pc_PollingInterval (cc_Collector c) = []) (onPolling (\<lambda>p. p\<lparr>pc_PollingInterval := ''60s''\<rparr>)) c;
          c = step (pc_DeviceReloadInterval (cc_Collector c) = []) (onPolling (\<lambda>p. p\<lparr>pc_DeviceReloadInterval := ''5m''\<rparr>)) c;
          c = step (pc_Timeout (cc_Collector c) = []) (onPolling (\<lambda>p. p\<lparr>pc_Timeout := ''30s''\<rparr>)) c;
          c = step (mc_BatchSize (cc_Metrics c) = 0) (onMetrics (\<lambda>m. m\<lparr>mc_BatchSize := 1000\<rparr>)) c;
          c = step (mc_BatchTimeout (cc_Metrics c) = []) (onMetrics (\<lambda>m. m\<lparr>mc_BatchTimeout := ''10s''\<rparr>)) c in
      step (cc_HealthPort c = 0) (\<lambda>c. c\<lparr>cc_HealthPort := 8081\<rparr>) c)"

text \<open>\<open>Validate\<close> appends to a list of errors.\<close>

definition append :: "bool \<Rightarrow> string \<Rightarrow> string list \<Rightarrow> string list" where
  "append bad msg errors = (if bad then errors @ [msg] else errors)"

definition parsed :: "string \<Rightarrow> string \<Rightarrow> string list \<Rightarrow> string list" where
  "parsed name v errors = (case ParseDuration v of Inl e \<Rightarrow> errors @ [name @ '' is invalid: '' @ e] | Inr d \<Rightarrow> errors)"

definition interval :: "string \<Rightarrow> string list \<Rightarrow> string list" where
  "interval v errors = (case ParseDuration v of
     Inl e \<Rightarrow> errors @ [''collector.polling_interval is invalid: '' @ e]
   | Inr d \<Rightarrow> append (d < 5000000000 \<or> 3600000000000 < d)
       ''collector.polling_interval must be between 5 seconds and 3600 seconds'' errors)"

definition snmp_Validate :: "collector_file \<Rightarrow> string option" where
  "snmp_Validate c =
     (let d = cc_Database c; m = cc_Metrics c; p = cc_Collector c; l = cc_Logging c;
          errors = [];
          errors = append (db_Host d = []) ''database.host is required'' errors;
          errors = append (db_Port d \<le> 0 \<or> db_Port d > 65535) ''database.port must be between 1 and 65535'' errors;
          errors = append (db_Database d = []) ''database.database is required'' errors;
          errors = append (db_User d = []) ''database.user is required'' errors;
          errors = append (db_Password d = []) ''database.password is required'' errors;
          errors = append (mc_VictoriaMetricsURL m = []) ''metrics.victoriametrics_url is required'' errors;
          errors = append (mc_BatchSize m \<le> 0) ''metrics.batch_size must be greater than 0'' errors;
          errors = interval (pc_PollingInterval p) errors;
          errors = parsed ''collector.device_reload_interval'' (pc_DeviceReloadInterval p) errors;
          errors = parsed ''collector.timeout'' (pc_Timeout p) errors;
          errors = parsed ''metrics.batch_timeout'' (mc_BatchTimeout m) errors;
          errors = append (pc_MaxConcurrent p \<le> 0) ''collector.max_concurrent must be greater than 0'' errors;
          errors = append (cc_HealthPort c \<le> 0 \<or> cc_HealthPort c > 65535)
            ''health_server.port must be between 1 and 65535'' errors;
          errors = append (lg_Level l \<noteq> [] \<and> lg_Level l \<notin> {''debug'', ''info'', ''warn'', ''error''})
            ''logging.level must be one of: debug, info, warn, error'' errors;
          errors = append (lg_Format l \<noteq> [] \<and> lg_Format l \<notin> {''json'', ''text''})
            ''logging.format must be one of: json, text'' errors in
      if length errors > 0 then Some ([newline] @ ''  - '' @ joinWith (newline # ''  - '') errors) else None)"

definition rf_Validate :: "collector_file \<Rightarrow> string option" where
  "rf_Validate c =
     (let d = cc_Database c; m = cc_Metrics c; p = cc_Collector c; l = cc_Logging c;
          errors = [];
          errors = append (db_Host d = []) ''database.host is required'' errors;
          errors = append (db_Port d \<le> 0 \<or> db_Port d > 65535) ''database.port must be between 1 and 65535'' errors;
          errors = append (db_Database d = []) ''database.database is required'' errors;
          errors = append (db_User d = []) ''database.user is required'' errors;
          errors = append (db_Password d = []) ''database.password is required'' errors;
          errors = append (mc_VictoriaMetricsURL m = []) ''metrics.victoriametrics_url is required'' errors;
          errors = append (mc_BatchSize m \<le> 0) ''metrics.batch_size must be greater than 0'' errors;
          errors = interval (pc_PollingInterval p) errors;
          errors = parsed ''collector.device_reload_interval'' (pc_DeviceReloadInterval p) errors;
          errors = parsed ''collector.timeout'' (pc_Timeout p) errors;
          errors = parsed ''metrics.batch_timeout'' (mc_BatchTimeout m) errors;
          errors = append (pc_MaxConcurrent p \<le> 0) ''collector.max_concurrent must be greater than 0'' errors;
          errors = append (cc_HealthPort c \<le> 0 \<or> cc_HealthPort c > 65535)
            ''health_server.port must be between 1 and 65535'' errors;
          errors = append (lg_Level l \<noteq> [] \<and> lg_Level l \<notin> {''debug'', ''info'', ''warn'', ''error''})
            ''logging.level must be one of: debug, info, warn, error'' errors;
          errors = append (lg_Format l \<noteq> [] \<and> lg_Format l \<notin> {''json'', ''text''})
            ''logging.format must be one of: json, text'' errors in
      if length errors > 0 then Some ([newline] @ ''  - '' @ joinWith (newline # ''  - '') errors) else None)"

definition snmp_LoadConfig ::
  "(string \<Rightarrow> collector_file result) \<Rightarrow> (string \<Rightarrow> file_read) \<Rightarrow> (string \<Rightarrow> string) \<Rightarrow> string \<Rightarrow> collector_file result" where
  "snmp_LoadConfig unmarshal readFile env path = (case readFile path of
     Missing e \<Rightarrow> Inl (''failed to read config file: '' @ e)
   | ReadFailed e \<Rightarrow> Inl (''failed to read config file: '' @ e)
   | Contents data \<Rightarrow> (case unmarshal data of
       Inl e \<Rightarrow> Inl (''failed to parse config file: '' @ e)
     | Inr c \<Rightarrow> (let c = snmp_defaults (snmp_override env c) in
         case snmp_Validate c of Some e \<Rightarrow> Inl (''configuration validation failed: '' @ e) | None \<Rightarrow> Inr c)))"

definition rf_LoadConfig ::
  "(string \<Rightarrow> collector_file result) \<Rightarrow> (string \<Rightarrow> file_read) \<Rightarrow> (string \<Rightarrow> string) \<Rightarrow> string \<Rightarrow> collector_file result" where
  "rf_LoadConfig unmarshal readFile env path = (case readFile path of
     Missing e \<Rightarrow> Inl (''failed to read config file: '' @ e)
   | ReadFailed e \<Rightarrow> Inl (''failed to read config file: '' @ e)
   | Contents data \<Rightarrow> (case unmarshal data of
       Inl e \<Rightarrow> Inl (''failed to parse config file: '' @ e)
     | Inr c \<Rightarrow> (let c = rf_defaults (rf_override env c) in
         case rf_Validate c of Some e \<Rightarrow> Inl (''configuration validation failed: '' @ e) | None \<Rightarrow> Inr c)))"

text \<open>A step on a part is a step of the part.\<close>

lemma step_parts [simp]:
  "step b (onDb f) c = onDb (step b f) c" "step b (onMetrics g) c = onMetrics (step b g) c"
  "step b (onPolling h) c = onPolling (step b h) c"
  by (simp_all add: step_def onDb_def onMetrics_def onPolling_def)

lemma parts [simp]:
  "cc_Database (onDb f c) = f (cc_Database c)" "cc_Metrics (onDb f c) = cc_Metrics c"
  "cc_Collector (onPolling h c) = h (cc_Collector c)" "cc_Metrics (onPolling h c) = cc_Metrics c"
  "cc_HealthPort (onPolling h c) = cc_HealthPort c" "cc_Collector (onMetrics g c) = cc_Collector c"
  "cc_Metrics (onMetrics g c) = g (cc_Metrics c)" "cc_HealthPort (onMetrics g c) = cc_HealthPort c"
  by (simp_all add: onDb_def onMetrics_def onPolling_def)

lemma polling_defaults:
  "step (pc_MaxConcurrent p = 0) (\<lambda>p. p\<lparr>pc_MaxConcurrent := n\<rparr>) p = p\<lparr>pc_MaxConcurrent := orInt (pc_MaxConcurrent p) n\<rparr>"
  "step (pc_PollingInterval p = []) (\<lambda>p. p\<lparr>pc_PollingInterval := v\<rparr>) p = p\<lparr>pc_PollingInterval := orText (pc_PollingInterval p) v\<rparr>"
  "step (pc_DeviceReloadInterval p = []) (\<lambda>p. p\<lparr>pc_DeviceReloadInterval := v\<rparr>) p =
     p\<lparr>pc_DeviceReloadInterval := orText (pc_DeviceReloadInterval p) v\<rparr>"
  "step (pc_Timeout p = []) (\<lambda>p. p\<lparr>pc_Timeout := v\<rparr>) p = p\<lparr>pc_Timeout := orText (pc_Timeout p) v\<rparr>"
  "step (mc_BatchSize m = 0) (\<lambda>m. m\<lparr>mc_BatchSize := n\<rparr>) m = m\<lparr>mc_BatchSize := orInt (mc_BatchSize m) n\<rparr>"
  "step (mc_BatchTimeout m = []) (\<lambda>m. m\<lparr>mc_BatchTimeout := v\<rparr>) m = m\<lparr>mc_BatchTimeout := orText (mc_BatchTimeout m) v\<rparr>"
  "step (cc_HealthPort c = 0) (\<lambda>c. c\<lparr>cc_HealthPort := n\<rparr>) c = c\<lparr>cc_HealthPort := orInt (cc_HealthPort c) n\<rparr>"
  by (simp_all add: step_def orText_def orInt_def)

lemma override_steps:
  "step (env k \<noteq> []) (\<lambda>d. d\<lparr>db_Host := env k\<rparr>) d = d\<lparr>db_Host := envText env k (db_Host d)\<rparr>"
  "step (env k \<noteq> []) (\<lambda>d. d\<lparr>db_Password := env k\<rparr>) d = d\<lparr>db_Password := envText env k (db_Password d)\<rparr>"
  "step (env k \<noteq> []) (\<lambda>m. m\<lparr>mc_VictoriaMetricsURL := env k\<rparr>) m =
     m\<lparr>mc_VictoriaMetricsURL := envText env k (mc_VictoriaMetricsURL m)\<rparr>"
  "step (env k \<noteq> []) (\<lambda>c. c\<lparr>cc_EncryptionKey := env k\<rparr>) c = c\<lparr>cc_EncryptionKey := envText env k (cc_EncryptionKey c)\<rparr>"
  by (simp_all add: step_def envText_def)

lemma overrides_agree: "snmp_override env = collectorEnv SnmpKind env" "rf_override env = collectorEnv RedfishKind env"
  by (intro ext, simp add: snmp_override_def rf_override_def collectorEnv_def Let_def override_steps onDb_def onMetrics_def)+

lemma defaults_agree: "snmp_defaults = setDefaults SnmpKind" "rf_defaults = setDefaults RedfishKind"
  by (intro ext, simp add: snmp_defaults_def rf_defaults_def setDefaults_def Let_def polling_defaults onPolling_def
    onMetrics_def)+

lemma append_complains:
  "append bad msg errors = errors @ complain bad msg"
  "parsed name v errors = errors @ durationProblem name v"
  "interval v errors = errors @ (case ParseDuration v of
        Inl e \<Rightarrow> [''collector.polling_interval is invalid: '' @ e]
      | Inr d \<Rightarrow> complain (d < 5 * 1000000000 \<or> d > 3600 * 1000000000) ''collector.polling_interval must be between 5 seconds and 3600 seconds'')"
  by (simp_all add: append_def complain_def parsed_def interval_def durationProblem_def split: sum.split)

lemma allowed_words:
  "set logLevels = {''debug'', ''info'', ''warn'', ''error''}" "set logFormats = {''json'', ''text''}"
  "(p \<le> 0 \<or> p > 65535) = (\<not> validPort p)"
  by (simp_all add: logLevels_def logFormats_def validPort_def)

lemma validations_agree: "snmp_Validate = collector_Validate" "rf_Validate = collector_Validate"
  unfolding snmp_Validate_def rf_Validate_def collector_Validate_def collectorProblems_def
    databaseProblems_def listProblems_def append_complains allowed_words Let_def append_assoc append_Nil append_Cons
    length_greater_0_conv
  by (intro ext, rule refl)+

lemma configurations_agree:
  "snmp_LoadConfig = LoadConfig SnmpKind" "rf_LoadConfig = LoadConfig RedfishKind"
  unfolding snmp_LoadConfig_def rf_LoadConfig_def LoadConfig_def overrides_agree defaults_agree validations_agree
  by (intro ext, rule refl)+

section \<open>The programs of the SNMP and of the Redfish collector\<close>

definition openDatabase ::
  "(string \<Rightarrow> string option) \<Rightarrow> (string \<Rightarrow> string option) \<Rightarrow> database_config \<Rightarrow> string option" where
  "openDatabase connect ping d = (case connect (dataSource (dbConfig d)) of
     Some e \<Rightarrow> Some e | None \<Rightarrow> ping (dataSource (dbConfig d)))"

definition settingsOf :: "collector_file \<Rightarrow> poll_settings" where
  "settingsOf c = \<lparr>ps_batchSize = mc_BatchSize (cc_Metrics c), ps_batchTimeout = GetBatchTimeout c,
     ps_polling = GetPollingInterval c, ps_reload = GetDeviceReloadInterval c,
     ps_maxConcurrent = pc_MaxConcurrent (cc_Collector c), ps_timeout = GetTimeout c\<rparr>"

text \<open>\<open>Start\<close> of a collector: the first loading of the devices, then the two tickers.\<close>

definition startLoops :: "db_error \<Rightarrow> collector_file \<Rightarrow> collector_start" where
  "startLoops loadErr c = (case loadErr of
     Some e \<Rightarrow> Exits e
   | None \<Rightarrow> (case newTicker (GetDeviceReloadInterval c) of
       Some e \<Rightarrow> Panics e
     | None \<Rightarrow> (case newTicker (GetPollingInterval c) of Some e \<Rightarrow> Panics e | None \<Rightarrow> Polls (settingsOf c))))"

definition snmp_start ::
  "(string \<Rightarrow> collector_file result) \<Rightarrow> (string \<Rightarrow> file_read) \<Rightarrow> (string \<Rightarrow> string) \<Rightarrow>
   (string \<Rightarrow> string option) \<Rightarrow> (string \<Rightarrow> string option) \<Rightarrow> db_error \<Rightarrow> collector_start" where
  "snmp_start unmarshal readFile env connect ping loadErr =
     (case snmp_LoadConfig unmarshal readFile env ''config.yml'' of
        Inl e \<Rightarrow> Exits e
      | Inr c \<Rightarrow> (case openDatabase connect ping (cc_Database c) of
          Some e \<Rightarrow> Exits e
        | None \<Rightarrow> (case newTicker (GetBatchTimeout c) of
            Some e \<Rightarrow> Panics e
          | None \<Rightarrow> startLoops loadErr c)))"

definition rf_start ::
  "(string \<Rightarrow> collector_file result) \<Rightarrow> (string \<Rightarrow> file_read) \<Rightarrow> (string \<Rightarrow> string) \<Rightarrow>
   (string \<Rightarrow> string option) \<Rightarrow> (string \<Rightarrow> string option) \<Rightarrow> db_error \<Rightarrow> collector_start" where
  "rf_start unmarshal readFile env connect ping loadErr =
     (case rf_LoadConfig unmarshal readFile env ''config.yml'' of
        Inl e \<Rightarrow> Exits e
      | Inr c \<Rightarrow> (case openDatabase connect ping (cc_Database c) of
          Some e \<Rightarrow> Exits e
        | None \<Rightarrow> (case newTicker (GetBatchTimeout c) of
            Some e \<Rightarrow> Panics e
          | None \<Rightarrow>
              (let encryptionKey = (if env ''ENCRYPTION_KEY'' = [] then cc_EncryptionKey c else env ''ENCRYPTION_KEY'') in
               if length encryptionKey \<noteq> 32 then Exits ''ENCRYPTION_KEY must be exactly 32 characters''
               else startLoops loadErr c))))"

text \<open>The pages of the health server.\<close>

definition healthPage :: "nat \<Rightarrow> string" where
  "healthPage n = [CHR 0x7B, CHR 0x22] @ ''status'' @ [CHR 0x22, CHR '':'', CHR 0x22] @ ''healthy'' @
     [CHR 0x22, CHR '','', CHR 0x22] @ ''device_count'' @ [CHR 0x22, CHR '':''] @ itoa (int n) @ [CHR 0x7D]"

definition devicesPage :: "string \<Rightarrow> nat \<Rightarrow> string" where
  "devicesPage kind n = ''# HELP '' @ kind @ ''_collector_devices Number of devices being monitored'' @ [newline] @
     ''# TYPE '' @ kind @ ''_collector_devices gauge'' @ [newline] @
     kind @ ''_collector_devices '' @ itoa (int n) @ [newline]"

text \<open>On a signal the collector is stopped, then, by the deferred call, the writer, with what the polls left in it
  (\<open>w\<close>); a process that did not come to polling exits with status 1. (So does one whose health server cannot
  listen, without the deferred calls; that is not followed here.)\<close>

datatype collector_end = NotStarted collector_start | ShutDown vm_writer

definition ipmi_end :: "collector_start \<Rightarrow> (nat \<Rightarrow> send_outcome) \<Rightarrow> vm_writer \<Rightarrow> collector_end" where
  "ipmi_end s net w = (case s of Polls p \<Rightarrow> ShutDown (VmWriter.Stop net w) | _ \<Rightarrow> NotStarted s)"

definition rf_end :: "collector_start \<Rightarrow> (nat \<Rightarrow> send_outcome) \<Rightarrow> vm_writer \<Rightarrow> collector_end" where
  "rf_end s net w = (case s of Polls p \<Rightarrow> ShutDown (rf_Stop net w) | _ \<Rightarrow> NotStarted s)"

definition snmp_end :: "collector_start \<Rightarrow> (nat \<Rightarrow> send_outcome) \<Rightarrow> vm_writer \<Rightarrow> collector_end" where
  "snmp_end s net w = (case s of Polls p \<Rightarrow> ShutDown (snmp_Stop net w) | _ \<Rightarrow> NotStarted s)"

lemma starts_agree:
  "snmp_start unmarshal readFile env connect ping loadErr = startCollector SnmpKind unmarshal readFile env connect ping natsErr loadErr"
  "rf_start unmarshal readFile env connect ping loadErr = startCollector RedfishKind unmarshal readFile env connect ping natsErr loadErr"
  by (simp_all add: snmp_start_def rf_start_def startCollector_def configurations_agree openDatabase_def startLoops_def
    settingsOf_def envText_def Let_def split: sum.split option.split)



section \<open>The credential of a stream\<close>

text \<open>\<open>stream_handler.go\<close> looks the credential up with a loop of its own.\<close>

fun stream_families :: "(nat \<Rightarrow> db_error) \<Rightarrow> nat \<Rightarrow> string \<Rightarrow> string \<Rightarrow> string list \<Rightarrow> cred_row list \<Rightarrow> device_credential option" where
  "stream_families errs n did dtype [] rows = None"
| "stream_families errs n did dtype (p # ps) rows =
     (if hasSuffix dtype p \<or> contains dtype p
      then (case GetByDeviceIDAndProtocol (errs n) did p rows of
          Inr c \<Rightarrow> Some c | Inl e \<Rightarrow> stream_families errs (n + 1) did dtype ps rows)
      else stream_families errs n did dtype ps rows)"

definition stream_resolveCredential :: "(nat \<Rightarrow> db_error) \<Rightarrow> string \<Rightarrow> string \<Rightarrow> cred_row list \<Rightarrow> device_credential option" where
  "stream_resolveCredential errs did dtype rows = (case GetByDeviceIDAndProtocol (errs 0) did dtype rows of
     Inr c \<Rightarrow> Some c
   | Inl e \<Rightarrow> stream_families errs 1 did dtype [''redfish'', ''ipmi'', ''snmp_v3'', ''snmp_v2c''] rows)"

lemma stream_families_first:
  "stream_families errs n did dtype ps rows =
     firstCredential errs n did (filter (\<lambda>p. hasSuffix dtype p \<or> contains dtype p) ps) rows"
  by (induction ps arbitrary: n) (auto split: sum.split)

lemma stream_credential_agrees: "stream_resolveCredential = resolveCredential"
  by (intro ext) (simp add: stream_resolveCredential_def resolveCredential_def candidates_def protocolFamilies_def
    stream_families_first del: filter.simps split: sum.split)

section \<open>The theorems carry over\<close>

text \<open>What is proved of the common model holds for the two programs.\<close>

corollary polling_snmp_and_redfish_are_sound:
  "\<forall>s \<in> {snmp_start um rd env conn png le, rf_start um rd env conn png le}. case s of
     Polls p \<Rightarrow> 5000000000 \<le> ps_polling p \<and> ps_polling p \<le> 3600000000000 \<and> 0 < ps_reload p \<and> 0 < ps_batchTimeout p \<and>
       0 < ps_batchSize p \<and> 0 < ps_maxConcurrent p
   | _ \<Rightarrow> True"
  using polls_soundly [of SnmpKind um rd env conn png None le] polls_soundly [of RedfishKind um rd env conn png None le]
  by (simp add: starts_agree [where natsErr = None])

end
