(* ===== verification/Unrouted.thy ===== *)
theory Unrouted
  imports Users Query
begin

text \<open>
  Code of the API server that no route reaches: reading the audit log (\<open>List\<close> of
  \<open>backend/internal/db/audit_repository.go\<close>), \<open>CreateUser\<close> of \<open>auth_handler.go\<close>, the middleware over Redis of
  \<open>rate_limit.go\<close>, \<open>ValidateURL\<close> and \<open>ValidateRange\<close> of \<open>validation.go\<close>. It is shown to do what its users would
  need of it.
\<close>

section \<open>Reading the audit log\<close>

text \<open>\<open>decode\<close> reads the JSON of the details; entries of the same time come in table order. \<open>scanErr\<close> says for which
  rows the scan fails and \<open>iterErr\<close> is the error that ends the iteration.\<close>

definition scanAudit ::
  "(audit_log \<Rightarrow> string option) \<Rightarrow> (audit_log \<Rightarrow> string option) \<Rightarrow> audit_log \<Rightarrow> audit_log result" where
  "scanAudit scanErr decode l = (case scanErr l of
     Some e \<Rightarrow> Inl (''failed to scan audit log: '' @ e)
   | None \<Rightarrow> (case au_Details l of None \<Rightarrow> Inr l
       | Some d \<Rightarrow> (case decode l of Some e \<Rightarrow> Inl (''failed to unmarshal details: '' @ e) | None \<Rightarrow> Inr l)))"

fun scanAudits ::
  "(audit_log \<Rightarrow> string option) \<Rightarrow> (audit_log \<Rightarrow> string option) \<Rightarrow> audit_log list \<Rightarrow> audit_log list result" where
  "scanAudits scanErr decode [] = Inr []"
| "scanAudits scanErr decode (l # ls) = (case scanAudit scanErr decode l of
     Inl e \<Rightarrow> Inl e
   | Inr x \<Rightarrow> (case scanAudits scanErr decode ls of Inl e \<Rightarrow> Inl e | Inr xs \<Rightarrow> Inr (x # xs)))"

record audit_read_env =
  ar_countErr :: db_error
  ar_queryErr :: db_error
  ar_scanErr :: "audit_log \<Rightarrow> string option"
  ar_decode :: "audit_log \<Rightarrow> string option"
  ar_iterErr :: db_error

definition audit_List ::
  "audit_read_env \<Rightarrow> int \<Rightarrow> int \<Rightarrow> audit_log list \<Rightarrow> (audit_log list \<times> int) result" where
  "audit_List env page psize logs =
     (let p = (if page < 1 then 1 else page);
          s = (if psize < 1 then 20 else psize);
          s = (if s > 100 then 100 else s) in
      case ar_countErr env of
        Some e \<Rightarrow> Inl (''failed to count audit logs: '' @ e)
      | None \<Rightarrow>
          (let count = int (length logs); offs = pageOffset p s in
           case (case ar_queryErr env of Some e \<Rightarrow> Inl e
             | None \<Rightarrow> limitOffset s offs (sort_key (\<lambda>l. - au_CreatedAt l) logs)) of
             Inl e \<Rightarrow> Inl (''failed to list audit logs: '' @ e)
           | Inr rows \<Rightarrow> (case scanAudits (ar_scanErr env) (ar_decode env) rows of
               Inl e \<Rightarrow> Inl e
             | Inr out \<Rightarrow> (case ar_iterErr env of
                 Some e \<Rightarrow> Inl (''error iterating audit logs: '' @ e) | None \<Rightarrow> Inr (out, count)))))"

definition readable :: "audit_read_env \<Rightarrow> audit_log \<Rightarrow> bool" where
  "readable env l = (ar_scanErr env l = None \<and> (au_Details l = None \<or> ar_decode env l = None))"

definition calmReads :: "audit_read_env \<Rightarrow> bool" where
  "calmReads env = (ar_countErr env = None \<and> ar_queryErr env = None \<and> ar_iterErr env = None)"

lemma scanAudits_readable: "list_all (readable env) ls \<Longrightarrow> scanAudits (ar_scanErr env) (ar_decode env) ls = Inr ls"
  by (induction ls) (auto simp: readable_def scanAudit_def split: option.split)

definition auditPage :: "audit_read_env \<Rightarrow> int \<Rightarrow> audit_log list \<Rightarrow> int \<Rightarrow> audit_log list" where
  "auditPage env psize logs p = (case audit_List env p psize logs of Inl e \<Rightarrow> [] | Inr (out, all) \<Rightarrow> out)"

lemma audit_List_page:
  assumes "calmReads env" "list_all (readable env) logs" "1 \<le> s" "s \<le> 100" "int p * s < 9223372036854775808"
  shows "audit_List env (int p + 1) s logs =
    Inr (take (nat s) (drop (p * nat s) (sort_key (\<lambda>l. - au_CreatedAt l) logs)), int (length logs))"
proof -
  let ?all = "sort_key (\<lambda>l. - au_CreatedAt l) logs"
  have "nat (int p * s) = p * nat s" by (simp add: nat_mult_distrib)
  then have "limitOffset s (pageOffset (int p + 1) s) ?all = Inr (take (nat s) (drop (p * nat s) ?all))"
    using limitOffset_page [of "int p + 1" s ?all] assms(3,5) by simp
  moreover have "list_all (readable env) (take (nat s) (drop (p * nat s) ?all))"
    using assms(2) by (auto simp: list_all_iff dest!: in_set_takeD in_set_dropD)
  ultimately show ?thesis using assms(1,3,4) by (simp add: audit_List_def calmReads_def Let_def scanAudits_readable)
qed

text \<open>Turning the pages shows every entry of the log exactly once, the latest first.\<close>

theorem audit_pages_complete:
  assumes "calmReads env" "list_all (readable env) logs" "1 \<le> s" "s \<le> 100"
    and "int n * s < 9223372036854775808" "length logs \<le> n * nat s"
  shows "concat (map (\<lambda>p. auditPage env s logs (int p + 1)) [0..<n]) = sort_key (\<lambda>l. - au_CreatedAt l) logs"
proof -
  let ?all = "sort_key (\<lambda>l. - au_CreatedAt l) logs"
  have "auditPage env s logs (int p + 1) = take (nat s) (drop (p * nat s) ?all)" if "p \<in> set [0..<n]" for p
  proof -
    have "int p * s \<le> int n * s" using that assms(3) by (intro mult_right_mono) auto
    with assms(5) show ?thesis unfolding auditPage_def by (simp add: audit_List_page [OF assms(1-4)])
  qed
  then have "map (\<lambda>p. auditPage env s logs (int p + 1)) [0..<n] = map (\<lambda>p. take (nat s) (drop (p * nat s) ?all)) [0..<n]"
    by (intro map_cong) auto
  then show ?thesis using assms(6) by (simp only: pages_cover) simp
qed

definition exAudit :: "string \<Rightarrow> time \<Rightarrow> audit_log" where
  "exAudit i t = \<lparr>au_ID = i, au_UserID = None, au_ActionType = ''user_login'', au_TargetResource = ''user'', au_TargetID = None,
     au_SourceIP = [], au_Details = None, au_CreatedAt = t\<rparr>"

definition calmEnv :: audit_read_env where
  "calmEnv = \<lparr>ar_countErr = None, ar_queryErr = None, ar_scanErr = \<lambda>l. None, ar_decode = \<lambda>l. None, ar_iterErr = None\<rparr>"

lemma audit_pages_complete_witness:
  "map au_ID (concat (map (\<lambda>p. auditPage calmEnv 2 [exAudit ''a'' 5, exAudit ''b'' 9, exAudit ''c'' 7] (int p + 1)) [0..<2])) =
     [''b'', ''c'', ''a'']"
proof -
  let ?logs = "[exAudit ''a'' 5, exAudit ''b'' 9, exAudit ''c'' 7]"
  have "concat (map (\<lambda>p. auditPage calmEnv 2 ?logs (int p + 1)) [0..<2]) = sort_key (\<lambda>l. - au_CreatedAt l) ?logs"
    by (intro audit_pages_complete) (simp_all add: calmReads_def calmEnv_def readable_def)
  moreover have "map au_ID (sort_key (\<lambda>l. - au_CreatedAt l) ?logs) = [''b'', ''c'', ''a'']" by code_simp
  ultimately show ?thesis by simp
qed

section \<open>The other way to create a user\<close>

definition auth_CreateUser ::
  "(string \<Rightarrow> string result) \<Rightarrow> db_error \<Rightarrow> string \<Rightarrow> time \<Rightarrow> time \<Rightarrow> user_create result \<Rightarrow> user list \<Rightarrow> user list \<times> reply" where
  "auth_CreateUser bcryptHash dbErr newId t1 t2 req users = (case req of
     Inl e \<Rightarrow> (users, ReplyError 400 e ''INVALID_REQUEST'')
   | Inr r \<Rightarrow>
       (if uc_Role r \<notin> {RoleAdmin, RoleOperator, RoleViewer} then (users, ReplyError 400 ''Invalid role'' ''INVALID_ROLE'')
        else case HashPassword bcryptHash (uc_Password r) of
          Inl e \<Rightarrow> (users, ReplyError 500 ''Failed to hash password'' ''INTERNAL_ERROR'')
        | Inr h \<Rightarrow>
            (let u = \<lparr>us_ID = newId, us_Username = uc_Username r, us_PasswordHash = h, us_Email = Some (uc_Email r),
                   us_Role = uc_Role r, us_Enabled = True, us_CreatedAt = t1, us_UpdatedAt = t2, us_FullName = [],
                   us_LastLoginAt = None, us_CreatedBy = None\<rparr> in
             case user_Create dbErr u users of
               (users', Some e) \<Rightarrow> (users', ReplyError 500 ''Failed to create user'' ''INTERNAL_ERROR'')
             | (users', None) \<Rightarrow> (users', ReplyUser 201 (u\<lparr>us_PasswordHash := []\<rparr>)))))"

text \<open>It accepts and refuses what the routed handler does and stores the same account, but always enabled, and
  without the full name and the creator.\<close>

definition anonymous :: "user \<Rightarrow> user" where
  "anonymous u = u\<lparr>us_Enabled := True, us_FullName := [], us_CreatedBy := None\<rparr>"

fun anonymousReply :: "reply \<Rightarrow> reply" where
  "anonymousReply (ReplyUser n u) = ReplyUser n (anonymous u)"
| "anonymousReply r = r"

lemma auth_CreateUser_agrees:
  "fst (auth_CreateUser h e i t1 t2 req users) =
     users @ map anonymous (drop (length users) (fst (CreateUser h e i t1 t2 caller req users)))"
  "snd (auth_CreateUser h e i t1 t2 req users) = anonymousReply (snd (CreateUser h e i t1 t2 caller req users))"
  by (auto simp: auth_CreateUser_def CreateUser_def validRole_def user_Create_def clash_def anonymous_def userResponse_def
    Let_def split: sum.split option.split)

section \<open>Rate limits with Redis\<close>

definition RateLimitMiddlewareWithRedis ::
  "(string \<Rightarrow> time \<Rightarrow> time \<Rightarrow> time \<Rightarrow> 'redis \<Rightarrow> 'redis \<times> int option) \<Rightarrow> time \<Rightarrow> string \<Rightarrow>
   'redis redis_limiter \<Rightarrow> 'r \<Rightarrow> 'redis redis_limiter \<times> 'r gate" where
  "RateLimitMiddlewareWithRedis exec now ip r handler = (case rr_allow exec now ip r of (r', ok) \<Rightarrow>
     (r', if \<not> ok then Refused 429 ''Rate limit exceeded'' ''RATE_LIMIT_EXCEEDED'' else Pass handler))"

text \<open>Without Redis, or when it does not answer, it is the middleware in use.\<close>

lemma redis_middleware_fallback:
  assumes "rr_client r = None \<or> (\<exists>server. rr_client r = Some server \<and>
    snd (exec (''rate_limit:'' @ ip) (now - rr_window r) now (rr_window r) server) = None)"
  shows "snd (RateLimitMiddlewareWithRedis exec now ip r handler) = snd (RateLimitMiddleware now ip (rr_fallback r) handler)"
    "rr_fallback (fst (RateLimitMiddlewareWithRedis exec now ip r handler)) =
       fst (RateLimitMiddleware now ip (rr_fallback r) handler)"
  using assms
  by (auto simp: RateLimitMiddlewareWithRedis_def RateLimitMiddleware_def rr_allow_def rateLimited_def Let_def
    split: prod.split option.split)

section \<open>Two checks\<close>

text \<open>\<open>parse\<close> is \<open>url.ParseRequestURI\<close>: scheme and host; \<open>%g\<close> is given by \<open>fmt\<close>.\<close>

definition quote :: char where "quote = CHR 0x27"

definition ValidateURL :: "(string \<Rightarrow> (string \<times> string) option) \<Rightarrow> string \<Rightarrow> string option" where
  "ValidateURL parse rawURL = (if rawURL = [] then Some ''URL must not be empty''
     else case parse rawURL of
       None \<Rightarrow> Some (quote # rawURL @ quote # '' is not a valid URL (must be a full http or https URL)'')
     | Some (scheme, h) \<Rightarrow>
         (if (scheme \<noteq> ''http'' \<and> scheme \<noteq> ''https'') \<or> h = []
          then Some (quote # rawURL @ quote # '' is not a valid URL (must be a full http or https URL)'') else None))"

definition ValidateRange :: "(f64 \<Rightarrow> string) \<Rightarrow> f64 \<Rightarrow> f64 \<Rightarrow> f64 \<Rightarrow> string \<Rightarrow> string option" where
  "ValidateRange fmt v lo hi fieldName =
     (if v = NaN \<or> v = PosInf \<or> v = NegInf then Some (''field '' @ quote # fieldName @ quote # '' must be a finite number'')
      else if flt v lo \<or> flt hi v
      then Some (''field '' @ quote # fieldName @ quote # '' must be between '' @ fmt lo @ '' and '' @ fmt hi @
        '' (got '' @ fmt v @ '')'')
      else None)"

lemma ValidateRange_accepts:
  "ValidateRange fmt v (Fin a) (Fin b) name = None \<longleftrightarrow> (\<exists>x. v = Fin x \<and> a \<le> x \<and> x \<le> b)"
  by (cases v) (auto simp: ValidateRange_def not_less)

text \<open>A bound that is not a number bounds nothing.\<close>

lemma ValidateRange_nan: "ValidateRange fmt (Fin x) NaN NaN name = None"
  by (simp add: ValidateRange_def)

end
