(* ===== verification/Spec2Isabelle.thy ===== *)
theory Spec2Isabelle
  imports SnmpPoll Redfish Ssh ApiCache Detector Events Collectors AlertRules Maintenance Alerts Lifecycle Middleware Services
    Pipeline Copies Unrouted
begin

text \<open>
  InfraSense, a monitoring system for servers and network devices, in Go. The development models the
  programs under \<open>src/\<close> that carry its logic and proves what makes them correct; where the code does not do
  what it means to, the theorem says what it does instead.

  \<^bold>\<open>The program\<close>

  Four collectors (\<open>collectors/*-collector\<close>) read their devices from PostgreSQL, poll them over IPMI
  (by running \<open>ipmitool\<close>), Redfish, SNMP or SSH, and write the readings to a time series database; the IPMI
  collector also publishes readings and log events to NATS, from where the ingester (\<open>backend/cmd/ingester\<close>)
  writes them to the time series database and to the table of hardware events. The API server
  (\<open>backend/cmd/server\<close>) manages devices, credentials, groups, alert rules, maintenance windows and users,
  shows inventory, events, alerts and metrics, and acts on devices over IPMI and Redfish. The notification
  service (\<open>notification-service\<close>) takes alerts from Alertmanager and sends them by mail, Telegram and Slack.
  The parts meet in the database (rows that one part writes and another reads: devices, credentials,
  inventory, collector status, events), in the NATS streams and in the encryption key.

  \<^bold>\<open>How the model is made\<close>

  A struct is a \<open>record\<close> with the fields of the source in its order, a function of the program a HOL
  function of the same name (a prefix such as \<open>snmp_\<close>, \<open>rf_\<close>, \<open>ssh_\<close>, \<open>rs_\<close> tells apart those that several
  packages have). A method that changes its receiver returns the new one. An error is a value: \<open>Inl\<close> its
  text in a \<open>result\<close>, or an \<open>option\<close>. A Go string is the list of its bytes; a 64-bit integer whose
  overflow matters is a \<open>64 word\<close> (durations of the back-off, SNMP counters), other integers are \<open>int\<close>;
  a finite \<open>float64\<close> is the rational number it
  stands for, with the rounding of every operation written out. A table is the
  list of its rows. What happens outside is an argument, collected in a record that ends in \<open>_env\<close> or \<open>_world\<close>:
  the clock, random identifiers, errors of statements, the answers of devices and servers. Concurrency is
  an explicit sequence of steps: any order of polls, probe results or goroutine actions.

  \<^bold>\<open>The theories\<close>

  Shared:

  \<^item> Prelude: Go's string functions, label maps.
  \<^item> GoFloat: \<open>float64\<close>, \<open>ParseFloat\<close>.
  \<^item> Codec: decoded JSON, base64, times in RFC 3339.
  \<^item> Dates: reading such times back, through the calendar.
  \<^item> Db: the collectors' tables, addresses as PostgreSQL prints them, upserts.
  \<^item> Api: \<open>response.go\<close>, \<open>validation.go\<close>.
  \<^item> Query: how the repositories build statements; the numbered placeholders and their values agree.

  Collectors:

  \<^item> Retry: the four back-off managers (\<open>retry.go\<close>, \<open>redfish.go\<close>,
    \<open>ssh.go\<close>) under one contract, the locale \<open>retry_policy\<close>, interpreted on
    each.
  \<^item> VmWriter: \<open>internal/metrics/victoriametrics.go\<close>: every sample is in the buffer, sent or
    dropped.
  \<^item> IpmiTool: \<open>ipmitool.go\<close>: command lines and all parsers.
  \<^item> Queue: \<open>internal/queue\<close>.
  \<^item> IpmiPoll: \<open>ipmi.go\<close> and \<open>retry.go\<close> of the IPMI collector.
  \<^item> SnmpPoll, Redfish, Ssh: the polls, loading, status and inventory of the other three.
  \<^item> Lifecycle: the goroutines that the four share (\<open>Start\<close>, \<open>Stop\<close>, the reload
    and polling loops, \<open>pollAllDevices\<close> with its semaphore) as a step relation;
    \<open>lcDo\<close> is the same relation as a function that runs a given schedule.

  API server:

  \<^item> RateLimit, ApiCache, Access: \<open>rate_limit.go\<close>, \<open>cache.go\<close>,
    \<open>auth.go\<close>, \<open>rbac.go\<close>, \<open>cors.go\<close>, \<open>jwt.go\<close> and
    the table of routes.
  \<^item> Middleware: the way of a request through the chain of \<open>routes.go\<close> with the timeout and
    header middleware of \<open>security.go\<close>.
  \<^item> Users: login, users, \<open>audit_service.go\<close>.
  \<^item> Credentials: \<open>credential_service.go\<close>, repository, handlers, and what the collectors
    make of a stored credential.
  \<^item> Detector: \<open>protocol_detector.go\<close>.
  \<^item> Events, Collectors: event log and collector status.
  \<^item> RedfishApi: \<open>redfish_service.go\<close>.
  \<^item> Inventory, Devices: \<open>device_repository.go\<close> and \<open>device_handler.go\<close>.
  \<^item> DeviceControl: \<open>ipmi_service.go\<close> and the handlers that test, synchronise, switch and
    boot.
  \<^item> Telemetry: metric queries and the live stream.
  \<^item> DeviceGroups, AlertRules, Maintenance: one repository and handler each; their tables share the
    locale \<open>unique_table\<close> (the tables written by upserts share \<open>keyed_table\<close>,
    the response cache is an \<open>expiring_store\<close>).
  \<^item> Alerts: \<open>alert_handler.go\<close> and acknowledgments.

  Around them:

  \<^item> Ingest: \<open>ingester.go\<close> and the events table.
  \<^item> Wire: the messages of \<open>queue/contracts.go\<close> as JSON and their decoding into those of
    \<open>ingest/contracts.go\<close>, by fields under the locale \<open>json_codec\<close>; Pipeline: an event log from
    the server to the API's event list through collector, stream, ingester and query.
  \<^item> Notify: webhook, message, channels of the notification service.
  \<^item> Settings: \<open>config.go\<close> of the backend and the collectors with
    \<open>time.ParseDuration\<close>.
  \<^item> Database: \<open>postgres.go\<close>, migrations and transactions.
  \<^item> Startup, Services: the \<open>main\<close> functions up to the point where the program serves, polls
    or consumes.
  \<^item> Copies: the code that the programs have each for themselves (two more writers, the SNMP and
    Redfish collectors' configuration and \<open>main\<close>, a second search for a credential), shown equal to the
    modelled copies or different from them; Unrouted: code of the API server that no route reaches.
  \<^item> This theory: what no component has alone.

  \<^bold>\<open>What is shown\<close>

  Conservation and exactly-once: samples in the writer, devices of a poll cycle, events of a stream, deliveries
  of a webhook. Invariants of the tables under any sequence of requests (keys unique, references alive,
  checks hold), with the failing statements included. Refinement: the rate limiter against the history
  of admitted requests, the parallel cycle against a sequence of polls, the back-off of four managers
  against the streak of failures. Round trips: sensor lists, credentials through encryption and table,
  inventory through table and JSON, messages through JSON with their times, query texts through URLs. Safety: who reaches which handler, that
  control actions are checked and audited, password changes guarded, transactions atomic. Termination
  and progress: the wait of a token bucket, \<open>Stop\<close> of a collector. Errors: what each failing step leaves
  behind.

  \<^bold>\<open>Bounds and fuel\<close>

  Loops of the program with a constant bound keep it (three attempts to send or to deadlock, a hundred
  rows of a page, thirty seconds of a request). Two loops may run on: the wait for a token takes fuel, and
  \<open>wait_ends\<close> proves that one step for each reading of the clock up to the next refill is enough; the
  schedules of Lifecycle are of any length, and \<open>stop_terminates\<close> bounds what is left of one after the
  context is cancelled by 6n + 12 steps for n devices. All other recursion is structural.

  \<^bold>\<open>Parameters\<close>

  Code that is not in the repository is an argument of the definitions that use it: \<open>ipmitool\<close>, gosnmp, the HTTP,
  SSH and SMTP clients with whatever answers them, bcrypt, AES-GCM, SHA-256, the JWT and YAML libraries,
  the migration library, Redis, NATS, Alertmanager, the time series database, PostgreSQL's collation and
  its reading of addresses. A theorem that needs more than an arbitrary such function has the
  documented behaviour as a hypothesis (a hash verifies its password, opening undoes sealing).

  \<^bold>\<open>Not modelled\<close>

  The web frontend (TypeScript), the Python collectors, the SQL scripts (their tables are the row types) and
  deployment files are not in the language modelled. Of the Go code: log lines; the HTTP servers' own
  time limits and their shutdown; gin's matching of paths; compression and the metrics page of the API;
  SNMP's trap listener as a goroutine (its handler is modelled); constructors that only fill a struct; the structs
  of discovery requests, which nothing uses.
\<close>

section \<open>The collectors share the inventory table\<close>

text \<open>C39: The IPMI and the Redfish collector get in each other's way. Once the IPMI collector stored the FRU
  of a device that had no inventory, the row has NULL in the columns that the Redfish collector's
  change check scans into plain variables: every later \<open>storeInventory\<close> of the device fails in that
  check and writes nothing, whatever the controller reports.\<close>

theorem fru_row_blocks_redfish_inventory:
  assumes "findBy iv_device_id (ID d) (device_inventory db) = None"
    and "runFRU tool d dbErr t db = (db', None)"
    and "rd_ID rd = ID d"
  shows "\<exists>e. storeInventory env rd inventory now db' = (db', Some (''check inventory change: '' @ e))"
proof -
  have "findBy iv_device_id (ID d) (device_inventory db') =
      Some (fruNewRow (ID d) (parseFRUOutput (p_stdout (tool (deviceArgs d @ [''fru'']))), t))"
    using runFRU_effect [where tool = tool and d = d and dbErr = dbErr and now = t and db = db and k = "ID d"] assms(1,2) by (simp add: Let_def)
  then show ?thesis
    unfolding storeInventory_def hasInventoryChanged_def assms(3)
    by (cases "st_queryErr env") (auto simp: fruNewRow_def split: prod.split)
qed


definition fruTool :: ipmitool where
  "fruTool args = \<lparr>p_stdout = ''Product Name : R740'', p_stderr = [], p_combined = [], p_error = None\<rparr>"

lemma fru_row_blocks_redfish_inventory_witness:
  "\<exists>e. storeInventory storeOkEnv rfExDevice (exInventory []) 9 (fst (runFRU fruTool exDevice None 5 emptyDb)) =
     (fst (runFRU fruTool exDevice None 5 emptyDb), Some (''check inventory change: '' @ e))"
proof -
  have "snd (runFRU fruTool exDevice None 5 emptyDb) = None"
    by code_simp
  then have "runFRU fruTool exDevice None 5 emptyDb = (fst (runFRU fruTool exDevice None 5 emptyDb), None)"
    by (simp add: prod_eq_iff)
  moreover have "rd_ID rfExDevice = ID exDevice"
    by (simp add: rfExDevice_def exDevice_def)
  ultimately show ?thesis
    by (intro fru_row_blocks_redfish_inventory [of exDevice emptyDb]) (simp_all add: emptyDb_def)
qed

section \<open>A collector that polls can be stopped\<close>

text \<open>C8: Every collector that its \<open>main\<close> function brings to polling can be stopped. The checks of its configuration
  leave it at least one slot; so once \<open>Stop\<close> has been called, and while no further tick arrives, its goroutines
  take at most 6n + 12 more steps, n being the largest number of devices in any of its lists, and when none
  of them can go on, \<open>Stop\<close> has returned.\<close>

theorem started_collector_stops:
  assumes "startCollector k unmarshal readFile env connect ping natsErr loadErr = Polls p"
    and "Start (Inr ds) = Inr s0" "lc_run (nat (ps_maxConcurrent p)) s0 before s" "cr_cancelled s" "smallLists n s"
    and "lc_run (nat (ps_maxConcurrent p)) s as s'" "list_all (\<lambda>a. \<not> isTick a \<and> smallReload n a) as"
  shows "length as \<le> 6 * n + 12 \<and> (if canGoOn (nat (ps_maxConcurrent p)) s' then True else cr_stopped s')"
proof (rule stop_terminates [OF assms(2,3,4) _ assms(5,6,7)])
  show "0 < nat (ps_maxConcurrent p)"
    using polls_soundly [of k unmarshal readFile env connect ping natsErr loadErr] assms(1) by simp
qed

lemma started_collector_stops_witness:
  "\<exists>p. startCollector IpmiKind (\<lambda>d. Inr exCollectorFile) (\<lambda>p. Contents []) (\<lambda>v. []) (\<lambda>d. None) (\<lambda>d. None) None None = Polls p \<and>
     length exAfter \<le> 6 * 2 + 12 \<and> (if canGoOn (nat (ps_maxConcurrent p)) exStopped then True else cr_stopped exStopped)"
proof -
  have "case startCollector IpmiKind (\<lambda>d. Inr exCollectorFile) (\<lambda>p. Contents []) (\<lambda>v. []) (\<lambda>d. None) (\<lambda>d. None) None None of
      Polls p \<Rightarrow> ps_maxConcurrent p = 100 | _ \<Rightarrow> False"
    by code_simp
  then obtain p where p: "startCollector IpmiKind (\<lambda>d. Inr exCollectorFile) (\<lambda>p. Contents []) (\<lambda>v. []) (\<lambda>d. None) (\<lambda>d. None) None None = Polls p"
    and n: "nat (ps_maxConcurrent p) = 100"
    by (auto split: collector_start.splits)
  have runs: "lc_run (nat (ps_maxConcurrent p)) exRun exBefore exStopping" "lc_run (nat (ps_maxConcurrent p)) exStopping exAfter exStopped"
    unfolding n lc_run_iff by code_simp+
  have "cr_cancelled exStopping" "smallLists 2 exStopping" "list_all (\<lambda>a. \<not> isTick a \<and> smallReload 2 a) exAfter"
    by (simp_all add: exStopping_def exRun_def smallLists_def waitingPolls_def activePolls_def exAfter_def isTick_def smallReload_def)
  from started_collector_stops [OF p exStart runs(1) this(1,2) runs(2) this(3)] p show ?thesis by blast
qed

end
